(* ===== verification/TB_Prelude.thy ===== *)
theory TB_Prelude
  imports Main "HOL-Library.Word" "HOL-Library.Sublist"
begin

text \<open>
  Shared vocabulary of the TrueBearing model: Go strings as byte strings, slices that may be nil,
  error values with the sentinels they wrap, the fragment of \<open>fmt\<close>, \<open>strings\<close> and \<open>strconv\<close>
  the program uses, 64-bit signed arithmetic, and the named theorem collections of the library.
\<close>

named_theorems engine_simps "unfolding rules for evaluators and the pipeline"
named_theorems store_simps "unfolding rules for store operations"
named_theorems contract_intros "introduction rules for the contracts the components share"

section \<open>Slices\<close>

text \<open>
  A Go slice or map may be nil (\<open>None\<close>) or allocated (\<open>Some\<close>). Every loop and every \<open>len\<close>
  treats nil as empty, which is \<open>elems\<close>; only JSON encoding tells the two apart.
\<close>

type_synonym 'a slice = "'a list option"

definition elems :: "'a slice \<Rightarrow> 'a list" where
  "elems s = (case s of None \<Rightarrow> [] | Some xs \<Rightarrow> xs)"

lemma elems_simps [simp]: "elems None = []" "elems (Some xs) = xs"
  by (simp_all add: elems_def)

definition non_nil :: "'a slice \<Rightarrow> 'a slice" where
  "non_nil s = (case s of None \<Rightarrow> Some [] | Some xs \<Rightarrow> Some xs)"

lemma elems_non_nil [simp]: "elems (non_nil s) = elems s"
  by (cases s) (simp_all add: non_nil_def)

lemma non_nil_idem [simp]: "non_nil (non_nil s) = non_nil s"
  by (cases s) (simp_all add: non_nil_def)

lemma non_nil_eq_Some: "non_nil s = Some (elems s)"
  by (cases s) (simp_all add: non_nil_def)

section \<open>Errors\<close>

text \<open>
  A Go error is its text (\<open>Error()\<close>) and the sentinel errors its \<open>%w\<close> chain holds, which is
  what \<open>errors.Is\<close> looks for.
\<close>

datatype sentinel = SqlErrNoRows | ErrParentAgentNotFound | ErrMissingAgentClaim

datatype gerr = GErr (err_text: string) (err_chain: "sentinel list")

definition errors_Is :: "gerr \<Rightarrow> sentinel \<Rightarrow> bool" where
  "errors_Is e s = (s \<in> set (err_chain e))"

definition errorf :: "string \<Rightarrow> gerr" where
  "errorf msg = GErr msg []"

text \<open>\<open>fmt.Errorf("<msg>: %w", e)\<close>.\<close>

definition wrapf :: "string \<Rightarrow> gerr \<Rightarrow> gerr" where
  "wrapf msg e = GErr (msg @ '': '' @ err_text e) (err_chain e)"

lemma errors_Is_wrapf [simp]: "errors_Is (wrapf m e) s = errors_Is e s"
  by (simp add: errors_Is_def wrapf_def)

lemma errors_Is_errorf [simp]: "\<not> errors_Is (errorf m) s"
  by (simp add: errors_Is_def errorf_def)

lemma errors_Is_GErr [simp]: "errors_Is (GErr m ss) s = (s \<in> set ss)"
  by (simp add: errors_Is_def)

section \<open>The strings package\<close>

text \<open>
  \<open>strings.HasPrefix\<close>, \<open>HasSuffix\<close> and \<open>Contains\<close> are the library's \<open>prefix\<close>, \<open>suffix\<close>
  and \<open>sublist\<close> on byte strings.
\<close>

definition trim_prefix :: "string \<Rightarrow> string \<Rightarrow> string" where
  "trim_prefix p s = (if prefix p s then drop (length p) s else s)"

definition trim_suffix :: "string \<Rightarrow> string \<Rightarrow> string" where
  "trim_suffix p s = (if suffix p s then take (length s - length p) s else s)"

fun join :: "string \<Rightarrow> string list \<Rightarrow> string" where
  "join sep [] = []"
| "join sep [x] = x"
| "join sep (x # y # ys) = x @ sep @ join sep (y # ys)"

lemma trim_prefix_append [simp]: "trim_prefix p (p @ s) = s"
  by (simp add: trim_prefix_def)

lemma trim_suffix_append [simp]: "trim_suffix p (s @ p) = s"
  by (simp add: trim_suffix_def suffix_def)

section \<open>Decimal and quoted formatting\<close>

definition digit :: "nat \<Rightarrow> char" where
  "digit n = char_of (48 + n)"

fun dec_nat :: "nat \<Rightarrow> string" where
  "dec_nat n = (if n < 10 then [digit n] else dec_nat (n div 10) @ [digit (n mod 10)])"

declare dec_nat.simps [simp del]

text \<open>\<open>%d\<close>.\<close>

definition dec :: "int \<Rightarrow> string" where
  "dec i = (if i < 0 then ''-'' @ dec_nat (nat (- i)) else dec_nat (nat i))"

definition hex_digit :: "nat \<Rightarrow> char" where
  "hex_digit n = (if n < 10 then char_of (48 + n) else char_of (87 + n))"

fun hex_fixed :: "nat \<Rightarrow> nat \<Rightarrow> string" where
  "hex_fixed 0 n = []"
| "hex_fixed (Suc k) n = hex_fixed k (n div 16) @ [hex_digit (n mod 16)]"

text \<open>
  \<open>utf8.DecodeRuneInString\<close>: the rune and its width; \<open>None\<close> for an invalid first byte
  (Go returns RuneError with width 1).
\<close>

definition cont_byte :: "nat \<Rightarrow> bool" where
  "cont_byte b = (128 \<le> b \<and> b \<le> 191)"

fun decode_rune :: "nat list \<Rightarrow> (nat \<times> nat) option" where
  "decode_rune [] = None"
| "decode_rune (b # bs) =
     (if b < 128 then Some (b, 1)
      else if 194 \<le> b \<and> b \<le> 223 then
        (case bs of c # _ \<Rightarrow> if cont_byte c then Some ((b - 192) * 64 + (c - 128), 2) else None
                  | _ \<Rightarrow> None)
      else if 224 \<le> b \<and> b \<le> 239 then
        (case bs of c # d # _ \<Rightarrow>
           if (if b = 224 then 160 \<le> c \<and> c \<le> 191 else if b = 237 then 128 \<le> c \<and> c \<le> 159 else cont_byte c)
              \<and> cont_byte d
           then Some ((b - 224) * 4096 + (c - 128) * 64 + (d - 128), 3) else None
         | _ \<Rightarrow> None)
      else if 240 \<le> b \<and> b \<le> 244 then
        (case bs of c # d # e # _ \<Rightarrow>
           if (if b = 240 then 144 \<le> c \<and> c \<le> 191 else if b = 244 then 128 \<le> c \<and> c \<le> 143 else cont_byte c)
              \<and> cont_byte d \<and> cont_byte e
           then Some ((b - 240) * 262144 + (c - 128) * 4096 + (d - 128) * 64 + (e - 128), 4) else None
         | _ \<Rightarrow> None)
      else None)"

text \<open>
  \<open>strconv.Quote\<close> (\<open>%q\<close>). \<open>is_print\<close> stands for \<open>unicode.IsPrint\<close> above ASCII, a table of
  the Go library.
\<close>

definition escape_rune :: "(nat \<Rightarrow> bool) \<Rightarrow> nat \<Rightarrow> string \<Rightarrow> string" where
  "escape_rune is_print r raw =
     (if r = 34 \<or> r = 92 then CHR 0x5C # raw
      else if (if r < 128 then 32 \<le> r \<and> r < 127 else is_print r) then raw
      else if r = 7 then [CHR 0x5C, CHR ''a'']
      else if r = 8 then [CHR 0x5C, CHR ''b'']
      else if r = 12 then [CHR 0x5C, CHR ''f'']
      else if r = 10 then [CHR 0x5C, CHR ''n'']
      else if r = 13 then [CHR 0x5C, CHR ''r'']
      else if r = 9 then [CHR 0x5C, CHR ''t'']
      else if r = 11 then [CHR 0x5C, CHR ''v'']
      else if r < 32 \<or> r = 127 then [CHR 0x5C, CHR ''x''] @ hex_fixed 2 r
      else if r < 65536 then [CHR 0x5C, CHR ''u''] @ hex_fixed 4 r
      else [CHR 0x5C, CHR ''U''] @ hex_fixed 8 r)"

function quote_body :: "(nat \<Rightarrow> bool) \<Rightarrow> string \<Rightarrow> string" where
  "quote_body is_print [] = []"
| "quote_body is_print (c # cs) =
     (case decode_rune (map of_char (c # cs)) of
        None \<Rightarrow> [CHR 0x5C, CHR ''x''] @ hex_fixed 2 (of_char c) @ quote_body is_print cs
      | Some (r, w) \<Rightarrow> escape_rune is_print r (take w (c # cs)) @ quote_body is_print (drop (w - 1) cs))"
  by pat_completeness auto
termination
  by (relation "measure (\<lambda>(p, s). length s)") auto

definition go_quote :: "(nat \<Rightarrow> bool) \<Rightarrow> string \<Rightarrow> string" where
  "go_quote is_print s = [CHR 0x22] @ quote_body is_print s @ [CHR 0x22]"

section \<open>64-bit signed arithmetic\<close>

text \<open>The value a Go int64 holds after an arithmetic operation with mathematical result \<open>x\<close>.\<close>

definition wrap64 :: "int \<Rightarrow> int" where
  "wrap64 x = sint (word_of_int x :: 64 word)"

lemma wrap64_alt: "wrap64 x = (x + 2 ^ 63) mod 2 ^ 64 - 2 ^ 63"
  by (simp add: wrap64_def sint_sbintrunc' signed_take_bit_eq_take_bit_shift take_bit_eq_mod)

lemma wrap64_id: "- (2 ^ 63) \<le> x \<Longrightarrow> x < 2 ^ 63 \<Longrightarrow> wrap64 x = x"
  by (simp add: wrap64_alt)

lemma wrap64_add_wrap64: "wrap64 (x + wrap64 y) = wrap64 (x + y)"
proof -
  have "(x + ((y + 2 ^ 63) mod 2 ^ 64 - 2 ^ 63) + 2 ^ 63) mod 2 ^ 64 = (x + y + 2 ^ 63) mod (2 ^ 64 :: int)"
    by (metis (no_types, opaque_lifting) add.assoc diff_add_cancel mod_add_right_eq)
  then show ?thesis by (simp only: wrap64_alt)
qed

lemma wrap64_mult_wrap64: "wrap64 (wrap64 x * y) = wrap64 (x * y)"
  by (simp add: wrap64_def flip: wi_hom_mult)

lemma wrap64_bounds: "- (2 ^ 63) \<le> wrap64 x" "wrap64 x < 2 ^ 63"
  by (simp_all add: wrap64_alt)

section \<open>Association lists as Go maps\<close>

lemma map_of_in_set: "map_of xs k = Some v \<Longrightarrow> (k, v) \<in> set xs"
  by (rule map_of_SomeD)

lemma list_all_find_None: "(\<forall>x \<in> set xs. \<not> P x) \<longleftrightarrow> find P xs = None"
  by (auto simp: find_None_iff)

lemma list_ex_set: "list_ex P xs \<longleftrightarrow> (\<exists>x \<in> set xs. P x)"
  by (induction xs) auto

end
