(* ===== verification/TB_Float.thy ===== *)
theory TB_Float
  imports Complex_Main TB_Prelude
begin

text \<open>
  Go's float64 as far as the program uses it: comparison, addition, conversion from an integer
  and fixed-point formatting. A finite value is its exact rational; the sign of zero is not
  kept, as no operation of the program depends on it.
\<close>

datatype float64 = F_NaN | F_PosInf | F_NegInf | Fin rat

section \<open>Comparison\<close>

text \<open>IEEE comparison: every comparison with NaN is false.\<close>

fun f_lt :: "float64 \<Rightarrow> float64 \<Rightarrow> bool" where
  "f_lt F_NaN _ = False"
| "f_lt _ F_NaN = False"
| "f_lt F_PosInf _ = False"
| "f_lt _ F_NegInf = False"
| "f_lt (Fin x) (Fin y) = (x < y)"
| "f_lt _ _ = True"

fun f_eq :: "float64 \<Rightarrow> float64 \<Rightarrow> bool" where
  "f_eq F_NaN _ = False"
| "f_eq _ F_NaN = False"
| "f_eq x y = (x = y)"

definition f_le :: "float64 \<Rightarrow> float64 \<Rightarrow> bool" where
  "f_le x y = (f_lt x y \<or> f_eq x y)"

abbreviation f_gt :: "float64 \<Rightarrow> float64 \<Rightarrow> bool" where "f_gt x y \<equiv> f_lt y x"
abbreviation f_ge :: "float64 \<Rightarrow> float64 \<Rightarrow> bool" where "f_ge x y \<equiv> f_le y x"

abbreviation f_zero :: float64 where "f_zero \<equiv> Fin 0"

lemma f_le_Fin [simp]: "f_le (Fin x) (Fin y) = (x \<le> y)"
  by (auto simp: f_le_def)

lemma f_eq_Fin [simp]: "f_eq (Fin x) (Fin y) = (x = y)"
  by simp

section \<open>Rounding to 53 bits, nearest even\<close>

definition round_even :: "rat \<Rightarrow> int" where
  "round_even x =
     (let f = \<lfloor>x\<rfloor>; d = x - of_int f
      in if d < 1 / 2 then f else if d > 1 / 2 then f + 1 else if even f then f else f + 1)"

definition pow2 :: "int \<Rightarrow> rat" where
  "pow2 e = (if 0 \<le> e then 2 ^ nat e else 1 / 2 ^ nat (- e))"

lemma pow2_code [code]: "pow2 e = (if 0 \<le> e then of_int (2 ^ nat e) else 1 / of_int (2 ^ nat (- e)))"
  by (simp add: pow2_def)

function bits :: "int \<Rightarrow> nat" where
  "bits n = (if n \<le> 0 then 0 else Suc (bits (n div 2)))"
  by pat_completeness auto
termination
  by (relation "measure nat") auto

declare bits.simps [simp del]

text \<open>The exponent \<open>e\<close> with \<open>2 ^ e \<le> x < 2 ^ (e + 1)\<close>, for \<open>0 < x\<close>.\<close>

definition binexp :: "rat \<Rightarrow> int" where
  "binexp x =
     (let (p, q) = quotient_of x; e = int (bits p) - int (bits q)
      in if pow2 e \<le> x then e else e - 1)"

definition round_pos :: "rat \<Rightarrow> float64" where
  "round_pos x =
     (let u = max (binexp x - 52) (- 1074); r = of_int (round_even (x / pow2 u)) * pow2 u
      in if pow2 1024 \<le> r then F_PosInf else Fin r)"

fun f_neg :: "float64 \<Rightarrow> float64" where
  "f_neg F_NaN = F_NaN"
| "f_neg F_PosInf = F_NegInf"
| "f_neg F_NegInf = F_PosInf"
| "f_neg (Fin x) = Fin (- x)"

definition round64 :: "rat \<Rightarrow> float64" where
  "round64 x = (if x = 0 then Fin 0 else if 0 < x then round_pos x else f_neg (round_pos (- x)))"

fun f_add :: "float64 \<Rightarrow> float64 \<Rightarrow> float64" where
  "f_add F_NaN _ = F_NaN"
| "f_add _ F_NaN = F_NaN"
| "f_add F_PosInf F_NegInf = F_NaN"
| "f_add F_NegInf F_PosInf = F_NaN"
| "f_add F_PosInf _ = F_PosInf"
| "f_add _ F_PosInf = F_PosInf"
| "f_add F_NegInf _ = F_NegInf"
| "f_add _ F_NegInf = F_NegInf"
| "f_add (Fin x) (Fin y) = round64 (x + y)"

text \<open>\<open>float64(n)\<close> of an integer.\<close>

definition f_of_int :: "int \<Rightarrow> float64" where
  "f_of_int n = round64 (of_int n)"

section \<open>Formatting\<close>

text \<open>\<open>%.<n>f\<close>: the exact value rounded half to even to \<open>n\<close> decimals.\<close>

definition pad_left :: "nat \<Rightarrow> char \<Rightarrow> string \<Rightarrow> string" where
  "pad_left n c s = replicate (n - length s) c @ s"

fun fmt_fixed :: "nat \<Rightarrow> float64 \<Rightarrow> string" where
  "fmt_fixed n F_NaN = ''NaN''"
| "fmt_fixed n F_PosInf = ''+Inf''"
| "fmt_fixed n F_NegInf = ''-Inf''"
| "fmt_fixed n (Fin x) =
     (let m = nat (round_even (\<bar>x\<bar> * 10 ^ n)); ds = pad_left (Suc n) (CHR ''0'') (dec_nat m);
          k = length ds - n
      in (if x < 0 then ''-'' else '''') @ take k ds @ (if n = 0 then '''' else ''.'' @ drop k ds))"

section \<open>Facts\<close>

lemma f_add_not_NegInf_nonneg: "f_gt (Fin x) f_zero = (0 < x)"
  by simp

lemma pow2_pos [simp]: "0 < pow2 e"
  by (simp add: pow2_def)

lemma round_even_int [simp]: "round_even (of_int n) = n"
  by (simp add: round_even_def)

lemma round_even_mono: "x \<le> y \<Longrightarrow> round_even x \<le> round_even y"
proof -
  assume le: "x \<le> y"
  then have "\<lfloor>x\<rfloor> \<le> \<lfloor>y\<rfloor>" by (rule floor_mono)
  then consider "\<lfloor>x\<rfloor> = \<lfloor>y\<rfloor>" | "\<lfloor>x\<rfloor> + 1 \<le> \<lfloor>y\<rfloor>" by linarith
  then show ?thesis
    using le by cases (auto simp: round_even_def Let_def)
qed

lemma round64_0 [simp]: "round64 0 = Fin 0"
  by (simp add: round64_def)

end
