(* ===== verification/TB_Policy.thy ===== *)
theory TB_Policy
  imports TB_Float "HOL-Library.List_Lexorder" "HOL-Library.Char_ord"
begin

text \<open>
  The policy model of \<open>internal/policy\<close>: the structs of \<open>types.go\<close>, the parser's validation and
  normalisation (\<open>parser.go\<close>) and the fingerprint (\<open>fingerprint.go\<close>). YAML decoding, SHA-256 and
  the rendering of a JSON value as text are fields of \<open>lib\<close>, the library environment every
  definition that needs one takes as its first argument.
\<close>

section \<open>JSON values and the library environment\<close>

datatype json = J_null | J_bool bool | J_num rat | J_str string | J_arr "json list"
  | J_obj "(string \<times> json) list"

section \<open>The policy structs\<close>

text \<open>
  A YAML scalar of unknown type (Go's \<open>interface{}\<close>): the types the code switches on, and any
  other value with its \<open>%v\<close> text and its JSON.
\<close>

datatype any = A_nil | A_bool bool | A_int int | A_int64 int | A_float32 float64 | A_float64 float64
  | A_string string | A_other string json

record PriorNRule =
  pn_Tool :: string
  pn_Count :: int

record SequencePolicy =
  sq_OnlyAfter :: "string slice"
  sq_NeverAfter :: "string slice"
  sq_RequiresPriorN :: "PriorNRule option"

record TaintPolicy =
  tt_Applies :: bool
  tt_Label :: string
  tt_Clears :: bool

record EscalateRule =
  er_ArgumentPath :: string
  er_Operator :: string
  er_Value :: any

record ContentPredicate =
  cp_Argument :: string
  cp_Operator :: string
  cp_Value :: string

record RateLimitPolicy =
  rl_MaxCalls :: int
  rl_WindowSeconds :: int

record ToolPolicy =
  tp_EnforcementMode :: string
  tp_Sequence :: SequencePolicy
  tp_Taint :: TaintPolicy
  tp_EscalateWhen :: "EscalateRule option"
  tp_NeverWhen :: "ContentPredicate slice"
  tp_NeverWhenMatch :: string
  tp_RateLimit :: "RateLimitPolicy option"

record SessionPolicy =
  sp_MaxHistory :: int
  sp_MaxDurationSeconds :: int
  sp_RequireEnv :: string

record BudgetPolicy =
  bp_MaxToolCalls :: int
  bp_MaxCostUSD :: float64

record EscalationConfig =
  ec_WebhookURL :: string

text \<open>
  \<open>p_Tools\<close> is a Go map: an association list in the order one iteration visits it. Go leaves
  that order open, so a statement for every list covers every iteration order.
\<close>

record Policy =
  p_Version :: string
  p_Agent :: string
  p_EnforcementMode :: string
  p_Session :: SessionPolicy
  p_Budget :: BudgetPolicy
  p_MayUse :: "string slice"
  p_Tools :: "(string \<times> ToolPolicy) slice"
  p_Escalation :: "EscalationConfig option"
  p_Fingerprint :: string
  p_SourcePath :: string

definition EnforcementShadow :: string where "EnforcementShadow = ''shadow''"
definition EnforcementBlock :: string where "EnforcementBlock = ''block''"
definition ContentMatchAny :: string where "ContentMatchAny = ''any''"
definition ContentMatchAll :: string where "ContentMatchAll = ''all''"

lemmas mode_defs = EnforcementShadow_def EnforcementBlock_def ContentMatchAny_def ContentMatchAll_def

text \<open>\<open>pol.Tools[name]\<close> and \<open>range pol.MayUse\<close>.\<close>

definition tools :: "Policy \<Rightarrow> (string \<times> ToolPolicy) list" where
  "tools p = elems (p_Tools p)"

definition tool_policy :: "Policy \<Rightarrow> string \<Rightarrow> ToolPolicy option" where
  "tool_policy p name = map_of (tools p) name"

definition may_use :: "Policy \<Rightarrow> string list" where
  "may_use p = elems (p_MayUse p)"

text \<open>A Go map holds each key once.\<close>

definition wf_policy :: "Policy \<Rightarrow> bool" where
  "wf_policy p = distinct (map fst (tools p))"

definition ShortFingerprint :: "Policy \<Rightarrow> string" where
  "ShortFingerprint p =
     (if length (p_Fingerprint p) < 8 then p_Fingerprint p else take 8 (p_Fingerprint p))"

section \<open>The library environment\<close>

text \<open>
  Code outside the repository, and the parts of Go's library that are tables or cryptography:
  \<open>gjson.GetBytes\<close> (third party), \<open>yaml.Unmarshal\<close> into a \<open>Policy\<close> (third party),
  \<open>regexp.Compile\<close>, SHA-256 in hexadecimal, the text of a JSON value, \<open>unicode.IsPrint\<close> above
  ASCII and the shortest decimal text of a float (\<open>%v\<close>).
\<close>

record gres =
  g_String :: string
  g_Float :: float64

record lib =
  l_gjson :: "string \<Rightarrow> string \<Rightarrow> gres option"
  l_yaml :: "string \<Rightarrow> gerr + Policy"
  l_regexp :: "string \<Rightarrow> string + (string \<Rightarrow> bool)"
  l_sha256_hex :: "string \<Rightarrow> string"
  l_json_text :: "json \<Rightarrow> string"
  l_is_print :: "nat \<Rightarrow> bool"
  l_fmt_float :: "float64 \<Rightarrow> string"

abbreviation qt :: "lib \<Rightarrow> string \<Rightarrow> string" where
  "qt L s \<equiv> go_quote (l_is_print L) s"

text \<open>\<open>fmt.Sprintf("%v", v)\<close> of an \<open>interface{}\<close>.\<close>

fun fmt_any :: "lib \<Rightarrow> any \<Rightarrow> string" where
  "fmt_any L A_nil = ''<nil>''"
| "fmt_any L (A_bool b) = (if b then ''true'' else ''false'')"
| "fmt_any L (A_int i) = dec i"
| "fmt_any L (A_int64 i) = dec i"
| "fmt_any L (A_float32 f) = l_fmt_float L f"
| "fmt_any L (A_float64 f) = l_fmt_float L f"
| "fmt_any L (A_string s) = s"
| "fmt_any L (A_other t j) = t"

section \<open>Validation and normalisation (parser.go)\<close>

definition validate :: "Policy \<Rightarrow> string \<Rightarrow> gerr option" where
  "validate p sourcePath =
     (if p_Version p = '''' then
        Some (errorf (''policy from '' @ sourcePath @ '' is missing required field: version''))
      else if p_Agent p = '''' then
        Some (errorf (''policy from '' @ sourcePath @ '' is missing required field: agent''))
      else None)"

definition normalize_tool :: "ToolPolicy \<Rightarrow> ToolPolicy" where
  "normalize_tool tp =
     tp\<lparr>tp_Sequence := (tp_Sequence tp)\<lparr>sq_OnlyAfter := non_nil (sq_OnlyAfter (tp_Sequence tp)),
                                       sq_NeverAfter := non_nil (sq_NeverAfter (tp_Sequence tp))\<rparr>\<rparr>"

definition normalize :: "Policy \<Rightarrow> Policy" where
  "normalize p =
     p\<lparr>p_MayUse := non_nil (p_MayUse p),
       p_Tools := Some (map (\<lambda>(name, tp). (name, normalize_tool tp)) (elems (p_Tools p)))\<rparr>"

section \<open>The canonical JSON of a policy\<close>

text \<open>
  \<open>json.Marshal\<close> of the policy: struct fields in declaration order under their tags, map keys
  sorted, \<open>omitempty\<close> fields left out when empty, nil slices and pointers as null. A NaN or an
  infinity is an error (\<open>Inl\<close>).
\<close>

fun json_float :: "float64 \<Rightarrow> string + json" where
  "json_float (Fin x) = Inr (J_num x)"
| "json_float F_NaN = Inl ''json: unsupported value: NaN''"
| "json_float F_PosInf = Inl ''json: unsupported value: +Inf''"
| "json_float F_NegInf = Inl ''json: unsupported value: -Inf''"

fun json_any :: "any \<Rightarrow> string + json" where
  "json_any A_nil = Inr J_null"
| "json_any (A_bool b) = Inr (J_bool b)"
| "json_any (A_int i) = Inr (J_num (of_int i))"
| "json_any (A_int64 i) = Inr (J_num (of_int i))"
| "json_any (A_float32 f) = json_float f"
| "json_any (A_float64 f) = json_float f"
| "json_any (A_string s) = Inr (J_str s)"
| "json_any (A_other t j) = Inr j"

definition json_slice :: "('a \<Rightarrow> json) \<Rightarrow> 'a slice \<Rightarrow> json" where
  "json_slice f s = (case s of None \<Rightarrow> J_null | Some xs \<Rightarrow> J_arr (map f xs))"

definition json_int :: "int \<Rightarrow> json" where
  "json_int i = J_num (of_int i)"

definition json_prior_n :: "PriorNRule \<Rightarrow> json" where
  "json_prior_n r = J_obj [(''tool'', J_str (pn_Tool r)), (''count'', json_int (pn_Count r))]"

definition json_sequence :: "SequencePolicy \<Rightarrow> json" where
  "json_sequence s =
     J_obj [(''only_after'', json_slice J_str (sq_OnlyAfter s)),
            (''never_after'', json_slice J_str (sq_NeverAfter s)),
            (''requires_prior_n'',
              case sq_RequiresPriorN s of None \<Rightarrow> J_null | Some r \<Rightarrow> json_prior_n r)]"

definition json_taint :: "TaintPolicy \<Rightarrow> json" where
  "json_taint t = J_obj [(''applies'', J_bool (tt_Applies t)), (''label'', J_str (tt_Label t)),
                         (''clears'', J_bool (tt_Clears t))]"

definition json_escalate :: "EscalateRule option \<Rightarrow> string + json" where
  "json_escalate r =
     (case r of
        None \<Rightarrow> Inr J_null
      | Some r \<Rightarrow>
          (case json_any (er_Value r) of
             Inl e \<Rightarrow> Inl e
           | Inr v \<Rightarrow> Inr (J_obj [(''argument_path'', J_str (er_ArgumentPath r)),
                                    (''operator'', J_str (er_Operator r)), (''value'', v)])))"

definition json_predicate :: "ContentPredicate \<Rightarrow> json" where
  "json_predicate c = J_obj [(''argument'', J_str (cp_Argument c)), (''operator'', J_str (cp_Operator c)),
                             (''value'', J_str (cp_Value c))]"

definition json_rate_limit :: "RateLimitPolicy \<Rightarrow> json" where
  "json_rate_limit r = J_obj [(''max_calls'', json_int (rl_MaxCalls r)),
                              (''window_seconds'', json_int (rl_WindowSeconds r))]"

definition json_tool :: "ToolPolicy \<Rightarrow> string + json" where
  "json_tool t =
     (case json_escalate (tp_EscalateWhen t) of
        Inl err \<Rightarrow> Inl err
      | Inr e \<Rightarrow> Inr (J_obj
          ([(''enforcement_mode'', J_str (tp_EnforcementMode t)),
            (''sequence'', json_sequence (tp_Sequence t)),
            (''taint'', json_taint (tp_Taint t)),
            (''escalate_when'', e),
            (''never_when'', json_slice json_predicate (tp_NeverWhen t))]
           @ (if tp_NeverWhenMatch t = '''' then []
              else [(''never_when_match'', J_str (tp_NeverWhenMatch t))])
           @ (case tp_RateLimit t of None \<Rightarrow> [] | Some r \<Rightarrow> [(''rate_limit'', json_rate_limit r)]))))"

fun json_tools :: "(string \<times> ToolPolicy) list \<Rightarrow> string + (string \<times> json) list" where
  "json_tools [] = Inr []"
| "json_tools ((name, t) # ts) =
     (case json_tool t of
        Inl e \<Rightarrow> Inl e
      | Inr j \<Rightarrow> (case json_tools ts of Inl e \<Rightarrow> Inl e | Inr js \<Rightarrow> Inr ((name, j) # js)))"

definition json_session :: "SessionPolicy \<Rightarrow> json" where
  "json_session s =
     J_obj ([(''max_history'', json_int (sp_MaxHistory s)),
             (''max_duration_seconds'', json_int (sp_MaxDurationSeconds s))]
            @ (if sp_RequireEnv s = '''' then [] else [(''require_env'', J_str (sp_RequireEnv s))]))"

definition json_budget :: "BudgetPolicy \<Rightarrow> string + json" where
  "json_budget b =
     (case json_float (bp_MaxCostUSD b) of
        Inl e \<Rightarrow> Inl e
      | Inr c \<Rightarrow> Inr (J_obj [(''max_tool_calls'', json_int (bp_MaxToolCalls b)), (''max_cost_usd'', c)]))"

definition json_policy :: "Policy \<Rightarrow> string + json" where
  "json_policy p =
     (case json_budget (p_Budget p) of
        Inl e \<Rightarrow> Inl e
      | Inr b \<Rightarrow>
          (case (case p_Tools p of
                   None \<Rightarrow> Inr J_null
                 | Some ts \<Rightarrow> map_sum id J_obj (json_tools (sort_key fst ts))) of
             Inl e \<Rightarrow> Inl e
           | Inr ts \<Rightarrow> Inr (J_obj
               ([(''version'', J_str (p_Version p)),
                 (''agent'', J_str (p_Agent p)),
                 (''enforcement_mode'', J_str (p_EnforcementMode p)),
                 (''session'', json_session (p_Session p)),
                 (''budget'', b),
                 (''may_use'', json_slice J_str (p_MayUse p)),
                 (''tools'', ts)]
                @ (case p_Escalation p of
                     None \<Rightarrow> []
                   | Some e \<Rightarrow> [(''escalation'', J_obj [(''webhook_url'', J_str (ec_WebhookURL e))])])))))"

section \<open>Fingerprint and parsing\<close>

definition Fingerprint :: "lib \<Rightarrow> Policy \<Rightarrow> gerr + Policy" where
  "Fingerprint L p =
     (case json_policy p of
        Inl e \<Rightarrow> Inl (wrapf ''marshalling policy for fingerprinting'' (errorf e))
      | Inr j \<Rightarrow> Inr (p\<lparr>p_Fingerprint := l_sha256_hex L (l_json_text L j)\<rparr>))"

definition ParseBytes :: "lib \<Rightarrow> string \<Rightarrow> string \<Rightarrow> gerr + Policy" where
  "ParseBytes L data sourcePath =
     (case l_yaml L data of
        Inl e \<Rightarrow> Inl (wrapf (''parsing policy YAML from '' @ sourcePath) e)
      | Inr p \<Rightarrow>
          (case validate p sourcePath of
             Some e \<Rightarrow> Inl e
           | None \<Rightarrow>
               (case Fingerprint L (normalize p) of
                  Inl e \<Rightarrow> Inl (wrapf (''computing fingerprint for '' @ sourcePath) e)
                | Inr p' \<Rightarrow> Inr (p'\<lparr>p_SourcePath := sourcePath\<rparr>))))"

text \<open>\<open>fs\<close> is \<open>os.ReadFile\<close>.\<close>

definition ParseFile :: "lib \<Rightarrow> (string \<Rightarrow> gerr + string) \<Rightarrow> string \<Rightarrow> gerr + Policy" where
  "ParseFile L fs path =
     (case fs path of
        Inl e \<Rightarrow> Inl (wrapf (''reading policy file '' @ path) e)
      | Inr data \<Rightarrow> ParseBytes L data path)"

section \<open>Facts about the structs\<close>

lemma tool_policy_in_tools: "tool_policy p n = Some t \<Longrightarrow> (n, t) \<in> set (tools p)"
  by (simp add: tool_policy_def map_of_SomeD)

lemma tool_policy_eq_Some: "wf_policy p \<Longrightarrow> (tool_policy p n = Some t) = ((n, t) \<in> set (tools p))"
  by (simp add: tool_policy_def wf_policy_def)

lemma map_of_map_snd: "map_of (map (\<lambda>(n, t). (n, f t)) ts) n = map_option f (map_of ts n)"
  by (induction ts) auto

lemma normalize_tools: "tools (normalize p) = map (\<lambda>(n, t). (n, normalize_tool t)) (tools p)"
  by (simp add: tools_def normalize_def)

lemma tool_policy_normalize: "tool_policy (normalize p) n = map_option normalize_tool (tool_policy p n)"
  by (simp add: tool_policy_def normalize_tools map_of_map_snd)

lemma may_use_normalize [simp]: "may_use (normalize p) = may_use p"
  by (simp add: may_use_def normalize_def)

lemma normalize_tool_simps [simp]:
  "elems (sq_OnlyAfter (tp_Sequence (normalize_tool t))) = elems (sq_OnlyAfter (tp_Sequence t))"
  "elems (sq_NeverAfter (tp_Sequence (normalize_tool t))) = elems (sq_NeverAfter (tp_Sequence t))"
  "sq_RequiresPriorN (tp_Sequence (normalize_tool t)) = sq_RequiresPriorN (tp_Sequence t)"
  "tp_Taint (normalize_tool t) = tp_Taint t"
  "tp_EscalateWhen (normalize_tool t) = tp_EscalateWhen t"
  "tp_NeverWhen (normalize_tool t) = tp_NeverWhen t"
  "tp_NeverWhenMatch (normalize_tool t) = tp_NeverWhenMatch t"
  "tp_RateLimit (normalize_tool t) = tp_RateLimit t"
  "tp_EnforcementMode (normalize_tool t) = tp_EnforcementMode t"
  by (simp_all add: normalize_tool_def)

lemma normalize_tool_idem [simp]: "normalize_tool (normalize_tool t) = normalize_tool t"
  by (simp add: normalize_tool_def)

lemma normalize_idem: "normalize (normalize p) = normalize p"
  by (simp add: normalize_def comp_def case_prod_unfold)

lemma normalize_derived [simp]:
  "normalize (p\<lparr>p_SourcePath := x\<rparr>) = (normalize p)\<lparr>p_SourcePath := x\<rparr>"
  "normalize (p\<lparr>p_Fingerprint := x\<rparr>) = (normalize p)\<lparr>p_Fingerprint := x\<rparr>"
  by (simp_all add: normalize_def)

lemma validate_None: "validate p s = None \<longleftrightarrow> p_Version p \<noteq> [] \<and> p_Agent p \<noteq> []"
  by (simp add: validate_def)

section \<open>Injectivity of the canonical JSON\<close>

text \<open>
  Two policies are equivalent when they agree on everything the engine reads: every field of
  every tool, escalation thresholds up to the JSON they encode to.
\<close>

definition escalate_equiv :: "EscalateRule option \<Rightarrow> EscalateRule option \<Rightarrow> bool" where
  "escalate_equiv a b =
     (case (a, b) of
        (None, None) \<Rightarrow> True
      | (Some x, Some y) \<Rightarrow> er_ArgumentPath x = er_ArgumentPath y \<and> er_Operator x = er_Operator y
                           \<and> json_any (er_Value x) = json_any (er_Value y)
      | _ \<Rightarrow> False)"

definition tool_equiv :: "ToolPolicy \<Rightarrow> ToolPolicy \<Rightarrow> bool" where
  "tool_equiv t u =
     (tp_EnforcementMode t = tp_EnforcementMode u \<and> tp_Sequence t = tp_Sequence u
      \<and> tp_Taint t = tp_Taint u \<and> escalate_equiv (tp_EscalateWhen t) (tp_EscalateWhen u)
      \<and> tp_NeverWhen t = tp_NeverWhen u \<and> tp_NeverWhenMatch t = tp_NeverWhenMatch u
      \<and> tp_RateLimit t = tp_RateLimit u)"

definition policy_equiv :: "Policy \<Rightarrow> Policy \<Rightarrow> bool" where
  "policy_equiv p q =
     (p_Version p = p_Version q \<and> p_Agent p = p_Agent q \<and> p_EnforcementMode p = p_EnforcementMode q
      \<and> p_Session p = p_Session q \<and> p_Budget p = p_Budget q \<and> may_use p = may_use q
      \<and> p_Escalation p = p_Escalation q
      \<and> (\<forall>n. rel_option tool_equiv (tool_policy p n) (tool_policy q n)))"

lemma json_slice_inj: "inj f \<Longrightarrow> json_slice f s = json_slice f t \<longleftrightarrow> s = t"
  by (auto simp: json_slice_def split: option.splits)

lemma inj_J_str [simp]: "inj J_str"
  by (simp add: inj_def)

lemma inj_json_predicate [simp]: "inj json_predicate"
  by (auto simp: inj_def json_predicate_def)

lemma json_prior_n_inj [simp]: "json_prior_n r = json_prior_n s \<longleftrightarrow> r = s"
  by (auto simp: json_prior_n_def json_int_def)

lemma json_sequence_inj [simp]: "json_sequence s = json_sequence t \<longleftrightarrow> s = t"
  by (cases s; cases t)
    (auto simp: json_sequence_def json_slice_inj json_prior_n_def json_int_def split: option.splits)

lemma json_taint_inj [simp]: "json_taint s = json_taint t \<longleftrightarrow> s = t"
  by (auto simp: json_taint_def)

lemma json_rate_limit_inj [simp]: "json_rate_limit s = json_rate_limit t \<longleftrightarrow> s = t"
  by (auto simp: json_rate_limit_def json_int_def)

lemma json_session_inj [simp]: "json_session s = json_session t \<longleftrightarrow> s = t"
  by (cases s; cases t) (auto simp: json_session_def json_int_def split: if_splits)

lemma json_float_inj: "json_float x = Inr j \<Longrightarrow> json_float y = Inr j \<Longrightarrow> x = y"
  by (cases x; cases y) auto

lemma json_budget_inj: "json_budget b = Inr j \<Longrightarrow> json_budget c = Inr j \<Longrightarrow> b = c"
  by (cases b; cases c) (auto simp: json_budget_def json_int_def split: sum.splits dest: json_float_inj)

lemma json_escalate_inj: "json_escalate a = Inr j \<Longrightarrow> json_escalate b = Inr j \<Longrightarrow> escalate_equiv a b"
  by (auto simp: json_escalate_def escalate_equiv_def split: option.splits sum.splits)

lemma json_tool_inj: "json_tool t = Inr j \<Longrightarrow> json_tool u = Inr j \<Longrightarrow> tool_equiv t u"
  by (auto simp: json_tool_def tool_equiv_def json_slice_inj dest: json_escalate_inj
      split: sum.splits option.splits if_splits)

lemma json_tools_map_of:
  "json_tools ts = Inr js \<Longrightarrow> json_tools us = Inr js \<Longrightarrow>
   rel_option tool_equiv (map_of ts n) (map_of us n)"
proof (induction ts arbitrary: us js)
  case Nil
  then show ?case by (cases us) (auto split: sum.splits)
next
  case (Cons t ts)
  obtain m a where t: "t = (m, a)" by (cases t)
  from Cons.prems t obtain j js' where j: "json_tool a = Inr j" "json_tools ts = Inr js'" "js = (m, j) # js'"
    by (auto split: sum.splits)
  with Cons.prems(2) obtain b us' where u: "us = (m, b) # us'" "json_tool b = Inr j" "json_tools us' = Inr js'"
    by (cases us) (auto split: sum.splits)
  with j t Cons.IH [of js' us'] show ?case by (auto dest: json_tool_inj)
qed

lemma distinct_map_fst_sort_key [simp]: "distinct (map fst (sort_key fst ts)) = distinct (map fst ts)"
  by (simp add: distinct_map)

lemma map_of_sort_key: "distinct (map fst ts) \<Longrightarrow> map_of (sort_key fst ts) = map_of ts"
  by (simp add: map_of_inject_set)

lemma sort_key_fst_perm:
  assumes "distinct (map fst ts)" "distinct (map fst us)" "set ts = set us"
  shows "sort_key fst ts = sort_key fst us"
proof (rule map_sorted_distinct_set_unique)
  show "inj_on fst (set (sort_key fst ts) \<union> set (sort_key fst us))"
    using assms by (simp add: distinct_map)
qed (use assms in simp_all)

lemma map_sum_id_eq_Inr: "map_sum id g x = Inr y \<longleftrightarrow> (\<exists>z. x = Inr z \<and> y = g z)"
  by (cases x) auto

lemma json_policy_inj:
  assumes p: "json_policy p = Inr j" and q: "json_policy q = Inr j"
    and wf: "wf_policy p" "wf_policy q"
  shows "policy_equiv p q"
proof -
  have d: "distinct (map fst (elems (p_Tools p)))" "distinct (map fst (elems (p_Tools q)))"
    using wf by (simp_all add: wf_policy_def tools_def)
  have t: "rel_option tool_equiv (tool_policy p n) (tool_policy q n)" for n
  proof (cases "p_Tools p")
    case None
    with p q show ?thesis
      by (cases "p_Tools q")
        (auto simp: json_policy_def tool_policy_def tools_def map_sum_id_eq_Inr split: sum.splits option.splits)
  next
    case (Some ts)
    with p q obtain us where us: "p_Tools q = Some us"
      by (cases "p_Tools q") (auto simp: json_policy_def map_sum_id_eq_Inr split: sum.splits option.splits)
    from p q Some us obtain js where js: "json_tools (sort_key fst ts) = Inr js" "json_tools (sort_key fst us) = Inr js"
      by (auto simp: json_policy_def map_sum_id_eq_Inr split: sum.splits)
    from json_tools_map_of [OF this, of n] d Some us show ?thesis
      by (simp add: tool_policy_def tools_def map_of_sort_key)
  qed
  have e: "p_Escalation p = p_Escalation q" "p_Version p = p_Version q" "p_Agent p = p_Agent q"
    "p_EnforcementMode p = p_EnforcementMode q" "p_Session p = p_Session q" "p_MayUse p = p_MayUse q"
    using p q by (auto simp: json_policy_def json_slice_inj split: sum.splits option.splits)
  have b: "p_Budget p = p_Budget q"
    using p q by (auto simp: json_policy_def split: sum.splits intro: json_budget_inj)
  from t e b show ?thesis by (simp add: policy_equiv_def may_use_def)
qed

lemma json_policy_cong:
  assumes "p_Tools p = Some ts" "p_Tools q = Some us" "set ts = set us"
    "distinct (map fst ts)" "distinct (map fst us)"
    "p_Version p = p_Version q" "p_Agent p = p_Agent q" "p_EnforcementMode p = p_EnforcementMode q"
    "p_Session p = p_Session q" "p_Budget p = p_Budget q" "p_MayUse p = p_MayUse q"
    "p_Escalation p = p_Escalation q"
  shows "json_policy p = json_policy q"
  using assms sort_key_fst_perm [of ts us]
  by (simp add: json_policy_def cong: sum.case_cong option.case_cong)

lemma json_policy_ignores_derived [simp]:
  "json_policy (p\<lparr>p_SourcePath := x\<rparr>) = json_policy p"
  "json_policy (p\<lparr>p_Fingerprint := x\<rparr>) = json_policy p"
  by (simp_all add: json_policy_def cong: sum.case_cong option.case_cong)

lemma policy_views_ignore_derived [simp]:
  "tools (p\<lparr>p_SourcePath := x\<rparr>) = tools p" "tools (p\<lparr>p_Fingerprint := x\<rparr>) = tools p"
  "tool_policy (p\<lparr>p_SourcePath := x\<rparr>) n = tool_policy p n"
  "tool_policy (p\<lparr>p_Fingerprint := x\<rparr>) n = tool_policy p n"
  "may_use (p\<lparr>p_SourcePath := x\<rparr>) = may_use p" "may_use (p\<lparr>p_Fingerprint := x\<rparr>) = may_use p"
  by (simp_all add: tools_def tool_policy_def may_use_def)

lemma wf_policy_derived [simp]:
  "wf_policy (p\<lparr>p_SourcePath := x\<rparr>) = wf_policy p" "wf_policy (p\<lparr>p_Fingerprint := x\<rparr>) = wf_policy p"
  "wf_policy (normalize p) = wf_policy p"
  by (simp_all add: wf_policy_def normalize_tools comp_def case_prod_unfold)

text \<open>What a successful parse went through, and what it returns.\<close>

lemma ParseBytes_Inr:
  assumes "ParseBytes L data sp = Inr p"
  obtains y j where "l_yaml L data = Inr y" "p_Version y \<noteq> []" "p_Agent y \<noteq> []"
    "json_policy (normalize y) = Inr j"
    "p = (normalize y)\<lparr>p_Fingerprint := l_sha256_hex L (l_json_text L j), p_SourcePath := sp\<rparr>"
  using assms
  by (auto simp: ParseBytes_def Fingerprint_def validate_def split: sum.splits option.splits if_splits)

lemma ParseBytes_fingerprint:
  "ParseBytes L data sp = Inr p \<Longrightarrow> \<exists>j. json_policy p = Inr j \<and> p_Fingerprint p = l_sha256_hex L (l_json_text L j)"
  by (auto elim!: ParseBytes_Inr)

section \<open>A sample environment\<close>

text \<open>
  A concrete library environment for the witnesses: arguments hold one field \<open>amount\<close> whose text
  is the whole payload, patterns match as substrings, hashes and texts are the identity on a tag.
\<close>

definition sample_policy :: Policy where
  "sample_policy =
     \<lparr>p_Version = ''1'', p_Agent = ''pay'', p_EnforcementMode = ''block'',
      p_Session = \<lparr>sp_MaxHistory = 0, sp_MaxDurationSeconds = 0, sp_RequireEnv = []\<rparr>,
      p_Budget = \<lparr>bp_MaxToolCalls = 2, bp_MaxCostUSD = Fin 0\<rparr>,
      p_MayUse = Some [''read'', ''wire''], p_Tools = None, p_Escalation = None,
      p_Fingerprint = [], p_SourcePath = []\<rparr>"

definition sample_tool :: ToolPolicy where
  "sample_tool =
     \<lparr>tp_EnforcementMode = [],
      tp_Sequence = \<lparr>sq_OnlyAfter = None, sq_NeverAfter = None, sq_RequiresPriorN = None\<rparr>,
      tp_Taint = \<lparr>tt_Applies = False, tt_Label = [], tt_Clears = False\<rparr>,
      tp_EscalateWhen = None, tp_NeverWhen = None, tp_NeverWhenMatch = [], tp_RateLimit = None\<rparr>"

definition sample_wire :: ToolPolicy where
  "sample_wire = sample_tool\<lparr>tp_Sequence :=
     \<lparr>sq_OnlyAfter = Some [''read''], sq_NeverAfter = None, sq_RequiresPriorN = None\<rparr>\<rparr>"

text \<open>The YAML texts \<open>A\<close> and \<open>B\<close> hold the same policy with its tools in two orders.\<close>

definition sample_lib :: lib where
  "sample_lib =
     \<lparr>l_gjson = (\<lambda>args path. if path = ''amount'' \<and> args \<noteq> [] then Some \<lparr>g_String = args,
                    g_Float = (if args = ''900'' then Fin 900 else Fin 5)\<rparr> else None),
      l_yaml = (\<lambda>data. if data = ''A'' then Inr (sample_policy\<lparr>p_Tools := Some [(''read'', sample_tool), (''wire'', sample_wire)]\<rparr>)
                       else if data = ''B'' then Inr (sample_policy\<lparr>p_Tools := Some [(''wire'', sample_wire), (''read'', sample_tool)]\<rparr>)
                       else Inl (errorf ''yaml'')),
      l_regexp = (\<lambda>pat. if pat = ''('' then Inl ''missing closing )'' else Inr (\<lambda>s. sublist pat s)),
      l_sha256_hex = (\<lambda>s. CHR ''h'' # s),
      l_json_text = (\<lambda>j. case j of J_str s \<Rightarrow> s | _ \<Rightarrow> ''json''),
      l_is_print = (\<lambda>_. True),
      l_fmt_float = fmt_fixed 2\<rparr>"

definition sample_parsed :: "string \<Rightarrow> (string \<times> ToolPolicy) list \<Rightarrow> Policy" where
  "sample_parsed sp ts =
     (normalize (sample_policy\<lparr>p_Tools := Some ts\<rparr>))\<lparr>p_Fingerprint := ''hjson'', p_SourcePath := sp\<rparr>"

section \<open>Properties\<close>

text \<open>The fingerprint of a policy does not depend on the order in which its tools map is
  iterated nor on where it was loaded from: two policies that differ only there have the same
  fingerprint (or fail with the same error).\<close>

theorem fingerprint_order_independent:
  assumes "p_Tools p = Some ts" "set us = set ts" "distinct (map fst ts)" "distinct (map fst us)"
  shows "map_sum id p_Fingerprint (Fingerprint L (p\<lparr>p_Tools := Some us, p_SourcePath := sp\<rparr>))
       = map_sum id p_Fingerprint (Fingerprint L p)"
proof -
  have "json_policy (p\<lparr>p_Tools := Some us, p_SourcePath := sp\<rparr>) = json_policy p"
    by (rule json_policy_cong [where ts = us and us = ts]) (use assms in simp_all)
  then show ?thesis by (simp add: Fingerprint_def split: sum.splits)
qed

theorem fingerprint_order_independent_witness:
  "map_sum id p_Fingerprint (Fingerprint sample_lib
      ((sample_policy\<lparr>p_Tools := Some [(''read'', sample_tool), (''wire'', sample_wire)]\<rparr>)
         \<lparr>p_Tools := Some [(''wire'', sample_wire), (''read'', sample_tool)], p_SourcePath := ''b.yaml''\<rparr>))
   = map_sum id p_Fingerprint (Fingerprint sample_lib
      (sample_policy\<lparr>p_Tools := Some [(''read'', sample_tool), (''wire'', sample_wire)]\<rparr>))"
  by (rule fingerprint_order_independent [where ts = "[(''read'', sample_tool), (''wire'', sample_wire)]"]) auto



text \<open>Parsing yields a normalised policy: version and agent are present, no slice the parser
  normalises is nil, normalising again changes nothing, every tool keeps its predicates, and the
  stored fingerprint is the hash of the policy's own canonical JSON.\<close>

theorem ParseBytes_normalised:
  assumes "ParseBytes L data sp = Inr p"
  shows "p_Version p \<noteq> [] \<and> p_Agent p \<noteq> [] \<and> p_SourcePath p = sp \<and> normalize p = p
    \<and> (\<exists>j. json_policy p = Inr j \<and> p_Fingerprint p = l_sha256_hex L (l_json_text L j))
    \<and> (\<exists>y. l_yaml L data = Inr y \<and> may_use p = may_use y
          \<and> (\<forall>n. tool_policy p n = map_option normalize_tool (tool_policy y n)))"
  using assms
proof (rule ParseBytes_Inr)
  fix y j
  assume y: "l_yaml L data = Inr y" "p_Version y \<noteq> []" "p_Agent y \<noteq> []" "json_policy (normalize y) = Inr j"
    and p: "p = (normalize y)\<lparr>p_Fingerprint := l_sha256_hex L (l_json_text L j), p_SourcePath := sp\<rparr>"
  have "normalize p = p"
    using p by (simp add: normalize_idem)
  moreover have "p_Version p = p_Version y" "p_Agent p = p_Agent y"
    using p by (simp_all add: normalize_def)
  ultimately show ?thesis
    using y p by (auto simp: tool_policy_normalize)
qed

theorem ParseBytes_normalised_witness:
  "normalize (sample_parsed ''a'' [(''read'', sample_tool), (''wire'', sample_wire)])
   = sample_parsed ''a'' [(''read'', sample_tool), (''wire'', sample_wire)]" (is "_ = ?p")
proof -
  have "ParseBytes sample_lib ''A'' ''a'' = Inr ?p" by code_simp
  from ParseBytes_normalised [OF this] show ?thesis by blast
qed

text \<open>The fingerprint does tell an omitted \<open>never_when\<close> from an empty one, although no
  evaluator does: normalisation covers only the sequence slices.\<close>

theorem never_when_nil_changes_json:
  assumes "json_escalate (tp_EscalateWhen t) = Inr e"
  shows "json_tool (normalize_tool (t\<lparr>tp_NeverWhen := None\<rparr>))
    \<noteq> json_tool (normalize_tool (t\<lparr>tp_NeverWhen := Some []\<rparr>))"
  using assms by (simp add: json_tool_def normalize_tool_def json_slice_def)

theorem never_when_nil_changes_json_witness:
  "json_tool (normalize_tool (sample_tool\<lparr>tp_NeverWhen := None\<rparr>))
    \<noteq> json_tool (normalize_tool (sample_tool\<lparr>tp_NeverWhen := Some []\<rparr>))"
  by (rule never_when_nil_changes_json [where e = J_null]) (simp add: sample_tool_def json_escalate_def)

end
