(* ===== verification/TB_Engine.thy ===== *)
theory TB_Engine
  imports TB_Policy
begin

text \<open>
  The vocabulary of \<open>internal/engine\<close>: actions, decisions, tool calls, the session snapshot, the
  read-only \<open>QueryBackend\<close> interface, and the two contracts the pipeline rests on: what a backend
  promises an evaluator (locales \<open>query_backend\<close> and \<open>total_backend\<close>) and what an evaluator
  promises the pipeline (locale \<open>evaluator\<close>).
\<close>

section \<open>Actions and decisions (types.go)\<close>

datatype Action = Allow | Deny | Escalate | ShadowDeny

fun action_str :: "Action \<Rightarrow> string" where
  "action_str Allow = ''allow''"
| "action_str Deny = ''deny''"
| "action_str Escalate = ''escalate''"
| "action_str ShadowDeny = ''shadow_deny''"

lemma action_str_inj [simp]: "action_str a = action_str b \<longleftrightarrow> a = b"
  by (cases a; cases b) simp_all

record DenyFeedback =
  fb_ReasonCode :: string
  fb_UnsatisfiedPrerequisites :: "string list"
  fb_Suggestion :: string

record Decision =
  d_Action :: Action
  d_Reason :: string
  d_RuleID :: string
  d_Feedback :: "DenyFeedback option"

text \<open>\<open>Decision{Action: Allow}\<close>.\<close>

definition allow :: Decision where
  "allow = \<lparr>d_Action = Allow, d_Reason = [], d_RuleID = [], d_Feedback = None\<rparr>"

definition deny :: "string \<Rightarrow> string \<Rightarrow> DenyFeedback \<Rightarrow> Decision" where
  "deny reason rule fb = \<lparr>d_Action = Deny, d_Reason = reason, d_RuleID = rule, d_Feedback = Some fb\<rparr>"

definition feedback :: "string \<Rightarrow> string \<Rightarrow> DenyFeedback" where
  "feedback code suggestion =
     \<lparr>fb_ReasonCode = code, fb_UnsatisfiedPrerequisites = [], fb_Suggestion = suggestion\<rparr>"

lemma allow_sel [simp]:
  "d_Action allow = Allow" "d_Reason allow = []" "d_RuleID allow = []" "d_Feedback allow = None"
  by (simp_all add: allow_def)

lemma deny_sel [simp]:
  "d_Action (deny r i f) = Deny" "d_Reason (deny r i f) = r" "d_RuleID (deny r i f) = i"
  "d_Feedback (deny r i f) = Some f"
  by (simp_all add: deny_def)

lemma deny_neq_allow [simp]: "deny r i f \<noteq> allow" "allow \<noteq> deny r i f"
  by (simp_all add: deny_def allow_def)

lemma feedback_code [simp]: "fb_ReasonCode (feedback c s) = c"
  by (simp add: feedback_def)

section \<open>Calls and sessions\<close>

text \<open>
  \<open>RequestedAt\<close> is \<open>None\<close> for Go's zero time, otherwise the Unix time in nanoseconds.
\<close>

record ToolCall =
  tc_SessionID :: string
  tc_AgentName :: string
  tc_ToolName :: string
  tc_Arguments :: string
  tc_AgentEnv :: string
  tc_ParentAgent :: string
  tc_RequestedAt :: "int option"

record Session =
  s_ID :: string
  s_AgentName :: string
  s_PolicyFingerprint :: string
  s_Tainted :: bool
  s_ToolCallCount :: int
  s_EstimatedCostUSD :: float64
  s_Terminated :: bool

section \<open>The query backend (backend.go)\<close>

record SessionEventEntry =
  se_ToolName :: string
  se_Decision :: string
  se_RecordedAt :: int

record ApprovedEscalationEntry =
  ae_ToolName :: string
  ae_ArgsHash :: string

definition err_parent_agent_not_found :: gerr where
  "err_parent_agent_not_found = GErr ''parent agent not found'' [ErrParentAgentNotFound]"

text \<open>
  The interface's four methods. The argument \<open>since\<close> is the \<open>UnixNano\<close> of the Go time, the only
  thing an implementation reads of it.
\<close>

record QueryBackend =
  qb_GetSessionEvents :: "string \<Rightarrow> gerr + SessionEventEntry list"
  qb_CountSessionEventsSince :: "string \<Rightarrow> string \<Rightarrow> int \<Rightarrow> gerr + int"
  qb_HasApprovedEscalation :: "string \<Rightarrow> string \<Rightarrow> string \<Rightarrow> gerr + bool"
  qb_GetAgentAllowedTools :: "string \<Rightarrow> gerr + string list"

text \<open>An event counts towards history when its call was executed upstream.\<close>

definition counts :: "SessionEventEntry \<Rightarrow> bool" where
  "counts ev = (se_Decision ev = action_str Allow \<or> se_Decision ev = action_str ShadowDeny)"

definition in_window :: "string \<Rightarrow> int \<Rightarrow> SessionEventEntry \<Rightarrow> bool" where
  "in_window tool since ev = (se_ToolName ev = tool \<and> counts ev \<and> since \<le> se_RecordedAt ev)"

type_synonym Evaluator = "ToolCall \<Rightarrow> Session \<Rightarrow> Policy \<Rightarrow> gerr + Decision"

section \<open>The backend contract\<close>

text \<open>
  A backend answers from three views: the session's history, the human approvals and the scope
  of each agent. Under \<open>query_backend\<close> any query may fail, but one that answers tells the truth;
  under \<open>total_backend\<close> none fails.
\<close>

locale query_backend =
  fixes B :: QueryBackend
    and hist :: "string \<Rightarrow> SessionEventEntry list"
    and approvals :: "string \<Rightarrow> string \<Rightarrow> string \<Rightarrow> bool"
    and scope :: "string \<Rightarrow> string list option"
  assumes events: "qb_GetSessionEvents B sid = Inr evs \<Longrightarrow> evs = hist sid"
    and count: "qb_CountSessionEventsSince B sid tool since = Inr n \<Longrightarrow>
      n = int (length (filter (in_window tool since) (hist sid)))"
    and approved: "qb_HasApprovedEscalation B sid tool h = Inr b \<Longrightarrow> b = approvals sid tool h"
    and agent_tools: "qb_GetAgentAllowedTools B a = Inr ts \<Longrightarrow> scope a = Some ts"

locale total_backend = query_backend +
  assumes events_total: "qb_GetSessionEvents B sid = Inr (hist sid)"
    and count_total: "qb_CountSessionEventsSince B sid tool since =
      Inr (int (length (filter (in_window tool since) (hist sid))))"
    and approved_total: "qb_HasApprovedEscalation B sid tool h = Inr (approvals sid tool h)"
    and agent_tools_total: "scope a = Some ts \<Longrightarrow> qb_GetAgentAllowedTools B a = Inr ts"
    and agent_missing: "scope a = None \<Longrightarrow>
      \<exists>e. qb_GetAgentAllowedTools B a = Inl e \<and> errors_Is e ErrParentAgentNotFound"

section \<open>The evaluator contract\<close>

text \<open>
  What \<open>evaluator.go\<close> and \<open>types.go\<close> promise of every stage: it never answers \<open>ShadowDeny\<close>, its
  allow is the bare \<open>Decision{Action: Allow}\<close>, and a denial or escalation carries a rule and
  feedback.
\<close>

locale evaluator =
  fixes ev :: Evaluator
  assumes never_shadow: "ev c s p = Inr d \<Longrightarrow> d_Action d \<noteq> ShadowDeny"
    and allow_is_bare: "ev c s p = Inr d \<Longrightarrow> d_Action d = Allow \<Longrightarrow> d = allow"
    and explains: "ev c s p = Inr d \<Longrightarrow> d_Action d \<noteq> Allow \<Longrightarrow> d_RuleID d \<noteq> [] \<and> d_Feedback d \<noteq> None"
begin

lemma outcome_cases:
  obtains (error) e where "ev c s p = Inl e"
  | (allow) "ev c s p = Inr allow"
  | (deny) d where "ev c s p = Inr d" "d_Action d = Deny" "d_Feedback d \<noteq> None"
  | (escalate) d where "ev c s p = Inr d" "d_Action d = Escalate" "d_Feedback d \<noteq> None"
proof (cases "ev c s p")
  case (Inr d)
  then show ?thesis
    using that never_shadow [OF Inr] allow_is_bare [OF Inr] explains [OF Inr]
    by (cases "d_Action d") auto
qed (rule error)

end

text \<open>A stage built from allow and deny decisions meets the contract.\<close>

lemma evaluatorI:
  assumes "\<And>c s p d. ev c s p = Inr d \<Longrightarrow>
    d = allow \<or> ((d_Action d = Deny \<or> d_Action d = Escalate) \<and> d_RuleID d \<noteq> [] \<and> d_Feedback d \<noteq> None)"
  shows "evaluator ev"
  by unfold_locales (use assms in fastforce)+

end
