(* ===== verification/TB_Store.thy ===== *)
theory TB_Store
  imports TB_Engine
begin

text \<open>
  The SQLite store (\<open>internal/store\<close>) and the escalation package above it. A database is the five
  tables of \<open>schema.go\<close> in insertion order, plus a tick that counts the statements sent to the
  driver. The world \<open>W\<close> says which statement fails, what the clock shows and which UUID is drawn
  at a tick; so a statement about every world covers every pattern of database faults.

  \<open>NULL\<close> is \<open>None\<close>. \<open>ORDER BY\<close> is a stable sort: rows that tie keep their insertion order.
\<close>

section \<open>The world\<close>

record world =
  w_lib :: lib
  w_fault :: "nat \<Rightarrow> gerr option"
  w_constraint :: "string \<Rightarrow> gerr"
  w_clock :: "nat \<Rightarrow> int"
  w_uuid :: "nat \<Rightarrow> string"

abbreviation qw :: "world \<Rightarrow> string \<Rightarrow> string" where
  "qw W s \<equiv> qt (w_lib W) s"

definition err_no_rows :: gerr where
  "err_no_rows = GErr ''sql: no rows in result set'' [SqlErrNoRows]"

definition nullableString :: "string \<Rightarrow> string option" where
  "nullableString s = (if s = [] then None else Some s)"

text \<open>Reading a nullable column into a Go string.\<close>

definition from_null :: "string option \<Rightarrow> string" where
  "from_null v = (case v of None \<Rightarrow> [] | Some s \<Rightarrow> s)"

lemma from_null_nullableString [simp]: "from_null (nullableString s) = s"
  by (simp add: from_null_def nullableString_def)

section \<open>The tables (schema.go)\<close>

record SessionRow =
  sr_ID :: string
  sr_AgentName :: string
  sr_PolicyFingerprint :: string
  sr_Tainted :: bool
  sr_ToolCallCount :: int
  sr_EstimatedCostUSD :: float64
  sr_Terminated :: bool
  sr_CreatedAt :: int
  sr_LastSeenAt :: int

record event_row =
  ev_seq :: nat
  ev_session_id :: string
  ev_tool_name :: string
  ev_arguments_json :: "string option"
  ev_decision :: string
  ev_policy_rule :: "string option"
  ev_recorded_at :: int

record audit_row =
  au_id :: string
  au_session_id :: string
  au_seq :: nat
  au_agent_name :: string
  au_tool_name :: string
  au_arguments_sha256 :: string
  au_decision :: string
  au_decision_reason :: "string option"
  au_policy_fingerprint :: string
  au_agent_jwt_sha256 :: string
  au_client_trace_id :: "string option"
  au_delegation_chain :: "string option"
  au_recorded_at :: int
  au_signature :: string

record Agent =
  ag_Name :: string
  ag_PublicKeyPEM :: string
  ag_PolicyFile :: string
  ag_AllowedToolsJSON :: string
  ag_RegisteredAt :: int
  ag_JWTPreview :: string
  ag_RevokedAt :: "int option"

record escalation_row =
  es_id :: string
  es_session_id :: string
  es_seq :: nat
  es_tool_name :: string
  es_arguments_json :: "string option"
  es_status :: string
  es_reason :: "string option"
  es_created_at :: int
  es_resolved_at :: "int option"

record db =
  db_sessions :: "SessionRow list"
  db_events :: "event_row list"
  db_audit :: "audit_row list"
  db_agents :: "Agent list"
  db_escalations :: "escalation_row list"
  db_tick :: nat

definition empty_db :: db where
  "empty_db = \<lparr>db_sessions = [], db_events = [], db_audit = [], db_agents = [], db_escalations = [], db_tick = 0\<rparr>"

section \<open>Statements\<close>

definition tick :: "db \<Rightarrow> db" where
  "tick d = d\<lparr>db_tick := Suc (db_tick d)\<rparr>"

text \<open>\<open>time.Now().UnixNano()\<close> at the current tick.\<close>

definition now_at :: "world \<Rightarrow> db \<Rightarrow> int" where
  "now_at W d = w_clock W (db_tick d)"

text \<open>A step that may fail with an error wrapped in \<open>msg\<close>: a \<open>SELECT\<close>, \<open>Begin\<close>, \<open>Commit\<close> or \<open>RowsAffected\<close>.\<close>

definition db_read :: "world \<Rightarrow> string \<Rightarrow> (db \<Rightarrow> 'a) \<Rightarrow> db \<Rightarrow> (gerr + 'a) \<times> db" where
  "db_read W msg f d =
     (case w_fault W (db_tick d) of
        Some e \<Rightarrow> (Inl (wrapf msg e), tick d)
      | None \<Rightarrow> (Inr (f d), tick d))"

text \<open>
  An \<open>INSERT\<close>, \<open>UPDATE\<close> or \<open>REPLACE\<close>: it fails with a driver error or a violated constraint and
  then changes nothing, or it changes the tables and reports the rows affected.
\<close>

definition db_exec :: "world \<Rightarrow> string \<Rightarrow> (db \<Rightarrow> gerr + nat \<times> db) \<Rightarrow> db \<Rightarrow> (gerr + nat) \<times> db" where
  "db_exec W msg f d =
     (case w_fault W (db_tick d) of
        Some e \<Rightarrow> (Inl (wrapf msg e), tick d)
      | None \<Rightarrow>
          (case f d of
             Inl e \<Rightarrow> (Inl (wrapf msg e), tick d)
           | Inr (n, d') \<Rightarrow> (Inr n, tick d')))"

definition db_bind :: "(gerr + 'a) \<times> db \<Rightarrow> ('a \<Rightarrow> db \<Rightarrow> (gerr + 'b) \<times> db) \<Rightarrow> (gerr + 'b) \<times> db" where
  "db_bind r k = (case r of (Inl e, d) \<Rightarrow> (Inl e, d) | (Inr x, d) \<Rightarrow> k x d)"

text \<open>\<open>if err != nil { return fmt.Errorf("<msg>: %w", err) }\<close> around a whole call.\<close>

definition db_wrap :: "string \<Rightarrow> (gerr + 'a) \<times> db \<Rightarrow> (gerr + 'a) \<times> db" where
  "db_wrap msg r = (case r of (Inl e, d) \<Rightarrow> (Inl (wrapf msg e), d) | (Inr x, d) \<Rightarrow> (Inr x, d))"

section \<open>Sessions (sessions.go)\<close>

definition insert_session :: "world \<Rightarrow> SessionRow \<Rightarrow> db \<Rightarrow> gerr + nat \<times> db" where
  "insert_session W r d =
     (if sr_ID r \<in> sr_ID ` set (db_sessions d) then Inl (w_constraint W ''sessions.id'')
      else Inr (1, d\<lparr>db_sessions := db_sessions d @ [r]\<rparr>))"

definition CreateSession :: "world \<Rightarrow> string \<Rightarrow> string \<Rightarrow> string \<Rightarrow> db \<Rightarrow> (gerr + unit) \<times> db" where
  "CreateSession W id' agentName policyFingerprint d =
     (let now = now_at W d in
      db_bind
        (db_exec W (''creating session '' @ qw W id')
           (insert_session W \<lparr>sr_ID = id', sr_AgentName = agentName, sr_PolicyFingerprint = policyFingerprint,
              sr_Tainted = False, sr_ToolCallCount = 0, sr_EstimatedCostUSD = Fin 0, sr_Terminated = False,
              sr_CreatedAt = now, sr_LastSeenAt = now\<rparr>) d)
        (\<lambda>n d. (Inr (), d)))"

definition session_of_row :: "SessionRow \<Rightarrow> Session" where
  "session_of_row r =
     \<lparr>s_ID = sr_ID r, s_AgentName = sr_AgentName r, s_PolicyFingerprint = sr_PolicyFingerprint r,
      s_Tainted = sr_Tainted r, s_ToolCallCount = sr_ToolCallCount r,
      s_EstimatedCostUSD = sr_EstimatedCostUSD r, s_Terminated = sr_Terminated r\<rparr>"

definition find_session :: "db \<Rightarrow> string \<Rightarrow> SessionRow option" where
  "find_session d id' = find (\<lambda>r. sr_ID r = id') (db_sessions d)"

definition GetSession :: "world \<Rightarrow> string \<Rightarrow> db \<Rightarrow> (gerr + Session) \<times> db" where
  "GetSession W id' d =
     (let msg = ''looking up session '' @ qw W id' in
      db_bind (db_read W msg (\<lambda>d. find_session d id') d)
        (\<lambda>row d. case row of
                   None \<Rightarrow> (Inl (wrapf msg err_no_rows), d)
                 | Some r \<Rightarrow> (Inr (session_of_row r), d)))"

text \<open>An \<open>UPDATE sessions SET ... WHERE id = ?\<close> and its row count.\<close>

definition update_session :: "string \<Rightarrow> (SessionRow \<Rightarrow> SessionRow) \<Rightarrow> db \<Rightarrow> gerr + nat \<times> db" where
  "update_session id' f d =
     Inr (length (filter (\<lambda>r. sr_ID r = id') (db_sessions d)),
          d\<lparr>db_sessions := map (\<lambda>r. if sr_ID r = id' then f r else r) (db_sessions d)\<rparr>)"

definition exec_session_update ::
    "world \<Rightarrow> string \<Rightarrow> string \<Rightarrow> string \<Rightarrow> (SessionRow \<Rightarrow> SessionRow) \<Rightarrow> db \<Rightarrow> (gerr + unit) \<times> db" where
  "exec_session_update W msg msg_rows id' f d =
     db_bind (db_exec W msg (update_session id' f) d)
       (\<lambda>n d. db_bind (db_read W msg_rows (\<lambda>_. ()) d)
          (\<lambda>_ d. if n = 0 then (Inl (wrapf msg err_no_rows), d) else (Inr (), d)))"

definition UpdateSessionTaint :: "world \<Rightarrow> string \<Rightarrow> bool \<Rightarrow> db \<Rightarrow> (gerr + unit) \<times> db" where
  "UpdateSessionTaint W id' tainted d =
     (let now = now_at W d in
      exec_session_update W (''updating taint for session '' @ qw W id')
        (''checking rows affected for session '' @ qw W id' @ '' taint update'') id'
        (\<lambda>r. r\<lparr>sr_Tainted := tainted, sr_LastSeenAt := now\<rparr>) d)"

definition IncrementSessionCounters :: "world \<Rightarrow> string \<Rightarrow> float64 \<Rightarrow> db \<Rightarrow> (gerr + unit) \<times> db" where
  "IncrementSessionCounters W id' costDelta d =
     (let now = now_at W d in
      exec_session_update W (''incrementing counters for session '' @ qw W id')
        (''checking rows affected for session '' @ qw W id' @ '' counter increment'') id'
        (\<lambda>r. r\<lparr>sr_ToolCallCount := sr_ToolCallCount r + 1,
               sr_EstimatedCostUSD := f_add (sr_EstimatedCostUSD r) costDelta, sr_LastSeenAt := now\<rparr>) d)"

definition TerminateSession :: "world \<Rightarrow> string \<Rightarrow> db \<Rightarrow> (gerr + unit) \<times> db" where
  "TerminateSession W id' d =
     (let now = now_at W d in
      exec_session_update W (''terminating session '' @ qw W id')
        (''checking rows affected for session '' @ qw W id' @ '' termination'') id'
        (\<lambda>r. r\<lparr>sr_Terminated := True, sr_LastSeenAt := now\<rparr>) d)"

text \<open>\<open>Query\<close>, then the iteration over the rows.\<close>

definition db_rows :: "world \<Rightarrow> string \<Rightarrow> string \<Rightarrow> (db \<Rightarrow> 'a) \<Rightarrow> db \<Rightarrow> (gerr + 'a) \<times> db" where
  "db_rows W msg_query msg_iter f d =
     db_bind (db_read W msg_query f d) (\<lambda>rows d. db_read W msg_iter (\<lambda>_. rows) d)"

definition ListSessions :: "world \<Rightarrow> db \<Rightarrow> (gerr + SessionRow list) \<times> db" where
  "ListSessions W d =
     db_rows W ''listing sessions'' ''iterating session rows''
       (\<lambda>d. sort_key (\<lambda>r. - sr_CreatedAt r) (filter (\<lambda>r. \<not> sr_Terminated r) (db_sessions d))) d"

section \<open>Events (events.go)\<close>

record SessionEvent =
  e_Seq :: nat
  e_SessionID :: string
  e_ToolName :: string
  e_ArgumentsJSON :: string
  e_Decision :: string
  e_PolicyRule :: string
  e_RecordedAt :: int

definition event_of_row :: "event_row \<Rightarrow> SessionEvent" where
  "event_of_row r =
     \<lparr>e_Seq = ev_seq r, e_SessionID = ev_session_id r, e_ToolName = ev_tool_name r,
      e_ArgumentsJSON = from_null (ev_arguments_json r), e_Decision = ev_decision r,
      e_PolicyRule = from_null (ev_policy_rule r), e_RecordedAt = ev_recorded_at r\<rparr>"

definition row_of_event :: "nat \<Rightarrow> SessionEvent \<Rightarrow> event_row" where
  "row_of_event seq e =
     \<lparr>ev_seq = seq, ev_session_id = e_SessionID e, ev_tool_name = e_ToolName e,
      ev_arguments_json = nullableString (e_ArgumentsJSON e), ev_decision = e_Decision e,
      ev_policy_rule = nullableString (e_PolicyRule e), ev_recorded_at = e_RecordedAt e\<rparr>"

definition session_rows :: "db \<Rightarrow> string \<Rightarrow> event_row list" where
  "session_rows d sid = filter (\<lambda>r. ev_session_id r = sid) (db_events d)"

text \<open>\<open>COALESCE(MAX(seq), 0)\<close>.\<close>

definition max_seq :: "db \<Rightarrow> string \<Rightarrow> nat" where
  "max_seq d sid = fold max (map ev_seq (session_rows d sid)) 0"

definition insert_event :: "world \<Rightarrow> event_row \<Rightarrow> db \<Rightarrow> gerr + nat \<times> db" where
  "insert_event W r d =
     (if \<exists>x \<in> set (db_events d). ev_session_id x = ev_session_id r \<and> ev_seq x = ev_seq r
      then Inl (w_constraint W ''session_events.session_id, session_events.seq'')
      else if ev_session_id r \<notin> sr_ID ` set (db_sessions d) then Inl (w_constraint W ''FOREIGN KEY'')
      else Inr (1, d\<lparr>db_events := db_events d @ [r]\<rparr>))"

text \<open>
  The transaction: a failure of \<open>Begin\<close>, of the query, of the insert or of \<open>Commit\<close> rolls the
  tables back. The event is returned with its sequence number.
\<close>

definition rollback :: "db \<Rightarrow> (gerr + 'a) \<times> db \<Rightarrow> (gerr + 'a) \<times> db" where
  "rollback d0 r = (case r of (Inl e, d) \<Rightarrow> (Inl e, d0\<lparr>db_tick := db_tick d\<rparr>) | (Inr x, d) \<Rightarrow> (Inr x, d))"

definition AppendEvent :: "world \<Rightarrow> SessionEvent \<Rightarrow> db \<Rightarrow> (gerr + SessionEvent) \<times> db" where
  "AppendEvent W event d =
     (let event = (if e_RecordedAt event = 0 then event\<lparr>e_RecordedAt := now_at W d\<rparr> else event);
          sid = e_SessionID event; q = qw W sid
      in rollback d
        (db_bind (db_read W (''starting transaction for session '' @ q @ '' event'') (\<lambda>_. ()) d)
          (\<lambda>_ d. db_bind (db_read W (''computing next seq for session '' @ q) (\<lambda>d. max_seq d sid) d)
            (\<lambda>maxSeq d. let nextSeq = maxSeq + 1 in
              db_bind (db_exec W (''inserting event for session '' @ q)
                         (insert_event W (row_of_event nextSeq event)) d)
                (\<lambda>_ d. db_bind (db_read W (''committing event for session '' @ q) (\<lambda>_. ()) d)
                  (\<lambda>_ d. (Inr (event\<lparr>e_Seq := nextSeq\<rparr>), d)))))))"

definition store_GetSessionEvents :: "world \<Rightarrow> string \<Rightarrow> db \<Rightarrow> (gerr + SessionEvent list) \<times> db" where
  "store_GetSessionEvents W sid d =
     db_rows W (''querying events for session '' @ qw W sid) (''iterating events for session '' @ qw W sid)
       (\<lambda>d. map event_of_row (sort_key ev_seq (session_rows d sid))) d"

definition store_CountSessionEventsSince :: "world \<Rightarrow> string \<Rightarrow> string \<Rightarrow> int \<Rightarrow> db \<Rightarrow> (gerr + int) \<times> db" where
  "store_CountSessionEventsSince W sid toolName since d =
     db_read W (''counting rate-limit events for session '' @ qw W sid @ '' tool '' @ qw W toolName)
       (\<lambda>d. int (length (filter (\<lambda>r. ev_session_id r = sid \<and> ev_tool_name r = toolName
              \<and> ev_decision r \<in> {''allow'', ''shadow_deny''} \<and> ev_recorded_at r \<ge> since) (db_events d)))) d"

definition CountSessionEvents :: "world \<Rightarrow> string \<Rightarrow> db \<Rightarrow> (gerr + int) \<times> db" where
  "CountSessionEvents W sid d =
     db_read W (''counting events for session '' @ qw W sid) (\<lambda>d. int (length (session_rows d sid))) d"

section \<open>Agents (agents.go)\<close>

definition IsRevoked :: "Agent \<Rightarrow> bool" where
  "IsRevoked a = (ag_RevokedAt a \<noteq> None)"

definition UpsertAgent :: "world \<Rightarrow> Agent \<Rightarrow> db \<Rightarrow> (gerr + unit) \<times> db" where
  "UpsertAgent W a d =
     db_bind
       (db_exec W (''upserting agent '' @ qw W (ag_Name a))
          (\<lambda>d. Inr (1, d\<lparr>db_agents := filter (\<lambda>x. ag_Name x \<noteq> ag_Name a) (db_agents d)
                                        @ [a\<lparr>ag_RevokedAt := None\<rparr>]\<rparr>)) d)
       (\<lambda>_ d. (Inr (), d))"

definition RevokeAgent :: "world \<Rightarrow> string \<Rightarrow> db \<Rightarrow> (gerr + unit) \<times> db" where
  "RevokeAgent W name d =
     (let now = now_at W d in
      db_bind
        (db_exec W (''revoking agent '' @ qw W name)
           (\<lambda>d. Inr (length (filter (\<lambda>a. ag_Name a = name) (db_agents d)),
                     d\<lparr>db_agents := map (\<lambda>a. if ag_Name a = name then a\<lparr>ag_RevokedAt := Some now\<rparr> else a) (db_agents d)\<rparr>)) d)
        (\<lambda>n d. db_bind (db_read W (''checking rows affected for revoke of '' @ qw W name) (\<lambda>_. ()) d)
           (\<lambda>_ d. if n = 0 then (Inl (errorf (''agent '' @ qw W name @ '' not found'')), d) else (Inr (), d))))"

definition find_agent :: "db \<Rightarrow> string \<Rightarrow> Agent option" where
  "find_agent d name = find (\<lambda>a. ag_Name a = name) (db_agents d)"

definition GetAgent :: "world \<Rightarrow> string \<Rightarrow> db \<Rightarrow> (gerr + Agent) \<times> db" where
  "GetAgent W name d =
     (let msg = ''looking up agent '' @ qw W name in
      db_bind (db_read W msg (\<lambda>d. find_agent d name) d)
        (\<lambda>row d. case row of None \<Rightarrow> (Inl (wrapf msg err_no_rows), d) | Some a \<Rightarrow> (Inr a, d)))"

definition ListAgents :: "world \<Rightarrow> db \<Rightarrow> (gerr + Agent list) \<times> db" where
  "ListAgents W d =
     db_rows W ''querying agents table'' ''iterating agent rows'' (\<lambda>d. sort_key ag_RegisteredAt (db_agents d)) d"

section \<open>The audit log (audit.go, pkg/audit/types.go)\<close>

record AuditRecord =
  r_ID :: string
  r_SessionID :: string
  r_Seq :: nat
  r_AgentName :: string
  r_ToolName :: string
  r_ArgumentsSHA256 :: string
  r_Decision :: string
  r_DecisionReason :: string
  r_PolicyFingerprint :: string
  r_AgentJWTSHA256 :: string
  r_ClientTraceID :: string
  r_DelegationChain :: string
  r_RecordedAt :: int
  r_Signature :: string

definition record_of_row :: "audit_row \<Rightarrow> AuditRecord" where
  "record_of_row r =
     \<lparr>r_ID = au_id r, r_SessionID = au_session_id r, r_Seq = au_seq r, r_AgentName = au_agent_name r,
      r_ToolName = au_tool_name r, r_ArgumentsSHA256 = au_arguments_sha256 r, r_Decision = au_decision r,
      r_DecisionReason = from_null (au_decision_reason r), r_PolicyFingerprint = au_policy_fingerprint r,
      r_AgentJWTSHA256 = au_agent_jwt_sha256 r, r_ClientTraceID = from_null (au_client_trace_id r),
      r_DelegationChain = from_null (au_delegation_chain r), r_RecordedAt = au_recorded_at r,
      r_Signature = au_signature r\<rparr>"

definition row_of_record :: "AuditRecord \<Rightarrow> audit_row" where
  "row_of_record r =
     \<lparr>au_id = r_ID r, au_session_id = r_SessionID r, au_seq = r_Seq r, au_agent_name = r_AgentName r,
      au_tool_name = r_ToolName r, au_arguments_sha256 = r_ArgumentsSHA256 r, au_decision = r_Decision r,
      au_decision_reason = nullableString (r_DecisionReason r), au_policy_fingerprint = r_PolicyFingerprint r,
      au_agent_jwt_sha256 = r_AgentJWTSHA256 r, au_client_trace_id = nullableString (r_ClientTraceID r),
      au_delegation_chain = nullableString (r_DelegationChain r), au_recorded_at = r_RecordedAt r,
      au_signature = r_Signature r\<rparr>"

definition insert_audit :: "world \<Rightarrow> audit_row \<Rightarrow> db \<Rightarrow> gerr + nat \<times> db" where
  "insert_audit W r d =
     (if au_id r \<in> au_id ` set (db_audit d) then Inl (w_constraint W ''audit_log.id'')
      else Inr (1, d\<lparr>db_audit := db_audit d @ [r]\<rparr>))"

text \<open>The fourteen parameters are the fields of an \<open>AuditRecord\<close>.\<close>

definition AppendAuditRecord :: "world \<Rightarrow> AuditRecord \<Rightarrow> db \<Rightarrow> (gerr + unit) \<times> db" where
  "AppendAuditRecord W r d =
     db_bind (db_exec W (''appending audit record '' @ r_ID r) (insert_audit W (row_of_record r)) d)
       (\<lambda>_ d. (Inr (), d))"

record AuditFilter =
  af_SessionID :: string
  af_ToolName :: string
  af_Decision :: string
  af_TraceID :: string
  af_From :: "int option"
  af_To :: "int option"

text \<open>The \<open>WHERE\<close> clause: one conjunct per non-zero field; \<open>NULL = ?\<close> is not true.\<close>

definition audit_where :: "AuditFilter \<Rightarrow> audit_row \<Rightarrow> bool" where
  "audit_where f r =
     ((af_SessionID f \<noteq> [] \<longrightarrow> au_session_id r = af_SessionID f)
      \<and> (af_ToolName f \<noteq> [] \<longrightarrow> au_tool_name r = af_ToolName f)
      \<and> (af_Decision f \<noteq> [] \<longrightarrow> au_decision r = af_Decision f)
      \<and> (af_TraceID f \<noteq> [] \<longrightarrow> au_client_trace_id r = Some (af_TraceID f))
      \<and> (case af_From f of None \<Rightarrow> True | Some t \<Rightarrow> t \<le> au_recorded_at r)
      \<and> (case af_To f of None \<Rightarrow> True | Some t \<Rightarrow> au_recorded_at r \<le> t))"

definition QueryAuditLog :: "world \<Rightarrow> AuditFilter \<Rightarrow> db \<Rightarrow> (gerr + AuditRecord list) \<times> db" where
  "QueryAuditLog W f d =
     db_rows W ''querying audit log'' ''iterating audit log query results''
       (\<lambda>d. map record_of_row (sort_key au_recorded_at (filter (audit_where f) (db_audit d)))) d"

definition HasAuditRecordsForFingerprint :: "world \<Rightarrow> string \<Rightarrow> db \<Rightarrow> (gerr + bool) \<times> db" where
  "HasAuditRecordsForFingerprint W fingerprint d =
     db_read W (''checking audit records for fingerprint '' @ fingerprint)
       (\<lambda>d. list_ex (\<lambda>r. au_policy_fingerprint r = fingerprint) (db_audit d)) d"

section \<open>Escalations (escalations.go)\<close>

record Escalation =
  es_ID :: string
  es_SessionID :: string
  es_Seq :: nat
  es_ToolName :: string
  es_ArgumentsJSON :: string
  es_Status :: string
  es_Reason :: string
  es_CreatedAt :: int
  es_ResolvedAt :: int

definition escalation_of_row :: "escalation_row \<Rightarrow> Escalation" where
  "escalation_of_row r =
     \<lparr>es_ID = es_id r, es_SessionID = es_session_id r, es_Seq = es_seq r, es_ToolName = es_tool_name r,
      es_ArgumentsJSON = from_null (es_arguments_json r), es_Status = es_status r,
      es_Reason = from_null (es_reason r), es_CreatedAt = es_created_at r,
      es_ResolvedAt = (case es_resolved_at r of None \<Rightarrow> 0 | Some t \<Rightarrow> t)\<rparr>"

definition row_of_escalation :: "Escalation \<Rightarrow> escalation_row" where
  "row_of_escalation e =
     \<lparr>es_id = es_ID e, es_session_id = es_SessionID e, es_seq = es_Seq e, es_tool_name = es_ToolName e,
      es_arguments_json = nullableString (es_ArgumentsJSON e), es_status = es_Status e,
      es_reason = nullableString (es_Reason e), es_created_at = es_CreatedAt e,
      es_resolved_at = (if es_ResolvedAt e \<noteq> 0 then Some (es_ResolvedAt e) else None)\<rparr>"

definition insert_escalation :: "world \<Rightarrow> escalation_row \<Rightarrow> db \<Rightarrow> gerr + nat \<times> db" where
  "insert_escalation W r d =
     (if es_id r \<in> es_id ` set (db_escalations d) then Inl (w_constraint W ''escalations.id'')
      else Inr (1, d\<lparr>db_escalations := db_escalations d @ [r]\<rparr>))"

definition CreateEscalation :: "world \<Rightarrow> Escalation \<Rightarrow> db \<Rightarrow> (gerr + unit) \<times> db" where
  "CreateEscalation W e d =
     (let e = (if es_CreatedAt e = 0 then e\<lparr>es_CreatedAt := now_at W d\<rparr> else e) in
      db_bind (db_exec W (''inserting escalation '' @ qw W (es_ID e)) (insert_escalation W (row_of_escalation e)) d)
        (\<lambda>_ d. (Inr (), d)))"

text \<open>The hash of the stored arguments; \<open>NULL\<close> hashes as the empty payload.\<close>

definition approved_rows :: "db \<Rightarrow> string \<Rightarrow> string \<Rightarrow> escalation_row list" where
  "approved_rows d sid toolName =
     filter (\<lambda>r. es_session_id r = sid \<and> es_tool_name r = toolName \<and> es_status r = ''approved'') (db_escalations d)"

definition store_HasApprovedEscalation ::
    "world \<Rightarrow> string \<Rightarrow> string \<Rightarrow> string \<Rightarrow> db \<Rightarrow> (gerr + bool) \<times> db" where
  "store_HasApprovedEscalation W sid toolName argumentsHash d =
     (let q = '' for session '' @ qw W sid @ '' tool '' @ qw W toolName in
      db_bind (db_read W (''querying approved escalations'' @ q) (\<lambda>d. approved_rows d sid toolName) d)
        (\<lambda>rows d.
           if list_ex (\<lambda>r. l_sha256_hex (w_lib W) (from_null (es_arguments_json r)) = argumentsHash) rows
           then (Inr True, d)
           else db_read W (''iterating approved escalations'' @ q) (\<lambda>_. False) d))"

definition find_escalation :: "db \<Rightarrow> string \<Rightarrow> escalation_row option" where
  "find_escalation d id' = find (\<lambda>r. es_id r = id') (db_escalations d)"

definition GetEscalationStatus :: "world \<Rightarrow> string \<Rightarrow> db \<Rightarrow> (gerr + string) \<times> db" where
  "GetEscalationStatus W id' d =
     db_bind (db_read W (''looking up escalation '' @ qw W id') (\<lambda>d. find_escalation d id') d)
       (\<lambda>row d. case row of
                  None \<Rightarrow> (Inl (wrapf (''escalation '' @ qw W id' @ '' not found'') err_no_rows), d)
                | Some r \<Rightarrow> (Inr (es_status r), d))"

definition update_escalation :: "string \<Rightarrow> (escalation_row \<Rightarrow> escalation_row) \<Rightarrow> db \<Rightarrow> gerr + nat \<times> db" where
  "update_escalation id' f d =
     (let hit = (\<lambda>r. es_id r = id' \<and> es_status r = ''pending'') in
      Inr (length (filter hit (db_escalations d)),
           d\<lparr>db_escalations := map (\<lambda>r. if hit r then f r else r) (db_escalations d)\<rparr>))"

definition resolveEscalation :: "world \<Rightarrow> string \<Rightarrow> string \<Rightarrow> string \<Rightarrow> db \<Rightarrow> (gerr + unit) \<times> db" where
  "resolveEscalation W id' status note d =
     (let now = now_at W d in
      db_bind
        (db_exec W (''resolving escalation '' @ qw W id' @ '' to '' @ qw W status)
           (update_escalation id' (\<lambda>r. r\<lparr>es_status := status, es_reason := nullableString note, es_resolved_at := Some now\<rparr>)) d)
        (\<lambda>n d. db_bind (db_read W (''checking rows affected for escalation '' @ qw W id') (\<lambda>_. ()) d)
          (\<lambda>_ d.
             if n = 0 then
               (case GetEscalationStatus W id' d of
                  (Inl lookupErr, d) \<Rightarrow> (Inl (wrapf (''escalation '' @ qw W id' @ '' not found'') err_no_rows), d)
                | (Inr current, d) \<Rightarrow> (Inl (errorf (''escalation '' @ qw W id'
                      @ '' cannot be resolved: current status is '' @ qw W current)), d))
             else (Inr (), d))))"

definition ApproveEscalation :: "world \<Rightarrow> string \<Rightarrow> string \<Rightarrow> db \<Rightarrow> (gerr + unit) \<times> db" where
  "ApproveEscalation W id' note d = resolveEscalation W id' ''approved'' note d"

definition RejectEscalation :: "world \<Rightarrow> string \<Rightarrow> string \<Rightarrow> db \<Rightarrow> (gerr + unit) \<times> db" where
  "RejectEscalation W id' reason d = resolveEscalation W id' ''rejected'' reason d"

definition GetEscalationsBySession :: "world \<Rightarrow> string \<Rightarrow> db \<Rightarrow> (gerr + Escalation list) \<times> db" where
  "GetEscalationsBySession W sid d =
     db_rows W (''querying escalations for session '' @ qw W sid)
       (''iterating escalation rows for session '' @ qw W sid)
       (\<lambda>d. map escalation_of_row (sort_key es_seq (filter (\<lambda>r. es_session_id r = sid) (db_escalations d)))) d"

definition ListEscalations :: "world \<Rightarrow> string \<Rightarrow> db \<Rightarrow> (gerr + Escalation list) \<times> db" where
  "ListEscalations W status d =
     db_rows W (''listing escalations (status='' @ qw W status @ '')'') ''iterating escalation rows''
       (\<lambda>d. map escalation_of_row (sort_key (\<lambda>r. - es_created_at r)
              (if status = [] then db_escalations d
               else filter (\<lambda>r. es_status r = status) (db_escalations d)))) d"

section \<open>The escalation package (internal/escalation/escalation.go)\<close>

definition esc_Create :: "world \<Rightarrow> string \<Rightarrow> nat \<Rightarrow> string \<Rightarrow> string \<Rightarrow> db \<Rightarrow> (gerr + string) \<times> db" where
  "esc_Create W sessionID seq toolName argumentsJSON d =
     (let id' = w_uuid W (db_tick d);
          e = \<lparr>es_ID = id', es_SessionID = sessionID, es_Seq = seq, es_ToolName = toolName,
               es_ArgumentsJSON = argumentsJSON, es_Status = ''pending'', es_Reason = [],
               es_CreatedAt = 0, es_ResolvedAt = 0\<rparr>
      in db_bind (db_wrap (''creating escalation for session '' @ qw W sessionID @ '' tool '' @ qw W toolName)
                    (CreateEscalation W e d))
           (\<lambda>_ d. (Inr id', d)))"

definition esc_Approve :: "world \<Rightarrow> string \<Rightarrow> string \<Rightarrow> db \<Rightarrow> (gerr + unit) \<times> db" where
  "esc_Approve W id' note d = db_wrap (''approving escalation '' @ qw W id') (ApproveEscalation W id' note d)"

definition esc_Reject :: "world \<Rightarrow> string \<Rightarrow> string \<Rightarrow> db \<Rightarrow> (gerr + unit) \<times> db" where
  "esc_Reject W id' reason d = db_wrap (''rejecting escalation '' @ qw W id') (RejectEscalation W id' reason d)"

definition esc_GetStatus :: "world \<Rightarrow> string \<Rightarrow> db \<Rightarrow> (gerr + string) \<times> db" where
  "esc_GetStatus W id' d = db_wrap (''getting status for escalation '' @ qw W id') (GetEscalationStatus W id' d)"

end
