(* ===== verification/TB_StoreFacts.thy ===== *)
theory TB_StoreFacts
  imports TB_Store
begin

text \<open>
  What the store guarantees. Every operation, failed or not, has one of seven table-level effects
  (\<open>effect\<close>), and the invariants are proved once over effects: keys are unique, events refer to
  sessions and are numbered from 1 without gaps, the event and audit tables only grow, an
  escalation is resolved at most once, a session keeps its identity and stays terminated.
\<close>

section \<open>Effects\<close>

text \<open>An update that keeps the identity of a session and never takes progress back.\<close>

definition session_advance :: "SessionRow \<Rightarrow> SessionRow \<Rightarrow> bool" where
  "session_advance r r' =
     (sr_ID r' = sr_ID r \<and> sr_AgentName r' = sr_AgentName r \<and> sr_PolicyFingerprint r' = sr_PolicyFingerprint r
      \<and> sr_CreatedAt r' = sr_CreatedAt r \<and> sr_ToolCallCount r \<le> sr_ToolCallCount r'
      \<and> (sr_Terminated r \<longrightarrow> sr_Terminated r'))"

inductive effect :: "db \<Rightarrow> db \<Rightarrow> bool" where
  none: "effect d (d\<lparr>db_tick := t\<rparr>)"
| new_session: "sr_ID r \<notin> sr_ID ` set (db_sessions d) \<Longrightarrow>
    effect d (d\<lparr>db_sessions := db_sessions d @ [r], db_tick := t\<rparr>)"
| advance_session: "(\<And>r. session_advance r (f r)) \<Longrightarrow>
    effect d (d\<lparr>db_sessions := map (\<lambda>r. if sr_ID r = i then f r else r) (db_sessions d), db_tick := t\<rparr>)"
| new_event: "ev_session_id r \<in> sr_ID ` set (db_sessions d) \<Longrightarrow> ev_seq r = Suc (max_seq d (ev_session_id r)) \<Longrightarrow>
    effect d (d\<lparr>db_events := db_events d @ [r], db_tick := t\<rparr>)"
| new_audit: "au_id r \<notin> au_id ` set (db_audit d) \<Longrightarrow>
    effect d (d\<lparr>db_audit := db_audit d @ [r], db_tick := t\<rparr>)"
| agents: "(distinct (map ag_Name (db_agents d)) \<Longrightarrow> distinct (map ag_Name as)) \<Longrightarrow>
    effect d (d\<lparr>db_agents := as, db_tick := t\<rparr>)"
| new_escalation: "es_id r \<notin> es_id ` set (db_escalations d) \<Longrightarrow> es_status r = ''pending'' \<Longrightarrow>
    effect d (d\<lparr>db_escalations := db_escalations d @ [r], db_tick := t\<rparr>)"
| resolve: "s \<in> {''approved'', ''rejected''} \<Longrightarrow>
    effect d (d\<lparr>db_escalations := map (\<lambda>r. if es_id r = i \<and> es_status r = ''pending''
        then r\<lparr>es_status := s, es_reason := n, es_resolved_at := Some w\<rparr> else r) (db_escalations d), db_tick := t\<rparr>)"

lemma effect_tick [simp]: "effect d (tick d)"
  unfolding tick_def by (rule effect.none)

lemma effect_refl [simp]: "effect d d"
  using effect.none [of d "db_tick d"] by simp

lemma tick_sel [simp]:
  "db_sessions (tick d) = db_sessions d" "db_events (tick d) = db_events d" "db_audit (tick d) = db_audit d"
  "db_agents (tick d) = db_agents d" "db_escalations (tick d) = db_escalations d" "db_tick (tick d) = Suc (db_tick d)"
  by (simp_all add: tick_def)

text \<open>Later statements of an operation only move the tick.\<close>

definition same_tables :: "db \<Rightarrow> db \<Rightarrow> bool" where
  "same_tables d d' = (\<exists>t. d' = d\<lparr>db_tick := t\<rparr>)"

lemma same_tables_refl [simp, intro]: "same_tables d d"
  by (auto simp: same_tables_def intro: exI [of _ "db_tick d"])

lemma same_tables_tick [simp]: "same_tables d (tick d)"
  by (auto simp: same_tables_def tick_def)

lemma same_tables_trans: "same_tables a b \<Longrightarrow> same_tables b c \<Longrightarrow> same_tables a c"
  by (auto simp: same_tables_def)

lemma same_tables_sel:
  "same_tables d d' \<Longrightarrow> db_sessions d' = db_sessions d" "same_tables d d' \<Longrightarrow> db_events d' = db_events d"
  "same_tables d d' \<Longrightarrow> db_audit d' = db_audit d" "same_tables d d' \<Longrightarrow> db_agents d' = db_agents d"
  "same_tables d d' \<Longrightarrow> db_escalations d' = db_escalations d"
  by (auto simp: same_tables_def)

lemma effect_then_same: "effect d d' \<Longrightarrow> same_tables d' d'' \<Longrightarrow> effect d d''"
proof (induction rule: effect.induct)
  case (new_session r d t)
  then show ?case using effect.new_session [of r d] by (auto simp: same_tables_def)
next
  case (advance_session f d t i)
  then show ?case using effect.advance_session [where f = f and d = d and i = i] by (auto simp: same_tables_def)
next
  case (new_event r d t)
  then show ?case using effect.new_event [of r d] by (auto simp: same_tables_def)
next
  case (new_audit r d t)
  then show ?case using effect.new_audit [of r d] by (auto simp: same_tables_def)
next
  case (agents d as t)
  then show ?case using effect.agents [of d as] by (auto simp: same_tables_def)
next
  case (new_escalation r d t)
  then show ?case using effect.new_escalation [of r d] by (auto simp: same_tables_def)
next
  case (resolve s d t i w n)
  then show ?case using effect.resolve [where s = s and d = d and i = i and n = n and w = w] by (auto simp: same_tables_def)
qed (auto simp: same_tables_def intro: effect.none)

lemma max_seq_tick [simp]: "max_seq (d\<lparr>db_tick := t\<rparr>) sid = max_seq d sid"
  by (simp add: max_seq_def session_rows_def)

section \<open>Reads\<close>

lemma db_read_same [simp]: "same_tables d (snd (db_read W msg f d))"
  by (simp add: db_read_def split: option.split)

lemma db_read_Inr: "db_read W msg f d = (Inr x, d') \<Longrightarrow> x = f d \<and> d' = tick d"
  by (simp add: db_read_def split: option.splits)

lemma db_bind_same:
  "same_tables d (snd r) \<Longrightarrow> (\<And>x d'. r = (Inr x, d') \<Longrightarrow> same_tables d' (snd (k x d'))) \<Longrightarrow>
   same_tables d (snd (db_bind r k))"
  by (cases r; cases "fst r") (auto simp: db_bind_def intro: same_tables_trans)

lemma db_rows_same [simp]: "same_tables d (snd (db_rows W m n f d))"
  unfolding db_rows_def by (rule db_bind_same) simp_all

lemma snd_db_wrap [simp]: "snd (db_wrap msg r) = snd r"
  by (simp add: db_wrap_def split: prod.split sum.split)

lemma reads_change_nothing:
  "same_tables d (snd (GetSession W i d))" "same_tables d (snd (ListSessions W d))"
  "same_tables d (snd (store_GetSessionEvents W i d))" "same_tables d (snd (store_CountSessionEventsSince W i t n d))"
  "same_tables d (snd (CountSessionEvents W i d))" "same_tables d (snd (GetAgent W i d))"
  "same_tables d (snd (ListAgents W d))" "same_tables d (snd (QueryAuditLog W flt d))"
  "same_tables d (snd (HasAuditRecordsForFingerprint W i d))"
  "same_tables d (snd (store_HasApprovedEscalation W i t h d))" "same_tables d (snd (GetEscalationStatus W i d))"
  "same_tables d (snd (GetEscalationsBySession W i d))" "same_tables d (snd (ListEscalations W i d))"
  "same_tables d (snd (esc_GetStatus W i d))"
  by (simp_all add: GetSession_def ListSessions_def store_GetSessionEvents_def store_CountSessionEventsSince_def
      CountSessionEvents_def GetAgent_def ListAgents_def QueryAuditLog_def HasAuditRecordsForFingerprint_def
      GetEscalationStatus_def GetEscalationsBySession_def ListEscalations_def esc_GetStatus_def Let_def)
    (auto simp: store_HasApprovedEscalation_def Let_def intro!: db_bind_same split: option.split)

section \<open>Writes\<close>

text \<open>One statement with an effect, whatever it returns, followed by steps that only read.\<close>

lemma db_exec_effect:
  assumes "\<And>n d'. f d = Inr (n, d') \<Longrightarrow> effect d d'"
  shows "effect d (snd (db_exec W msg f d))"
proof -
  have "effect d (tick d')" if "f d = Inr (n, d')" for n d'
    using effect_then_same [OF assms [OF that]] by simp
  then show ?thesis by (auto simp: db_exec_def split: option.split sum.split prod.split)
qed

lemma db_bind_effect:
  "effect d (snd r) \<Longrightarrow> (\<And>x d'. r = (Inr x, d') \<Longrightarrow> same_tables d' (snd (k x d'))) \<Longrightarrow> effect d (snd (db_bind r k))"
  by (cases r; cases "fst r") (auto simp: db_bind_def intro: effect_then_same)

lemma insert_effects:
  "insert_session W r d = Inr (n, d') \<Longrightarrow> effect d d'"
  "insert_audit W a d = Inr (n, d') \<Longrightarrow> effect d d'"
  "es_status x = ''pending'' \<Longrightarrow> insert_escalation W x d = Inr (n, d') \<Longrightarrow> effect d d'"
  using effect.new_session [of r d "db_tick d"] effect.new_audit [of a d "db_tick d"]
    effect.new_escalation [of x d "db_tick d"]
  by (auto simp: insert_session_def insert_audit_def insert_escalation_def split: if_splits)

lemma CreateSession_effect: "effect d (snd (CreateSession W i a f d))"
  by (auto simp: CreateSession_def Let_def intro!: db_bind_effect db_exec_effect dest: insert_effects)

lemma exec_session_update_effect:
  assumes "\<And>r. session_advance r (f r)"
  shows "effect d (snd (exec_session_update W m n i f d))"
proof -
  have "effect d d'" if "update_session i f d = Inr (k, d')" for k d'
    using that effect.advance_session [where f = f and d = d and i = i and t = "db_tick d", OF assms] by (auto simp: update_session_def)
  then show ?thesis
    by (auto simp: exec_session_update_def intro!: db_bind_effect db_exec_effect db_bind_same)
qed

lemma session_update_effects:
  "effect d (snd (UpdateSessionTaint W i b d))" "effect d (snd (IncrementSessionCounters W i c d))"
  "effect d (snd (TerminateSession W i d))"
  by (simp_all add: UpdateSessionTaint_def IncrementSessionCounters_def TerminateSession_def Let_def
      exec_session_update_effect session_advance_def)

lemma AppendAuditRecord_effect: "effect d (snd (AppendAuditRecord W r d))"
  by (auto simp: AppendAuditRecord_def intro!: db_bind_effect db_exec_effect dest: insert_effects)

lemma distinct_filter_snoc:
  "distinct (map f xs) \<Longrightarrow> f y = n \<Longrightarrow> distinct (map f (filter (\<lambda>x. f x \<noteq> n) xs @ [y]))"
  by (induction xs) auto

lemma agent_effects:
  "effect d (snd (UpsertAgent W a d))" "effect d (snd (RevokeAgent W n d))"
proof -
  show "effect d (snd (UpsertAgent W a d))"
    unfolding UpsertAgent_def
  proof (intro db_bind_effect db_exec_effect)
    fix k d'
    assume "Inr (1, d\<lparr>db_agents := filter (\<lambda>x. ag_Name x \<noteq> ag_Name a) (db_agents d) @ [a\<lparr>ag_RevokedAt := None\<rparr>]\<rparr>)
      = (Inr (k, d') :: gerr + nat \<times> db)"
    then show "effect d d'"
      using effect.agents [of d "filter (\<lambda>x. ag_Name x \<noteq> ag_Name a) (db_agents d) @ [a\<lparr>ag_RevokedAt := None\<rparr>]" "db_tick d"]
        distinct_filter_snoc [of ag_Name "db_agents d" "a\<lparr>ag_RevokedAt := None\<rparr>" "ag_Name a"] by auto
  qed simp
  let ?as = "map (\<lambda>a. if ag_Name a = n then a\<lparr>ag_RevokedAt := Some (now_at W d)\<rparr> else a) (db_agents d)"
  have "map ag_Name ?as = map ag_Name (db_agents d)" by (induction "db_agents d") auto
  then have "distinct (map ag_Name (db_agents d)) \<Longrightarrow> distinct (map ag_Name ?as)" by (simp only:)
  from effect.agents [where d = d and as = ?as and t = "db_tick d", OF this] have e: "effect d (d\<lparr>db_agents := ?as\<rparr>)" by simp
  show "effect d (snd (RevokeAgent W n d))"
    unfolding RevokeAgent_def Let_def
    by (intro db_bind_effect db_exec_effect) (use e in \<open>auto intro: db_bind_same\<close>)
qed

lemma CreateEscalation_effect:
  "es_Status e = ''pending'' \<Longrightarrow> effect d (snd (CreateEscalation W e d))"
  by (auto simp: CreateEscalation_def Let_def row_of_escalation_def intro!: db_bind_effect db_exec_effect
      dest!: insert_effects(3) [rotated])

lemma esc_Create_effect: "effect d (snd (esc_Create W sid q t a d))"
  unfolding esc_Create_def Let_def
  by (rule db_bind_effect) (simp_all add: CreateEscalation_effect)

lemma resolveEscalation_effect:
  assumes "s \<in> {''approved'', ''rejected''}"
  shows "effect d (snd (resolveEscalation W i s n d))"
proof -
  have e: "effect d d'" if "update_escalation i (\<lambda>r. r\<lparr>es_status := s, es_reason := nullableString n,
      es_resolved_at := Some w\<rparr>) d = Inr (k, d')" for k d' w
    using that effect.resolve [OF assms, where d = d and i = i and n = "nullableString n" and w = w and t = "db_tick d"]
    by (auto simp: update_escalation_def)
  have st: "same_tables d' (snd (case GetEscalationStatus W i d' of (Inl l, d) \<Rightarrow> (Inl (f l), d)
      | (Inr c, d) \<Rightarrow> (Inl (g c), d)))" for d' and f :: "gerr \<Rightarrow> gerr" and g :: "string \<Rightarrow> gerr"
    using reads_change_nothing(11) [of d' W i]
    by (cases "GetEscalationStatus W i d'"; cases "fst (GetEscalationStatus W i d')") auto
  show ?thesis
    unfolding resolveEscalation_def Let_def
    by (intro db_bind_effect db_exec_effect db_bind_same) (auto intro: e st)
qed

lemma resolve_effects:
  "effect d (snd (ApproveEscalation W i n d))" "effect d (snd (RejectEscalation W i n d))"
  "effect d (snd (esc_Approve W i n d))" "effect d (snd (esc_Reject W i n d))"
  by (simp_all add: ApproveEscalation_def RejectEscalation_def esc_Approve_def esc_Reject_def resolveEscalation_effect)

section \<open>AppendEvent\<close>

definition stamped :: "world \<Rightarrow> db \<Rightarrow> SessionEvent \<Rightarrow> SessionEvent" where
  "stamped W d e = (if e_RecordedAt e = 0 then e\<lparr>e_RecordedAt := now_at W d\<rparr> else e)"

lemma stamped_sel [simp]:
  "e_SessionID (stamped W d e) = e_SessionID e" "e_ToolName (stamped W d e) = e_ToolName e"
  "e_ArgumentsJSON (stamped W d e) = e_ArgumentsJSON e" "e_Decision (stamped W d e) = e_Decision e"
  "e_PolicyRule (stamped W d e) = e_PolicyRule e"
  by (simp_all add: stamped_def)

lemma AppendEvent_alt:
  "AppendEvent W event d =
     (let event = stamped W d event; sid = e_SessionID event; q = qw W sid
      in rollback d
        (db_bind (db_read W (''starting transaction for session '' @ q @ '' event'') (\<lambda>_. ()) d)
          (\<lambda>_ d. db_bind (db_read W (''computing next seq for session '' @ q) (\<lambda>d. max_seq d sid) d)
            (\<lambda>maxSeq d. let nextSeq = maxSeq + 1 in
              db_bind (db_exec W (''inserting event for session '' @ q)
                         (insert_event W (row_of_event nextSeq event)) d)
                (\<lambda>_ d. db_bind (db_read W (''committing event for session '' @ q) (\<lambda>_. ()) d)
                  (\<lambda>_ d. (Inr (event\<lparr>e_Seq := nextSeq\<rparr>), d)))))))"
  by (simp add: AppendEvent_def stamped_def Let_def)

lemma db_bind_Inr:
  "db_bind r k = (Inr y, d'') \<longleftrightarrow> (\<exists>x d'. r = (Inr x, d') \<and> k x d' = (Inr y, d''))"
  by (cases r; cases "fst r") (auto simp: db_bind_def)

lemma db_exec_Inr:
  "db_exec W msg f d = (Inr n, d') \<Longrightarrow> \<exists>d0. f d = Inr (n, d0) \<and> d' = tick d0"
  by (simp add: db_exec_def split: option.splits sum.splits prod.splits)

lemma rollback_cases:
  "rollback d0 r = (res, d') \<Longrightarrow> (\<exists>e. res = Inl e \<and> same_tables d0 d') \<or> (\<exists>x. res = Inr x \<and> r = (Inr x, d'))"
  by (cases r; cases "fst r") (auto simp: rollback_def same_tables_def)

lemma AppendEvent_cases:
  assumes "AppendEvent W e d = (res, d')"
  obtains (failed) err where "res = Inl err" "same_tables d d'"
  | (appended) e' where "res = Inr e'" "e' = (stamped W d e)\<lparr>e_Seq := Suc (max_seq d (e_SessionID e))\<rparr>"
      "e_SessionID e \<in> sr_ID ` set (db_sessions d)"
      "same_tables (d\<lparr>db_events := db_events d @ [row_of_event (e_Seq e') e']\<rparr>) d'"
proof -
  let ?e = "stamped W d e" and ?n = "Suc (max_seq d (e_SessionID e))"
  have row: "row_of_event n (?e\<lparr>e_Seq := m\<rparr>) = row_of_event n ?e" for n m by (simp add: row_of_event_def)
  from rollback_cases [OF assms [unfolded AppendEvent_alt Let_def]] show ?thesis
  proof (elim disjE exE conjE)
    fix err assume "res = Inl err" "same_tables d d'"
    then show ?thesis by (rule failed)
  next
    fix x
    assume x: "res = Inr x" and r: "db_bind (db_read W (''starting transaction for session '' @ qw W (e_SessionID ?e) @ '' event'') (\<lambda>_. ()) d)
          (\<lambda>_ d. db_bind (db_read W (''computing next seq for session '' @ qw W (e_SessionID ?e)) (\<lambda>d. max_seq d (e_SessionID ?e)) d)
            (\<lambda>maxSeq d.
              db_bind (db_exec W (''inserting event for session '' @ qw W (e_SessionID ?e))
                         (insert_event W (row_of_event (maxSeq + 1) ?e)) d)
                (\<lambda>_ d. db_bind (db_read W (''committing event for session '' @ qw W (e_SessionID ?e)) (\<lambda>_. ()) d)
                  (\<lambda>_ d. (Inr (?e\<lparr>e_Seq := maxSeq + 1\<rparr>), d))))) = (Inr x, d')"
    from r obtain k d0 where i: "insert_event W (row_of_event ?n ?e) (tick (tick d)) = Inr (k, d0)"
      and d': "d' = tick (tick d0)" "x = ?e\<lparr>e_Seq := ?n\<rparr>"
      by (auto simp: db_bind_Inr dest!: db_read_Inr db_exec_Inr simp: max_seq_def session_rows_def)
    show ?thesis
    proof (rule appended)
      show "res = Inr x" "x = ?e\<lparr>e_Seq := ?n\<rparr>" by (rule x, rule d')
      show "e_SessionID e \<in> sr_ID ` set (db_sessions d)"
        using i by (auto simp: insert_event_def row_of_event_def split: if_splits)
      show "same_tables (d\<lparr>db_events := db_events d @ [row_of_event (e_Seq x) x]\<rparr>) d'"
        using i d' row by (auto simp: insert_event_def same_tables_def tick_def split: if_splits)
    qed
  qed
qed

lemma AppendEvent_effect: "effect d (snd (AppendEvent W e d))"
proof -
  obtain res d' where r: "AppendEvent W e d = (res, d')" by fastforce
  then show ?thesis
  proof (cases rule: AppendEvent_cases)
    case (failed err)
    with r show ?thesis using effect_then_same [OF effect_refl] by simp
  next
    case (appended e')
    have "effect d (d\<lparr>db_events := db_events d @ [row_of_event (e_Seq e') e']\<rparr>)"
      using effect.new_event [of "row_of_event (e_Seq e') e'" d "db_tick d"] appended
      by (simp add: row_of_event_def)
    then have "effect d d'" using appended(4) by (rule effect_then_same)
    with r show ?thesis by simp
  qed
qed

section \<open>Every operation\<close>

text \<open>A call of one of the store's operations, with the database it leaves, whether or not it failed.\<close>

inductive store_call :: "world \<Rightarrow> db \<Rightarrow> db \<Rightarrow> bool" for W where
  "store_call W d (snd (CreateSession W i a f d))"
| "store_call W d (snd (UpdateSessionTaint W i b d))"
| "store_call W d (snd (IncrementSessionCounters W i c d))"
| "store_call W d (snd (TerminateSession W i d))"
| "store_call W d (snd (AppendEvent W e d))"
| "store_call W d (snd (UpsertAgent W ag d))"
| "store_call W d (snd (RevokeAgent W i d))"
| "store_call W d (snd (AppendAuditRecord W r d))"
| "store_call W d (snd (esc_Create W i q t s d))"
| "store_call W d (snd (esc_Approve W i n d))"
| "store_call W d (snd (esc_Reject W i n d))"
| "same_tables d d' \<Longrightarrow> store_call W d d'"

lemma store_call_effect: "store_call W d d' \<Longrightarrow> effect d d'"
  by (erule store_call.cases)
    (simp_all add: CreateSession_effect session_update_effects AppendEvent_effect agent_effects
      AppendAuditRecord_effect esc_Create_effect resolve_effects effect_then_same [OF effect_refl])

inductive effects :: "db \<Rightarrow> db \<Rightarrow> bool" where
  refl: "effects d d"
| step: "effects d d' \<Longrightarrow> effect d' d'' \<Longrightarrow> effects d d''"

lemma effects_single: "effect d d' \<Longrightarrow> effects d d'"
  by (rule effects.step [OF effects.refl])

lemma effects_trans: "effects b c \<Longrightarrow> effects a b \<Longrightarrow> effects a c"
  by (induction rule: effects.induct) (auto intro: effects.step)

inductive store_run :: "world \<Rightarrow> db \<Rightarrow> db \<Rightarrow> bool" for W where
  stop: "store_run W d d"
| call: "store_run W d d' \<Longrightarrow> store_call W d' d'' \<Longrightarrow> store_run W d d''"

lemma store_run_effects: "store_run W d d' \<Longrightarrow> effects d d'"
  by (induction rule: store_run.induct) (auto intro: effects.intros dest: store_call_effect)

section \<open>The invariant\<close>

definition numbered :: "db \<Rightarrow> string \<Rightarrow> bool" where
  "numbered d sid = (map ev_seq (session_rows d sid) = [1..<Suc (length (session_rows d sid))])"

definition wf_db :: "db \<Rightarrow> bool" where
  "wf_db d =
     (distinct (map sr_ID (db_sessions d))
      \<and> (\<forall>e \<in> set (db_events d). ev_session_id e \<in> sr_ID ` set (db_sessions d))
      \<and> (\<forall>sid. numbered d sid)
      \<and> distinct (map au_id (db_audit d))
      \<and> distinct (map ag_Name (db_agents d))
      \<and> distinct (map es_id (db_escalations d))
      \<and> (\<forall>r \<in> set (db_escalations d). es_status r \<in> {''pending'', ''approved'', ''rejected''}))"

lemma numbered_other [simp]:
  "numbered (d\<lparr>db_tick := t\<rparr>) sid = numbered d sid" "numbered (d\<lparr>db_sessions := ss\<rparr>) sid = numbered d sid"
  "numbered (d\<lparr>db_audit := as\<rparr>) sid = numbered d sid"
  "numbered (d\<lparr>db_agents := gs\<rparr>) sid = numbered d sid"
  "numbered (d\<lparr>db_escalations := es\<rparr>) sid = numbered d sid"
  by (simp_all add: numbered_def session_rows_def)

lemma fold_max_upt: "fold max [1..<Suc n] (0::nat) = n"
  by (induction n) auto

lemma numbered_max: "numbered d sid \<Longrightarrow> max_seq d sid = length (session_rows d sid)"
  unfolding numbered_def max_seq_def by (simp only: fold_max_upt)

lemma empty_db_wf [simp]: "wf_db empty_db"
  by (simp add: wf_db_def empty_db_def numbered_def session_rows_def)

lemma map_update_key:
  "(\<And>r. k (f r) = k r) \<Longrightarrow> map k (map (\<lambda>r. if P r then f r else r) xs) = map k xs"
  by (induction xs) auto

lemma wf_db_sessions:
  assumes "wf_db d" "map sr_ID ss = map sr_ID (db_sessions d)"
  shows "wf_db (d\<lparr>db_sessions := ss, db_tick := t\<rparr>)"
proof -
  have "sr_ID ` set ss = sr_ID ` set (db_sessions d)" using assms(2) by (metis list.set_map)
  with assms show ?thesis by (simp add: wf_db_def)
qed

lemma effect_wf: "effect d d' \<Longrightarrow> wf_db d \<Longrightarrow> wf_db d'"
proof (induction rule: effect.induct)
  case (advance_session f d t i)
  then have k: "sr_ID (f r) = sr_ID r" for r by (simp add: session_advance_def)
  show ?case by (rule wf_db_sessions [OF advance_session(2)], rule map_update_key, rule k)
next
  case (new_event r d t)
  have "numbered (d\<lparr>db_events := db_events d @ [r], db_tick := t\<rparr>) sid" for sid
  proof (cases "ev_session_id r = sid")
    case True
    with new_event numbered_max [of d sid] show ?thesis
      by (simp add: wf_db_def numbered_def session_rows_def)
  next
    case False
    with new_event show ?thesis by (simp add: wf_db_def numbered_def session_rows_def)
  qed
  with new_event show ?case by (simp add: wf_db_def)
next
  case (resolve s d t i w n)
  let ?es = "map (\<lambda>r. if es_id r = i \<and> es_status r = ''pending''
        then r\<lparr>es_status := s, es_reason := n, es_resolved_at := Some w\<rparr> else r) (db_escalations d)"
  have "map es_id ?es = map es_id (db_escalations d)" by (rule map_update_key) simp
  then have "distinct (map es_id ?es)" using resolve by (simp only: wf_db_def)
  with resolve show ?case by (auto simp: wf_db_def)
qed (auto simp: wf_db_def)

lemma effects_wf: "effects d d' \<Longrightarrow> wf_db d \<Longrightarrow> wf_db d'"
  by (induction rule: effects.induct) (auto intro: effect_wf)

section \<open>What never changes\<close>

lemma effect_prefix: "effect d d' \<Longrightarrow> prefix (db_audit d) (db_audit d') \<and> prefix (db_events d) (db_events d')"
  by (induction rule: effect.induct) auto

lemma effects_prefix: "effects d d' \<Longrightarrow> prefix (db_audit d) (db_audit d') \<and> prefix (db_events d) (db_events d')"
proof (induction rule: effects.induct)
  case (step d d' d'')
  with effect_prefix [OF step(2)] show ?case by (auto intro: prefix_order.trans)
qed simp

lemma session_advance_refl [simp]: "session_advance r r"
  by (simp add: session_advance_def)

lemma session_advance_trans: "session_advance a b \<Longrightarrow> session_advance b c \<Longrightarrow> session_advance a c"
  by (auto simp: session_advance_def)

lemma find_append: "find P xs = Some x \<Longrightarrow> find P (xs @ ys) = Some x"
  by (induction xs) auto

lemma find_map_update:
  "(\<And>r. P (f r) = P r) \<Longrightarrow> find P (map (\<lambda>r. if Q r then f r else r) xs) = map_option (\<lambda>r. if Q r then f r else r) (find P xs)"
  by (induction xs) auto

lemma effect_session:
  "effect d d' \<Longrightarrow> find_session d i = Some r \<Longrightarrow> \<exists>r'. find_session d' i = Some r' \<and> session_advance r r'"
proof (induction rule: effect.induct)
  case (advance_session f d t j)
  have "(sr_ID (f r) = i) = (sr_ID r = i)" for r using advance_session(1) [of r] by (simp add: session_advance_def)
  from find_map_update [of "\<lambda>r. sr_ID r = i" f "\<lambda>r. sr_ID r = j", OF this] advance_session
  show ?case by (auto simp: find_session_def)
qed (auto simp: find_session_def find_append)

lemma effects_session:
  "effects d d' \<Longrightarrow> find_session d i = Some r \<Longrightarrow> \<exists>r'. find_session d' i = Some r' \<and> session_advance r r'"
  by (induction rule: effects.induct) (use effect_session session_advance_trans in fastforce)+

text \<open>An escalation row keeps what it was created for; once resolved it keeps everything.\<close>

definition escalation_advance :: "escalation_row \<Rightarrow> escalation_row \<Rightarrow> bool" where
  "escalation_advance r r' =
     (es_id r' = es_id r \<and> es_session_id r' = es_session_id r \<and> es_seq r' = es_seq r
      \<and> es_tool_name r' = es_tool_name r \<and> es_arguments_json r' = es_arguments_json r
      \<and> es_created_at r' = es_created_at r \<and> (es_status r \<noteq> ''pending'' \<longrightarrow> r' = r))"

lemma escalation_advance_refl [simp]: "escalation_advance r r"
  by (simp add: escalation_advance_def)

lemma escalation_advance_trans: "escalation_advance a b \<Longrightarrow> escalation_advance b c \<Longrightarrow> escalation_advance a c"
  by (auto simp: escalation_advance_def)

lemma effect_escalation:
  "effect d d' \<Longrightarrow> find_escalation d i = Some r \<Longrightarrow> \<exists>r'. find_escalation d' i = Some r' \<and> escalation_advance r r'"
proof (induction rule: effect.induct)
  case (resolve s d t j w n)
  have "(es_id (r\<lparr>es_status := s, es_reason := n, es_resolved_at := Some w\<rparr>) = i) = (es_id r = i)" for r :: escalation_row by simp
  from find_map_update [of "\<lambda>r. es_id r = i" "\<lambda>r. r\<lparr>es_status := s, es_reason := n, es_resolved_at := Some w\<rparr>"
      "\<lambda>r. es_id r = j \<and> es_status r = ''pending''", OF this, of "db_escalations d"] resolve(2)
  show ?case by (simp add: find_escalation_def escalation_advance_def)
qed (auto simp: find_escalation_def find_append)

lemma effects_escalation:
  "effects d d' \<Longrightarrow> find_escalation d i = Some r \<Longrightarrow> \<exists>r'. find_escalation d' i = Some r' \<and> escalation_advance r r'"
  by (induction rule: effects.induct) (use effect_escalation escalation_advance_trans in fastforce)+

section \<open>A sample world\<close>

definition sample_world :: world where
  "sample_world =
     \<lparr>w_lib = sample_lib, w_fault = (\<lambda>_. None), w_constraint = (\<lambda>c. errorf c),
      w_clock = (\<lambda>n. 1000 + int n), w_uuid = (\<lambda>n. CHR ''u'' # dec (int n))\<rparr>"

text \<open>A session with one read, one pending and then approved escalation of a transfer.\<close>

definition sample_db0 :: db where
  "sample_db0 = snd (AppendEvent sample_world
     \<lparr>e_Seq = 0, e_SessionID = ''s1'', e_ToolName = ''read'', e_ArgumentsJSON = ''5'', e_Decision = ''allow'',
      e_PolicyRule = [], e_RecordedAt = 0\<rparr>
     (snd (CreateSession sample_world ''s1'' ''pay'' ''fp'' empty_db)))"

definition sample_db1 :: db where
  "sample_db1 = snd (esc_Approve sample_world ''u5'' ''ok'' (snd (esc_Create sample_world ''s1'' 2 ''wire'' ''900'' sample_db0)))"

lemma sample_runs: "store_run sample_world empty_db sample_db0" "store_run sample_world sample_db0 sample_db1"
  unfolding sample_db0_def sample_db1_def
  by (rule store_run.call [OF store_run.call [OF store_run.stop]]; rule store_call.intros)+

section \<open>Properties\<close>

text \<open>C14: the database stays well formed under every sequence of store operations and every pattern of
  failures: session, audit, agent and escalation keys are unique, every event belongs to a session, the
  events of a session are numbered 1, 2, 3, ... in insertion order without gaps, and an escalation is
  pending, approved or rejected.\<close>

theorem store_invariant:
  assumes "store_run W empty_db d"
  shows "wf_db d"
  using effects_wf [OF store_run_effects [OF assms]] by simp

theorem store_invariant_witness: "wf_db sample_db0 \<and> map ev_seq (db_events sample_db0) = [1]"
proof -
  have "map ev_seq (db_events sample_db0) = [1]" by code_simp
  with store_invariant [OF sample_runs(1)] show ?thesis by simp
qed

text \<open>The audit log and the event log are append-only: whatever operations run, in any order and
  with any failures, the earlier log is a prefix of the later one.\<close>

theorem logs_append_only:
  assumes "store_run W d d'"
  shows "prefix (db_audit d) (db_audit d') \<and> prefix (db_events d) (db_events d')"
  using store_run_effects [OF assms] by (rule effects_prefix)

theorem logs_append_only_witness: "prefix (db_events sample_db0) (db_events sample_db1)"
  using logs_append_only [OF sample_runs(2)] by simp

text \<open>C15: an escalation is resolved at most once. It never loses the session, tool and arguments it was
  raised for, and once approved or rejected no later operation changes any of it.\<close>

theorem escalation_resolved_once:
  assumes "store_run W d d'" "find_escalation d i = Some r"
  shows "\<exists>r'. find_escalation d' i = Some r' \<and> es_session_id r' = es_session_id r
    \<and> es_tool_name r' = es_tool_name r \<and> es_arguments_json r' = es_arguments_json r
    \<and> (es_status r \<noteq> ''pending'' \<longrightarrow> r' = r)"
  using effects_escalation [OF store_run_effects [OF assms(1)] assms(2)]
  by (auto simp: escalation_advance_def)

theorem escalation_resolved_once_witness:
  "\<exists>r'. find_escalation (snd (esc_Reject sample_world ''u5'' ''no'' sample_db1)) ''u5'' = Some r' \<and> es_status r' = ''approved''"
proof -
  have run: "store_run sample_world sample_db1 (snd (esc_Reject sample_world ''u5'' ''no'' sample_db1))"
    by (rule store_run.call [OF store_run.stop]) (rule store_call.intros)
  have "map_option es_status (find_escalation sample_db1 ''u5'') = Some ''approved''" by code_simp
  then obtain r where r: "find_escalation sample_db1 ''u5'' = Some r" "es_status r = ''approved''" by auto
  from escalation_resolved_once [OF run r(1)] r(2) show ?thesis by auto
qed

text \<open>A session keeps its agent, its policy fingerprint and its creation time for ever, its call
  count never falls, and a terminated session stays terminated.\<close>

theorem session_monotone:
  assumes "store_run W d d'" "find_session d i = Some r"
  shows "\<exists>r'. find_session d' i = Some r' \<and> sr_AgentName r' = sr_AgentName r
    \<and> sr_PolicyFingerprint r' = sr_PolicyFingerprint r \<and> sr_CreatedAt r' = sr_CreatedAt r
    \<and> sr_ToolCallCount r \<le> sr_ToolCallCount r' \<and> (sr_Terminated r \<longrightarrow> sr_Terminated r')"
  using effects_session [OF store_run_effects [OF assms(1)] assms(2)]
  by (auto simp: session_advance_def)

theorem session_monotone_witness:
  "\<exists>r'. find_session (snd (TerminateSession sample_world ''s1'' sample_db1)) ''s1'' = Some r' \<and> sr_AgentName r' = ''pay''"
proof -
  have run: "store_run sample_world sample_db1 (snd (TerminateSession sample_world ''s1'' sample_db1))"
    by (rule store_run.call [OF store_run.stop]) (rule store_call.intros)
  have "map_option sr_AgentName (find_session sample_db1 ''s1'') = Some ''pay''" by code_simp
  then obtain r where r: "find_session sample_db1 ''s1'' = Some r" "sr_AgentName r = ''pay''" by auto
  from session_monotone [OF run r(1)] r(2) show ?thesis by auto
qed

end
