(* ===== verification/TB_Base64.thy ===== *)
theory TB_Base64
  imports TB_Prelude
begin

text \<open>
  The two \<open>encoding/base64\<close> codecs the program uses: \<open>StdEncoding\<close> for audit signatures and
  \<open>RawURLEncoding\<close> for JWT segments. A decoder skips carriage returns and newlines, wants the
  padding exactly where the standard encoding puts it and ignores trailing bits, as Go's
  non-strict decoder does.
\<close>

section \<open>Codecs\<close>

datatype b64 = StdEncoding | RawURLEncoding

definition b64_letters :: string where
  "b64_letters = ''ABCDEFGHIJKLMNOPQRSTUVWXYZabcdefghijklmnopqrstuvwxyz0123456789''"

fun b64_alphabet :: "b64 \<Rightarrow> string" where
  "b64_alphabet StdEncoding = b64_letters @ ''+/''"
| "b64_alphabet RawURLEncoding = b64_letters @ ''-_''"

fun b64_pad :: "b64 \<Rightarrow> nat \<Rightarrow> string" where
  "b64_pad StdEncoding n = replicate n (CHR ''='')"
| "b64_pad RawURLEncoding n = []"

definition b64_char :: "b64 \<Rightarrow> nat \<Rightarrow> char" where
  "b64_char e n = b64_alphabet e ! n"

fun index_of :: "'a \<Rightarrow> 'a list \<Rightarrow> nat option" where
  "index_of x [] = None"
| "index_of x (y # ys) = (if x = y then Some 0 else map_option Suc (index_of x ys))"

definition b64_value :: "b64 \<Rightarrow> char \<Rightarrow> nat option" where
  "b64_value e c = index_of c (b64_alphabet e)"

text \<open>The four sextets of three octets, and back.\<close>

definition sextet1 :: "nat \<Rightarrow> nat" where "sextet1 a = a div 4"
definition sextet2 :: "nat \<Rightarrow> nat \<Rightarrow> nat" where "sextet2 a b = a mod 4 * 16 + b div 16"
definition sextet3 :: "nat \<Rightarrow> nat \<Rightarrow> nat" where "sextet3 b c = b mod 16 * 4 + c div 64"
definition sextet4 :: "nat \<Rightarrow> nat" where "sextet4 c = c mod 64"
definition octet1 :: "nat \<Rightarrow> nat \<Rightarrow> nat" where "octet1 x y = x * 4 + y div 16"
definition octet2 :: "nat \<Rightarrow> nat \<Rightarrow> nat" where "octet2 y z = y mod 16 * 16 + z div 4"
definition octet3 :: "nat \<Rightarrow> nat \<Rightarrow> nat" where "octet3 z w = z mod 4 * 64 + w"

fun b64_groups :: "b64 \<Rightarrow> nat list \<Rightarrow> string" where
  "b64_groups e (a # b # c # rest) =
     [b64_char e (sextet1 a), b64_char e (sextet2 a b), b64_char e (sextet3 b c), b64_char e (sextet4 c)]
     @ b64_groups e rest"
| "b64_groups e [a, b] =
     [b64_char e (sextet1 a), b64_char e (sextet2 a b), b64_char e (sextet3 b 0)] @ b64_pad e 1"
| "b64_groups e [a] = [b64_char e (sextet1 a), b64_char e (sextet2 a 0)] @ b64_pad e 2"
| "b64_groups e [] = []"

definition b64_EncodeToString :: "b64 \<Rightarrow> string \<Rightarrow> string" where
  "b64_EncodeToString e s = b64_groups e (map of_char s)"

definition two_of :: "b64 \<Rightarrow> char \<Rightarrow> char \<Rightarrow> nat option" where
  "two_of e a b = (case (b64_value e a, b64_value e b) of (Some x, Some y) \<Rightarrow> Some (octet1 x y) | _ \<Rightarrow> None)"

definition next_of :: "b64 \<Rightarrow> char \<Rightarrow> char \<Rightarrow> nat option" where
  "next_of e b c = (case (b64_value e b, b64_value e c) of (Some y, Some z) \<Rightarrow> Some (octet2 y z) | _ \<Rightarrow> None)"

definition third_of :: "b64 \<Rightarrow> char \<Rightarrow> char \<Rightarrow> nat option" where
  "third_of e c d = (case (b64_value e c, b64_value e d) of (Some z, Some w) \<Rightarrow> Some (octet3 z w) | _ \<Rightarrow> None)"

definition last_one :: "b64 \<Rightarrow> char \<Rightarrow> char \<Rightarrow> nat list option" where
  "last_one e a b = map_option (\<lambda>x. [x]) (two_of e a b)"

definition last_two :: "b64 \<Rightarrow> char \<Rightarrow> char \<Rightarrow> char \<Rightarrow> nat list option" where
  "last_two e a b c =
     (case (two_of e a b, next_of e b c) of (Some x, Some y) \<Rightarrow> Some [x, y] | _ \<Rightarrow> None)"

text \<open>One quantum of four characters after another; the last may be padded or short.\<close>

fun b64_quanta :: "b64 \<Rightarrow> string \<Rightarrow> nat list option" where
  "b64_quanta e [] = Some []"
| "b64_quanta e [a] = None"
| "b64_quanta e [a, b] = (if e = RawURLEncoding then last_one e a b else None)"
| "b64_quanta e [a, b, c] = (if e = RawURLEncoding then last_two e a b c else None)"
| "b64_quanta e (a # b # c # d # rest) =
     (if e = StdEncoding \<and> d = CHR ''='' \<and> rest = [] then
        (if c = CHR ''='' then last_one e a b else last_two e a b c)
      else
        (case (two_of e a b, next_of e b c, third_of e c d, b64_quanta e rest) of
           (Some x, Some y, Some z, Some zs) \<Rightarrow> Some (x # y # z # zs)
         | _ \<Rightarrow> None))"

definition is_newline :: "char \<Rightarrow> bool" where
  "is_newline c = (of_char c = (10 :: nat) \<or> of_char c = (13 :: nat))"

definition b64_DecodeString :: "b64 \<Rightarrow> string \<Rightarrow> string option" where
  "b64_DecodeString e s = map_option (map char_of) (b64_quanta e (filter (\<lambda>c. \<not> is_newline c) s))"

section \<open>The alphabet\<close>

definition b64_entry_ok :: "b64 \<Rightarrow> nat \<Rightarrow> bool" where
  "b64_entry_ok e n = (b64_value e (b64_char e n) = Some n \<and> b64_char e n \<noteq> CHR ''='' \<and> \<not> is_newline (b64_char e n))"

lemma b64_value_table: "list_all (b64_entry_ok e) [0..<64]"
proof (cases e)
  case StdEncoding
  have "list_all (b64_entry_ok StdEncoding) [0..<64]" by code_simp
  with StdEncoding show ?thesis by (simp only:)
next
  case RawURLEncoding
  have "list_all (b64_entry_ok RawURLEncoding) [0..<64]" by code_simp
  with RawURLEncoding show ?thesis by (simp only:)
qed

lemma b64_value_char [simp]: "n < 64 \<Longrightarrow> b64_value e (b64_char e n) = Some n"
  and b64_char_neq_pad [simp]: "n < 64 \<Longrightarrow> b64_char e n \<noteq> CHR ''=''"
  and b64_char_newline [simp]: "n < 64 \<Longrightarrow> \<not> is_newline (b64_char e n)"
  using b64_value_table [of e] by (simp_all add: list_all_iff b64_entry_ok_def)

lemma b64_pad_newline [simp]: "\<not> is_newline (CHR ''='')"
  by (simp add: is_newline_def)

lemma pack:
  fixes r s k m :: nat
  assumes "s < k"
  shows "(r * k + s) div k = r" "(r * k + s) mod k = s"
  using assms by simp_all

lemma sextets [simp]:
  "a < 256 \<Longrightarrow> sextet1 a < 64" "b < 256 \<Longrightarrow> sextet2 a b < 64" "c < 256 \<Longrightarrow> sextet3 b c < 64" "sextet4 c < 64"
proof -
  have m: "a mod 4 < 4" "b mod 16 < 16" by simp_all
  show "a < 256 \<Longrightarrow> sextet1 a < 64" by (simp add: sextet1_def less_mult_imp_div_less)
  have "b < 256 \<Longrightarrow> b div 16 < 16" by (simp add: less_mult_imp_div_less)
  with m(1) show "b < 256 \<Longrightarrow> sextet2 a b < 64" by (simp add: sextet2_def)
  have "c < 256 \<Longrightarrow> c div 64 < 4" by (simp add: less_mult_imp_div_less)
  with m(2) show "c < 256 \<Longrightarrow> sextet3 b c < 64" by (simp add: sextet3_def)
  show "sextet4 c < 64" by (simp add: sextet4_def)
qed

lemma octets [simp]:
  "b < 256 \<Longrightarrow> octet1 (sextet1 a) (sextet2 a b) = a"
  "b < 256 \<Longrightarrow> c < 256 \<Longrightarrow> octet2 (sextet2 a b) (sextet3 b c) = b"
  "c < 256 \<Longrightarrow> octet3 (sextet3 b c) (sextet4 c) = c"
proof -
  assume b: "b < 256"
  then have q: "b div 16 < 16" by (simp add: less_mult_imp_div_less)
  show "octet1 (sextet1 a) (sextet2 a b) = a"
    unfolding octet1_def sextet1_def sextet2_def pack [OF q] by simp
next
  assume b: "b < 256" and c: "c < 256"
  then have q: "b div 16 < 16" and r: "c div 64 < 4" by (simp_all add: less_mult_imp_div_less)
  show "octet2 (sextet2 a b) (sextet3 b c) = b"
    unfolding octet2_def sextet2_def sextet3_def pack [OF q] pack [OF r] by simp
next
  assume c: "c < 256"
  then have r: "c div 64 < 4" by (simp add: less_mult_imp_div_less)
  show "octet3 (sextet3 b c) (sextet4 c) = c"
    unfolding octet3_def sextet3_def sextet4_def pack [OF r] by simp
qed

section \<open>Round trip\<close>

lemma b64_pad_newlines: "filter (\<lambda>c. \<not> is_newline c) (b64_pad e n) = b64_pad e n"
  by (cases e) simp_all

lemma b64_groups_newlines:
  "\<forall>x \<in> set xs. x < 256 \<Longrightarrow> filter (\<lambda>c. \<not> is_newline c) (b64_groups e xs) = b64_groups e xs"
  by (induction e xs rule: b64_groups.induct) (simp_all add: b64_pad_newlines)

lemma two_of_sextets: "a < 256 \<Longrightarrow> b < 256 \<Longrightarrow> two_of e (b64_char e (sextet1 a)) (b64_char e (sextet2 a b)) = Some a"
  by (simp add: two_of_def)

lemma next_of_sextets:
  "b < 256 \<Longrightarrow> c < 256 \<Longrightarrow> next_of e (b64_char e (sextet2 a b)) (b64_char e (sextet3 b c)) = Some b"
  by (simp add: next_of_def)

lemma third_of_sextets: "c < 256 \<Longrightarrow> third_of e (b64_char e (sextet3 b c)) (b64_char e (sextet4 c)) = Some c"
  by (simp add: third_of_def)

lemmas of_sextets = two_of_sextets next_of_sextets third_of_sextets

lemma b64_quanta_groups:
  "\<forall>x \<in> set xs. x < 256 \<Longrightarrow> b64_quanta e (b64_groups e xs) = Some xs"
proof (induction e xs rule: b64_groups.induct)
  case (1 e a b c rest)
  then show ?case by (simp add: of_sextets)
next
  case (2 e a b)
  then show ?case by (cases e) (simp_all add: last_two_def of_sextets)
next
  case (3 e a)
  then show ?case by (cases e) (simp_all add: last_one_def of_sextets numeral_2_eq_2)
qed simp

lemma b64_roundtrip [simp]: "b64_DecodeString e (b64_EncodeToString e s) = Some s"
proof -
  have b: "\<forall>x \<in> set (map of_char s :: nat list). x < 256"
    by auto
  have "map char_of (map of_char s :: nat list) = s" by (induction s) simp_all
  then show ?thesis
    by (simp add: b64_DecodeString_def b64_EncodeToString_def b64_groups_newlines [OF b] b64_quanta_groups [OF b])
qed

end
