(* ===== verification/TB_Audit.thy ===== *)
theory TB_Audit
  imports TB_StoreFacts TB_Base64
begin

text \<open>
  Signed audit records (\<open>internal/audit\<close>): the canonical JSON of a record, signing, verification
  and writing. Ed25519 is a parameter; what the audit trail relies on of it is stated
  in \<open>key_pair\<close> and \<open>verifies_only\<close>.
\<close>

section \<open>Signing and verification (sign.go)\<close>

text \<open>
  \<open>cr_sign\<close> and \<open>cr_verify\<close> are \<open>ed25519.Sign\<close> and \<open>ed25519.Verify\<close> on keys of the right length;
  \<open>cr_b64_error\<close> is the text of \<open>base64.CorruptInputError\<close>.
\<close>

record crypto =
  cr_sign :: "string \<Rightarrow> string \<Rightarrow> string"
  cr_verify :: "string \<Rightarrow> string \<Rightarrow> string \<Rightarrow> bool"
  cr_b64_error :: "string \<Rightarrow> string"

text \<open>\<open>json.Marshal\<close> of a map: its keys in byte order.\<close>

definition json_map :: "(string \<times> json) list \<Rightarrow> json" where
  "json_map m = J_obj (sort_key fst m)"

definition canonical_fields :: "AuditRecord \<Rightarrow> (string \<times> json) list" where
  "canonical_fields r =
     [(''agent_jwt_sha256'', J_str (r_AgentJWTSHA256 r)),
      (''agent_name'', J_str (r_AgentName r)),
      (''arguments_sha256'', J_str (r_ArgumentsSHA256 r)),
      (''decision'', J_str (r_Decision r)),
      (''id'', J_str (r_ID r)),
      (''policy_fingerprint'', J_str (r_PolicyFingerprint r)),
      (''recorded_at'', J_num (of_int (r_RecordedAt r))),
      (''seq'', J_num (of_nat (r_Seq r))),
      (''session_id'', J_str (r_SessionID r)),
      (''tool_name'', J_str (r_ToolName r))]
     @ (if r_ClientTraceID r \<noteq> [] then [(''client_trace_id'', J_str (r_ClientTraceID r))] else [])
     @ (if r_DecisionReason r \<noteq> [] then [(''decision_reason'', J_str (r_DecisionReason r))] else [])
     @ (if r_DelegationChain r \<noteq> [] then [(''delegation_chain'', J_str (r_DelegationChain r))] else [])"

text \<open>Marshalling strings and integers cannot fail.\<close>

definition canonicalJSON :: "lib \<Rightarrow> AuditRecord \<Rightarrow> gerr + string" where
  "canonicalJSON L r = Inr (l_json_text L (json_map (canonical_fields r)))"

definition Sign :: "lib \<Rightarrow> crypto \<Rightarrow> AuditRecord \<Rightarrow> string \<Rightarrow> gerr + AuditRecord" where
  "Sign L C rec privateKey =
     (case canonicalJSON L rec of
        Inl e \<Rightarrow> Inl (wrapf (''computing canonical JSON for record '' @ r_ID rec) e)
      | Inr payload \<Rightarrow> Inr (rec\<lparr>r_Signature := b64_EncodeToString StdEncoding (cr_sign C privateKey payload)\<rparr>))"

definition Verify :: "lib \<Rightarrow> crypto \<Rightarrow> AuditRecord \<Rightarrow> string \<Rightarrow> gerr option" where
  "Verify L C rec publicKey =
     (if r_Signature rec = [] then Some (errorf (''record '' @ r_ID rec @ '' has no signature''))
      else
        (case canonicalJSON L rec of
           Inl e \<Rightarrow> Some (wrapf (''computing canonical JSON for record '' @ r_ID rec) e)
         | Inr payload \<Rightarrow>
             (case b64_DecodeString StdEncoding (r_Signature rec) of
                None \<Rightarrow> Some (wrapf (''decoding signature for record '' @ r_ID rec) (errorf (cr_b64_error C (r_Signature rec))))
              | Some sigBytes \<Rightarrow>
                  (if cr_verify C publicKey payload sigBytes then None
                   else Some (errorf (''signature verification failed for record '' @ r_ID rec))))))"

section \<open>Writing (write.go)\<close>

definition audit_Write :: "world \<Rightarrow> AuditRecord \<Rightarrow> db \<Rightarrow> (gerr + unit) \<times> db" where
  "audit_Write W rec d = db_wrap (''writing audit record '' @ r_ID rec) (AppendAuditRecord W rec d)"

section \<open>The canonical form\<close>

text \<open>The signed content of a record: every field but the signature.\<close>

definition same_content :: "AuditRecord \<Rightarrow> AuditRecord \<Rightarrow> bool" where
  "same_content r r' \<longleftrightarrow> r\<lparr>r_Signature := []\<rparr> = r'\<lparr>r_Signature := []\<rparr>"

lemma same_contentI:
  assumes "r_ID r = r_ID r'" "r_SessionID r = r_SessionID r'" "r_Seq r = r_Seq r'" "r_AgentName r = r_AgentName r'"
    "r_ToolName r = r_ToolName r'" "r_ArgumentsSHA256 r = r_ArgumentsSHA256 r'" "r_Decision r = r_Decision r'"
    "r_DecisionReason r = r_DecisionReason r'" "r_PolicyFingerprint r = r_PolicyFingerprint r'"
    "r_AgentJWTSHA256 r = r_AgentJWTSHA256 r'" "r_ClientTraceID r = r_ClientTraceID r'"
    "r_DelegationChain r = r_DelegationChain r'" "r_RecordedAt r = r_RecordedAt r'"
  shows "same_content r r'"
  using assms by (simp add: same_content_def)

lemma canonical_signature [simp]: "canonicalJSON L (r\<lparr>r_Signature := s\<rparr>) = canonicalJSON L r"
  by (simp add: canonicalJSON_def canonical_fields_def)

lemma canonical_fields_distinct: "distinct (map fst (canonical_fields r))"
  by (simp add: canonical_fields_def)

lemma canonical_fields_inj:
  assumes eq: "map_of (canonical_fields r) = map_of (canonical_fields r')"
  shows "same_content r r'"
proof (rule same_contentI)
  note at = fun_cong [OF eq]
  show "r_ID r = r_ID r'" using at [of "''id''"] by (simp add: canonical_fields_def)
  show "r_SessionID r = r_SessionID r'" using at [of "''session_id''"] by (simp add: canonical_fields_def)
  show "r_Seq r = r_Seq r'" using at [of "''seq''"] by (simp add: canonical_fields_def)
  show "r_AgentName r = r_AgentName r'" using at [of "''agent_name''"] by (simp add: canonical_fields_def)
  show "r_ToolName r = r_ToolName r'" using at [of "''tool_name''"] by (simp add: canonical_fields_def)
  show "r_ArgumentsSHA256 r = r_ArgumentsSHA256 r'" using at [of "''arguments_sha256''"] by (simp add: canonical_fields_def)
  show "r_Decision r = r_Decision r'" using at [of "''decision''"] by (simp add: canonical_fields_def)
  show "r_PolicyFingerprint r = r_PolicyFingerprint r'" using at [of "''policy_fingerprint''"] by (simp add: canonical_fields_def)
  show "r_AgentJWTSHA256 r = r_AgentJWTSHA256 r'" using at [of "''agent_jwt_sha256''"] by (simp add: canonical_fields_def)
  show "r_RecordedAt r = r_RecordedAt r'" using at [of "''recorded_at''"] by (simp add: canonical_fields_def)
  show "r_ClientTraceID r = r_ClientTraceID r'"
    using at [of "''client_trace_id''"] by (simp add: canonical_fields_def split: if_splits)
  show "r_DecisionReason r = r_DecisionReason r'"
    using at [of "''decision_reason''"] by (simp add: canonical_fields_def split: if_splits)
  show "r_DelegationChain r = r_DelegationChain r'"
    using at [of "''delegation_chain''"] by (simp add: canonical_fields_def split: if_splits)
qed

lemma json_map_inj:
  assumes "json_map (canonical_fields r) = json_map (canonical_fields r')"
  shows "same_content r r'"
proof (rule canonical_fields_inj)
  from assms have "map_of (sort_key fst (canonical_fields r)) = map_of (sort_key fst (canonical_fields r'))"
    by (simp add: json_map_def)
  then show "map_of (canonical_fields r) = map_of (canonical_fields r')"
    by (simp add: map_of_sort_key canonical_fields_distinct)
qed

section \<open>What the trail relies on\<close>

text \<open>
  Ed25519 as documented: a signature made with the private key verifies under its public key, and
  a payload verifies only if the key's owner signed it. Of the JSON encoder: two maps of strings
  and integers have the same text only if they are equal, which holds of valid UTF-8 strings.
\<close>

definition key_pair :: "crypto \<Rightarrow> string \<Rightarrow> string \<Rightarrow> bool" where
  "key_pair C priv pub \<longleftrightarrow> (\<forall>m. cr_verify C pub m (cr_sign C priv m) \<and> cr_sign C priv m \<noteq> [])"

definition verifies_only :: "crypto \<Rightarrow> string \<Rightarrow> string set \<Rightarrow> bool" where
  "verifies_only C pub S \<longleftrightarrow> (\<forall>m s. cr_verify C pub m s \<longrightarrow> m \<in> S)"

definition payload_of :: "lib \<Rightarrow> AuditRecord \<Rightarrow> string" where
  "payload_of L r = l_json_text L (json_map (canonical_fields r))"

definition texts_differ :: "lib \<Rightarrow> AuditRecord set \<Rightarrow> bool" where
  "texts_differ L R \<longleftrightarrow> (\<forall>r \<in> R. \<forall>r' \<in> R. payload_of L r = payload_of L r' \<longrightarrow>
     json_map (canonical_fields r) = json_map (canonical_fields r'))"

lemma texts_differD:
  "texts_differ L R \<Longrightarrow> r \<in> R \<Longrightarrow> r' \<in> R \<Longrightarrow> payload_of L r = payload_of L r' \<Longrightarrow>
   json_map (canonical_fields r) = json_map (canonical_fields r')"
  unfolding texts_differ_def by blast

lemma canonicalJSON_payload: "canonicalJSON L r = Inr (payload_of L r)"
  by (simp add: canonicalJSON_def payload_of_def)

lemma payload_of_signature [simp]: "payload_of L (r\<lparr>r_Signature := s\<rparr>) = payload_of L r"
  by (simp add: payload_of_def canonical_fields_def)

lemma Verify_None:
  "Verify L C rec pub = None \<longleftrightarrow>
     r_Signature rec \<noteq> [] \<and>
     (\<exists>s. b64_DecodeString StdEncoding (r_Signature rec) = Some s \<and> cr_verify C pub (payload_of L rec) s)"
  by (simp add: Verify_def canonicalJSON_payload split: option.split)

lemma b64_nonempty: "s \<noteq> [] \<Longrightarrow> b64_EncodeToString e s \<noteq> []"
proof
  assume s: "s \<noteq> []" "b64_EncodeToString e s = []"
  have "b64_DecodeString e [] = Some []" by (simp add: b64_DecodeString_def)
  with b64_roundtrip [of e s] s show False by simp
qed

text \<open>
  A concrete scheme for the witnesses: one key pair whose signature of a payload tags it and which
  signs one payload only.
\<close>

definition sample_json_text :: "json \<Rightarrow> string" where
  "sample_json_text j = (case j of
     J_obj fs \<Rightarrow> concat (map (\<lambda>(k, v). k @ '':'' @ (case v of J_str s \<Rightarrow> s | _ \<Rightarrow> ''#'') @ '';'') fs) | _ \<Rightarrow> [])"

definition sample_audit_lib :: lib where
  "sample_audit_lib = sample_lib\<lparr>l_json_text := sample_json_text\<rparr>"

definition sample_record :: AuditRecord where
  "sample_record =
     \<lparr>r_ID = ''r1'', r_SessionID = ''s1'', r_Seq = 1, r_AgentName = ''pay'', r_ToolName = ''wire'',
      r_ArgumentsSHA256 = ''h'', r_Decision = ''deny'', r_DecisionReason = ''no'', r_PolicyFingerprint = ''fp'',
      r_AgentJWTSHA256 = ''hj'', r_ClientTraceID = [], r_DelegationChain = [], r_RecordedAt = 7, r_Signature = []\<rparr>"

definition sample_crypto :: "string set \<Rightarrow> crypto" where
  "sample_crypto S =
     \<lparr>cr_sign = (\<lambda>k m. CHR ''S'' # m), cr_verify = (\<lambda>k m s. s = CHR ''S'' # m \<and> m \<in> S), cr_b64_error = (\<lambda>_. ''illegal base64 data'')\<rparr>"

section \<open>Properties\<close>

text \<open>A record signed with the proxy's key verifies under its public key, and signing changes
  nothing but the signature.\<close>

theorem audit_sign_verify:
  assumes "key_pair C priv pub" "Sign L C rec priv = Inr rec'"
  shows "Verify L C rec' pub = None \<and> same_content rec' rec"
  using assms by (auto simp: Sign_def canonicalJSON_payload Verify_None key_pair_def b64_nonempty same_content_def)

lemma audit_sign_verify_witness:
  "Verify sample_lib (sample_crypto UNIV)
     (sample_record\<lparr>r_Signature := b64_EncodeToString StdEncoding (CHR ''S'' # payload_of sample_lib sample_record)\<rparr>) ''pub'' = None"
proof -
  have "key_pair (sample_crypto UNIV) ''priv'' ''pub''" by (simp add: key_pair_def sample_crypto_def)
  moreover have "Sign sample_lib (sample_crypto UNIV) sample_record ''priv''
      = Inr (sample_record\<lparr>r_Signature := b64_EncodeToString StdEncoding (CHR ''S'' # payload_of sample_lib sample_record)\<rparr>)"
    by (simp add: Sign_def canonicalJSON_payload sample_crypto_def)
  ultimately show ?thesis using audit_sign_verify by blast
qed

text \<open>C13: The audit log is tamper evident. If the key signed the payloads of the records in \<open>R\<close> and
  nothing else, every record that verifies has the content of a record in \<open>R\<close>: changing, adding or
  clearing any field of a signed record, the optional ones included, makes verification fail.\<close>

theorem audit_tamper_evident:
  assumes "verifies_only C pub (payload_of L ` R)" "texts_differ L (insert rec R)" "Verify L C rec pub = None"
  shows "\<exists>r \<in> R. same_content r rec"
proof -
  obtain s where "cr_verify C pub (payload_of L rec) s" using assms(3) by (auto simp: Verify_None)
  with assms(1) obtain r where r: "r \<in> R" "payload_of L rec = payload_of L r" by (auto simp: verifies_only_def)
  have "json_map (canonical_fields r) = json_map (canonical_fields rec)"
    by (rule texts_differD [OF assms(2)]) (use r in simp_all)
  with r(1) json_map_inj show ?thesis by blast
qed

lemma audit_tamper_evident_witness:
  "\<exists>r \<in> {sample_record}. same_content r
     (sample_record\<lparr>r_Signature := b64_EncodeToString StdEncoding (CHR ''S'' # payload_of sample_lib sample_record)\<rparr>)"
proof (rule audit_tamper_evident)
  show "verifies_only (sample_crypto {payload_of sample_lib sample_record}) ''pub'' (payload_of sample_lib ` {sample_record})"
    by (simp add: verifies_only_def sample_crypto_def)
  have "canonical_fields (r\<lparr>r_Signature := s\<rparr>) = canonical_fields r" for r s by (simp add: canonical_fields_def)
  then show "texts_differ sample_lib (insert (sample_record\<lparr>r_Signature := b64_EncodeToString StdEncoding
      (CHR ''S'' # payload_of sample_lib sample_record)\<rparr>) {sample_record})"
    by (simp add: texts_differ_def)
  show "Verify sample_lib (sample_crypto {payload_of sample_lib sample_record})
     (sample_record\<lparr>r_Signature := b64_EncodeToString StdEncoding (CHR ''S'' # payload_of sample_lib sample_record)\<rparr>) ''pub'' = None"
    by (simp add: Verify_None b64_nonempty) (simp add: sample_crypto_def)
qed

lemma row_of_record_roundtrip [simp]: "record_of_row (row_of_record r) = r"
  by (simp add: record_of_row_def row_of_record_def)

lemma audit_Write_Inr:
  assumes "audit_Write W rec d = (Inr u, d')"
  shows "db_audit d' = db_audit d @ [row_of_record rec]"
  using assms
  by (auto simp: audit_Write_def db_wrap_def AppendAuditRecord_def db_bind_def db_exec_def insert_audit_def tick_def
      split: sum.splits prod.splits option.splits if_splits)

lemma QueryAuditLog_Inr:
  assumes "fst (QueryAuditLog W f d) = Inr rs"
  shows "rs = map record_of_row (sort_key au_recorded_at (filter (audit_where f) (db_audit d)))"
  using assms
  by (auto simp: QueryAuditLog_def db_rows_def db_bind_def db_read_def tick_def split: sum.splits prod.splits option.splits)

text \<open>A written record comes back from the log field for field, empty optional columns included:
  every successful query whose filter its row meets returns it, so a record that was signed before
  it was written still verifies when it is read back.\<close>

theorem audit_write_query_roundtrip:
  assumes "audit_Write W rec d = (Inr u, d')" "audit_where f (row_of_record rec)"
    "fst (QueryAuditLog W f d') = Inr rs"
  shows "rec \<in> set rs \<and> (\<forall>r \<in> set rs. r = rec \<or> r \<in> record_of_row ` set (db_audit d))"
proof -
  let ?S = "filter (audit_where f) (db_audit d @ [row_of_record rec])"
  have "set rs = record_of_row ` set ?S"
    using QueryAuditLog_Inr [OF assms(3)] audit_Write_Inr [OF assms(1)] by simp
  also have "set ?S = insert (row_of_record rec) (set (filter (audit_where f) (db_audit d)))" using assms(2) by simp
  finally have "set rs = insert rec (record_of_row ` set (filter (audit_where f) (db_audit d)))" by (simp only: image_insert row_of_record_roundtrip)
  then show ?thesis by auto
qed

lemma audit_write_query_roundtrip_witness:
  "sample_record \<in> set [sample_record]"
proof -
  let ?f = "\<lparr>af_SessionID = ''s1'', af_ToolName = [], af_Decision = ''deny'', af_TraceID = [], af_From = None, af_To = Some 7\<rparr>"
  have "audit_Write sample_world sample_record sample_db0
      = (Inr (), tick (sample_db0\<lparr>db_audit := db_audit sample_db0 @ [row_of_record sample_record]\<rparr>))"
    by code_simp
  moreover have "audit_where ?f (row_of_record sample_record)" by code_simp
  moreover have "fst (QueryAuditLog sample_world ?f
      (tick (sample_db0\<lparr>db_audit := db_audit sample_db0 @ [row_of_record sample_record]\<rparr>))) = Inr [sample_record]"
    by code_simp
  ultimately show ?thesis using audit_write_query_roundtrip by blast
qed

end
