(* ===== verification/TB_Identity.thy ===== *)
theory TB_Identity
  imports TB_StoreFacts TB_Base64
begin

text \<open>
  Agent identity (\<open>internal/identity\<close>) and request authentication (\<open>internal/proxy/auth.go\<close>). The
  JWT library, PEM, X.509 and the JSON decoding of a token payload are fields of \<open>keylib\<close>; the
  JWT parser is modelled with the arguments the code passes it: the key function, the accepted
  algorithms and whether an expiry is required.
\<close>

section \<open>Claims and keys\<close>

record RegisteredClaims =
  rc_IssuedAt :: "int option"
  rc_NotBefore :: "int option"
  rc_ExpiresAt :: "int option"

record AgentClaims =
  cl_Registered :: RegisteredClaims
  cl_AgentName :: string
  cl_PolicyFile :: string
  cl_AllowedTools :: "string slice"
  cl_ParentAgent :: string
  cl_ParentAllowed :: "string slice"
  cl_IssuedByProxy :: string
  cl_Env :: string

text \<open>What \<open>x509\<close> returns as \<open>any\<close>, and the part of a token header the key function reads.\<close>

datatype any_key = EdPublic string | EdPrivate string | OtherKey

record jwt_header =
  jh_is_ed25519 :: bool
  jh_alg :: string

record keylib =
  k_pem_decode :: "string \<Rightarrow> string option"
  k_parse_pkix :: "string \<Rightarrow> gerr + any_key"
  k_parse_pkcs8 :: "string \<Rightarrow> gerr + any_key"
  k_jwt_parse :: "(jwt_header \<Rightarrow> gerr + string) \<Rightarrow> string list \<Rightarrow> bool \<Rightarrow> string \<Rightarrow> gerr + AgentClaims \<times> bool"
  k_jwt_sign :: "AgentClaims \<Rightarrow> string \<Rightarrow> gerr + string"
  k_string_field :: "string \<Rightarrow> string \<Rightarrow> gerr + string"
  k_b64_error :: "string \<Rightarrow> string"

section \<open>Key files (keypair.go)\<close>

definition LoadPrivateKey :: "keylib \<Rightarrow> (string \<Rightarrow> gerr + string) \<Rightarrow> string \<Rightarrow> gerr + string" where
  "LoadPrivateKey K fs path =
     (case fs path of
        Inl e \<Rightarrow> Inl (wrapf (''reading private key from '' @ path) e)
      | Inr data \<Rightarrow>
          (case k_pem_decode K data of
             None \<Rightarrow> Inl (errorf (''decoding PEM from '' @ path @ '': no PEM block found''))
           | Some der \<Rightarrow>
               (case k_parse_pkcs8 K der of
                  Inl e \<Rightarrow> Inl (wrapf (''parsing PKCS8 private key from '' @ path) e)
                | Inr (EdPrivate k) \<Rightarrow> Inr k
                | Inr _ \<Rightarrow> Inl (errorf (''key at '' @ path @ '' is not an Ed25519 private key'')))))"

definition LoadPublicKey :: "keylib \<Rightarrow> (string \<Rightarrow> gerr + string) \<Rightarrow> string \<Rightarrow> gerr + string" where
  "LoadPublicKey K fs path =
     (case fs path of
        Inl e \<Rightarrow> Inl (wrapf (''reading public key from '' @ path) e)
      | Inr data \<Rightarrow>
          (case k_pem_decode K data of
             None \<Rightarrow> Inl (errorf (''decoding PEM from '' @ path @ '': no PEM block found''))
           | Some der \<Rightarrow>
               (case k_parse_pkix K der of
                  Inl e \<Rightarrow> Inl (wrapf (''parsing PKIX public key from '' @ path) e)
                | Inr (EdPublic k) \<Rightarrow> Inr k
                | Inr _ \<Rightarrow> Inl (errorf (''key at '' @ path @ '' is not an Ed25519 public key'')))))"

section \<open>Tokens (jwt.go)\<close>

definition err_missing_agent_claim :: gerr where
  "err_missing_agent_claim = GErr (''JWT is missing required '' @ [CHR 0x22] @ ''agent'' @ [CHR 0x22] @ '' claim'') [ErrMissingAgentClaim]"

text \<open>\<open>now\<close> and \<open>expiry\<close> are nanoseconds; a \<open>NumericDate\<close> is truncated to seconds.\<close>

definition numeric_date :: "int \<Rightarrow> int" where
  "numeric_date t = t div 1000000000"

definition MintAgentJWT :: "lib \<Rightarrow> keylib \<Rightarrow> int \<Rightarrow> AgentClaims \<Rightarrow> string \<Rightarrow> int \<Rightarrow> gerr + string" where
  "MintAgentJWT L K now claims privateKey expiry =
     (let claims = claims\<lparr>cl_Registered := \<lparr>rc_IssuedAt = Some (numeric_date now), rc_NotBefore = Some (numeric_date now),
                            rc_ExpiresAt = Some (numeric_date (now + expiry))\<rparr>\<rparr>
      in case k_jwt_sign K claims privateKey of
           Inl e \<Rightarrow> Inl (wrapf (''signing agent JWT for '' @ qt L (cl_AgentName claims)) e)
         | Inr signed' \<Rightarrow> Inr signed')"

definition jwt_key_func :: "string \<Rightarrow> jwt_header \<Rightarrow> gerr + string" where
  "jwt_key_func publicKey h =
     (if jh_is_ed25519 h then Inr publicKey else Inl (errorf (''unexpected signing method: '' @ jh_alg h)))"

definition ValidateAgentJWT :: "keylib \<Rightarrow> string \<Rightarrow> string \<Rightarrow> gerr + AgentClaims" where
  "ValidateAgentJWT K tokenString publicKey =
     (case k_jwt_parse K (jwt_key_func publicKey) [''EdDSA''] True tokenString of
        Inl e \<Rightarrow> Inl (wrapf ''validating agent JWT'' e)
      | Inr (claims, valid) \<Rightarrow>
          (if \<not> valid then Inl (errorf ''agent JWT is not valid'')
           else if cl_AgentName claims = [] then Inl err_missing_agent_claim
           else Inr claims))"

section \<open>Authenticating a request (auth.go)\<close>

text \<open>\<open>header\<close> is \<open>r.Header.Get\<close>: the first value under a name, or the empty string.\<close>

definition bearerToken :: "(string \<Rightarrow> string) \<Rightarrow> string + string" where
  "bearerToken header =
     (let auth = header ''Authorization'' in
      if auth = [] then Inl ''missing Authorization header''
      else if \<not> prefix ''Bearer '' auth then Inl ''Authorization header must use Bearer scheme''
      else let token = trim_prefix ''Bearer '' auth in
           if token = [] then Inl ''empty Bearer token'' else Inr token)"

text \<open>\<open>strings.Split\<close> on a one-byte separator.\<close>

fun split_on :: "char \<Rightarrow> string \<Rightarrow> string list" where
  "split_on c [] = [[]]"
| "split_on c (x # xs) =
     (if x = c then [] # split_on c xs
      else case split_on c xs of [] \<Rightarrow> [[x]] | w # ws \<Rightarrow> (x # w) # ws)"

definition unverifiedAgentClaim :: "keylib \<Rightarrow> string \<Rightarrow> gerr + string" where
  "unverifiedAgentClaim K tokenString =
     (case split_on (CHR ''.'') tokenString of
        [_, segment, _] \<Rightarrow>
          (case b64_DecodeString RawURLEncoding segment of
             None \<Rightarrow> Inl (wrapf ''decoding JWT payload segment'' (errorf (k_b64_error K segment)))
           | Some payload \<Rightarrow>
               (case k_string_field K ''agent'' payload of
                  Inl e \<Rightarrow> Inl (wrapf ''parsing JWT payload JSON'' e)
                | Inr agent \<Rightarrow> Inr agent))
      | _ \<Rightarrow> Inl (errorf ''JWT must have exactly three dot-separated segments''))"

definition parsePublicKeyPEM :: "keylib \<Rightarrow> string \<Rightarrow> gerr + string" where
  "parsePublicKeyPEM K pemData =
     (case k_pem_decode K pemData of
        None \<Rightarrow> Inl (errorf ''no PEM block found in agent public key'')
      | Some der \<Rightarrow>
          (case k_parse_pkix K der of
             Inl e \<Rightarrow> Inl (wrapf ''parsing PKIX public key'' e)
           | Inr (EdPublic k) \<Rightarrow> Inr k
           | Inr _ \<Rightarrow> Inl (errorf ''agent key is not an Ed25519 public key'')))"

text \<open>
  \<open>Inl m\<close> is \<open>writeUnauthorized(w, m)\<close>; \<open>Inr\<close> passes the verified claims on.
\<close>

definition authenticate :: "world \<Rightarrow> keylib \<Rightarrow> (string \<Rightarrow> string) \<Rightarrow> db \<Rightarrow> (string + AgentClaims) \<times> db" where
  "authenticate W K header d =
     (case bearerToken header of
        Inl m \<Rightarrow> (Inl m, d)
      | Inr tokenString \<Rightarrow>
          (case unverifiedAgentClaim K tokenString of
             Inl _ \<Rightarrow> (Inl ''malformed token'', d)
           | Inr agentName \<Rightarrow>
               (if agentName = [] then (Inl ''token missing required agent claim'', d)
                else
                  (case GetAgent W agentName d of
                     (Inl err, d) \<Rightarrow>
                       (if errors_Is err SqlErrNoRows then (Inl ''agent not registered'', d)
                        else (Inl ''agent lookup failed'', d))
                   | (Inr agent, d) \<Rightarrow>
                       (if IsRevoked agent then (Inl ''agent credentials revoked'', d)
                        else
                          (case parsePublicKeyPEM K (ag_PublicKeyPEM agent) of
                             Inl _ \<Rightarrow> (Inl ''invalid agent credentials'', d)
                           | Inr pubKey \<Rightarrow>
                               (case ValidateAgentJWT K tokenString pubKey of
                                  Inl _ \<Rightarrow> (Inl ''invalid or expired token'', d)
                                | Inr claims \<Rightarrow> (Inr claims, d))))))))"

section \<open>What authentication gives\<close>

lemma split_on_nonempty [simp]: "split_on c xs \<noteq> []"
  by (induction xs) (auto split: list.split)

text \<open>The segments joined again are the text, and there is one more of them than separators.\<close>

lemma split_on_join: "join [c] (split_on c xs) = xs"
proof (induction xs)
  case (Cons x xs)
  obtain w ws where s: "split_on c xs = w # ws" by (cases "split_on c xs") auto
  with Cons show ?case by (cases ws) auto
qed simp

lemma split_on_count: "length (split_on c xs) = Suc (length (filter (\<lambda>x. x = c) xs))"
  by (induction xs) (auto split: list.split)

lemma GetAgent_same_tables: "\<exists>t. snd (GetAgent W n d) = d\<lparr>db_tick := t\<rparr>"
  by (auto simp: GetAgent_def db_bind_def db_read_def tick_def Let_def intro: exI [of _ "Suc (db_tick d)"] split: option.split)

lemma authenticate_tables: "\<exists>t. snd (authenticate W K header d) = d\<lparr>db_tick := t\<rparr>"
proof -
  have r: "\<exists>t. d = d\<lparr>db_tick := t\<rparr>" by (rule exI [of _ "db_tick d"]) simp
  show ?thesis
  proof (cases "bearerToken header")
    case (Inl m)
    with r show ?thesis by (simp add: authenticate_def)
  next
    case (Inr tok)
    show ?thesis
    proof (cases "unverifiedAgentClaim K tok")
      case (Inl e)
      with r Inr show ?thesis by (simp add: authenticate_def)
    next
      case (Inr name)
      with \<open>bearerToken header = Inr tok\<close> r GetAgent_same_tables [of W name d] show ?thesis
        by (auto simp: authenticate_def split: prod.splits sum.splits)
    qed
  qed
qed

lemma GetAgent_Inr: "GetAgent W n d = (Inr a, d') \<Longrightarrow> find_agent d n = Some a"
  by (auto simp: GetAgent_def db_bind_def db_read_def tick_def Let_def find_agent_def split: option.splits)

lemma RevokeAgent_marks:
  assumes "RevokeAgent W name d = (Inr (), d')" "a \<in> set (db_agents d')" "ag_Name a = name"
  shows "ag_RevokedAt a \<noteq> None"
proof -
  have "db_agents d' = map (\<lambda>a. if ag_Name a = name then a\<lparr>ag_RevokedAt := Some (now_at W d)\<rparr> else a) (db_agents d)"
  proof -
    let ?f = "\<lambda>d'. Inr (length (filter (\<lambda>a. ag_Name a = name) (db_agents d')),
      d'\<lparr>db_agents := map (\<lambda>a. if ag_Name a = name then a\<lparr>ag_RevokedAt := Some (now_at W d)\<rparr> else a) (db_agents d')\<rparr>)
      :: gerr + nat \<times> db"
    obtain n d1 where e: "db_exec W (''revoking agent '' @ qw W name) ?f d = (Inr n, d1)"
      and d': "same_tables d1 d'"
      using assms(1) unfolding RevokeAgent_def Let_def
      unfolding db_bind_Inr by (auto dest!: db_read_Inr split: if_splits)
    from db_exec_Inr [OF e] obtain d0 where d0: "?f d = Inr (n, d0)" "d1 = tick d0" by blast
    have "db_agents d' = db_agents d0" using same_tables_sel(4) [OF d'] d0(2) by simp
    also have "d0 = snd (projr (?f d))" unfolding d0(1) by simp
    finally show ?thesis by simp
  qed
  with assms(2) have "a \<in> (\<lambda>a. if ag_Name a = name then a\<lparr>ag_RevokedAt := Some (now_at W d)\<rparr> else a) ` set (db_agents d)"
    by (simp only: set_map)
  then obtain x where x: "a = (if ag_Name x = name then x\<lparr>ag_RevokedAt := Some (now_at W d)\<rparr> else x)"
    by (rule imageE)
  show ?thesis
  proof (cases "ag_Name x = name")
    case True
    then show ?thesis unfolding x by simp
  next
    case False
    with x assms(3) show ?thesis by simp
  qed
qed

lemma authenticate_Inr:
  assumes "authenticate W K header d = (Inr claims, d')"
  obtains tok name agent key where
    "bearerToken header = Inr tok" "unverifiedAgentClaim K tok = Inr name" "find_agent d name = Some agent"
    "\<not> IsRevoked agent" "parsePublicKeyPEM K (ag_PublicKeyPEM agent) = Inr key"
    "ValidateAgentJWT K tok key = Inr claims"
  using assms
  by (auto simp: authenticate_def split: sum.splits prod.splits if_splits dest!: GetAgent_Inr)

text \<open>
  The JWT library as documented: a token it reports valid carries these claims under a signature by
  a key the key function returned for an accepted algorithm (\<open>signed_by\<close>), with an unexpired expiry
  where one is required. It is a compact serialisation (RFC 7515): three segments without dots, the middle
  one the unpadded base64url of the JSON payload the claims were decoded from, so that the member \<open>agent\<close>,
  the tag of \<open>AgentName\<close>, decodes from the payload to the agent's name.
\<close>

definition compact :: "keylib \<Rightarrow> string \<Rightarrow> AgentClaims \<Rightarrow> bool" where
  "compact K tok claims \<longleftrightarrow> (\<exists>header segment signature payload.
     tok = header @ ''.'' @ segment @ ''.'' @ signature
     \<and> CHR ''.'' \<notin> set header \<and> CHR ''.'' \<notin> set segment \<and> CHR ''.'' \<notin> set signature
     \<and> b64_DecodeString RawURLEncoding segment = Some payload
     \<and> k_string_field K ''agent'' payload = Inr (cl_AgentName claims))"

definition jwt_sound :: "keylib \<Rightarrow> (string \<Rightarrow> string \<Rightarrow> AgentClaims \<Rightarrow> bool) \<Rightarrow> bool" where
  "jwt_sound K signed_by \<longleftrightarrow>
     (\<forall>kf algs req tok claims. k_jwt_parse K kf algs req tok = Inr (claims, True) \<longrightarrow>
        (\<exists>h key. kf h = Inr key \<and> jh_alg h \<in> set algs \<and> signed_by key tok claims)
        \<and> (req \<longrightarrow> rc_ExpiresAt (cl_Registered claims) \<noteq> None)
        \<and> compact K tok claims)"

text \<open>The name the code reads before it has verified anything is the one of the verified claims.\<close>

lemma split_on_parts: "split_on c (xs @ c # ys) = xs # split_on c ys" "split_on c xs = [xs]" if "c \<notin> set xs"
  using that by (induction xs) auto

lemma split_on_separated: "w \<in> set (split_on c xs) \<Longrightarrow> c \<notin> set w"
proof (induction xs arbitrary: w)
  case (Cons x xs)
  then show ?case by (cases "split_on c xs") (auto split: if_splits)
qed simp

lemma compact_claim:
  assumes "compact K tok claims"
  shows "unverifiedAgentClaim K tok = Inr (cl_AgentName claims)"
proof -
  obtain h p s payload where "tok = h @ CHR ''.'' # p @ CHR ''.'' # s"
    and "CHR ''.'' \<notin> set h" "CHR ''.'' \<notin> set p" "CHR ''.'' \<notin> set s"
    and d: "b64_DecodeString RawURLEncoding p = Some payload" "k_string_field K ''agent'' payload = Inr (cl_AgentName claims)"
    using assms by (auto simp: compact_def)
  then have "split_on CHR ''.'' tok = [h, p, s]" by (simp add: split_on_parts)
  with d show ?thesis by (simp add: unverifiedAgentClaim_def)
qed

lemma claim_compact:
  assumes "unverifiedAgentClaim K tok = Inr (cl_AgentName claims)"
  shows "compact K tok claims"
proof -
  obtain h p s payload where t: "split_on CHR ''.'' tok = [h, p, s]" and d: "b64_DecodeString RawURLEncoding p = Some payload"
    "k_string_field K ''agent'' payload = Inr (cl_AgentName claims)"
    using assms by (auto simp: unverifiedAgentClaim_def split: list.splits option.splits sum.splits)
  have "CHR ''.'' \<notin> set h" "CHR ''.'' \<notin> set p" "CHR ''.'' \<notin> set s"
    using split_on_separated [of _ "CHR ''.''" tok] by (simp_all add: t)
  moreover have "tok = h @ ''.'' @ p @ ''.'' @ s" using split_on_join [of "CHR ''.''" tok] by (simp add: t)
  ultimately show ?thesis using d by (auto simp: compact_def)
qed

text \<open>
  A concrete key library for the witnesses: a token is three segments, its payload is the agent's
  name, and it counts as signed by the key \<open>KEY\<close>.
\<close>

definition sample_claims :: "string \<Rightarrow> AgentClaims" where
  "sample_claims name =
     \<lparr>cl_Registered = \<lparr>rc_IssuedAt = Some 0, rc_NotBefore = Some 0, rc_ExpiresAt = Some 9\<rparr>, cl_AgentName = name,
      cl_PolicyFile = [], cl_AllowedTools = Some [''read''], cl_ParentAgent = [], cl_ParentAllowed = None,
      cl_IssuedByProxy = [], cl_Env = ''prod''\<rparr>"

definition sample_keylib0 :: keylib where
  "sample_keylib0 =
     \<lparr>k_pem_decode = Some, k_parse_pkix = (\<lambda>d. if d = ''bad'' then Inl (errorf ''asn1'') else Inr (EdPublic d)),
      k_parse_pkcs8 = (\<lambda>d. Inr (EdPrivate d)), k_jwt_parse = (\<lambda>kf algs req tok. Inl (errorf ''jwt'')),
      k_jwt_sign = (\<lambda>c k. Inr (''h.'' @ b64_EncodeToString RawURLEncoding (cl_AgentName c) @ ''.s'')),
      k_string_field = (\<lambda>name payload. Inr (if name = ''agent'' then payload else [])), k_b64_error = (\<lambda>_. ''b64'')\<rparr>"

definition sample_jwt_parse ::
    "(jwt_header \<Rightarrow> gerr + string) \<Rightarrow> string list \<Rightarrow> bool \<Rightarrow> string \<Rightarrow> gerr + AgentClaims \<times> bool" where
  "sample_jwt_parse kf algs req tok =
     (case (kf \<lparr>jh_is_ed25519 = True, jh_alg = ''EdDSA''\<rparr>, unverifiedAgentClaim sample_keylib0 tok) of
        (Inr key, Inr name) \<Rightarrow> Inr (sample_claims name, key = ''KEY'' \<and> ''EdDSA'' \<in> set algs)
      | _ \<Rightarrow> Inl (errorf ''token is malformed''))"

definition sample_keylib :: keylib where
  "sample_keylib = sample_keylib0\<lparr>k_jwt_parse := sample_jwt_parse\<rparr>"

definition sample_token :: "string \<Rightarrow> string" where
  "sample_token name = ''h.'' @ b64_EncodeToString RawURLEncoding name @ ''.s''"

definition sample_header :: "string \<Rightarrow> string" where
  "sample_header h = (if h = ''Authorization'' then ''Bearer '' @ sample_token ''pay''
     else if h = ''X-TrueBearing-Session-ID'' then ''s1'' else [])"

definition sample_agent :: Agent where
  "sample_agent =
     \<lparr>ag_Name = ''pay'', ag_PublicKeyPEM = ''KEY'', ag_PolicyFile = [], ag_AllowedToolsJSON = [], ag_RegisteredAt = 1,
      ag_JWTPreview = [], ag_RevokedAt = None\<rparr>"

definition sample_auth_world :: world where
  "sample_auth_world = \<lparr>w_lib = sample_lib, w_fault = (\<lambda>_. None), w_constraint = (\<lambda>c. errorf c),
      w_clock = (\<lambda>n. 1000 + int n), w_uuid = (\<lambda>n. CHR ''u'' # dec (int n))\<rparr>"

lemma sample_jwt_sound: "jwt_sound sample_keylib (\<lambda>key tok claims. key = ''KEY'')"
proof -
  have u: "unverifiedAgentClaim sample_keylib tok = unverifiedAgentClaim sample_keylib0 tok" for tok
    by (simp add: unverifiedAgentClaim_def sample_keylib_def split: list.split option.split)
  have "\<exists>h key. kf h = Inr key \<and> jh_alg h \<in> set algs \<and> key = ''KEY''"
    if "sample_jwt_parse kf algs req tok = Inr (claims, True)" for kf algs req tok claims
    using that by (auto simp: sample_jwt_parse_def split: sum.splits
        intro!: exI [of _ "\<lparr>jh_is_ed25519 = True, jh_alg = ''EdDSA''\<rparr>"])
  moreover
  have "rc_ExpiresAt (cl_Registered claims) \<noteq> None \<and> unverifiedAgentClaim sample_keylib0 tok = Inr (cl_AgentName claims)"
    if "sample_jwt_parse kf algs req tok = Inr (claims, True)" for kf algs req tok claims
    using that by (auto simp: sample_jwt_parse_def sample_claims_def split: sum.splits)
  then have "rc_ExpiresAt (cl_Registered claims) \<noteq> None \<and> compact sample_keylib tok claims"
    if "sample_jwt_parse kf algs req tok = Inr (claims, True)" for kf algs req tok claims
    using that claim_compact [of sample_keylib tok claims] unfolding u by blast
  moreover have "k_jwt_parse sample_keylib = sample_jwt_parse" by (simp add: sample_keylib_def)
  ultimately show ?thesis unfolding jwt_sound_def by (simp only:) blast
qed

section \<open>Properties\<close>

text \<open>C12: A request passes authentication only with a token signed, under EdDSA, by the key registered
  for the very agent its claims name, and only while that agent is registered and not revoked; the
  claims name an agent and the token has an expiry.\<close>

theorem authentication_sound:
  assumes "jwt_sound K signed_by" "authenticate W K header d = (Inr claims, d')"
  shows "\<exists>tok agent key. bearerToken header = Inr tok \<and> find_agent d (cl_AgentName claims) = Some agent
    \<and> ag_RevokedAt agent = None \<and> parsePublicKeyPEM K (ag_PublicKeyPEM agent) = Inr key
    \<and> signed_by key tok claims \<and> cl_AgentName claims \<noteq> [] \<and> rc_ExpiresAt (cl_Registered claims) \<noteq> None"
proof -
  obtain tok name agent key where a: "bearerToken header = Inr tok" "unverifiedAgentClaim K tok = Inr name"
    "find_agent d name = Some agent" "\<not> IsRevoked agent" "parsePublicKeyPEM K (ag_PublicKeyPEM agent) = Inr key"
    "ValidateAgentJWT K tok key = Inr claims" by (rule authenticate_Inr [OF assms(2)])
  from a(6) have p: "k_jwt_parse K (jwt_key_func key) [''EdDSA''] True tok = Inr (claims, True)"
    and n: "cl_AgentName claims \<noteq> []"
    by (auto simp: ValidateAgentJWT_def split: sum.splits if_splits)
  from assms(1) p obtain h key' where "jwt_key_func key h = Inr key'" "signed_by key' tok claims"
    "rc_ExpiresAt (cl_Registered claims) \<noteq> None" "compact K tok claims"
    unfolding jwt_sound_def by blast
  from compact_claim [OF this(4)] this(1-3)
  show ?thesis using a n by (auto simp: jwt_key_func_def IsRevoked_def split: if_splits)
qed

lemma authentication_sound_witness:
  "fst (authenticate sample_auth_world sample_keylib sample_header (empty_db\<lparr>db_agents := [sample_agent]\<rparr>)) = Inr (sample_claims ''pay'')
   \<and> find_agent (empty_db\<lparr>db_agents := [sample_agent]\<rparr>) ''pay'' = Some sample_agent"
proof -
  let ?d = "empty_db\<lparr>db_agents := [sample_agent]\<rparr>"
  have a: "authenticate sample_auth_world sample_keylib sample_header ?d = (Inr (sample_claims ''pay''), tick ?d)" by code_simp
  from authentication_sound [OF sample_jwt_sound a] have "\<exists>agent. find_agent ?d (cl_AgentName (sample_claims ''pay'')) = Some agent" by blast
  then show ?thesis using a by (auto simp: find_agent_def sample_claims_def split: if_splits)
qed

text \<open>Revocation takes effect at once: after a revocation that succeeded, no request whose token
  names the agent passes authentication, whatever the token's signature or expiry.\<close>

theorem revocation_immediate:
  assumes "RevokeAgent W name d = (Inr (), d')" "bearerToken header = Inr tok" "unverifiedAgentClaim K tok = Inr name"
  shows "\<exists>m. fst (authenticate W' K header d') = Inl m"
proof (cases "authenticate W' K header d'")
  case (Pair r d'')
  show ?thesis
  proof (cases r)
    case (Inr claims)
    with Pair have a: "authenticate W' K header d' = (Inr claims, d'')" by simp
    obtain tok' name' agent where "bearerToken header = Inr tok'" "unverifiedAgentClaim K tok' = Inr name'"
      "find_agent d' name' = Some agent" "\<not> IsRevoked agent" by (rule authenticate_Inr [OF a])
    with assms(2,3) have f: "find_agent d' name = Some agent" and r: "\<not> IsRevoked agent" by auto
    from f have "agent \<in> set (db_agents d')" "ag_Name agent = name" by (auto simp: find_agent_def find_Some_iff)
    with RevokeAgent_marks [OF assms(1)] r show ?thesis by (auto simp: IsRevoked_def)
  qed (use Pair in auto)
qed

lemma revocation_immediate_witness:
  "\<exists>m. fst (authenticate sample_auth_world sample_keylib sample_header
     (snd (RevokeAgent sample_auth_world ''pay'' (empty_db\<lparr>db_agents := [sample_agent]\<rparr>)))) = Inl m"
proof (rule revocation_immediate)
  let ?d = "empty_db\<lparr>db_agents := [sample_agent]\<rparr>"
  have "fst (RevokeAgent sample_auth_world ''pay'' ?d) = Inr ()" by code_simp
  then show "RevokeAgent sample_auth_world ''pay'' ?d = (Inr (), snd (RevokeAgent sample_auth_world ''pay'' ?d))"
    by (metis prod.collapse)
  show "bearerToken sample_header = Inr (sample_token ''pay'')" by code_simp
  show "unverifiedAgentClaim sample_keylib (sample_token ''pay'') = Inr ''pay''" by code_simp
qed

end
