(* ===== verification/TB_Cache.thy ===== *)
theory TB_Cache
  imports TB_Policy
begin

text \<open>
  The bounded cache of policy versions (\<open>internal/proxy/policy_cache.go\<close>). The code keeps a doubly
  linked list of elements and an index from fingerprints to elements; the model keeps the list of
  element names, the entry each element holds and the index. \<open>lru_inv\<close> says the two agree, and the
  operations refine those of an association list ordered by recency. What the proxy needs of a
  cache is the locale \<open>version_cache\<close>.
\<close>

section \<open>The cache\<close>

definition lruCapacity :: int where
  "lruCapacity = 16"

record lruEntry =
  le_fingerprint :: string
  le_pol :: Policy

text \<open>\<open>lru_next\<close> is the name the next \<open>PushFront\<close> gives its element.\<close>

record policyLRU =
  lru_cap :: int
  lru_list :: "nat list"
  lru_value :: "nat \<Rightarrow> lruEntry option"
  lru_index :: "string \<Rightarrow> nat option"
  lru_next :: nat

definition newPolicyLRU :: "int \<Rightarrow> policyLRU" where
  "newPolicyLRU cap =
     \<lparr>lru_cap = cap, lru_list = [], lru_value = (\<lambda>_. None), lru_index = (\<lambda>_. None), lru_next = 0\<rparr>"

definition moveToFront :: "nat \<Rightarrow> nat list \<Rightarrow> nat list" where
  "moveToFront el xs = el # filter (\<lambda>x. x \<noteq> el) xs"

definition lru_get :: "policyLRU \<Rightarrow> string \<Rightarrow> Policy option \<times> policyLRU" where
  "lru_get c fp =
     (case lru_index c fp of
        None \<Rightarrow> (None, c)
      | Some el \<Rightarrow> (map_option le_pol (lru_value c el), c\<lparr>lru_list := moveToFront el (lru_list c)\<rparr>))"

definition lru_evict :: "policyLRU \<Rightarrow> string \<times> policyLRU" where
  "lru_evict c =
     (if int (length (lru_list c)) \<ge> lru_cap c then
        (case lru_list c of
           [] \<Rightarrow> ([], c)
         | _ \<Rightarrow>
             (let back = last (lru_list c) in
              case lru_value c back of
                None \<Rightarrow> ([], c)
              | Some entry \<Rightarrow>
                  (le_fingerprint entry,
                   c\<lparr>lru_index := (lru_index c)(le_fingerprint entry := None), lru_list := butlast (lru_list c)\<rparr>)))
      else ([], c))"

definition lru_set :: "policyLRU \<Rightarrow> string \<Rightarrow> Policy \<Rightarrow> string \<times> policyLRU" where
  "lru_set c fp pol =
     (case lru_index c fp of
        Some el \<Rightarrow>
          ([], c\<lparr>lru_list := moveToFront el (lru_list c),
                 lru_value := (lru_value c)(el := map_option (\<lambda>e. e\<lparr>le_pol := pol\<rparr>) (lru_value c el))\<rparr>)
      | None \<Rightarrow>
          (let (evictedFP, c1) = lru_evict c; el = lru_next c1 in
           (evictedFP,
            c1\<lparr>lru_list := el # lru_list c1,
               lru_value := (lru_value c1)(el \<mapsto> \<lparr>le_fingerprint = fp, le_pol = pol\<rparr>),
               lru_index := (lru_index c1)(fp \<mapsto> el), lru_next := el + 1\<rparr>)))"

definition lru_len :: "policyLRU \<Rightarrow> int" where
  "lru_len c = int (length (lru_list c))"

section \<open>The abstract cache\<close>

text \<open>Versions by recency, most recent first.\<close>

type_synonym versions = "(string \<times> Policy) list"

definition entry_pair :: "policyLRU \<Rightarrow> nat \<Rightarrow> string \<times> Policy" where
  "entry_pair c el = (le_fingerprint (the (lru_value c el)), le_pol (the (lru_value c el)))"

definition lru_abs :: "policyLRU \<Rightarrow> versions" where
  "lru_abs c = map (entry_pair c) (lru_list c)"

definition abs_get :: "string \<Rightarrow> versions \<Rightarrow> Policy option \<times> versions" where
  "abs_get fp xs =
     (case map_of xs fp of
        None \<Rightarrow> (None, xs)
      | Some p \<Rightarrow> (Some p, (fp, p) # filter (\<lambda>e. fst e \<noteq> fp) xs))"

definition abs_set :: "int \<Rightarrow> string \<Rightarrow> Policy \<Rightarrow> versions \<Rightarrow> string \<times> versions" where
  "abs_set cap fp pol xs =
     (if fp \<in> fst ` set xs then ([], (fp, pol) # filter (\<lambda>e. fst e \<noteq> fp) xs)
      else if int (length xs) \<ge> cap \<and> xs \<noteq> [] then (fst (last xs), (fp, pol) # butlast xs)
      else ([], (fp, pol) # xs))"

definition lru_inv :: "policyLRU \<Rightarrow> bool" where
  "lru_inv c =
     (distinct (lru_list c)
      \<and> (\<forall>el \<in> set (lru_list c). el < lru_next c
            \<and> (\<exists>e. lru_value c el = Some e \<and> lru_index c (le_fingerprint e) = Some el))
      \<and> (\<forall>fp el. lru_index c fp = Some el \<longrightarrow>
            el \<in> set (lru_list c) \<and> (\<exists>e. lru_value c el = Some e \<and> le_fingerprint e = fp))
      \<and> 0 < lru_cap c \<and> int (length (lru_list c)) \<le> lru_cap c)"

lemma lru_inv_new [simp]: "0 < cap \<Longrightarrow> lru_inv (newPolicyLRU cap)"
  by (simp add: lru_inv_def newPolicyLRU_def)

lemma lru_inv_entry:
  assumes "lru_inv c" "el \<in> set (lru_list c)"
  obtains e where "lru_value c el = Some e" "lru_index c (le_fingerprint e) = Some el" "el < lru_next c"
  using assms by (auto simp: lru_inv_def)

lemma lru_inv_index:
  assumes "lru_inv c" "lru_index c fp = Some el"
  obtains e where "el \<in> set (lru_list c)" "lru_value c el = Some e" "le_fingerprint e = fp"
  using assms unfolding lru_inv_def by blast

lemma entry_pair_inj:
  assumes "lru_inv c" "a \<in> set (lru_list c)" "b \<in> set (lru_list c)" "fst (entry_pair c a) = fst (entry_pair c b)"
  shows "a = b"
proof -
  obtain e1 where e1: "lru_value c a = Some e1" "lru_index c (le_fingerprint e1) = Some a"
    by (rule lru_inv_entry [OF assms(1,2)])
  obtain e2 where e2: "lru_value c b = Some e2" "lru_index c (le_fingerprint e2) = Some b"
    by (rule lru_inv_entry [OF assms(1,3)])
  have "le_fingerprint e1 = le_fingerprint e2" using assms(4) e1(1) e2(1) by (simp add: entry_pair_def)
  with e1(2) e2(2) show ?thesis by simp
qed

lemma lru_inv_distinct: "lru_inv c \<Longrightarrow> distinct (lru_list c)"
  by (simp add: lru_inv_def)

lemma lru_inv_size: "lru_inv c \<Longrightarrow> 0 < lru_cap c" "lru_inv c \<Longrightarrow> int (length (lru_list c)) \<le> lru_cap c"
  by (simp_all add: lru_inv_def)

lemma lru_abs_distinct:
  assumes "lru_inv c"
  shows "distinct (map fst (lru_abs c))"
  unfolding lru_abs_def map_map distinct_map
  using lru_inv_distinct [OF assms] by (auto intro!: inj_onI intro: entry_pair_inj [OF assms])

lemma lru_index_abs:
  assumes "lru_inv c"
  shows "lru_index c fp = None \<longleftrightarrow> fp \<notin> fst ` set (lru_abs c)"
proof
  assume n: "lru_index c fp = None"
  show "fp \<notin> fst ` set (lru_abs c)"
  proof
    assume "fp \<in> fst ` set (lru_abs c)"
    then obtain el where "el \<in> set (lru_list c)" "fp = fst (entry_pair c el)" by (auto simp: lru_abs_def)
    with n show False by (auto simp: entry_pair_def elim!: lru_inv_entry [OF assms])
  qed
next
  assume f: "fp \<notin> fst ` set (lru_abs c)"
  show "lru_index c fp = None"
  proof (cases "lru_index c fp")
    case (Some el)
    from lru_inv_index [OF assms Some] f show ?thesis
      by (metis entry_pair_def fst_conv image_eqI list.set_map lru_abs_def option.sel)
  qed
qed

lemma lru_index_map_of:
  assumes "lru_inv c" "lru_index c fp = Some el"
  shows "map_of (lru_abs c) fp = map_option le_pol (lru_value c el)" "lru_value c el \<noteq> None"
proof -
  from lru_inv_index [OF assms] obtain e where e: "el \<in> set (lru_list c)" "lru_value c el = Some e" "le_fingerprint e = fp" .
  then have "(fp, le_pol e) \<in> set (lru_abs c)" by (force simp: lru_abs_def entry_pair_def)
  with lru_abs_distinct [OF assms(1)] e(2) show "map_of (lru_abs c) fp = map_option le_pol (lru_value c el)"
    by simp
  show "lru_value c el \<noteq> None" using e by simp
qed

lemma moveToFront_facts:
  assumes "distinct xs" "el \<in> set xs"
  shows "set (moveToFront el xs) = set xs" "distinct (moveToFront el xs)" "length (moveToFront el xs) = length xs"
proof -
  show s: "set (moveToFront el xs) = set xs" and d: "distinct (moveToFront el xs)"
    using assms by (auto simp: moveToFront_def)
  from distinct_card [OF d] distinct_card [OF assms(1)] s show "length (moveToFront el xs) = length xs" by simp
qed

lemma filter_elements:
  assumes "lru_inv c" "el \<in> set (lru_list c)" "fst (entry_pair c el) = fp"
  shows "map (entry_pair c) (filter (\<lambda>x. x \<noteq> el) (lru_list c)) = filter (\<lambda>e. fst e \<noteq> fp) (lru_abs c)"
proof -
  have "x \<noteq> el \<longleftrightarrow> fst (entry_pair c x) \<noteq> fp" if "x \<in> set (lru_list c)" for x
    using entry_pair_inj [OF assms(1) that assms(2)] assms(3) by auto
  then have "filter (\<lambda>x. x \<noteq> el) (lru_list c) = filter (\<lambda>x. fst (entry_pair c x) \<noteq> fp) (lru_list c)"
    by (rule filter_cong [OF refl])
  then show ?thesis by (simp add: lru_abs_def filter_map comp_def)
qed

text \<open>Lookups refine.\<close>

lemma lru_get_refines:
  assumes "lru_inv c"
  shows "fst (lru_get c fp) = fst (abs_get fp (lru_abs c))"
    and "lru_abs (snd (lru_get c fp)) = snd (abs_get fp (lru_abs c))"
    and "lru_inv (snd (lru_get c fp))"
proof -
  have "fst (lru_get c fp) = fst (abs_get fp (lru_abs c)) \<and> lru_abs (snd (lru_get c fp)) = snd (abs_get fp (lru_abs c))
      \<and> lru_inv (snd (lru_get c fp))"
  proof (cases "lru_index c fp")
    case None
    with lru_index_abs [OF assms] have "map_of (lru_abs c) fp = None" by (simp add: map_of_eq_None_iff)
    with None assms show ?thesis by (simp add: lru_get_def abs_get_def)
  next
    case (Some el)
    from lru_inv_index [OF assms Some] obtain e where e: "el \<in> set (lru_list c)" "lru_value c el = Some e" "le_fingerprint e = fp" .
    then have p: "entry_pair c el = (fp, le_pol e)" by (simp add: entry_pair_def)
    have m: "map_of (lru_abs c) fp = Some (le_pol e)" using lru_index_map_of [OF assms Some] e by simp
    have "entry_pair (c\<lparr>lru_list := xs\<rparr>) = entry_pair c" for xs by (simp add: entry_pair_def fun_eq_iff)
    with p m Some e filter_elements [OF assms e(1)] have "lru_abs (snd (lru_get c fp)) = snd (abs_get fp (lru_abs c))"
      by (simp add: lru_get_def abs_get_def lru_abs_def moveToFront_def)
    moreover have "lru_inv (snd (lru_get c fp))"
    proof -
      note moved = moveToFront_facts [OF lru_inv_distinct [OF assms] e(1)]
      show ?thesis using assms Some moved by (simp add: lru_get_def lru_inv_def)
    qed
    ultimately show ?thesis using m Some e by (simp add: lru_get_def abs_get_def)
  qed
  then show "fst (lru_get c fp) = fst (abs_get fp (lru_abs c))"
    "lru_abs (snd (lru_get c fp)) = snd (abs_get fp (lru_abs c))" "lru_inv (snd (lru_get c fp))" by blast+
qed

text \<open>Insertions refine.\<close>

definition lru_hit :: "policyLRU \<Rightarrow> nat \<Rightarrow> Policy \<Rightarrow> policyLRU" where
  "lru_hit c el pol = c\<lparr>lru_list := moveToFront el (lru_list c),
     lru_value := (lru_value c)(el := map_option (\<lambda>e. e\<lparr>le_pol := pol\<rparr>) (lru_value c el))\<rparr>"

definition lru_push :: "policyLRU \<Rightarrow> string \<Rightarrow> Policy \<Rightarrow> policyLRU" where
  "lru_push c fp pol = c\<lparr>lru_list := lru_next c # lru_list c,
     lru_value := (lru_value c)(lru_next c \<mapsto> \<lparr>le_fingerprint = fp, le_pol = pol\<rparr>),
     lru_index := (lru_index c)(fp \<mapsto> lru_next c), lru_next := lru_next c + 1\<rparr>"

lemma lru_set_alt:
  "lru_set c fp pol =
     (case lru_index c fp of Some el \<Rightarrow> ([], lru_hit c el pol)
      | None \<Rightarrow> (fst (lru_evict c), lru_push (snd (lru_evict c)) fp pol))"
  by (simp add: lru_set_def lru_hit_def lru_push_def split_beta Let_def split: option.splits)

lemma lru_hit_facts:
  assumes "lru_inv c" "lru_index c fp = Some el"
  shows "lru_inv (lru_hit c el pol)"
    and "lru_abs (lru_hit c el pol) = (fp, pol) # filter (\<lambda>e. fst e \<noteq> fp) (lru_abs c)"
proof -
  from lru_inv_index [OF assms] obtain e where e: "el \<in> set (lru_list c)" "lru_value c el = Some e" "le_fingerprint e = fp" .
  note moved = moveToFront_facts [OF lru_inv_distinct [OF assms(1)] e(1)]
  have keep: "\<exists>z. lru_value (lru_hit c el pol) x = Some z \<and> le_fingerprint z = le_fingerprint y"
    if "lru_value c x = Some y" for x y
    using that by (cases "x = el") (auto simp: lru_hit_def)
  have sel: "set (lru_list (lru_hit c el pol)) = set (lru_list c)" "lru_index (lru_hit c el pol) = lru_index c"
      "lru_next (lru_hit c el pol) = lru_next c" "lru_cap (lru_hit c el pol) = lru_cap c"
      "distinct (lru_list (lru_hit c el pol))" "length (lru_list (lru_hit c el pol)) = length (lru_list c)"
    using moved by (simp_all add: lru_hit_def)
  show "lru_inv (lru_hit c el pol)"
    unfolding lru_inv_def sel
  proof (intro conjI ballI allI impI)
    fix x assume "x \<in> set (lru_list c)"
    then obtain y where y: "lru_value c x = Some y" "lru_index c (le_fingerprint y) = Some x" "x < lru_next c"
      by (rule lru_inv_entry [OF assms(1)])
    then show "x < lru_next c" by blast
    from keep [OF y(1)] y(2)
    show "\<exists>z. lru_value (lru_hit c el pol) x = Some z \<and> lru_index c (le_fingerprint z) = Some x" by auto
  next
    fix f x assume "lru_index c f = Some x"
    then obtain y where y: "x \<in> set (lru_list c)" "lru_value c x = Some y" "le_fingerprint y = f"
      by (rule lru_inv_index [OF assms(1)])
    then show "x \<in> set (lru_list c)" by blast
    from keep [OF y(2)] y(3) show "\<exists>z. lru_value (lru_hit c el pol) x = Some z \<and> le_fingerprint z = f" by auto
  qed (use lru_inv_size [OF assms(1)] sel in simp_all)
  have p: "fst (entry_pair c el) = fp" using e by (simp add: entry_pair_def)
  have "entry_pair (lru_hit c el pol) el = (fp, pol)" using e by (simp add: entry_pair_def lru_hit_def)
  moreover have "map (entry_pair (lru_hit c el pol)) (filter (\<lambda>x. x \<noteq> el) (lru_list c))
      = map (entry_pair c) (filter (\<lambda>x. x \<noteq> el) (lru_list c))"
    by (simp add: entry_pair_def lru_hit_def)
  ultimately show "lru_abs (lru_hit c el pol) = (fp, pol) # filter (\<lambda>e. fst e \<noteq> fp) (lru_abs c)"
    using filter_elements [OF assms(1) e(1) p] by (simp add: lru_abs_def) (simp add: lru_hit_def moveToFront_def)
qed

lemma lru_push_facts:
  assumes "lru_inv c" "lru_index c fp = None" "int (length (lru_list c)) < lru_cap c"
  shows "lru_inv (lru_push c fp pol)" "lru_abs (lru_push c fp pol) = (fp, pol) # lru_abs c"
proof -
  have fresh: "el < lru_next c" if "el \<in> set (lru_list c)" for el using lru_inv_entry [OF assms(1) that] by blast
  have ix: "el < lru_next c" if "lru_index c f = Some el" for f el
    using lru_inv_index [OF assms(1) that] fresh by blast
  show "lru_inv (lru_push c fp pol)"
    unfolding lru_inv_def
  proof (intro conjI ballI allI impI)
    show "distinct (lru_list (lru_push c fp pol))"
      using lru_inv_distinct [OF assms(1)] fresh by (auto simp: lru_push_def)
  next
    fix el assume el: "el \<in> set (lru_list (lru_push c fp pol))"
    show "el < lru_next (lru_push c fp pol)" using el fresh by (auto simp: lru_push_def intro: less_SucI)
    show "\<exists>e. lru_value (lru_push c fp pol) el = Some e \<and> lru_index (lru_push c fp pol) (le_fingerprint e) = Some el"
    proof (cases "el = lru_next c")
      case False
      with el have m: "el \<in> set (lru_list c)" by (simp add: lru_push_def)
      then obtain e where e: "lru_value c el = Some e" "lru_index c (le_fingerprint e) = Some el"
        by (rule lru_inv_entry [OF assms(1)])
      then have "le_fingerprint e \<noteq> fp" using assms(2) by auto
      with e False show ?thesis by (simp add: lru_push_def)
    qed (simp add: lru_push_def)
  next
    fix f el assume f: "lru_index (lru_push c fp pol) f = Some el"
    show "el \<in> set (lru_list (lru_push c fp pol))"
      using f lru_inv_index [OF assms(1)] by (auto simp: lru_push_def split: if_splits)
    show "\<exists>e. lru_value (lru_push c fp pol) el = Some e \<and> le_fingerprint e = f"
    proof (cases "f = fp")
      case False
      with f have i: "lru_index c f = Some el" by (simp add: lru_push_def)
      from lru_inv_index [OF assms(1) i] obtain e where "lru_value c el = Some e" "le_fingerprint e = f" .
      with ix [OF i] show ?thesis by (simp add: lru_push_def)
    qed (use f in \<open>auto simp: lru_push_def\<close>)
  next
    show "0 < lru_cap (lru_push c fp pol)" using assms(1) by (simp add: lru_push_def lru_inv_def)
    show "int (length (lru_list (lru_push c fp pol))) \<le> lru_cap (lru_push c fp pol)"
      using assms(3) by (simp add: lru_push_def)
  qed
  have "entry_pair (lru_push c fp pol) x = entry_pair c x" if "x \<in> set (lru_list c)" for x
    using fresh [OF that] by (simp add: entry_pair_def lru_push_def)
  then have "map (entry_pair (lru_push c fp pol)) (lru_list c) = lru_abs c" by (simp add: lru_abs_def)
  then show "lru_abs (lru_push c fp pol) = (fp, pol) # lru_abs c"
    by (simp add: lru_abs_def [of "lru_push c fp pol"]) (simp add: lru_push_def entry_pair_def)
qed

lemma lru_evict_facts:
  assumes inv: "lru_inv c" and full: "int (length (lru_list c)) \<ge> lru_cap c"
  shows "lru_inv (snd (lru_evict c))" "lru_abs (snd (lru_evict c)) = butlast (lru_abs c)"
    "fst (lru_evict c) = fst (last (lru_abs c))" "lru_list (snd (lru_evict c)) = butlast (lru_list c)"
    "lru_cap (snd (lru_evict c)) = lru_cap c" "lru_index c fp = None \<Longrightarrow> lru_index (snd (lru_evict c)) fp = None"
proof -
  have ne: "lru_list c \<noteq> []" using assms by (auto simp: lru_inv_def)
  let ?b = "last (lru_list c)"
  have bm: "?b \<in> set (lru_list c)" using ne by simp
  obtain e where e: "lru_value c ?b = Some e" "lru_index c (le_fingerprint e) = Some ?b"
    by (rule lru_inv_entry [OF inv bm])
  have ev: "lru_evict c = (le_fingerprint e,
      c\<lparr>lru_index := (lru_index c)(le_fingerprint e := None), lru_list := butlast (lru_list c)\<rparr>)"
    using full ne e(1) by (auto simp: lru_evict_def Let_def split: list.split)
  have d: "distinct (lru_list c)" by (rule lru_inv_distinct [OF inv])
  have nb: "?b \<notin> set (butlast (lru_list c))" using d ne by (metis append_butlast_last_id distinct_butlast not_distinct_conv_prefix)
  have sub: "set (butlast (lru_list c)) = set (lru_list c) - {?b}"
    using ne nb by (metis Diff_insert_absorb append_butlast_last_id list.simps(15) rotate1.simps(2) set_rotate1)
  show "lru_list (snd (lru_evict c)) = butlast (lru_list c)" "lru_cap (snd (lru_evict c)) = lru_cap c"
    by (simp_all add: ev)
  show "lru_index c fp = None \<Longrightarrow> lru_index (snd (lru_evict c)) fp = None" by (simp add: ev)
  show "fst (lru_evict c) = fst (last (lru_abs c))"
    using ne e(1) by (simp add: ev lru_abs_def last_map entry_pair_def)
  have "entry_pair (snd (lru_evict c)) = entry_pair c" by (simp add: ev entry_pair_def fun_eq_iff)
  then show "lru_abs (snd (lru_evict c)) = butlast (lru_abs c)" by (simp add: lru_abs_def ev map_butlast)
  show "lru_inv (snd (lru_evict c))"
    unfolding lru_inv_def
  proof (intro conjI ballI allI impI)
    show "distinct (lru_list (snd (lru_evict c)))" using d by (simp add: ev distinct_butlast)
  next
    fix el assume "el \<in> set (lru_list (snd (lru_evict c)))"
    then have m: "el \<in> set (lru_list c)" "el \<noteq> ?b" using sub by (simp_all add: ev)
    obtain e' where e': "lru_value c el = Some e'" "lru_index c (le_fingerprint e') = Some el" "el < lru_next c"
      by (rule lru_inv_entry [OF inv m(1)])
    show "el < lru_next (snd (lru_evict c))" using e' by (simp add: ev)
    have "le_fingerprint e' \<noteq> le_fingerprint e" using e' e(2) m(2) by auto
    with e' show "\<exists>e. lru_value (snd (lru_evict c)) el = Some e \<and> lru_index (snd (lru_evict c)) (le_fingerprint e) = Some el"
      by (simp add: ev)
  next
    fix f el assume "lru_index (snd (lru_evict c)) f = Some el"
    then have i: "lru_index c f = Some el" and f: "f \<noteq> le_fingerprint e" by (auto simp: ev split: if_splits)
    obtain e' where e': "el \<in> set (lru_list c)" "lru_value c el = Some e'" "le_fingerprint e' = f"
      by (rule lru_inv_index [OF inv i])
    have "el \<noteq> ?b" using e' e(1) f by auto
    with e'(1) sub show "el \<in> set (lru_list (snd (lru_evict c)))" by (simp add: ev)
    show "\<exists>e. lru_value (snd (lru_evict c)) el = Some e \<and> le_fingerprint e = f" using e' by (simp add: ev)
  next
    show "0 < lru_cap (snd (lru_evict c))" using inv by (simp add: ev lru_inv_def)
    show "int (length (lru_list (snd (lru_evict c)))) \<le> lru_cap (snd (lru_evict c))"
      using lru_inv_size [OF inv] by (simp add: ev)
  qed
qed

lemma lru_set_refines:
  assumes inv: "lru_inv c"
  shows "(fst (lru_set c fp pol), lru_abs (snd (lru_set c fp pol))) = abs_set (lru_cap c) fp pol (lru_abs c)"
    and "lru_inv (snd (lru_set c fp pol))"
proof -
  have "(fst (lru_set c fp pol), lru_abs (snd (lru_set c fp pol))) = abs_set (lru_cap c) fp pol (lru_abs c)
      \<and> lru_inv (snd (lru_set c fp pol))"
  proof (cases "lru_index c fp")
    case (Some el)
    then have "fp \<in> fst ` set (lru_abs c)" using lru_index_abs [OF inv, of fp] by simp
    with Some lru_hit_facts [OF inv Some] show ?thesis by (simp add: lru_set_alt abs_set_def)
  next
    case None
    then have f: "fp \<notin> fst ` set (lru_abs c)" using lru_index_abs [OF inv, of fp] by simp
    have l: "length (lru_abs c) = length (lru_list c)" by (simp add: lru_abs_def)
    show ?thesis
    proof (cases "int (length (lru_list c)) \<ge> lru_cap c")
      case True
      note ev = lru_evict_facts [OF inv True]
      have cap: "0 < lru_cap c" using inv by (simp add: lru_inv_def)
      have "int (length (lru_list (snd (lru_evict c)))) < lru_cap (snd (lru_evict c))"
        using lru_inv_size [OF inv] by (simp add: ev)
      note push = lru_push_facts [OF ev(1) ev(6) [OF None] this]
      have "lru_abs c \<noteq> []" using True cap l by auto
      with push None True f l ev show ?thesis by (simp add: lru_set_alt abs_set_def)
    next
      case False
      then have "lru_evict c = ([], c)" by (simp add: lru_evict_def)
      with lru_push_facts [OF inv None] False None f l show ?thesis by (simp add: lru_set_alt abs_set_def)
    qed
  qed
  then show "(fst (lru_set c fp pol), lru_abs (snd (lru_set c fp pol))) = abs_set (lru_cap c) fp pol (lru_abs c)"
    "lru_inv (snd (lru_set c fp pol))" by blast+
qed

section \<open>What the proxy needs of a cache\<close>

text \<open>
  \<open>get\<close> answers from \<open>look\<close> and changes nothing \<open>look\<close> sees; \<open>put\<close> stores a version and may drop
  one other, which it names.
\<close>

locale version_cache =
  fixes inv :: "'c \<Rightarrow> bool"
    and look :: "'c \<Rightarrow> string \<Rightarrow> Policy option"
    and get :: "'c \<Rightarrow> string \<Rightarrow> Policy option \<times> 'c"
    and put :: "'c \<Rightarrow> string \<Rightarrow> Policy \<Rightarrow> string \<times> 'c"
  assumes get_inv: "inv c \<Longrightarrow> inv (snd (get c fp))"
    and get_result: "inv c \<Longrightarrow> fst (get c fp) = look c fp"
    and get_keeps: "inv c \<Longrightarrow> look (snd (get c fp)) fp' = look c fp'"
    and put_inv: "inv c \<Longrightarrow> inv (snd (put c fp p))"
    and put_same: "inv c \<Longrightarrow> look (snd (put c fp p)) fp = Some p"
    and put_other: "inv c \<Longrightarrow> fp' \<noteq> fp \<Longrightarrow> look (snd (put c fp p)) fp' \<noteq> look c fp' \<Longrightarrow>
      look (snd (put c fp p)) fp' = None \<and> fst (put c fp p) = fp'"
begin

text \<open>Every cached version is stored under its own fingerprint.\<close>

definition keyed :: "'c \<Rightarrow> bool" where
  "keyed c = (inv c \<and> (\<forall>fp p. look c fp = Some p \<longrightarrow> p_Fingerprint p = fp))"

lemma keyed_get: "keyed c \<Longrightarrow> keyed (snd (get c fp))"
  by (simp add: keyed_def get_inv get_keeps)

lemma keyed_put:
  assumes "keyed c"
  shows "keyed (snd (put c (p_Fingerprint p) p))"
  unfolding keyed_def
proof (intro conjI allI impI)
  show "inv (snd (put c (p_Fingerprint p) p))" using assms by (simp add: keyed_def put_inv)
  fix fp q assume q: "look (snd (put c (p_Fingerprint p) p)) fp = Some q"
  show "p_Fingerprint q = fp"
  proof (cases "fp = p_Fingerprint p")
    case True
    with q assms put_same [of c "p_Fingerprint p" p] show ?thesis by (simp add: keyed_def)
  next
    case False
    with q assms put_other [of c fp "p_Fingerprint p" p] have "look c fp = Some q" by (cases "look c fp = Some q") (auto simp: keyed_def)
    with assms show ?thesis by (simp add: keyed_def)
  qed
qed

lemma keyed_hit: "keyed c \<Longrightarrow> fst (get c fp) = Some p \<Longrightarrow> p_Fingerprint p = fp"
  by (simp add: keyed_def get_result)

end

definition lru_look :: "policyLRU \<Rightarrow> string \<Rightarrow> Policy option" where
  "lru_look c fp = map_of (lru_abs c) fp"

lemma map_of_filter_other: "fp' \<noteq> fp \<Longrightarrow> map_of (filter (\<lambda>e. fst e \<noteq> fp) xs) fp' = map_of xs fp'"
  by (induction xs) auto

lemma map_of_abs_get: "map_of (snd (abs_get fp xs)) fp' = map_of xs fp'"
  by (auto simp: abs_get_def map_of_filter_other split: option.splits)

lemma map_of_abs_set_same: "map_of (snd (abs_set cap fp p xs)) fp = Some p"
  by (simp add: abs_set_def)

lemma map_of_abs_set_other:
  assumes "fp' \<noteq> fp" "distinct (map fst xs)" "map_of (snd (abs_set cap fp p xs)) fp' \<noteq> map_of xs fp'"
  shows "map_of (snd (abs_set cap fp p xs)) fp' = None \<and> fst (abs_set cap fp p xs) = fp'"
proof (cases "fp \<in> fst ` set xs \<or> \<not> (int (length xs) \<ge> cap \<and> xs \<noteq> [])")
  case True
  with assms show ?thesis by (auto simp: abs_set_def map_of_filter_other split: if_splits)
next
  case False
  then have r0: "abs_set cap fp p xs = (fst (last xs), (fp, p) # butlast xs)" and ne: "xs \<noteq> []" by (auto simp: abs_set_def)
  obtain ys k v where xs: "xs = ys @ [(k, v)]" using ne by (cases xs rule: rev_cases) auto
  have r: "abs_set cap fp p (ys @ [(k, v)]) = (k, (fp, p) # ys)" using r0 by (simp add: xs)
  have nk: "k \<notin> fst ` set ys" using assms(2) by (simp add: xs)
  show ?thesis
  proof (cases "fp' = k")
    case True
    with nk have "map_of ys fp' = None" by (simp add: map_of_eq_None_iff)
    with True assms(1) show ?thesis by (simp add: r xs)
  next
    case False
    with assms show ?thesis by (simp add: r xs map_add_def split: option.splits)
  qed
qed

interpretation lru: version_cache lru_inv lru_look lru_get lru_set
proof unfold_locales
  fix c fp fp' and p :: Policy
  assume i: "lru_inv c"
  show "lru_inv (snd (lru_get c fp))" by (rule lru_get_refines [OF i])
  have "fst (abs_get fp xs) = map_of xs fp" for xs by (simp add: abs_get_def split: option.split)
  with lru_get_refines(1) [OF i] show "fst (lru_get c fp) = lru_look c fp" by (simp add: lru_look_def)
  show "lru_look (snd (lru_get c fp)) fp' = lru_look c fp'"
    by (simp add: lru_look_def lru_get_refines(2) [OF i] map_of_abs_get)
  show "lru_inv (snd (lru_set c fp p))" by (rule lru_set_refines [OF i])
  have s: "fst (lru_set c fp p) = fst (abs_set (lru_cap c) fp p (lru_abs c))"
      "lru_abs (snd (lru_set c fp p)) = snd (abs_set (lru_cap c) fp p (lru_abs c))"
    using lru_set_refines(1) [OF i, of fp p] by (metis fst_conv, metis snd_conv)
  show "lru_look (snd (lru_set c fp p)) fp = Some p" by (simp add: lru_look_def s map_of_abs_set_same)
  assume "fp' \<noteq> fp" "lru_look (snd (lru_set c fp p)) fp' \<noteq> lru_look c fp'"
  then show "lru_look (snd (lru_set c fp p)) fp' = None \<and> fst (lru_set c fp p) = fp'"
    using map_of_abs_set_other [OF _ lru_abs_distinct [OF i]] by (simp add: lru_look_def s)
qed

text \<open>Only the least recently used version is dropped, and only from a full cache.\<close>

lemma lru_set_drops:
  assumes inv: "lru_inv c" and q: "lru_look c fp' = Some q" "fp' \<noteq> fp"
  shows "lru_look (snd (lru_set c fp p)) fp' = Some q
    \<or> lru_len c = lru_cap c \<and> fp' = fst (last (lru_abs c))"
proof (cases "lru_look (snd (lru_set c fp p)) fp' = Some q")
  case False
  with q(1) have "lru_look (snd (lru_set c fp p)) fp' \<noteq> lru_look c fp'" by simp
  from lru.put_other [OF inv q(2) this] have none: "lru_look (snd (lru_set c fp p)) fp' = None" by simp
  have a: "lru_abs (snd (lru_set c fp p)) = snd (abs_set (lru_cap c) fp p (lru_abs c))"
    using lru_set_refines(1) [OF inv, of fp p] by (metis snd_conv)
  from none q a have full: "int (length (lru_abs c)) \<ge> lru_cap c" "lru_abs c \<noteq> []" "fp \<notin> fst ` set (lru_abs c)"
    by (auto simp: lru_look_def abs_set_def map_of_filter_other split: if_splits)
  obtain ys k v where xs: "lru_abs c = ys @ [(k, v)]" using full(2) by (cases "lru_abs c" rule: rev_cases) auto
  have "map_of ys fp' = None" using none q(2) full a xs by (auto simp: lru_look_def abs_set_def split: if_splits)
  with q(1) xs have "fp' = k" by (auto simp: lru_look_def map_add_def split: option.splits if_splits)
  moreover have "lru_len c = lru_cap c"
    using full(1) lru_inv_size(2) [OF inv] by (simp add: lru_len_def lru_abs_def)
  ultimately show ?thesis using xs by simp
qed simp

section \<open>Sequences of operations\<close>

datatype lru_op = CacheGet string | CacheSet string Policy

fun lru_step :: "lru_op \<Rightarrow> policyLRU \<Rightarrow> policyLRU" where
  "lru_step (CacheGet fp) c = snd (lru_get c fp)"
| "lru_step (CacheSet fp pol) c = snd (lru_set c fp pol)"

fun abs_step :: "int \<Rightarrow> lru_op \<Rightarrow> versions \<Rightarrow> versions" where
  "abs_step cap (CacheGet fp) xs = snd (abs_get fp xs)"
| "abs_step cap (CacheSet fp pol) xs = snd (abs_set cap fp pol xs)"

definition lru_run :: "lru_op list \<Rightarrow> policyLRU \<Rightarrow> policyLRU" where
  "lru_run ops c = fold lru_step ops c"

lemma lru_step_cap: "lru_cap (lru_step op c) = lru_cap c"
  by (cases op) (auto simp: lru_get_def lru_set_def lru_evict_def Let_def split: option.splits list.splits if_splits prod.splits)

lemma lru_step_facts:
  assumes "lru_inv c"
  shows "lru_inv (lru_step op c)" "lru_abs (lru_step op c) = abs_step (lru_cap c) op (lru_abs c)"
proof -
  show "lru_inv (lru_step op c)" by (cases op) (simp_all add: assms lru.get_inv lru.put_inv)
  show "lru_abs (lru_step op c) = abs_step (lru_cap c) op (lru_abs c)"
  proof (cases op)
    case (CacheSet fp p)
    with lru_set_refines(1) [OF assms, of fp p] show ?thesis by simp (metis snd_conv)
  qed (simp add: lru_get_refines [OF assms])
qed

lemma lru_run_facts:
  assumes "lru_inv c"
  shows "lru_inv (lru_run ops c) \<and> lru_abs (lru_run ops c) = fold (abs_step (lru_cap c)) ops (lru_abs c)
    \<and> lru_cap (lru_run ops c) = lru_cap c"
  using assms
  by (induction ops arbitrary: c) (simp_all add: lru_run_def lru_step_facts lru_step_cap)

text \<open>
  A version stays cached until \<open>cap\<close> other versions have been used after it. In the recency list,
  what stands before it is among the versions used since.
\<close>

fun op_fp :: "lru_op \<Rightarrow> string" where
  "op_fp (CacheGet fp) = fp"
| "op_fp (CacheSet fp pol) = fp"

definition recent_before :: "string \<Rightarrow> string set \<Rightarrow> versions \<Rightarrow> bool" where
  "recent_before fp used xs \<longleftrightarrow>
     (\<exists>pre v post. xs = pre @ (fp, v) # post \<and> fst ` set pre \<subseteq> used - {fp}) \<and> distinct (map fst xs)"

lemma recent_before_mem: "recent_before fp used xs \<Longrightarrow> fp \<in> fst ` set xs"
  by (auto simp: recent_before_def)

lemma recent_before_promote:
  assumes "recent_before fp used xs" "f \<noteq> fp"
  shows "recent_before fp (insert f used) ((f, w) # filter (\<lambda>e. fst e \<noteq> f) xs)"
proof -
  obtain pre v post where x: "xs = pre @ (fp, v) # post" "fst ` set pre \<subseteq> used - {fp}" "distinct (map fst xs)"
    using assms(1) by (auto simp: recent_before_def)
  let ?pre = "(f, w) # filter (\<lambda>e. fst e \<noteq> f) pre"
  have "(f, w) # filter (\<lambda>e. fst e \<noteq> f) xs = ?pre @ (fp, v) # filter (\<lambda>e. fst e \<noteq> f) post"
    using assms(2) x(1) by auto
  moreover have "fst ` set ?pre \<subseteq> insert f used - {fp}" using x(2) assms(2) by auto
  moreover have "distinct (map fst ((f, w) # filter (\<lambda>e. fst e \<noteq> f) xs))"
    using x(3) by (auto simp: distinct_map_filter)
  ultimately show ?thesis unfolding recent_before_def by blast
qed

lemma recent_before_front: "distinct (map fst xs) \<Longrightarrow> recent_before fp used ((fp, w) # filter (\<lambda>e. fst e \<noteq> fp) xs)"
  unfolding recent_before_def by (force simp: distinct_map_filter)

lemma recent_before_mono: "recent_before fp used xs \<Longrightarrow> used \<subseteq> used' \<Longrightarrow> recent_before fp used' xs"
  unfolding recent_before_def by blast

lemma recent_before_evict:
  assumes r: "recent_before fp used xs" and f: "f \<notin> fst ` set xs"
    and fin: "finite used" and full: "int (length xs) \<ge> cap" and few: "int (card (insert f used - {fp})) < cap"
  shows "recent_before fp (insert f used) ((f, w) # butlast xs)"
proof -
  obtain pre v post where x: "xs = pre @ (fp, v) # post" "fst ` set pre \<subseteq> used - {fp}" "distinct (map fst xs)"
    using r by (auto simp: recent_before_def)
  have ffp: "f \<noteq> fp" using f recent_before_mem [OF r] by auto
  have "post \<noteq> []"
  proof
    assume p: "post = []"
    have "card (fst ` set ((f, w) # pre)) = length ((f, w) # pre)"
      using x(3) f by (simp only: flip: set_map) (rule trans [OF distinct_card], auto simp: x(1))
    moreover have "fst ` set ((f, w) # pre) \<subseteq> insert f used - {fp}" using x(2) ffp by auto
    then have "card (fst ` set ((f, w) # pre)) \<le> card (insert f used - {fp})" by (rule card_mono [rotated]) (simp add: fin)
    ultimately show False using few full p x(1) by simp
  qed
  then have "(f, w) # butlast xs = ((f, w) # pre) @ (fp, v) # butlast post" by (simp add: x(1) butlast_append)
  moreover have "fst ` set ((f, w) # pre) \<subseteq> insert f used - {fp}" using x(2) ffp by auto
  moreover have "distinct (map fst ((f, w) # butlast xs))"
    using x(3) f by (auto simp: map_butlast distinct_butlast dest: in_set_butlastD)
  ultimately show ?thesis unfolding recent_before_def by blast
qed

lemma recent_before_step:
  assumes r: "recent_before fp used xs" and fin: "finite used" and few: "int (card (insert (op_fp op) used - {fp})) < cap"
  shows "recent_before fp (insert (op_fp op) used) (abs_step cap op xs)"
proof -
  have d: "distinct (map fst xs)" using r by (simp add: recent_before_def)
  have keep: "recent_before fp (insert (op_fp op) used) xs" by (rule recent_before_mono [OF r]) auto
  show ?thesis
  proof (cases op)
    case (CacheGet f)
    show ?thesis
    proof (cases "f = fp")
      case True
      with keep CacheGet recent_before_front [OF d] show ?thesis by (auto simp: abs_get_def split: option.split)
    next
      case False
      with keep CacheGet recent_before_promote [OF r False] show ?thesis by (auto simp: abs_get_def split: option.split)
    qed
  next
    case (CacheSet f p)
    show ?thesis
    proof (cases "f = fp")
      case True
      with recent_before_mem [OF r] CacheSet recent_before_front [OF d] show ?thesis by (simp add: abs_set_def)
    next
      case ne: False
      show ?thesis
      proof (cases "f \<in> fst ` set xs")
        case True
        with CacheSet recent_before_promote [OF r ne] show ?thesis by (simp add: abs_set_def)
      next
        case False
        then have nf: "filter (\<lambda>e. fst e \<noteq> f) xs = xs" by (auto simp: filter_id_conv image_iff)
        from recent_before_promote [OF r ne] have "recent_before fp (insert f used) ((f, p) # xs)" by (simp only: nf)
        with False CacheSet recent_before_evict [OF r False fin _ few [unfolded CacheSet op_fp.simps]] show ?thesis
          by (auto simp: abs_set_def)
      qed
    qed
  qed
qed

lemma recent_before_run:
  assumes "recent_before fp used xs" "finite used" "int (card ((op_fp ` set ops \<union> used) - {fp})) < cap"
  shows "fp \<in> fst ` set (fold (abs_step cap) ops xs)"
  using assms
proof (induction ops arbitrary: used xs)
  case Nil
  then show ?case by (simp add: recent_before_mem)
next
  case (Cons op ops)
  have "card (insert (op_fp op) used - {fp}) \<le> card ((op_fp ` set (op # ops) \<union> used) - {fp})"
    by (rule card_mono) (use Cons.prems(2) in auto)
  with Cons.prems(3) have "int (card (insert (op_fp op) used - {fp})) < cap" by linarith
  from recent_before_step [OF Cons.prems(1,2) this]
  have r: "recent_before fp (insert (op_fp op) used) (abs_step cap op xs)" .
  have "op_fp ` set ops \<union> insert (op_fp op) used = op_fp ` set (op # ops) \<union> used" by auto
  with Cons.IH [OF r] Cons.prems(2,3) show ?case by simp
qed

section \<open>Properties\<close>

text \<open>C36: However the proxy uses the cache, it holds at most its capacity of versions, each version
  once, and its answers and its contents are those of the recency-ordered list of versions.\<close>

theorem lru_refines_recency_list:
  assumes "0 < cap"
  shows "int (length (lru_list (lru_run ops (newPolicyLRU cap)))) \<le> cap
    \<and> distinct (map fst (lru_abs (lru_run ops (newPolicyLRU cap))))
    \<and> lru_abs (lru_run ops (newPolicyLRU cap)) = fold (abs_step cap) ops []
    \<and> fst (lru_get (lru_run ops (newPolicyLRU cap)) fp) = map_of (fold (abs_step cap) ops []) fp"
proof (intro conjI)
  note run = lru_run_facts [OF lru_inv_new [OF assms], of ops]
  have new: "lru_cap (newPolicyLRU cap) = cap" "lru_abs (newPolicyLRU cap) = []"
    by (simp_all add: newPolicyLRU_def lru_abs_def)
  show "int (length (lru_list (lru_run ops (newPolicyLRU cap)))) \<le> cap"
    using run lru_inv_size(2) by (metis new(1))
  show "distinct (map fst (lru_abs (lru_run ops (newPolicyLRU cap))))" using run lru_abs_distinct by blast
  show a: "lru_abs (lru_run ops (newPolicyLRU cap)) = fold (abs_step cap) ops []" using run by (simp add: new)
  show "fst (lru_get (lru_run ops (newPolicyLRU cap)) fp) = map_of (fold (abs_step cap) ops []) fp"
    using run lru.get_result by (metis a lru_look_def)
qed

definition two_versions :: "lru_op list" where
  "two_versions = [CacheSet ''a'' sample_policy, CacheSet ''b'' sample_policy, CacheGet ''a'', CacheSet ''c'' sample_policy]"

lemma lru_refines_recency_list_witness:
  "int (length (lru_list (lru_run two_versions (newPolicyLRU 2)))) \<le> 2
   \<and> fst (lru_get (lru_run two_versions (newPolicyLRU 2)) ''b'') = None
   \<and> fst (lru_get (lru_run two_versions (newPolicyLRU 2)) ''a'') = Some sample_policy"
proof -
  have "map_of (fold (abs_step 2) two_versions []) ''b'' = None"
    "map_of (fold (abs_step 2) two_versions []) ''a'' = Some sample_policy"
    by (simp_all add: two_versions_def abs_set_def abs_get_def)
  with lru_refines_recency_list [of 2 two_versions] show ?thesis by simp
qed

text \<open>A version put in the cache is still found while fewer than the capacity of other versions
  have been looked up or stored since: only the least recently used version is ever evicted.\<close>

theorem lru_keeps_recent:
  assumes "lru_inv c" "int (card (op_fp ` set ops - {fp})) < lru_cap c"
  shows "\<exists>q. fst (lru_get (lru_run ops (snd (lru_set c fp pol))) fp) = Some q"
proof -
  let ?c = "snd (lru_set c fp pol)"
  have i: "lru_inv ?c" by (rule lru.put_inv [OF assms(1)])
  have a: "lru_abs ?c = snd (abs_set (lru_cap c) fp pol (lru_abs c))"
    using lru_set_refines(1) [OF assms(1), of fp pol] by (metis snd_conv)
  then have "\<exists>xs. lru_abs ?c = (fp, pol) # xs" by (simp add: abs_set_def)
  with lru_abs_distinct [OF i] have r: "recent_before fp {} (lru_abs ?c)" by (force simp: recent_before_def)
  have cap: "lru_cap ?c = lru_cap c" using lru_step_cap [of "CacheSet fp pol" c] by simp
  note run = lru_run_facts [OF i, of ops]
  have "fp \<in> fst ` set (fold (abs_step (lru_cap c)) ops (lru_abs ?c))"
    by (rule recent_before_run [OF r]) (use assms(2) in simp_all)
  then have "lru_look (lru_run ops ?c) fp \<noteq> None" using run cap by (simp add: lru_look_def map_of_eq_None_iff)
  then show ?thesis using run lru.get_result by auto
qed

lemma lru_keeps_recent_witness:
  "\<exists>q. fst (lru_get (lru_run [CacheSet ''b'' sample_policy, CacheGet ''b''] (snd (lru_set (newPolicyLRU 2) ''a'' sample_policy))) ''a'') = Some q"
  by (rule lru_keeps_recent) (simp_all add: newPolicyLRU_def [of 2] lru_inv_def)

end
