(* ===== verification/TB_Evaluators.thy ===== *)
theory TB_Evaluators
  imports TB_Engine
begin

text \<open>
  The nine stages of the evaluation pipeline, one group per file of \<open>internal/engine\<close>: the
  evaluator as the code has it, then what it decides, stated over the views of the backend
  contract.
\<close>

section \<open>EnvEvaluator (env.go)\<close>

definition env_display :: "string \<Rightarrow> string" where
  "env_display agentEnv =
     (if agentEnv = [] then ''(none '' @ [CHR 0xE2, CHR 0x80, CHR 0x94] @ '' agent registered without --env)''
      else agentEnv)"

definition msg_env :: "lib \<Rightarrow> string \<Rightarrow> string \<Rightarrow> string" where
  "msg_env L required agentEnv =
     ''require_env: policy requires environment '' @ qt L required @ '' but agent env is ''
     @ env_display agentEnv"

definition sug_env :: "lib \<Rightarrow> string \<Rightarrow> string" where
  "sug_env L required =
     ''This policy requires an agent registered with --env '' @ qt L required
     @ ''. Re-register the agent with the correct environment flag and retry.''"

definition EnvEvaluator :: "lib \<Rightarrow> Evaluator" where
  "EnvEvaluator L call sess pol =
     (let required = sp_RequireEnv (p_Session pol) in
      if required = [] then Inr allow
      else if tc_AgentEnv call = required then Inr allow
      else Inr (deny (msg_env L required (tc_AgentEnv call)) ''env.mismatch''
                  (feedback ''env_mismatch'' (sug_env L required))))"

section \<open>MayUseEvaluator (mayuse.go)\<close>

definition virtualEscalationTool :: string where
  "virtualEscalationTool = ''check_escalation_status''"

definition msg_may_use :: "lib \<Rightarrow> string \<Rightarrow> string" where
  "msg_may_use L tool = ''tool '' @ qt L tool @ '' is not in the policy may_use list''"

definition sug_may_use :: "lib \<Rightarrow> string \<Rightarrow> string" where
  "sug_may_use L tool =
     ''Tool '' @ qt L tool @ '' is not permitted by this policy. Retry with one of the allowed tools ''
     @ ''listed in the policy may_use declaration.''"

definition MayUseEvaluator :: "lib \<Rightarrow> Evaluator" where
  "MayUseEvaluator L call sess pol =
     (if tc_ToolName call = virtualEscalationTool then Inr allow
      else if tc_ToolName call \<in> set (may_use pol) then Inr allow
      else Inr (deny (msg_may_use L (tc_ToolName call)) ''may_use''
                  (feedback ''may_use_denied'' (sug_may_use L (tc_ToolName call)))))"

section \<open>DelegationEvaluator (delegation.go)\<close>

definition msg_parent_missing :: "lib \<Rightarrow> ToolCall \<Rightarrow> string" where
  "msg_parent_missing L call =
     ''parent agent '' @ qt L (tc_ParentAgent call) @ '' not found in agents table; child agent ''
     @ qt L (tc_AgentName call) @ '' cannot be authorised''"

definition msg_parent_load :: "lib \<Rightarrow> ToolCall \<Rightarrow> string" where
  "msg_parent_load L call =
     ''loading parent agent '' @ qt L (tc_ParentAgent call) @ '' for delegation check on behalf of ''
     @ qt L (tc_AgentName call)"

definition msg_delegation :: "lib \<Rightarrow> ToolCall \<Rightarrow> string" where
  "msg_delegation L call =
     ''delegation.exceeds_parent: tool '' @ qt L (tc_ToolName call) @ '' is not in parent agent ''
     @ qt L (tc_ParentAgent call) @ [CHR 0x27] @ ''s allowed tool set''"

definition sug_delegation :: "lib \<Rightarrow> string \<Rightarrow> string" where
  "sug_delegation L tool =
     ''Tool '' @ qt L tool @ '' is not within the parent agent'' @ [CHR 0x27] @ ''s delegated scope. ''
     @ ''Re-register the parent agent with an expanded tool set or use a root agent credential.''"

definition DelegationEvaluator :: "lib \<Rightarrow> QueryBackend \<Rightarrow> Evaluator" where
  "DelegationEvaluator L B call sess pol =
     (if tc_ParentAgent call = [] then Inr allow
      else
        (case qb_GetAgentAllowedTools B (tc_ParentAgent call) of
           Inl err \<Rightarrow>
             (if errors_Is err ErrParentAgentNotFound then Inl (errorf (msg_parent_missing L call))
              else Inl (wrapf (msg_parent_load L call) err))
         | Inr parentTools \<Rightarrow>
             (if tc_ToolName call \<in> set parentTools then Inr allow
              else Inr (deny (msg_delegation L call) ''delegation.exceeds_parent''
                          (feedback ''delegation_exceeded'' (sug_delegation L (tc_ToolName call)))))))"

section \<open>BudgetEvaluator (budget.go)\<close>

definition msg_budget_both :: "Session \<Rightarrow> BudgetPolicy \<Rightarrow> string" where
  "msg_budget_both sess b =
     ''session budget exceeded: tool call limit ('' @ dec (s_ToolCallCount sess) @ ''/''
     @ dec (bp_MaxToolCalls b) @ '' calls) and cost limit ($'' @ fmt_fixed 4 (s_EstimatedCostUSD sess)
     @ ''/$'' @ fmt_fixed 4 (bp_MaxCostUSD b) @ '' USD) both reached''"

definition msg_budget_calls :: "Session \<Rightarrow> BudgetPolicy \<Rightarrow> string" where
  "msg_budget_calls sess b =
     ''session tool call limit reached: '' @ dec (s_ToolCallCount sess) @ '' of ''
     @ dec (bp_MaxToolCalls b) @ '' calls used''"

definition msg_budget_cost :: "Session \<Rightarrow> BudgetPolicy \<Rightarrow> string" where
  "msg_budget_cost sess b =
     ''session cost limit reached: $'' @ fmt_fixed 4 (s_EstimatedCostUSD sess) @ '' of $''
     @ fmt_fixed 4 (bp_MaxCostUSD b) @ '' USD used''"

definition sug_budget_both :: string where
  "sug_budget_both = ''Session budget limits have been reached. Start a new session or contact the ''
     @ ''operator to increase the configured limits.''"

definition sug_budget_calls :: string where
  "sug_budget_calls = ''Session tool call budget has been reached. Start a new session or contact the ''
     @ ''operator to increase the configured limit.''"

definition sug_budget_cost :: string where
  "sug_budget_cost = ''Session cost budget has been reached. Start a new session or contact the ''
     @ ''operator to increase the configured limit.''"

definition calls_exceeded :: "BudgetPolicy \<Rightarrow> Session \<Rightarrow> bool" where
  "calls_exceeded b sess = (bp_MaxToolCalls b > 0 \<and> s_ToolCallCount sess \<ge> bp_MaxToolCalls b)"

definition cost_exceeded :: "BudgetPolicy \<Rightarrow> Session \<Rightarrow> bool" where
  "cost_exceeded b sess =
     (f_gt (bp_MaxCostUSD b) f_zero \<and> f_ge (s_EstimatedCostUSD sess) (bp_MaxCostUSD b))"

definition BudgetEvaluator :: "Evaluator" where
  "BudgetEvaluator call sess pol =
     (let b = p_Budget pol in
      if bp_MaxToolCalls b = 0 \<and> f_eq (bp_MaxCostUSD b) f_zero then Inr allow
      else if calls_exceeded b sess \<and> cost_exceeded b sess then
        Inr (deny (msg_budget_both sess b) ''budget.max_tool_calls'' (feedback ''budget_exceeded'' sug_budget_both))
      else if calls_exceeded b sess then
        Inr (deny (msg_budget_calls sess b) ''budget.max_tool_calls'' (feedback ''budget_exceeded'' sug_budget_calls))
      else if cost_exceeded b sess then
        Inr (deny (msg_budget_cost sess b) ''budget.max_cost_usd'' (feedback ''budget_exceeded'' sug_budget_cost))
      else Inr allow)"

section \<open>TaintEvaluator (taint.go)\<close>

definition taintApplyingTools :: "Policy \<Rightarrow> string list" where
  "taintApplyingTools pol = map fst (filter (\<lambda>(name, tp). tt_Applies (tp_Taint tp)) (tools pol))"

definition msg_taint :: "lib \<Rightarrow> string \<Rightarrow> string \<Rightarrow> string" where
  "msg_taint L tool blocked =
     ''session is tainted: tool '' @ qt L tool @ '' is blocked because '' @ qt L blocked
     @ '' (a taint-applying tool) appears in its never_after guard and the session taint flag is set''"

definition sug_taint :: "lib \<Rightarrow> string \<Rightarrow> string \<Rightarrow> string" where
  "sug_taint L tool blocked =
     ''Session is tainted by a previous call to '' @ qt L blocked
     @ ''. Call the designated taint-clearing tool first, then retry '' @ qt L tool @ ''.''"

definition TaintEvaluator :: "lib \<Rightarrow> Evaluator" where
  "TaintEvaluator L call sess pol =
     (if \<not> s_Tainted sess then Inr allow
      else if (case tool_policy pol (tc_ToolName call) of Some tp \<Rightarrow> tt_Clears (tp_Taint tp) | None \<Rightarrow> False)
        then Inr allow
      else
        (let taintSources = taintApplyingTools pol in
         if taintSources = [] then Inr allow
         else
           (case tool_policy pol (tc_ToolName call) of
              None \<Rightarrow> Inr allow
            | Some tp \<Rightarrow>
                (case find (\<lambda>blocked. blocked \<in> set taintSources) (elems (sq_NeverAfter (tp_Sequence tp))) of
                   None \<Rightarrow> Inr allow
                 | Some blocked \<Rightarrow>
                     Inr (deny (msg_taint L (tc_ToolName call) blocked) ''taint.session_tainted''
                            (feedback ''taint_blocked'' (sug_taint L (tc_ToolName call) blocked)))))))"

section \<open>SequenceEvaluator (sequence.go)\<close>

record freq =
  fq_seen :: bool
  fq_count :: int

text \<open>The map \<open>history\<close>: an absent key reads as the zero \<open>freq\<close>.\<close>

definition history_step :: "SessionEventEntry \<Rightarrow> (string \<Rightarrow> freq) \<Rightarrow> string \<Rightarrow> freq" where
  "history_step ev h =
     (if se_Decision ev \<noteq> action_str Allow \<and> se_Decision ev \<noteq> action_str ShadowDeny then h
      else h(se_ToolName ev := \<lparr>fq_seen = True, fq_count = fq_count (h (se_ToolName ev)) + 1\<rparr>))"

definition history :: "SessionEventEntry list \<Rightarrow> string \<Rightarrow> freq" where
  "history events = fold history_step events (\<lambda>_. \<lparr>fq_seen = False, fq_count = 0\<rparr>)"

definition msg_only_after :: "lib \<Rightarrow> string \<Rightarrow> string \<Rightarrow> string" where
  "msg_only_after L tool required =
     ''sequence.only_after: '' @ qt L required @ '' has not been called in this session (required before ''
     @ qt L tool @ '')''"

definition msg_never_after :: "lib \<Rightarrow> string \<Rightarrow> string \<Rightarrow> string" where
  "msg_never_after L tool forbidden =
     ''sequence.never_after: '' @ qt L forbidden
     @ '' was already called in this session and permanently blocks '' @ qt L tool"

definition msg_prior_n :: "lib \<Rightarrow> string \<Rightarrow> PriorNRule \<Rightarrow> int \<Rightarrow> string" where
  "msg_prior_n L tool r count =
     ''sequence.requires_prior_n: '' @ qt L (pn_Tool r) @ '' must be called at least ''
     @ dec (pn_Count r) @ '' time(s) before '' @ qt L tool @ '' ('' @ dec count @ '' call(s) recorded)''"

definition sug_only_after :: "lib \<Rightarrow> string \<Rightarrow> string list \<Rightarrow> string" where
  "sug_only_after L tool ms =
     ''Call '' @ join '', then '' ms @ '' first, then retry '' @ qt L tool @ ''.''"

definition sug_never_after :: "lib \<Rightarrow> string \<Rightarrow> string list \<Rightarrow> string" where
  "sug_never_after L tool bs =
     ''Tool '' @ qt L tool @ '' cannot be called after '' @ join '', '' bs
     @ '' has run in this session. Start a new session to retry.''"

definition sug_prior_n :: "lib \<Rightarrow> string \<Rightarrow> string list \<Rightarrow> string" where
  "sug_prior_n L tool ms =
     ''Call '' @ join '', '' ms @ '' the required number of times first, then retry '' @ qt L tool @ ''.''"

definition missing_only_after :: "(string \<Rightarrow> freq) \<Rightarrow> SequencePolicy \<Rightarrow> string list" where
  "missing_only_after h seq = filter (\<lambda>required. \<not> fq_seen (h required)) (elems (sq_OnlyAfter seq))"

definition blocked_by_never_after :: "(string \<Rightarrow> freq) \<Rightarrow> SequencePolicy \<Rightarrow> string list" where
  "blocked_by_never_after h seq = filter (\<lambda>forbidden. fq_seen (h forbidden)) (elems (sq_NeverAfter seq))"

definition missing_prior_n :: "(string \<Rightarrow> freq) \<Rightarrow> SequencePolicy \<Rightarrow> PriorNRule list" where
  "missing_prior_n h seq =
     (case sq_RequiresPriorN seq of
        None \<Rightarrow> []
      | Some r \<Rightarrow> if fq_count (h (pn_Tool r)) < pn_Count r then [r] else [])"

definition sequence_feedback ::
    "lib \<Rightarrow> string \<Rightarrow> string list \<Rightarrow> string list \<Rightarrow> string list \<Rightarrow> DenyFeedback" where
  "sequence_feedback L tool missingOnlyAfter blockedByNeverAfter missingRequiresPriorN =
     (if missingOnlyAfter \<noteq> [] then
        \<lparr>fb_ReasonCode = ''sequence_only_after'', fb_UnsatisfiedPrerequisites = missingOnlyAfter,
         fb_Suggestion = sug_only_after L tool missingOnlyAfter\<rparr>
      else if blockedByNeverAfter \<noteq> [] then
        feedback ''sequence_never_after'' (sug_never_after L tool blockedByNeverAfter)
      else
        \<lparr>fb_ReasonCode = ''sequence_requires_prior_n'', fb_UnsatisfiedPrerequisites = missingRequiresPriorN,
         fb_Suggestion = sug_prior_n L tool missingRequiresPriorN\<rparr>)"

definition msg_fetch_events :: "lib \<Rightarrow> string \<Rightarrow> string" where
  "msg_fetch_events L sid = ''fetching session events for sequence check on session '' @ qt L sid"

definition SequenceEvaluator :: "lib \<Rightarrow> QueryBackend \<Rightarrow> Evaluator" where
  "SequenceEvaluator L B call sess pol =
     (case tool_policy pol (tc_ToolName call) of
        None \<Rightarrow> Inr allow
      | Some tp \<Rightarrow>
          (let seq = tp_Sequence tp; tool = tc_ToolName call in
           if elems (sq_OnlyAfter seq) = [] \<and> elems (sq_NeverAfter seq) = [] \<and> sq_RequiresPriorN seq = None
           then Inr allow
           else
             (case qb_GetSessionEvents B (s_ID sess) of
                Inl err \<Rightarrow> Inl (wrapf (msg_fetch_events L (s_ID sess)) err)
              | Inr events \<Rightarrow>
                  (let h = history events;
                       mo = missing_only_after h seq;
                       bn = blocked_by_never_after h seq;
                       mp = missing_prior_n h seq;
                       violations = map (msg_only_after L tool) mo @ map (msg_never_after L tool) bn
                         @ map (\<lambda>r. msg_prior_n L tool r (fq_count (h (pn_Tool r)))) mp
                   in if violations = [] then Inr allow
                      else Inr (deny (join ''; '' violations) ''sequence''
                                  (sequence_feedback L tool mo bn (map pn_Tool mp)))))))"

section \<open>ContentEvaluator (content.go)\<close>

definition msg_arg_missing :: "lib \<Rightarrow> string \<Rightarrow> string" where
  "msg_arg_missing L arg = ''argument '' @ qt L arg @ '' not found in tool call arguments (fail closed)''"

definition strip_slashes :: "string \<Rightarrow> string" where
  "strip_slashes v = trim_suffix ''/'' (trim_prefix ''/'' v)"

definition evalContentPredicate :: "lib \<Rightarrow> ToolCall \<Rightarrow> ContentPredicate \<Rightarrow> gerr + bool" where
  "evalContentPredicate L call pred =
     (case l_gjson L (tc_Arguments call) (cp_Argument pred) of
        None \<Rightarrow> Inl (errorf (msg_arg_missing L (cp_Argument pred)))
      | Some result \<Rightarrow>
          (let argStr = g_String result; op = cp_Operator pred in
           if op = ''is_external'' then Inr (\<not> suffix (cp_Value pred) argStr)
           else if op = ''contains_pattern'' then
             (case l_regexp L (strip_slashes (cp_Value pred)) of
                Inl err \<Rightarrow> Inl (wrapf (''compiling contains_pattern regexp '' @ qt L (cp_Value pred)) (errorf err))
              | Inr re \<Rightarrow> Inr (re argStr))
           else if op = ''equals'' then Inr (argStr = cp_Value pred)
           else if op = ''not_equals'' then Inr (argStr \<noteq> cp_Value pred)
           else Inl (errorf (''unsupported never_when operator '' @ qt L op))))"

definition msg_eval_pred :: "lib \<Rightarrow> ContentPredicate \<Rightarrow> string \<Rightarrow> string" where
  "msg_eval_pred L pred tool =
     ''evaluating never_when predicate (argument='' @ qt L (cp_Argument pred) @ '' operator=''
     @ qt L (cp_Operator pred) @ '') for tool '' @ qt L tool"

definition msg_pred :: "lib \<Rightarrow> ContentPredicate \<Rightarrow> string" where
  "msg_pred L pred =
     ''argument '' @ qt L (cp_Argument pred) @ '' '' @ cp_Operator pred @ '' '' @ qt L (cp_Value pred)"

definition sug_content_any :: "lib \<Rightarrow> ContentPredicate \<Rightarrow> string" where
  "sug_content_any L pred =
     ''Tool call was blocked by a content predicate: argument '' @ qt L (cp_Argument pred)
     @ '' must not satisfy '' @ cp_Operator pred @ '' '' @ qt L (cp_Value pred)
     @ ''. Modify the argument value and retry.''"

definition sug_content_all :: "nat \<Rightarrow> string" where
  "sug_content_all n =
     ''Tool call was blocked because all '' @ dec (int n)
     @ '' never_when conditions matched simultaneously. Modify the flagged argument values and retry.''"

fun evalNeverWhenAny :: "lib \<Rightarrow> ToolCall \<Rightarrow> ContentPredicate list \<Rightarrow> gerr + Decision" where
  "evalNeverWhenAny L call [] = Inr allow"
| "evalNeverWhenAny L call (pred # preds) =
     (case evalContentPredicate L call pred of
        Inl err \<Rightarrow> Inl (wrapf (msg_eval_pred L pred (tc_ToolName call)) err)
      | Inr fired \<Rightarrow>
          (if fired then
             Inr (deny (''never_when: '' @ msg_pred L pred)
                    (''content.'' @ cp_Argument pred @ ''.'' @ cp_Operator pred)
                    (feedback ''content_blocked'' (sug_content_any L pred)))
           else evalNeverWhenAny L call preds))"

fun evalNeverWhenAll_loop ::
    "lib \<Rightarrow> ToolCall \<Rightarrow> ContentPredicate list \<Rightarrow> string list \<Rightarrow> gerr + Decision" where
  "evalNeverWhenAll_loop L call [] reasons =
     Inr (deny (''never_when (all): all '' @ dec (int (length reasons)) @ '' predicates matched: '' @ join ''; '' reasons)
            ''content.all_matched'' (feedback ''content_blocked'' (sug_content_all (length reasons))))"
| "evalNeverWhenAll_loop L call (pred # preds) reasons =
     (case evalContentPredicate L call pred of
        Inl err \<Rightarrow> Inl (wrapf (msg_eval_pred L pred (tc_ToolName call)) err)
      | Inr fired \<Rightarrow>
          (if \<not> fired then Inr allow
           else evalNeverWhenAll_loop L call preds (reasons @ [msg_pred L pred])))"

definition evalNeverWhenAll :: "lib \<Rightarrow> ToolCall \<Rightarrow> ContentPredicate list \<Rightarrow> gerr + Decision" where
  "evalNeverWhenAll L call preds = evalNeverWhenAll_loop L call preds []"

definition msg_bad_match :: "lib \<Rightarrow> string \<Rightarrow> string \<Rightarrow> string" where
  "msg_bad_match L m tool =
     ''unsupported never_when_match value '' @ qt L m @ '' for tool '' @ qt L tool
     @ '': supported values are '' @ qt L ContentMatchAny @ '' and '' @ qt L ContentMatchAll"

definition ContentEvaluator :: "lib \<Rightarrow> Evaluator" where
  "ContentEvaluator L call sess pol =
     (case tool_policy pol (tc_ToolName call) of
        None \<Rightarrow> Inr allow
      | Some tp \<Rightarrow>
          (let preds = elems (tp_NeverWhen tp); m = tp_NeverWhenMatch tp in
           if preds = [] then Inr allow
           else if m = [] \<or> m = ContentMatchAny then evalNeverWhenAny L call preds
           else if m = ContentMatchAll then evalNeverWhenAll L call preds
           else Inl (errorf (msg_bad_match L m (tc_ToolName call)))))"

section \<open>RateLimitEvaluator (ratelimit.go)\<close>

text \<open>\<open>ref.Add(-time.Duration(W) * time.Second)\<close>, read back as \<open>UnixNano\<close>; every step is int64.\<close>

definition window_start :: "int \<Rightarrow> int \<Rightarrow> int" where
  "window_start ref w = wrap64 (ref + wrap64 (wrap64 (- w) * 1000000000))"

definition msg_check_rate :: "lib \<Rightarrow> string \<Rightarrow> string \<Rightarrow> string" where
  "msg_check_rate L tool sid = ''checking rate limit for tool '' @ qt L tool @ '' in session '' @ qt L sid"

definition msg_rate :: "lib \<Rightarrow> string \<Rightarrow> int \<Rightarrow> RateLimitPolicy \<Rightarrow> string" where
  "msg_rate L tool count rl =
     ''rate_limit: '' @ qt L tool @ '' has been called '' @ dec count @ '' time(s) in the past ''
     @ dec (rl_WindowSeconds rl) @ '' second(s); limit is '' @ dec (rl_MaxCalls rl) @ '' call(s) per window''"

definition sug_rate :: "lib \<Rightarrow> string \<Rightarrow> RateLimitPolicy \<Rightarrow> string" where
  "sug_rate L tool rl =
     ''Tool '' @ qt L tool @ '' has exceeded its call frequency limit. Wait '' @ dec (rl_WindowSeconds rl)
     @ '' second(s) for the window to roll and retry.''"

text \<open>\<open>now\<close> is the value of \<open>time.Now()\<close>, read only when the call carries no time.\<close>

definition RateLimitEvaluator :: "lib \<Rightarrow> QueryBackend \<Rightarrow> int \<Rightarrow> Evaluator" where
  "RateLimitEvaluator L B now call sess pol =
     (case tool_policy pol (tc_ToolName call) of
        None \<Rightarrow> Inr allow
      | Some tp \<Rightarrow>
          (case tp_RateLimit tp of
             None \<Rightarrow> Inr allow
           | Some rl \<Rightarrow>
               (let ref = (case tc_RequestedAt call of None \<Rightarrow> now | Some t \<Rightarrow> t);
                    since = window_start ref (rl_WindowSeconds rl)
                in case qb_CountSessionEventsSince B (s_ID sess) (tc_ToolName call) since of
                     Inl err \<Rightarrow> Inl (wrapf (msg_check_rate L (tc_ToolName call) (s_ID sess)) err)
                   | Inr count \<Rightarrow>
                       (if count \<ge> rl_MaxCalls rl then
                          Inr (deny (msg_rate L (tc_ToolName call) count rl)
                                 (''rate_limit.'' @ tc_ToolName call)
                                 (feedback ''rate_limit_exceeded'' (sug_rate L (tc_ToolName call) rl)))
                        else Inr allow))))"

section \<open>EscalationEvaluator (escalation.go)\<close>

fun toFloat64 :: "any \<Rightarrow> float64" where
  "toFloat64 (A_float64 n) = n"
| "toFloat64 (A_int n) = f_of_int n"
| "toFloat64 (A_int64 n) = f_of_int n"
| "toFloat64 (A_float32 n) = n"
| "toFloat64 _ = f_zero"

definition applyNumericOp :: "lib \<Rightarrow> float64 \<Rightarrow> string \<Rightarrow> float64 \<Rightarrow> gerr + bool" where
  "applyNumericOp L actual op threshold =
     (if op = ''>'' then Inr (f_gt actual threshold)
      else if op = ''<'' then Inr (f_lt actual threshold)
      else if op = ''>='' then Inr (f_ge actual threshold)
      else if op = ''<='' then Inr (f_le actual threshold)
      else if op = ''=='' then Inr (f_eq actual threshold)
      else if op = ''!='' then Inr (\<not> f_eq actual threshold)
      else Inl (errorf (''unreachable: unknown numeric operator '' @ qt L op)))"

definition numeric_operators :: "string list" where
  "numeric_operators = [''>'', ''<'', ''>='', ''<='', ''=='', ''!='']"

definition applyEscalationOperator :: "lib \<Rightarrow> gres \<Rightarrow> string \<Rightarrow> any \<Rightarrow> gerr + bool" where
  "applyEscalationOperator L actualValue op threshold =
     (if op \<in> set numeric_operators then applyNumericOp L (g_Float actualValue) op (toFloat64 threshold)
      else if op = ''contains'' then Inr (sublist (fmt_any L threshold) (g_String actualValue))
      else if op = ''matches'' then
        (case l_regexp L (fmt_any L threshold) of
           Inl err \<Rightarrow> Inl (wrapf (''compiling regexp pattern '' @ qt L (fmt_any L threshold)) (errorf err))
         | Inr re \<Rightarrow> Inr (re (g_String actualValue)))
      else Inl (errorf (''unsupported escalate_when operator '' @ qt L op)))"

definition escalation_path :: "string \<Rightarrow> string" where
  "escalation_path argumentPath = trim_prefix ''$'' (trim_prefix ''$.'' argumentPath)"

definition msg_empty_path :: "lib \<Rightarrow> EscalateRule \<Rightarrow> string \<Rightarrow> string" where
  "msg_empty_path L rule tool =
     ''escalate_when.argument_path '' @ qt L (er_ArgumentPath rule) @ '' for tool '' @ qt L tool
     @ '' resolves to an empty gjson path''"

definition msg_path_missing :: "lib \<Rightarrow> EscalateRule \<Rightarrow> string \<Rightarrow> string" where
  "msg_path_missing L rule tool =
     ''escalate_when.argument_path '' @ qt L (er_ArgumentPath rule) @ '' not found in arguments for tool ''
     @ qt L tool @ '' (fail closed)''"

definition msg_escalate :: "lib \<Rightarrow> EscalateRule \<Rightarrow> string" where
  "msg_escalate L rule =
     ''escalate_when: argument at '' @ qt L (er_ArgumentPath rule) @ '' is '' @ er_Operator rule @ '' ''
     @ fmt_any L (er_Value rule)"

definition sug_escalate :: string where
  "sug_escalate = ''This action requires human approval. Poll check_escalation_status with the ''
     @ ''returned escalation_id to retry once an operator approves.''"

definition EscalationEvaluator :: "lib \<Rightarrow> QueryBackend \<Rightarrow> Evaluator" where
  "EscalationEvaluator L B call sess pol =
     (case Option.bind (tool_policy pol (tc_ToolName call)) tp_EscalateWhen of
        None \<Rightarrow> Inr allow
      | Some rule \<Rightarrow>
          (let tool = tc_ToolName call; path = escalation_path (er_ArgumentPath rule) in
           if path = [] then Inl (errorf (msg_empty_path L rule tool))
           else
             (case l_gjson L (tc_Arguments call) path of
                None \<Rightarrow> Inl (errorf (msg_path_missing L rule tool))
              | Some result \<Rightarrow>
                  (case applyEscalationOperator L result (er_Operator rule) (er_Value rule) of
                     Inl err \<Rightarrow> Inl (wrapf (''evaluating escalate_when for tool '' @ qt L tool) err)
                   | Inr triggered \<Rightarrow>
                       (if \<not> triggered then Inr allow
                        else
                          (let argumentsHash = l_sha256_hex L (tc_Arguments call) in
                           case qb_HasApprovedEscalation B (s_ID sess) tool argumentsHash of
                             Inl err \<Rightarrow> Inl (wrapf (''checking approved escalation for session '' @ qt L (s_ID sess)
                                                        @ '' tool '' @ qt L tool) err)
                           | Inr approved \<Rightarrow>
                               (if approved then Inr allow
                                else Inr \<lparr>d_Action = Escalate, d_Reason = msg_escalate L rule, d_RuleID = ''escalation'',
                                          d_Feedback = Some (feedback ''escalation_pending'' sug_escalate)\<rparr>)))))))"

end
