(* ===== verification/TB_Stages.thy ===== *)
theory TB_Stages
  imports TB_Evaluators
begin

text \<open>
  What each stage decides. Every evaluator meets the evaluator contract, and its allow is
  equivalent to an abstract condition over the views of the backend: \<open>env_ok\<close>, \<open>may_use_ok\<close>,
  \<open>scope_ok\<close>, \<open>budget_ok\<close>, \<open>taint_ok\<close>, \<open>sequence_ok\<close>, \<open>content_ok\<close>, \<open>rate_ok\<close> and
  \<open>approval_ok\<close>. None of these mentions a query, a loop or a message.
\<close>

section \<open>The contract holds for every stage\<close>

lemma evalNeverWhenAny_cases:
  "evalNeverWhenAny L call preds = Inr d \<Longrightarrow>
   d = allow \<or> (d_Action d = Deny \<and> d_RuleID d \<noteq> [] \<and> d_Feedback d \<noteq> None)"
  by (induction preds) (auto split: sum.splits if_splits)

lemma evalNeverWhenAll_loop_cases:
  "evalNeverWhenAll_loop L call preds reasons = Inr d \<Longrightarrow>
   d = allow \<or> (d_Action d = Deny \<and> d_RuleID d \<noteq> [] \<and> d_Feedback d \<noteq> None)"
  by (induction preds arbitrary: reasons) (auto split: sum.splits if_splits)

interpretation env: evaluator "EnvEvaluator L" for L
  by (rule evaluatorI) (auto simp: EnvEvaluator_def Let_def split: if_splits)

interpretation mayuse: evaluator "MayUseEvaluator L" for L
  by (rule evaluatorI) (auto simp: MayUseEvaluator_def split: if_splits)

interpretation delegation: evaluator "DelegationEvaluator L B" for L B
  by (rule evaluatorI) (auto simp: DelegationEvaluator_def split: sum.splits if_splits)

interpretation budget: evaluator BudgetEvaluator
  by (rule evaluatorI) (auto simp: BudgetEvaluator_def Let_def split: if_splits)

interpretation taint: evaluator "TaintEvaluator L" for L
  by (rule evaluatorI) (auto simp: TaintEvaluator_def Let_def split: if_splits option.splits)

interpretation sequence: evaluator "SequenceEvaluator L B" for L B
  by (rule evaluatorI) (auto simp: SequenceEvaluator_def Let_def split: if_splits option.splits sum.splits)

interpretation content: evaluator "ContentEvaluator L" for L
  by (rule evaluatorI)
    (auto simp: ContentEvaluator_def evalNeverWhenAll_def Let_def split: if_splits option.splits
      dest: evalNeverWhenAny_cases evalNeverWhenAll_loop_cases)

interpretation ratelimit: evaluator "RateLimitEvaluator L B now" for L B now
  by (rule evaluatorI) (auto simp: RateLimitEvaluator_def Let_def split: if_splits option.splits sum.splits)

interpretation escalation: evaluator "EscalationEvaluator L B" for L B
  by (rule evaluatorI) (auto simp: EscalationEvaluator_def Let_def split: if_splits option.splits sum.splits)

lemmas stage_contracts [contract_intros] =
  env.evaluator_axioms mayuse.evaluator_axioms delegation.evaluator_axioms budget.evaluator_axioms
  taint.evaluator_axioms sequence.evaluator_axioms content.evaluator_axioms
  ratelimit.evaluator_axioms escalation.evaluator_axioms

section \<open>History\<close>

text \<open>The calls of a tool that were executed, and the tools that were.\<close>

definition calls_of :: "SessionEventEntry list \<Rightarrow> string \<Rightarrow> nat" where
  "calls_of evs tool = length (filter (\<lambda>ev. counts ev \<and> se_ToolName ev = tool) evs)"

definition executed :: "SessionEventEntry list \<Rightarrow> string set" where
  "executed evs = se_ToolName ` {ev \<in> set evs. counts ev}"

lemma history_step_alt:
  "history_step ev h = (if counts ev
     then h(se_ToolName ev := \<lparr>fq_seen = True, fq_count = fq_count (h (se_ToolName ev)) + 1\<rparr>) else h)"
  by (auto simp: history_step_def counts_def)

lemma fold_history_count:
  "fq_count (fold history_step evs h t) = fq_count (h t) + int (calls_of evs t)"
  by (induction evs arbitrary: h) (auto simp: history_step_alt calls_of_def)

lemma fold_history_seen: "fq_seen (fold history_step evs h t) = (fq_seen (h t) \<or> t \<in> executed evs)"
  by (induction evs arbitrary: h) (auto simp: history_step_alt executed_def)

lemma history_count [simp]: "fq_count (history evs t) = int (calls_of evs t)"
  by (simp add: history_def fold_history_count)

lemma history_seen [simp]: "fq_seen (history evs t) = (t \<in> executed evs)"
  by (simp add: history_def fold_history_seen)

lemma executed_calls_of: "t \<in> executed evs \<longleftrightarrow> 0 < calls_of evs t"
  by (auto simp: executed_def calls_of_def filter_empty_conv)

lemma executed_append [simp]: "executed (xs @ ys) = executed xs \<union> executed ys"
  by (auto simp: executed_def)

lemma calls_of_append [simp]: "calls_of (xs @ ys) t = calls_of xs t + calls_of ys t"
  by (simp add: calls_of_def)

lemma executed_Nil [simp]: "executed [] = {}"
  by (simp add: executed_def)

lemma calls_of_Nil [simp]: "calls_of [] t = 0"
  by (simp add: calls_of_def)

lemma executed_Cons [simp]:
  "executed (e # es) = (if counts e then insert (se_ToolName e) (executed es) else executed es)"
  by (auto simp: executed_def)

lemma calls_of_Cons [simp]:
  "calls_of (e # es) t = (if counts e \<and> se_ToolName e = t then 1 else 0) + calls_of es t"
  by (simp add: calls_of_def)

section \<open>The abstract conditions\<close>

definition env_ok :: "Policy \<Rightarrow> ToolCall \<Rightarrow> bool" where
  "env_ok pol call =
     (sp_RequireEnv (p_Session pol) = [] \<or> tc_AgentEnv call = sp_RequireEnv (p_Session pol))"

definition may_use_ok :: "Policy \<Rightarrow> string \<Rightarrow> bool" where
  "may_use_ok pol tool = (tool = virtualEscalationTool \<or> tool \<in> set (may_use pol))"

definition scope_ok :: "(string \<Rightarrow> string list option) \<Rightarrow> ToolCall \<Rightarrow> bool" where
  "scope_ok scope call =
     (tc_ParentAgent call = []
      \<or> (case scope (tc_ParentAgent call) of None \<Rightarrow> False | Some ts \<Rightarrow> tc_ToolName call \<in> set ts))"

definition budget_ok :: "Policy \<Rightarrow> Session \<Rightarrow> bool" where
  "budget_ok pol sess =
     (\<not> calls_exceeded (p_Budget pol) sess \<and> \<not> cost_exceeded (p_Budget pol) sess)"

definition applies_taint :: "Policy \<Rightarrow> string \<Rightarrow> bool" where
  "applies_taint pol tool = (case tool_policy pol tool of None \<Rightarrow> False | Some tp \<Rightarrow> tt_Applies (tp_Taint tp))"

definition clears_taint :: "Policy \<Rightarrow> string \<Rightarrow> bool" where
  "clears_taint pol tool = (case tool_policy pol tool of None \<Rightarrow> False | Some tp \<Rightarrow> tt_Clears (tp_Taint tp))"

definition never_after :: "Policy \<Rightarrow> string \<Rightarrow> string list" where
  "never_after pol tool =
     (case tool_policy pol tool of None \<Rightarrow> [] | Some tp \<Rightarrow> elems (sq_NeverAfter (tp_Sequence tp)))"

definition only_after :: "Policy \<Rightarrow> string \<Rightarrow> string list" where
  "only_after pol tool =
     (case tool_policy pol tool of None \<Rightarrow> [] | Some tp \<Rightarrow> elems (sq_OnlyAfter (tp_Sequence tp)))"

definition prior_n :: "Policy \<Rightarrow> string \<Rightarrow> PriorNRule option" where
  "prior_n pol tool =
     (case tool_policy pol tool of None \<Rightarrow> None | Some tp \<Rightarrow> sq_RequiresPriorN (tp_Sequence tp))"

definition taint_ok :: "Policy \<Rightarrow> bool \<Rightarrow> string \<Rightarrow> bool" where
  "taint_ok pol tainted tool =
     (tainted \<longrightarrow> clears_taint pol tool \<or> (\<forall>b \<in> set (never_after pol tool). \<not> applies_taint pol b))"

definition sequence_ok :: "SessionEventEntry list \<Rightarrow> Policy \<Rightarrow> string \<Rightarrow> bool" where
  "sequence_ok evs pol tool =
     (set (only_after pol tool) \<subseteq> executed evs
      \<and> set (never_after pol tool) \<inter> executed evs = {}
      \<and> (case prior_n pol tool of None \<Rightarrow> True | Some r \<Rightarrow> pn_Count r \<le> int (calls_of evs (pn_Tool r))))"

text \<open>
  Content: in mode \<open>any\<close> no predicate may fire; in mode \<open>all\<close> some predicate does not. A predicate
  that cannot be evaluated never lets a call through.
\<close>

definition content_ok :: "lib \<Rightarrow> Policy \<Rightarrow> ToolCall \<Rightarrow> bool" where
  "content_ok L pol call =
     (case tool_policy pol (tc_ToolName call) of
        None \<Rightarrow> True
      | Some tp \<Rightarrow>
          (let preds = elems (tp_NeverWhen tp); m = tp_NeverWhenMatch tp in
           preds = []
           \<or> (m \<in> {[], ContentMatchAny} \<and> (\<forall>q \<in> set preds. evalContentPredicate L call q = Inr False))
           \<or> (m = ContentMatchAll
               \<and> (\<exists>q \<in> set preds. evalContentPredicate L call q = Inr False
                    \<and> (\<forall>r \<in> set (takeWhile (\<lambda>r. r \<noteq> q) preds). evalContentPredicate L call r = Inr True)))))"

definition rate_limit :: "Policy \<Rightarrow> string \<Rightarrow> RateLimitPolicy option" where
  "rate_limit pol tool = Option.bind (tool_policy pol tool) tp_RateLimit"

definition call_time :: "int \<Rightarrow> ToolCall \<Rightarrow> int" where
  "call_time now call = (case tc_RequestedAt call of None \<Rightarrow> now | Some t \<Rightarrow> t)"

definition rate_ok :: "SessionEventEntry list \<Rightarrow> int \<Rightarrow> Policy \<Rightarrow> ToolCall \<Rightarrow> bool" where
  "rate_ok evs now pol call =
     (case rate_limit pol (tc_ToolName call) of
        None \<Rightarrow> True
      | Some rl \<Rightarrow>
          int (length (filter (in_window (tc_ToolName call) (window_start (call_time now call) (rl_WindowSeconds rl))) evs))
            < rl_MaxCalls rl)"

text \<open>The escalation condition of a call: \<open>None\<close> when it cannot be evaluated.\<close>

definition escalation_triggered :: "lib \<Rightarrow> Policy \<Rightarrow> ToolCall \<Rightarrow> bool option" where
  "escalation_triggered L pol call =
     (case Option.bind (tool_policy pol (tc_ToolName call)) tp_EscalateWhen of
        None \<Rightarrow> Some False
      | Some rule \<Rightarrow>
          (let path = escalation_path (er_ArgumentPath rule) in
           if path = [] then None
           else
             (case l_gjson L (tc_Arguments call) path of
                None \<Rightarrow> None
              | Some result \<Rightarrow>
                  (case applyEscalationOperator L result (er_Operator rule) (er_Value rule) of
                     Inl _ \<Rightarrow> None
                   | Inr b \<Rightarrow> Some b))))"

definition approval_ok ::
    "lib \<Rightarrow> (string \<Rightarrow> string \<Rightarrow> string \<Rightarrow> bool) \<Rightarrow> Policy \<Rightarrow> ToolCall \<Rightarrow> Session \<Rightarrow> bool" where
  "approval_ok L approvals pol call sess =
     (case escalation_triggered L pol call of
        None \<Rightarrow> False
      | Some b \<Rightarrow> b \<longrightarrow> approvals (s_ID sess) (tc_ToolName call) (l_sha256_hex L (tc_Arguments call)))"

section \<open>Stages that ask no backend\<close>

lemma env_allow [engine_simps]: "EnvEvaluator L call sess pol = Inr allow \<longleftrightarrow> env_ok pol call"
  by (auto simp: EnvEvaluator_def env_ok_def Let_def)

lemma mayuse_allow [engine_simps]:
  "MayUseEvaluator L call sess pol = Inr allow \<longleftrightarrow> may_use_ok pol (tc_ToolName call)"
  by (auto simp: MayUseEvaluator_def may_use_ok_def)

lemma f_lt_zero_not_eq: "f_eq x f_zero \<Longrightarrow> \<not> f_gt x f_zero"
  by (cases x) auto

lemma budget_allow [engine_simps]: "BudgetEvaluator call sess pol = Inr allow \<longleftrightarrow> budget_ok pol sess"
  by (auto simp: BudgetEvaluator_def budget_ok_def Let_def calls_exceeded_def cost_exceeded_def
      dest: f_lt_zero_not_eq)

lemma applies_taint_iff:
  "applies_taint pol b \<longleftrightarrow> (\<exists>tp. tool_policy pol b = Some tp \<and> tt_Applies (tp_Taint tp))"
  by (simp add: applies_taint_def split: option.splits)

lemma taintApplyingTools_iff:
  "wf_policy pol \<Longrightarrow> b \<in> set (taintApplyingTools pol) \<longleftrightarrow> applies_taint pol b"
  by (force simp: taintApplyingTools_def applies_taint_iff tool_policy_eq_Some)

lemma find_SomeD: "find P xs = Some x \<Longrightarrow> x \<in> set xs \<and> P x"
  by (auto simp: find_Some_iff)

lemma case_find_None:
  "(case find P xs of None \<Rightarrow> Inr allow | Some x \<Rightarrow> Inr (deny (r x) i (f x))) = Inr allow
   \<longleftrightarrow> (\<forall>x \<in> set xs. \<not> P x)"
  by (auto split: option.splits simp: find_None_iff dest: find_SomeD)

lemma taint_allow [engine_simps]:
  assumes "wf_policy pol"
  shows "TaintEvaluator L call sess pol = Inr allow \<longleftrightarrow> taint_ok pol (s_Tainted sess) (tc_ToolName call)"
proof -
  have empty: "\<not> applies_taint pol b" if "taintApplyingTools pol = []" for b
    using taintApplyingTools_iff [OF assms, of b] that by simp
  show ?thesis
    by (cases "tool_policy pol (tc_ToolName call)")
      (auto simp: TaintEvaluator_def taint_ok_def Let_def clears_taint_def never_after_def
        taintApplyingTools_iff [OF assms] empty
        case_find_None [where r = "msg_taint L (tc_ToolName call)"
          and f = "\<lambda>x. feedback _ (sug_taint L (tc_ToolName call) x)"])
qed

lemma evalNeverWhenAny_allow:
  "evalNeverWhenAny L call preds = Inr allow \<longleftrightarrow> (\<forall>q \<in> set preds. evalContentPredicate L call q = Inr False)"
  by (induction preds) (auto split: sum.splits)

lemma evalNeverWhenAll_loop_allow:
  "evalNeverWhenAll_loop L call preds rs = Inr allow \<longleftrightarrow>
   (\<exists>q \<in> set preds. evalContentPredicate L call q = Inr False
      \<and> (\<forall>r \<in> set (takeWhile (\<lambda>r. r \<noteq> q) preds). evalContentPredicate L call r = Inr True))"
proof (induction preds arbitrary: rs)
  case (Cons p ps)
  show ?case
  proof (cases "evalContentPredicate L call p = Inr True")
    case True
    then have "p \<noteq> q" if "evalContentPredicate L call q = Inr False" for q
      using that by auto
    with True show ?thesis by (auto simp: Cons.IH)
  next
    case False
    then show ?thesis by (auto split: sum.split)
  qed
qed simp

lemma match_modes [simp]:
  "ContentMatchAll \<noteq> ContentMatchAny" "ContentMatchAny \<noteq> ContentMatchAll" "ContentMatchAll \<noteq> []" "ContentMatchAny \<noteq> []"
  "[] \<noteq> ContentMatchAll" "[] \<noteq> ContentMatchAny"
  by (simp_all add: mode_defs)

lemma content_allow [engine_simps]: "ContentEvaluator L call sess pol = Inr allow \<longleftrightarrow> content_ok L pol call"
  by (cases "tool_policy pol (tc_ToolName call)")
    (simp_all add: ContentEvaluator_def content_ok_def Let_def evalNeverWhenAny_allow
      evalNeverWhenAll_def evalNeverWhenAll_loop_allow)

section \<open>Stages that ask the backend\<close>

lemma only_after_simps [simp]:
  "tool_policy pol t = None \<Longrightarrow> only_after pol t = []"
  "tool_policy pol t = Some tp \<Longrightarrow> only_after pol t = elems (sq_OnlyAfter (tp_Sequence tp))"
  "tool_policy pol t = None \<Longrightarrow> never_after pol t = []"
  "tool_policy pol t = Some tp \<Longrightarrow> never_after pol t = elems (sq_NeverAfter (tp_Sequence tp))"
  "tool_policy pol t = None \<Longrightarrow> prior_n pol t = None"
  "tool_policy pol t = Some tp \<Longrightarrow> prior_n pol t = sq_RequiresPriorN (tp_Sequence tp)"
  by (simp_all add: only_after_def never_after_def prior_n_def)

text \<open>A stage that looks at the history \<open>evs\<close> answers allow exactly on \<open>sequence_ok\<close>.\<close>

lemma no_violations:
  "missing_only_after (history evs) seq = [] \<longleftrightarrow> set (elems (sq_OnlyAfter seq)) \<subseteq> executed evs"
  "blocked_by_never_after (history evs) seq = [] \<longleftrightarrow> set (elems (sq_NeverAfter seq)) \<inter> executed evs = {}"
  "missing_prior_n (history evs) seq = [] \<longleftrightarrow>
     (case sq_RequiresPriorN seq of None \<Rightarrow> True | Some r \<Rightarrow> pn_Count r \<le> int (calls_of evs (pn_Tool r)))"
  by (auto simp: missing_only_after_def blocked_by_never_after_def missing_prior_n_def filter_empty_conv
      split: option.splits)

lemma sequence_on_history:
  assumes "qb_GetSessionEvents B (s_ID sess) = Inr evs"
  shows "SequenceEvaluator L B call sess pol = Inr allow \<longleftrightarrow> sequence_ok evs pol (tc_ToolName call)"
  using assms
  by (cases "tool_policy pol (tc_ToolName call)")
    (auto simp: SequenceEvaluator_def sequence_ok_def Let_def no_violations)

lemma sequence_violation:
  assumes "qb_GetSessionEvents B (s_ID sess) = Inr evs" "tool_policy pol (tc_ToolName call) = Some tp"
    "\<not> sequence_ok evs pol (tc_ToolName call)"
  shows "SequenceEvaluator L B call sess pol = Inr (deny
    (join ''; '' (map (msg_only_after L (tc_ToolName call)) (missing_only_after (history evs) (tp_Sequence tp))
       @ map (msg_never_after L (tc_ToolName call)) (blocked_by_never_after (history evs) (tp_Sequence tp))
       @ map (\<lambda>r. msg_prior_n L (tc_ToolName call) r (int (calls_of evs (pn_Tool r))))
           (missing_prior_n (history evs) (tp_Sequence tp))))
    ''sequence''
    (sequence_feedback L (tc_ToolName call) (missing_only_after (history evs) (tp_Sequence tp))
       (blocked_by_never_after (history evs) (tp_Sequence tp))
       (map pn_Tool (missing_prior_n (history evs) (tp_Sequence tp)))))"
proof -
  have v: "missing_only_after (history evs) (tp_Sequence tp) \<noteq> []
    \<or> blocked_by_never_after (history evs) (tp_Sequence tp) \<noteq> [] \<or> missing_prior_n (history evs) (tp_Sequence tp) \<noteq> []"
    using assms by (auto simp: sequence_ok_def no_violations)
  then have "\<not> (elems (sq_OnlyAfter (tp_Sequence tp)) = [] \<and> elems (sq_NeverAfter (tp_Sequence tp)) = []
    \<and> sq_RequiresPriorN (tp_Sequence tp) = None)"
    by (auto simp: missing_only_after_def blocked_by_never_after_def missing_prior_n_def split: option.splits)
  with v assms(1,2) show ?thesis by (simp add: SequenceEvaluator_def Let_def)
qed

lemma sequence_no_history:
  assumes "qb_GetSessionEvents B (s_ID sess) = Inl e" "SequenceEvaluator L B call sess pol = Inr allow"
  shows "sequence_ok evs pol (tc_ToolName call)"
  using assms
  by (cases "tool_policy pol (tc_ToolName call)")
    (auto simp: SequenceEvaluator_def sequence_ok_def Let_def split: if_splits)

lemma rate_on_count:
  assumes "qb_CountSessionEventsSince B (s_ID sess) (tc_ToolName call)
      (window_start (call_time now call) (rl_WindowSeconds rl)) = Inr n"
    "rate_limit pol (tc_ToolName call) = Some rl"
  shows "RateLimitEvaluator L B now call sess pol = Inr allow \<longleftrightarrow> n < rl_MaxCalls rl"
  using assms
  by (cases "tool_policy pol (tc_ToolName call)")
    (auto simp: RateLimitEvaluator_def rate_limit_def Let_def call_time_def)

lemma rate_unlimited:
  "rate_limit pol (tc_ToolName call) = None \<Longrightarrow> RateLimitEvaluator L B now call sess pol = Inr allow"
  by (auto simp: RateLimitEvaluator_def rate_limit_def split: option.splits)

lemma rate_failed:
  assumes "qb_CountSessionEventsSince B (s_ID sess) (tc_ToolName call)
      (window_start (call_time now call) (rl_WindowSeconds rl)) = Inl e"
    "rate_limit pol (tc_ToolName call) = Some rl"
  shows "\<exists>e. RateLimitEvaluator L B now call sess pol = Inl e"
  using assms
  by (cases "tool_policy pol (tc_ToolName call)")
    (auto simp: RateLimitEvaluator_def rate_limit_def Let_def call_time_def)

lemma escalation_allow_iff:
  "EscalationEvaluator L B call sess pol = Inr allow \<longleftrightarrow>
   (case escalation_triggered L pol call of
      None \<Rightarrow> False
    | Some b \<Rightarrow> b \<longrightarrow> qb_HasApprovedEscalation B (s_ID sess) (tc_ToolName call)
                            (l_sha256_hex L (tc_Arguments call)) = Inr True)"
  by (auto simp: EscalationEvaluator_def escalation_triggered_def Let_def allow_def
      split: option.splits sum.splits)

context query_backend begin

text \<open>Whatever fails, an allow is justified by the views.\<close>

lemma delegation_allow_sound:
  "DelegationEvaluator L B call sess pol = Inr allow \<Longrightarrow> scope_ok scope call"
  by (auto simp: DelegationEvaluator_def scope_ok_def dest: agent_tools split: if_splits sum.splits)

lemma sequence_allow_sound:
  "SequenceEvaluator L B call sess pol = Inr allow \<Longrightarrow> sequence_ok (hist (s_ID sess)) pol (tc_ToolName call)"
  by (cases "qb_GetSessionEvents B (s_ID sess)")
    (auto dest: events simp: sequence_on_history intro: sequence_no_history)

lemma rate_allow_sound:
  assumes "RateLimitEvaluator L B now call sess pol = Inr allow"
  shows "rate_ok (hist (s_ID sess)) now pol call"
proof (cases "rate_limit pol (tc_ToolName call)")
  case (Some rl)
  show ?thesis
  proof (cases "qb_CountSessionEventsSince B (s_ID sess) (tc_ToolName call)
      (window_start (call_time now call) (rl_WindowSeconds rl))")
    case (Inl e)
    from rate_failed [OF Inl Some, of L] assms show ?thesis by auto
  next
    case (Inr n)
    from rate_on_count [OF Inr Some] assms count [OF Inr] Some show ?thesis by (simp add: rate_ok_def)
  qed
qed (simp add: rate_ok_def)

lemma escalation_allow_sound:
  "EscalationEvaluator L B call sess pol = Inr allow \<Longrightarrow> approval_ok L approvals pol call sess"
  by (auto simp: escalation_allow_iff approval_ok_def dest: approved split: option.splits)

end

context total_backend begin

lemma delegation_allow:
  "DelegationEvaluator L B call sess pol = Inr allow \<longleftrightarrow> scope_ok scope call"
proof (cases "scope (tc_ParentAgent call)")
  case None
  with agent_missing obtain e where "qb_GetAgentAllowedTools B (tc_ParentAgent call) = Inl e" by blast
  with None show ?thesis by (simp add: DelegationEvaluator_def scope_ok_def)
next
  case (Some ts)
  with agent_tools_total [OF Some] show ?thesis by (simp add: DelegationEvaluator_def scope_ok_def)
qed

lemma sequence_allow:
  "SequenceEvaluator L B call sess pol = Inr allow \<longleftrightarrow> sequence_ok (hist (s_ID sess)) pol (tc_ToolName call)"
  by (rule sequence_on_history) (rule events_total)

lemma rate_allow:
  "RateLimitEvaluator L B now call sess pol = Inr allow \<longleftrightarrow> rate_ok (hist (s_ID sess)) now pol call"
proof (cases "rate_limit pol (tc_ToolName call)")
  case (Some rl)
  from rate_on_count [OF count_total this] Some show ?thesis by (simp add: rate_ok_def)
qed (simp add: rate_ok_def rate_unlimited)

lemma escalation_allow:
  "EscalationEvaluator L B call sess pol = Inr allow \<longleftrightarrow> approval_ok L approvals pol call sess"
  by (simp add: escalation_allow_iff approval_ok_def approved_total split: option.splits)

end

section \<open>The rate-limit window\<close>

text \<open>Within the int64 range the window is the mathematical one.\<close>

lemma window_start_exact:
  assumes "0 \<le> w" "w * 1000000000 < 2 ^ 63" "- (2 ^ 63) \<le> ref - w * 1000000000" "ref < 2 ^ 63"
  shows "window_start ref w = ref - w * 1000000000"
proof -
  have "wrap64 (- w) = - w" using assms by (intro wrap64_id) auto
  moreover have "wrap64 (- w * 1000000000) = - w * 1000000000" using assms by (intro wrap64_id) auto
  moreover have "wrap64 (ref + - w * 1000000000) = ref - w * 1000000000" using assms by (subst wrap64_id) auto
  ultimately show ?thesis by (simp only: window_start_def)
qed

end
