(* ===== verification/TB_MemBackend.thy ===== *)
theory TB_MemBackend
  imports TB_Stages
begin

text \<open>
  The in-memory backend (\<open>internal/engine/membackend.go\<close>), used by the WASM build. One instance
  holds one session, one approval list and one parent's tools, so every method ignores the
  session or agent it is asked about. It meets the total backend contract.
\<close>

record MemBackend =
  mb_events :: "SessionEventEntry list"
  mb_approvedEscalations :: "ApprovedEscalationEntry list"
  mb_parentTools :: "string list"

definition NewMemBackend ::
    "SessionEventEntry slice \<Rightarrow> ApprovedEscalationEntry slice \<Rightarrow> string slice \<Rightarrow> MemBackend" where
  "NewMemBackend events approved parentTools =
     \<lparr>mb_events = elems events, mb_approvedEscalations = elems approved,
      mb_parentTools = elems parentTools\<rparr>"

definition mem_GetSessionEvents :: "MemBackend \<Rightarrow> string \<Rightarrow> gerr + SessionEventEntry list" where
  "mem_GetSessionEvents m sid = Inr (mb_events m)"

fun mem_count_loop :: "string \<Rightarrow> int \<Rightarrow> SessionEventEntry list \<Rightarrow> int \<Rightarrow> int" where
  "mem_count_loop toolName sinceNano [] n = n"
| "mem_count_loop toolName sinceNano (ev # evs) n =
     (if se_ToolName ev \<noteq> toolName then mem_count_loop toolName sinceNano evs n
      else if se_Decision ev \<noteq> action_str Allow \<and> se_Decision ev \<noteq> action_str ShadowDeny
        then mem_count_loop toolName sinceNano evs n
      else if se_RecordedAt ev \<ge> sinceNano then mem_count_loop toolName sinceNano evs (n + 1)
      else mem_count_loop toolName sinceNano evs n)"

definition mem_CountSessionEventsSince :: "MemBackend \<Rightarrow> string \<Rightarrow> string \<Rightarrow> int \<Rightarrow> gerr + int" where
  "mem_CountSessionEventsSince m sid toolName sinceNano =
     Inr (mem_count_loop toolName sinceNano (mb_events m) 0)"

definition mem_HasApprovedEscalation :: "MemBackend \<Rightarrow> string \<Rightarrow> string \<Rightarrow> string \<Rightarrow> gerr + bool" where
  "mem_HasApprovedEscalation m sid toolName argsHash =
     Inr (list_ex (\<lambda>e. ae_ToolName e = toolName \<and> ae_ArgsHash e = argsHash) (mb_approvedEscalations m))"

definition mem_GetAgentAllowedTools :: "MemBackend \<Rightarrow> string \<Rightarrow> gerr + string list" where
  "mem_GetAgentAllowedTools m agentName =
     (if mb_parentTools m = [] then Inl err_parent_agent_not_found else Inr (mb_parentTools m))"

definition mem_backend :: "MemBackend \<Rightarrow> QueryBackend" where
  "mem_backend m =
     \<lparr>qb_GetSessionEvents = mem_GetSessionEvents m,
      qb_CountSessionEventsSince = mem_CountSessionEventsSince m,
      qb_HasApprovedEscalation = mem_HasApprovedEscalation m,
      qb_GetAgentAllowedTools = mem_GetAgentAllowedTools m\<rparr>"

section \<open>The views it answers from\<close>

definition mem_approvals :: "MemBackend \<Rightarrow> string \<Rightarrow> string \<Rightarrow> string \<Rightarrow> bool" where
  "mem_approvals m sid tool h =
     (\<lparr>ae_ToolName = tool, ae_ArgsHash = h\<rparr> \<in> set (mb_approvedEscalations m))"

definition mem_scope :: "MemBackend \<Rightarrow> string \<Rightarrow> string list option" where
  "mem_scope m a = (if mb_parentTools m = [] then None else Some (mb_parentTools m))"

lemma mem_count_loop_filter:
  "mem_count_loop tool since evs n = n + int (length (filter (in_window tool since) evs))"
  by (induction evs arbitrary: n) (auto simp: in_window_def counts_def)

lemma mem_approved_iff:
  "list_ex (\<lambda>e. ae_ToolName e = tool \<and> ae_ArgsHash e = h) es
   \<longleftrightarrow> \<lparr>ae_ToolName = tool, ae_ArgsHash = h\<rparr> \<in> set es"
  by (induction es) auto

lemmas mem_backend_defs =
  mem_backend_def mem_GetSessionEvents_def mem_CountSessionEventsSince_def
  mem_HasApprovedEscalation_def mem_GetAgentAllowedTools_def

interpretation mem: total_backend "mem_backend m" "\<lambda>_. mb_events m" "mem_approvals m" "mem_scope m" for m
  by unfold_locales
    (auto simp: mem_backend_defs mem_count_loop_filter mem_approved_iff mem_approvals_def mem_scope_def
      err_parent_agent_not_found_def split: if_splits)

end
