(* ===== verification/TB_Pipeline.thy ===== *)
theory TB_Pipeline
  imports TB_MemBackend
begin

text \<open>
  The pipeline orchestrator (\<open>internal/engine/pipeline.go\<close>): stages in order, errors fail closed,
  shadow conversion, taint mutation. The abstract specification of the full nine-stage pipeline is
  \<open>permitted\<close>: which calls the policy permits given the views of the backend contract.
\<close>

section \<open>The orchestrator\<close>

definition effectiveMode :: "Policy \<Rightarrow> string \<Rightarrow> string" where
  "effectiveMode pol toolName =
     (case tool_policy pol toolName of
        Some tp \<Rightarrow> if tp_EnforcementMode tp \<noteq> [] then tp_EnforcementMode tp else p_EnforcementMode pol
      | None \<Rightarrow> p_EnforcementMode pol)"

definition applyTaintMutations :: "ToolCall \<Rightarrow> Session \<Rightarrow> Policy \<Rightarrow> Session" where
  "applyTaintMutations call sess pol =
     (case tool_policy pol (tc_ToolName call) of
        None \<Rightarrow> sess
      | Some tp \<Rightarrow>
          (let s1 = (if tt_Clears (tp_Taint tp) \<and> s_Tainted sess then sess\<lparr>s_Tainted := False\<rparr> else sess)
           in if tt_Applies (tp_Taint tp) then s1\<lparr>s_Tainted := True\<rparr> else s1))"

definition internal_error :: "gerr \<Rightarrow> Decision" where
  "internal_error err =
     \<lparr>d_Action = Deny, d_Reason = ''evaluator error: '' @ err_text err, d_RuleID = ''internal_error'',
      d_Feedback = None\<rparr>"

fun Evaluate :: "Evaluator list \<Rightarrow> ToolCall \<Rightarrow> Session \<Rightarrow> Policy \<Rightarrow> Decision \<times> Session" where
  "Evaluate [] call sess pol = (allow, applyTaintMutations call sess pol)"
| "Evaluate (ev # stages) call sess pol =
     (case ev call sess pol of
        Inl err \<Rightarrow> (internal_error err, sess)
      | Inr d \<Rightarrow>
          (if d_Action d \<noteq> Allow then
             (if effectiveMode pol (tc_ToolName call) = EnforcementShadow then d\<lparr>d_Action := ShadowDeny\<rparr> else d,
              sess)
           else Evaluate stages call sess pol))"

text \<open>The stages \<open>proxy.New\<close> and \<open>cmd/wasm\<close> install, in their order.\<close>

definition full_stages :: "lib \<Rightarrow> QueryBackend \<Rightarrow> int \<Rightarrow> Evaluator list" where
  "full_stages L B now =
     [EnvEvaluator L, MayUseEvaluator L, DelegationEvaluator L B, BudgetEvaluator, TaintEvaluator L,
      SequenceEvaluator L B, ContentEvaluator L, RateLimitEvaluator L B now, EscalationEvaluator L B]"

section \<open>How a decision comes about\<close>

text \<open>The verdict of the first stage that does not allow.\<close>

definition first_verdict :: "Evaluator list \<Rightarrow> ToolCall \<Rightarrow> Session \<Rightarrow> Policy \<Rightarrow> (gerr + Decision) option" where
  "first_verdict stages call sess pol = find (\<lambda>v. v \<noteq> Inr allow) (map (\<lambda>ev. ev call sess pol) stages)"

definition shadowed :: "Policy \<Rightarrow> string \<Rightarrow> Decision \<Rightarrow> Decision" where
  "shadowed pol tool d = (if effectiveMode pol tool = EnforcementShadow then d\<lparr>d_Action := ShadowDeny\<rparr> else d)"

definition evaluation_spec :: "Evaluator list \<Rightarrow> ToolCall \<Rightarrow> Session \<Rightarrow> Policy \<Rightarrow> Decision \<times> Session" where
  "evaluation_spec stages call sess pol =
     (case first_verdict stages call sess pol of
        None \<Rightarrow> (allow, applyTaintMutations call sess pol)
      | Some (Inl err) \<Rightarrow> (internal_error err, sess)
      | Some (Inr d) \<Rightarrow> (shadowed pol (tc_ToolName call) d, sess))"

lemma internal_error_sel [simp]:
  "d_Action (internal_error e) = Deny" "d_RuleID (internal_error e) = ''internal_error''"
  "d_Feedback (internal_error e) = None"
  by (simp_all add: internal_error_def)

lemma shadowed_not_allow [simp]: "d_Action d \<noteq> Allow \<Longrightarrow> d_Action (shadowed pol t d) \<noteq> Allow"
  by (simp add: shadowed_def)

lemma stage_allow_iff: "evaluator ev \<Longrightarrow> ev c s p = Inr d \<Longrightarrow> d_Action d = Allow \<longleftrightarrow> d = allow"
  by (auto dest: evaluator.allow_is_bare)

lemma Evaluate_spec:
  "list_all evaluator stages \<Longrightarrow> Evaluate stages call sess pol = evaluation_spec stages call sess pol"
  by (induction stages)
    (auto simp: evaluation_spec_def first_verdict_def shadowed_def split: sum.splits option.splits
      dest: stage_allow_iff)

lemma first_verdict_None: "first_verdict stages c s p = None \<longleftrightarrow> (\<forall>ev \<in> set stages. ev c s p = Inr allow)"
  by (auto simp: first_verdict_def find_None_iff)

lemma first_verdict_stage:
  assumes "first_verdict stages c s p = Some v"
  obtains ev where "ev \<in> set stages" "ev c s p = v" "v \<noteq> Inr allow"
proof -
  from assms have "v \<in> set (map (\<lambda>ev. ev c s p) stages)" "v \<noteq> Inr allow"
    unfolding first_verdict_def by (auto dest: find_SomeD)
  then show ?thesis using that by auto
qed

lemma Evaluate_action_cases:
  assumes c: "list_all evaluator stages" and e: "Evaluate stages call sess pol = (d, sess')"
  obtains (allowed) "d = allow" "sess' = applyTaintMutations call sess pol"
      "\<forall>ev \<in> set stages. ev call sess pol = Inr allow"
  | (failed) ev err where "ev \<in> set stages" "ev call sess pol = Inl err" "d = internal_error err" "sess' = sess"
  | (stopped) ev d0 where "ev \<in> set stages" "ev call sess pol = Inr d0"
      "d_Action d0 \<in> {Deny, Escalate}" "d = shadowed pol (tc_ToolName call) d0" "sess' = sess"
proof (cases "first_verdict stages call sess pol")
  case None
  with e allowed show ?thesis
    by (simp add: Evaluate_spec [OF c] evaluation_spec_def first_verdict_None)
next
  case (Some v)
  then obtain ev where ev: "ev \<in> set stages" "ev call sess pol = v" "v \<noteq> Inr allow"
    by (rule first_verdict_stage)
  from c ev(1) have "evaluator ev" by (simp add: list_all_iff)
  show ?thesis
  proof (cases rule: evaluator.outcome_cases [OF \<open>evaluator ev\<close>, of call sess pol, case_names error allow deny escalate])
    case (error err)
    then have "v = Inl err" using ev(2) by simp
    with error ev(1) Some e show ?thesis
      by (intro failed [of ev err]) (simp_all add: Evaluate_spec [OF c] evaluation_spec_def)
  next
    case allow
    with ev show ?thesis by simp
  next
    case (deny d0)
    then have "v = Inr d0" using ev(2) by simp
    with deny ev(1) Some e show ?thesis
      by (intro stopped [of ev d0]) (simp_all add: Evaluate_spec [OF c] evaluation_spec_def)
  next
    case (escalate d0)
    then have "v = Inr d0" using ev(2) by simp
    with escalate ev(1) Some e show ?thesis
      by (intro stopped [of ev d0]) (simp_all add: Evaluate_spec [OF c] evaluation_spec_def)
  qed
qed

lemma Evaluate_allow_iff:
  "list_all evaluator stages \<Longrightarrow>
   d_Action (fst (Evaluate stages call sess pol)) = Allow \<longleftrightarrow> (\<forall>ev \<in> set stages. ev call sess pol = Inr allow)"
proof -
  assume c: "list_all evaluator stages"
  obtain d s' where e: "Evaluate stages call sess pol = (d, s')" by force
  from c e show ?thesis
  proof (cases rule: Evaluate_action_cases)
    case (failed ev err)
    then have "ev call sess pol \<noteq> Inr allow" by simp
    with failed(1,3) e show ?thesis by auto
  next
    case (stopped ev d0)
    then have "d_Action d \<noteq> Allow" "ev call sess pol \<noteq> Inr allow" by auto
    with stopped(1) e show ?thesis by auto
  qed (use e in auto)
qed

lemma full_stages_contract [simp]: "list_all evaluator (full_stages L B now)"
  by (simp add: full_stages_def contract_intros)

lemma full_allow_iff:
  "d_Action (fst (Evaluate (full_stages L B now) call sess pol)) = Allow \<longleftrightarrow>
   EnvEvaluator L call sess pol = Inr allow \<and> MayUseEvaluator L call sess pol = Inr allow
   \<and> DelegationEvaluator L B call sess pol = Inr allow \<and> BudgetEvaluator call sess pol = Inr allow
   \<and> TaintEvaluator L call sess pol = Inr allow \<and> SequenceEvaluator L B call sess pol = Inr allow
   \<and> ContentEvaluator L call sess pol = Inr allow \<and> RateLimitEvaluator L B now call sess pol = Inr allow
   \<and> EscalationEvaluator L B call sess pol = Inr allow"
  by (subst Evaluate_allow_iff) (simp, simp add: full_stages_def)

section \<open>Taint\<close>

definition next_taint :: "Policy \<Rightarrow> string \<Rightarrow> bool \<Rightarrow> bool" where
  "next_taint pol tool tainted = (applies_taint pol tool \<or> (tainted \<and> \<not> clears_taint pol tool))"

lemma applyTaintMutations_alt:
  "applyTaintMutations call sess pol = sess\<lparr>s_Tainted := next_taint pol (tc_ToolName call) (s_Tainted sess)\<rparr>"
  by (cases sess) (auto simp: applyTaintMutations_def next_taint_def applies_taint_def clears_taint_def Let_def
      split: option.splits)

lemma applyTaintMutations_sel [simp]:
  "s_ID (applyTaintMutations c s p) = s_ID s"
  "s_ToolCallCount (applyTaintMutations c s p) = s_ToolCallCount s"
  "s_EstimatedCostUSD (applyTaintMutations c s p) = s_EstimatedCostUSD s"
  "s_Terminated (applyTaintMutations c s p) = s_Terminated s"
  "s_AgentName (applyTaintMutations c s p) = s_AgentName s"
  "s_PolicyFingerprint (applyTaintMutations c s p) = s_PolicyFingerprint s"
  by (simp_all add: applyTaintMutations_alt)

section \<open>The abstract specification of the full pipeline\<close>

definition permitted ::
    "lib \<Rightarrow> (string \<Rightarrow> SessionEventEntry list) \<Rightarrow> (string \<Rightarrow> string \<Rightarrow> string \<Rightarrow> bool)
     \<Rightarrow> (string \<Rightarrow> string list option) \<Rightarrow> int \<Rightarrow> Policy \<Rightarrow> ToolCall \<Rightarrow> Session \<Rightarrow> bool" where
  "permitted L hist approvals scope now pol call sess =
     (env_ok pol call \<and> may_use_ok pol (tc_ToolName call) \<and> scope_ok scope call
      \<and> budget_ok pol sess \<and> taint_ok pol (s_Tainted sess) (tc_ToolName call)
      \<and> sequence_ok (hist (s_ID sess)) pol (tc_ToolName call) \<and> content_ok L pol call
      \<and> rate_ok (hist (s_ID sess)) now pol call \<and> approval_ok L approvals pol call sess)"

context query_backend begin

lemma Evaluate_sound:
  assumes "wf_policy pol" "d_Action (fst (Evaluate (full_stages L B now) call sess pol)) = Allow"
  shows "permitted L hist approvals scope now pol call sess"
  using assms
  by (auto simp: full_allow_iff permitted_def engine_simps
      intro: delegation_allow_sound sequence_allow_sound rate_allow_sound escalation_allow_sound)

end

context total_backend begin

lemma Evaluate_permits:
  assumes "wf_policy pol"
  shows "d_Action (fst (Evaluate (full_stages L B now) call sess pol)) = Allow
    \<longleftrightarrow> permitted L hist approvals scope now pol call sess"
  using assms
  by (auto simp: full_allow_iff permitted_def engine_simps
      delegation_allow sequence_allow rate_allow escalation_allow)

end

section \<open>Shadow mode\<close>

definition set_mode :: "string \<Rightarrow> Policy \<Rightarrow> Policy" where
  "set_mode m pol = pol\<lparr>p_EnforcementMode := m\<rparr>"

lemma set_mode_views [simp]:
  "tool_policy (set_mode m pol) t = tool_policy pol t" "tools (set_mode m pol) = tools pol"
  "may_use (set_mode m pol) = may_use pol" "p_Session (set_mode m pol) = p_Session pol"
  "p_Budget (set_mode m pol) = p_Budget pol" "p_EnforcementMode (set_mode m pol) = m"
  by (simp_all add: set_mode_def tool_policy_def tools_def may_use_def)

text \<open>Stages do not know about shadow mode.\<close>

definition mode_blind :: "Evaluator \<Rightarrow> bool" where
  "mode_blind ev = (\<forall>c s p m. ev c s (set_mode m p) = ev c s p)"

lemma full_stages_mode_blind: "list_all mode_blind (full_stages L B now)"
  by (simp add: full_stages_def mode_blind_def EnvEvaluator_def MayUseEvaluator_def DelegationEvaluator_def
      BudgetEvaluator_def TaintEvaluator_def taintApplyingTools_def SequenceEvaluator_def ContentEvaluator_def
      RateLimitEvaluator_def EscalationEvaluator_def)

lemma applyTaintMutations_set_mode [simp]:
  "applyTaintMutations c s (set_mode m p) = applyTaintMutations c s p"
  by (simp add: applyTaintMutations_def)

lemma Evaluate_set_mode:
  "list_all mode_blind stages \<Longrightarrow>
   snd (Evaluate stages c s (set_mode m p)) = snd (Evaluate stages c s p)
   \<and> (fst (Evaluate stages c s (set_mode m p)))\<lparr>d_Action := Deny\<rparr> = (fst (Evaluate stages c s p))\<lparr>d_Action := Deny\<rparr>
   \<and> (d_Action (fst (Evaluate stages c s (set_mode m p))) = Allow \<longleftrightarrow> d_Action (fst (Evaluate stages c s p)) = Allow)"
  by (induction stages) (auto simp: mode_blind_def split: sum.splits)

section \<open>A sample call\<close>

definition sample_session :: Session where
  "sample_session =
     \<lparr>s_ID = ''s1'', s_AgentName = ''pay'', s_PolicyFingerprint = [], s_Tainted = False,
      s_ToolCallCount = 0, s_EstimatedCostUSD = Fin 0, s_Terminated = False\<rparr>"

definition sample_call :: "string \<Rightarrow> ToolCall" where
  "sample_call tool =
     \<lparr>tc_SessionID = ''s1'', tc_AgentName = ''pay'', tc_ToolName = tool, tc_Arguments = ''5'',
      tc_AgentEnv = [], tc_ParentAgent = [], tc_RequestedAt = Some 1000\<rparr>"

definition sample_read_event :: SessionEventEntry where
  "sample_read_event = \<lparr>se_ToolName = ''read'', se_Decision = ''allow'', se_RecordedAt = 10\<rparr>"

definition sample_gate :: Policy where
  "sample_gate = sample_policy\<lparr>p_Tools := Some [(''read'', sample_tool), (''wire'', sample_wire)]\<rparr>"

definition sample_mem :: "SessionEventEntry list \<Rightarrow> MemBackend" where
  "sample_mem evs = NewMemBackend (Some evs) None None"

section \<open>Properties\<close>

text \<open>The pipeline is decided by its first objecting stage. With the nine stages the proxy and the
  WASM build install, and whatever the backend answers, the result is: allow with the taint rule
  applied when every stage answers the bare allow; a denial \<open>internal_error\<close> without feedback when
  the first other verdict is an error, in shadow mode too; otherwise that verdict, relabelled
  \<open>ShadowDeny\<close> exactly when the tool's effective mode is shadow. Only an allow changes the session.\<close>

theorem pipeline_first_verdict:
  "Evaluate (full_stages L B now) call sess pol = evaluation_spec (full_stages L B now) call sess pol"
  by (rule Evaluate_spec) simp

text \<open>Every decision explains itself. A decision that is not an allow names a rule; it carries
  feedback unless it is the \<open>internal_error\<close> of a failed evaluation; \<open>ShadowDeny\<close> appears only under
  effective shadow mode, and under shadow mode nothing is escalated and nothing is denied except on an
  internal error.\<close>

theorem decisions_explained:
  assumes "Evaluate (full_stages L B now) call sess pol = (d, sess')"
  shows "(d_Action d = Allow \<longrightarrow> d = allow)
    \<and> (d_Action d \<noteq> Allow \<longrightarrow> d_RuleID d \<noteq> [] \<and> (d_Feedback d = None \<longrightarrow> d_RuleID d = ''internal_error'')
          \<and> sess' = sess)
    \<and> (d_Action d = ShadowDeny \<longrightarrow> effectiveMode pol (tc_ToolName call) = EnforcementShadow)
    \<and> (effectiveMode pol (tc_ToolName call) = EnforcementShadow \<longrightarrow>
          d_Action d \<noteq> Escalate \<and> (d_Action d = Deny \<longrightarrow> (\<exists>e. d = internal_error e)))"
  using full_stages_contract assms
proof (cases rule: Evaluate_action_cases)
  case (stopped ev d0)
  have "evaluator ev" using stopped(1) full_stages_contract [of L B now] by (auto simp: list_all_iff)
  from evaluator.explains [OF this stopped(2)] stopped show ?thesis
    by (auto simp: shadowed_def)
qed auto

theorem decisions_explained_witness:
  "effectiveMode (set_mode ''shadow'' sample_gate) ''wire'' = EnforcementShadow
   \<and> d_Action (fst (Evaluate (full_stages sample_lib (mem_backend (sample_mem [])) 0) (sample_call ''wire'')
       sample_session (set_mode ''shadow'' sample_gate))) = ShadowDeny
   \<and> d_RuleID (fst (Evaluate (full_stages sample_lib (mem_backend (sample_mem [])) 0) (sample_call ''wire'')
       sample_session (set_mode ''shadow'' sample_gate))) \<noteq> []"
proof -
  let ?e = "Evaluate (full_stages sample_lib (mem_backend (sample_mem [])) 0) (sample_call ''wire'')
       sample_session (set_mode ''shadow'' sample_gate)"
  have "d_Action (fst ?e) = ShadowDeny" by code_simp
  moreover obtain d s' where e: "?e = (d, s')" by fastforce
  ultimately show ?thesis using decisions_explained [OF e] by (simp add: e EnforcementShadow_def sample_call_def)
qed

text \<open>Shadow mode hides nothing and changes nothing else. Setting the policy's global mode to any
  value leaves the rule, the reason and the feedback of every decision, whether the call is allowed,
  and the resulting session as they were: only the label of a violation depends on it.\<close>

theorem mode_only_relabels:
  "snd (Evaluate (full_stages L B now) call sess (set_mode m pol)) = snd (Evaluate (full_stages L B now) call sess pol)
   \<and> (fst (Evaluate (full_stages L B now) call sess (set_mode m pol)))\<lparr>d_Action := Deny\<rparr>
     = (fst (Evaluate (full_stages L B now) call sess pol))\<lparr>d_Action := Deny\<rparr>
   \<and> (d_Action (fst (Evaluate (full_stages L B now) call sess (set_mode m pol))) = Allow
       \<longleftrightarrow> d_Action (fst (Evaluate (full_stages L B now) call sess pol)) = Allow)"
  by (rule Evaluate_set_mode [OF full_stages_mode_blind])

text \<open>C38: taint is the only thing evaluation changes in a session, it changes only on an allow, and then a tool that
  applies taint taints the session whatever else it does, a tool that only clears it clears it, and any
  other tool leaves it.\<close>

theorem taint_transition:
  "snd (Evaluate (full_stages L B now) call sess pol) =
     sess\<lparr>s_Tainted :=
       (if d_Action (fst (Evaluate (full_stages L B now) call sess pol)) = Allow
        then applies_taint pol (tc_ToolName call) \<or> (s_Tainted sess \<and> \<not> clears_taint pol (tc_ToolName call))
        else s_Tainted sess)\<rparr>"
proof -
  obtain d sess' where e: "Evaluate (full_stages L B now) call sess pol = (d, sess')" by fastforce
  with full_stages_contract show ?thesis
  proof (cases rule: Evaluate_action_cases)
    case allowed
    with e show ?thesis by (simp add: applyTaintMutations_alt next_taint_def)
  next
    case (failed ev err)
    with e show ?thesis by simp
  next
    case (stopped ev d0)
    then have "d_Action d \<noteq> Allow" by auto
    with stopped e show ?thesis by simp
  qed
qed

text \<open>In the in-memory evaluator the pipeline allows a call exactly when the policy permits it:
  required environment, \<open>may_use\<close>, parent scope, budget, taint, sequence, content, rate limit, and
  either no escalation condition or a human approval of the same arguments.\<close>

theorem mem_allows_exactly_permitted:
  assumes "wf_policy pol"
  shows "d_Action (fst (Evaluate (full_stages L (mem_backend m) now) call sess pol)) = Allow
    \<longleftrightarrow> permitted L (\<lambda>_. mb_events m) (mem_approvals m) (mem_scope m) now pol call sess"
  using assms by (rule mem.Evaluate_permits)

theorem mem_allows_exactly_permitted_witness:
  "permitted sample_lib (\<lambda>_. [sample_read_event]) (mem_approvals (sample_mem [sample_read_event]))
      (mem_scope (sample_mem [sample_read_event])) 0 sample_gate (sample_call ''wire'') sample_session"
proof -
  have "d_Action (fst (Evaluate (full_stages sample_lib (mem_backend (sample_mem [sample_read_event])) 0)
      (sample_call ''wire'') sample_session sample_gate)) = Allow" by code_simp
  moreover have "wf_policy sample_gate" by code_simp
  moreover have "mb_events (sample_mem [sample_read_event]) = [sample_read_event]"
    by (simp add: sample_mem_def NewMemBackend_def)
  ultimately show ?thesis
    using mem_allows_exactly_permitted [of sample_gate sample_lib "sample_mem [sample_read_event]"] by simp
qed

text \<open>The mode of a tool is its own when it sets one and the policy's otherwise; in particular a
  policy that sets no mode at all does not get shadow enforcement: its violations are decided as in
  block mode.\<close>

theorem unset_mode_enforces:
  assumes "p_EnforcementMode pol = []"
    and "\<forall>tp. tool_policy pol (tc_ToolName call) = Some tp \<longrightarrow> tp_EnforcementMode tp = []"
  shows "fst (Evaluate (full_stages L B now) call sess pol)
       = fst (Evaluate (full_stages L B now) call sess (set_mode EnforcementBlock pol))
    \<and> d_Action (fst (Evaluate (full_stages L B now) call sess pol)) \<noteq> ShadowDeny"
proof -
  have m: "effectiveMode pol (tc_ToolName call) \<noteq> EnforcementShadow"
    "effectiveMode (set_mode EnforcementBlock pol) (tc_ToolName call) \<noteq> EnforcementShadow"
    using assms by (auto simp: effectiveMode_def mode_defs split: option.splits)
  have eq: "fst (Evaluate stages call sess pol) = fst (Evaluate stages call sess (set_mode EnforcementBlock pol))"
    if "list_all mode_blind stages" for stages
    using that m by (induction stages) (auto simp: mode_blind_def split: sum.splits)
  obtain d s' where e: "Evaluate (full_stages L B now) call sess pol = (d, s')" by fastforce
  have "d_Action d \<noteq> ShadowDeny"
    using full_stages_contract e
  proof (cases rule: Evaluate_action_cases)
    case (stopped ev d0)
    then show ?thesis using m by (auto simp: shadowed_def)
  qed auto
  then show ?thesis using eq [OF full_stages_mode_blind, of L B now] e by (metis fst_conv)
qed

theorem unset_mode_enforces_witness:
  "d_Action (fst (Evaluate (full_stages sample_lib (mem_backend (sample_mem [])) 0) (sample_call ''drop'')
      sample_session (set_mode [] sample_gate))) = Deny
   \<and> fst (Evaluate (full_stages sample_lib (mem_backend (sample_mem [])) 0) (sample_call ''drop'')
      sample_session (set_mode [] sample_gate))
     = fst (Evaluate (full_stages sample_lib (mem_backend (sample_mem [])) 0) (sample_call ''drop'')
      sample_session (set_mode EnforcementBlock (set_mode [] sample_gate)))"
proof -
  have "d_Action (fst (Evaluate (full_stages sample_lib (mem_backend (sample_mem [])) 0) (sample_call ''drop'')
      sample_session (set_mode [] sample_gate))) = Deny" by code_simp
  moreover have "tool_policy (set_mode [] sample_gate) (tc_ToolName (sample_call ''drop'')) = None" by code_simp
  ultimately show ?thesis
    using unset_mode_enforces [of "set_mode [] sample_gate" "sample_call ''drop''"] by simp
qed

text \<open>A sequence denial is complete. When the history can be read and some predicate of the tool is
  violated, the evaluator denies with one message for every missing prerequisite, every forbidden tool
  that ran and an unmet \<open>requires_prior_n\<close>, in policy order; and when prerequisites are missing the
  feedback lists exactly those.\<close>

theorem sequence_reports_every_violation:
  assumes "qb_GetSessionEvents B (s_ID sess) = Inr evs" "\<not> sequence_ok evs pol (tc_ToolName call)"
  shows "\<exists>d fb. SequenceEvaluator L B call sess pol = Inr d \<and> d_Action d = Deny \<and> d_Feedback d = Some fb
    \<and> d_Reason d = join ''; ''
        (map (msg_only_after L (tc_ToolName call)) (filter (\<lambda>t. t \<notin> executed evs) (only_after pol (tc_ToolName call)))
         @ map (msg_never_after L (tc_ToolName call)) (filter (\<lambda>t. t \<in> executed evs) (never_after pol (tc_ToolName call)))
         @ (case prior_n pol (tc_ToolName call) of
              None \<Rightarrow> []
            | Some r \<Rightarrow> if int (calls_of evs (pn_Tool r)) < pn_Count r
                then [msg_prior_n L (tc_ToolName call) r (int (calls_of evs (pn_Tool r)))] else []))
    \<and> (filter (\<lambda>t. t \<notin> executed evs) (only_after pol (tc_ToolName call)) \<noteq> [] \<longrightarrow>
         fb_ReasonCode fb = ''sequence_only_after''
         \<and> fb_UnsatisfiedPrerequisites fb = filter (\<lambda>t. t \<notin> executed evs) (only_after pol (tc_ToolName call)))"
proof (cases "tool_policy pol (tc_ToolName call)")
  case None
  then show ?thesis using assms(2) by (simp add: sequence_ok_def)
next
  case (Some tp)
  let ?tool = "tc_ToolName call" and ?seq = "tp_Sequence tp"
  have mo: "missing_only_after (history evs) ?seq = filter (\<lambda>t. t \<notin> executed evs) (only_after pol ?tool)"
    and bn: "blocked_by_never_after (history evs) ?seq = filter (\<lambda>t. t \<in> executed evs) (never_after pol ?tool)"
    using Some by (simp_all add: missing_only_after_def blocked_by_never_after_def)
  have np: "map (\<lambda>r. msg_prior_n L ?tool r (int (calls_of evs (pn_Tool r)))) (missing_prior_n (history evs) ?seq)
    = (case prior_n pol ?tool of None \<Rightarrow> []
       | Some r \<Rightarrow> if int (calls_of evs (pn_Tool r)) < pn_Count r
           then [msg_prior_n L ?tool r (int (calls_of evs (pn_Tool r)))] else [])"
    using Some by (simp add: missing_prior_n_def split: option.split)
  show ?thesis
    using Some unfolding sequence_violation [OF assms(1) Some assms(2)] mo bn np by (simp add: sequence_feedback_def)
qed

theorem sequence_reports_every_violation_witness:
  "\<exists>d. SequenceEvaluator sample_lib (mem_backend (sample_mem [])) (sample_call ''wire'') sample_session sample_gate = Inr d
     \<and> d_Action d = Deny"
proof -
  have "qb_GetSessionEvents (mem_backend (sample_mem [])) (s_ID sample_session) = Inr []"
    "\<not> sequence_ok [] sample_gate (tc_ToolName (sample_call ''wire''))"
    by code_simp+
  from sequence_reports_every_violation [OF this, of sample_lib] show ?thesis by auto
qed

text \<open>The rate limit is the rolling window it claims to be, as long as the window fits in an int64
  of nanoseconds: with a backend that answers, the evaluator denies exactly when at least
  \<open>max_calls\<close> executed calls of the tool fall in the last \<open>window_seconds\<close>, counted from the call's
  own time.\<close>

theorem rate_limit_window:
  assumes "rate_limit pol (tc_ToolName call) = Some rl" "tc_RequestedAt call = Some t"
    and "0 \<le> rl_WindowSeconds rl" "rl_WindowSeconds rl * 1000000000 \<le> t" "t < 2 ^ 63"
  shows "RateLimitEvaluator L (mem_backend m) now call sess pol = Inr allow \<longleftrightarrow>
    int (length (filter (\<lambda>ev. se_ToolName ev = tc_ToolName call \<and> counts ev
        \<and> t - rl_WindowSeconds rl * 1000000000 \<le> se_RecordedAt ev) (mb_events m))) < rl_MaxCalls rl"
proof -
  have "window_start t (rl_WindowSeconds rl) = t - rl_WindowSeconds rl * 1000000000"
    using assms by (intro window_start_exact) auto
  then show ?thesis
    using assms by (simp add: mem.rate_allow rate_ok_def call_time_def in_window_def [abs_def])
qed

definition sample_rate :: "int \<Rightarrow> Policy" where
  "sample_rate w = sample_policy\<lparr>p_Tools :=
     Some [(''read'', sample_tool\<lparr>tp_RateLimit := Some \<lparr>rl_MaxCalls = 1, rl_WindowSeconds = w\<rparr>\<rparr>)]\<rparr>"

theorem rate_limit_window_witness:
  "RateLimitEvaluator sample_lib (mem_backend (sample_mem [sample_read_event])) 0
     ((sample_call ''read'')\<lparr>tc_RequestedAt := Some 60000000000\<rparr>) sample_session (sample_rate 60) \<noteq> Inr allow"
proof -
  let ?c = "(sample_call ''read'')\<lparr>tc_RequestedAt := Some 60000000000\<rparr>"
  have "rate_limit (sample_rate 60) (tc_ToolName ?c) = Some \<lparr>rl_MaxCalls = 1, rl_WindowSeconds = 60\<rparr>" by code_simp
  from rate_limit_window [OF this, of 60000000000 sample_lib "sample_mem [sample_read_event]"] show ?thesis
    by (simp add: sample_mem_def NewMemBackend_def sample_read_event_def counts_def sample_call_def)
qed

text \<open>Outside that range the limit is void. With \<open>window_seconds: 11000000000\<close> (which the linter
  accepts) and a call time of 1700000000 s, the window would start in the future, so no past event
  counts and the evaluator allows every call however many were made.\<close>

theorem rate_limit_window_overflow:
  assumes "rate_limit pol (tc_ToolName call) = Some rl" "rl_WindowSeconds rl = 11000000000" "0 < rl_MaxCalls rl"
    and "tc_RequestedAt call = Some 1700000000000000000"
    and "\<forall>ev \<in> set (mb_events m). se_RecordedAt ev \<le> 1700000000000000000"
  shows "RateLimitEvaluator L (mem_backend m) now call sess pol = Inr allow"
proof -
  have "window_start 1700000000000000000 11000000000 = 9146744073709551616"
    by (simp add: window_start_def wrap64_alt)
  then have "filter (in_window (tc_ToolName call) (window_start 1700000000000000000 11000000000)) (mb_events m) = []"
    using assms(5) by (auto simp: filter_empty_conv in_window_def)
  then show ?thesis using assms by (simp add: mem.rate_allow rate_ok_def call_time_def)
qed

theorem rate_limit_window_overflow_witness:
  "RateLimitEvaluator sample_lib (mem_backend (sample_mem (replicate 3 sample_read_event))) 0
     ((sample_call ''read'')\<lparr>tc_RequestedAt := Some 1700000000000000000\<rparr>) sample_session (sample_rate 11000000000)
   = Inr allow"
  by (rule rate_limit_window_overflow [where rl = "\<lparr>rl_MaxCalls = 1, rl_WindowSeconds = 11000000000\<rparr>"])
    (simp_all add: rate_limit_def sample_rate_def tool_policy_def tools_def sample_call_def sample_mem_def
      NewMemBackend_def sample_read_event_def)

end
