(* ===== verification/TB_Backends.thy ===== *)
theory TB_Backends
  imports TB_Pipeline TB_StoreFacts "HOL-Library.Multiset"
begin

text \<open>
  The SQLite backend of the pipeline (\<open>internal/engine/storebackend.go\<close>). It adapts the store to
  \<open>QueryBackend\<close> and meets the contract \<open>query_backend\<close> under every pattern of database failures,
  and \<open>total_backend\<close> when no statement fails and the stored tool lists decode. With it the
  pipeline properties become statements about the tables.
\<close>

section \<open>StoreBackend\<close>

text \<open>
  \<open>jt\<close> is \<open>json.Unmarshal\<close> into a \<open>[]string\<close>. A pipeline run sends its statements in order;
  \<open>later k\<close> is the database as the run's \<open>k\<close>-th statement finds it.
\<close>

definition later :: "nat \<Rightarrow> db \<Rightarrow> db" where
  "later k d = d\<lparr>db_tick := db_tick d + k\<rparr>"

definition AllowedTools :: "world \<Rightarrow> (string \<Rightarrow> gerr + string list) \<Rightarrow> Agent \<Rightarrow> gerr + string list" where
  "AllowedTools W jt a =
     (case jt (ag_AllowedToolsJSON a) of
        Inl e \<Rightarrow> Inl (wrapf (''decoding allowed_tools_json for agent '' @ qw W (ag_Name a)) e)
      | Inr ts \<Rightarrow> Inr ts)"

definition entry_of_event :: "SessionEvent \<Rightarrow> SessionEventEntry" where
  "entry_of_event e = \<lparr>se_ToolName = e_ToolName e, se_Decision = e_Decision e, se_RecordedAt = e_RecordedAt e\<rparr>"

definition sb_GetSessionEvents :: "world \<Rightarrow> db \<Rightarrow> string \<Rightarrow> gerr + SessionEventEntry list" where
  "sb_GetSessionEvents W d sid =
     (case fst (store_GetSessionEvents W sid d) of
        Inl e \<Rightarrow> Inl (wrapf (''StoreBackend.GetSessionEvents for session '' @ qw W sid) e)
      | Inr rows \<Rightarrow> Inr (map entry_of_event rows))"

definition sb_CountSessionEventsSince :: "world \<Rightarrow> db \<Rightarrow> string \<Rightarrow> string \<Rightarrow> int \<Rightarrow> gerr + int" where
  "sb_CountSessionEventsSince W d sid tool since = fst (store_CountSessionEventsSince W sid tool since d)"

definition sb_HasApprovedEscalation :: "world \<Rightarrow> db \<Rightarrow> string \<Rightarrow> string \<Rightarrow> string \<Rightarrow> gerr + bool" where
  "sb_HasApprovedEscalation W d sid tool h = fst (store_HasApprovedEscalation W sid tool h d)"

definition sb_GetAgentAllowedTools ::
    "world \<Rightarrow> (string \<Rightarrow> gerr + string list) \<Rightarrow> db \<Rightarrow> string \<Rightarrow> gerr + string list" where
  "sb_GetAgentAllowedTools W jt d agentName =
     (case fst (GetAgent W agentName d) of
        Inl err \<Rightarrow>
          (if errors_Is err SqlErrNoRows then Inl err_parent_agent_not_found
           else Inl (wrapf (''StoreBackend.GetAgentAllowedTools for agent '' @ qw W agentName) err))
      | Inr agent \<Rightarrow>
          (case AllowedTools W jt agent of
             Inl err \<Rightarrow> Inl (wrapf (''StoreBackend.GetAgentAllowedTools decoding tools for '' @ qw W agentName) err)
           | Inr ts \<Rightarrow> Inr ts))"

definition store_backend :: "world \<Rightarrow> (string \<Rightarrow> gerr + string list) \<Rightarrow> db \<Rightarrow> QueryBackend" where
  "store_backend W jt d =
     \<lparr>qb_GetSessionEvents = sb_GetSessionEvents W (later 1 d),
      qb_CountSessionEventsSince = sb_CountSessionEventsSince W (later 3 d),
      qb_HasApprovedEscalation = sb_HasApprovedEscalation W (later 4 d),
      qb_GetAgentAllowedTools = sb_GetAgentAllowedTools W jt d\<rparr>"

text \<open>The statements one run may send.\<close>

definition pipeline_ticks :: nat where
  "pipeline_ticks = 6"

section \<open>The views it answers from\<close>

definition entry_of_row :: "event_row \<Rightarrow> SessionEventEntry" where
  "entry_of_row r = \<lparr>se_ToolName = ev_tool_name r, se_Decision = ev_decision r, se_RecordedAt = ev_recorded_at r\<rparr>"

definition store_hist :: "db \<Rightarrow> string \<Rightarrow> SessionEventEntry list" where
  "store_hist d sid = map entry_of_row (sort_key ev_seq (session_rows d sid))"

definition store_approvals :: "lib \<Rightarrow> db \<Rightarrow> string \<Rightarrow> string \<Rightarrow> string \<Rightarrow> bool" where
  "store_approvals L d sid tool h =
     (\<exists>r \<in> set (db_escalations d). es_session_id r = sid \<and> es_tool_name r = tool \<and> es_status r = ''approved''
        \<and> l_sha256_hex L (from_null (es_arguments_json r)) = h)"

definition store_scope :: "(string \<Rightarrow> gerr + string list) \<Rightarrow> db \<Rightarrow> string \<Rightarrow> string list option" where
  "store_scope jt d a =
     (case find_agent d a of
        None \<Rightarrow> None
      | Some ag \<Rightarrow> (case jt (ag_AllowedToolsJSON ag) of Inl _ \<Rightarrow> None | Inr ts \<Rightarrow> Some ts))"

lemma later_sel [simp]:
  "db_sessions (later k d) = db_sessions d" "db_events (later k d) = db_events d" "db_audit (later k d) = db_audit d"
  "db_agents (later k d) = db_agents d" "db_escalations (later k d) = db_escalations d" "db_tick (later k d) = db_tick d + k"
  by (simp_all add: later_def)

lemma views_same:
  "same_tables d d' \<Longrightarrow> store_hist d' = store_hist d" "same_tables d d' \<Longrightarrow> store_approvals L d' = store_approvals L d"
  "same_tables d d' \<Longrightarrow> store_scope jt d' = store_scope jt d"
  by (auto simp: same_tables_def fun_eq_iff store_hist_def session_rows_def store_approvals_def store_scope_def find_agent_def)

lemma entry_of_event_of_row [simp]: "entry_of_event (event_of_row r) = entry_of_row r"
  by (simp add: entry_of_event_def event_of_row_def entry_of_row_def)

text \<open>In a well-formed database the stored order is the insertion order.\<close>

lemma store_hist_insertion_order:
  assumes "wf_db d"
  shows "store_hist d sid = map entry_of_row (session_rows d sid)"
proof -
  have "map ev_seq (session_rows d sid) = [1..<Suc (length (session_rows d sid))]"
    using assms by (simp add: wf_db_def numbered_def del: upt_Suc)
  then have "sorted (map ev_seq (session_rows d sid))" by (simp only: sorted_upt)
  then show ?thesis by (simp add: store_hist_def sorted_sort_id sort_key_id_if_sorted)
qed

lemma length_filter_sort_key: "length (filter P (sort_key f xs)) = length (filter P xs)"
proof -
  have "mset (filter P (sort_key f xs)) = mset (filter P xs)" by simp
  then show ?thesis by (rule mset_eq_length)
qed

lemma count_rows:
  "length (filter (in_window tool since) (store_hist d sid)) =
   length (filter (\<lambda>r. ev_session_id r = sid \<and> ev_tool_name r = tool
      \<and> ev_decision r \<in> {''allow'', ''shadow_deny''} \<and> ev_recorded_at r \<ge> since) (db_events d))"
proof -
  have "length (filter (in_window tool since) (store_hist d sid)) =
      length (filter (\<lambda>r. in_window tool since (entry_of_row r)) (sort_key ev_seq (session_rows d sid)))"
    by (simp add: store_hist_def filter_map comp_def)
  also have "\<dots> = length (filter (\<lambda>r. in_window tool since (entry_of_row r)) (session_rows d sid))"
    by (rule length_filter_sort_key)
  also have "filter (\<lambda>r. in_window tool since (entry_of_row r)) (session_rows d sid) =
      filter (\<lambda>r. ev_session_id r = sid \<and> ev_tool_name r = tool
      \<and> ev_decision r \<in> {''allow'', ''shadow_deny''} \<and> ev_recorded_at r \<ge> since) (db_events d)"
    by (auto simp: session_rows_def in_window_def counts_def entry_of_row_def intro: filter_cong)
  finally show ?thesis .
qed

lemma store_events_cases:
  "(\<exists>e. sb_GetSessionEvents W d sid = Inl e) \<or> sb_GetSessionEvents W d sid = Inr (store_hist d sid)"
  by (auto simp: sb_GetSessionEvents_def store_GetSessionEvents_def db_rows_def db_bind_def db_read_def
      store_hist_def comp_def session_rows_def split: option.split)

lemma store_count_cases:
  "(\<exists>e. sb_CountSessionEventsSince W d sid tool since = Inl e)
   \<or> sb_CountSessionEventsSince W d sid tool since =
       Inr (int (length (filter (in_window tool since) (store_hist d sid))))"
  by (auto simp: sb_CountSessionEventsSince_def store_CountSessionEventsSince_def db_read_def count_rows
      split: option.split)

lemma store_approved_cases:
  "(\<exists>e. sb_HasApprovedEscalation W d sid tool h = Inl e)
   \<or> sb_HasApprovedEscalation W d sid tool h = Inr (store_approvals (w_lib W) d sid tool h)"
  by (auto simp: sb_HasApprovedEscalation_def store_HasApprovedEscalation_def db_bind_def db_read_def
      approved_rows_def store_approvals_def list_ex_set Let_def split: option.split)

lemma store_scope_cases:
  "(\<exists>e. sb_GetAgentAllowedTools W jt d a = Inl e)
   \<or> (\<exists>ts. sb_GetAgentAllowedTools W jt d a = Inr ts \<and> store_scope jt d a = Some ts)"
  by (auto simp: sb_GetAgentAllowedTools_def GetAgent_def db_bind_def db_read_def AllowedTools_def
      store_scope_def Let_def split: option.split sum.split)

interpretation store: query_backend "store_backend W jt d" "store_hist d" "store_approvals (w_lib W) d" "store_scope jt d"
  for W jt d
proof
  fix sid evs
  assume "qb_GetSessionEvents (store_backend W jt d) sid = Inr evs"
  then show "evs = store_hist d sid"
    using store_events_cases [of W "later 1 d" sid] by (auto simp: store_backend_def store_hist_def session_rows_def)
next
  fix sid tool since n
  assume "qb_CountSessionEventsSince (store_backend W jt d) sid tool since = Inr n"
  then show "n = int (length (filter (in_window tool since) (store_hist d sid)))"
    using store_count_cases [of W "later 3 d" sid tool since]
    by (auto simp: store_backend_def store_hist_def session_rows_def)
next
  fix sid tool h b
  assume "qb_HasApprovedEscalation (store_backend W jt d) sid tool h = Inr b"
  then show "b = store_approvals (w_lib W) d sid tool h"
    using store_approved_cases [of W "later 4 d" sid tool h] by (auto simp: store_backend_def store_approvals_def)
next
  fix a ts
  assume "qb_GetAgentAllowedTools (store_backend W jt d) a = Inr ts"
  then show "store_scope jt d a = Some ts"
    using store_scope_cases [of W jt d a] by (auto simp: store_backend_def)
qed

text \<open>Without failures the contract is total.\<close>

definition fault_free :: "world \<Rightarrow> bool" where
  "fault_free W = (\<forall>n. w_fault W n = None)"

definition tools_decode :: "(string \<Rightarrow> gerr + string list) \<Rightarrow> db \<Rightarrow> bool" where
  "tools_decode jt d = (\<forall>ag \<in> set (db_agents d). \<exists>ts. jt (ag_AllowedToolsJSON ag) = Inr ts)"

lemma find_in_set: "find P xs = Some x \<Longrightarrow> x \<in> set xs"
  by (auto simp: find_Some_iff)

lemma db_read_fault_free: "fault_free W \<Longrightarrow> db_read W msg f d = (Inr (f d), tick d)"
  by (simp add: db_read_def fault_free_def)

lemma store_total:
  assumes "fault_free W" "tools_decode jt d"
  shows "total_backend (store_backend W jt d) (store_hist d) (store_approvals (w_lib W) d) (store_scope jt d)"
proof
  note read = db_read_fault_free [OF assms(1)]
  fix sid tool since h a ts
  show "qb_GetSessionEvents (store_backend W jt d) sid = Inr (store_hist d sid)"
    by (simp add: store_backend_def sb_GetSessionEvents_def store_GetSessionEvents_def db_rows_def db_bind_def read
        store_hist_def session_rows_def comp_def)
  show "qb_CountSessionEventsSince (store_backend W jt d) sid tool since =
      Inr (int (length (filter (in_window tool since) (store_hist d sid))))"
    by (simp add: store_backend_def sb_CountSessionEventsSince_def store_CountSessionEventsSince_def read count_rows)
  show "qb_HasApprovedEscalation (store_backend W jt d) sid tool h = Inr (store_approvals (w_lib W) d sid tool h)"
    by (auto simp: store_backend_def sb_HasApprovedEscalation_def store_HasApprovedEscalation_def db_bind_def read
        approved_rows_def store_approvals_def list_ex_set Let_def)
  show "qb_GetAgentAllowedTools (store_backend W jt d) a = Inr ts" if "store_scope jt d a = Some ts"
    using that by (auto simp: store_backend_def sb_GetAgentAllowedTools_def GetAgent_def db_bind_def read Let_def
        AllowedTools_def store_scope_def split: option.splits sum.splits)
  show "\<exists>e. qb_GetAgentAllowedTools (store_backend W jt d) a = Inl e \<and> errors_Is e ErrParentAgentNotFound"
    if "store_scope jt d a = None"
    using that assms(2) by (auto simp: store_backend_def sb_GetAgentAllowedTools_def GetAgent_def db_bind_def read
        Let_def AllowedTools_def store_scope_def err_no_rows_def err_parent_agent_not_found_def tools_decode_def
        wrapf_def errors_Is_def dest!: find_in_set simp: find_agent_def split: option.splits sum.splits)
qed

section \<open>Properties\<close>

text \<open>A call the proxy's pipeline allows is permitted by the policy given the database, whatever
  statements fail: the environment matches, the tool is in \<open>may_use\<close> and in the parent's scope, the
  budget is not used up, taint and sequence predicates hold of the recorded history, no content
  predicate blocks it, the rate limit has room, and an escalation condition has a stored approval for
  the hash of these very arguments.\<close>

theorem store_allow_is_permitted:
  assumes "wf_policy pol"
    and "d_Action (fst (Evaluate (full_stages (w_lib W) (store_backend W jt d) now) call sess pol)) = Allow"
  shows "permitted (w_lib W) (store_hist d) (store_approvals (w_lib W) d) (store_scope jt d) now pol call sess"
  using assms by (rule store.Evaluate_sound)

theorem store_allow_is_permitted_witness:
  "permitted sample_lib (store_hist sample_db0) (store_approvals sample_lib sample_db0)
     (store_scope (\<lambda>_. Inr []) sample_db0) 0 sample_gate (sample_call ''wire'') sample_session"
proof -
  have "wf_policy sample_gate" by code_simp
  moreover have "d_Action (fst (Evaluate (full_stages (w_lib sample_world) (store_backend sample_world (\<lambda>_. Inr []) sample_db0) 0)
      (sample_call ''wire'') sample_session sample_gate)) = Allow" by code_simp
  moreover have "w_lib sample_world = sample_lib" by (simp add: sample_world_def)
  ultimately show ?thesis using store_allow_is_permitted [of sample_gate sample_world] by metis
qed

text \<open>C3: and conversely, when no statement fails and the stored tool lists decode, every call the
  policy permits is allowed: the proxy's pipeline and the in-memory one decide the same relation.\<close>

theorem store_allows_exactly_permitted:
  assumes "wf_policy pol" "fault_free W" "tools_decode jt d"
  shows "d_Action (fst (Evaluate (full_stages (w_lib W) (store_backend W jt d) now) call sess pol)) = Allow
    \<longleftrightarrow> permitted (w_lib W) (store_hist d) (store_approvals (w_lib W) d) (store_scope jt d) now pol call sess"
  using total_backend.Evaluate_permits [OF store_total [OF assms(2,3)] assms(1)] .

theorem store_allows_exactly_permitted_witness:
  "\<not> permitted sample_lib (store_hist empty_db) (store_approvals sample_lib empty_db)
     (store_scope (\<lambda>_. Inr []) empty_db) 0 sample_gate (sample_call ''wire'') sample_session"
proof -
  have "wf_policy sample_gate" by code_simp
  moreover have "d_Action (fst (Evaluate (full_stages (w_lib sample_world) (store_backend sample_world (\<lambda>_. Inr []) empty_db) 0)
      (sample_call ''wire'') sample_session sample_gate)) \<noteq> Allow" by code_simp
  moreover have "w_lib sample_world = sample_lib" "fault_free sample_world"
    by (simp_all add: sample_world_def fault_free_def)
  moreover have "tools_decode (\<lambda>_. Inr []) empty_db" by (simp add: tools_decode_def)
  ultimately show ?thesis
    using store_allows_exactly_permitted [of sample_gate sample_world "\<lambda>_. Inr []" empty_db] by metis
qed

end
