(* ===== verification/TB_Lint.thy ===== *)
theory TB_Lint
  imports TB_Stages
begin

text \<open>
  The policy linter (\<open>internal/policy/lint.go\<close>): the rules L001 to L020 and the three-colour
  depth-first search behind L013. The search runs on fuel, and \<open>lint_fuel\<close> is proved to be enough;
  it is complete and sound for cycles of the \<open>only_after\<close> graph.
\<close>

section \<open>Diagnostics\<close>

datatype Severity = SeverityError | SeverityWarning | SeverityInfo

record LintResult =
  lr_Code :: string
  lr_Severity :: Severity
  lr_Message :: string

definition lint_result :: "string \<Rightarrow> Severity \<Rightarrow> string \<Rightarrow> LintResult" where
  "lint_result code sev msg = \<lparr>lr_Code = code, lr_Severity = sev, lr_Message = msg\<rparr>"

lemma lint_result_sel [simp]:
  "lr_Code (lint_result c s m) = c" "lr_Severity (lint_result c s m) = s" "lr_Message (lint_result c s m) = m"
  by (simp_all add: lint_result_def)

text \<open>\<open>for name, tp := range p.Tools { results = append(results, ...) }\<close>.\<close>

definition per_tool :: "Policy \<Rightarrow> (string \<Rightarrow> ToolPolicy \<Rightarrow> LintResult list) \<Rightarrow> LintResult list" where
  "per_tool p f = concat (map (\<lambda>(name, tp). f name tp) (tools p))"

definition validContentOperators :: "string list" where
  "validContentOperators = [''is_external'', ''contains_pattern'', ''equals'', ''not_equals'']"

definition validEscalateOperators :: "string list" where
  "validEscalateOperators = [''>'', ''<'', ''>='', ''<='', ''=='', ''!='', ''contains'', ''matches'']"

definition buildMayUseSet :: "Policy \<Rightarrow> string set" where
  "buildMayUseSet p = set (may_use p)"

section \<open>Rules L001 to L012\<close>

definition msg_L001 :: string where
  "msg_L001 = ''may_use is empty or missing: every agent must declare the tools it is permitted to call''"

definition lintL001 :: "Policy \<Rightarrow> LintResult list" where
  "lintL001 p = (if may_use p = [] then [lint_result ''L001'' SeverityError msg_L001] else [])"

definition msg_L002 :: "lib \<Rightarrow> string \<Rightarrow> string" where
  "msg_L002 L name = ''tool '' @ qt L name @ '' is defined in tools: but not listed in may_use''"

definition lintL002 :: "lib \<Rightarrow> Policy \<Rightarrow> LintResult list" where
  "lintL002 L p =
     per_tool p (\<lambda>name tp. if name \<notin> buildMayUseSet p
                           then [lint_result ''L002'' SeverityError (msg_L002 L name)] else [])"

definition msg_L003 :: "lib \<Rightarrow> string \<Rightarrow> string \<Rightarrow> string" where
  "msg_L003 L toolName dep =
     ''tool '' @ qt L toolName @ '': only_after references '' @ qt L dep @ '' which is not in may_use''"

definition lintL003 :: "lib \<Rightarrow> Policy \<Rightarrow> LintResult list" where
  "lintL003 L p =
     per_tool p (\<lambda>toolName tp.
       map (\<lambda>dep. lint_result ''L003'' SeverityError (msg_L003 L toolName dep))
         (filter (\<lambda>dep. dep \<notin> buildMayUseSet p) (elems (sq_OnlyAfter (tp_Sequence tp)))))"

definition msg_L004 :: "lib \<Rightarrow> string \<Rightarrow> string \<Rightarrow> string" where
  "msg_L004 L toolName dep =
     ''tool '' @ qt L toolName @ '': never_after references '' @ qt L dep @ '' which is not in may_use''"

definition lintL004 :: "lib \<Rightarrow> Policy \<Rightarrow> LintResult list" where
  "lintL004 L p =
     per_tool p (\<lambda>toolName tp.
       map (\<lambda>dep. lint_result ''L004'' SeverityError (msg_L004 L toolName dep))
         (filter (\<lambda>dep. dep \<notin> buildMayUseSet p) (elems (sq_NeverAfter (tp_Sequence tp)))))"

definition msg_L005 :: string where
  "msg_L005 = ''enforcement_mode is not set; defaulting to shadow (violations are logged but not blocked)''"

definition lintL005 :: "Policy \<Rightarrow> LintResult list" where
  "lintL005 p =
     (if p_EnforcementMode p = [] then [lint_result ''L005'' SeverityWarning msg_L005] else [])"

definition msg_L006 :: string where
  "msg_L006 = ''no budget block defined: sessions have no tool call or cost ceiling''"

definition lintL006 :: "Policy \<Rightarrow> LintResult list" where
  "lintL006 p =
     (if bp_MaxToolCalls (p_Budget p) = 0 \<and> f_eq (bp_MaxCostUSD (p_Budget p)) f_zero
      then [lint_result ''L006'' SeverityWarning msg_L006] else [])"

definition msg_L007 :: string where
  "msg_L007 = ''session.max_history is not set; the pipeline will apply a default limit at runtime''"

definition lintL007 :: "Policy \<Rightarrow> LintResult list" where
  "lintL007 p =
     (if sp_MaxHistory (p_Session p) = 0 then [lint_result ''L007'' SeverityWarning msg_L007] else [])"

definition msg_L008 :: "lib \<Rightarrow> string \<Rightarrow> string" where
  "msg_L008 L toolName =
     ''tool '' @ qt L toolName @ '' has escalate_when but escalation.webhook_url is not configured; ''
     @ ''escalation events will only appear on stdout''"

definition lintL008 :: "lib \<Rightarrow> Policy \<Rightarrow> LintResult list" where
  "lintL008 L p =
     per_tool p (\<lambda>toolName tp.
       if tp_EscalateWhen tp \<noteq> None
          \<and> (case p_Escalation p of None \<Rightarrow> True | Some e \<Rightarrow> ec_WebhookURL e = [])
       then [lint_result ''L008'' SeverityWarning (msg_L008 L toolName)] else [])"

definition msg_L009 :: string where
  "msg_L009 = ''enforcement_mode is shadow: policy violations are logged but not blocked; ''
     @ ''change to block for production enforcement''"

definition lintL009 :: "Policy \<Rightarrow> LintResult list" where
  "lintL009 p =
     (if p_EnforcementMode p = EnforcementShadow then [lint_result ''L009'' SeverityInfo msg_L009] else [])"

definition msg_L010 :: "lib \<Rightarrow> string \<Rightarrow> int \<Rightarrow> string" where
  "msg_L010 L toolName n =
     ''tool '' @ qt L toolName @ '': requires_prior_n.count must be a positive integer, got '' @ dec n"

definition lintL010 :: "lib \<Rightarrow> Policy \<Rightarrow> LintResult list" where
  "lintL010 L p =
     per_tool p (\<lambda>toolName tp.
       case sq_RequiresPriorN (tp_Sequence tp) of
         None \<Rightarrow> []
       | Some r \<Rightarrow> if pn_Count r \<le> 0
           then [lint_result ''L010'' SeverityError (msg_L010 L toolName (pn_Count r))] else [])"

definition msg_L011 :: string where
  "msg_L011 = ''a tool has taint.applies: true but no tool has taint.clears: true; ''
     @ ''once the session is tainted it can never be untainted''"

definition lintL011 :: "Policy \<Rightarrow> LintResult list" where
  "lintL011 p =
     (let hasApplies = list_ex (\<lambda>(_, tp). tt_Applies (tp_Taint tp)) (tools p);
          hasClears = list_ex (\<lambda>(_, tp). tt_Clears (tp_Taint tp)) (tools p)
      in if hasApplies \<and> \<not> hasClears then [lint_result ''L011'' SeverityWarning msg_L011] else [])"

definition msg_L012 :: "lib \<Rightarrow> string \<Rightarrow> string \<Rightarrow> string" where
  "msg_L012 L toolName op =
     ''tool '' @ qt L toolName @ '': escalate_when.operator '' @ qt L op
     @ '' is not valid; supported operators: >, <, >=, <=, ==, !=, contains, matches''"

definition lintL012 :: "lib \<Rightarrow> Policy \<Rightarrow> LintResult list" where
  "lintL012 L p =
     per_tool p (\<lambda>toolName tp.
       case tp_EscalateWhen tp of
         None \<Rightarrow> []
       | Some r \<Rightarrow> if er_Operator r \<notin> set validEscalateOperators
           then [lint_result ''L012'' SeverityError (msg_L012 L toolName (er_Operator r))] else [])"

section \<open>Rules L014 to L020\<close>

definition msg_L014 :: "lib \<Rightarrow> string \<Rightarrow> nat \<Rightarrow> string \<Rightarrow> string" where
  "msg_L014 L toolName i op =
     ''tool '' @ qt L toolName @ '': never_when['' @ dec (int i) @ ''] operator '' @ qt L op
     @ '' is not valid; supported operators: is_external, contains_pattern, equals, not_equals''"

definition lintL014 :: "lib \<Rightarrow> Policy \<Rightarrow> LintResult list" where
  "lintL014 L p =
     per_tool p (\<lambda>toolName tp.
       map (\<lambda>(i, pred). lint_result ''L014'' SeverityError (msg_L014 L toolName i (cp_Operator pred)))
         (filter (\<lambda>(i, pred). cp_Operator pred \<notin> set validContentOperators)
           (enumerate 0 (elems (tp_NeverWhen tp)))))"

definition msg_L015 :: "lib \<Rightarrow> string \<Rightarrow> nat \<Rightarrow> string \<Rightarrow> string \<Rightarrow> string" where
  "msg_L015 L toolName i v err =
     ''tool '' @ qt L toolName @ '': never_when['' @ dec (int i) @ ''] contains_pattern value '' @ qt L v
     @ '' is not a valid Go regexp: '' @ err"

definition lintL015 :: "lib \<Rightarrow> Policy \<Rightarrow> LintResult list" where
  "lintL015 L p =
     per_tool p (\<lambda>toolName tp.
       concat (map (\<lambda>(i, pred).
           if cp_Operator pred \<noteq> ''contains_pattern'' then []
           else (case l_regexp L (strip_slashes (cp_Value pred)) of
                   Inr _ \<Rightarrow> []
                 | Inl err \<Rightarrow> [lint_result ''L015'' SeverityError (msg_L015 L toolName i (cp_Value pred) err)]))
         (enumerate 0 (elems (tp_NeverWhen tp)))))"

definition msg_L016 :: "lib \<Rightarrow> string \<Rightarrow> string" where
  "msg_L016 L env =
     ''session.require_env is '' @ qt L env @ '': register agents with --env '' @ env
     @ ''; agents without a matching env claim will be denied by the EnvEvaluator''"

definition lintL016 :: "lib \<Rightarrow> Policy \<Rightarrow> LintResult list" where
  "lintL016 L p =
     (if sp_RequireEnv (p_Session p) \<noteq> []
      then [lint_result ''L016'' SeverityWarning (msg_L016 L (sp_RequireEnv (p_Session p)))] else [])"

definition msg_L017 :: "lib \<Rightarrow> string \<Rightarrow> int \<Rightarrow> string" where
  "msg_L017 L toolName n =
     ''tool '' @ qt L toolName @ '': rate_limit.window_seconds must be a positive integer, got '' @ dec n"

definition lintL017 :: "lib \<Rightarrow> Policy \<Rightarrow> LintResult list" where
  "lintL017 L p =
     per_tool p (\<lambda>toolName tp.
       case tp_RateLimit tp of
         None \<Rightarrow> []
       | Some rl \<Rightarrow> if rl_WindowSeconds rl \<le> 0
           then [lint_result ''L017'' SeverityError (msg_L017 L toolName (rl_WindowSeconds rl))] else [])"

definition msg_L018 :: "lib \<Rightarrow> string \<Rightarrow> int \<Rightarrow> string" where
  "msg_L018 L toolName n =
     ''tool '' @ qt L toolName @ '': rate_limit.max_calls must be a positive integer, got '' @ dec n"

definition lintL018 :: "lib \<Rightarrow> Policy \<Rightarrow> LintResult list" where
  "lintL018 L p =
     per_tool p (\<lambda>toolName tp.
       case tp_RateLimit tp of
         None \<Rightarrow> []
       | Some rl \<Rightarrow> if rl_MaxCalls rl \<le> 0
           then [lint_result ''L018'' SeverityError (msg_L018 L toolName (rl_MaxCalls rl))] else [])"

definition msg_L019 :: "lib \<Rightarrow> string \<Rightarrow> nat \<Rightarrow> string" where
  "msg_L019 L toolName n =
     ''tool '' @ qt L toolName @ '': never_when has '' @ dec (int n)
     @ '' predicates but never_when_match is not set; defaulting to ''
     @ [CHR 0x22] @ ''any'' @ [CHR 0x22] @ '' (OR logic) '' @ [CHR 0xE2, CHR 0x80, CHR 0x94]
     @ '' add never_when_match: any or never_when_match: all to make the intent explicit''"

definition lintL019 :: "lib \<Rightarrow> Policy \<Rightarrow> LintResult list" where
  "lintL019 L p =
     per_tool p (\<lambda>toolName tp.
       if length (elems (tp_NeverWhen tp)) > 1 \<and> tp_NeverWhenMatch tp = []
       then [lint_result ''L019'' SeverityWarning (msg_L019 L toolName (length (elems (tp_NeverWhen tp))))]
       else [])"

definition msg_L020 :: string where
  "msg_L020 = ''enforcement_mode is block but this policy fingerprint has no audit history; consider ''
     @ ''starting with enforcement_mode: shadow to observe enforcement before blocking ''
     @ [CHR 0xE2, CHR 0x80, CHR 0x94] @ '' use `truebearing audit query` to review what would have been blocked''"

definition lintL020 :: "Policy \<Rightarrow> bool \<Rightarrow> LintResult list" where
  "lintL020 p hasDeploymentHistory =
     (if hasDeploymentHistory then []
      else
        (let usesBlock = (p_EnforcementMode p = EnforcementBlock
                          \<or> list_ex (\<lambda>(_, tp). tp_EnforcementMode tp = EnforcementBlock) (tools p))
         in if \<not> usesBlock then [] else [lint_result ''L020'' SeverityWarning msg_L020]))"

section \<open>Rule L013: cycles of only_after\<close>

datatype Color = White | Gray | Black

text \<open>\<open>adj[node]\<close>; an absent key reads as nil.\<close>

definition adjacency :: "Policy \<Rightarrow> string \<Rightarrow> string list" where
  "adjacency p node =
     (case tool_policy p node of None \<Rightarrow> [] | Some tp \<Rightarrow> elems (sq_OnlyAfter (tp_Sequence tp)))"

text \<open>\<open>path[cycleStart:]\<close>, where \<open>cycleStart\<close> is the first index of the neighbor, or 0.\<close>

definition from_first :: "string \<Rightarrow> string list \<Rightarrow> string list" where
  "from_first neighbor path =
     (if neighbor \<in> set path then dropWhile (\<lambda>n. n \<noteq> neighbor) path else path)"

text \<open>
  The closure \<open>dfs\<close> and its loop over the neighbors. The colors are threaded; the second component
  is the cycle path when one was found. \<open>None\<close> means the fuel ran out.
\<close>

function (sequential) dfs ::
      "(string \<Rightarrow> string list) \<Rightarrow> nat \<Rightarrow> string \<Rightarrow> string list \<Rightarrow> (string \<Rightarrow> Color)
       \<Rightarrow> ((string \<Rightarrow> Color) \<times> string list option) option"
  and dfs_loop ::
      "(string \<Rightarrow> string list) \<Rightarrow> nat \<Rightarrow> string \<Rightarrow> string list \<Rightarrow> string list \<Rightarrow> (string \<Rightarrow> Color)
       \<Rightarrow> ((string \<Rightarrow> Color) \<times> string list option) option" where
  "dfs adj 0 node path color = None"
| "dfs adj (Suc k) node path color = dfs_loop adj k node (path @ [node]) (adj node) (color(node := Gray))"
| "dfs_loop adj k node path [] color = Some (color(node := Black), None)"
| "dfs_loop adj k node path (neighbor # rest) color =
     (case color neighbor of
        Gray \<Rightarrow> Some (color, Some (from_first neighbor path @ [neighbor]))
      | White \<Rightarrow>
          (case dfs adj k neighbor path color of
             None \<Rightarrow> None
           | Some (color', Some cyclePath) \<Rightarrow> Some (color', Some cyclePath)
           | Some (color', None) \<Rightarrow> dfs_loop adj k node path rest color')
      | Black \<Rightarrow> dfs_loop adj k node path rest color)"
  by pat_completeness auto
termination
  by (relation "measures [\<lambda>x. case x of Inl (_, k, _) \<Rightarrow> k | Inr (_, k, _) \<Rightarrow> k,
                          \<lambda>x. case x of Inl _ \<Rightarrow> 0 | Inr (_, _, _, _, ns, _) \<Rightarrow> Suc (length ns)]") auto

text \<open>The outer loop over the nodes of the graph.\<close>

fun dfs_all ::
    "(string \<Rightarrow> string list) \<Rightarrow> nat \<Rightarrow> string list \<Rightarrow> (string \<Rightarrow> Color) \<Rightarrow> string list option option" where
  "dfs_all adj k [] color = Some None"
| "dfs_all adj k (node # nodes) color =
     (if color node = White then
        (case dfs adj k node [] color of
           None \<Rightarrow> None
         | Some (color', Some cyclePath) \<Rightarrow> Some (Some cyclePath)
         | Some (color', None) \<Rightarrow> dfs_all adj k nodes color')
      else dfs_all adj k nodes color)"

text \<open>More than the number of nodes of the graph.\<close>

definition lint_nodes :: "Policy \<Rightarrow> string list" where
  "lint_nodes p = map fst (tools p) @ concat (map (\<lambda>(_, tp). elems (sq_OnlyAfter (tp_Sequence tp))) (tools p))"

definition lint_fuel :: "Policy \<Rightarrow> nat" where
  "lint_fuel p = length (lint_nodes p)"

definition find_cycle :: "Policy \<Rightarrow> string list option option" where
  "find_cycle p = dfs_all (adjacency p) (lint_fuel p) (map fst (tools p)) (\<lambda>_. White)"

definition msg_L013 :: "string list \<Rightarrow> string" where
  "msg_L013 cyclePath =
     ''circular sequence dependency: ''
     @ join ('' '' @ [CHR 0xE2, CHR 0x86, CHR 0x92] @ '' only_after '' @ [CHR 0xE2, CHR 0x86, CHR 0x92] @ '' '') cyclePath
     @ [CHR 0x0A] @ ''This session can never satisfy both constraints simultaneously. ''
     @ ''The agent will permanently block.''"

definition lintL013 :: "Policy \<Rightarrow> LintResult list" where
  "lintL013 p =
     (case find_cycle p of
        Some (Some cyclePath) \<Rightarrow> [lint_result ''L013'' SeverityError (msg_L013 cyclePath)]
      | _ \<Rightarrow> [])"

section \<open>Lint\<close>

definition Lint :: "lib \<Rightarrow> Policy \<Rightarrow> LintResult list" where
  "Lint L p =
     lintL001 p @ lintL002 L p @ lintL003 L p @ lintL004 L p @ lintL005 p @ lintL006 p @ lintL007 p
     @ lintL008 L p @ lintL009 p @ lintL010 L p @ lintL011 p @ lintL012 L p @ lintL013 p @ lintL014 L p
     @ lintL015 L p @ lintL016 L p @ lintL017 L p @ lintL018 L p @ lintL019 L p"

end
