(* ===== verification/TB_Proxy.thy ===== *)
theory TB_Proxy
  imports TB_Audit TB_Identity TB_Cache TB_Backends TB_Lint
begin

text \<open>
  The HTTP proxy (\<open>internal/proxy\<close>) with the MCP parser (\<open>pkg/mcpparse\<close>): the state of a
  \<open>Proxy\<close>, one definition per handler and per stage of \<open>handleMCP\<close>, policy reload, health and the
  admin API. A request is answered by forwarding it upstream or by a status and a body. Logging is
  left out; spans, trace lines and notifications are kept as lists of what was emitted.
\<close>

section \<open>Parsing MCP requests (pkg/mcpparse)\<close>

text \<open>A \<open>json.RawMessage\<close> is its text, empty when the field is absent.\<close>

record MCPRequest =
  mq_JSONRPC :: string
  mq_ID :: string
  mq_Method :: string
  mq_Params :: string

record ToolCallParams =
  ca_Name :: string
  ca_Arguments :: string

text \<open>
  The environment of the proxy: the store's world, cryptography and key parsing, the JSON decoding
  of a request, of its parameters and of a stored tool list, the decoding of one string field of an
  admin body, RFC 3339 formatting, and whether a trace line can be written.
\<close>

datatype body_field = Decoded string | DecodeEOF | DecodeFailed

record net =
  n_world :: world
  n_crypto :: crypto
  n_keys :: keylib
  n_request :: "string \<Rightarrow> gerr + MCPRequest"
  n_params :: "string \<Rightarrow> gerr + ToolCallParams"
  n_tools :: "string \<Rightarrow> gerr + string list"
  n_body_field :: "string \<Rightarrow> string \<Rightarrow> body_field"
  n_rfc3339 :: "int \<Rightarrow> string"
  n_trace_error :: "string \<Rightarrow> gerr option"

abbreviation n_lib :: "net \<Rightarrow> lib" where
  "n_lib N \<equiv> w_lib (n_world N)"

definition ParseRequest :: "net \<Rightarrow> string \<Rightarrow> gerr + MCPRequest" where
  "ParseRequest N body =
     (case n_request N body of
        Inl e \<Rightarrow> Inl (wrapf ''parsing MCP request'' e)
      | Inr r \<Rightarrow>
          (if mq_JSONRPC r \<noteq> ''2.0'' then
             Inl (errorf (''parsing MCP request: jsonrpc field must be '' @ [CHR 0x22] @ ''2.0'' @ [CHR 0x22]
               @ '', got '' @ qt (n_lib N) (mq_JSONRPC r)))
           else Inr r))"

definition IsTool :: "MCPRequest \<Rightarrow> bool" where
  "IsTool r = (mq_Method r = ''tools/call'')"

definition ParseToolCallParams :: "net \<Rightarrow> string \<Rightarrow> gerr + ToolCallParams" where
  "ParseToolCallParams N raw =
     (case n_params N raw of
        Inl e \<Rightarrow> Inl (wrapf ''parsing tool call params'' e)
      | Inr p \<Rightarrow>
          (if ca_Name p = [] then Inl (errorf ''parsing tool call params: name field is required'') else Inr p))"

definition isToolCall :: "net \<Rightarrow> string \<Rightarrow> bool" where
  "isToolCall N body =
     (if body = [] then False
      else case ParseRequest N body of Inl _ \<Rightarrow> False | Inr req \<Rightarrow> IsTool req)"

section \<open>Tracing headers (traceheaders.go)\<close>

definition tracingHeaders :: "string list" where
  "tracingHeaders =
     [''traceparent'', ''x-datadog-trace-id'', ''x-cloud-trace-context'', ''x-amzn-trace-id'', ''x-b3-traceid'']"

fun first_header :: "(string \<Rightarrow> string) \<Rightarrow> string list \<Rightarrow> string" where
  "first_header header [] = []"
| "first_header header (h # hs) = (if header h \<noteq> [] then h @ ''='' @ header h else first_header header hs)"

definition ExtractClientTraceID :: "(string \<Rightarrow> string) \<Rightarrow> string" where
  "ExtractClientTraceID header = first_header header tracingHeaders"

section \<open>Requests and replies\<close>

text \<open>\<open>rq_body\<close> is \<open>None\<close> for a nil body, otherwise what reading it yields.\<close>

record request =
  rq_path :: string
  rq_header :: "string \<Rightarrow> string"
  rq_body :: "(gerr + string) option"

text \<open>
  A JSON-RPC body embeds the raw request id; \<open>RpcError\<close> has a code, a message and a data object,
  \<open>RpcResult\<close> the text of the one content item.
\<close>

datatype http_body = JsonBody json | RpcError string int string json | RpcResult string string

datatype reply = Forwarded | Reply int http_body

definition raw_id :: "string \<Rightarrow> string" where
  "raw_id id' = (if id' = [] then ''null'' else id')"

definition error_body :: "string \<Rightarrow> string \<Rightarrow> http_body" where
  "error_body code message = JsonBody (J_obj [(''error'', J_str code), (''message'', J_str message)])"

definition writeUnauthorized :: "string \<Rightarrow> reply" where
  "writeUnauthorized message = Reply 401 (error_body ''unauthorized'' message)"

definition writeBadRequest :: "string \<Rightarrow> reply" where
  "writeBadRequest message = Reply 400 (error_body ''bad_request'' message)"

definition writeMissingSessionID :: reply where
  "writeMissingSessionID = Reply 400 (JsonBody (J_obj
     [(''error'', J_str ''missing_session_id''),
      (''message'', J_str ''X-TrueBearing-Session-ID header is required on all tools/call requests.''),
      (''code'', J_num 400)]))"

definition writeGone :: "string \<Rightarrow> reply" where
  "writeGone sessionID = Reply 410 (error_body ''session_terminated''
     (''Session '' @ sessionID @ '' has been terminated. All further tool calls are rejected.''))"

definition writeJSONRPCError :: "string \<Rightarrow> string \<Rightarrow> string \<Rightarrow> reply" where
  "writeJSONRPCError id' message ruleID =
     Reply 200 (RpcError (raw_id id') (- 32603) message
       (J_obj [(''rule_id'', J_str ruleID), (''decision'', J_str ''deny'')]))"

definition writeJSONRPCDeny :: "string \<Rightarrow> string \<Rightarrow> Decision \<Rightarrow> reply" where
  "writeJSONRPCDeny id' blockedTool decision =
     (let (code, prereqs, suggestion) =
        (case d_Feedback decision of
           None \<Rightarrow> ([], [], [])
         | Some fb \<Rightarrow> (fb_ReasonCode fb, fb_UnsatisfiedPrerequisites fb, fb_Suggestion fb))
      in Reply 200 (RpcError (raw_id id') (- 32000) (d_Reason decision)
           (J_obj ([(''blocked_tool'', J_str blockedTool), (''reason_code'', J_str code)]
             @ (if prereqs = [] then [] else [(''unsatisfied_prerequisites'', J_arr (map J_str prereqs))])
             @ [(''suggestion'', J_str suggestion)]))))"

definition writeJSONRPCEscalated :: "lib \<Rightarrow> string \<Rightarrow> string \<Rightarrow> reply" where
  "writeJSONRPCEscalated L id' escalationID =
     Reply 200 (RpcResult (raw_id id') (l_json_text L (json_map
       [(''status'', J_str ''escalated''),
        (''escalation_id'', J_str escalationID),
        (''message'', J_str ''This action requires human approval. Call check_escalation_status with this ID to poll for a decision.'')])))"

definition writeJSONRPCEscalationStatus :: "lib \<Rightarrow> string \<Rightarrow> string \<Rightarrow> string \<Rightarrow> reply" where
  "writeJSONRPCEscalationStatus L id' escalationID status =
     Reply 200 (RpcResult (raw_id id') (l_json_text L (json_map
       [(''escalation_id'', J_str escalationID), (''status'', J_str status)])))"

section \<open>The state of a proxy (proxy.go)\<close>

record TraceEntry =
  te_SessionID :: string
  te_AgentName :: string
  te_ToolName :: string
  te_Arguments :: string
  te_RequestedAt :: string

record span =
  sp_start :: int
  sp_attributes :: "(string \<times> string) list"
  sp_error :: "string option"

text \<open>Where a notification goes: a webhook, or the proxy's standard output.\<close>

datatype notification = Webhook string json | Stdout json

record proxy =
  px_db :: db
  px_signingKey :: "string option"
  px_tracing :: bool
  px_dbPath :: string
  px_adminPort :: int
  px_livePol :: Policy
  px_polCache :: policyLRU
  px_auditWriteFailures :: int
  px_auditStrict :: bool
  px_trace :: "TraceEntry list"
  px_spans :: "span list"
  px_notified :: "notification list"

text \<open>\<open>px_db\<close> is the opened database; the setters are the record's updates.\<close>

definition new_proxy :: "db \<Rightarrow> Policy \<Rightarrow> string \<Rightarrow> string option \<Rightarrow> proxy" where
  "new_proxy st pol dbPath signingKey =
     \<lparr>px_db = st, px_signingKey = signingKey, px_tracing = False, px_dbPath = dbPath, px_adminPort = 0,
      px_livePol = pol, px_polCache = snd (lru_set (newPolicyLRU lruCapacity) (p_Fingerprint pol) pol),
      px_auditWriteFailures = 0, px_auditStrict = False, px_trace = [], px_spans = [], px_notified = []\<rparr>"

definition SetTraceWriter :: "bool \<Rightarrow> proxy \<Rightarrow> proxy" where "SetTraceWriter tw p = p\<lparr>px_tracing := tw\<rparr>"
definition SetAdminPort :: "int \<Rightarrow> proxy \<Rightarrow> proxy" where "SetAdminPort port p = p\<lparr>px_adminPort := port\<rparr>"
definition SetAuditStrict :: "bool \<Rightarrow> proxy \<Rightarrow> proxy" where "SetAuditStrict strict p = p\<lparr>px_auditStrict := strict\<rparr>"

definition costPerToolCall :: float64 where
  "costPerToolCall = round64 (1 / 1000)"

section \<open>Policy versions\<close>

definition policyForFingerprint :: "string \<Rightarrow> proxy \<Rightarrow> Policy option \<times> proxy" where
  "policyForFingerprint fp p =
     (let (r, c) = lru_get (px_polCache p) fp in (r, p\<lparr>px_polCache := c\<rparr>))"

definition ReloadPolicy :: "lib \<Rightarrow> (string \<Rightarrow> gerr + string) \<Rightarrow> proxy \<Rightarrow> gerr option \<times> proxy" where
  "ReloadPolicy L fs p =
     (let sourcePath = p_SourcePath (px_livePol p) in
      if sourcePath = [] then (Some (errorf ''policy was not loaded from a file; hot-reload is not supported''), p)
      else
        (case ParseFile L fs sourcePath of
           Inl err \<Rightarrow> (Some (wrapf (''reloading policy from '' @ sourcePath) err), p)
         | Inr newPol \<Rightarrow>
             (case find (\<lambda>r. lr_Severity r = SeverityError) (Lint L newPol) of
                Some r \<Rightarrow> (Some (errorf (''reload rejected '' @ [CHR 0xE2, CHR 0x80, CHR 0x94] @ '' lint error in '' @ sourcePath @ '': ''
                             @ lr_Code r @ '' '' @ lr_Message r)), p)
              | None \<Rightarrow>
                  (let (evictedFP, c) = lru_set (px_polCache p) (p_Fingerprint newPol) newPol
                   in (None, p\<lparr>px_polCache := c, px_livePol := newPol\<rparr>)))))"

section \<open>Tool calls (handleMCP)\<close>

text \<open>\<open>writeTraceEntry\<close>: a line that cannot be written is logged and dropped.\<close>

definition WriteEntry :: "net \<Rightarrow> TraceEntry \<Rightarrow> gerr option" where
  "WriteEntry N e =
     map_option (wrapf (''writing trace entry for tool '' @ qt (n_lib N) (te_ToolName e))) (n_trace_error N (te_ToolName e))"

definition writeTraceEntry :: "net \<Rightarrow> TraceEntry \<Rightarrow> proxy \<Rightarrow> proxy" where
  "writeTraceEntry N e p =
     (if \<not> px_tracing p then p
      else case WriteEntry N e of Some _ \<Rightarrow> p | None \<Rightarrow> p\<lparr>px_trace := px_trace p @ [e]\<rparr>)"

text \<open>The virtual tool \<open>check_escalation_status\<close>.\<close>

definition escalation_status :: "net \<Rightarrow> MCPRequest \<Rightarrow> ToolCallParams \<Rightarrow> proxy \<Rightarrow> proxy \<times> reply" where
  "escalation_status N mcpReq params p =
     (let escID = (case l_gjson (n_lib N) (ca_Arguments params) ''escalation_id'' of
                     None \<Rightarrow> [] | Some g \<Rightarrow> g_String g)
      in if escID = [] then
           (p, writeJSONRPCError (mq_ID mcpReq) ''check_escalation_status requires an escalation_id argument''
                 ''virtual_tool_error'')
         else
           (case esc_GetStatus (n_world N) escID (px_db p) of
              (Inl err, d) \<Rightarrow>
                (p\<lparr>px_db := d\<rparr>, writeJSONRPCError (mq_ID mcpReq) ''escalation not found'' ''escalation_not_found'')
            | (Inr status, d) \<Rightarrow>
                (p\<lparr>px_db := d\<rparr>, writeJSONRPCEscalationStatus (n_lib N) (mq_ID mcpReq) escID status)))"

text \<open>Load the session, or create it bound to the live policy.\<close>

definition load_session :: "net \<Rightarrow> string \<Rightarrow> AgentClaims \<Rightarrow> proxy \<Rightarrow> (reply + Session) \<times> proxy" where
  "load_session N sessionID claims p =
     (case GetSession (n_world N) sessionID (px_db p) of
        (Inr sess, d) \<Rightarrow> (Inr sess, p\<lparr>px_db := d\<rparr>)
      | (Inl err, d) \<Rightarrow>
          (if \<not> errors_Is err SqlErrNoRows then (Inl (writeBadRequest ''session lookup failed''), p\<lparr>px_db := d\<rparr>)
           else
             (let livePol = px_livePol p in
              case CreateSession (n_world N) sessionID (cl_AgentName claims) (p_Fingerprint livePol) d of
                (Inl createErr, d) \<Rightarrow> (Inl (writeBadRequest ''session creation failed''), p\<lparr>px_db := d\<rparr>)
              | (Inr _, d) \<Rightarrow>
                  (Inr \<lparr>s_ID = sessionID, s_AgentName = cl_AgentName claims, s_PolicyFingerprint = p_Fingerprint livePol,
                        s_Tainted = False, s_ToolCallCount = 0, s_EstimatedCostUSD = Fin 0, s_Terminated = False\<rparr>,
                   p\<lparr>px_db := d\<rparr>))))"

text \<open>The policy version the session is bound to, or the live one when that version is not cached.\<close>

definition session_policy :: "Session \<Rightarrow> proxy \<Rightarrow> Policy \<times> proxy" where
  "session_policy sess p =
     (case policyForFingerprint (s_PolicyFingerprint sess) p of
        (Some pol, p') \<Rightarrow> (pol, p')
      | (None, p') \<Rightarrow> (px_livePol p', p'))"

text \<open>Run the pipeline over the store; only the session in memory changes.\<close>

definition decide :: "net \<Rightarrow> ToolCall \<Rightarrow> Session \<Rightarrow> Policy \<Rightarrow> proxy \<Rightarrow> (Decision \<times> Session) \<times> proxy" where
  "decide N call sess pol p =
     (let W = n_world N; d = px_db p in
      (Evaluate (full_stages (w_lib W) (store_backend W (n_tools N) d) (now_at W d)) call sess pol,
       p\<lparr>px_db := later pipeline_ticks d\<rparr>))"

definition right_arrow :: string where
  "right_arrow = [CHR 0xE2, CHR 0x86, CHR 0x92]"

definition buildDelegationChain :: "string \<Rightarrow> string \<Rightarrow> string" where
  "buildDelegationChain parentAgent agentName =
     (if parentAgent = [] then [] else parentAgent @ '' '' @ right_arrow @ '' '' @ agentName)"

text \<open>The record of one decision, before it is signed.\<close>

definition audit_record ::
    "net \<Rightarrow> request \<Rightarrow> string \<Rightarrow> string \<Rightarrow> string \<Rightarrow> string \<Rightarrow> string \<Rightarrow> nat \<Rightarrow> Decision \<Rightarrow> string \<Rightarrow> db \<Rightarrow> AuditRecord" where
  "audit_record N r sessionID agentName parentAgent toolName arguments seq decision policyFingerprint d =
     (let W = n_world N; sha = l_sha256_hex (w_lib W);
          rawJWT = (case bearerToken (rq_header r) of Inl _ \<Rightarrow> [] | Inr t \<Rightarrow> t)
      in \<lparr>r_ID = w_uuid W (db_tick d), r_SessionID = sessionID, r_Seq = seq, r_AgentName = agentName,
          r_ToolName = toolName, r_ArgumentsSHA256 = sha arguments, r_Decision = action_str (d_Action decision),
          r_DecisionReason = d_Reason decision, r_PolicyFingerprint = policyFingerprint,
          r_AgentJWTSHA256 = sha rawJWT, r_ClientTraceID = ExtractClientTraceID (rq_header r),
          r_DelegationChain = buildDelegationChain parentAgent agentName, r_RecordedAt = now_at W d,
          r_Signature = []\<rparr>)"

text \<open>The result says whether the database write failed.\<close>

definition writeAuditRecord ::
    "net \<Rightarrow> request \<Rightarrow> string \<Rightarrow> string \<Rightarrow> string \<Rightarrow> string \<Rightarrow> string \<Rightarrow> nat \<Rightarrow> Decision \<Rightarrow> string \<Rightarrow> proxy \<Rightarrow> bool \<times> proxy" where
  "writeAuditRecord N r sessionID agentName parentAgent toolName arguments seq decision policyFingerprint p =
     (case px_signingKey p of
        None \<Rightarrow> (False, p)
      | Some key \<Rightarrow>
          (case Sign (n_lib N) (n_crypto N)
                  (audit_record N r sessionID agentName parentAgent toolName arguments seq decision policyFingerprint (px_db p)) key of
             Inl signErr \<Rightarrow> (False, p)
           | Inr rec \<Rightarrow>
               (case audit_Write (n_world N) rec (px_db p) of
                  (Inl writeErr, d) \<Rightarrow> (True, p\<lparr>px_db := d, px_auditWriteFailures := px_auditWriteFailures p + 1\<rparr>)
                | (Inr _, d) \<Rightarrow> (False, p\<lparr>px_db := d\<rparr>))))"

definition emitDecisionSpan ::
    "int \<Rightarrow> string \<Rightarrow> string \<Rightarrow> string \<Rightarrow> Decision \<Rightarrow> string \<Rightarrow> string \<Rightarrow> proxy \<Rightarrow> proxy" where
  "emitDecisionSpan start sessionID agentName toolName decision policyFingerprint clientTraceID p =
     p\<lparr>px_spans := px_spans p @
        [\<lparr>sp_start = start,
          sp_attributes =
            [(''truebearing.session_id'', sessionID), (''truebearing.agent_name'', agentName),
             (''truebearing.tool_name'', toolName), (''truebearing.decision'', action_str (d_Action decision)),
             (''truebearing.rule_id'', d_RuleID decision), (''truebearing.policy_fingerprint'', policyFingerprint),
             (''truebearing.client_trace_id'', clientTraceID)],
          sp_error = (if d_Action decision = Deny \<or> d_Action decision = ShadowDeny
                      then Some (d_Reason decision) else None)\<rparr>]\<rparr>"

text \<open>Notifications (notify.go). The tags \<open>omitempty\<close> leave the URLs out when there is no admin server.\<close>

record NotifyConfig =
  nc_WebhookURL :: string
  nc_AdminPort :: int

record notifyPayload =
  np_Event :: string
  np_EscalationID :: string
  np_SessionID :: string
  np_Tool :: string
  np_Reason :: string
  np_ApproveCmd :: string
  np_RejectCmd :: string
  np_ApproveURL :: string
  np_RejectURL :: string

definition omitempty :: "string \<Rightarrow> string \<Rightarrow> (string \<times> json) list" where
  "omitempty key v = (if v = [] then [] else [(key, J_str v)])"

definition payload_json :: "notifyPayload \<Rightarrow> json" where
  "payload_json p = J_obj
     ([(''event'', J_str (np_Event p)), (''escalation_id'', J_str (np_EscalationID p)), (''session_id'', J_str (np_SessionID p)),
       (''tool'', J_str (np_Tool p)), (''reason'', J_str (np_Reason p)), (''approve_cmd'', J_str (np_ApproveCmd p)),
       (''reject_cmd'', J_str (np_RejectCmd p))]
      @ omitempty ''approve_url'' (np_ApproveURL p) @ omitempty ''reject_url'' (np_RejectURL p))"

definition Notify :: "Escalation \<Rightarrow> string \<Rightarrow> NotifyConfig option \<Rightarrow> notification" where
  "Notify esc reason cfg =
     (let id' = es_ID esc;
          p = \<lparr>np_Event = ''escalation.created'', np_EscalationID = id', np_SessionID = es_SessionID esc, np_Tool = es_ToolName esc,
               np_Reason = reason, np_ApproveCmd = ''truebearing escalation approve '' @ id',
               np_RejectCmd = ''truebearing escalation reject '' @ id' @ '' --reason '' @ [CHR 0x22] @ ''...'' @ [CHR 0x22],
               np_ApproveURL = [], np_RejectURL = []\<rparr>;
          url = (\<lambda>port verb. ''http://localhost:'' @ dec port @ ''/admin/escalations/'' @ id' @ ''/'' @ verb);
          p = (case cfg of
                 None \<Rightarrow> p
               | Some c \<Rightarrow> (if nc_AdminPort c \<noteq> 0
                   then p\<lparr>np_ApproveURL := url (nc_AdminPort c) ''approve'', np_RejectURL := url (nc_AdminPort c) ''reject''\<rparr> else p));
          body = payload_json p
      in case cfg of
           None \<Rightarrow> Stdout body
         | Some c \<Rightarrow> (if nc_WebhookURL c \<noteq> [] then Webhook (nc_WebhookURL c) body else Stdout body))"

definition webhook_of :: "Policy \<Rightarrow> string" where
  "webhook_of pol = (case p_Escalation pol of None \<Rightarrow> [] | Some e \<Rightarrow> ec_WebhookURL e)"

text \<open>Raise an escalation: the record first, then the notification.\<close>

definition escalate :: "net \<Rightarrow> MCPRequest \<Rightarrow> ToolCallParams \<Rightarrow> string \<Rightarrow> nat \<Rightarrow> Decision \<Rightarrow> Policy \<Rightarrow> proxy \<Rightarrow> proxy \<times> reply" where
  "escalate N mcpReq params sessionID seq decision sessionPol p =
     (let escID = w_uuid (n_world N) (db_tick (px_db p));
          esc = \<lparr>es_ID = escID, es_SessionID = sessionID, es_Seq = seq, es_ToolName = ca_Name params,
                 es_ArgumentsJSON = ca_Arguments params, es_Status = ''pending'', es_Reason = [],
                 es_CreatedAt = 0, es_ResolvedAt = 0\<rparr>
      in case CreateEscalation (n_world N) esc (px_db p) of
           (Inl escErr, d) \<Rightarrow>
             (p\<lparr>px_db := d\<rparr>, writeJSONRPCError (mq_ID mcpReq) ''escalation could not be recorded'' ''internal_error'')
         | (Inr _, d) \<Rightarrow>
             (p\<lparr>px_db := d,
                px_notified := px_notified p @ [Notify esc (d_Reason decision)
                  (Some \<lparr>nc_WebhookURL = webhook_of sessionPol, nc_AdminPort = px_adminPort p\<rparr>)]\<rparr>,
              writeJSONRPCEscalated (n_lib N) (mq_ID mcpReq) escID))"

text \<open>Act on the decision.\<close>

definition enforce ::
    "net \<Rightarrow> MCPRequest \<Rightarrow> ToolCallParams \<Rightarrow> string \<Rightarrow> nat \<Rightarrow> Decision \<Rightarrow> Policy \<Rightarrow> bool \<Rightarrow> proxy \<Rightarrow> proxy \<times> reply" where
  "enforce N mcpReq params sessionID seq decision sessionPol auditFailed p =
     (case d_Action decision of
        Deny \<Rightarrow> (p, writeJSONRPCDeny (mq_ID mcpReq) (ca_Name params) decision)
      | Escalate \<Rightarrow> escalate N mcpReq params sessionID seq decision sessionPol p
      | _ \<Rightarrow>
          (if auditFailed \<and> px_auditStrict p then
             (p, writeJSONRPCError (mq_ID mcpReq)
                   ''audit record could not be written; request denied by audit-strict mode'' ''audit_write_failure'')
           else
             (p\<lparr>px_db := snd (IncrementSessionCounters (n_world N) sessionID costPerToolCall (px_db p))\<rparr>, Forwarded)))"

text \<open>Persist a taint change; \<open>Inl\<close> is the reply of a failure.\<close>

definition persist_taint :: "net \<Rightarrow> string \<Rightarrow> bool \<Rightarrow> Session \<Rightarrow> proxy \<Rightarrow> reply option \<times> proxy" where
  "persist_taint N sessionID taintBefore sess p =
     (if s_Tainted sess \<noteq> taintBefore then
        (case UpdateSessionTaint (n_world N) sessionID (s_Tainted sess) (px_db p) of
           (Inl taintErr, d) \<Rightarrow> (Some (writeBadRequest ''session state update failed''), p\<lparr>px_db := d\<rparr>)
         | (Inr _, d) \<Rightarrow> (None, p\<lparr>px_db := d\<rparr>))
      else (None, p))"

text \<open>Record the decision, then enforce it.\<close>

definition record_and_enforce ::
    "net \<Rightarrow> request \<Rightarrow> MCPRequest \<Rightarrow> ToolCallParams \<Rightarrow> ToolCall \<Rightarrow> bool \<Rightarrow> Decision \<Rightarrow> Session \<Rightarrow> Policy \<Rightarrow> proxy \<Rightarrow> proxy \<times> reply" where
  "record_and_enforce N r mcpReq params call taintBefore decision sess sessionPol p =
     (let sessionID = tc_SessionID call;
          event = \<lparr>e_Seq = 0, e_SessionID = sessionID, e_ToolName = ca_Name params, e_ArgumentsJSON = ca_Arguments params,
                   e_Decision = action_str (d_Action decision), e_PolicyRule = d_RuleID decision, e_RecordedAt = 0\<rparr>
      in case AppendEvent (n_world N) event (px_db p) of
           (Inl appendErr, d) \<Rightarrow> (p\<lparr>px_db := d\<rparr>, writeBadRequest ''session recording failed'')
         | (Inr event, d) \<Rightarrow>
             (let (auditFailed, p1) = writeAuditRecord N r sessionID (tc_AgentName call) (tc_ParentAgent call)
                    (ca_Name params) (ca_Arguments params) (e_Seq event) decision (p_Fingerprint sessionPol) (p\<lparr>px_db := d\<rparr>);
                  start = (case tc_RequestedAt call of None \<Rightarrow> 0 | Some t \<Rightarrow> t);
                  p2 = emitDecisionSpan start sessionID (tc_AgentName call) (ca_Name params) decision
                    (p_Fingerprint sessionPol) (ExtractClientTraceID (rq_header r)) p1
              in case persist_taint N sessionID taintBefore sess p2 of
                   (Some failure, p3) \<Rightarrow> (p3, failure)
                 | (None, p3) \<Rightarrow> enforce N mcpReq params sessionID (e_Seq event) decision sessionPol auditFailed p3))"

definition engine_call :: "AgentClaims \<Rightarrow> string \<Rightarrow> ToolCallParams \<Rightarrow> int \<Rightarrow> ToolCall" where
  "engine_call claims sessionID params requestedAt =
     \<lparr>tc_SessionID = sessionID, tc_AgentName = cl_AgentName claims, tc_ToolName = ca_Name params,
      tc_Arguments = ca_Arguments params, tc_AgentEnv = cl_Env claims, tc_ParentAgent = cl_ParentAgent claims,
      tc_RequestedAt = Some requestedAt\<rparr>"

text \<open>A tool call up to its decision: \<open>Inl\<close> is an early reply.\<close>

definition evaluate_call ::
    "net \<Rightarrow> AgentClaims \<Rightarrow> string \<Rightarrow> ToolCallParams \<Rightarrow> proxy
     \<Rightarrow> (reply + ToolCall \<times> bool \<times> Decision \<times> Session \<times> Policy) \<times> proxy" where
  "evaluate_call N claims sessionID params p =
     (let requestedAt = now_at (n_world N) (px_db p);
          p0 = writeTraceEntry N \<lparr>te_SessionID = sessionID, te_AgentName = cl_AgentName claims,
                 te_ToolName = ca_Name params, te_Arguments = ca_Arguments params,
                 te_RequestedAt = n_rfc3339 N requestedAt\<rparr> p
      in case load_session N sessionID claims p0 of
           (Inl failure, p1) \<Rightarrow> (Inl failure, p1)
         | (Inr sess, p1) \<Rightarrow>
             (let (sessionPol, p2) = session_policy sess p1 in
              if s_Terminated sess then (Inl (writeGone sessionID), p2)
              else
                (let call = engine_call claims sessionID params requestedAt;
                     ((decision, sess'), p3) = decide N call sess sessionPol p2
                 in (Inr (call, s_Tainted sess, decision, sess', sessionPol), p3))))"

definition handle_tool_call ::
    "net \<Rightarrow> request \<Rightarrow> AgentClaims \<Rightarrow> string \<Rightarrow> MCPRequest \<Rightarrow> ToolCallParams \<Rightarrow> proxy \<Rightarrow> proxy \<times> reply" where
  "handle_tool_call N r claims sessionID mcpReq params p =
     (case evaluate_call N claims sessionID params p of
        (Inl failure, p') \<Rightarrow> (p', failure)
      | (Inr (call, taintBefore, decision, sess, sessionPol), p') \<Rightarrow>
          record_and_enforce N r mcpReq params call taintBefore decision sess sessionPol p')"

text \<open>\<open>sessionID\<close> is what \<open>SessionMiddleware\<close> left in the context, empty if nothing.\<close>

definition handleMCP :: "net \<Rightarrow> request \<Rightarrow> AgentClaims \<Rightarrow> string \<Rightarrow> proxy \<Rightarrow> proxy \<times> reply" where
  "handleMCP N r claims sessionID p =
     (case rq_body r of
        Some (Inl _) \<Rightarrow> (p, writeBadRequest ''could not read request body'')
      | b \<Rightarrow>
          (let body = (case b of Some (Inr x) \<Rightarrow> x | _ \<Rightarrow> []) in
           if \<not> isToolCall N body then (p, Forwarded)
           else
             (case ParseRequest N body of
                Inl _ \<Rightarrow> (p, writeBadRequest ''malformed MCP request'')
              | Inr mcpReq \<Rightarrow>
                  (case ParseToolCallParams N (mq_Params mcpReq) of
                     Inl _ \<Rightarrow> (p, writeBadRequest ''malformed tool call params'')
                   | Inr params \<Rightarrow>
                       (if ca_Name params = ''check_escalation_status'' then escalation_status N mcpReq params p
                        else handle_tool_call N r claims sessionID mcpReq params p)))))"

section \<open>Middleware and routing\<close>

definition SessionMiddleware :: "net \<Rightarrow> request \<Rightarrow> AgentClaims \<Rightarrow> proxy \<Rightarrow> proxy \<times> reply" where
  "SessionMiddleware N r claims p =
     (case rq_body r of
        Some (Inl _) \<Rightarrow> (p, writeBadRequest ''could not read request body'')
      | b \<Rightarrow>
          (let body = (case b of Some (Inr x) \<Rightarrow> x | _ \<Rightarrow> []) in
           if isToolCall N body then
             (let sessionID = rq_header r ''X-TrueBearing-Session-ID'' in
              if sessionID = [] then (p, writeMissingSessionID) else handleMCP N r claims sessionID p)
           else handleMCP N r claims [] p))"

definition AuthMiddleware :: "net \<Rightarrow> request \<Rightarrow> proxy \<Rightarrow> proxy \<times> reply" where
  "AuthMiddleware N r p =
     (case authenticate (n_world N) (n_keys N) (rq_header r) (px_db p) of
        (Inl m, d) \<Rightarrow> (p\<lparr>px_db := d\<rparr>, writeUnauthorized m)
      | (Inr claims, d) \<Rightarrow> SessionMiddleware N r claims (p\<lparr>px_db := d\<rparr>))"

end
