(* ===== verification/TB_Admin.thy ===== *)
theory TB_Admin
  imports TB_Proxy
begin

text \<open>
  The rest of the proxy's HTTP surface: \<open>GET /health\<close> (\<open>health.go\<close>), the route table of
  \<open>Handler\<close>, and the admin API (\<open>admin.go\<close>) through which escalations are resolved. The stdlib
  multiplexer hands an admin handler the \<open>status\<close> query value or the \<open>{id}\<close> of the path.
\<close>

section \<open>Health (health.go)\<close>

definition proxyVersion :: string where
  "proxyVersion = ''0.1.0''"

record healthResponse =
  hr_Status :: string
  hr_PolicyFingerprint :: string
  hr_PolicyFile :: string
  hr_ProxyVersion :: string
  hr_DBPath :: string
  hr_Reason :: string
  hr_AuditDegraded :: bool

definition json_health :: "healthResponse \<Rightarrow> http_body" where
  "json_health h = JsonBody (J_obj ([(''status'', J_str (hr_Status h))]
     @ omitempty ''policy_fingerprint'' (hr_PolicyFingerprint h) @ omitempty ''policy_file'' (hr_PolicyFile h)
     @ omitempty ''proxy_version'' (hr_ProxyVersion h) @ omitempty ''db_path'' (hr_DBPath h)
     @ omitempty ''reason'' (hr_Reason h)
     @ (if hr_AuditDegraded h then [(''audit_degraded'', J_bool True)] else [])))"

definition writeHealthDegraded :: "string \<Rightarrow> reply" where
  "writeHealthDegraded reason =
     Reply 503 (json_health \<lparr>hr_Status = ''degraded'', hr_PolicyFingerprint = [], hr_PolicyFile = [], hr_ProxyVersion = [],
        hr_DBPath = [], hr_Reason = reason, hr_AuditDegraded = False\<rparr>)"

definition store_Ping :: "world \<Rightarrow> db \<Rightarrow> gerr option \<times> db" where
  "store_Ping W d = (w_fault W (db_tick d), tick d)"

text \<open>\<open>stat\<close> says which paths \<open>os.Stat\<close> finds.\<close>

definition handleHealth :: "net \<Rightarrow> (string \<Rightarrow> bool) \<Rightarrow> proxy \<Rightarrow> proxy \<times> reply" where
  "handleHealth N stat p =
     (let pol = px_livePol p in
      if p_SourcePath pol \<noteq> [] \<and> \<not> stat (p_SourcePath pol) then (p, writeHealthDegraded ''policy file unreadable'')
      else
        (case store_Ping (n_world N) (px_db p) of
           (Some err, d) \<Rightarrow> (p\<lparr>px_db := d\<rparr>, writeHealthDegraded ''database unreachable'')
         | (None, d) \<Rightarrow>
             (p\<lparr>px_db := d\<rparr>,
              Reply 200 (json_health \<lparr>hr_Status = ''ok'', hr_PolicyFingerprint = ShortFingerprint pol,
                hr_PolicyFile = p_SourcePath pol, hr_ProxyVersion = proxyVersion, hr_DBPath = px_dbPath p, hr_Reason = [],
                hr_AuditDegraded = px_auditWriteFailures p > 0\<rparr>))))"

text \<open>\<open>Handler\<close>: \<open>/health\<close> bypasses authentication, everything else goes through it.\<close>

definition serve :: "net \<Rightarrow> (string \<Rightarrow> bool) \<Rightarrow> request \<Rightarrow> proxy \<Rightarrow> proxy \<times> reply" where
  "serve N stat r p = (if rq_path r = ''/health'' then handleHealth N stat p else AuthMiddleware N r p)"

section \<open>The admin API (admin.go)\<close>

fun status_text :: "int \<Rightarrow> string" where
  "status_text code =
     (if code = 400 then ''Bad Request'' else if code = 404 then ''Not Found'' else if code = 409 then ''Conflict''
      else if code = 500 then ''Internal Server Error'' else [])"

definition writeAdminError :: "int \<Rightarrow> string \<Rightarrow> reply" where
  "writeAdminError code message = Reply code (error_body (status_text code) message)"

definition writeAdminEscalationError :: "string \<Rightarrow> gerr \<Rightarrow> reply" where
  "writeAdminEscalationError action err =
     (if errors_Is err SqlErrNoRows then writeAdminError 404 ''escalation not found''
      else if sublist ''cannot be resolved'' (err_text err) then writeAdminError 409 (err_text err)
      else writeAdminError 500 (''could not '' @ action @ '' escalation''))"

definition omit_zero :: "string \<Rightarrow> int \<Rightarrow> (string \<times> json) list" where
  "omit_zero key v = (if v = 0 then [] else [(key, J_num (of_int v))])"

definition adminEscalation :: "Escalation \<Rightarrow> json" where
  "adminEscalation e = J_obj
     ([(''id'', J_str (es_ID e)), (''session_id'', J_str (es_SessionID e)), (''seq'', J_num (of_nat (es_Seq e))),
       (''tool_name'', J_str (es_ToolName e))]
      @ omitempty ''arguments_json'' (es_ArgumentsJSON e) @ [(''status'', J_str (es_Status e))]
      @ omitempty ''reason'' (es_Reason e) @ [(''created_at'', J_num (of_int (es_CreatedAt e)))]
      @ omit_zero ''resolved_at'' (es_ResolvedAt e))"

definition handleAdminListEscalations :: "net \<Rightarrow> string \<Rightarrow> proxy \<Rightarrow> proxy \<times> reply" where
  "handleAdminListEscalations N status p =
     (if status \<notin> {[], ''pending'', ''approved'', ''rejected''} then
        (p, writeAdminError 400 ''status must be pending, approved, or rejected'')
      else
        (case ListEscalations (n_world N) status (px_db p) of
           (Inl err, d) \<Rightarrow> (p\<lparr>px_db := d\<rparr>, writeAdminError 500 ''could not list escalations'')
         | (Inr escs, d) \<Rightarrow> (p\<lparr>px_db := d\<rparr>, Reply 200 (JsonBody (J_arr (map adminEscalation escs))))))"

definition resolved_body :: "string \<Rightarrow> string \<Rightarrow> reply" where
  "resolved_body id' status = Reply 200 (JsonBody (J_obj [(''escalation_id'', J_str id'), (''status'', J_str status)]))"

definition handleAdminApproveEscalation :: "net \<Rightarrow> string \<Rightarrow> string \<Rightarrow> proxy \<Rightarrow> proxy \<times> reply" where
  "handleAdminApproveEscalation N id' body p =
     (case n_body_field N ''note'' body of
        DecodeFailed \<Rightarrow> (p, writeAdminError 400 ''invalid JSON body'')
      | f \<Rightarrow>
          (let note = (case f of Decoded s \<Rightarrow> s | _ \<Rightarrow> []) in
           case esc_Approve (n_world N) id' note (px_db p) of
             (Inl err, d) \<Rightarrow> (p\<lparr>px_db := d\<rparr>, writeAdminEscalationError ''approve'' err)
           | (Inr _, d) \<Rightarrow> (p\<lparr>px_db := d\<rparr>, resolved_body id' ''approved'')))"

definition handleAdminRejectEscalation :: "net \<Rightarrow> string \<Rightarrow> string \<Rightarrow> proxy \<Rightarrow> proxy \<times> reply" where
  "handleAdminRejectEscalation N id' body p =
     (case n_body_field N ''reason'' body of
        DecodeFailed \<Rightarrow> (p, writeAdminError 400 ''invalid JSON body'')
      | f \<Rightarrow>
          (let reason = (case f of Decoded s \<Rightarrow> s | _ \<Rightarrow> []) in
           case esc_Reject (n_world N) id' reason (px_db p) of
             (Inl err, d) \<Rightarrow> (p\<lparr>px_db := d\<rparr>, writeAdminEscalationError ''reject'' err)
           | (Inr _, d) \<Rightarrow> (p\<lparr>px_db := d\<rparr>, resolved_body id' ''rejected'')))"

section \<open>What happens to a running proxy\<close>

text \<open>
  A request on the MCP port, a SIGHUP reload, an admin request, or a store operation of another
  process (the command line works on the same database file).
\<close>

datatype input =
  Request request
| Reload
| AdminList string
| AdminApprove string string
| AdminReject string string

text \<open>\<open>fs\<close> is \<open>os.ReadFile\<close>; a file \<open>os.Stat\<close> finds is one it can open.\<close>

fun px_step :: "net \<Rightarrow> (string \<Rightarrow> gerr + string) \<Rightarrow> input \<Rightarrow> proxy \<Rightarrow> proxy" where
  "px_step N fs (Request r) p = fst (serve N (\<lambda>f. \<exists>s. fs f = Inr s) r p)"
| "px_step N fs Reload p = snd (ReloadPolicy (n_lib N) fs p)"
| "px_step N fs (AdminList s) p = fst (handleAdminListEscalations N s p)"
| "px_step N fs (AdminApprove i b) p = fst (handleAdminApproveEscalation N i b p)"
| "px_step N fs (AdminReject i b) p = fst (handleAdminRejectEscalation N i b p)"

inductive px_run :: "net \<Rightarrow> proxy \<Rightarrow> proxy \<Rightarrow> bool" for N where
  start: "px_run N p p"
| step: "px_run N p q \<Longrightarrow> px_run N p (px_step N fs i q)"
| other_process: "px_run N p q \<Longrightarrow> store_call (n_world N) (px_db q) d \<Longrightarrow> px_run N p (q\<lparr>px_db := d\<rparr>)"

end
