(* ===== verification/TB_ProxyFacts.thy ===== *)
theory TB_ProxyFacts
  imports TB_Admin
begin

text \<open>
  What the proxy guarantees. Every handler step has table-level effects only (\<open>effects\<close>), so the
  store's invariants hold of a running proxy; a tool call is described by the session and the policy
  version it is evaluated under (\<open>session_at\<close>, \<open>policy_for\<close>) and by the views of the database the
  pipeline reads; and what is forwarded, recorded and answered follows from that description.
\<close>

section \<open>What a call is evaluated under\<close>

definition fresh_session :: "string \<Rightarrow> AgentClaims \<Rightarrow> Policy \<Rightarrow> Session" where
  "fresh_session sid claims pol =
     \<lparr>s_ID = sid, s_AgentName = cl_AgentName claims, s_PolicyFingerprint = p_Fingerprint pol, s_Tainted = False,
      s_ToolCallCount = 0, s_EstimatedCostUSD = Fin 0, s_Terminated = False\<rparr>"

definition session_at :: "proxy \<Rightarrow> string \<Rightarrow> AgentClaims \<Rightarrow> Session" where
  "session_at p sid claims =
     (case find_session (px_db p) sid of
        Some row \<Rightarrow> session_of_row row
      | None \<Rightarrow> fresh_session sid claims (px_livePol p))"

definition policy_for :: "proxy \<Rightarrow> Session \<Rightarrow> Policy" where
  "policy_for p sess =
     (case lru_look (px_polCache p) (s_PolicyFingerprint sess) of Some pol \<Rightarrow> pol | None \<Rightarrow> px_livePol p)"

text \<open>The parts of the database the pipeline reads.\<close>

definition same_views :: "db \<Rightarrow> db \<Rightarrow> bool" where
  "same_views d d' \<longleftrightarrow> db_events d' = db_events d \<and> db_escalations d' = db_escalations d \<and> db_agents d' = db_agents d"

lemma same_viewsI: "same_tables d d' \<Longrightarrow> same_views d d'"
  by (simp add: same_views_def same_tables_sel)

lemma same_views_refl [simp]: "same_views d d"
  by (simp add: same_views_def)

lemma same_views_trans: "same_views a b \<Longrightarrow> same_views b c \<Longrightarrow> same_views a c"
  by (simp add: same_views_def)

lemma views_eq:
  assumes "same_views d d'"
  shows "store_hist d' = store_hist d" "store_approvals L d' = store_approvals L d" "store_scope jt d' = store_scope jt d"
  using assms
  by (auto simp: same_views_def fun_eq_iff store_hist_def session_rows_def store_approvals_def store_scope_def find_agent_def)

section \<open>Effects of the pieces\<close>

lemma effects_same: "same_tables d d' \<Longrightarrow> effects d d'"
  by (rule effects_single) (auto intro: effect_then_same [OF effect_refl])

lemma same_tables_later [simp]: "same_tables d (later k d)"
  by (auto simp: same_tables_def later_def)

lemma same_tables_authenticate: "same_tables d (snd (authenticate W K h d))"
  using authenticate_tables by (simp add: same_tables_def)

text \<open>The parts of a proxy no request changes.\<close>

definition same_config :: "proxy \<Rightarrow> proxy \<Rightarrow> bool" where
  "same_config p p' \<longleftrightarrow> px_livePol p' = px_livePol p \<and> px_signingKey p' = px_signingKey p
     \<and> px_auditStrict p' = px_auditStrict p \<and> px_tracing p' = px_tracing p \<and> px_dbPath p' = px_dbPath p
     \<and> px_adminPort p' = px_adminPort p"

lemma same_config_refl [simp]: "same_config p p"
  by (simp add: same_config_def)

lemma same_config_trans: "same_config p q \<Longrightarrow> same_config q r \<Longrightarrow> same_config p r"
  by (simp add: same_config_def)

lemma same_config_db [simp]: "same_config p (p'\<lparr>px_db := d\<rparr>) = same_config p p'"
  by (simp add: same_config_def)

lemma only_db:
  assumes "p' = p\<lparr>px_db := d\<rparr>"
  shows "same_config p p'" "px_polCache p' = px_polCache p" "px_livePol p' = px_livePol p"
  using assms by (simp_all add: same_config_def)

lemma writeTraceEntry_sel [simp]:
  "px_db (writeTraceEntry N e p) = px_db p" "px_livePol (writeTraceEntry N e p) = px_livePol p"
  "px_polCache (writeTraceEntry N e p) = px_polCache p" "px_signingKey (writeTraceEntry N e p) = px_signingKey p"
  "px_auditStrict (writeTraceEntry N e p) = px_auditStrict p" "same_config p (writeTraceEntry N e p)"
  by (simp_all add: writeTraceEntry_def same_config_def split: option.split)

lemma CreateSession_cases:
  assumes "CreateSession W sid agent fp d = (res, d')"
  obtains (failed) e where "res = Inl e" "same_tables d d'"
  | (created) row where "res = Inr ()" "sid \<notin> sr_ID ` set (db_sessions d)"
      "same_tables (d\<lparr>db_sessions := db_sessions d @ [row]\<rparr>) d'"
      "row = \<lparr>sr_ID = sid, sr_AgentName = agent, sr_PolicyFingerprint = fp, sr_Tainted = False, sr_ToolCallCount = 0,
         sr_EstimatedCostUSD = Fin 0, sr_Terminated = False, sr_CreatedAt = now_at W d, sr_LastSeenAt = now_at W d\<rparr>"
proof (cases "w_fault W (db_tick d)")
  case (Some e)
  with assms failed show ?thesis by (auto simp: CreateSession_def db_bind_def db_exec_def Let_def)
next
  case None
  show ?thesis
  proof (cases "sid \<in> sr_ID ` set (db_sessions d)")
    case True
    with None assms failed show ?thesis
      by (auto simp: CreateSession_def db_bind_def db_exec_def insert_session_def Let_def)
  next
    case False
    let ?row = "\<lparr>sr_ID = sid, sr_AgentName = agent, sr_PolicyFingerprint = fp, sr_Tainted = False, sr_ToolCallCount = 0,
         sr_EstimatedCostUSD = Fin 0, sr_Terminated = False, sr_CreatedAt = now_at W d, sr_LastSeenAt = now_at W d\<rparr>"
    from False None assms have "res = Inr ()" "d' = tick (d\<lparr>db_sessions := db_sessions d @ [?row]\<rparr>)"
      by (simp_all add: CreateSession_def db_bind_def db_exec_def insert_session_def Let_def)
    with False show ?thesis by (intro created [of ?row]) simp_all
  qed
qed

lemma find_snoc: "find P (xs @ [x]) = (case find P xs of Some y \<Rightarrow> Some y | None \<Rightarrow> if P x then Some x else None)"
  by (induction xs) auto

lemma find_session_None: "find_session d sid = None \<longleftrightarrow> sid \<notin> sr_ID ` set (db_sessions d)"
  by (auto simp: find_session_def find_None_iff)

lemma find_session_new:
  assumes "sid \<notin> sr_ID ` set (db_sessions d)" "sr_ID row = sid"
  shows "find_session (d\<lparr>db_sessions := db_sessions d @ [row]\<rparr>) sid = Some row"
proof -
  have "find_session d sid = None" using assms(1) by (simp only: find_session_None not_False_eq_True)
  then show ?thesis using assms(2) by (simp add: find_session_def find_snoc)
qed

lemma find_session_same: "same_tables d d' \<Longrightarrow> find_session d' sid = find_session d sid"
  by (simp add: find_session_def same_tables_sel)

lemma GetSession_cases:
  assumes "GetSession W sid d = (res, d')"
  obtains (failed) e where "res = Inl e" "same_tables d d'" "w_fault W (db_tick d) \<noteq> None"
  | (missing) e where "res = Inl e" "errors_Is e SqlErrNoRows" "find_session d sid = None" "d' = tick d" "w_fault W (db_tick d) = None"
  | (found) row where "res = Inr (session_of_row row)" "find_session d sid = Some row" "d' = tick d"
proof (cases "w_fault W (db_tick d)")
  case (Some e)
  with assms failed show ?thesis by (auto simp: GetSession_def db_bind_def db_read_def Let_def)
next
  case None
  show ?thesis
  proof (cases "find_session d sid")
    case None
    with \<open>w_fault W (db_tick d) = None\<close> assms missing show ?thesis
      by (auto simp: GetSession_def db_bind_def db_read_def Let_def err_no_rows_def wrapf_def)
  next
    case (Some row)
    with \<open>w_fault W (db_tick d) = None\<close> assms found show ?thesis
      by (auto simp: GetSession_def db_bind_def db_read_def Let_def)
  qed
qed

section \<open>Loading the session and deciding\<close>

text \<open>A session opened by the proxy: its row reads as the fresh session.\<close>

lemma session_created:
  assumes same: "same_tables d0 d" and c: "CreateSession W sid (cl_AgentName claims) (p_Fingerprint pol) d = (Inr (), d')"
  obtains row where "effects d0 d'" "same_views d0 d'" "db_audit d' = db_audit d0"
    "find_session d' sid = Some row" "session_of_row row = fresh_session sid claims pol"
  using c
proof (cases rule: CreateSession_cases)
  case (created row)
  have e: "effect d (d\<lparr>db_sessions := db_sessions d @ [row]\<rparr>)"
    using effect.new_session [of row d "db_tick d"] created(2,4) by simp
  show ?thesis
  proof (rule that [of row])
    show "effects d0 d'" by (rule effects.step [OF effects_same [OF same] effect_then_same [OF e created(3)]])
    show "same_views d0 d'" "db_audit d' = db_audit d0"
      using same created(3) by (simp_all add: same_views_def same_tables_sel)
    show "find_session d' sid = Some row"
      using find_session_same [OF created(3), of sid] find_session_new [OF created(2), of row] created(4) by simp
    show "session_of_row row = fresh_session sid claims pol" using created(4) by (simp add: fresh_session_def session_of_row_def)
  qed
qed simp

lemma load_session_cases:
  assumes "load_session N sid claims p = (res, p')"
  obtains (refused) m where "res = Inl (writeBadRequest m)" "p' = p\<lparr>px_db := px_db p'\<rparr>" "same_tables (px_db p) (px_db p')"
  | (loaded) row where "res = Inr (session_at p sid claims)" "p' = p\<lparr>px_db := px_db p'\<rparr>"
      "effects (px_db p) (px_db p')" "same_views (px_db p) (px_db p')" "db_audit (px_db p') = db_audit (px_db p)"
      "find_session (px_db p') sid = Some row" "session_of_row row = session_at p sid claims"
proof -
  obtain g d where g: "GetSession (n_world N) sid (px_db p) = (g, d)" by fastforce
  have same: "same_tables (px_db p) d" using reads_change_nothing(1) [of "px_db p" "n_world N" sid] g by simp
  show ?thesis
  proof (cases g)
    case (Inr sess)
    from g Inr obtain row where row: "sess = session_of_row row" "find_session (px_db p) sid = Some row"
      by (cases rule: GetSession_cases) auto
    then have at: "session_at p sid claims = session_of_row row" by (simp add: session_at_def)
    have p': "p' = p\<lparr>px_db := d\<rparr>" "res = Inr (session_at p sid claims)"
      using assms g Inr row at by (auto simp: load_session_def)
    show ?thesis
      by (rule loaded [of row])
        (use p' same row at find_session_same [OF same, of sid] in \<open>simp_all add: effects_same same_viewsI same_tables_sel\<close>)
  next
    case (Inl err)
    show ?thesis
    proof (cases "errors_Is err SqlErrNoRows")
      case False
      with assms g Inl same show ?thesis by (intro refused) (auto simp: load_session_def)
    next
      case True
      obtain c d2 where c: "CreateSession (n_world N) sid (cl_AgentName claims) (p_Fingerprint (px_livePol p)) d = (c, d2)"
        by fastforce
      show ?thesis
      proof (cases c)
        case (Inl e)
        from c Inl have "same_tables d d2" by (cases rule: CreateSession_cases) simp_all
        from same_tables_trans [OF same this] assms g \<open>g = Inl err\<close> True c Inl show ?thesis
          by (intro refused) (auto simp: load_session_def Let_def)
      next
        case (Inr u)
        then have c': "CreateSession (n_world N) sid (cl_AgentName claims) (p_Fingerprint (px_livePol p)) d = (Inr (), d2)" using c by simp
        have "sid \<notin> sr_ID ` set (db_sessions d)" using c' by (cases rule: CreateSession_cases) simp_all
        then have at: "session_at p sid claims = fresh_session sid claims (px_livePol p)"
          using find_session_None find_session_same [OF same] by (metis session_at_def option.simps(4))
        have p': "p' = p\<lparr>px_db := d2\<rparr>" "res = Inr (session_at p sid claims)"
          using assms g Inl True c' at by (auto simp: load_session_def Let_def fresh_session_def)
        from same c' show ?thesis
          by (rule session_created) (rule loaded, use p' at in simp_all)
      qed
    qed
  qed
qed

lemma session_policy_spec:
  assumes "lru_inv (px_polCache p)" "session_policy sess p = (pol, p')"
  shows "pol = policy_for p sess" "p' = p\<lparr>px_polCache := snd (lru_get (px_polCache p) (s_PolicyFingerprint sess))\<rparr>"
  using assms(2) lru.get_result [OF assms(1), of "s_PolicyFingerprint sess"]
  by (auto simp: session_policy_def policyForFingerprint_def policy_for_def split_beta Let_def
      split: prod.splits option.splits)

text \<open>The decision of a call, with what it was decided from.\<close>

lemma evaluate_call_cases:
  assumes inv: "lru_inv (px_polCache p)" and e: "evaluate_call N claims sid ps p = (res, p')"
  obtains (refused) rep where "res = Inl rep" "rep \<noteq> Forwarded" "\<exists>m. rep = writeBadRequest m"
      "same_tables (px_db p) (px_db p')" "same_config p p'" "px_polCache p' = px_polCache p"
  | (gone) row where "res = Inl (writeGone sid)" "s_Terminated (session_at p sid claims)"
      "effects (px_db p) (px_db p')" "same_views (px_db p) (px_db p')" "db_audit (px_db p') = db_audit (px_db p)"
      "find_session (px_db p') sid = Some row" "session_of_row row = session_at p sid claims"
      "same_config p p'"
      "px_polCache p' = snd (lru_get (px_polCache p) (s_PolicyFingerprint (session_at p sid claims)))"
  | (decided) row d1 dec sess' where
      "res = Inr (engine_call claims sid ps (now_at (n_world N) (px_db p)), s_Tainted (session_at p sid claims), dec, sess',
                  policy_for p (session_at p sid claims))"
      "\<not> s_Terminated (session_at p sid claims)"
      "Evaluate (full_stages (n_lib N) (store_backend (n_world N) (n_tools N) d1) (now_at (n_world N) d1))
         (engine_call claims sid ps (now_at (n_world N) (px_db p))) (session_at p sid claims)
         (policy_for p (session_at p sid claims)) = (dec, sess')"
      "effects (px_db p) d1" "same_views (px_db p) d1" "db_audit d1 = db_audit (px_db p)"
      "find_session d1 sid = Some row" "session_of_row row = session_at p sid claims"
      "px_db p' = later pipeline_ticks d1" "same_config p p'"
      "px_polCache p' = snd (lru_get (px_polCache p) (s_PolicyFingerprint (session_at p sid claims)))"
proof -
  define p0 where "p0 = writeTraceEntry N \<lparr>te_SessionID = sid, te_AgentName = cl_AgentName claims, te_ToolName = ca_Name ps,
      te_Arguments = ca_Arguments ps, te_RequestedAt = n_rfc3339 N (now_at (n_world N) (px_db p))\<rparr> p"
  have p0: "px_db p0 = px_db p" "px_livePol p0 = px_livePol p" "px_polCache p0 = px_polCache p" "same_config p p0"
    by (simp_all add: p0_def)
  have at: "session_at p0 sid claims = session_at p sid claims" "policy_for p0 s = policy_for p s" for s
    unfolding session_at_def policy_for_def p0 by simp_all
  obtain l p1 where l: "load_session N sid claims p0 = (l, p1)" by fastforce
  from l show ?thesis
  proof (cases rule: load_session_cases)
    case (refused m)
    show ?thesis
    proof (rule that(1) [of "writeBadRequest m"])
      have p': "p' = p1" "res = Inl (writeBadRequest m)"
        using e l refused(1) by (simp_all add: evaluate_call_def Let_def p0_def [symmetric])
      show "res = Inl (writeBadRequest m)" "\<exists>m'. writeBadRequest m = writeBadRequest m'" using p' by blast+
      show "writeBadRequest m \<noteq> Forwarded" by (simp add: writeBadRequest_def)
      show "same_tables (px_db p) (px_db p')" using refused(3) p' p0 by simp
      show "same_config p p'" using same_config_trans [OF p0(4) only_db(1) [OF refused(2)]] p' by simp
      show "px_polCache p' = px_polCache p" using only_db(2) [OF refused(2)] p' p0(3) by simp
    qed
  next
    case (loaded row)
    let ?s = "session_at p sid claims"
    let ?c = "snd (lru_get (px_polCache p) (s_PolicyFingerprint ?s))"
    have cache: "px_polCache p1 = px_polCache p" using only_db(2) [OF loaded(2)] p0(3) by simp
    have inv1: "lru_inv (px_polCache p1)" using inv cache by simp
    have cfg: "same_config p p1" using same_config_trans [OF p0(4) only_db(1) [OF loaded(2)]] .
    have pol1: "policy_for p1 s = policy_for p s" for s
      using cfg cache by (simp add: policy_for_def same_config_def cong: option.case_cong)
    obtain pol p2 where sp: "session_policy ?s p1 = (pol, p2)" by fastforce
    from session_policy_spec [OF inv1 sp] have pol: "pol = policy_for p ?s"
      and p2: "p2 = p1\<lparr>px_polCache := ?c\<rparr>" by (simp_all add: pol1 cache)
    have cfg2: "same_config p p2" using cfg p2 by (simp add: same_config_def)
    have res: "res = (if s_Terminated ?s then Inl (writeGone sid)
        else Inr (engine_call claims sid ps (now_at (n_world N) (px_db p)), s_Tainted ?s,
          fst (fst (decide N (engine_call claims sid ps (now_at (n_world N) (px_db p))) ?s pol p2)),
          snd (fst (decide N (engine_call claims sid ps (now_at (n_world N) (px_db p))) ?s pol p2)), pol))"
      and p': "p' = (if s_Terminated ?s then p2 else p2\<lparr>px_db := later pipeline_ticks (px_db p2)\<rparr>)"
      using e l loaded(1) sp
      by (auto simp: evaluate_call_def Let_def p0_def [symmetric] at decide_def split: prod.splits)
    show ?thesis
    proof (cases "s_Terminated ?s")
      case True
      show ?thesis
        by (rule gone [of row]) (use True res p' p2 cfg2 loaded p0 at in simp_all)
    next
      case False
      let ?E = "Evaluate (full_stages (n_lib N) (store_backend (n_world N) (n_tools N) (px_db p1)) (now_at (n_world N) (px_db p1)))
         (engine_call claims sid ps (now_at (n_world N) (px_db p))) ?s (policy_for p ?s)"
      show ?thesis
        by (rule decided [of "fst ?E" "snd ?E" "px_db p1" row]) (use False res p' p2 cfg2 loaded p0 at pol in \<open>simp_all add: decide_def Let_def\<close>)
    qed
  qed
qed

section \<open>Recording and enforcing\<close>

text \<open>A step that moves the tables by effects and leaves the configuration and the cache alone.\<close>

definition px_effect :: "proxy \<Rightarrow> proxy \<Rightarrow> bool" where
  "px_effect p p' \<longleftrightarrow> effects (px_db p) (px_db p') \<and> same_config p p' \<and> px_polCache p' = px_polCache p"

lemma px_effect_refl [simp]: "px_effect p p"
  by (simp add: px_effect_def effects.refl)

lemma px_effect_trans: "px_effect p q \<Longrightarrow> px_effect q r \<Longrightarrow> px_effect p r"
  by (auto simp: px_effect_def intro: effects_trans same_config_trans)

lemma px_effect_db: "effect (px_db p) d \<Longrightarrow> px_effect p (p\<lparr>px_db := d\<rparr>)"
  by (simp add: px_effect_def effects_single)

definition same_logs :: "db \<Rightarrow> db \<Rightarrow> bool" where
  "same_logs d d' \<longleftrightarrow> db_events d' = db_events d \<and> db_audit d' = db_audit d"

lemma same_logs_refl [simp]: "same_logs d d"
  by (simp add: same_logs_def)

lemma same_logs_trans: "same_logs a b \<Longrightarrow> same_logs b c \<Longrightarrow> same_logs a c"
  by (simp add: same_logs_def)

lemma same_logs_tables: "same_tables d d' \<Longrightarrow> same_logs d d'"
  by (simp add: same_logs_def same_tables_sel)

lemma exec_session_update_cases:
  assumes "exec_session_update W m m' i f d = (res, d')"
  obtains (failed) e where "res = Inl e" "same_tables d d'"
  | (late) e where "res = Inl e" "same_tables (d\<lparr>db_sessions := map (\<lambda>r. if sr_ID r = i then f r else r) (db_sessions d)\<rparr>) d'"
  | (updated) "res = Inr ()" "same_tables (d\<lparr>db_sessions := map (\<lambda>r. if sr_ID r = i then f r else r) (db_sessions d)\<rparr>) d'"
      "i \<in> sr_ID ` set (db_sessions d)"
proof (cases "w_fault W (db_tick d)")
  case (Some e)
  with assms failed show ?thesis by (auto simp: exec_session_update_def db_bind_def db_exec_def)
next
  case None
  let ?d = "d\<lparr>db_sessions := map (\<lambda>r. if sr_ID r = i then f r else r) (db_sessions d)\<rparr>"
  define n where "n = length (filter (\<lambda>r. sr_ID r = i) (db_sessions d))"
  have u: "update_session i f d = Inr (n, ?d)" by (simp add: update_session_def n_def)
  have "exec_session_update W m m' i f d = db_bind (db_read W m' (\<lambda>_. ()) (tick ?d))
      (\<lambda>_ d. if n = 0 then (Inl (wrapf m err_no_rows), d) else (Inr (), d))"
    using None by (simp add: exec_session_update_def db_bind_def db_exec_def u)
  then have r: "(res, d') = (case w_fault W (Suc (db_tick d)) of
      Some e \<Rightarrow> (Inl (wrapf m' e), tick (tick ?d))
    | None \<Rightarrow> if n = 0 then (Inl (wrapf m err_no_rows), tick (tick ?d)) else (Inr (), tick (tick ?d)))"
    using assms by (simp add: db_bind_def db_read_def split: option.splits)
  then have d': "d' = tick (tick ?d)" by (auto split: option.splits if_splits)
  have same: "same_tables ?d d'" unfolding d' by (meson same_tables_tick same_tables_trans)
  from r consider e where "res = Inl e" | "res = Inr ()" "n \<noteq> 0" by (auto split: option.splits if_splits)
  then show ?thesis
  proof cases
    case 1
    with same late show ?thesis by blast
  next
    case 2
    from 2(2) have "i \<in> sr_ID ` set (db_sessions d)" by (auto simp: n_def filter_empty_conv)
    with 2(1) same updated show ?thesis by blast
  qed
qed

lemma session_update_logs:
  "same_logs d (snd (UpdateSessionTaint W i b d))" "same_logs d (snd (IncrementSessionCounters W i c d))"
proof -
  have "same_logs d (snd (exec_session_update W m m' i f d))" for m m' f
  proof -
    obtain res d' where e: "exec_session_update W m m' i f d = (res, d')" by fastforce
    then have "same_logs d d'" by (cases rule: exec_session_update_cases) (auto simp: same_logs_def same_tables_sel)
    with e show ?thesis by simp
  qed
  then show "same_logs d (snd (UpdateSessionTaint W i b d))" "same_logs d (snd (IncrementSessionCounters W i c d))"
    by (simp_all add: UpdateSessionTaint_def IncrementSessionCounters_def Let_def)
qed

lemma CreateEscalation_logs: "same_logs d (snd (CreateEscalation W e d))"
  by (auto simp: CreateEscalation_def Let_def db_bind_def db_exec_def insert_escalation_def same_logs_def tick_def
      split: option.split sum.split prod.split)

lemma writeAuditRecord_cases:
  assumes "writeAuditRecord N r sid agent parent tool args seq dn fp p = (failed, p')"
  obtains (unwritten) "db_audit (px_db p') = db_audit (px_db p)" "db_events (px_db p') = db_events (px_db p)"
      "px_effect p p'" "db_sessions (px_db p') = db_sessions (px_db p)" "db_escalations (px_db p') = db_escalations (px_db p)"
      "failed \<longrightarrow> px_auditWriteFailures p' = px_auditWriteFailures p + 1"
      "px_signingKey p = None \<or> failed"
  | (written) key rec where "\<not> failed" "px_signingKey p = Some key"
      "Sign (n_lib N) (n_crypto N) (audit_record N r sid agent parent tool args seq dn fp (px_db p)) key = Inr rec"
      "db_audit (px_db p') = db_audit (px_db p) @ [row_of_record rec]"
      "db_events (px_db p') = db_events (px_db p)" "db_sessions (px_db p') = db_sessions (px_db p)"
      "db_escalations (px_db p') = db_escalations (px_db p)" "px_effect p p'"
proof (cases "px_signingKey p")
  case None
  with assms unwritten show ?thesis by (simp add: writeAuditRecord_def)
next
  case (Some key)
  let ?rec = "audit_record N r sid agent parent tool args seq dn fp (px_db p)"
  obtain rec where rec: "Sign (n_lib N) (n_crypto N) ?rec key = Inr rec" by (auto simp: Sign_def canonicalJSON_def)
  obtain res d where w: "audit_Write (n_world N) rec (px_db p) = (res, d)" by fastforce
  have eff: "effect (px_db p) d"
    using w AppendAuditRecord_effect [of "px_db p" "n_world N" rec] by (metis audit_Write_def snd_conv snd_db_wrap)
  show ?thesis
  proof (cases res)
    case (Inl e)
    have same: "same_tables (px_db p) d"
      using w Inl by (auto simp: audit_Write_def db_wrap_def AppendAuditRecord_def db_bind_def db_exec_def insert_audit_def
          split: option.splits sum.splits prod.splits if_splits)
    have "failed" "p' = p\<lparr>px_db := d, px_auditWriteFailures := px_auditWriteFailures p + 1\<rparr>"
      using assms Some rec w Inl by (auto simp: writeAuditRecord_def)
    with same eff show ?thesis
      by (intro unwritten) (auto simp: same_tables_sel px_effect_def effects_single same_config_def)
  next
    case (Inr u)
    have d: "d = tick ((px_db p)\<lparr>db_audit := db_audit (px_db p) @ [row_of_record rec]\<rparr>)"
      using w Inr by (auto simp: audit_Write_def db_wrap_def AppendAuditRecord_def db_bind_def db_exec_def insert_audit_def
          split: option.splits sum.splits prod.splits if_splits)
    have "\<not> failed" "p' = p\<lparr>px_db := d\<rparr>" using assms Some rec w Inr by (auto simp: writeAuditRecord_def)
    with d eff Some rec show ?thesis
      by (intro written [of key rec]) (auto simp: px_effect_db)
  qed
qed

lemma persist_taint_cases:
  assumes "persist_taint N sid t0 sess p = (f, p')"
  shows "px_effect p p'" "same_logs (px_db p) (px_db p')" "f = None \<or> f = Some (writeBadRequest ''session state update failed'')"
    "db_escalations (px_db p') = db_escalations (px_db p)"
proof -
  obtain res d where u: "UpdateSessionTaint (n_world N) sid (s_Tainted sess) (px_db p) = (res, d)" by fastforce
  have eff: "effect (px_db p) d" "same_logs (px_db p) d"
    using u session_update_effects(1) [of "px_db p" "n_world N" sid "s_Tainted sess"]
      session_update_logs(1) [of "px_db p" "n_world N" sid "s_Tainted sess"] by simp_all
  have "db_escalations d = db_escalations (px_db p)"
    using u unfolding UpdateSessionTaint_def Let_def
    by (cases rule: exec_session_update_cases) (auto simp: same_tables_sel)
  moreover have "p' = p \<and> f = None \<or> p' = p\<lparr>px_db := d\<rparr> \<and> (f = None \<or> f = Some (writeBadRequest ''session state update failed''))"
    using assms u by (auto simp: persist_taint_def split: if_splits sum.splits)
  ultimately show "px_effect p p'" "same_logs (px_db p) (px_db p')"
    "f = None \<or> f = Some (writeBadRequest ''session state update failed'')"
    "db_escalations (px_db p') = db_escalations (px_db p)"
    using eff by (auto simp: px_effect_db)
qed

lemma enforce_cases:
  assumes "enforce N q ps sid seq dn pol af p = (p', rep)"
  shows "px_effect p p'" "same_logs (px_db p) (px_db p')"
    "rep = Forwarded \<longleftrightarrow> d_Action dn \<in> {Allow, ShadowDeny} \<and> \<not> (af \<and> px_auditStrict p)"
    "rep \<noteq> Forwarded \<longrightarrow> (\<exists>b. rep = Reply 200 b)"
proof -
  have inc: "effect (px_db p) (snd (IncrementSessionCounters (n_world N) sid c (px_db p)))" for c
    by (rule session_update_effects)
  have "px_effect p p' \<and> same_logs (px_db p) (px_db p')
    \<and> (rep = Forwarded \<longleftrightarrow> d_Action dn \<in> {Allow, ShadowDeny} \<and> \<not> (af \<and> px_auditStrict p))
    \<and> (rep \<noteq> Forwarded \<longrightarrow> (\<exists>b. rep = Reply 200 b))"
  proof (cases "d_Action dn")
    case Escalate
    obtain res d where c: "CreateEscalation (n_world N)
      \<lparr>es_ID = w_uuid (n_world N) (db_tick (px_db p)), es_SessionID = sid, es_Seq = seq, es_ToolName = ca_Name ps,
       es_ArgumentsJSON = ca_Arguments ps, es_Status = ''pending'', es_Reason = [], es_CreatedAt = 0, es_ResolvedAt = 0\<rparr>
      (px_db p) = (res, d)" (is "CreateEscalation _ ?e _ = _") by fastforce
    have "effect (px_db p) d" "same_logs (px_db p) d"
      using c CreateEscalation_effect [of ?e "px_db p" "n_world N"] CreateEscalation_logs [of "px_db p" "n_world N" ?e]
      by simp_all
    with assms c Escalate show ?thesis
      by (auto simp: enforce_def escalate_def Let_def writeJSONRPCError_def writeJSONRPCEscalated_def
          px_effect_def effects_single same_config_def split: sum.splits)
  qed (use assms inc session_update_logs(2) in
      \<open>auto simp: enforce_def writeJSONRPCDeny_def writeJSONRPCError_def px_effect_db split: if_splits prod.splits option.splits\<close>)
  then show "px_effect p p'" "same_logs (px_db p) (px_db p')"
    "rep = Forwarded \<longleftrightarrow> d_Action dn \<in> {Allow, ShadowDeny} \<and> \<not> (af \<and> px_auditStrict p)"
    "rep \<noteq> Forwarded \<longrightarrow> (\<exists>b. rep = Reply 200 b)" by blast+
qed

text \<open>The event row of a call.\<close>

definition call_event :: "string \<Rightarrow> ToolCallParams \<Rightarrow> Decision \<Rightarrow> event_row \<Rightarrow> bool" where
  "call_event sid ps dn row \<longleftrightarrow> ev_session_id row = sid \<and> ev_tool_name row = ca_Name ps
     \<and> ev_arguments_json row = nullableString (ca_Arguments ps) \<and> ev_decision row = action_str (d_Action dn)
     \<and> ev_policy_rule row = nullableString (d_RuleID dn)"

text \<open>The audit record of a call, next to its event: signed, with the event's sequence number.\<close>

definition call_audited :: "net \<Rightarrow> request \<Rightarrow> ToolCall \<Rightarrow> ToolCallParams \<Rightarrow> Decision \<Rightarrow> Policy \<Rightarrow> string \<Rightarrow> event_row \<Rightarrow> AuditRecord \<Rightarrow> bool" where
  "call_audited N r call ps dn pol key row rec \<longleftrightarrow>
     (\<exists>d. Sign (n_lib N) (n_crypto N) (audit_record N r (tc_SessionID call) (tc_AgentName call) (tc_ParentAgent call)
        (ca_Name ps) (ca_Arguments ps) (ev_seq row) dn (p_Fingerprint pol) d) key = Inr rec)"

text \<open>A step that leaves the logs alone.\<close>

definition quiet :: "proxy \<Rightarrow> proxy \<Rightarrow> bool" where
  "quiet p p' \<longleftrightarrow> same_logs (px_db p) (px_db p') \<and> effects (px_db p) (px_db p') \<and> same_config p p'"

lemma quiet_trans: "quiet p q \<Longrightarrow> quiet q r \<Longrightarrow> quiet p r"
  by (auto simp: quiet_def intro: same_logs_trans effects_trans same_config_trans)

lemma quietI:
  "same_tables (px_db p) (px_db p') \<Longrightarrow> same_config p p' \<Longrightarrow> quiet p p'"
  "same_views (px_db p) (px_db p') \<Longrightarrow> db_audit (px_db p') = db_audit (px_db p) \<Longrightarrow> effects (px_db p) (px_db p') \<Longrightarrow>
   same_config p p' \<Longrightarrow> quiet p p'"
  by (auto simp: quiet_def same_logs_tables effects_same) (simp add: same_logs_def same_views_def)

lemma emitDecisionSpan_sel [simp]:
  "px_db (emitDecisionSpan st sid a t dn fp tr p) = px_db p"
  "px_auditStrict (emitDecisionSpan st sid a t dn fp tr p) = px_auditStrict p"
  "px_effect p (emitDecisionSpan st sid a t dn fp tr p)"
  by (simp_all add: emitDecisionSpan_def px_effect_def same_config_def effects.refl)

text \<open>The audit record of a call, written or not.\<close>

lemma writeAuditRecord_known:
  assumes "writeAuditRecord N r (tc_SessionID call) (tc_AgentName call) (tc_ParentAgent call) (ca_Name ps) (ca_Arguments ps)
      (ev_seq row) dn (p_Fingerprint pol) p = (af, p')"
  shows "px_effect p p'" "db_events (px_db p') = db_events (px_db p)"
    "(px_signingKey p = None \<or> af) \<and> db_audit (px_db p') = db_audit (px_db p)
     \<or> \<not> af \<and> (\<exists>key rec. px_signingKey p = Some key \<and> call_audited N r call ps dn pol key row rec
            \<and> db_audit (px_db p') = db_audit (px_db p) @ [row_of_record rec])"
  using assms by (cases rule: writeAuditRecord_cases; auto simp: call_audited_def)+

text \<open>After the audit record: the taint is persisted and the decision enforced.\<close>

lemma finish_cases:
  assumes t: "persist_taint N sid t0 sess p = (f, p3)"
    and out: "(p', rep) = (case f of Some failure \<Rightarrow> (p3, failure) | None \<Rightarrow> enforce N q ps sid seq dn pol af p3)"
  shows "px_effect p p'" "same_logs (px_db p) (px_db p')"
    "rep = Forwarded \<longrightarrow> d_Action dn \<in> {Allow, ShadowDeny} \<and> \<not> (af \<and> px_auditStrict p)"
    "rep \<noteq> Forwarded \<longrightarrow> rep = writeBadRequest ''session state update failed'' \<or> (\<exists>b. rep = Reply 200 b)"
    "rep \<noteq> Forwarded \<longrightarrow> rep = writeBadRequest ''session state update failed'' \<or> d_Action dn \<in> {Deny, Escalate} \<or> (af \<and> px_auditStrict p)"
proof -
  note taint = persist_taint_cases [OF t]
  have strict: "px_auditStrict p3 = px_auditStrict p" using taint(1) by (simp add: px_effect_def same_config_def)
  have fin: "px_effect p3 p' \<and> same_logs (px_db p3) (px_db p')
    \<and> (rep = Forwarded \<longrightarrow> d_Action dn \<in> {Allow, ShadowDeny} \<and> \<not> (af \<and> px_auditStrict p))
    \<and> (rep \<noteq> Forwarded \<longrightarrow> rep = writeBadRequest ''session state update failed'' \<or> (\<exists>b. rep = Reply 200 b))
    \<and> (rep \<noteq> Forwarded \<longrightarrow> rep = writeBadRequest ''session state update failed'' \<or> d_Action dn \<in> {Deny, Escalate} \<or> (af \<and> px_auditStrict p))"
  proof (cases f)
    case (Some x)
    with out taint(3) show ?thesis by (simp add: writeBadRequest_def)
  next
    case None
    with out have "enforce N q ps sid seq dn pol af p3 = (p', rep)" by simp
    from enforce_cases [OF this] strict show ?thesis by (cases "d_Action dn") auto
  qed
  show "px_effect p p'" by (rule px_effect_trans [OF taint(1) conjunct1 [OF fin]])
  show "same_logs (px_db p) (px_db p')" by (rule same_logs_trans [OF taint(2) conjunct1 [OF conjunct2 [OF fin]]])
  show "rep = Forwarded \<longrightarrow> d_Action dn \<in> {Allow, ShadowDeny} \<and> \<not> (af \<and> px_auditStrict p)"
    by (rule conjunct1 [OF conjunct2 [OF conjunct2 [OF fin]]])
  show "rep \<noteq> Forwarded \<longrightarrow> rep = writeBadRequest ''session state update failed'' \<or> (\<exists>b. rep = Reply 200 b)"
    by (rule conjunct1 [OF conjunct2 [OF conjunct2 [OF conjunct2 [OF fin]]]])
  show "rep \<noteq> Forwarded \<longrightarrow> rep = writeBadRequest ''session state update failed'' \<or> d_Action dn \<in> {Deny, Escalate} \<or> (af \<and> px_auditStrict p)"
    by (rule conjunct2 [OF conjunct2 [OF conjunct2 [OF conjunct2 [OF fin]]]])
qed

lemma record_and_enforce_cases:
  assumes "record_and_enforce N r q ps call t0 dn sess pol p = (p', rep)"
  obtains (unrecorded) "rep = writeBadRequest ''session recording failed''" "same_tables (px_db p) (px_db p')" "px_effect p p'"
  | (recorded) row af where "db_events (px_db p') = db_events (px_db p) @ [row]" "call_event (tc_SessionID call) ps dn row"
      "ev_seq row = Suc (max_seq (px_db p) (tc_SessionID call))"
      "px_effect p p'"
      "(px_signingKey p = None \<or> af) \<and> db_audit (px_db p') = db_audit (px_db p)
       \<or> \<not> af \<and> (\<exists>key rec. px_signingKey p = Some key \<and> call_audited N r call ps dn pol key row rec
              \<and> db_audit (px_db p') = db_audit (px_db p) @ [row_of_record rec])"
      "rep = Forwarded \<longrightarrow> d_Action dn \<in> {Allow, ShadowDeny} \<and> \<not> (af \<and> px_auditStrict p)"
      "rep \<noteq> Forwarded \<longrightarrow> rep = writeBadRequest ''session state update failed'' \<or> (\<exists>b. rep = Reply 200 b)"
      "rep \<noteq> Forwarded \<longrightarrow> rep = writeBadRequest ''session state update failed'' \<or> d_Action dn \<in> {Deny, Escalate} \<or> (af \<and> px_auditStrict p)"
proof -
  let ?sid = "tc_SessionID call"
  let ?ev = "\<lparr>e_Seq = 0, e_SessionID = ?sid, e_ToolName = ca_Name ps, e_ArgumentsJSON = ca_Arguments ps,
      e_Decision = action_str (d_Action dn), e_PolicyRule = d_RuleID dn, e_RecordedAt = 0\<rparr>"
  obtain res d where a: "AppendEvent (n_world N) ?ev (px_db p) = (res, d)" by fastforce
  have eff: "effect (px_db p) d" using AppendEvent_effect [of "px_db p" "n_world N" ?ev] a by simp
  from a show ?thesis
  proof (cases rule: AppendEvent_cases)
    case (failed err)
    with assms a eff show ?thesis
      by (intro unrecorded) (auto simp: record_and_enforce_def Let_def px_effect_db)
  next
    case (appended e')
    let ?row = "row_of_event (e_Seq e') e'" and ?p0 = "p\<lparr>px_db := d\<rparr>"
    have row: "call_event ?sid ps dn ?row" "ev_seq ?row = Suc (max_seq (px_db p) ?sid)" "e_Seq e' = ev_seq ?row"
      using appended(2) by (simp_all add: call_event_def row_of_event_def)
    have logs: "db_events d = db_events (px_db p) @ [?row]" "db_audit d = db_audit (px_db p)"
      using appended(4) by (simp_all add: same_tables_sel)
    obtain af p1 where w: "writeAuditRecord N r ?sid (tc_AgentName call) (tc_ParentAgent call) (ca_Name ps) (ca_Arguments ps)
        (ev_seq ?row) dn (p_Fingerprint pol) ?p0 = (af, p1)" by fastforce
    note audit = writeAuditRecord_known [OF w]
    define p2 where "p2 = emitDecisionSpan (case tc_RequestedAt call of None \<Rightarrow> 0 | Some t \<Rightarrow> t) ?sid (tc_AgentName call)
        (ca_Name ps) dn (p_Fingerprint pol) (ExtractClientTraceID (rq_header r)) p1"
    have db2: "px_db p2 = px_db p1" by (simp add: p2_def)
    have e2: "px_effect p p2" using px_effect_trans [OF px_effect_db [OF eff] px_effect_trans [OF audit(1)]] by (simp add: p2_def)
    obtain f p3 where t: "persist_taint N ?sid t0 sess p2 = (f, p3)" by fastforce
    have "(p', rep) = (case f of Some failure \<Rightarrow> (p3, failure)
        | None \<Rightarrow> enforce N q ps ?sid (ev_seq ?row) dn pol af p3)"
      using assms a appended(1) w t by (simp add: record_and_enforce_def Let_def p2_def row(3) [symmetric] split: option.splits)
    note fin = finish_cases [OF t this]
    have strict: "px_auditStrict p2 = px_auditStrict p" using e2 by (simp add: px_effect_def same_config_def)
    have audit_same: "db_audit (px_db ?p0) = db_audit (px_db p)" "db_audit (px_db p1) = db_audit (px_db p')"
      and same_key: "px_signingKey ?p0 = px_signingKey p"
      using fin(2) db2 logs(2) by (simp_all add: same_logs_def)
    show ?thesis
    proof (rule recorded [of ?row af])
      show "db_events (px_db p') = db_events (px_db p) @ [?row]" using fin(2) db2 audit(2) logs(1) by (simp add: same_logs_def)
      show "px_effect p p'" by (rule px_effect_trans [OF e2 fin(1)])
      show "(px_signingKey p = None \<or> af) \<and> db_audit (px_db p') = db_audit (px_db p)
       \<or> \<not> af \<and> (\<exists>key rec. px_signingKey p = Some key \<and> call_audited N r call ps dn pol key ?row rec
              \<and> db_audit (px_db p') = db_audit (px_db p) @ [row_of_record rec])"
        using audit(3) unfolding audit_same same_key by simp
      show "rep = Forwarded \<longrightarrow> d_Action dn \<in> {Allow, ShadowDeny} \<and> \<not> (af \<and> px_auditStrict p)"
        using fin(3) unfolding strict .
      show "rep \<noteq> Forwarded \<longrightarrow> rep = writeBadRequest ''session state update failed'' \<or> d_Action dn \<in> {Deny, Escalate} \<or> (af \<and> px_auditStrict p)"
        using fin(5) unfolding strict .
    qed (fact row fin(4))+
  qed
qed

section \<open>From request to handler\<close>

text \<open>The tool call a request carries.\<close>

definition tool_call_of :: "net \<Rightarrow> request \<Rightarrow> (MCPRequest \<times> ToolCallParams) option" where
  "tool_call_of N r =
     (case rq_body r of
        Some (Inr body) \<Rightarrow>
          (if isToolCall N body then
             (case ParseRequest N body of
                Inl _ \<Rightarrow> None
              | Inr q \<Rightarrow> (case ParseToolCallParams N (mq_Params q) of Inl _ \<Rightarrow> None | Inr ps \<Rightarrow> Some (q, ps)))
           else None)
      | _ \<Rightarrow> None)"

definition session_header :: "request \<Rightarrow> string" where
  "session_header r = rq_header r ''X-TrueBearing-Session-ID''"

lemma serve_tool_call:
  assumes "rq_path r \<noteq> ''/health''" "tool_call_of N r = Some (q, ps)"
  shows "serve N stat r p =
    (case authenticate (n_world N) (n_keys N) (rq_header r) (px_db p) of
       (Inl m, d) \<Rightarrow> (p\<lparr>px_db := d\<rparr>, writeUnauthorized m)
     | (Inr claims, d) \<Rightarrow>
         (if session_header r = [] then (p\<lparr>px_db := d\<rparr>, writeMissingSessionID)
          else if ca_Name ps = ''check_escalation_status'' then escalation_status N q ps (p\<lparr>px_db := d\<rparr>)
          else handle_tool_call N r claims (session_header r) q ps (p\<lparr>px_db := d\<rparr>)))"
  using assms
  by (auto simp: serve_def AuthMiddleware_def SessionMiddleware_def handleMCP_def tool_call_of_def session_header_def Let_def
      split: option.splits sum.splits if_splits prod.splits)

lemma escalation_status_reply:
  assumes "escalation_status N q ps p = (p', rep)"
  shows "\<exists>b. rep = Reply 200 b" "same_tables (px_db p) (px_db p')" "px_effect p p'"
proof -
  have g: "same_tables (px_db p) (snd (esc_GetStatus (n_world N) i (px_db p)))" for i by (rule reads_change_nothing)
  from assms show "\<exists>b. rep = Reply 200 b"
    by (auto simp: escalation_status_def Let_def writeJSONRPCError_def writeJSONRPCEscalationStatus_def
        split: if_splits prod.splits sum.splits)
  from assms g show same: "same_tables (px_db p) (px_db p')"
    by (auto simp: escalation_status_def Let_def split: if_splits prod.splits sum.splits) (metis snd_conv)+
  have "\<exists>d. p' = p\<lparr>px_db := d\<rparr>"
    using assms by (auto simp: escalation_status_def Let_def split: if_splits prod.splits sum.splits intro: exI [of _ "px_db p"])
  then show "px_effect p p'" using same by (auto simp: px_effect_def effects_same)
qed

lemma auth_step:
  assumes "authenticate W K h (px_db p) = (res, d)"
  shows "same_tables (px_db p) d" "px_effect p (p\<lparr>px_db := d\<rparr>)"
    "session_at (p\<lparr>px_db := d\<rparr>) sid claims = session_at p sid claims"
    "policy_for (p\<lparr>px_db := d\<rparr>) sess = policy_for p sess" "max_seq d sid = max_seq (px_db p) sid"
proof -
  show t: "same_tables (px_db p) d" using same_tables_authenticate [of "px_db p" W K h] assms by simp
  then show "px_effect p (p\<lparr>px_db := d\<rparr>)" by (simp add: px_effect_def effects_same)
  show "session_at (p\<lparr>px_db := d\<rparr>) sid claims = session_at p sid claims"
    using find_session_same [OF t, of sid] unfolding session_at_def by (simp split: option.split)
  show "policy_for (p\<lparr>px_db := d\<rparr>) sess = policy_for p sess"
    unfolding policy_for_def by (simp split: option.split)
  show "max_seq d sid = max_seq (px_db p) sid" using t by (simp add: max_seq_def session_rows_def same_tables_sel)
qed

text \<open>What the pipeline was asked and answered for a call.\<close>

definition decided_by :: "net \<Rightarrow> proxy \<Rightarrow> string \<Rightarrow> AgentClaims \<Rightarrow> ToolCallParams \<Rightarrow> ToolCall \<Rightarrow> Decision \<Rightarrow> bool" where
  "decided_by N p sid claims ps call dn \<longleftrightarrow>
     (\<exists>t now d1 sess'. call = engine_call claims sid ps t \<and> same_views (px_db p) d1
        \<and> Evaluate (full_stages (n_lib N) (store_backend (n_world N) (n_tools N) d1) now) call (session_at p sid claims)
            (policy_for p (session_at p sid claims)) = (dn, sess'))"

lemma shadow_mode:
  assumes "Evaluate (full_stages L B now) call sess pol = (dn, sess')" "d_Action dn = ShadowDeny"
  shows "effectiveMode pol (tc_ToolName call) = EnforcementShadow"
  using full_stages_contract assms(1)
proof (cases rule: Evaluate_action_cases)
  case allowed
  with assms(2) show ?thesis by simp
next
  case (failed ev err)
  with assms(2) show ?thesis by simp
next
  case (stopped ev d0)
  with assms(2) show ?thesis by (auto simp: shadowed_def split: if_splits)
qed

lemma decided_executes:
  assumes "decided_by N p sid claims ps call dn" "d_Action dn \<in> {Allow, ShadowDeny}"
    "wf_policy (policy_for p (session_at p sid claims))"
  shows "(\<exists>now. permitted (n_lib N) (store_hist (px_db p)) (store_approvals (n_lib N) (px_db p)) (store_scope (n_tools N) (px_db p))
        now (policy_for p (session_at p sid claims)) call (session_at p sid claims))
    \<or> effectiveMode (policy_for p (session_at p sid claims)) (ca_Name ps) = EnforcementShadow"
proof -
  obtain t now d1 sess' where d: "call = engine_call claims sid ps t" "same_views (px_db p) d1"
    "Evaluate (full_stages (n_lib N) (store_backend (n_world N) (n_tools N) d1) now) call (session_at p sid claims)
            (policy_for p (session_at p sid claims)) = (dn, sess')"
    using assms(1) by (auto simp: decided_by_def)
  have name: "tc_ToolName call = ca_Name ps" using d(1) by (simp add: engine_call_def)
  show ?thesis
  proof (cases "d_Action dn = Allow")
    case True
    then have "d_Action (fst (Evaluate (full_stages (n_lib N) (store_backend (n_world N) (n_tools N) d1) now) call
        (session_at p sid claims) (policy_for p (session_at p sid claims)))) = Allow" using d(3) by simp
    from store.Evaluate_sound [OF assms(3) this] show ?thesis by (auto simp: views_eq [OF d(2)])
  next
    case False
    with assms(2) have "d_Action dn = ShadowDeny" by simp
    from shadow_mode [OF d(3) this] show ?thesis by (simp add: name)
  qed
qed

text \<open>The outcome of a governed tool call, once authenticated and with a session header.\<close>

lemma handle_tool_call_cases:
  assumes inv: "lru_inv (px_polCache p)" and h: "handle_tool_call N r claims sid q ps p = (p', rep)"
  obtains (refused) code b where "rep = Reply code b" "code \<in> {400, 410}" "quiet p p'"
  | (recorded) c row dn af where "decided_by N p sid claims ps c dn" "\<not> s_Terminated (session_at p sid claims)"
      "db_events (px_db p') = db_events (px_db p) @ [row]" "call_event sid ps dn row"
      "ev_seq row = Suc (max_seq (px_db p) sid)" "effects (px_db p) (px_db p')" "same_config p p'"
      "(px_signingKey p = None \<or> af) \<and> db_audit (px_db p') = db_audit (px_db p)
       \<or> \<not> af \<and> (\<exists>key rec. px_signingKey p = Some key
              \<and> call_audited N r c ps dn (policy_for p (session_at p sid claims)) key row rec
              \<and> db_audit (px_db p') = db_audit (px_db p) @ [row_of_record rec])"
      "rep = Forwarded \<longrightarrow> d_Action dn \<in> {Allow, ShadowDeny} \<and> \<not> (af \<and> px_auditStrict p)"
      "rep \<noteq> Forwarded \<longrightarrow> rep = writeBadRequest ''session state update failed'' \<or> (\<exists>b. rep = Reply 200 b)"
      "rep \<noteq> Forwarded \<longrightarrow> rep = writeBadRequest ''session state update failed'' \<or> d_Action dn \<in> {Deny, Escalate} \<or> (af \<and> px_auditStrict p)"
      "c = engine_call claims sid ps (now_at (n_world N) (px_db p))"
proof -
  obtain e p1 where e: "evaluate_call N claims sid ps p = (e, p1)" by fastforce
  from inv e show ?thesis
  proof (cases rule: evaluate_call_cases)
    case (refused rep')
    with h e have "p' = p1" "rep = rep'" by (simp_all add: handle_tool_call_def)
    moreover have "quiet p p1" by (rule quietI(1)) (use refused in simp_all)
    ultimately show ?thesis using refused(3) by (auto simp: writeBadRequest_def intro!: that(1) [of 400])
  next
    case (gone row)
    with h e have "p' = p1" "rep = writeGone sid" by (simp_all add: handle_tool_call_def)
    moreover have "quiet p p1" by (rule quietI(2)) (use gone in simp_all)
    ultimately show ?thesis by (auto simp: writeGone_def intro!: that(1) [of 410])
  next
    case (decided row d1 dn sess')
    let ?c = "engine_call claims sid ps (now_at (n_world N) (px_db p))"
    let ?pol = "policy_for p (session_at p sid claims)"
    have re: "record_and_enforce N r q ps ?c (s_Tainted (session_at p sid claims)) dn sess' ?pol p1 = (p', rep)"
      using h e decided(1) by (simp add: handle_tool_call_def)
    have later: "effects (px_db p) (px_db p1)" "same_views (px_db p) (px_db p1)" "db_audit (px_db p1) = db_audit (px_db p)"
      using decided effects_trans [OF effects_same [OF same_tables_later] decided(4)] by (simp_all add: same_views_def)
    have q1: "quiet p p1" by (rule quietI(2)) (use later decided(10) in simp_all)
    have by1: "decided_by N p sid claims ps ?c dn"
      unfolding decided_by_def using decided(3,5) by (intro exI conjI) auto
    have sid: "tc_SessionID ?c = sid" by (simp add: engine_call_def)
    from re show ?thesis
    proof (cases rule: record_and_enforce_cases)
      case unrecorded
      have "quiet p p'" by (rule quiet_trans [OF q1 quietI(1)]) (use unrecorded in \<open>simp_all add: px_effect_def\<close>)
      with unrecorded(1) show ?thesis by (auto simp: writeBadRequest_def intro!: that(1) [of 400])
    next
      case (recorded row' af)
      have logs: "db_events (px_db p1) = db_events (px_db p)" "db_audit (px_db p1) = db_audit (px_db p)"
        "px_signingKey p1 = px_signingKey p" "px_auditStrict p1 = px_auditStrict p"
        using q1 by (simp_all add: quiet_def same_logs_def same_config_def)
      have seq: "max_seq (px_db p1) sid = max_seq (px_db p) sid" using logs(1) by (simp add: max_seq_def session_rows_def)
      have eff: "effects (px_db p) (px_db p')" "same_config p p'"
        using recorded(4) q1 by (auto simp: px_effect_def quiet_def intro: effects_trans same_config_trans)
      with recorded by1 decided(2) show ?thesis
        by (intro that(2) [where row = row' and af = af]) (simp_all add: sid logs seq)
    qed
  qed
qed

text \<open>When the handler takes the time of a request.\<close>

definition received_at :: "net \<Rightarrow> request \<Rightarrow> proxy \<Rightarrow> int" where
  "received_at N r p = now_at (n_world N) (snd (authenticate (n_world N) (n_keys N) (rq_header r) (px_db p)))"

text \<open>What was decided after authentication was decided on the state before it.\<close>

lemma decided_by_auth:
  assumes "authenticate W K h (px_db p) = (res, d)" "decided_by N (p\<lparr>px_db := d\<rparr>) sid claims ps c dn"
  shows "decided_by N p sid claims ps c dn"
proof -
  note st = auth_step [OF assms(1)]
  from assms(2) obtain t now d1 sess' where c: "c = engine_call claims sid ps t" and v: "same_views d d1"
    and e: "Evaluate (full_stages (n_lib N) (store_backend (n_world N) (n_tools N) d1) now) c (session_at p sid claims)
            (policy_for p (session_at p sid claims)) = (dn, sess')"
    by (auto simp: decided_by_def st(3,4))
  have "same_views (px_db p) d1" by (rule same_views_trans [OF same_viewsI [OF st(1)] v])
  with c e show ?thesis unfolding decided_by_def by blast
qed

text \<open>The outcome of a tool call on the MCP port.\<close>

lemma serve_call_cases:
  assumes inv: "lru_inv (px_polCache p)" and path: "rq_path r \<noteq> ''/health''"
    and call: "tool_call_of N r = Some (q, ps)" "ca_Name ps \<noteq> ''check_escalation_status''"
    and s: "serve N stat r p = (p', rep)"
  obtains (refused) code b where "rep = Reply code b" "code \<in> {400, 401, 410}" "quiet p p'"
  | (recorded) claims c row dn af where "fst (authenticate (n_world N) (n_keys N) (rq_header r) (px_db p)) = Inr claims"
      "session_header r \<noteq> []" "decided_by N p (session_header r) claims ps c dn"
      "\<not> s_Terminated (session_at p (session_header r) claims)"
      "db_events (px_db p') = db_events (px_db p) @ [row]" "call_event (session_header r) ps dn row"
      "ev_seq row = Suc (max_seq (px_db p) (session_header r))" "effects (px_db p) (px_db p')" "same_config p p'"
      "(px_signingKey p = None \<or> af) \<and> db_audit (px_db p') = db_audit (px_db p)
       \<or> \<not> af \<and> (\<exists>key rec. px_signingKey p = Some key
              \<and> call_audited N r c ps dn (policy_for p (session_at p (session_header r) claims)) key row rec
              \<and> db_audit (px_db p') = db_audit (px_db p) @ [row_of_record rec])"
      "rep = Forwarded \<longrightarrow> d_Action dn \<in> {Allow, ShadowDeny} \<and> \<not> (af \<and> px_auditStrict p)"
      "rep \<noteq> Forwarded \<longrightarrow> rep = writeBadRequest ''session state update failed'' \<or> (\<exists>b. rep = Reply 200 b)"
      "rep \<noteq> Forwarded \<longrightarrow> rep = writeBadRequest ''session state update failed'' \<or> d_Action dn \<in> {Deny, Escalate} \<or> (af \<and> px_auditStrict p)"
      "c = engine_call claims (session_header r) ps (received_at N r p)"
proof -
  let ?sid = "session_header r"
  obtain a d where a: "authenticate (n_world N) (n_keys N) (rq_header r) (px_db p) = (a, d)" by fastforce
  note st = auth_step [OF a]
  note sv = serve_tool_call [OF path call(1), of stat p]
  let ?p = "p\<lparr>px_db := d\<rparr>"
  have q0: "quiet p ?p" by (rule quietI(1)) (use st in simp_all)
  show ?thesis
  proof (cases a)
    case (Inl m)
    with s a sv have "p' = ?p" "rep = writeUnauthorized m" by simp_all
    with q0 show ?thesis by (intro refused [of 401]) (auto simp: writeUnauthorized_def)
  next
    case (Inr claims)
    show ?thesis
    proof (cases "?sid = []")
      case True
      with s a sv Inr have "p' = ?p" "rep = writeMissingSessionID" by simp_all
      with q0 show ?thesis by (intro refused [of 400]) (auto simp: writeMissingSessionID_def)
    next
      case False
      from s a sv Inr False call(2) have h: "handle_tool_call N r claims ?sid q ps ?p = (p', rep)" by simp
      have "lru_inv (px_polCache ?p)" using inv by simp
      from this h show ?thesis
      proof (cases rule: handle_tool_call_cases)
        case (refused code b)
        with quiet_trans [OF q0] show ?thesis by (intro that(1) [of code b]) auto
      next
        case (recorded c row dn af)
        have logs: "db_events d = db_events (px_db p)" "db_audit d = db_audit (px_db p)" using st(1) by (simp_all add: same_tables_sel)
        have eff: "effects (px_db p) (px_db p')" "same_config p p'"
          using recorded(6,7) q0 by (auto simp: quiet_def same_config_def intro: effects_trans)
        from recorded decided_by_auth [OF a recorded(1)] eff False a Inr st(3-5) logs show ?thesis
          by (intro that(2) [where row = row and af = af]) (simp_all add: received_at_def)
      qed
    qed
  qed
qed

end
