(* ===== verification/TB_ProxyProps.thy ===== *)
theory TB_ProxyProps
  imports TB_ProxyFacts
begin

text \<open>
  The proxy's promises: complete mediation, one event per call, the audit trail in strict mode,
  refusal of unauthenticated requests and terminated sessions, and what passes unevaluated.
\<close>

text \<open>The proxy answers polls of escalations itself; they touch no table.\<close>

lemma poll_outcome:
  assumes "rq_path r \<noteq> ''/health''" "tool_call_of N r = Some (q, ps)" "ca_Name ps = ''check_escalation_status''"
    "serve N stat r p = (p', rep)"
  shows "\<exists>code b. rep = Reply code b \<and> code \<in> {200, 400, 401}" "same_tables (px_db p) (px_db p')"
proof -
  obtain a d where a: "authenticate (n_world N) (n_keys N) (rq_header r) (px_db p) = (a, d)" by fastforce
  obtain p1 rep1 where e: "escalation_status N q ps (p\<lparr>px_db := d\<rparr>) = (p1, rep1)" by fastforce
  have t: "same_tables (px_db p) d" by (rule auth_step(1) [OF a])
  have "same_tables (px_db p) (px_db p1)" using same_tables_trans [OF t] escalation_status_reply(2) [OF e] by simp
  moreover from escalation_status_reply(1) [OF e] obtain b where "rep1 = Reply 200 b" by blast
  ultimately show "\<exists>code b. rep = Reply code b \<and> code \<in> {200, 400, 401}" "same_tables (px_db p) (px_db p')"
    using serve_tool_call [OF assms(1,2), of stat p] assms(3,4) a e t
    by (auto simp: writeUnauthorized_def writeMissingSessionID_def split: sum.splits if_splits)
qed

lemma virtual_tool_not_forwarded:
  assumes "rq_path r \<noteq> ''/health''" "tool_call_of N r = Some (q, ps)" "ca_Name ps = ''check_escalation_status''"
    "serve N stat r p = (p', rep)"
  shows "rep \<noteq> Forwarded"
  using poll_outcome(1) [OF assms] by auto

text \<open>Only the rate limit looks at the time, and it takes the call's own.\<close>

lemma permitted_received:
  assumes "permitted L hist approvals scope now pol (engine_call claims sid ps t) sess"
  shows "permitted L hist approvals scope t pol (engine_call claims sid ps t) sess"
proof -
  have at: "call_time now (engine_call claims sid ps t) = call_time t (engine_call claims sid ps t)"
    by (simp add: call_time_def engine_call_def)
  show ?thesis using assms unfolding permitted_def rate_ok_def at .
qed

section \<open>A sample proxy\<close>

text \<open>A body \<open>read\<close> or \<open>wire\<close> is a call of that tool, \<open>list\<close> another method, anything else malformed.\<close>

definition sample_net :: net where
  "sample_net =
     \<lparr>n_world = sample_world, n_crypto = sample_crypto UNIV, n_keys = sample_keylib,
      n_request = (\<lambda>b. if b \<in> {''read'', ''wire''} then
           Inr \<lparr>mq_JSONRPC = ''2.0'', mq_ID = ''1'', mq_Method = ''tools/call'', mq_Params = b\<rparr>
         else if b = ''list'' then Inr \<lparr>mq_JSONRPC = ''2.0'', mq_ID = ''1'', mq_Method = ''tools/list'', mq_Params = []\<rparr>
         else if b = ''old'' then Inr \<lparr>mq_JSONRPC = ''1.0'', mq_ID = ''1'', mq_Method = ''tools/call'', mq_Params = ''wire''\<rparr>
         else Inl (errorf ''json'')),
      n_params = (\<lambda>raw. Inr \<lparr>ca_Name = raw, ca_Arguments = ''5''\<rparr>),
      n_tools = (\<lambda>_. Inr []), n_body_field = (\<lambda>_ b. Decoded b), n_rfc3339 = (\<lambda>_. ''t''), n_trace_error = (\<lambda>_. None)\<rparr>"

definition sample_db :: db where
  "sample_db = empty_db\<lparr>db_agents := [sample_agent]\<rparr>"

definition sample_proxy :: proxy where
  "sample_proxy = new_proxy sample_db sample_gate ''tb.db'' (Some ''priv'')"

definition sample_request :: "string \<Rightarrow> request" where
  "sample_request body = \<lparr>rq_path = ''/mcp'', rq_header = sample_header, rq_body = Some (Inr body)\<rparr>"

lemma sample_proxy_cache [simp]: "lru_inv (px_polCache sample_proxy)"
  by (simp add: sample_proxy_def new_proxy_def lru.put_inv lruCapacity_def)

lemma sample_call_of [simp]:
  "tool_call_of sample_net (sample_request ''read'') =
     Some (\<lparr>mq_JSONRPC = ''2.0'', mq_ID = ''1'', mq_Method = ''tools/call'', mq_Params = ''read''\<rparr>, \<lparr>ca_Name = ''read'', ca_Arguments = ''5''\<rparr>)"
  "tool_call_of sample_net (sample_request ''wire'') =
     Some (\<lparr>mq_JSONRPC = ''2.0'', mq_ID = ''1'', mq_Method = ''tools/call'', mq_Params = ''wire''\<rparr>, \<lparr>ca_Name = ''wire'', ca_Arguments = ''5''\<rparr>)"
  by code_simp+

lemma sample_policy_for: "policy_for sample_proxy sess = sample_gate"
proof -
  have "lru_abs (px_polCache sample_proxy) = [([], sample_gate)]" by code_simp
  moreover have "px_livePol sample_proxy = sample_gate" by (simp add: sample_proxy_def new_proxy_def)
  ultimately show ?thesis by (simp add: policy_for_def lru_look_def)
qed

lemma sample_wf: "\<forall>sess. wf_policy (policy_for sample_proxy sess)"
proof -
  have "wf_policy sample_gate" by code_simp
  then show ?thesis by (simp add: sample_policy_for)
qed

lemma sample_path [simp]: "rq_path (sample_request b) \<noteq> ''/health''"
  by (simp add: sample_request_def)

lemma sample_runs_proxy:
  "snd (serve sample_net (\<lambda>_. True) (sample_request ''read'') sample_proxy) = Forwarded"
  "snd (serve sample_net (\<lambda>_. True) (sample_request ''read'') (SetAuditStrict True sample_proxy)) = Forwarded"
  by code_simp+

lemma sample_serve: "snd (serve N stat r p) = rep \<Longrightarrow> serve N stat r p = (fst (serve N stat r p), rep)"
  by (metis prod.collapse)

definition sample_closed :: db where
  "sample_closed = snd (TerminateSession sample_world ''s1'' (snd (CreateSession sample_world ''s1'' ''pay'' [] sample_db)))"

section \<open>Properties\<close>

text \<open>C1: Complete mediation. A tool call that reaches the upstream server came with valid credentials
  and a session header, belongs to a session that is not terminated, and is permitted by the policy
  version the session is bound to: the call of this request, with the agent, parent, environment, tools
  and arguments it came with, at the time it was received, given the history, approvals and agent scopes
  stored when it arrived; or the policy's effective mode for the tool is shadow. Its execution is
  recorded as exactly one new event, with decision \<open>allow\<close> or \<open>shadow_deny\<close> and the next sequence
  number, whatever database statements failed.\<close>

theorem forwarded_calls_are_permitted:
  assumes "lru_inv (px_polCache p)" "rq_path r \<noteq> ''/health''" "tool_call_of N r = Some (q, ps)"
    "serve N stat r p = (p', Forwarded)"
    "\<forall>sess. wf_policy (policy_for p sess)"
  shows "\<exists>claims sess pol row.
      fst (authenticate (n_world N) (n_keys N) (rq_header r) (px_db p)) = Inr claims
    \<and> session_header r \<noteq> [] \<and> sess = session_at p (session_header r) claims \<and> \<not> s_Terminated sess
    \<and> pol = policy_for p sess
    \<and> (permitted (n_lib N) (store_hist (px_db p)) (store_approvals (n_lib N) (px_db p)) (store_scope (n_tools N) (px_db p))
         (received_at N r p) pol (engine_call claims (session_header r) ps (received_at N r p)) sess
       \<or> effectiveMode pol (ca_Name ps) = EnforcementShadow)
    \<and> db_events (px_db p') = db_events (px_db p) @ [row] \<and> ev_decision row \<in> {''allow'', ''shadow_deny''}
    \<and> ev_session_id row = session_header r \<and> ev_tool_name row = ca_Name ps
    \<and> ev_seq row = Suc (max_seq (px_db p) (session_header r))"
proof (cases "ca_Name ps = ''check_escalation_status''")
  case True
  with virtual_tool_not_forwarded [OF assms(2,3) _ assms(4)] show ?thesis by simp
next
  case False
  from assms(1-3) False assms(4) show ?thesis
  proof (cases rule: serve_call_cases)
    case (recorded claims c row dn af)
    let ?sess = "session_at p (session_header r) claims"
    from recorded have dn: "d_Action dn \<in> {Allow, ShadowDeny}" by blast
    have wf: "wf_policy (policy_for p ?sess)" using assms(5) by blast
    from decided_executes [OF recorded(3) dn wf] permitted_received
    have "permitted (n_lib N) (store_hist (px_db p)) (store_approvals (n_lib N) (px_db p)) (store_scope (n_tools N) (px_db p))
         (received_at N r p) (policy_for p ?sess) (engine_call claims (session_header r) ps (received_at N r p)) ?sess
       \<or> effectiveMode (policy_for p ?sess) (ca_Name ps) = EnforcementShadow"
      unfolding recorded(14) by blast
    then show ?thesis
      by (intro exI [of _ claims] exI [of _ ?sess] exI [of _ "policy_for p ?sess"] exI [of _ row] conjI refl)
        (use recorded dn in \<open>auto simp: call_event_def\<close>)
  qed simp
qed

lemma forwarded_calls_are_permitted_witness:
  "\<exists>row. db_events (px_db (fst (serve sample_net (\<lambda>_. True) (sample_request ''read'') sample_proxy)))
     = db_events (px_db sample_proxy) @ [row] \<and> ev_tool_name row = ''read'' \<and> ev_session_id row = ''s1''"
  using forwarded_calls_are_permitted [OF sample_proxy_cache sample_path sample_call_of(1)
      sample_serve [OF sample_runs_proxy(1)] sample_wf]
  by (auto simp: session_header_def sample_request_def sample_header_def)

text \<open>C7: At most one event per call. A tool call on the MCP endpoint has one of three outcomes. It is refused
  with status 400, 401 or 410, and leaves the event log and the audit log as they were. Or it is a
  \<open>check_escalation_status\<close> poll, which the proxy answers itself with status 200, and again leaves both logs.
  Or it is another tool's call and adds exactly one event, which holds the
  call's session, tool, arguments, decision and rule, and then the reply agrees with the decision:
  an allowed or shadow-denied call is forwarded unless strict auditing stops it or the taint update
  fails, any other is answered with status 200.\<close>

theorem one_event_per_call:
  assumes "lru_inv (px_polCache p)" "rq_path r \<noteq> ''/health''" "tool_call_of N r = Some (q, ps)"
    "serve N stat r p = (p', rep)"
  shows "(\<exists>code b. rep = Reply code b \<and> (code \<in> {400, 401, 410} \<or> code = 200 \<and> ca_Name ps = ''check_escalation_status'')
        \<and> db_events (px_db p') = db_events (px_db p) \<and> db_audit (px_db p') = db_audit (px_db p))
    \<or> ca_Name ps \<noteq> ''check_escalation_status''
      \<and> (\<exists>row dn. db_events (px_db p') = db_events (px_db p) @ [row] \<and> call_event (session_header r) ps dn row
        \<and> (if rep = Forwarded then d_Action dn \<in> {Allow, ShadowDeny}
           else rep = writeBadRequest ''session state update failed''
             \<or> (\<exists>b. rep = Reply 200 b) \<and> (d_Action dn \<in> {Deny, Escalate} \<or> px_auditStrict p)))"
proof (cases "ca_Name ps = ''check_escalation_status''")
  case True
  from poll_outcome [OF assms(2,3) True assms(4)] True show ?thesis by (auto simp: same_tables_sel)
next
  case False
  from assms(1-3) False assms(4) show ?thesis
  proof (cases rule: serve_call_cases)
    case (refused code b)
    then show ?thesis by (auto simp: quiet_def same_logs_def)
  next
    case (recorded claims c row dn af)
    with False show ?thesis by (intro disjI2 conjI exI [of _ row] exI [of _ dn]) (auto simp: writeBadRequest_def)
  qed
qed

lemma one_event_per_call_witness:
  "\<exists>row. db_events (px_db (fst (serve sample_net (\<lambda>_. True) (sample_request ''read'') sample_proxy)))
     = db_events (px_db sample_proxy) @ [row] \<and> ev_decision row \<in> {''allow'', ''shadow_deny''}"
  using one_event_per_call [OF sample_proxy_cache sample_path sample_call_of(1) sample_serve [OF sample_runs_proxy(1)]]
  by (auto simp: call_event_def)

text \<open>C9: With strict auditing and a signing key, nothing reaches the upstream server unaudited: a
  forwarded tool call has added exactly one audit record, signed with the proxy's key, which holds
  the call's session, agent, tool, arguments hash, decision, policy fingerprint, trace id and
  delegation chain, and the sequence number of its event.\<close>

theorem strict_audit_sound:
  assumes "lru_inv (px_polCache p)" "rq_path r \<noteq> ''/health''" "tool_call_of N r = Some (q, ps)"
    "serve N stat r p = (p', Forwarded)"
    "px_auditStrict p" "px_signingKey p = Some key"
  shows "\<exists>rec row. db_audit (px_db p') = db_audit (px_db p) @ [row_of_record rec]
    \<and> db_events (px_db p') = db_events (px_db p) @ [row]
    \<and> ev_session_id row = session_header r \<and> ev_tool_name row = ca_Name ps
    \<and> r_Seq rec = ev_seq row \<and> r_SessionID rec = ev_session_id row \<and> r_ToolName rec = ev_tool_name row
    \<and> r_Decision rec = ev_decision row \<and> r_ArgumentsSHA256 rec = l_sha256_hex (n_lib N) (ca_Arguments ps)
    \<and> r_ClientTraceID rec = ExtractClientTraceID (rq_header r)
    \<and> (\<exists>claims. fst (authenticate (n_world N) (n_keys N) (rq_header r) (px_db p)) = Inr claims
         \<and> r_AgentName rec = cl_AgentName claims
         \<and> r_DelegationChain rec = buildDelegationChain (cl_ParentAgent claims) (cl_AgentName claims)
         \<and> r_PolicyFingerprint rec = p_Fingerprint (policy_for p (session_at p (session_header r) claims)))
    \<and> (\<exists>unsigned. Sign (n_lib N) (n_crypto N) unsigned key = Inr rec)"
proof -
  have virtual: "ca_Name ps \<noteq> ''check_escalation_status''" using virtual_tool_not_forwarded [OF assms(2,3) _ assms(4)] by blast
  from assms(1-3) virtual assms(4) show ?thesis
  proof (cases rule: serve_call_cases)
    case (recorded claims c row dn af)
    with assms(5,6) obtain rec where au: "call_audited N r c ps dn (policy_for p (session_at p (session_header r) claims)) key row rec"
      "db_audit (px_db p') = db_audit (px_db p) @ [row_of_record rec]" by auto
    from recorded(3) have c: "tc_SessionID c = session_header r" "tc_AgentName c = cl_AgentName claims"
      "tc_ParentAgent c = cl_ParentAgent claims" by (auto simp: decided_by_def engine_call_def)
    from au(1) obtain d where sg: "Sign (n_lib N) (n_crypto N) (audit_record N r (session_header r) (cl_AgentName claims)
        (cl_ParentAgent claims) (ca_Name ps) (ca_Arguments ps) (ev_seq row) dn
        (p_Fingerprint (policy_for p (session_at p (session_header r) claims))) d) key = Inr rec"
      by (auto simp: call_audited_def c)
    from recorded(6) have ev: "ev_session_id row = session_header r" "ev_tool_name row = ca_Name ps"
      "ev_decision row = action_str (d_Action dn)" by (simp_all add: call_event_def)
    have rec: "rec = (audit_record N r (session_header r) (cl_AgentName claims)
        (cl_ParentAgent claims) (ca_Name ps) (ca_Arguments ps) (ev_seq row) dn
        (p_Fingerprint (policy_for p (session_at p (session_header r) claims))) d)\<lparr>r_Signature := r_Signature rec\<rparr>"
      using sg by (auto simp: Sign_def canonicalJSON_def)
    have f: "r_Seq rec = ev_seq row" "r_SessionID rec = ev_session_id row" "r_ToolName rec = ev_tool_name row"
      "r_Decision rec = ev_decision row" "r_ArgumentsSHA256 rec = l_sha256_hex (n_lib N) (ca_Arguments ps)"
      "r_ClientTraceID rec = ExtractClientTraceID (rq_header r)" "r_AgentName rec = cl_AgentName claims"
      "r_DelegationChain rec = buildDelegationChain (cl_ParentAgent claims) (cl_AgentName claims)"
      "r_PolicyFingerprint rec = p_Fingerprint (policy_for p (session_at p (session_header r) claims))"
      by (subst rec; simp add: audit_record_def Let_def ev)+
    show ?thesis using au(2) recorded(1,5) sg f ev by blast
  qed simp
qed

lemma strict_audit_sound_witness:
  "\<exists>rec. db_audit (px_db (fst (serve sample_net (\<lambda>_. True) (sample_request ''read'') (SetAuditStrict True sample_proxy))))
     = db_audit (px_db (SetAuditStrict True sample_proxy)) @ [row_of_record rec] \<and> r_ArgumentsSHA256 rec = ''h5''"
proof -
  have c: "lru_inv (px_polCache (SetAuditStrict True sample_proxy))" "px_auditStrict (SetAuditStrict True sample_proxy)"
    "px_signingKey (SetAuditStrict True sample_proxy) = Some ''priv''"
    using sample_proxy_cache by (simp_all add: SetAuditStrict_def) (simp add: sample_proxy_def new_proxy_def)
  have h: "l_sha256_hex (n_lib sample_net) ''5'' = ''h5''" by code_simp
  from strict_audit_sound [OF c(1) sample_path sample_call_of(1) sample_serve [OF sample_runs_proxy(2)] c(2,3)]
  show ?thesis using h by auto
qed

text \<open>No credentials, no effect. A request other than a health check that fails authentication is
  answered 401 with the reason, tool call or not; the database tables, the policies and the cache stay
  as they were, and nothing is forwarded.\<close>

theorem unauthenticated_refused:
  assumes "fst (authenticate (n_world N) (n_keys N) (rq_header r) (px_db p)) = Inl m" "rq_path r \<noteq> ''/health''"
  shows "snd (serve N stat r p) = writeUnauthorized m
    \<and> same_tables (px_db p) (px_db (fst (serve N stat r p)))
    \<and> fst (serve N stat r p) = p\<lparr>px_db := px_db (fst (serve N stat r p))\<rparr>"
proof -
  obtain d where a: "authenticate (n_world N) (n_keys N) (rq_header r) (px_db p) = (Inl m, d)"
    using assms(1) by (metis prod.collapse)
  have "same_tables (px_db p) d" using auth_step(1) [OF a] .
  with a assms(2) show ?thesis by (simp add: serve_def AuthMiddleware_def)
qed

lemma unauthenticated_refused_witness:
  "snd (serve sample_net (\<lambda>_. True) ((sample_request ''read'')\<lparr>rq_header := \<lambda>_. []\<rparr>) sample_proxy)
     = writeUnauthorized ''missing Authorization header''"
proof -
  let ?r = "(sample_request ''read'')\<lparr>rq_header := \<lambda>_. []\<rparr>"
  have "fst (authenticate (n_world sample_net) (n_keys sample_net) (rq_header ?r) (px_db sample_proxy)) = Inl ''missing Authorization header''"
    by (simp add: authenticate_def bearerToken_def Let_def)
  moreover have "rq_path ?r \<noteq> ''/health''" by (simp add: sample_request_def)
  ultimately show ?thesis using unauthenticated_refused by blast
qed

text \<open>A terminated session is closed. A tool call on it is refused with status 400, 401 or 410, never
  evaluated, forwarded or recorded, whatever the policy says; only a \<open>check_escalation_status\<close> poll is still
  answered, and it leaves no trace either.\<close>

theorem terminated_session_refused:
  assumes "lru_inv (px_polCache p)" "rq_path r \<noteq> ''/health''" "tool_call_of N r = Some (q, ps)"
    "find_session (px_db p) (session_header r) = Some row" "sr_Terminated row"
    "serve N stat r p = (p', rep)"
  shows "(\<exists>code b. rep = Reply code b \<and> (code \<in> {400, 401, 410} \<or> code = 200 \<and> ca_Name ps = ''check_escalation_status''))
    \<and> db_events (px_db p') = db_events (px_db p) \<and> db_audit (px_db p') = db_audit (px_db p)"
proof (cases "ca_Name ps = ''check_escalation_status''")
  case True
  from poll_outcome [OF assms(2,3) True assms(6)] True show ?thesis by (auto simp: same_tables_sel)
next
  case False
  from assms(1-3) False assms(6) show ?thesis
  proof (cases rule: serve_call_cases)
    case (refused code b)
    then show ?thesis by (auto simp: quiet_def same_logs_def)
  next
    case (recorded claims c row' dn af)
    have "s_Terminated (session_at p (session_header r) claims)"
      using assms(4,5) by (simp add: session_at_def session_of_row_def)
    with recorded(4) show ?thesis by simp
  qed
qed

lemma terminated_session_refused_witness:
  "db_events (px_db (fst (serve sample_net (\<lambda>_. True) (sample_request ''read'') (sample_proxy\<lparr>px_db := sample_closed\<rparr>))))
     = db_events sample_closed"
proof -
  let ?p = "sample_proxy\<lparr>px_db := sample_closed\<rparr>"
  have c: "lru_inv (px_polCache ?p)" using sample_proxy_cache by simp
  have "map_option sr_Terminated (find_session (px_db ?p) (session_header (sample_request ''read''))) = Some True" by code_simp
  then obtain row where row: "find_session (px_db ?p) (session_header (sample_request ''read'')) = Some row" "sr_Terminated row"
    by auto
  from terminated_session_refused [OF c sample_path sample_call_of(1) row prod.collapse [symmetric]]
  show ?thesis by simp
qed

text \<open>What is not a JSON-RPC 2.0 \<open>tools/call\<close> is not governed. An authenticated request whose body
  does not parse as one is forwarded unevaluated and unrecorded, a \<open>tools/call\<close> marked with another
  protocol version included.\<close>

theorem other_traffic_forwarded:
  assumes "authenticate (n_world N) (n_keys N) (rq_header r) (px_db p) = (Inr claims, d)" "rq_path r \<noteq> ''/health''"
    "rq_body r = Some (Inr body)" "\<not> isToolCall N body"
  shows "serve N stat r p = (p\<lparr>px_db := d\<rparr>, Forwarded) \<and> same_tables (px_db p) d"
  using assms auth_step(1) [OF assms(1)]
  by (simp add: serve_def AuthMiddleware_def SessionMiddleware_def handleMCP_def Let_def)

lemma other_traffic_forwarded_witness:
  "snd (serve sample_net (\<lambda>_. True) (sample_request ''old'') sample_proxy) = Forwarded"
proof -
  obtain a d where a: "authenticate (n_world sample_net) (n_keys sample_net) (rq_header (sample_request ''old'')) (px_db sample_proxy) = (a, d)"
    by fastforce
  have "fst (authenticate (n_world sample_net) (n_keys sample_net) (rq_header (sample_request ''old'')) (px_db sample_proxy))
      = Inr (sample_claims ''pay'')" by code_simp
  with a have a': "authenticate (n_world sample_net) (n_keys sample_net) (rq_header (sample_request ''old'')) (px_db sample_proxy)
      = (Inr (sample_claims ''pay''), d)" by simp
  have b: "rq_body (sample_request ''old'') = Some (Inr ''old'')" by (simp add: sample_request_def)
  have "\<not> isToolCall sample_net ''old''" by code_simp
  from other_traffic_forwarded [OF a' sample_path b this] show ?thesis by simp
qed

end
