(* ===== verification/TB_LintFacts.thy ===== *)
theory TB_LintFacts
  imports TB_Lint
begin

text \<open>
  Facts about the linter. The search of L013 is proved total on its fuel, sound (the path it
  reports is a cycle of the \<open>only_after\<close> graph) and complete (it reports none only when the graph
  is acyclic); from these follow the properties of \<open>Lint\<close>: independence of the map order, and what
  a policy without lint errors can no longer do at run time.
\<close>

section \<open>The graph\<close>

definition edges :: "(string \<Rightarrow> string list) \<Rightarrow> (string \<times> string) set" where
  "edges adj = {(u, v). v \<in> set (adj u)}"

definition walk :: "(string \<Rightarrow> string list) \<Rightarrow> string list \<Rightarrow> bool" where
  "walk adj path = successively (\<lambda>u v. v \<in> set (adj u)) path"

definition closed_walk :: "(string \<Rightarrow> string list) \<Rightarrow> string list \<Rightarrow> bool" where
  "closed_walk adj cp = (2 \<le> length cp \<and> hd cp = last cp \<and> walk adj cp)"

lemma walk_snoc: "walk adj (path @ [v]) \<longleftrightarrow> walk adj path \<and> (path = [] \<or> v \<in> set (adj (last path)))"
  by (auto simp: walk_def successively_append_iff)

lemma from_first_suffix: "v \<in> set path \<Longrightarrow> \<exists>pre. path = pre @ from_first v path"
  by (metis from_first_def takeWhile_dropWhile_id)

lemma from_first_hd:
  assumes "v \<in> set path"
  shows "from_first v path \<noteq> []" "hd (from_first v path) = v" "last (from_first v path) = last path"
proof -
  have ne: "dropWhile (\<lambda>n. n \<noteq> v) path \<noteq> []" using assms by auto
  then show "from_first v path \<noteq> []" "hd (from_first v path) = v"
    using assms hd_dropWhile [OF ne] by (auto simp: from_first_def)
  then show "last (from_first v path) = last path"
    using from_first_suffix [OF assms] by (metis last_appendR)
qed

lemma closed_walk_from_first:
  assumes "walk adj path" "v \<in> set path" "v \<in> set (adj (last path))"
  shows "closed_walk adj (from_first v path @ [v])"
proof -
  note f = from_first_hd [OF assms(2)]
  have "walk adj (from_first v path)"
    using from_first_suffix [OF assms(2)] assms(1) by (metis walk_def successively_append_iff)
  with assms f have "walk adj (from_first v path @ [v])" by (simp add: walk_snoc)
  with f show ?thesis by (cases "from_first v path") (auto simp: closed_walk_def)
qed

lemma walk_trancl: "walk adj (u # v # path) \<Longrightarrow> (u, last (v # path)) \<in> (edges adj)\<^sup>+"
proof (induction path arbitrary: u v)
  case Nil
  then show ?case by (auto simp: walk_def edges_def)
next
  case (Cons w path)
  then have "(u, v) \<in> edges adj" "walk adj (v # w # path)" by (simp_all add: walk_def edges_def)
  with Cons.IH [of v w] show ?case by (simp add: trancl_into_trancl2)
qed

lemma closed_walk_cycle:
  assumes "closed_walk adj cp"
  shows "(hd cp, hd cp) \<in> (edges adj)\<^sup>+"
proof -
  from assms obtain u v path where "cp = u # v # path"
    by (cases cp rule: remdups_adj.cases) (auto simp: closed_walk_def)
  moreover with assms walk_trancl [of adj u v path] have "(u, last (v # path)) \<in> (edges adj)\<^sup>+"
    by (simp only: closed_walk_def)
  ultimately show ?thesis using assms by (simp only: closed_walk_def list.sel last.simps if_False list.distinct)
qed

section \<open>The invariant of the search\<close>

text \<open>
  Gray nodes are the stack, which is a walk; black nodes only reach black nodes and lie on no
  cycle.
\<close>

definition search_inv :: "(string \<Rightarrow> string list) \<Rightarrow> string list \<Rightarrow> (string \<Rightarrow> Color) \<Rightarrow> bool" where
  "search_inv adj path color =
     ((\<forall>n. color n = Gray \<longleftrightarrow> n \<in> set path) \<and> distinct path \<and> walk adj path
      \<and> (\<forall>u. color u = Black \<longrightarrow> (\<forall>v \<in> set (adj u). color v = Black) \<and> (u, u) \<notin> (edges adj)\<^sup>+))"

definition progress :: "(string \<Rightarrow> Color) \<Rightarrow> (string \<Rightarrow> Color) \<Rightarrow> bool" where
  "progress c c' = (\<forall>u. (c u = Black \<longrightarrow> c' u = Black) \<and> (c' u = White \<longrightarrow> c u = White))"

lemma progress_refl [simp]: "progress c c"
  by (simp add: progress_def)

lemma progress_trans: "progress a b \<Longrightarrow> progress b c \<Longrightarrow> progress a c"
  unfolding progress_def by blast

definition whites :: "string set \<Rightarrow> (string \<Rightarrow> Color) \<Rightarrow> nat" where
  "whites N c = card {n \<in> N. c n = White}"

lemma whites_progress:
  assumes "finite N" "progress c c'"
  shows "whites N c' \<le> whites N c"
proof -
  have "{n \<in> N. c' n = White} \<subseteq> {n \<in> N. c n = White}"
    using assms(2) unfolding progress_def by blast
  with assms(1) show ?thesis by (simp add: whites_def card_mono)
qed

lemma whites_gray:
  assumes "finite N" "n \<in> N" "c n = White"
  shows "Suc (whites N (c(n := Gray))) = whites N c"
proof -
  let ?W = "{m \<in> N. (c(n := Gray)) m = White}"
  have e: "{m \<in> N. c m = White} = insert n ?W"
    using assms(2,3) by (simp add: set_eq_iff)
  have "card (insert n ?W) = Suc (card ?W)"
    by (rule card_insert_disjoint) (use assms(1) in simp_all)
  then show ?thesis unfolding whites_def e by (rule sym)
qed

lemma whites_pos: "finite N \<Longrightarrow> n \<in> N \<Longrightarrow> c n = White \<Longrightarrow> 0 < whites N c"
  using whites_gray [of N n c] by simp

text \<open>A set closed under successors is closed under reachability.\<close>

lemma closed_trancl:
  "(u, v) \<in> (edges adj)\<^sup>+ \<Longrightarrow> color u = Black \<Longrightarrow>
   \<forall>u. color u = Black \<longrightarrow> (\<forall>v \<in> set (adj u). color v = Black) \<Longrightarrow> color v = Black"
  by (induction rule: trancl_induct) (auto simp: edges_def)

lemma finish_node:
  assumes inv: "search_inv adj (path @ [node]) color" and succ: "\<forall>v \<in> set (adj node). color v = Black"
  shows "search_inv adj path (color(node := Black))"
proof -
  from inv have cl: "\<forall>u. color u = Black \<longrightarrow> (\<forall>v \<in> set (adj u). color v = Black)"
    and gray: "color node = Gray" and d: "node \<notin> set path"
    by (auto simp: search_inv_def)
  have "(node, node) \<notin> (edges adj)\<^sup>+"
  proof
    assume "(node, node) \<in> (edges adj)\<^sup>+"
    then obtain v where v: "(node, v) \<in> edges adj" "v = node \<or> (v, node) \<in> (edges adj)\<^sup>+"
      by (meson converse_tranclE)
    then have "color v = Black" using succ by (simp add: edges_def)
    with v(2) cl gray closed_trancl [of v node adj color] show False by auto
  qed
  moreover have "walk adj path" using inv by (simp add: search_inv_def walk_snoc)
  ultimately show ?thesis using inv succ d cl by (auto simp: search_inv_def)
qed

text \<open>What a call promises: it returns, with a cycle or with the node finished.\<close>

definition search_post ::
    "(string \<Rightarrow> string list) \<Rightarrow> string list \<Rightarrow> string \<Rightarrow> (string \<Rightarrow> Color)
     \<Rightarrow> ((string \<Rightarrow> Color) \<times> string list option) option \<Rightarrow> bool" where
  "search_post adj path node color r =
     (case r of
        None \<Rightarrow> False
      | Some (color', Some cp) \<Rightarrow> closed_walk adj cp
      | Some (color', None) \<Rightarrow> search_inv adj path color' \<and> color' node = Black \<and> progress color color')"

lemma search_inv_start:
  assumes "search_inv adj path color" "color node = White" "path = [] \<or> node \<in> set (adj (last path))"
  shows "search_inv adj (path @ [node]) (color(node := Gray))"
proof -
  have "color node = Gray" if "node \<in> set path" using assms(1) that unfolding search_inv_def by blast
  then have "node \<notin> set path" using assms(2) by auto
  with assms show ?thesis by (auto simp: search_inv_def walk_snoc)
qed

lemma search_post_simps [simp]:
  "\<not> search_post adj path node color None"
  "search_post adj path node color (Some (c, Some cp)) = closed_walk adj cp"
  "search_post adj path node color (Some (c, None)) =
     (search_inv adj path c \<and> c node = Black \<and> progress color c)"
  by (simp_all add: search_post_def)

lemma search_post_progress:
  "search_post adj path node c' r \<Longrightarrow> progress c c' \<Longrightarrow> search_post adj path node c r"
  by (auto simp: search_post_def split: option.splits intro: progress_trans)

definition closed_nodes :: "string set \<Rightarrow> (string \<Rightarrow> string list) \<Rightarrow> bool" where
  "closed_nodes N adj = (finite N \<and> (\<forall>u \<in> N. set (adj u) \<subseteq> N))"

lemma dfs_correct:
  shows "closed_nodes N adj \<Longrightarrow> search_inv adj path color \<Longrightarrow> color node = White \<Longrightarrow> node \<in> N \<Longrightarrow>
      path = [] \<or> node \<in> set (adj (last path)) \<Longrightarrow> whites N color \<le> k \<Longrightarrow>
      search_post adj path node color (dfs adj k node path color)"
    and "closed_nodes N adj' \<Longrightarrow> search_inv adj' path' color' \<Longrightarrow> path' = p @ [node'] \<Longrightarrow> node' \<in> N \<Longrightarrow>
      adj' node' = done_ns @ ns \<Longrightarrow> (\<forall>v \<in> set done_ns. color' v = Black) \<Longrightarrow> whites N color' \<le> k' \<Longrightarrow>
      search_post adj' p node' color' (dfs_loop adj' k' node' path' ns color')"
proof (induction adj k node path color and adj' k' node' path' ns color'
    arbitrary: and p done_ns rule: dfs_dfs_loop.induct)
  case (1 adj node path color)
  with whites_pos [of N node color] show ?case by (simp add: closed_nodes_def)
next
  case (2 adj k node path color)
  have start: "search_inv adj (path @ [node]) (color(node := Gray))"
    using 2 by (intro search_inv_start) auto
  have "whites N (color(node := Gray)) \<le> k"
    using whites_gray [of N node color] 2 by (simp add: closed_nodes_def)
  with 2(2) \<open>node \<in> N\<close> have post:
    "search_post adj path node (color(node := Gray)) (dfs_loop adj k node (path @ [node]) (adj node) (color(node := Gray)))"
    by (intro 2(1) [OF _ start refl, of "[]"]) (simp_all del: fun_upd_apply)
  have "color node = White" by fact
  then have "progress color (color(node := Gray))" by (simp add: progress_def)
  from search_post_progress [OF post this] show ?case by simp
next
  case (3 adj k node path color)
  then have "search_inv adj p (color(node := Black))" by (intro finish_node) auto
  then show ?case by (simp add: progress_def)
next
  case (4 adj k node path neighbor rest color)
  have edge: "neighbor \<in> set (adj (last path))" using 4 by simp
  show ?case
  proof (cases "color neighbor")
    case Gray
    then have "neighbor \<in> set path" using 4(5) by (simp add: search_inv_def)
    with 4(5) edge have "closed_walk adj (from_first neighbor path @ [neighbor])"
      by (intro closed_walk_from_first) (auto simp: search_inv_def)
    with Gray show ?thesis by simp
  next
    case White
    have "neighbor \<in> set (adj node)" using 4(8) by simp
    with 4(4,7) have "neighbor \<in> N" by (auto simp: closed_nodes_def)
    have sub: "search_post adj path neighbor color (dfs adj k neighbor path color)"
      using White edge 4(4-7,10) \<open>neighbor \<in> N\<close> by (intro 4(1)) simp_all
    show ?thesis
    proof (cases "dfs adj k neighbor path color")
      case None
      with sub show ?thesis by simp
    next
      case (Some r)
      obtain c' res where r: "r = (c', res)" by (cases r)
      show ?thesis
      proof (cases res)
        case None
        with sub Some r have s: "search_inv adj path c'" "c' neighbor = Black" "progress color c'" by simp_all
        have "\<forall>v \<in> set (done_ns @ [neighbor]). c' v = Black"
          using s 4(9) by (auto simp: progress_def)
        moreover have "whites N c' \<le> k" using whites_progress [OF _ s(3), of N] 4(4,10) by (simp add: closed_nodes_def)
        ultimately have "search_post adj p node c' (dfs_loop adj k node path rest c')"
          using 4(4,6,7,8) s(1) White Some r None by (intro 4(2) [where done_ns = "done_ns @ [neighbor]"]) simp_all
        with search_post_progress [OF this s(3)] White Some r None show ?thesis by simp
      next
        case (Some cp)
        with sub \<open>dfs adj k neighbor path color = Some r\<close> r White show ?thesis by simp
      qed
    qed
  next
    case Black
    then show ?thesis using 4 by (auto intro!: 4(3) [where done_ns = "done_ns @ [neighbor]"])
  qed
qed

lemma dfs_all_correct:
  assumes N: "closed_nodes N adj"
  shows "search_inv adj [] color \<Longrightarrow> set nodes \<subseteq> N \<Longrightarrow> whites N color \<le> k \<Longrightarrow>
    \<exists>r. dfs_all adj k nodes color = Some r
      \<and> (case r of Some cp \<Rightarrow> closed_walk adj cp | None \<Rightarrow> \<forall>n \<in> set nodes. (n, n) \<notin> (edges adj)\<^sup>+)"
proof (induction nodes arbitrary: color)
  case (Cons node nodes)
  show ?case
  proof (cases "color node = White")
    case True
    have post: "search_post adj [] node color (dfs adj k node [] color)"
      using N Cons.prems True by (intro dfs_correct(1)) simp_all
    show ?thesis
    proof (cases "dfs adj k node [] color")
      case None
      with post show ?thesis by simp
    next
      case (Some r)
      obtain c' res where r: "r = (c', res)" by (cases r)
      show ?thesis
      proof (cases res)
        case None
        with post Some r have s: "search_inv adj [] c'" "c' node = Black" "progress color c'" by simp_all
        have "whites N c' \<le> k"
          using whites_progress [OF _ s(3), of N] N Cons.prems(3) by (simp add: closed_nodes_def)
        with Cons.IH [OF s(1)] Cons.prems(2) obtain r' where r': "dfs_all adj k nodes c' = Some r'"
          "case r' of Some cp \<Rightarrow> closed_walk adj cp | None \<Rightarrow> \<forall>n \<in> set nodes. (n, n) \<notin> (edges adj)\<^sup>+"
          by auto
        have "(node, node) \<notin> (edges adj)\<^sup>+" using s(1,2) by (simp add: search_inv_def)
        with r' Some True r None show ?thesis by (auto split: option.splits)
      next
        case (Some cp)
        with post \<open>dfs adj k node [] color = Some r\<close> r True show ?thesis by simp
      qed
    qed
  next
    case False
    with Cons.prems(1) have "color node = Black" by (cases "color node") (auto simp: search_inv_def)
    then have "(node, node) \<notin> (edges adj)\<^sup>+" using Cons.prems(1) by (simp add: search_inv_def)
    moreover obtain r where "dfs_all adj k nodes color = Some r"
      "case r of Some cp \<Rightarrow> closed_walk adj cp | None \<Rightarrow> \<forall>n \<in> set nodes. (n, n) \<notin> (edges adj)\<^sup>+"
      using Cons.IH [OF Cons.prems(1)] Cons.prems(2,3) by auto
    ultimately show ?thesis using False by (auto split: option.splits)
  qed
qed simp

section \<open>Cycles\<close>

text \<open>\<open>t\<close> requires \<open>d\<close>.\<close>

definition requires :: "Policy \<Rightarrow> (string \<times> string) set" where
  "requires p = {(t, d). d \<in> set (only_after p t)}"

lemma edges_adjacency: "edges (adjacency p) = requires p"
  by (auto simp: edges_def adjacency_def requires_def only_after_def)

lemma adjacency_nodes: "set (adjacency p u) \<subseteq> set (lint_nodes p)"
proof (cases "tool_policy p u")
  case (Some tp)
  then have "(u, tp) \<in> set (tools p)" by (rule tool_policy_in_tools)
  with Some show ?thesis by (auto simp: adjacency_def lint_nodes_def)
qed (simp add: adjacency_def)

lemma closed_lint_nodes: "closed_nodes (set (lint_nodes p)) (adjacency p)"
  by (simp add: closed_nodes_def adjacency_nodes)

lemma whites_lint_fuel: "whites (set (lint_nodes p)) c \<le> lint_fuel p"
proof -
  have "whites (set (lint_nodes p)) c \<le> card (set (lint_nodes p))"
    unfolding whites_def by (rule card_mono) auto
  also have "\<dots> \<le> lint_fuel p" by (simp add: lint_fuel_def card_length)
  finally show ?thesis .
qed

lemma requires_in_tools: "(t, d) \<in> requires p \<Longrightarrow> t \<in> set (map fst (tools p))"
  by (cases "tool_policy p t") (auto simp: requires_def dest!: tool_policy_in_tools intro: rev_image_eqI)

lemma find_cycle_correct:
  "\<exists>r. find_cycle p = Some r
    \<and> (case r of Some cp \<Rightarrow> closed_walk (adjacency p) cp | None \<Rightarrow> acyclic (requires p))"
proof -
  have start: "search_inv (adjacency p) [] (\<lambda>_. White)" by (simp add: search_inv_def walk_def)
  have "\<exists>r. find_cycle p = Some r
    \<and> (case r of Some cp \<Rightarrow> closed_walk (adjacency p) cp
        | None \<Rightarrow> \<forall>n \<in> set (map fst (tools p)). (n, n) \<notin> (edges (adjacency p))\<^sup>+)"
    unfolding find_cycle_def
    by (rule dfs_all_correct [OF closed_lint_nodes start _ whites_lint_fuel]) (simp add: lint_nodes_def)
  then obtain r where r: "find_cycle p = Some r"
    "case r of Some cp \<Rightarrow> closed_walk (adjacency p) cp
        | None \<Rightarrow> \<forall>n \<in> set (map fst (tools p)). (n, n) \<notin> (requires p)\<^sup>+"
    unfolding edges_adjacency by blast
  moreover have "t \<in> set (map fst (tools p))" if "(t, t) \<in> (requires p)\<^sup>+" for t
  proof -
    from that obtain d where "(t, d) \<in> requires p" by (meson converse_tranclE)
    then show ?thesis by (auto dest: requires_in_tools)
  qed
  ultimately show ?thesis by (auto simp: acyclic_def split: option.splits)
qed

lemma lintL013_iff: "lintL013 p = [] \<longleftrightarrow> acyclic (requires p)"
proof -
  obtain r where r: "find_cycle p = Some r"
    "case r of Some cp \<Rightarrow> closed_walk (adjacency p) cp | None \<Rightarrow> acyclic (requires p)"
    using find_cycle_correct by blast
  show ?thesis
  proof (cases r)
    case None
    with r show ?thesis by (simp add: lintL013_def)
  next
    case (Some cp)
    with r have "(hd cp, hd cp) \<in> (requires p)\<^sup>+"
      using closed_walk_cycle [of "adjacency p" cp] by (simp add: edges_adjacency)
    with Some r show ?thesis by (auto simp: lintL013_def acyclic_def)
  qed
qed

section \<open>Histories the gate produces\<close>

text \<open>
  A history in which every executed call passed \<open>may_use\<close> and the sequence predicates against the
  history before it: what a session looks like under block mode.
\<close>

inductive governed :: "Policy \<Rightarrow> SessionEventEntry list \<Rightarrow> bool" for pol where
  start: "governed pol []"
| extend: "governed pol evs \<Longrightarrow>
    (counts ev \<Longrightarrow> may_use_ok pol (se_ToolName ev) \<and> sequence_ok evs pol (se_ToolName ev)) \<Longrightarrow>
    governed pol (evs @ [ev])"

inductive_cases governed_snocE: "governed pol (evs @ [ev])"

lemma governed_never:
  assumes "governed pol evs" "\<And>t. t \<in> D \<Longrightarrow> (\<exists>d \<in> D. (t, d) \<in> requires pol) \<or> \<not> may_use_ok pol t"
  shows "executed evs \<inter> D = {}"
  using assms(1)
proof induction
  case (extend evs ev)
  then show ?case
    using assms(2) by (fastforce simp: sequence_ok_def requires_def split: if_splits)
qed simp

lemma cycle_successor:
  assumes "(t, t) \<in> r\<^sup>+"
  shows "\<exists>d. (t, d) \<in> r \<and> (d, d) \<in> r\<^sup>+"
proof -
  from assms obtain d where d: "(t, d) \<in> r" "d = t \<or> (d, t) \<in> r\<^sup>+" by (meson converse_tranclE)
  then have "(d, d) \<in> r\<^sup>+" using assms by (metis trancl_into_trancl)
  with d show ?thesis by blast
qed

section \<open>Rules as sets\<close>

lemma set_per_tool: "set (per_tool p f) = (\<Union>(n, t) \<in> set (tools p). set (f n t))"
  by (auto simp: per_tool_def)

definition has_error :: "LintResult list \<Rightarrow> bool" where
  "has_error rs = (\<exists>r \<in> set rs. lr_Severity r = SeverityError)"

lemma has_error_append [simp]: "has_error (xs @ ys) = (has_error xs \<or> has_error ys)"
  by (auto simp: has_error_def)

lemma has_error_Nil [simp]: "\<not> has_error []"
  by (simp add: has_error_def)

lemma per_tool_clean:
  "\<not> has_error (per_tool p f) \<Longrightarrow> (n, t) \<in> set (tools p) \<Longrightarrow> \<not> has_error (f n t)"
  by (auto simp: has_error_def set_per_tool)

lemma set_concat_eq: "set xs = set ys \<Longrightarrow> set (concat (map f xs)) = set (concat (map f ys))"
  by auto

lemma has_error_rules [simp]:
  "has_error [lint_result c s m] = (s = SeverityError)"
  "has_error (map (\<lambda>x. lint_result c SeverityError (f x)) xs) = (xs \<noteq> [])"
  "has_error (map (\<lambda>(i, x). lint_result c SeverityError (g i x)) ys) = (ys \<noteq> [])"
  "has_error (concat rss) = (\<exists>rs \<in> set rss. has_error rs)"
proof -
  show "has_error (map (\<lambda>x. lint_result c SeverityError (f x)) xs) = (xs \<noteq> [])"
    by (cases xs) (auto simp: has_error_def)
  show "has_error (map (\<lambda>(i, x). lint_result c SeverityError (g i x)) ys) = (ys \<noteq> [])"
    by (cases ys) (auto simp: has_error_def)
qed (auto simp: has_error_def)

lemma enumerate_snd: "x \<in> set xs \<Longrightarrow> \<exists>i. (i, x) \<in> set (enumerate 0 xs)"
proof -
  assume "x \<in> set xs"
  then obtain i where "i < length xs" "xs ! i = x" by (auto simp: in_set_conv_nth)
  then have "(i, x) \<in> set (enumerate 0 xs)" by (simp add: in_set_enumerate_eq)
  then show ?thesis ..
qed

lemma L002_clean: "\<not> has_error (lintL002 L p) \<Longrightarrow> (t, tp) \<in> set (tools p) \<Longrightarrow> t \<in> set (may_use p)"
  unfolding lintL002_def buildMayUseSet_def by (drule (1) per_tool_clean) (simp split: if_splits)

lemma L003_clean:
  "\<not> has_error (lintL003 L p) \<Longrightarrow> (t, tp) \<in> set (tools p) \<Longrightarrow>
   set (elems (sq_OnlyAfter (tp_Sequence tp))) \<subseteq> set (may_use p)"
  unfolding lintL003_def buildMayUseSet_def by (drule (1) per_tool_clean) (auto simp: filter_empty_conv)

lemma L004_clean:
  "\<not> has_error (lintL004 L p) \<Longrightarrow> (t, tp) \<in> set (tools p) \<Longrightarrow>
   set (elems (sq_NeverAfter (tp_Sequence tp))) \<subseteq> set (may_use p)"
  unfolding lintL004_def buildMayUseSet_def by (drule (1) per_tool_clean) (auto simp: filter_empty_conv)

lemma L012_clean:
  "\<not> has_error (lintL012 L p) \<Longrightarrow> (t, tp) \<in> set (tools p) \<Longrightarrow> tp_EscalateWhen tp = Some rule \<Longrightarrow>
   er_Operator rule \<in> set validEscalateOperators"
  unfolding lintL012_def by (drule (1) per_tool_clean) (simp split: if_splits)

lemma L014_clean:
  "\<not> has_error (lintL014 L p) \<Longrightarrow> (t, tp) \<in> set (tools p) \<Longrightarrow> pred \<in> set (elems (tp_NeverWhen tp)) \<Longrightarrow>
   cp_Operator pred \<in> set validContentOperators"
  unfolding lintL014_def
  by (drule (1) per_tool_clean, drule enumerate_snd) (fastforce simp: filter_empty_conv)

lemma L015_clean:
  "\<not> has_error (lintL015 L p) \<Longrightarrow> (t, tp) \<in> set (tools p) \<Longrightarrow> pred \<in> set (elems (tp_NeverWhen tp)) \<Longrightarrow>
   cp_Operator pred = ''contains_pattern'' \<Longrightarrow> \<exists>re. l_regexp L (strip_slashes (cp_Value pred)) = Inr re"
  unfolding lintL015_def
  by (drule (1) per_tool_clean, drule enumerate_snd) (fastforce split: sum.splits if_splits)

lemma L017_clean:
  "\<not> has_error (lintL017 L p) \<Longrightarrow> (t, tp) \<in> set (tools p) \<Longrightarrow> tp_RateLimit tp = Some rl \<Longrightarrow> 0 < rl_WindowSeconds rl"
  unfolding lintL017_def by (drule (1) per_tool_clean) (simp split: if_splits)

lemma L018_clean:
  "\<not> has_error (lintL018 L p) \<Longrightarrow> (t, tp) \<in> set (tools p) \<Longrightarrow> tp_RateLimit tp = Some rl \<Longrightarrow> 0 < rl_MaxCalls rl"
  unfolding lintL018_def by (drule (1) per_tool_clean) (simp split: if_splits)

lemma valid_content_operator:
  "cp_Operator pred \<in> set validContentOperators \<Longrightarrow>
   (cp_Operator pred = ''contains_pattern'' \<Longrightarrow> \<exists>re. l_regexp L (strip_slashes (cp_Value pred)) = Inr re) \<Longrightarrow>
   evalContentPredicate L call pred = Inl e \<Longrightarrow> l_gjson L (tc_Arguments call) (cp_Argument pred) = None"
  by (auto simp: evalContentPredicate_def validContentOperators_def Let_def split: option.splits sum.splits if_splits)

lemma valid_escalate_operator:
  "op \<in> set validEscalateOperators \<Longrightarrow> applyEscalationOperator L v op th = Inl e \<Longrightarrow> op = ''matches''"
  by (auto simp: applyEscalationOperator_def applyNumericOp_def validEscalateOperators_def numeric_operators_def
      split: sum.splits if_splits)

text \<open>Rules as functions of the set of tools.\<close>

lemma lintL013_cong:
  assumes "\<And>n. tool_policy p n = tool_policy q n"
  shows "lr_Code ` set (lintL013 p) = lr_Code ` set (lintL013 q)"
proof -
  have "requires p = requires q" using assms by (simp add: requires_def only_after_def)
  then have "lintL013 p = [] \<longleftrightarrow> lintL013 q = []" by (simp add: lintL013_iff)
  moreover have "lr_Code ` set (lintL013 r) = (if lintL013 r = [] then {} else {''L013''})" for r
    by (auto simp: lintL013_def split: option.splits)
  ultimately show ?thesis by presburger
qed

definition only_tools_reordered :: "Policy \<Rightarrow> Policy \<Rightarrow> bool" where
  "only_tools_reordered p q = (\<exists>ts us. p_Tools p = Some ts \<and> q = p\<lparr>p_Tools := Some us\<rparr> \<and> set us = set ts
     \<and> distinct (map fst ts) \<and> distinct (map fst us))"

lemma reordered_views:
  assumes "only_tools_reordered p q"
  shows "set (tools q) = set (tools p)" "tool_policy q n = tool_policy p n" "may_use q = may_use p"
    "p_EnforcementMode q = p_EnforcementMode p" "p_Budget q = p_Budget p" "p_Session q = p_Session p"
    "p_Escalation q = p_Escalation p"
proof -
  from assms obtain ts us where d: "p_Tools p = Some ts" "q = p\<lparr>p_Tools := Some us\<rparr>" "set us = set ts"
    "distinct (map fst ts)" "distinct (map fst us)" by (auto simp: only_tools_reordered_def)
  then have "map_of us = map_of ts" by (simp add: map_of_inject_set)
  with d show "set (tools q) = set (tools p)" "tool_policy q n = tool_policy p n" "may_use q = may_use p"
    "p_EnforcementMode q = p_EnforcementMode p" "p_Budget q = p_Budget p" "p_Session q = p_Session p"
    "p_Escalation q = p_Escalation p"
    by (simp_all add: tools_def tool_policy_def may_use_def)
qed

lemma reordered_rules:
  assumes "only_tools_reordered p q"
  shows "lintL001 q = lintL001 p" "set (lintL002 L q) = set (lintL002 L p)"
    "set (lintL003 L q) = set (lintL003 L p)" "set (lintL004 L q) = set (lintL004 L p)"
    "lintL005 q = lintL005 p" "lintL006 q = lintL006 p" "lintL007 q = lintL007 p"
    "set (lintL008 L q) = set (lintL008 L p)" "lintL009 q = lintL009 p"
    "set (lintL010 L q) = set (lintL010 L p)" "lintL011 q = lintL011 p"
    "set (lintL012 L q) = set (lintL012 L p)" "set (lintL014 L q) = set (lintL014 L p)"
    "set (lintL015 L q) = set (lintL015 L p)" "lintL016 L q = lintL016 L p"
    "set (lintL017 L q) = set (lintL017 L p)" "set (lintL018 L q) = set (lintL018 L p)"
    "set (lintL019 L q) = set (lintL019 L p)"
  by (simp_all only: lintL001_def lintL002_def lintL003_def lintL004_def lintL005_def lintL006_def
      lintL007_def lintL008_def lintL009_def lintL010_def lintL011_def lintL012_def lintL014_def
      lintL015_def lintL016_def lintL017_def lintL018_def lintL019_def set_per_tool list_ex_set
      buildMayUseSet_def reordered_views [OF assms])

section \<open>Samples\<close>

definition sample_after :: "string list \<Rightarrow> ToolPolicy" where
  "sample_after ts = sample_tool\<lparr>tp_Sequence :=
     \<lparr>sq_OnlyAfter = Some ts, sq_NeverAfter = None, sq_RequiresPriorN = None\<rparr>\<rparr>"

text \<open>Two tools that wait for each other, and one that waits for none.\<close>

definition sample_cyclic :: Policy where
  "sample_cyclic = sample_policy\<lparr>p_MayUse := Some [''a'', ''b'', ''c''],
     p_Tools := Some [(''a'', sample_after [''c'', ''b'']), (''b'', sample_after [''a''])]\<rparr>"

definition sample_event :: "string \<Rightarrow> SessionEventEntry" where
  "sample_event t = \<lparr>se_ToolName = t, se_Decision = ''allow'', se_RecordedAt = 0\<rparr>"

definition sample_guarded :: Policy where
  "sample_guarded = sample_policy\<lparr>p_Tools := Some [(''read'', sample_tool\<lparr>tp_NeverWhen :=
      Some [\<lparr>cp_Argument = ''amount'', cp_Operator = ''equals'', cp_Value = ''900''\<rparr>]\<rparr>)]\<rparr>"

section \<open>Properties\<close>

text \<open>C39: L013 finds exactly the cycles of \<open>only_after\<close>. The search always returns within its fuel;
  it reports nothing exactly when the relation "requires" is acyclic; and a path it reports is a closed
  walk along \<open>only_after\<close> edges.\<close>

theorem only_after_cycles_found:
  "find_cycle p \<noteq> None
   \<and> (lintL013 p = [] \<longleftrightarrow> acyclic {(t, d). d \<in> set (only_after p t)})
   \<and> (\<forall>cp. find_cycle p = Some (Some cp) \<longrightarrow> closed_walk (only_after p) cp)"
proof -
  have "adjacency p = only_after p" by (rule ext) (simp add: adjacency_def only_after_def)
  with find_cycle_correct [of p] show ?thesis
    by (auto simp: lintL013_iff requires_def [symmetric])
qed

theorem only_after_cycles_found_witness: "closed_walk (only_after sample_cyclic) [''a'', ''b'', ''a'']"
proof -
  have "find_cycle sample_cyclic = Some (Some [''a'', ''b'', ''a''])" by code_simp
  with only_after_cycles_found [of sample_cyclic] show ?thesis by blast
qed

text \<open>What L013 and L003 flag is dead. In every history that block mode can produce, a tool on an
  \<open>only_after\<close> cycle, and a tool that must come after one outside \<open>may_use\<close>, has never been executed.\<close>

theorem flagged_tools_never_run:
  assumes "governed pol evs"
    and "(t, t) \<in> {(t, d). d \<in> set (only_after pol t)}\<^sup>+
         \<or> (\<exists>d \<in> set (only_after pol t). \<not> may_use_ok pol d)"
  shows "t \<notin> executed evs"
proof -
  let ?D = "{t. (t, t) \<in> (requires pol)\<^sup>+ \<or> (\<exists>d. (t, d) \<in> requires pol \<and> \<not> may_use_ok pol d) \<or> \<not> may_use_ok pol t}"
  have "executed evs \<inter> ?D = {}"
  proof (rule governed_never [OF assms(1)])
    fix t
    assume "t \<in> ?D"
    then consider "(t, t) \<in> (requires pol)\<^sup>+" | d where "(t, d) \<in> requires pol" "\<not> may_use_ok pol d"
      | "\<not> may_use_ok pol t" by auto
    then show "(\<exists>d \<in> ?D. (t, d) \<in> requires pol) \<or> \<not> may_use_ok pol t"
    proof cases
      case 1
      from cycle_successor [OF this] show ?thesis by auto
    qed auto
  qed
  with assms(2) show ?thesis by (auto simp: requires_def)
qed

theorem flagged_tools_never_run_witness: "''a'' \<notin> executed ([] @ [sample_event ''c''])"
proof (rule flagged_tools_never_run [where pol = sample_cyclic])
  show "governed sample_cyclic ([] @ [sample_event ''c''])"
  proof (rule governed.extend [OF governed.start])
    have "tool_policy sample_cyclic ''c'' = None" by code_simp
    then show "may_use_ok sample_cyclic (se_ToolName (sample_event ''c''))
        \<and> sequence_ok [] sample_cyclic (se_ToolName (sample_event ''c''))"
      by (simp add: sample_event_def sequence_ok_def may_use_ok_def sample_cyclic_def may_use_def)
  qed
  have "''b'' \<in> set (only_after sample_cyclic ''a'')" "''a'' \<in> set (only_after sample_cyclic ''b'')" by code_simp+
  then have "(''a'', ''a'') \<in> {(t, d). d \<in> set (only_after sample_cyclic t)}\<^sup>+"
    by (auto intro: trancl_into_trancl2)
  then show "(''a'', ''a'') \<in> {(t, d). d \<in> set (only_after sample_cyclic t)}\<^sup>+
         \<or> (\<exists>d \<in> set (only_after sample_cyclic ''a''). \<not> may_use_ok sample_cyclic d)" ..
qed

text \<open>Linting does not depend on the order in which Go iterates the tools map: two policies that
  differ only in that order get the same rule codes.\<close>

theorem lint_order_independent:
  assumes "p_Tools p = Some ts" "set us = set ts" "distinct (map fst ts)" "distinct (map fst us)"
  shows "lr_Code ` set (Lint L (p\<lparr>p_Tools := Some us\<rparr>)) = lr_Code ` set (Lint L p)"
proof -
  have r: "only_tools_reordered p (p\<lparr>p_Tools := Some us\<rparr>)" using assms by (auto simp: only_tools_reordered_def)
  show ?thesis
    unfolding Lint_def set_append image_Un reordered_rules [OF r]
      lintL013_cong [OF reordered_views(2) [OF r]] ..
qed

theorem lint_order_independent_witness:
  "lr_Code ` set (Lint sample_lib (sample_cyclic\<lparr>p_Tools := Some [(''b'', sample_after [''a'']), (''a'', sample_after [''c'', ''b''])]\<rparr>))
   = lr_Code ` set (Lint sample_lib sample_cyclic)"
  by (rule lint_order_independent [where ts = "[(''a'', sample_after [''c'', ''b'']), (''b'', sample_after [''a''])]"])
    (auto simp: sample_cyclic_def)



text \<open>The linter does not look at \<open>never_when_match\<close>: a policy with an unsupported value passes
  without errors, and then every call to the tool fails.\<close>

definition sample_bad_match :: Policy where
  "sample_bad_match = sample_policy\<lparr>p_Tools := Some [(''read'', sample_tool\<lparr>tp_NeverWhen :=
      Some [\<lparr>cp_Argument = ''amount'', cp_Operator = ''equals'', cp_Value = ''900''\<rparr>],
      tp_NeverWhenMatch := ''most''\<rparr>)]\<rparr>"

theorem lint_misses_never_when_match:
  "\<not> has_error (Lint sample_lib sample_bad_match)
   \<and> (\<forall>call. \<exists>e. ContentEvaluator sample_lib (call\<lparr>tc_ToolName := ''read''\<rparr>) sess sample_bad_match = Inl e)"
proof -
  have "list_all (\<lambda>r. lr_Severity r \<noteq> SeverityError) (Lint sample_lib sample_bad_match)" by code_simp
  then have "\<not> has_error (Lint sample_lib sample_bad_match)" by (auto simp: has_error_def list_all_iff)
  moreover have "tool_policy sample_bad_match ''read'' = Some (sample_tool\<lparr>tp_NeverWhen :=
      Some [\<lparr>cp_Argument = ''amount'', cp_Operator = ''equals'', cp_Value = ''900''\<rparr>], tp_NeverWhenMatch := ''most''\<rparr>)"
    by (simp add: sample_bad_match_def tool_policy_def tools_def)
  ultimately show ?thesis by (simp add: ContentEvaluator_def Let_def mode_defs)
qed

end
