(* ===== verification/TB_ProxyRuns.thy ===== *)
theory TB_ProxyRuns
  imports TB_ProxyProps TB_LintFacts
begin

text \<open>
  A proxy over time: reloads, the invariants of every reachable proxy, the policy version a session
  is bound to, the budget along a session, and the life of an escalation from the call that raised
  it to the approved retry.
\<close>

section \<open>The cache of a proxy\<close>

definition cache_keyed :: "policyLRU \<Rightarrow> bool" where
  "cache_keyed c \<longleftrightarrow> lru_inv c \<and> (\<forall>fp pol. lru_look c fp = Some pol \<longrightarrow> p_Fingerprint pol = fp)"

lemma cache_keyed_iff: "cache_keyed c = lru.keyed c"
  by (simp add: cache_keyed_def lru.keyed_def)

lemma cache_keyed_inv: "cache_keyed c \<Longrightarrow> lru_inv c"
  by (simp add: cache_keyed_def)

lemma cache_keyed_steps:
  "cache_keyed c \<Longrightarrow> cache_keyed (snd (lru_get c fp))"
  "cache_keyed c \<Longrightarrow> cache_keyed (snd (lru_set c (p_Fingerprint pol) pol))"
  by (simp_all add: cache_keyed_iff lru.keyed_get lru.keyed_put)

lemma cache_keyed_new: "cache_keyed (newPolicyLRU lruCapacity)"
  by (simp add: cache_keyed_def lruCapacity_def lru_look_def lru_abs_def) (simp add: newPolicyLRU_def)

section \<open>Reloading\<close>

lemma ReloadPolicy_cases:
  assumes "ReloadPolicy L fs p = (res, p')"
  obtains (kept) e where "res = Some e" "p' = p"
  | (replaced) pol where "res = None" "ParseFile L fs (p_SourcePath (px_livePol p)) = Inr pol"
      "\<forall>r \<in> set (Lint L pol). lr_Severity r \<noteq> SeverityError"
      "p' = p\<lparr>px_polCache := snd (lru_set (px_polCache p) (p_Fingerprint pol) pol), px_livePol := pol\<rparr>"
proof (cases "p_SourcePath (px_livePol p) = []")
  case True
  with assms kept show ?thesis by (auto simp: ReloadPolicy_def)
next
  case False
  show ?thesis
  proof (cases "ParseFile L fs (p_SourcePath (px_livePol p))")
    case (Inl e)
    with False assms kept show ?thesis by (auto simp: ReloadPolicy_def)
  next
    case (Inr pol)
    show ?thesis
    proof (cases "find (\<lambda>r. lr_Severity r = SeverityError) (Lint L pol)")
      case (Some r)
      with False Inr assms kept show ?thesis by (auto simp: ReloadPolicy_def)
    next
      case None
      with False Inr assms have "res = None"
        "p' = p\<lparr>px_polCache := snd (lru_set (px_polCache p) (p_Fingerprint pol) pol), px_livePol := pol\<rparr>"
        by (auto simp: ReloadPolicy_def split: prod.splits)
      with None Inr replaced show ?thesis by (auto simp: find_None_iff)
    qed
  qed
qed

lemma ParseFile_path: "ParseFile L fs path = Inr pol \<Longrightarrow> p_SourcePath pol = path"
  by (auto simp: ParseFile_def split: sum.splits elim!: ParseBytes_Inr)

section \<open>Steps of a running proxy\<close>

text \<open>A handler moves the tables by effects and at most promotes a cached version.\<close>

definition handler_step :: "proxy \<Rightarrow> proxy \<Rightarrow> bool" where
  "handler_step p p' \<longleftrightarrow> effects (px_db p) (px_db p') \<and> same_config p p'
     \<and> (px_polCache p' = px_polCache p \<or> (\<exists>fp. px_polCache p' = snd (lru_get (px_polCache p) fp)))"

lemma handler_stepI: "px_effect p p' \<Longrightarrow> handler_step p p'"
  by (simp add: handler_step_def px_effect_def)

lemma handler_step_db: "effects (px_db p) d \<Longrightarrow> handler_step p (p\<lparr>px_db := d\<rparr>)"
  by (simp add: handler_step_def)

lemma px_effect_handler: "px_effect p q \<Longrightarrow> handler_step q r \<Longrightarrow> handler_step p r"
  by (auto simp: handler_step_def px_effect_def intro: effects_trans same_config_trans)

lemma handler_px_effect: "handler_step p q \<Longrightarrow> px_effect q r \<Longrightarrow> handler_step p r"
  by (auto simp: handler_step_def px_effect_def intro: effects_trans same_config_trans)

lemma record_and_enforce_effect:
  assumes "record_and_enforce N r q ps call t0 dn sess pol p = (p', rep)"
  shows "px_effect p p'"
  using assms by (cases rule: record_and_enforce_cases)

lemma handle_tool_call_step:
  assumes inv: "lru_inv (px_polCache p)" and h: "handle_tool_call N r claims sid q ps p = (p', rep)"
  shows "handler_step p p'"
proof -
  obtain e p1 where e: "evaluate_call N claims sid ps p = (e, p1)" by fastforce
  from inv e show ?thesis
  proof (cases rule: evaluate_call_cases)
    case (refused rep')
    with h e show ?thesis by (simp add: handle_tool_call_def handler_step_def effects_same)
  next
    case (gone row)
    with h e show ?thesis by (auto simp: handle_tool_call_def handler_step_def)
  next
    case (decided row d1 dn sess')
    have "effects (px_db p) (px_db p1)"
      using effects_trans [OF effects_same [OF same_tables_later] decided(4)] decided(9) by simp
    with decided(10,11) have "handler_step p p1" by (auto simp: handler_step_def)
    moreover have "px_effect p1 p'"
      using h e decided(1) record_and_enforce_effect by (fastforce simp: handle_tool_call_def)
    ultimately show ?thesis by (rule handler_px_effect)
  qed
qed

lemma handleMCP_step:
  assumes "lru_inv (px_polCache p)" "handleMCP N r claims sid p = (p', rep)"
  shows "handler_step p p'"
proof -
  have "handler_step p p" by (rule handler_stepI) simp
  with assms show ?thesis
    by (auto simp: handleMCP_def Let_def split: option.splits sum.splits if_splits
        intro: handle_tool_call_step handler_stepI escalation_status_reply(3))
qed

lemma serve_step:
  assumes inv: "lru_inv (px_polCache p)" and s: "serve N stat r p = (p', rep)"
  shows "handler_step p p'"
proof (cases "rq_path r = ''/health''")
  case True
  have r: "handler_step p p" by (rule handler_stepI) simp
  have t: "handler_step p (p\<lparr>px_db := tick (px_db p)\<rparr>)" by (rule handler_step_db) (simp add: effects_same)
  from True s r t show ?thesis
    by (auto simp: serve_def handleHealth_def Let_def store_Ping_def split: if_splits option.splits)
next
  case False
  obtain a d where a: "authenticate (n_world N) (n_keys N) (rq_header r) (px_db p) = (a, d)" by fastforce
  note st = auth_step(2) [OF a]
  show ?thesis
  proof (cases a)
    case (Inl m)
    with False s a handler_stepI [OF st] show ?thesis by (simp add: serve_def AuthMiddleware_def)
  next
    case (Inr claims)
    let ?p = "p\<lparr>px_db := d\<rparr>"
    from False s a Inr have m: "SessionMiddleware N r claims ?p = (p', rep)" by (simp add: serve_def AuthMiddleware_def)
    have inv': "lru_inv (px_polCache ?p)" using inv by simp
    have "handler_step ?p ?p" by (rule handler_stepI) simp
    with m have "handler_step ?p p'"
      by (auto simp: SessionMiddleware_def Let_def split: option.splits sum.splits if_splits intro: handleMCP_step [OF inv'])
    then show ?thesis by (rule px_effect_handler [OF st])
  qed
qed

lemma admin_steps:
  "handler_step p (fst (handleAdminListEscalations N s p))"
  "handler_step p (fst (handleAdminApproveEscalation N i b p))"
  "handler_step p (fst (handleAdminRejectEscalation N i b p))"
proof -
  have r: "handler_step p p" by (rule handler_stepI) simp
  have l: "handler_step p (p\<lparr>px_db := d\<rparr>)" if "ListEscalations W s (px_db p) = (res, d)" for W res d
    using reads_change_nothing(13) [of "px_db p" W s] that by (intro handler_step_db effects_same) simp
  have a: "handler_step p (p\<lparr>px_db := d\<rparr>)" if "esc_Approve W i n (px_db p) = (res, d)" for W n res d
    using resolve_effects(3) [of "px_db p" W i n] that by (intro handler_step_db effects_single) simp
  have j: "handler_step p (p\<lparr>px_db := d\<rparr>)" if "esc_Reject W i n (px_db p) = (res, d)" for W n res d
    using resolve_effects(4) [of "px_db p" W i n] that by (intro handler_step_db effects_single) simp
  show "handler_step p (fst (handleAdminListEscalations N s p))"
    using r l by (auto simp: handleAdminListEscalations_def split: prod.split sum.split)
  show "handler_step p (fst (handleAdminApproveEscalation N i b p))"
    using r a by (auto simp: handleAdminApproveEscalation_def Let_def split: prod.split sum.split body_field.split)
  show "handler_step p (fst (handleAdminRejectEscalation N i b p))"
    using r j by (auto simp: handleAdminRejectEscalation_def Let_def split: prod.split sum.split body_field.split)
qed

section \<open>Reachable proxies\<close>

definition px_ok :: "proxy \<Rightarrow> bool" where
  "px_ok p \<longleftrightarrow> wf_db (px_db p) \<and> cache_keyed (px_polCache p)"

lemma handler_step_ok: "handler_step p p' \<Longrightarrow> px_ok p \<Longrightarrow> px_ok p'"
  by (auto simp: handler_step_def px_ok_def intro: effects_wf cache_keyed_steps(1))

lemma reload_ok: "px_ok p \<Longrightarrow> px_ok (snd (ReloadPolicy L fs p))"
proof -
  assume ok: "px_ok p"
  obtain res p' where r: "ReloadPolicy L fs p = (res, p')" by fastforce
  then have "px_ok p'"
    by (cases rule: ReloadPolicy_cases) (use ok in \<open>auto simp: px_ok_def intro: cache_keyed_steps(2)\<close>)
  with r show ?thesis by simp
qed

lemma px_step_effects:
  assumes "lru_inv (px_polCache p)"
  shows "effects (px_db p) (px_db (px_step N fs i p))"
proof (cases i)
  case (Request r)
  then show ?thesis using serve_step [OF assms prod.collapse [symmetric]] by (simp add: handler_step_def)
next
  case Reload
  obtain res p' where r: "ReloadPolicy (n_lib N) fs p = (res, p')" by fastforce
  then have "px_db p' = px_db p" by (cases rule: ReloadPolicy_cases) simp_all
  with r Reload show ?thesis by (simp add: effects.refl)
qed (use admin_steps in \<open>simp_all add: handler_step_def\<close>)

lemma px_step_ok:
  assumes "px_ok p"
  shows "px_ok (px_step N fs i p)"
proof -
  have inv: "lru_inv (px_polCache p)" using assms by (simp add: px_ok_def cache_keyed_inv)
  show ?thesis
  proof (cases i)
    case (Request r)
    then show ?thesis using handler_step_ok [OF serve_step [OF inv prod.collapse [symmetric]] assms] by simp
  qed (use assms handler_step_ok [OF admin_steps(1)] handler_step_ok [OF admin_steps(2)]
      handler_step_ok [OF admin_steps(3)] reload_ok in simp_all)
qed

lemma px_run_ok: "px_run N p q \<Longrightarrow> px_ok p \<Longrightarrow> px_ok q \<and> effects (px_db p) (px_db q)"
proof (induction rule: px_run.induct)
  case (start p)
  then show ?case by (simp add: effects.refl)
next
  case (step p q fs i)
  then have q: "px_ok q" "effects (px_db p) (px_db q)" by simp_all
  have "effects (px_db q) (px_db (px_step N fs i q))"
    by (rule px_step_effects) (use q(1) in \<open>simp add: px_ok_def cache_keyed_inv\<close>)
  with q px_step_ok show ?case by (blast intro: effects_trans)
next
  case (other_process p q d)
  then have q: "px_ok q" "effects (px_db p) (px_db q)" by simp_all
  have "effect (px_db q) d" by (rule store_call_effect [OF other_process.hyps(2)])
  with q show ?case by (auto simp: px_ok_def intro: effects_wf [OF effects_single] effects.step)
qed

lemma new_proxy_ok: "wf_db st \<Longrightarrow> px_ok (new_proxy st pol path key)"
  by (simp add: px_ok_def new_proxy_def cache_keyed_steps cache_keyed_new)

section \<open>Properties\<close>

text \<open>C10: The database and the logs survive everything. However requests, reloads, admin actions and
  store operations of other processes follow one another, and whichever statements fail, the database
  of a proxy stays well formed, its audit and event logs only grow, a session keeps its agent and its
  policy fingerprint, and the version cache holds at most its capacity of versions, each under its own
  fingerprint.\<close>

theorem reachable_invariant:
  assumes "px_run N (new_proxy st pol path key) p" "wf_db st"
  shows "wf_db (px_db p) \<and> cache_keyed (px_polCache p) \<and> lru_len (px_polCache p) \<le> lru_cap (px_polCache p)
    \<and> prefix (db_audit st) (db_audit (px_db p)) \<and> prefix (db_events st) (db_events (px_db p))
    \<and> (\<forall>i r. find_session st i = Some r \<longrightarrow> (\<exists>r'. find_session (px_db p) i = Some r'
          \<and> sr_AgentName r' = sr_AgentName r \<and> sr_PolicyFingerprint r' = sr_PolicyFingerprint r))"
proof -
  have st: "px_db (new_proxy st pol path key) = st" by (simp add: new_proxy_def)
  from px_run_ok [OF assms(1) new_proxy_ok [OF assms(2)]] have ok: "px_ok p" and e: "effects st (px_db p)"
    by (simp_all add: st)
  from effects_prefix [OF e] have "prefix (db_audit st) (db_audit (px_db p))" "prefix (db_events st) (db_events (px_db p))"
    by simp_all
  moreover have "\<exists>r'. find_session (px_db p) i = Some r' \<and> sr_AgentName r' = sr_AgentName r
      \<and> sr_PolicyFingerprint r' = sr_PolicyFingerprint r" if "find_session st i = Some r" for i r
    using effects_session [OF e that] by (auto simp: session_advance_def)
  ultimately show ?thesis using ok lru_inv_size(2) [of "px_polCache p"]
    by (auto simp: px_ok_def lru_len_def dest: cache_keyed_inv)
qed

definition sample_run :: proxy where
  "sample_run = px_step sample_net (\<lambda>_. Inl (errorf [])) (Request (sample_request ''read'')) sample_proxy"

lemma sample_db_wf: "wf_db sample_db"
  by (simp add: wf_db_def sample_db_def empty_db_def numbered_def session_rows_def)

lemma sample_run_run: "px_run sample_net sample_proxy sample_run"
  unfolding sample_run_def by (rule px_run.step [OF px_run.start])

lemma reachable_invariant_witness:
  "wf_db (px_db sample_run) \<and> prefix (db_events sample_db) (db_events (px_db sample_run))"
  using reachable_invariant [OF sample_run_run [unfolded sample_proxy_def] sample_db_wf] by blast

lemma isToolCall_Nil [simp]: "\<not> isToolCall N []"
  by (simp add: isToolCall_def)

lemma serve_no_call:
  assumes "tool_call_of N r = None"
  shows "same_tables (px_db p) (px_db (fst (serve N stat r p)))"
proof (cases "rq_path r = ''/health''")
  case True
  then show ?thesis by (auto simp: serve_def handleHealth_def Let_def store_Ping_def split: option.split)
next
  case False
  obtain a d where a: "authenticate (n_world N) (n_keys N) (rq_header r) (px_db p) = (a, d)" by fastforce
  have "same_tables (px_db p) d" using auth_step(1) [OF a] .
  with False a assms show ?thesis
    by (auto simp: serve_def AuthMiddleware_def SessionMiddleware_def handleMCP_def tool_call_of_def Let_def
        split: option.splits sum.splits)
qed

text \<open>A request leaves the tables alone unless it is a tool call that reaches its handler.\<close>

lemma serve_same_or_handled:
  assumes s: "serve N stat r p = (p', rep)"
  obtains (same) "same_tables (px_db p) (px_db p')"
  | (handled) q ps claims d where "same_tables (px_db p) d" "handle_tool_call N r claims (session_header r) q ps (p\<lparr>px_db := d\<rparr>) = (p', rep)"
proof (cases "rq_path r = ''/health'' \<or> tool_call_of N r = None")
  case True
  then show ?thesis
  proof
    assume "rq_path r = ''/health''"
    with s show ?thesis
      by (intro same) (auto simp: serve_def handleHealth_def Let_def store_Ping_def split: option.splits if_splits)
  next
    assume "tool_call_of N r = None"
    from serve_no_call [OF this, of p stat] s show ?thesis by (intro same) simp
  qed
next
  case False
  then obtain q ps where call: "rq_path r \<noteq> ''/health''" "tool_call_of N r = Some (q, ps)" by auto
  obtain a d where a: "authenticate (n_world N) (n_keys N) (rq_header r) (px_db p) = (a, d)" by fastforce
  note t = auth_step(1) [OF a]
  have "same_tables (px_db p) (px_db p1)" if "escalation_status N q ps (p\<lparr>px_db := d\<rparr>) = (p1, rep1)" for p1 rep1
    using same_tables_trans [OF t] escalation_status_reply(2) [OF that] by simp
  with s serve_tool_call [OF call, of stat p] a t that show ?thesis by (auto split: sum.splits if_splits)
qed

text \<open>A request opens its session under the live policy.\<close>

lemma serve_opens_session:
  assumes inv: "lru_inv (px_polCache p)" and s: "serve N stat r p = (p', rep)"
    and new: "find_session (px_db p) (session_header r) = None" and row: "find_session (px_db p') (session_header r) = Some row"
  shows "sr_PolicyFingerprint row = p_Fingerprint (px_livePol p)"
proof -
  let ?sid = "session_header r"
  obtain q ps claims d where t: "same_tables (px_db p) d"
    and h: "handle_tool_call N r claims ?sid q ps (p\<lparr>px_db := d\<rparr>) = (p', rep)"
    by (rule serve_same_or_handled [OF s]) (use new row in \<open>auto simp: find_session_same\<close>)
  let ?p = "p\<lparr>px_db := d\<rparr>"
  have at: "find_session d ?sid = None" "session_at ?p ?sid claims = fresh_session ?sid claims (px_livePol p)"
    using new find_session_same [OF t] by (simp_all add: session_at_def)
  obtain e p1 where e: "evaluate_call N claims ?sid ps ?p = (e, p1)" by fastforce
  have "lru_inv (px_polCache ?p)" using inv by simp
  from this e show ?thesis
  proof (cases rule: evaluate_call_cases)
    case (refused rep')
    with h e row at(1) show ?thesis by (auto simp: handle_tool_call_def find_session_same)
  next
    case (gone row')
    then show ?thesis by (simp add: at(2) fresh_session_def)
  next
    case (decided row1 d1 dn sess')
    from h e decided(1) have "record_and_enforce N r q ps (engine_call claims ?sid ps (now_at (n_world N) d))
        (s_Tainted (session_at ?p ?sid claims)) dn sess' (policy_for ?p (session_at ?p ?sid claims)) p1 = (p', rep)"
      by (simp add: handle_tool_call_def)
    then have "effects (px_db p1) (px_db p')" by (cases rule: record_and_enforce_cases) (auto simp: px_effect_def)
    moreover have "find_session (px_db p1) ?sid = Some row1" using decided(7,9) by (simp add: find_session_same [OF same_tables_later])
    moreover have "sr_PolicyFingerprint row1 = p_Fingerprint (px_livePol p)"
      using decided(8) unfolding at(2) by (simp add: session_of_row_def fresh_session_def)
    ultimately show ?thesis using effects_session row by (fastforce simp: session_advance_def)
  qed
qed

text \<open>C11: A session is evaluated under the policy version it was opened with. Let a request open a new
  session in a reachable proxy, and let the proxy then run on, through reloads and whatever else. A later call
  on the session is decided under a policy with the fingerprint of the policy that was live when the
  session was opened, unless that version is no longer cached; then under the policy that is live now.
  The decision is the pipeline's for that policy, with the session as it is stored.\<close>

theorem session_policy_pinned:
  assumes "px_run N (new_proxy st pol path key) p" "wf_db st"
    and "serve N stat r p = (p1, rep)" "find_session (px_db p) (session_header r) = None" "find_session (px_db p1) (session_header r) \<noteq> None"
    and "px_run N p1 p2" "evaluate_call N claims (session_header r) ps p2 = (Inr (call, tainted, dn, sess, q), p3)"
  shows "(p_Fingerprint q = p_Fingerprint (px_livePol p)
      \<or> lru_look (px_polCache p2) (p_Fingerprint (px_livePol p)) = None \<and> q = px_livePol p2)
    \<and> call = engine_call claims (session_header r) ps (now_at (n_world N) (px_db p2))
    \<and> (\<exists>row d. find_session (px_db p2) (session_header r) = Some row \<and> same_views (px_db p2) d
        \<and> Evaluate (full_stages (n_lib N) (store_backend (n_world N) (n_tools N) d) (now_at (n_world N) d)) call (session_of_row row) q
            = (dn, sess))"
proof -
  have ok: "px_ok p" using px_run_ok [OF assms(1) new_proxy_ok [OF assms(2)]] ..
  then have inv: "lru_inv (px_polCache p)" by (simp add: px_ok_def cache_keyed_inv)
  have ok1: "px_ok p1" using handler_step_ok [OF serve_step [OF inv assms(3)] ok] .
  note run = conjunct1 [OF px_run_ok [OF assms(6) ok1]] conjunct2 [OF px_run_ok [OF assms(6) ok1]]
  obtain row1 where row1: "find_session (px_db p1) (session_header r) = Some row1" using assms(5) by blast
  have fp1: "sr_PolicyFingerprint row1 = p_Fingerprint (px_livePol p)" by (rule serve_opens_session [OF inv assms(3,4) row1])
  obtain row2 where row2: "find_session (px_db p2) (session_header r) = Some row2" "sr_PolicyFingerprint row2 = sr_PolicyFingerprint row1"
    using effects_session [OF run(2) row1] by (auto simp: session_advance_def)
  have at: "session_at p2 (session_header r) claims = session_of_row row2" using row2(1) by (simp add: session_at_def)
  have keyed: "cache_keyed (px_polCache p2)" using run(1) by (simp add: px_ok_def)
  have inv2: "lru_inv (px_polCache p2)" by (rule cache_keyed_inv [OF keyed])
  from inv2 assms(7) show ?thesis
  proof (cases rule: evaluate_call_cases)
    case (decided row d1 dec sess')
    have q: "q = policy_for p2 (session_of_row row2)" using decided(1) by (simp add: at)
    have fp: "s_PolicyFingerprint (session_of_row row2) = p_Fingerprint (px_livePol p)" using row2(2) fp1 by (simp add: session_of_row_def)
    have "p_Fingerprint q = p_Fingerprint (px_livePol p)
        \<or> lru_look (px_polCache p2) (p_Fingerprint (px_livePol p)) = None \<and> q = px_livePol p2"
      using keyed by (auto simp: q policy_for_def fp cache_keyed_def split: option.split)
    with row2(1) decided(1,3,5) q show ?thesis by (auto simp: at)
  qed simp_all
qed

text \<open>The files of the witnesses: \<open>pol.yaml\<close> holds the policy text \<open>A\<close>.\<close>

definition sample_fs :: "string \<Rightarrow> gerr + string" where
  "sample_fs path = (if path = ''pol.yaml'' then Inr ''A'' else Inl (errorf ''no such file''))"

definition sample_reloadable :: proxy where
  "sample_reloadable = new_proxy sample_db (sample_gate\<lparr>p_SourcePath := ''pol.yaml''\<rparr>) ''tb.db'' None"

lemma sample_reload: "fst (ReloadPolicy sample_lib sample_fs sample_reloadable) = None"
  by code_simp

text \<open>A session opened under the first policy, then a reload, then another call on it.\<close>

definition pinned_open :: proxy where
  "pinned_open = fst (serve sample_net (\<lambda>_. True) (sample_request ''read'') sample_reloadable)"

definition pinned_reloaded :: proxy where
  "pinned_reloaded = snd (ReloadPolicy (n_lib sample_net) sample_fs pinned_open)"

lemma pinned_facts:
  "find_session (px_db sample_reloadable) ''s1'' = None" "find_session (px_db pinned_open) ''s1'' \<noteq> None"
  "p_Fingerprint (px_livePol pinned_reloaded) \<noteq> p_Fingerprint (px_livePol sample_reloadable)"
  "lru_look (px_polCache pinned_reloaded) (p_Fingerprint (px_livePol sample_reloadable)) \<noteq> None"
  "case evaluate_call sample_net (sample_claims ''pay'') ''s1'' \<lparr>ca_Name = ''read'', ca_Arguments = ''5''\<rparr> pinned_reloaded of
     (Inr (call, tainted, dn, sess, q), p) \<Rightarrow> d_Action dn = Allow | _ \<Rightarrow> False"
  by code_simp+

lemma session_policy_pinned_witness:
  "\<exists>call tainted dn sess q p. evaluate_call sample_net (sample_claims ''pay'') ''s1'' \<lparr>ca_Name = ''read'', ca_Arguments = ''5''\<rparr> pinned_reloaded
      = (Inr (call, tainted, dn, sess, q), p)
    \<and> p_Fingerprint q = p_Fingerprint (px_livePol sample_reloadable) \<and> p_Fingerprint q \<noteq> p_Fingerprint (px_livePol pinned_reloaded)"
proof -
  have h: "session_header (sample_request ''read'') = ''s1''" by (simp add: session_header_def sample_request_def sample_header_def)
  obtain call tainted dn sess q p where e: "evaluate_call sample_net (sample_claims ''pay'') ''s1''
      \<lparr>ca_Name = ''read'', ca_Arguments = ''5''\<rparr> pinned_reloaded = (Inr (call, tainted, dn, sess, q), p)"
    using pinned_facts(5) by (auto split: prod.splits sum.splits)
  have run: "px_run sample_net pinned_open pinned_reloaded"
    using px_run.step [OF px_run.start, where fs = sample_fs and i = Reload] by (simp only: pinned_reloaded_def px_step.simps)
  have s: "serve sample_net (\<lambda>_. True) (sample_request ''read'') sample_reloadable
      = (pinned_open, snd (serve sample_net (\<lambda>_. True) (sample_request ''read'') sample_reloadable))"
    by (simp add: pinned_open_def)
  have start: "px_run sample_net (new_proxy sample_db (sample_gate\<lparr>p_SourcePath := ''pol.yaml''\<rparr>) ''tb.db'' None) sample_reloadable"
    unfolding sample_reloadable_def by (rule px_run.start)
  from session_policy_pinned [OF start sample_db_wf s, unfolded h, OF pinned_facts(1,2) run e] pinned_facts(3,4)
  show ?thesis by (intro exI conjI) (rule e, auto)
qed

text \<open>C18: A reload is safe. If the file cannot be read or parsed, or an error-level lint rule fires,
  the proxy is exactly as before. Otherwise the new policy is what the file holds, has no lint error,
  keeps the source path, and is cached; every other cached version stays cached except the least
  recently used one, and that only when the cache was full; the database is untouched.\<close>

theorem reload_safe:
  assumes "lru_inv (px_polCache p)" "ReloadPolicy L fs p = (res, p')"
  shows "(case res of
      Some e \<Rightarrow> p' = p
    | None \<Rightarrow> ParseFile L fs (p_SourcePath (px_livePol p)) = Inr (px_livePol p')
        \<and> (\<forall>x \<in> set (Lint L (px_livePol p')). lr_Severity x \<noteq> SeverityError)
        \<and> p_SourcePath (px_livePol p') = p_SourcePath (px_livePol p)
        \<and> lru_look (px_polCache p') (p_Fingerprint (px_livePol p')) = Some (px_livePol p')
        \<and> (\<forall>fp q. lru_look (px_polCache p) fp = Some q \<longrightarrow> fp \<noteq> p_Fingerprint (px_livePol p') \<longrightarrow>
              lru_look (px_polCache p') fp = Some q
            \<or> lru_len (px_polCache p) = lru_cap (px_polCache p) \<and> fp = fst (last (lru_abs (px_polCache p))))
        \<and> px_db p' = px_db p)"
  using assms(2)
proof (cases rule: ReloadPolicy_cases)
  case (replaced pol)
  let ?c = "px_polCache p" and ?fp = "p_Fingerprint pol"
  have live: "px_livePol p' = pol" "px_polCache p' = snd (lru_set ?c ?fp pol)" "px_db p' = px_db p"
    using replaced(4) by simp_all
  have path: "p_SourcePath pol = p_SourcePath (px_livePol p)" using ParseFile_path [OF replaced(2)] .
  have other: "lru_look (px_polCache p') fp = Some q \<or> lru_len ?c = lru_cap ?c \<and> fp = fst (last (lru_abs ?c))"
    if q: "lru_look ?c fp = Some q" "fp \<noteq> ?fp" for fp q
    using lru_set_drops [OF assms(1) q] live by simp
  show ?thesis using replaced(1-3) live path other lru.put_same [OF assms(1), of ?fp pol] by simp
qed simp

lemma reload_safe_witness:
  "\<exists>pol. ParseFile sample_lib sample_fs ''pol.yaml'' = Inr pol
     \<and> lru_look (px_polCache (snd (ReloadPolicy sample_lib sample_fs sample_reloadable))) (p_Fingerprint pol) = Some pol"
proof -
  have i: "lru_inv (px_polCache sample_reloadable)"
    by (simp add: sample_reloadable_def new_proxy_def lru.put_inv lruCapacity_def)
  have r: "ReloadPolicy sample_lib sample_fs sample_reloadable
      = (None, snd (ReloadPolicy sample_lib sample_fs sample_reloadable))"
    using sample_reload by (metis prod.collapse)
  have path: "p_SourcePath (px_livePol sample_reloadable) = ''pol.yaml''"
    by (simp add: sample_reloadable_def new_proxy_def)
  from reload_safe [OF i r] show ?thesis by (auto simp: path)
qed

end
