(* ===== verification/TB_FaultFree.thy ===== *)
theory TB_FaultFree
  imports TB_ProxyFacts
begin

text \<open>
  What store operations do when no statement fails (\<open>fault_free\<close>): each succeeds unless a
  constraint of the schema is violated, with the tables it leaves. The end-to-end properties of
  budgets, escalations, simulation and registration rest on these facts.
\<close>

lemma db_exec_fault_free:
  "fault_free W \<Longrightarrow> db_exec W msg f d =
     (case f d of Inl e \<Rightarrow> (Inl (wrapf msg e), tick d) | Inr (n, d') \<Rightarrow> (Inr n, tick d'))"
  by (simp add: db_exec_def fault_free_def)

lemma db_bind_simps [simp]:
  "db_bind (Inl e, d) k = (Inl e, d)" "db_bind (Inr x, d) k = k x d"
  by (simp_all add: db_bind_def)

section \<open>Sessions\<close>

lemma GetSession_fault_free:
  "fault_free W \<Longrightarrow> GetSession W sid d =
     (case find_session d sid of
        None \<Rightarrow> (Inl (wrapf (''looking up session '' @ qw W sid) err_no_rows), tick d)
      | Some r \<Rightarrow> (Inr (session_of_row r), tick d))"
  by (simp add: GetSession_def db_read_fault_free split: option.split)

lemma CreateSession_fault_free:
  assumes "fault_free W" "find_session d sid = None"
  shows "CreateSession W sid agent fp d =
    (Inr (), tick (d\<lparr>db_sessions := db_sessions d @ [\<lparr>sr_ID = sid, sr_AgentName = agent, sr_PolicyFingerprint = fp,
       sr_Tainted = False, sr_ToolCallCount = 0, sr_EstimatedCostUSD = Fin 0, sr_Terminated = False,
       sr_CreatedAt = now_at W d, sr_LastSeenAt = now_at W d\<rparr>]\<rparr>))"
  using assms by (simp add: CreateSession_def db_exec_fault_free insert_session_def find_session_None Let_def)

lemma find_session_filter: "find_session d sid = Some r \<Longrightarrow> filter (\<lambda>r. sr_ID r = sid) (db_sessions d) \<noteq> []"
  by (auto simp: find_session_def filter_empty_conv dest!: find_SomeD)

lemma exec_session_update_fault_free:
  assumes "fault_free W" "find_session d sid = Some r"
  shows "exec_session_update W m m' sid f d =
    (Inr (), tick (tick (d\<lparr>db_sessions := map (\<lambda>r. if sr_ID r = sid then f r else r) (db_sessions d)\<rparr>)))"
  using assms find_session_filter [OF assms(2)]
  by (simp add: exec_session_update_def db_exec_fault_free db_read_fault_free update_session_def)

lemma find_session_updated:
  assumes "find_session d sid = Some r" "\<And>r. sr_ID (f r) = sr_ID r"
  shows "find_session (d\<lparr>db_sessions := map (\<lambda>r. if sr_ID r = i then f r else r) (db_sessions d)\<rparr>) sid
    = Some (if sid = i then f r else r)"
proof -
  have "find (\<lambda>r. sr_ID r = sid) (map (\<lambda>r. if sr_ID r = i then f r else r) xs) = Some (if sid = i then f r else r)"
    if "find (\<lambda>r. sr_ID r = sid) xs = Some r" for xs
    using that by (induction xs) (auto simp: assms(2) split: if_splits)
  with assms(1) show ?thesis by (simp add: find_session_def)
qed

section \<open>Events\<close>

lemma fold_max_start: "m \<le> fold max xs (m :: nat)"
proof (induction xs arbitrary: m)
  case (Cons x xs)
  have "m \<le> max x m" by simp
  also have "\<dots> \<le> fold max xs (max x m)" by (rule Cons)
  finally show ?case by simp
qed simp

lemma fold_max_ge: "x \<in> set xs \<Longrightarrow> x \<le> fold max xs (m :: nat)"
proof (induction xs arbitrary: m)
  case (Cons y ys)
  have "y \<le> fold max ys (max y m)" by (rule order_trans [OF max.cobounded1 fold_max_start])
  with Cons show ?case by auto
qed simp

lemma seq_le_max: "r \<in> set (session_rows d sid) \<Longrightarrow> ev_seq r \<le> max_seq d sid"
  unfolding max_seq_def by (rule fold_max_ge) simp

lemma insert_event_next:
  assumes "ev_session_id r \<in> sr_ID ` set (db_sessions d)" "ev_seq r = Suc (max_seq d (ev_session_id r))"
  shows "insert_event W r d = Inr (1, d\<lparr>db_events := db_events d @ [r]\<rparr>)"
proof -
  have "\<not> (\<exists>x \<in> set (db_events d). ev_session_id x = ev_session_id r \<and> ev_seq x = ev_seq r)"
    using seq_le_max [of _ d "ev_session_id r"] assms(2) by (force simp: session_rows_def)
  then show ?thesis using assms(1) by (simp add: insert_event_def)
qed

text \<open>In a database without faults an event of a known session is always appended.\<close>

lemma AppendEvent_fault_free:
  assumes W: "fault_free W" and s: "e_SessionID e \<in> sr_ID ` set (db_sessions d)"
  obtains d' where
    "AppendEvent W e d = (Inr ((stamped W d e)\<lparr>e_Seq := Suc (max_seq d (e_SessionID e))\<rparr>), d')"
    "same_tables (d\<lparr>db_events := db_events d @
       [row_of_event (Suc (max_seq d (e_SessionID e))) (stamped W d e)]\<rparr>) d'"
proof -
  let ?r = "row_of_event (Suc (max_seq d (e_SessionID e))) (stamped W d e)"
  have i: "insert_event W ?r (tick (tick d)) = Inr (1, (tick (tick d))\<lparr>db_events := db_events d @ [?r]\<rparr>)"
    using s by (subst insert_event_next) (simp_all add: row_of_event_def max_seq_def session_rows_def)
  have m: "max_seq (tick d) sid = max_seq d sid" for sid by (simp add: max_seq_def session_rows_def)
  show thesis
  proof (rule that)
    show "AppendEvent W e d = (Inr ((stamped W d e)\<lparr>e_Seq := Suc (max_seq d (e_SessionID e))\<rparr>),
        tick (tick ((tick (tick d))\<lparr>db_events := db_events d @ [?r]\<rparr>)))"
      by (simp add: AppendEvent_alt Let_def db_read_fault_free [OF W] db_exec_fault_free [OF W] rollback_def m i)
    show "same_tables (d\<lparr>db_events := db_events d @ [?r]\<rparr>)
        (tick (tick ((tick (tick d))\<lparr>db_events := db_events d @ [?r]\<rparr>)))"
      by (auto simp: same_tables_def tick_def)
  qed
qed

text \<open>Histories: the new event is the last of its session, other sessions see nothing of it.\<close>

lemma sort_key_snoc_max:
  assumes "\<forall>x \<in> set xs. f x \<le> f y"
  shows "sort_key f (xs @ [y]) = sort_key f xs @ [y]"
proof (rule properties_for_sort_key)
  show "mset (sort_key f xs @ [y]) = mset (xs @ [y])" by simp
  show "filter (\<lambda>x. f k = f x) (sort_key f xs @ [y]) = filter (\<lambda>x. f k = f x) (xs @ [y])"
    if "k \<in> set (sort_key f xs @ [y])" for k
    using sort_key_stable [of f "f k" xs] by (simp add: eq_commute)
  show "sorted (map f (sort_key f xs @ [y]))" using assms by (simp add: sorted_append)
qed

lemma store_hist_event:
  "store_hist (d\<lparr>db_events := db_events d @ [row_of_event (Suc (max_seq d sid)) (e\<lparr>e_SessionID := sid\<rparr>)]\<rparr>) i =
   store_hist d i @ (if i = sid then [entry_of_event e] else [])"
proof (cases "i = sid")
  case True
  let ?r = "row_of_event (Suc (max_seq d sid)) (e\<lparr>e_SessionID := sid\<rparr>)"
  have rows: "session_rows (d\<lparr>db_events := db_events d @ [?r]\<rparr>) sid = session_rows d sid @ [?r]"
    by (simp add: session_rows_def row_of_event_def)
  have "\<forall>x \<in> set (session_rows d sid). ev_seq x \<le> ev_seq ?r"
    using seq_le_max [of _ d sid] by (force simp: row_of_event_def)
  note sorted = sort_key_snoc_max [of _ ev_seq, OF this]
  have "entry_of_row ?r = entry_of_event e" by (simp add: row_of_event_def entry_of_row_def entry_of_event_def)
  then show ?thesis using True by (simp add: store_hist_def rows sorted)
next
  case False
  then show ?thesis by (simp add: store_hist_def session_rows_def row_of_event_def)
qed

end
