(* ===== verification/TB_Limits.thy ===== *)
theory TB_Limits
  imports TB_FaultFree TB_ProxyRuns
begin

text \<open>
  Limits over whole sessions: the call budget holds for requests served one after the other and can
  be exceeded by overlapping ones, and an approved escalation lets the same call through.
\<close>

section \<open>The call counter of a session\<close>

definition call_count :: "db \<Rightarrow> string \<Rightarrow> int" where
  "call_count d sid = (case find_session d sid of None \<Rightarrow> 0 | Some r \<Rightarrow> sr_ToolCallCount r)"

definition same_counts :: "db \<Rightarrow> db \<Rightarrow> bool" where
  "same_counts d d' \<longleftrightarrow> (\<forall>sid. call_count d' sid = call_count d sid)"

lemma same_counts_refl [simp]: "same_counts d d"
  by (simp add: same_counts_def)

lemma same_counts_trans: "same_counts a b \<Longrightarrow> same_counts b c \<Longrightarrow> same_counts a c"
  by (simp add: same_counts_def)

lemma same_counts_sessions: "db_sessions d' = db_sessions d \<Longrightarrow> same_counts d d'"
  by (simp add: same_counts_def call_count_def find_session_def)

lemma same_counts_tables: "same_tables d d' \<Longrightarrow> same_counts d d'"
  by (rule same_counts_sessions) (simp add: same_tables_sel)

lemma find_session_map:
  assumes "\<And>r. sr_ID (f r) = sr_ID r"
  shows "find_session (d\<lparr>db_sessions := map (\<lambda>r. if sr_ID r = i then f r else r) (db_sessions d)\<rparr>) sid =
   map_option (\<lambda>r. if sr_ID r = i then f r else r) (find_session d sid)"
  using find_map_update [of "\<lambda>r. sr_ID r = sid" f "\<lambda>r. sr_ID r = i" "db_sessions d"] assms
  by (simp add: find_session_def)

lemma call_count_map:
  assumes "\<And>r. sr_ID (f r) = sr_ID r" "\<And>r. sr_ToolCallCount (f r) = sr_ToolCallCount r + k"
  shows "call_count (d\<lparr>db_sessions := map (\<lambda>r. if sr_ID r = i then f r else r) (db_sessions d)\<rparr>) sid =
    call_count d sid + (if sid = i \<and> find_session d sid \<noteq> None then k else 0)"
proof (cases "find_session d sid")
  case None
  with find_session_map [of f i d sid, OF assms(1)] show ?thesis by (simp add: call_count_def)
next
  case (Some r)
  then have "sr_ID r = sid" by (auto simp: find_session_def dest: find_SomeD)
  with find_session_map [of f i d sid, OF assms(1)] Some show ?thesis by (simp add: call_count_def assms(2))
qed

lemma CreateSession_counts: "same_counts d (snd (CreateSession W sid agent fp d))"
proof -
  obtain res d' where c: "CreateSession W sid agent fp d = (res, d')" by fastforce
  then have "same_counts d d'"
  proof (cases rule: CreateSession_cases)
    case (failed e)
    then show ?thesis by (intro same_counts_tables)
  next
    case (created row)
    have "same_counts d (d\<lparr>db_sessions := db_sessions d @ [row]\<rparr>)"
      using created(4) by (auto simp: same_counts_def call_count_def find_session_def find_snoc split: option.split)
    then show ?thesis by (rule same_counts_trans) (rule same_counts_tables [OF created(3)])
  qed
  with c show ?thesis by simp
qed

lemma UpdateSessionTaint_counts: "same_counts d (snd (UpdateSessionTaint W sid b d))"
proof -
  let ?f = "\<lambda>r. r\<lparr>sr_Tainted := b, sr_LastSeenAt := now_at W d\<rparr>"
  obtain res d' where u: "UpdateSessionTaint W sid b d = (res, d')" by fastforce
  have m: "same_counts d (d\<lparr>db_sessions := map (\<lambda>r. if sr_ID r = sid then ?f r else r) (db_sessions d)\<rparr>)"
    unfolding same_counts_def by (subst call_count_map [where k = 0]) simp_all
  from u have "same_counts d d'"
    unfolding UpdateSessionTaint_def Let_def
    by (cases rule: exec_session_update_cases) (use m same_counts_tables same_counts_trans in blast)+
  with u show ?thesis by simp
qed

section \<open>A request counts what it forwards\<close>

lemma load_session_counts:
  assumes "load_session N sid claims p = (res, p')"
  shows "same_counts (px_db p) (px_db p')"
proof -
  have g: "same_counts (px_db p) (snd (GetSession (n_world N) sid (px_db p)))"
    by (intro same_counts_tables reads_change_nothing)
  note c = CreateSession_counts [of _ "n_world N" sid]
  from assms g show ?thesis
    by (auto simp: load_session_def Let_def split: prod.splits sum.splits if_splits)
      (metis c same_counts_trans snd_conv)+
qed

lemma evaluate_call_counts:
  assumes "evaluate_call N claims sid ps p = (res, p')"
  shows "same_counts (px_db p) (px_db p')"
proof -
  define p0 where "p0 = writeTraceEntry N \<lparr>te_SessionID = sid, te_AgentName = cl_AgentName claims, te_ToolName = ca_Name ps,
      te_Arguments = ca_Arguments ps, te_RequestedAt = n_rfc3339 N (now_at (n_world N) (px_db p))\<rparr> p"
  obtain l p1 where l: "load_session N sid claims p0 = (l, p1)" by fastforce
  have "same_counts (px_db p) (px_db p1)" using load_session_counts [OF l] by (simp add: p0_def)
  moreover have "db_sessions (px_db p') = db_sessions (px_db p1)"
    using assms l
    by (auto simp: evaluate_call_def Let_def p0_def [symmetric] decide_def session_policy_def policyForFingerprint_def
        split_beta split: sum.splits prod.splits if_splits option.splits)
  ultimately show ?thesis using same_counts_trans same_counts_sessions by blast
qed

lemma enforce_counts:
  assumes W: "fault_free (n_world N)" and row: "find_session (px_db p) sid \<noteq> None"
    and e: "enforce N q ps sid seq dn pol af p = (p', rep)"
  shows "call_count (px_db p') i = call_count (px_db p) i + (if rep = Forwarded \<and> i = sid then 1 else 0)"
proof -
  let ?now = "now_at (n_world N) (px_db p)"
  let ?f = "\<lambda>r. r\<lparr>sr_ToolCallCount := sr_ToolCallCount r + 1,
      sr_EstimatedCostUSD := f_add (sr_EstimatedCostUSD r) costPerToolCall, sr_LastSeenAt := ?now\<rparr>"
  let ?d = "(px_db p)\<lparr>db_sessions := map (\<lambda>r. if sr_ID r = sid then ?f r else r) (db_sessions (px_db p))\<rparr>"
  obtain r where r: "find_session (px_db p) sid = Some r" using row by blast
  have inc: "snd (IncrementSessionCounters (n_world N) sid costPerToolCall (px_db p)) = tick (tick ?d)"
    using exec_session_update_fault_free [OF W r] by (simp add: IncrementSessionCounters_def Let_def)
  have "call_count (tick (tick ?d)) i = call_count ?d i"
    by (simp add: call_count_def find_session_def)
  also have "\<dots> = call_count (px_db p) i + (if i = sid then 1 else 0)"
    using r by (subst call_count_map [where k = 1]) auto
  finally have count: "call_count (tick (tick ?d)) i = call_count (px_db p) i + (if i = sid then 1 else 0)" .
  have esc: "db_sessions (snd (CreateEscalation (n_world N) x d)) = db_sessions d" for x d
    by (simp add: CreateEscalation_def Let_def db_exec_fault_free [OF W] insert_escalation_def)
  show ?thesis
  proof (cases "d_Action dn")
    case Escalate
    have "db_sessions (px_db p') = db_sessions (px_db p) \<and> rep \<noteq> Forwarded"
      using e Escalate esc
      by (auto simp: enforce_def escalate_def Let_def writeJSONRPCError_def writeJSONRPCEscalated_def
          split: prod.splits sum.splits) (metis snd_conv)+
    then show ?thesis by (auto simp: call_count_def find_session_def)
  qed (use e inc count in \<open>auto simp: enforce_def writeJSONRPCDeny_def writeJSONRPCError_def split: if_splits prod.splits option.splits\<close>)
qed

lemma record_and_enforce_counts:
  assumes W: "fault_free (n_world N)" and row: "find_session (px_db p) (tc_SessionID call) \<noteq> None"
    and e: "record_and_enforce N r q ps call t0 dn sess pol p = (p', rep)"
  shows "call_count (px_db p') i = call_count (px_db p) i + (if rep = Forwarded \<and> i = tc_SessionID call then 1 else 0)"
proof -
  let ?sid = "tc_SessionID call"
  let ?ev = "\<lparr>e_Seq = 0, e_SessionID = ?sid, e_ToolName = ca_Name ps, e_ArgumentsJSON = ca_Arguments ps,
      e_Decision = action_str (d_Action dn), e_PolicyRule = d_RuleID dn, e_RecordedAt = 0\<rparr>"
  have "e_SessionID ?ev \<in> sr_ID ` set (db_sessions (px_db p))" using row by (simp add: find_session_None)
  from AppendEvent_fault_free [OF W this] obtain e' d where
    a: "AppendEvent (n_world N) ?ev (px_db p) = (Inr e', d)" and d: "db_sessions d = db_sessions (px_db p)"
    by (metis (no_types, lifting) db.select_convs(1) db.surjective db.update_convs(2) same_tables_sel(1))
  obtain failed p1 where w: "writeAuditRecord N r ?sid (tc_AgentName call) (tc_ParentAgent call) (ca_Name ps)
      (ca_Arguments ps) (e_Seq e') dn (p_Fingerprint pol) (p\<lparr>px_db := d\<rparr>) = (failed, p1)" by fastforce
  have s1: "db_sessions (px_db p1) = db_sessions (px_db p)"
    using w by (cases rule: writeAuditRecord_cases) (simp_all add: d)
  define p2 where "p2 = emitDecisionSpan (case tc_RequestedAt call of None \<Rightarrow> 0 | Some t \<Rightarrow> t) ?sid (tc_AgentName call)
      (ca_Name ps) dn (p_Fingerprint pol) (ExtractClientTraceID (rq_header r)) p1"
  obtain f p3 where t: "persist_taint N ?sid t0 sess p2 = (f, p3)" by fastforce
  have s2: "db_sessions (px_db p2) = db_sessions (px_db p)" by (simp add: p2_def s1)
  have c3: "same_counts (px_db p) (px_db p3)"
    using t UpdateSessionTaint_counts [of "px_db p2" "n_world N" ?sid "s_Tainted sess"] same_counts_sessions [OF s2]
    by (auto simp: persist_taint_def split: if_splits sum.splits prod.splits intro: same_counts_trans)
  have "find_session (px_db p2) ?sid \<noteq> None" using row by (simp add: find_session_def s2)
  moreover have "effects (px_db p2) (px_db p3)" using persist_taint_cases(1) [OF t] by (simp add: px_effect_def)
  ultimately have row3: "find_session (px_db p3) ?sid \<noteq> None" using effects_session by blast
  show ?thesis
  proof (cases f)
    case None
    then have "enforce N q ps ?sid (e_Seq e') dn pol failed p3 = (p', rep)"
      using e a w t by (simp add: record_and_enforce_def Let_def p2_def [symmetric])
    from enforce_counts [OF W row3 this] c3 show ?thesis by (simp add: same_counts_def)
  next
    case (Some rep')
    then have "p' = p3" "rep = rep'" using e a w t by (simp_all add: record_and_enforce_def Let_def p2_def [symmetric])
    moreover have "rep' \<noteq> Forwarded" using persist_taint_cases(3) [OF t] Some by (auto simp: writeBadRequest_def)
    ultimately show ?thesis using c3 by (simp add: same_counts_def)
  qed
qed

section \<open>Serving a list of requests\<close>

text \<open>A request that carries a governed tool call of session \<open>sid\<close>.\<close>

definition calls_session :: "net \<Rightarrow> string \<Rightarrow> request \<Rightarrow> bool" where
  "calls_session N sid r \<longleftrightarrow> rq_path r \<noteq> ''/health'' \<and> tool_call_of N r \<noteq> None \<and> session_header r = sid"

lemma handle_tool_call_counts:
  assumes W: "fault_free (n_world N)" and inv: "lru_inv (px_polCache p)" and h: "handle_tool_call N r claims sid q ps p = (p', rep)"
  shows "call_count (px_db p') i = call_count (px_db p) i + (if rep = Forwarded \<and> i = sid then 1 else 0)"
proof -
  obtain e p1 where e: "evaluate_call N claims sid ps p = (e, p1)" by fastforce
  have c1: "call_count (px_db p1) i = call_count (px_db p) i"
    using evaluate_call_counts [OF e] by (simp add: same_counts_def)
  from inv e show ?thesis
  proof (cases rule: evaluate_call_cases)
    case (refused rep')
    with h e c1 show ?thesis by (auto simp: handle_tool_call_def)
  next
    case (gone row)
    with h e c1 show ?thesis by (auto simp: handle_tool_call_def writeGone_def)
  next
    case (decided row d1 dn sess')
    let ?c = "engine_call claims sid ps (now_at (n_world N) (px_db p))"
    have sid: "tc_SessionID ?c = sid" by (simp add: engine_call_def)
    have "find_session (px_db p1) sid \<noteq> None"
      using decided(7,9) find_session_same [OF same_tables_later, of pipeline_ticks d1 sid] by simp
    moreover have "record_and_enforce N r q ps ?c (s_Tainted (session_at p sid claims)) dn sess'
        (policy_for p (session_at p sid claims)) p1 = (p', rep)"
      using h e decided(1) by (simp add: handle_tool_call_def)
    ultimately show ?thesis using record_and_enforce_counts [OF W, of p1 ?c] sid c1 by fastforce
  qed
qed

lemma serve_counts:
  assumes W: "fault_free (n_world N)" and inv: "lru_inv (px_polCache p)" and s: "serve N stat r p = (p', rep)"
  shows "call_count (px_db p') i = call_count (px_db p) i + (if rep = Forwarded \<and> calls_session N i r then 1 else 0)"
proof (cases "tool_call_of N r = None \<or> rq_path r = ''/health''")
  case True
  then have "same_tables (px_db p) (px_db p')"
  proof
    assume "tool_call_of N r = None"
    from serve_no_call [OF this, of p stat] s show ?thesis by simp
  next
    assume "rq_path r = ''/health''"
    with s show ?thesis by (auto simp: serve_def handleHealth_def Let_def store_Ping_def split: option.splits if_splits)
  qed
  then have "call_count (px_db p') i = call_count (px_db p) i" using same_counts_tables by (auto simp: same_counts_def)
  with True show ?thesis by (auto simp: calls_session_def)
next
  case False
  then obtain q ps where call: "tool_call_of N r = Some (q, ps)" and path: "rq_path r \<noteq> ''/health''" by auto
  let ?sid = "session_header r"
  obtain a d where a: "authenticate (n_world N) (n_keys N) (rq_header r) (px_db p) = (a, d)" by fastforce
  note sv = serve_tool_call [OF path call, of stat p]
  have ca: "call_count d i = call_count (px_db p) i"
    using same_counts_tables [OF auth_step(1) [OF a]] by (simp add: same_counts_def)
  have quiet: ?thesis if "rep \<noteq> Forwarded" "same_tables d (px_db p')"
    using that same_counts_tables [OF that(2)] ca by (simp add: same_counts_def)
  show ?thesis
  proof (cases a)
    case (Inl m)
    with s a sv show ?thesis by (intro quiet) (auto simp: writeUnauthorized_def)
  next
    case (Inr claims)
    let ?p = "p\<lparr>px_db := d\<rparr>"
    consider (header) "?sid = []" | (virtual) "?sid \<noteq> []" "ca_Name ps = ''check_escalation_status''"
      | (governed) "?sid \<noteq> []" "ca_Name ps \<noteq> ''check_escalation_status''" by blast
    then show ?thesis
    proof cases
      case header
      with s a sv Inr show ?thesis by (intro quiet) (auto simp: writeMissingSessionID_def)
    next
      case virtual
      with s a sv Inr have e: "escalation_status N q ps ?p = (p', rep)" by simp
      show ?thesis by (rule quiet) (use escalation_status_reply [OF e] in auto)
    next
      case governed
      with s a sv Inr have h: "handle_tool_call N r claims ?sid q ps ?p = (p', rep)" by simp
      have "lru_inv (px_polCache ?p)" using inv by simp
      from handle_tool_call_counts [OF W this h, of i] ca path call governed show ?thesis
        by (auto simp: calls_session_def)
    qed
  qed
qed

fun serve_all :: "net \<Rightarrow> (string \<Rightarrow> bool) \<Rightarrow> request list \<Rightarrow> proxy \<Rightarrow> proxy \<times> reply list" where
  "serve_all N stat [] p = (p, [])"
| "serve_all N stat (r # rs) p =
     (let (p1, rep) = serve N stat r p; (p2, reps) = serve_all N stat rs p1 in (p2, rep # reps))"

text \<open>How many of them were forwarded tool calls of one session.\<close>

definition forwarded_in :: "net \<Rightarrow> string \<Rightarrow> request list \<Rightarrow> reply list \<Rightarrow> nat" where
  "forwarded_in N sid rs reps = length (filter (\<lambda>(r, rep). rep = Forwarded \<and> calls_session N sid r) (zip rs reps))"

text \<open>A proxy that has only ever served one policy.\<close>

definition serves_only :: "Policy \<Rightarrow> proxy \<Rightarrow> bool" where
  "serves_only pol p \<longleftrightarrow> px_livePol p = pol \<and> lru_inv (px_polCache p)
     \<and> (\<forall>fp q. lru_look (px_polCache p) fp = Some q \<longrightarrow> q = pol)"

lemma serves_only_policy: "serves_only pol p \<Longrightarrow> policy_for p sess = pol"
  by (auto simp: serves_only_def policy_for_def split: option.split)

lemma serves_only_step: "handler_step p p' \<Longrightarrow> serves_only pol p \<Longrightarrow> serves_only pol p'"
  by (auto simp: handler_step_def serves_only_def same_config_def lru.get_inv lru.get_keeps)

lemma serves_only_new: "serves_only pol (new_proxy st pol path key)"
proof -
  have i: "lru_inv (newPolicyLRU lruCapacity)" by (simp add: lruCapacity_def)
  have "q = pol" if "lru_look (snd (lru_set (newPolicyLRU lruCapacity) (p_Fingerprint pol) pol)) fp = Some q" for fp q
  proof (cases "fp = p_Fingerprint pol")
    case True
    with that lru.put_same [OF i, of "p_Fingerprint pol" pol] show ?thesis by simp
  next
    case False
    have "lru_look (newPolicyLRU lruCapacity) fp = None" by (simp add: lru_look_def lru_abs_def newPolicyLRU_def)
    with lru.put_other [OF i False, of pol] that show ?thesis by auto
  qed
  with i show ?thesis by (auto simp: serves_only_def new_proxy_def lru.put_inv)
qed

lemma serves_only_strict [simp]: "serves_only pol (SetAuditStrict b p) = serves_only pol p"
  by (simp add: serves_only_def SetAuditStrict_def)

text \<open>A forwarded call found the budget not used up.\<close>

lemma forwarded_in_budget:
  assumes only: "serves_only pol p" and wf: "wf_policy pol" and blk: "\<forall>t. effectiveMode pol t \<noteq> EnforcementShadow"
    and s: "serve N stat r p = (p', Forwarded)" and c: "calls_session N sid r" and m: "0 < bp_MaxToolCalls (p_Budget pol)"
  shows "call_count (px_db p) sid < bp_MaxToolCalls (p_Budget pol)"
proof -
  obtain q ps where call: "rq_path r \<noteq> ''/health''" "tool_call_of N r = Some (q, ps)" and sid: "session_header r = sid"
    using c by (auto simp: calls_session_def)
  have real: "ca_Name ps \<noteq> ''check_escalation_status''" using virtual_tool_not_forwarded [OF call _ s] by blast
  have inv: "lru_inv (px_polCache p)" using only by (simp add: serves_only_def)
  from inv call real s show ?thesis
  proof (cases rule: serve_call_cases)
    case (recorded claims t row dn af)
    let ?s = "session_at p sid claims"
    have "d_Action dn \<in> {Allow, ShadowDeny}" using recorded by simp
    from decided_executes [OF recorded(3) this] obtain now where
      "permitted (n_lib N) (store_hist (px_db p)) (store_approvals (n_lib N) (px_db p)) (store_scope (n_tools N) (px_db p))
         now pol t ?s"
      using wf blk by (auto simp: serves_only_policy [OF only] sid)
    then have "s_ToolCallCount ?s < bp_MaxToolCalls (p_Budget pol)"
      using m by (auto simp: permitted_def budget_ok_def calls_exceeded_def)
    then show ?thesis
      by (simp add: call_count_def session_at_def session_of_row_def fresh_session_def split: option.splits)
  qed simp
qed

lemma serve_all_budget:
  assumes W: "fault_free (n_world N)" and wf: "wf_policy pol" and blk: "\<forall>t. effectiveMode pol t \<noteq> EnforcementShadow"
    and m: "0 < bp_MaxToolCalls (p_Budget pol)"
  shows "serves_only pol p \<Longrightarrow> serve_all N stat rs p = (p', reps) \<Longrightarrow>
    call_count (px_db p') sid = call_count (px_db p) sid + int (forwarded_in N sid rs reps)
    \<and> (call_count (px_db p) sid \<le> bp_MaxToolCalls (p_Budget pol) \<longrightarrow>
        call_count (px_db p') sid \<le> bp_MaxToolCalls (p_Budget pol))"
proof (induction rs arbitrary: p reps)
  case Nil
  then show ?case by (simp add: forwarded_in_def)
next
  case (Cons r rs)
  obtain p1 rep where s: "serve N stat r p = (p1, rep)" by fastforce
  obtain reps1 where a: "serve_all N stat rs p1 = (p', reps1)" and eqs: "reps = rep # reps1"
    using Cons(3) s by (auto split: prod.splits)
  have inv: "lru_inv (px_polCache p)" using Cons(2) by (simp add: serves_only_def)
  note only1 = serves_only_step [OF serve_step [OF inv s] Cons(2)]
  note ih = Cons(1) [OF only1 a]
  note c1 = serve_counts [OF W inv s, of sid]
  have "call_count (px_db p1) sid \<le> bp_MaxToolCalls (p_Budget pol)"
    if "call_count (px_db p) sid \<le> bp_MaxToolCalls (p_Budget pol)"
  proof (cases "rep = Forwarded \<and> calls_session N sid r")
    case True
    with forwarded_in_budget [OF Cons(2) wf blk _ _ m, of N stat r p1 sid] s c1 show ?thesis by simp
  next
    case False
    with c1 that show ?thesis by (simp split: if_splits)
  qed
  with ih c1 eqs show ?case by (auto simp: forwarded_in_def)
qed

section \<open>Overlapping calls\<close>

text \<open>
  The server runs each request in its own goroutine and takes no lock between reading the session
  and counting the call. Here two calls of one session are both decided before either is recorded.
\<close>

definition overlapping ::
    "net \<Rightarrow> request \<Rightarrow> request \<Rightarrow> AgentClaims \<Rightarrow> string \<Rightarrow> MCPRequest \<Rightarrow> ToolCallParams \<Rightarrow> ToolCallParams \<Rightarrow> proxy
     \<Rightarrow> proxy \<times> reply \<times> reply" where
  "overlapping N r1 r2 claims sid q ps1 ps2 p =
     (let (e1, p1) = evaluate_call N claims sid ps1 p;
          (e2, p2) = evaluate_call N claims sid ps2 p1;
          finish = (\<lambda>r ps e p. case e of
             Inl failure \<Rightarrow> (p, failure)
           | Inr (call, t, dn, sess, pol) \<Rightarrow> record_and_enforce N r q ps call t dn sess pol p);
          (p3, rep1) = finish r1 ps1 e1 p2;
          (p4, rep2) = finish r2 ps2 e2 p3
      in (p4, rep1, rep2))"

section \<open>Samples\<close>

definition one_call :: Policy where
  "one_call = sample_gate\<lparr>p_Budget := \<lparr>bp_MaxToolCalls = 1, bp_MaxCostUSD = Fin 0\<rparr>\<rparr>"

lemma one_call_blocks: "effectiveMode one_call t \<noteq> EnforcementShadow"
proof -
  have "tools one_call = [(''read'', sample_tool), (''wire'', sample_wire)]"
    "p_EnforcementMode one_call = ''block''" "tp_EnforcementMode sample_tool = []" "tp_EnforcementMode sample_wire = []"
    by code_simp+
  then show ?thesis by (auto simp: effectiveMode_def tool_policy_def EnforcementShadow_def)
qed

lemma one_call_wf: "wf_policy one_call" by code_simp

lemma sample_net_world [simp]: "n_world sample_net = sample_world"
  by (simp add: sample_net_def)

lemma sample_fault_free [simp]: "fault_free sample_world"
  by (simp add: fault_free_def sample_world_def)

section \<open>Properties\<close>

text \<open>The call budget is never exceeded by requests served one after the other. However many requests
  a proxy serves, of whatever kind and in whatever order, the tool calls it forwards in one session stay
  within \<open>max_tool_calls\<close>, provided the policy blocks (shadow mode only reports) and no statement fails.\<close>

theorem budget_never_exceeded:
  assumes "fault_free (n_world N)" "wf_policy pol" "\<forall>t. effectiveMode pol t \<noteq> EnforcementShadow"
    and "0 < bp_MaxToolCalls (p_Budget pol)" "find_session st sid = None"
    and "serve_all N stat rs (SetAuditStrict strict (new_proxy st pol path key)) = (p, reps)"
  shows "int (forwarded_in N sid rs reps) \<le> bp_MaxToolCalls (p_Budget pol)"
proof -
  let ?p = "SetAuditStrict strict (new_proxy st pol path key)"
  have "serves_only pol ?p" by (simp add: serves_only_new)
  moreover have "call_count (px_db ?p) sid = 0"
    using assms(5) by (simp add: call_count_def SetAuditStrict_def new_proxy_def)
  ultimately show ?thesis using serve_all_budget [OF assms(1-4) _ assms(6), of sid] assms(4) by simp
qed

lemma budget_never_exceeded_witness:
  "forwarded_in sample_net ''s1'' [sample_request ''read'', sample_request ''read'']
     (snd (serve_all sample_net (\<lambda>_. True) [sample_request ''read'', sample_request ''read'']
        (SetAuditStrict False (new_proxy sample_db one_call ''tb.db'' (Some ''priv''))))) \<le> 1"
proof -
  have b: "bp_MaxToolCalls (p_Budget one_call) = 1" by (simp add: one_call_def)
  have "find_session sample_db ''s1'' = None" by code_simp
  from budget_never_exceeded [OF _ one_call_wf _ _ this, of sample_net "\<lambda>_. True"
      "[sample_request ''read'', sample_request ''read'']" False "''tb.db''" "Some ''priv''"]
  show ?thesis by (simp add: one_call_blocks b prod_eq_iff)
qed

text \<open>Overlapping calls can exceed the budget. With \<open>max_tool_calls\<close> 1, two calls of a fresh session
  that are both decided before either is recorded are both forwarded: the check and the increment are
  separate statements with no lock around them.\<close>

theorem budget_race:
  "\<exists>p'. overlapping sample_net (sample_request ''read'') (sample_request ''read'') (sample_claims ''pay'') ''s1''
     \<lparr>mq_JSONRPC = ''2.0'', mq_ID = ''1'', mq_Method = ''tools/call'', mq_Params = ''read''\<rparr>
     \<lparr>ca_Name = ''read'', ca_Arguments = ''5''\<rparr> \<lparr>ca_Name = ''read'', ca_Arguments = ''5''\<rparr>
     (new_proxy sample_db one_call ''tb.db'' (Some ''priv'')) = (p', Forwarded, Forwarded)
   \<and> bp_MaxToolCalls (p_Budget one_call) = 1 \<and> call_count (px_db p') ''s1'' = 2"
proof -
  let ?r = "overlapping sample_net (sample_request ''read'') (sample_request ''read'') (sample_claims ''pay'') ''s1''
     \<lparr>mq_JSONRPC = ''2.0'', mq_ID = ''1'', mq_Method = ''tools/call'', mq_Params = ''read''\<rparr>
     \<lparr>ca_Name = ''read'', ca_Arguments = ''5''\<rparr> \<lparr>ca_Name = ''read'', ca_Arguments = ''5''\<rparr>
     (new_proxy sample_db one_call ''tb.db'' (Some ''priv''))"
  have "snd ?r = (Forwarded, Forwarded)" by code_simp
  moreover have "call_count (px_db (fst ?r)) ''s1'' = 2" by code_simp
  moreover have "bp_MaxToolCalls (p_Budget one_call) = 1" by (simp add: one_call_def)
  ultimately show ?thesis by (intro exI [of _ "fst ?r"]) (simp add: prod_eq_iff)
qed

end
