(* ===== verification/TB_Approvals.thy ===== *)
theory TB_Approvals
  imports TB_FaultFree TB_ProxyRuns
begin

text \<open>
  From an escalated call to its retry. Only a tool call raises an escalation, and the row it leaves
  carries the session, the tool and the arguments of that call (\<open>raises\<close>); an approval keeps them; and
  the escalation stage looks for exactly them. So a human approval answers the retry of the very call
  that was held back, whatever the proxy and other processes do in between.
\<close>

section \<open>What raises an escalation\<close>

definition raises :: "string \<Rightarrow> ToolCallParams \<Rightarrow> db \<Rightarrow> db \<Rightarrow> bool" where
  "raises sid ps d d' \<longleftrightarrow>
     db_escalations d' = db_escalations d
     \<or> (\<exists>row. db_escalations d' = db_escalations d @ [row] \<and> es_session_id row = sid \<and> es_tool_name row = ca_Name ps
          \<and> from_null (es_arguments_json row) = ca_Arguments ps)"

lemma raises_same: "db_escalations d' = db_escalations d \<Longrightarrow> raises sid ps d d'"
  by (simp add: raises_def)

lemma raises_after: "db_escalations d' = db_escalations d \<Longrightarrow> raises sid ps d' d'' \<Longrightarrow> raises sid ps d d''"
  by (simp add: raises_def)

lemma CreateEscalation_raises:
  assumes "es_SessionID e = sid" "es_ToolName e = ca_Name ps" "es_ArgumentsJSON e = ca_Arguments ps"
  shows "raises sid ps d (snd (CreateEscalation W e d))"
  using assms
  by (auto simp: CreateEscalation_def Let_def db_bind_def db_exec_def insert_escalation_def raises_def
      row_of_escalation_def split: option.split sum.split prod.split)

lemma session_update_escalations:
  "db_escalations (snd (IncrementSessionCounters W i c d)) = db_escalations d"
proof -
  obtain res d' where e: "IncrementSessionCounters W i c d = (res, d')" by fastforce
  then have "db_escalations d' = db_escalations d"
    unfolding IncrementSessionCounters_def Let_def
    by (cases rule: exec_session_update_cases) (auto simp: same_tables_sel)
  with e show ?thesis by simp
qed

lemma enforce_raises:
  assumes "enforce N q ps sid seq dn pol af p = (p', rep)"
  shows "raises sid ps (px_db p) (px_db p')"
proof (cases "d_Action dn")
  case Escalate
  let ?e = "\<lparr>es_ID = w_uuid (n_world N) (db_tick (px_db p)), es_SessionID = sid, es_Seq = seq, es_ToolName = ca_Name ps,
      es_ArgumentsJSON = ca_Arguments ps, es_Status = ''pending'', es_Reason = [], es_CreatedAt = 0, es_ResolvedAt = 0\<rparr>"
  obtain res d where c: "CreateEscalation (n_world N) ?e (px_db p) = (res, d)" by fastforce
  have "px_db p' = d" using assms c Escalate by (auto simp: enforce_def escalate_def Let_def split: sum.splits)
  with CreateEscalation_raises [of ?e sid ps "px_db p" "n_world N"] c show ?thesis by simp
qed (use assms session_update_escalations in \<open>auto simp: enforce_def intro!: raises_same split: if_splits\<close>)

lemma record_and_enforce_raises:
  assumes "record_and_enforce N r q ps call t0 dn sess pol p = (p', rep)"
  shows "raises (tc_SessionID call) ps (px_db p) (px_db p')"
proof -
  let ?sid = "tc_SessionID call"
  let ?ev = "\<lparr>e_Seq = 0, e_SessionID = ?sid, e_ToolName = ca_Name ps, e_ArgumentsJSON = ca_Arguments ps,
      e_Decision = action_str (d_Action dn), e_PolicyRule = d_RuleID dn, e_RecordedAt = 0\<rparr>"
  obtain a d where a: "AppendEvent (n_world N) ?ev (px_db p) = (a, d)" by fastforce
  have d: "db_escalations d = db_escalations (px_db p)"
    using a by (cases rule: AppendEvent_cases) (auto simp: same_tables_sel)
  show ?thesis
  proof (cases a)
    case (Inl e)
    with assms a d show ?thesis by (auto simp: record_and_enforce_def Let_def intro!: raises_same)
  next
    case (Inr e')
    obtain failed p1 where w: "writeAuditRecord N r ?sid (tc_AgentName call) (tc_ParentAgent call) (ca_Name ps)
        (ca_Arguments ps) (e_Seq e') dn (p_Fingerprint pol) (p\<lparr>px_db := d\<rparr>) = (failed, p1)" by fastforce
    have s1: "db_escalations (px_db p1) = db_escalations (px_db p)"
      using w by (cases rule: writeAuditRecord_cases) (simp_all add: d)
    define p2 where "p2 = emitDecisionSpan (case tc_RequestedAt call of None \<Rightarrow> 0 | Some t \<Rightarrow> t) ?sid (tc_AgentName call)
        (ca_Name ps) dn (p_Fingerprint pol) (ExtractClientTraceID (rq_header r)) p1"
    obtain f p3 where t: "persist_taint N ?sid t0 sess p2 = (f, p3)" by fastforce
    have s3: "db_escalations (px_db p3) = db_escalations (px_db p)"
      using persist_taint_cases(4) [OF t] s1 by (simp add: p2_def)
    show ?thesis
    proof (cases f)
      case None
      then have "enforce N q ps ?sid (e_Seq e') dn pol failed p3 = (p', rep)"
        using assms a w t Inr by (simp add: record_and_enforce_def Let_def p2_def [symmetric])
      from raises_after [OF s3 enforce_raises [OF this]] show ?thesis .
    next
      case (Some rep')
      then have "p' = p3" using assms a w t Inr by (simp add: record_and_enforce_def Let_def p2_def [symmetric])
      with s3 show ?thesis by (simp add: raises_same)
    qed
  qed
qed

lemma serve_raises:
  assumes inv: "lru_inv (px_polCache p)" and path: "rq_path r \<noteq> ''/health''" and call: "tool_call_of N r = Some (q, ps)"
    and s: "serve N stat r p = (p', rep)"
  shows "raises (session_header r) ps (px_db p) (px_db p')"
proof -
  let ?sid = "session_header r"
  obtain a d where a: "authenticate (n_world N) (n_keys N) (rq_header r) (px_db p) = (a, d)" by fastforce
  note sv = serve_tool_call [OF path call, of stat p]
  have d: "db_escalations d = db_escalations (px_db p)" using auth_step(1) [OF a] by (simp add: same_tables_sel)
  have quiet: ?thesis if "same_tables d (px_db p')"
    using that d by (simp add: raises_same same_tables_sel)
  show ?thesis
  proof (cases a)
    case (Inl m)
    with s a sv show ?thesis by (intro quiet) auto
  next
    case (Inr claims)
    let ?p = "p\<lparr>px_db := d\<rparr>"
    consider (header) "?sid = []" | (virtual) "?sid \<noteq> []" "ca_Name ps = ''check_escalation_status''"
      | (governed) "?sid \<noteq> []" "ca_Name ps \<noteq> ''check_escalation_status''" by blast
    then show ?thesis
    proof cases
      case header
      with s a sv Inr show ?thesis by (intro quiet) auto
    next
      case virtual
      with s a sv Inr have e: "escalation_status N q ps ?p = (p', rep)" by simp
      show ?thesis by (rule quiet) (use escalation_status_reply [OF e] in auto)
    next
      case governed
      with s a sv Inr have h: "handle_tool_call N r claims ?sid q ps ?p = (p', rep)" by simp
      have inv': "lru_inv (px_polCache ?p)" using inv by simp
      obtain e p1 where e: "evaluate_call N claims ?sid ps ?p = (e, p1)" by fastforce
      from inv' e show ?thesis
      proof (cases rule: evaluate_call_cases)
        case (refused rep')
        with h e d show ?thesis by (auto simp: handle_tool_call_def raises_same same_tables_sel)
      next
        case (gone row)
        with h e d show ?thesis by (auto simp: handle_tool_call_def raises_same same_views_def)
      next
        case (decided row d1 dn sess')
        let ?c = "engine_call claims ?sid ps (now_at (n_world N) (px_db ?p))"
        have "record_and_enforce N r q ps ?c (s_Tainted (session_at ?p ?sid claims)) dn sess'
            (policy_for ?p (session_at ?p ?sid claims)) p1 = (p', rep)"
          using h e decided(1) by (simp add: handle_tool_call_def)
        from record_and_enforce_raises [OF this] have "raises ?sid ps (px_db p1) (px_db p')" by (simp add: engine_call_def)
        moreover have "db_escalations (px_db p1) = db_escalations (px_db p)"
          using decided(5,9) d by (simp add: same_views_def)
        ultimately show ?thesis using raises_after by metis
      qed
    qed
  qed
qed

lemma raised_row:
  assumes "raises sid ps d d'" "find_escalation d i = None" "find_escalation d' i = Some row"
  shows "es_session_id row = sid" "es_tool_name row = ca_Name ps" "from_null (es_arguments_json row) = ca_Arguments ps"
  using assms by (auto simp: raises_def find_escalation_def find_snoc split: if_splits)

section \<open>What an approval leaves\<close>

lemma approve_row:
  assumes wf: "wf_db d" and a: "esc_Approve W i note d = (Inr (), d')" and row: "find_escalation d i = Some row"
  shows "\<exists>row'. find_escalation d' i = Some row' \<and> escalation_advance row row' \<and> es_status row' = ''approved''"
proof -
  let ?hit = "\<lambda>r. es_id r = i \<and> es_status r = ''pending''"
  let ?f = "\<lambda>r. r\<lparr>es_status := ''approved'', es_reason := nullableString note, es_resolved_at := Some (now_at W d)\<rparr>"
  let ?d = "d\<lparr>db_escalations := map (\<lambda>r. if ?hit r then ?f r else r) (db_escalations d)\<rparr>"
  let ?n = "length (filter ?hit (db_escalations d))"
  have a': "resolveEscalation W i ''approved'' note d = (Inr (), d')"
    using a by (auto simp: esc_Approve_def ApproveEscalation_def db_wrap_def split: prod.splits sum.splits)
  have nf: "w_fault W (db_tick d) = None"
    using a' by (auto simp: resolveEscalation_def Let_def db_exec_def db_bind_def split: option.splits)
  have "resolveEscalation W i ''approved'' note d =
      db_bind (db_read W (''checking rows affected for escalation '' @ qw W i) (\<lambda>_. ()) (tick ?d))
        (\<lambda>_ d. if ?n = 0 then
             (case GetEscalationStatus W i d of
                (Inl lookupErr, d) \<Rightarrow> (Inl (wrapf (''escalation '' @ qw W i @ '' not found'') err_no_rows), d)
              | (Inr current, d) \<Rightarrow> (Inl (errorf (''escalation '' @ qw W i
                    @ '' cannot be resolved: current status is '' @ qw W current)), d))
           else (Inr (), d))"
    using nf by (simp add: resolveEscalation_def Let_def db_exec_def update_escalation_def)
  with a' have n: "?n \<noteq> 0" and d': "same_tables ?d d'"
    by (auto simp: db_bind_def db_read_def split: option.splits if_splits prod.splits sum.splits)
      (auto simp: same_tables_def tick_def)
  from n obtain x where x: "x \<in> set (db_escalations d)" "es_id x = i" "es_status x = ''pending''"
    by (auto simp: filter_empty_conv)
  have r: "row \<in> set (db_escalations d)" "es_id row = i" using row by (auto simp: find_escalation_def dest!: find_SomeD)
  have "x = row" using wf x r by (auto simp: wf_db_def distinct_map inj_on_def)
  with x have pending: "es_status row = ''pending''" by simp
  have "(es_id (?f r) = i) = (es_id r = i)" for r by simp
  from find_map_update [of "\<lambda>r. es_id r = i" ?f ?hit, OF this, of "db_escalations d"] row
  have "find_escalation ?d i = Some (?f row)" using pending r by (simp add: find_escalation_def)
  then have "find_escalation d' i = Some (?f row)" using d' by (simp add: find_escalation_def same_tables_sel)
  then show ?thesis using pending by (auto simp: escalation_advance_def)
qed

lemma approved_stays:
  assumes "effects d d'" "find_escalation d i = Some row" "es_status row = ''approved''"
  shows "store_approvals L d' (es_session_id row) (es_tool_name row) (l_sha256_hex L (from_null (es_arguments_json row)))"
proof -
  obtain row' where row': "find_escalation d' i = Some row'" "escalation_advance row row'"
    using effects_escalation [OF assms(1,2)] by blast
  with assms(3) have "row' = row" by (simp add: escalation_advance_def)
  with row' assms(3) have "row \<in> set (db_escalations d')" by (auto simp: find_escalation_def dest: find_in_set)
  with assms(3) show ?thesis by (auto simp: store_approvals_def)
qed

section \<open>The escalation stage on an approved call\<close>

lemma content_never_escalates: "ContentEvaluator L call sess pol = Inr d \<Longrightarrow> d_Action d \<noteq> Escalate"
proof -
  have a: "evalNeverWhenAny L call preds = Inr d \<Longrightarrow> d_Action d \<noteq> Escalate" for preds
    by (induction preds) (auto split: sum.splits if_splits)
  have b: "evalNeverWhenAll_loop L call preds rs = Inr d \<Longrightarrow> d_Action d \<noteq> Escalate" for preds rs
    by (induction preds arbitrary: rs) (auto split: sum.splits if_splits)
  show "ContentEvaluator L call sess pol = Inr d \<Longrightarrow> d_Action d \<noteq> Escalate"
    by (auto simp: ContentEvaluator_def evalNeverWhenAll_def Let_def split: option.splits if_splits dest: a b)
qed

lemma only_escalation_escalates:
  assumes "ev \<in> set (full_stages L B now)" "ev call sess pol = Inr d" "d_Action d = Escalate"
  shows "EscalationEvaluator L B call sess pol = Inr d"
  using assms content_never_escalates [of L call sess pol d]
  by (auto simp: full_stages_def EnvEvaluator_def MayUseEvaluator_def DelegationEvaluator_def BudgetEvaluator_def
      TaintEvaluator_def SequenceEvaluator_def RateLimitEvaluator_def Let_def
      split: if_splits option.splits sum.splits)

lemma escalation_needs_missing_approval:
  assumes "EscalationEvaluator L B call sess pol = Inr d" "d_Action d = Escalate"
  shows "qb_HasApprovedEscalation B (s_ID sess) (tc_ToolName call) (l_sha256_hex L (tc_Arguments call)) = Inr False"
  using assms by (auto simp: EscalationEvaluator_def Let_def split: option.splits sum.splits if_splits)

context query_backend begin

lemma approved_not_escalated:
  assumes "approvals (s_ID sess) (tc_ToolName call) (l_sha256_hex L (tc_Arguments call))"
  shows "d_Action (fst (Evaluate (full_stages L B now) call sess pol)) \<noteq> Escalate"
proof
  assume e: "d_Action (fst (Evaluate (full_stages L B now) call sess pol)) = Escalate"
  obtain d s' where ev: "Evaluate (full_stages L B now) call sess pol = (d, s')" by fastforce
  from full_stages_contract ev show False
  proof (cases rule: Evaluate_action_cases)
    case (stopped st d0)
    then have "d_Action d0 = Escalate" using e ev by (auto simp: shadowed_def split: if_splits)
    from escalation_needs_missing_approval [OF only_escalation_escalates [OF stopped(1,2) this] this]
    show False using approved assms by blast
  qed (use e ev in simp_all)
qed

end

lemma permitted_approvals:
  assumes "permitted L hist (\<lambda>_ _ _. True) scope now pol call sess"
    and "approvals (s_ID sess) (tc_ToolName call) (l_sha256_hex L (tc_Arguments call))"
  shows "permitted L hist approvals scope now pol call sess"
  using assms by (auto simp: permitted_def approval_ok_def split: option.splits)

section \<open>Samples\<close>

text \<open>\<open>read\<close> needs an approval from the amount 5 on.\<close>

definition sample_approval :: Policy where
  "sample_approval = sample_policy\<lparr>p_Tools := Some [(''read'', sample_tool\<lparr>tp_EscalateWhen :=
     Some \<lparr>er_ArgumentPath = ''$.amount'', er_Operator = ''>='', er_Value = A_int 5\<rparr>\<rparr>)]\<rparr>"

definition sample_held :: proxy where
  "sample_held = new_proxy sample_db sample_approval ''tb.db'' (Some ''priv'')"

definition sample_waiting :: proxy where
  "sample_waiting = fst (serve sample_net (\<lambda>_. True) (sample_request ''read'') sample_held)"

definition sample_granted :: db where
  "sample_granted = snd (esc_Approve sample_world (es_id (hd (db_escalations (px_db sample_waiting)))) ''ok'' (px_db sample_waiting))"

section \<open>Properties\<close>

text \<open>C27: A human approval lets the held call through. Suppose serving a tool call raised the escalation
  \<open>i\<close>. Whatever the proxy and other processes do next, once an approval of \<open>i\<close> has succeeded, and again
  whatever happens after it, a retry in the same session of the same tool with the same arguments is never
  answered with another escalation; and if no statement fails it is allowed as soon as the rest of the
  policy permits it.\<close>

theorem approved_escalation_unblocks:
  assumes "px_ok p" "rq_path r \<noteq> ''/health''" "tool_call_of N r = Some (q, ps)" "serve N stat r p = (p', rep)"
    and "find_escalation (px_db p) i = None" "find_escalation (px_db p') i \<noteq> None"
    and "px_run N p' p1" "esc_Approve (n_world N) i why (px_db p1) = (Inr (), d)"
    and "px_run N (p1\<lparr>px_db := d\<rparr>) p2"
    and "s_ID sess = session_header r" "tc_ToolName call = ca_Name ps" "tc_Arguments call = ca_Arguments ps"
  shows "d_Action (fst (Evaluate (full_stages (n_lib N) (store_backend (n_world N) jt (px_db p2)) now) call sess pol)) \<noteq> Escalate
    \<and> (fault_free (n_world N) \<and> tools_decode jt (px_db p2) \<and> wf_policy pol
       \<and> permitted (n_lib N) (store_hist (px_db p2)) (\<lambda>_ _ _. True) (store_scope jt (px_db p2)) now pol call sess
       \<longrightarrow> d_Action (fst (Evaluate (full_stages (n_lib N) (store_backend (n_world N) jt (px_db p2)) now) call sess pol)) = Allow)"
proof -
  let ?L = "n_lib N"
  have inv: "lru_inv (px_polCache p)" using assms(1) by (simp add: px_ok_def cache_keyed_inv)
  have ok': "px_ok p'" using handler_step_ok [OF serve_step [OF inv assms(4)] assms(1)] .
  have run1: "px_ok p1" "effects (px_db p') (px_db p1)" using px_run_ok [OF assms(7) ok'] by simp_all
  obtain row where row: "find_escalation (px_db p') i = Some row" using assms(6) by blast
  note raised = raised_row [OF serve_raises [OF inv assms(2-4)] assms(5) row]
  obtain row1 where row1: "find_escalation (px_db p1) i = Some row1" "escalation_advance row row1"
    using effects_escalation [OF run1(2) row] by blast
  have wf1: "wf_db (px_db p1)" using run1(1) by (simp add: px_ok_def)
  obtain row2 where row2: "find_escalation d i = Some row2" "escalation_advance row1 row2" "es_status row2 = ''approved''"
    using approve_row [OF wf1 assms(8) row1(1)] by blast
  have eff: "effect (px_db p1) d" using resolve_effects(3) [of "px_db p1" "n_world N" i why] assms(8) by simp
  have "px_ok (p1\<lparr>px_db := d\<rparr>)" using run1(1) effect_wf [OF eff] by (simp add: px_ok_def)
  from px_run_ok [OF assms(9) this] have eff2: "effects d (px_db p2)" by simp
  have "es_session_id row2 = session_header r" "es_tool_name row2 = ca_Name ps"
    "from_null (es_arguments_json row2) = ca_Arguments ps"
    using row1(2) row2(2) raised by (simp_all add: escalation_advance_def)
  with approved_stays [OF eff2 row2(1,3)] assms(10-12)
  have appr: "store_approvals ?L (px_db p2) (s_ID sess) (tc_ToolName call) (l_sha256_hex ?L (tc_Arguments call))" by simp
  from store.approved_not_escalated [OF appr] show ?thesis
    using total_backend.Evaluate_permits [OF store_total] permitted_approvals [where approvals = "store_approvals ?L (px_db p2)", OF _ appr] by blast
qed

lemma approved_escalation_unblocks_witness:
  "d_Action (fst (Evaluate (full_stages sample_lib (store_backend sample_world (\<lambda>_. Inr []) sample_granted) 0)
     (sample_call ''read'') sample_session sample_approval)) \<noteq> Escalate"
proof -
  let ?r = "sample_request ''read''"
  have ok: "px_ok sample_held" unfolding sample_held_def by (rule new_proxy_ok [OF sample_db_wf])
  have s: "serve sample_net (\<lambda>_. True) ?r sample_held
      = (sample_waiting, snd (serve sample_net (\<lambda>_. True) ?r sample_held))"
    by (simp add: sample_waiting_def)
  have none: "find_escalation (px_db sample_held) ''u14'' = None"
    by (simp add: sample_held_def new_proxy_def sample_db_def empty_db_def find_escalation_def)
  have id14: "map es_id (db_escalations (px_db sample_waiting)) = [''u14'']" by code_simp
  then have some: "find_escalation (px_db sample_waiting) ''u14'' \<noteq> None"
    by (auto simp: find_escalation_def)
  have granted: "sample_granted = snd (esc_Approve sample_world ''u14'' ''ok'' (px_db sample_waiting))"
    using id14 by (auto simp: sample_granted_def)
  have "fst (esc_Approve sample_world ''u14'' ''ok'' (px_db sample_waiting)) = Inr ()" by code_simp
  then have a: "esc_Approve (n_world sample_net) ''u14'' ''ok'' (px_db sample_waiting) = (Inr (), sample_granted)"
    by (simp add: granted prod_eq_iff sample_net_def)
  have c: "s_ID sample_session = session_header ?r" "tc_ToolName (sample_call ''read'') = ''read''"
    "tc_Arguments (sample_call ''read'') = ''5''" "rq_path ?r \<noteq> ''/health''" "n_lib sample_net = sample_lib" "n_world sample_net = sample_world"
    by (simp_all add: sample_session_def session_header_def sample_request_def sample_header_def sample_call_def
        sample_net_def sample_world_def)
  from approved_escalation_unblocks [OF ok c(4) sample_call_of(1) s none some px_run.start a px_run.start c(1), of "sample_call ''read''"
      "\<lambda>_. Inr []" 0 sample_approval]
  have "d_Action (fst (Evaluate (full_stages (n_lib sample_net) (store_backend (n_world sample_net) (\<lambda>_. Inr []) sample_granted) 0)
      (sample_call ''read'') sample_session sample_approval)) \<noteq> Escalate" by (simp add: c(2,3))
  then show ?thesis by (simp add: c(6) sample_world_def [THEN arg_cong, of w_lib])
qed

end
