(* ===== verification/TB_Frame.thy ===== *)
theory TB_Frame
  imports TB_Limits
begin

text \<open>
  Sessions are isolated: a request touches no row of another session and no agent, whatever
  statements fail. The frame is carried through every stage of a tool call; the stdio transport
  rests on it for its one-session guarantee.
\<close>

section \<open>The frame of a session\<close>

definition only_session :: "string \<Rightarrow> db \<Rightarrow> db \<Rightarrow> bool" where
  "only_session sid d d' \<longleftrightarrow>
     filter (\<lambda>r. sr_ID r \<noteq> sid) (db_sessions d') = filter (\<lambda>r. sr_ID r \<noteq> sid) (db_sessions d)
   \<and> filter (\<lambda>r. ev_session_id r \<noteq> sid) (db_events d') = filter (\<lambda>r. ev_session_id r \<noteq> sid) (db_events d)
   \<and> filter (\<lambda>r. au_session_id r \<noteq> sid) (db_audit d') = filter (\<lambda>r. au_session_id r \<noteq> sid) (db_audit d)
   \<and> filter (\<lambda>r. es_session_id r \<noteq> sid) (db_escalations d') = filter (\<lambda>r. es_session_id r \<noteq> sid) (db_escalations d)
   \<and> db_agents d' = db_agents d"

lemma only_session_refl [simp]: "only_session sid d d"
  by (simp add: only_session_def)

lemma only_session_trans: "only_session sid a b \<Longrightarrow> only_session sid b c \<Longrightarrow> only_session sid a c"
  by (simp add: only_session_def)

lemma only_session_same: "same_tables d d' \<Longrightarrow> only_session sid d d'"
  by (simp add: only_session_def same_tables_sel)

lemma filter_map_update:
  assumes "\<And>r. sr_ID (f r) = sr_ID r"
  shows "filter (\<lambda>r. sr_ID r \<noteq> i) (map (\<lambda>r. if sr_ID r = i then f r else r) xs) = filter (\<lambda>r. sr_ID r \<noteq> i) xs"
  by (induction xs) (auto simp: assms)

lemma find_filter_other: "i \<noteq> sid \<Longrightarrow> find (\<lambda>r. f r = i) (filter (\<lambda>r. f r \<noteq> sid) xs) = find (\<lambda>r. f r = i) xs"
  by (induction xs) auto

lemma filter_filter_other: "i \<noteq> sid \<Longrightarrow> filter (\<lambda>r. f r = i) (filter (\<lambda>r. f r \<noteq> sid) xs) = filter (\<lambda>r. f r = i) xs"
  by (induction xs) auto

lemma filter_other_eq:
  "filter (\<lambda>r. f r \<noteq> sid) ys = filter (\<lambda>r. f r \<noteq> sid) xs \<Longrightarrow> i \<noteq> sid \<Longrightarrow>
   filter (\<lambda>r. f r = i) ys = filter (\<lambda>r. f r = i) xs"
  by (metis filter_filter_other)

text \<open>What a decision about another session reads is unchanged.\<close>

lemma only_session_views:
  assumes "only_session sid d d'" "i \<noteq> sid"
  shows "find_session d' i = find_session d i" "store_hist d' i = store_hist d i"
    "store_approvals L d' i = store_approvals L d i" "store_scope jt d' = store_scope jt d"
proof -
  show "find_session d' i = find_session d i"
    using find_filter_other [OF assms(2), of sr_ID "db_sessions d"] find_filter_other [OF assms(2), of sr_ID "db_sessions d'"] assms(1)
    by (simp add: find_session_def only_session_def)
  have ev: "filter (\<lambda>r. ev_session_id r \<noteq> sid) (db_events d') = filter (\<lambda>r. ev_session_id r \<noteq> sid) (db_events d)"
    and es: "filter (\<lambda>r. es_session_id r \<noteq> sid) (db_escalations d') = filter (\<lambda>r. es_session_id r \<noteq> sid) (db_escalations d)"
    using assms(1) by (simp_all add: only_session_def)
  show "store_hist d' i = store_hist d i"
    using filter_other_eq [OF ev assms(2)] by (simp add: store_hist_def session_rows_def)
  have "filter (\<lambda>r. es_session_id r = i) (db_escalations d') = filter (\<lambda>r. es_session_id r = i) (db_escalations d)"
    by (rule filter_other_eq [OF es assms(2)])
  then have "set (filter (\<lambda>r. es_session_id r = i) (db_escalations d')) = set (filter (\<lambda>r. es_session_id r = i) (db_escalations d))"
    by simp
  then have "r \<in> set (db_escalations d') \<and> es_session_id r = i \<longleftrightarrow> r \<in> set (db_escalations d) \<and> es_session_id r = i" for r
    by (auto simp: set_eq_iff)
  then show "store_approvals L d' i = store_approvals L d i" by (auto simp: store_approvals_def fun_eq_iff)
  show "store_scope jt d' = store_scope jt d" using assms(1) by (simp add: only_session_def store_scope_def find_agent_def fun_eq_iff)
qed

section \<open>Store operations\<close>

lemma session_update_only: "(\<And>r. sr_ID (f r) = sr_ID r) \<Longrightarrow> only_session sid d (snd (exec_session_update W m m' sid f d))"
proof -
  assume f: "\<And>r. sr_ID (f r) = sr_ID r"
  obtain res d' where e: "exec_session_update W m m' sid f d = (res, d')" by fastforce
  have u: "only_session sid d (d\<lparr>db_sessions := map (\<lambda>r. if sr_ID r = sid then f r else r) (db_sessions d)\<rparr>)"
    by (simp add: only_session_def filter_map_update [of f, OF f])
  from e have "only_session sid d d'"
    by (cases rule: exec_session_update_cases) (use u only_session_same only_session_trans in blast)+
  with e show ?thesis by simp
qed

lemma store_ops_only:
  "only_session sid d (snd (CreateSession W sid agent fp d))"
  "only_session sid d (snd (UpdateSessionTaint W sid b d))"
  "only_session sid d (snd (IncrementSessionCounters W sid c d))"
  "e_SessionID e = sid \<Longrightarrow> only_session sid d (snd (AppendEvent W e d))"
  "es_SessionID x = sid \<Longrightarrow> only_session sid d (snd (CreateEscalation W x d))"
  "r_SessionID rec = sid \<Longrightarrow> only_session sid d (snd (audit_Write W rec d))"
proof -
  show "only_session sid d (snd (UpdateSessionTaint W sid b d))" "only_session sid d (snd (IncrementSessionCounters W sid c d))"
    unfolding UpdateSessionTaint_def IncrementSessionCounters_def Let_def by (rule session_update_only, simp)+
  obtain res d1 where c: "CreateSession W sid agent fp d = (res, d1)" by fastforce
  then have "only_session sid d d1"
  proof (cases rule: CreateSession_cases)
    case (created row)
    have "only_session sid d (d\<lparr>db_sessions := db_sessions d @ [row]\<rparr>)" using created(4) by (simp add: only_session_def)
    then show ?thesis by (rule only_session_trans) (rule only_session_same [OF created(3)])
  qed (simp add: only_session_same)
  with c show "only_session sid d (snd (CreateSession W sid agent fp d))" by simp
  show "only_session sid d (snd (AppendEvent W e d))" if e: "e_SessionID e = sid"
  proof -
    obtain res d2 where a: "AppendEvent W e d = (res, d2)" by fastforce
    then have "only_session sid d d2"
    proof (cases rule: AppendEvent_cases)
      case (appended e')
      let ?d = "d\<lparr>db_events := db_events d @ [row_of_event (e_Seq e') e']\<rparr>"
      have "e_SessionID e' = sid" using appended(2) e by (simp add: stamped_def)
      then have "only_session sid d ?d" by (simp add: only_session_def row_of_event_def)
      then show ?thesis by (rule only_session_trans) (rule only_session_same [OF appended(4)])
    qed (simp add: only_session_same)
    with a show ?thesis by simp
  qed
  show "only_session sid d (snd (CreateEscalation W x d))" if "es_SessionID x = sid"
    using that by (auto simp: CreateEscalation_def Let_def db_bind_def db_exec_def insert_escalation_def only_session_def
        row_of_escalation_def tick_def split: option.split sum.split prod.split)
  show "only_session sid d (snd (audit_Write W rec d))" if "r_SessionID rec = sid"
    using that by (auto simp: audit_Write_def db_wrap_def AppendAuditRecord_def db_bind_def db_exec_def insert_audit_def
        only_session_def row_of_record_def tick_def split: option.split sum.split prod.split)
qed

section \<open>The stages of a request\<close>

lemma load_session_only:
  assumes "load_session N sid claims p = (res, p')"
  shows "only_session sid (px_db p) (px_db p')"
proof -
  have g: "only_session sid (px_db p) (snd (GetSession (n_world N) sid (px_db p)))"
    by (intro only_session_same reads_change_nothing)
  from assms g show ?thesis
    by (auto simp: load_session_def Let_def split: prod.splits sum.splits if_splits)
      (metis store_ops_only(1) only_session_trans snd_conv)+
qed

lemma evaluate_call_only:
  assumes "evaluate_call N claims sid ps p = (res, p')"
  shows "only_session sid (px_db p) (px_db p')"
proof -
  define p0 where "p0 = writeTraceEntry N \<lparr>te_SessionID = sid, te_AgentName = cl_AgentName claims, te_ToolName = ca_Name ps,
      te_Arguments = ca_Arguments ps, te_RequestedAt = n_rfc3339 N (now_at (n_world N) (px_db p))\<rparr> p"
  obtain l p1 where l: "load_session N sid claims p0 = (l, p1)" by fastforce
  have "only_session sid (px_db p) (px_db p1)" using load_session_only [OF l] by (simp add: p0_def)
  moreover have "same_tables (px_db p1) (px_db p')"
    using assms l
    by (auto simp: evaluate_call_def Let_def p0_def [symmetric] decide_def session_policy_def policyForFingerprint_def
        split_beta split: sum.splits prod.splits if_splits option.splits)
  ultimately show ?thesis using only_session_trans only_session_same by blast
qed

lemma writeAuditRecord_only:
  assumes "writeAuditRecord N r sid agent parent tool args seq dn fp p = (failed, p')"
  shows "only_session sid (px_db p) (px_db p')"
proof -
  have "r_SessionID rec = sid"
    if "Sign L K (audit_record N r sid agent parent tool args seq dn fp d) key = Inr rec" for L K d key rec
    using that by (auto simp: Sign_def canonicalJSON_def audit_record_def Let_def)
  then show ?thesis using assms
    by (auto simp: writeAuditRecord_def split: option.splits sum.splits prod.splits) (metis store_ops_only(6) snd_conv)+
qed

lemma enforce_only:
  assumes "enforce N q ps sid seq dn pol af p = (p', rep)"
  shows "only_session sid (px_db p) (px_db p')"
proof -
  have "only_session sid (px_db p) (px_db (fst (escalate N q ps sid seq dn pol p)))"
  proof -
    obtain x where x: "escalate N q ps sid seq dn pol p = (case CreateEscalation (n_world N) x (px_db p) of
           (Inl escErr, d) \<Rightarrow>
             (p\<lparr>px_db := d\<rparr>, writeJSONRPCError (mq_ID q) ''escalation could not be recorded'' ''internal_error'')
         | (Inr _, d) \<Rightarrow>
             (p\<lparr>px_db := d,
                px_notified := px_notified p @ [Notify x (d_Reason dn) (Some \<lparr>nc_WebhookURL = webhook_of pol, nc_AdminPort = px_adminPort p\<rparr>)]\<rparr>,
              writeJSONRPCEscalated (n_lib N) (mq_ID q) (w_uuid (n_world N) (db_tick (px_db p)))))" "es_SessionID x = sid"
      by (simp add: escalate_def Let_def)
    obtain c d where c: "CreateEscalation (n_world N) x (px_db p) = (c, d)" by fastforce
    then have "only_session sid (px_db p) d" using store_ops_only(5) [OF x(2), of "px_db p" "n_world N"] by simp
    then show ?thesis unfolding x(1) using c by (simp split: sum.split)
  qed
  then show ?thesis using assms store_ops_only(3)
    by (auto simp: enforce_def split: Action.splits if_splits)
qed

lemma record_and_enforce_only:
  assumes "record_and_enforce N r q ps call t0 dn sess pol p = (p', rep)"
  shows "only_session (tc_SessionID call) (px_db p) (px_db p')"
proof -
  let ?sid = "tc_SessionID call"
  let ?ev = "\<lparr>e_Seq = 0, e_SessionID = ?sid, e_ToolName = ca_Name ps, e_ArgumentsJSON = ca_Arguments ps,
      e_Decision = action_str (d_Action dn), e_PolicyRule = d_RuleID dn, e_RecordedAt = 0\<rparr>"
  obtain res d where a: "AppendEvent (n_world N) ?ev (px_db p) = (res, d)" by fastforce
  have o: "only_session ?sid (px_db p) d" using store_ops_only(4) [of ?ev ?sid "px_db p" "n_world N"] a by simp
  show ?thesis
  proof (cases res)
    case (Inl e)
    with assms a o show ?thesis by (auto simp: record_and_enforce_def Let_def)
  next
    case (Inr ev)
    obtain af p1 where w: "writeAuditRecord N r ?sid (tc_AgentName call) (tc_ParentAgent call) (ca_Name ps)
        (ca_Arguments ps) (e_Seq ev) dn (p_Fingerprint pol) (p\<lparr>px_db := d\<rparr>) = (af, p1)" by fastforce
    define p2 where "p2 = emitDecisionSpan (case tc_RequestedAt call of None \<Rightarrow> 0 | Some t \<Rightarrow> t) ?sid (tc_AgentName call)
        (ca_Name ps) dn (p_Fingerprint pol) (ExtractClientTraceID (rq_header r)) p1"
    obtain f p3 where t: "persist_taint N ?sid t0 sess p2 = (f, p3)" by fastforce
    have "only_session ?sid (px_db p2) (px_db p3)"
      using t store_ops_only(2) [of ?sid "px_db p2" "n_world N" "s_Tainted sess"]
      by (auto simp: persist_taint_def split: if_splits sum.splits prod.splits)
    moreover have "only_session ?sid d (px_db p2)" using writeAuditRecord_only [OF w] by (simp add: p2_def)
    ultimately have o3: "only_session ?sid (px_db p) (px_db p3)" using o only_session_trans by blast
    show ?thesis
    proof (cases f)
      case None
      then have "enforce N q ps ?sid (e_Seq ev) dn pol af p3 = (p', rep)"
        using assms a w t Inr by (simp add: record_and_enforce_def Let_def p2_def [symmetric])
      with o3 enforce_only only_session_trans show ?thesis by blast
    next
      case (Some rep')
      with assms a w t Inr o3 show ?thesis by (auto simp: record_and_enforce_def Let_def p2_def [symmetric])
    qed
  qed
qed

lemma handle_tool_call_only:
  assumes "handle_tool_call N r claims sid q ps p = (p', rep)"
  shows "only_session sid (px_db p) (px_db p')"
proof -
  obtain e p1 where e: "evaluate_call N claims sid ps p = (e, p1)" by fastforce
  have o: "only_session sid (px_db p) (px_db p1)" by (rule evaluate_call_only [OF e])
  show ?thesis
  proof (cases e)
    case (Inl f)
    with assms e o show ?thesis by (auto simp: handle_tool_call_def)
  next
    case (Inr x)
    obtain call t0 dn sess pol where x: "x = (call, t0, dn, sess, pol)" by (cases x) auto
    have "tc_SessionID call = sid"
      using e Inr x by (auto simp: evaluate_call_def Let_def engine_call_def split_beta split: sum.splits prod.splits if_splits)
    moreover have "record_and_enforce N r q ps call t0 dn sess pol p1 = (p', rep)"
      using assms e Inr x by (simp add: handle_tool_call_def)
    ultimately show ?thesis using o record_and_enforce_only only_session_trans by blast
  qed
qed

lemma serve_only_session:
  assumes "serve N stat r p = (p', rep)"
  shows "only_session (session_header r) (px_db p) (px_db p')"
proof (cases "rq_path r = ''/health''")
  case True
  then show ?thesis using assms
    by (auto simp: serve_def handleHealth_def Let_def store_Ping_def intro!: only_session_same split: option.splits if_splits)
next
  case path: False
  obtain a d where a: "authenticate (n_world N) (n_keys N) (rq_header r) (px_db p) = (a, d)" by fastforce
  have o: "only_session (session_header r) (px_db p) d" by (rule only_session_same) (rule auth_step(1) [OF a])
  show ?thesis
  proof (cases "tool_call_of N r")
    case None
    from serve_no_call [OF this, of p stat] assms show ?thesis by (simp add: only_session_same)
  next
    case (Some qps)
    then obtain q ps where call: "tool_call_of N r = Some (q, ps)" by (cases qps) auto
    have h: "only_session (session_header r) (px_db p) (px_db p1)"
      if "handle_tool_call N r claims (session_header r) q ps (p\<lparr>px_db := d\<rparr>) = (p1, rep1)" for claims p1 rep1
      using handle_tool_call_only [OF that] o only_session_trans by fastforce
    have e: "only_session (session_header r) (px_db p) (px_db p1)"
      if "escalation_status N q ps (p\<lparr>px_db := d\<rparr>) = (p1, rep1)" for p1 rep1
      using only_session_same [OF escalation_status_reply(2) [OF that]] o only_session_trans by fastforce
    show ?thesis
      using assms serve_tool_call [OF path call, of stat p] a o h e
      by (auto split: sum.splits if_splits)
  qed
qed

section \<open>Properties\<close>

text \<open>C19: Sessions are isolated. Whatever a request does, and whichever statements fail, nothing that a
  decision about another session reads has changed: that session's row with its counters and taint, its
  history, its approvals and the registered tool sets are as before.\<close>

theorem session_isolation:
  assumes "serve N stat r p = (p', rep)" "i \<noteq> session_header r"
  shows "find_session (px_db p') i = find_session (px_db p) i \<and> store_hist (px_db p') i = store_hist (px_db p) i
    \<and> store_approvals L (px_db p') i = store_approvals L (px_db p) i \<and> store_scope jt (px_db p') = store_scope jt (px_db p)"
  using only_session_views [OF serve_only_session [OF assms(1)] assms(2)] by blast

lemma session_isolation_witness:
  "find_session (px_db (fst (serve sample_net (\<lambda>_. True) (sample_request ''read'') sample_proxy))) ''s2'' = None"
proof -
  have "''s2'' \<noteq> session_header (sample_request ''read'')" by code_simp
  from session_isolation [OF prod.collapse [symmetric] this, of sample_net "\<lambda>_. True" sample_proxy]
  show ?thesis by (simp add: sample_proxy_def new_proxy_def sample_db_def empty_db_def find_session_def)
qed

end
