(* ===== verification/TB_Cli.thy ===== *)
theory TB_Cli
  imports TB_Proxy
begin

text \<open>
  What the commands under \<open>cmd\<close> share: the environment they read files, JSON lines and times from,
  the line scanner, the text formatting they use beyond \<open>TB_Prelude\<close>, and the grouping of records
  by session that \<open>simulate\<close> and \<open>audit replay\<close> both write out.
\<close>

section \<open>The environment of a command\<close>

text \<open>
  \<open>c_fs\<close> is \<open>os.ReadFile\<close>, \<open>c_trace_line\<close> and \<open>c_audit_line\<close> decode one JSON line,
  \<open>c_record_line\<close> encodes one record, \<open>c_parse_rfc3339\<close> is \<open>time.Parse\<close> (\<open>Inr None\<close> is Go's zero
  time), \<open>c_rfc3339\<close> the UTC text of a Unix time, \<open>c_tabwriter\<close> the alignment of tab-separated
  lines, \<open>c_upper\<close> is \<open>strings.ToUpper\<close> on text with non-ASCII runes, \<open>c_tools\<close> decodes a stored tool
  list, \<open>c_open\<close> is the error of \<open>store.Open\<close>, and \<open>c_sort_seq\<close> is \<open>sort.Slice\<close> by sequence number, which
  leaves the order of equal numbers open. \<open>c_create\<close> is the error of creating a file, \<open>c_home\<close> the home
  directory.
\<close>

record traceEntry =
  tr_SessionID :: string
  tr_AgentName :: string
  tr_ToolName :: string
  tr_Arguments :: string
  tr_RequestedAt :: string

record cli =
  c_fs :: "string \<Rightarrow> gerr + string"
  c_trace_line :: "string \<Rightarrow> gerr + traceEntry"
  c_audit_line :: "string \<Rightarrow> gerr + AuditRecord"
  c_record_line :: "AuditRecord \<Rightarrow> string"
  c_parse_rfc3339 :: "string \<Rightarrow> gerr + int option"
  c_rfc3339 :: "int \<Rightarrow> string"
  c_tabwriter :: "string \<Rightarrow> string"
  c_upper :: "string \<Rightarrow> string"
  c_tools :: "string \<Rightarrow> gerr + string list"
  c_open :: "gerr option"
  c_sort_seq :: "AuditRecord list \<Rightarrow> AuditRecord list"
  c_create :: "string \<Rightarrow> gerr option"
  c_home :: "gerr + string"

text \<open>\<open>UnixNano\<close>; that of the zero time overflows and wraps.\<close>

definition unix_nano :: "int option \<Rightarrow> int" where
  "unix_nano t = (case t of None \<Rightarrow> wrap64 (- 62135596800000000000) | Some n \<Rightarrow> n)"

text \<open>What a command prints, the files it creates and the error it ends with.\<close>

record outcome =
  o_stdout :: string
  o_files :: "(string \<times> string) list"
  o_error :: "gerr option"

definition failed :: "gerr \<Rightarrow> outcome" where
  "failed e = \<lparr>o_stdout = [], o_files = [], o_error = Some e\<rparr>"

definition printed :: "string \<Rightarrow> outcome" where
  "printed s = \<lparr>o_stdout = s, o_files = [], o_error = None\<rparr>"

text \<open>Output to a named file, or to standard output when the name is empty.\<close>

definition write_output :: "cli \<Rightarrow> string \<Rightarrow> string \<Rightarrow> outcome" where
  "write_output C outputPath s =
     (if outputPath = [] then printed s
      else case c_create C outputPath of
             Some e \<Rightarrow> failed (wrapf (''creating output file '' @ outputPath) e)
           | None \<Rightarrow> \<lparr>o_stdout = [], o_files = [(outputPath, s)], o_error = None\<rparr>)"

section \<open>Paths (\<open>path/filepath\<close>)\<close>

text \<open>\<open>filepath.Clean\<close>: empty and dot elements vanish, a dot-dot removes the element before it.\<close>

fun clean_parts :: "bool \<Rightarrow> string list \<Rightarrow> string list \<Rightarrow> string list" where
  "clean_parts rooted acc [] = rev acc"
| "clean_parts rooted acc (p # ps) =
     (if p = [] \<or> p = ''.'' then clean_parts rooted acc ps
      else if p \<noteq> ''..'' then clean_parts rooted (p # acc) ps
      else
        (case acc of
           [] \<Rightarrow> clean_parts rooted (if rooted then [] else [p]) ps
         | a # as \<Rightarrow> if a = ''..'' then clean_parts rooted (p # acc) ps else clean_parts rooted as ps))"

definition path_clean :: "string \<Rightarrow> string" where
  "path_clean path =
     (let rooted = prefix ''/'' path; out = join ''/'' (clean_parts rooted [] (split_on (CHR ''/'') path))
      in if rooted then ''/'' @ out else if out = [] then ''.'' else out)"

definition path_join :: "string list \<Rightarrow> string" where
  "path_join parts =
     (case dropWhile (\<lambda>e. e = []) parts of [] \<Rightarrow> [] | es \<Rightarrow> path_clean (join ''/'' es))"

definition home_path :: "string \<Rightarrow> string list \<Rightarrow> string" where
  "home_path home parts = path_join (home # ''.truebearing'' # parts)"

text \<open>The database of a command: the \<open>--db\<close> flag, or the default under the home directory.\<close>

definition db_path :: "cli \<Rightarrow> string \<Rightarrow> string" where
  "db_path C dbFlag =
     (if dbFlag \<noteq> [] then dbFlag
      else case c_home C of Inl _ \<Rightarrow> ''truebearing.db'' | Inr home \<Rightarrow> home_path home [''truebearing.db''])"

section \<open>Writing files\<close>

text \<open>
  The file system is threaded as what each path reads as. \<open>faults path\<close> is the error of \<open>os.WriteFile\<close>, if
  any, with what the path reads as after the failed write.
\<close>

type_synonym fsys = "string \<Rightarrow> gerr + string"
type_synonym write_faults = "string \<Rightarrow> (gerr \<times> (gerr + string)) option"

definition os_WriteFile :: "write_faults \<Rightarrow> string \<Rightarrow> string \<Rightarrow> fsys \<Rightarrow> gerr option \<times> fsys" where
  "os_WriteFile faults path data fs =
     (case faults path of
        Some (e, left) \<Rightarrow> (Some e, fs(path := left))
      | None \<Rightarrow> (None, fs(path := Inr data)))"

lemma os_WriteFile_None: "os_WriteFile faults path data fs = (None, fs') \<longleftrightarrow> faults path = None \<and> fs' = fs(path := Inr data)"
  by (auto simp: os_WriteFile_def split: option.split)

section \<open>Text\<close>

definition newline :: char where "newline = CHR 0x0A"

definition line :: "string \<Rightarrow> string" where "line s = s @ [newline]"

definition em_dash :: string where "em_dash = [CHR 0xE2, CHR 0x80, CHR 0x94]"
definition box_dash :: string where "box_dash = [CHR 0xE2, CHR 0x94, CHR 0x80]"
definition left_arrow :: string where "left_arrow = [CHR 0xE2, CHR 0x97, CHR 0x84] @ box_dash @ box_dash @ '' ''"

text \<open>\<open>strings.Repeat\<close>.\<close>

definition repeat_str :: "string \<Rightarrow> nat \<Rightarrow> string" where
  "repeat_str s n = concat (replicate n s)"

definition upper_char :: "char \<Rightarrow> char" where
  "upper_char c = (let n = of_char c :: nat in if 97 \<le> n \<and> n \<le> 122 then char_of (n - 32) else c)"

definition ToUpper :: "cli \<Rightarrow> string \<Rightarrow> string" where
  "ToUpper C s = (if list_all (\<lambda>c. (of_char c :: nat) < 128) s then map upper_char s else c_upper C s)"

text \<open>\<open>%.<n>s\<close>: the first \<open>n\<close> runes.\<close>

fun take_runes :: "nat \<Rightarrow> string \<Rightarrow> string" where
  "take_runes 0 s = []"
| "take_runes (Suc n) s =
     (if s = [] then []
      else let w = (case decode_rune (map of_char s) of None \<Rightarrow> 1 | Some (r, w) \<Rightarrow> w)
           in take w s @ take_runes n (drop w s))"

text \<open>\<open>unicode.IsSpace\<close>.\<close>

definition unicode_space :: "nat \<Rightarrow> bool" where
  "unicode_space r = (r \<in> {9, 10, 11, 12, 13, 32, 133, 160, 5760, 8232, 8233, 8239, 8287, 12288} \<or> (8192 \<le> r \<and> r \<le> 8202))"

text \<open>\<open>%-<n>d\<close>.\<close>

definition pad_right :: "nat \<Rightarrow> string \<Rightarrow> string" where
  "pad_right n s = s @ replicate (n - length s) (CHR '' '')"

text \<open>\<open>if len(s) > 60 { s = s[:57] + "..." }\<close>.\<close>

definition ellipsis60 :: "string \<Rightarrow> string" where
  "ellipsis60 s = (if length s > 60 then take 57 s @ ''...'' else s)"

definition tabbed :: "string list \<Rightarrow> string" where
  "tabbed cells = line (join [CHR 0x09] cells)"

lemma ellipsis60_length: "length (ellipsis60 s) \<le> 60"
  by (simp add: ellipsis60_def)

section \<open>Reading lines (\<open>bufio.Scanner\<close>)\<close>

text \<open>
  \<open>bufio.ScanLines\<close> on the newline-separated segments of the input: a carriage return before the
  newline is dropped, an empty last segment is no token, and a segment that does not fit the buffer
  ends the scan with \<open>bufio.ErrTooLong\<close> (the flag) after the lines before it.
\<close>

definition drop_cr :: "string \<Rightarrow> string" where
  "drop_cr s = (if s \<noteq> [] \<and> last s = CHR 0x0D then butlast s else s)"

fun scan_segments :: "nat \<Rightarrow> string list \<Rightarrow> string list \<times> bool" where
  "scan_segments limit [] = ([], False)"
| "scan_segments limit (s # rest) =
     (if rest = [] \<and> s = [] then ([], False)
      else if length s \<ge> limit then ([], True)
      else let (ls, too_long) = scan_segments limit rest in (drop_cr s # ls, too_long))"

definition scan_lines :: "nat \<Rightarrow> string \<Rightarrow> string list \<times> bool" where
  "scan_lines limit data = scan_segments limit (split_on newline data)"

definition ErrTooLong :: gerr where
  "ErrTooLong = errorf ''bufio.Scanner: token too long''"

text \<open>The limit of the JSONL readers: 1 MiB.\<close>

definition maxLine :: nat where "maxLine = 1024 * 1024"

text \<open>Lines that are short, hold no newline and do not end in a carriage return are read back as written.\<close>

definition plain_line :: "nat \<Rightarrow> string \<Rightarrow> bool" where
  "plain_line limit s = (s \<noteq> [] \<and> newline \<notin> set s \<and> last s \<noteq> CHR 0x0D \<and> length s < limit)"

lemma split_on_append_line: "c \<notin> set s \<Longrightarrow> split_on c (s @ c # rest) = s # split_on c rest"
  by (induction s) auto

lemma scan_lines_written:
  assumes "\<forall>s \<in> set ls. plain_line limit s"
  shows "scan_lines limit (concat (map line ls)) = (ls, False)"
  using assms
proof (induction ls)
  case Nil
  then show ?case by (simp add: scan_lines_def)
next
  case (Cons s ls)
  then have s: "newline \<notin> set s" "s \<noteq> []" "drop_cr s = s" "length s < limit"
    by (auto simp: plain_line_def drop_cr_def)
  have "scan_lines limit (concat (map line (s # ls))) = scan_segments limit (s # split_on newline (concat (map line ls)))"
    using split_on_append_line [OF s(1)] by (simp add: scan_lines_def line_def)
  also have "\<dots> = (s # ls, False)"
    using s Cons by (simp add: scan_lines_def Let_def)
  finally show ?case .
qed

section \<open>Grouping by session\<close>

text \<open>The loop both commands share: the order of first encounter, and a map from session to its group.\<close>

definition group_step :: "('a \<Rightarrow> string) \<Rightarrow> 'a \<Rightarrow> string list \<times> (string \<Rightarrow> 'a list option) \<Rightarrow> string list \<times> (string \<Rightarrow> 'a list option)" where
  "group_step key e acc =
     (let (order, groups) = acc; sid = key e
      in (if groups sid = None then order @ [sid] else order,
          groups(sid \<mapsto> (case groups sid of None \<Rightarrow> [] | Some g \<Rightarrow> g) @ [e])))"

definition group_by :: "('a \<Rightarrow> string) \<Rightarrow> 'a list \<Rightarrow> 'a list list" where
  "group_by key es =
     (let (order, groups) = fold (group_step key) es ([], \<lambda>_. None)
      in map (\<lambda>sid. case groups sid of None \<Rightarrow> [] | Some g \<Rightarrow> g) order)"

text \<open>The reference: one group per session, in the order of first encounter, each in file order.\<close>

fun first_encounters :: "string list \<Rightarrow> string list" where
  "first_encounters [] = []"
| "first_encounters (k # ks) = k # filter (\<lambda>x. x \<noteq> k) (first_encounters ks)"

lemma set_first_encounters [simp]: "set (first_encounters ks) = set ks"
  by (induction ks) auto

lemma distinct_first_encounters [simp]: "distinct (first_encounters ks)"
  by (induction ks) auto

lemma first_encounters_snoc:
  "first_encounters (ks @ [k]) = (if k \<in> set ks then first_encounters ks else first_encounters ks @ [k])"
  by (induction ks) auto

lemma fold_group_step:
  "fold (group_step key) es ([], \<lambda>_. None)
   = (first_encounters (map key es),
      \<lambda>k. if k \<in> key ` set es then Some (filter (\<lambda>e. key e = k) es) else None)"
proof (induction es rule: rev_induct)
  case (snoc e es)
  have f: "filter (\<lambda>x. key x = key e) es = []" if "key e \<notin> key ` set es"
    using that by (auto simp: filter_empty_conv intro: rev_image_eqI dest: sym)
  show ?case
    unfolding fold_append comp_def snoc.IH
    by (rule prod_eqI) (auto simp: group_step_def Let_def first_encounters_snoc fun_eq_iff f)
qed auto

lemma group_by_reference:
  "group_by key es = map (\<lambda>k. filter (\<lambda>e. key e = k) es) (first_encounters (map key es))"
  by (auto simp: group_by_def fold_group_step)

lemma group_by_nonempty: "g \<in> set (group_by key es) \<Longrightarrow> g \<noteq> []"
  by (auto simp: group_by_reference filter_empty_conv)

lemma group_by_key: "g \<in> set (group_by key es) \<Longrightarrow> e \<in> set g \<Longrightarrow> key e = key (hd g) \<and> e \<in> set es"
proof -
  assume g: "g \<in> set (group_by key es)" and e: "e \<in> set g"
  from g obtain k where k: "g = filter (\<lambda>e. key e = k) es" by (auto simp: group_by_reference)
  from e have "g \<noteq> []" by auto
  then have "hd g \<in> set g" by simp
  with e k show ?thesis by auto
qed

section \<open>A sample environment\<close>

definition sample_cli :: cli where
  "sample_cli =
     \<lparr>c_fs = (\<lambda>p. if p = ''t.jsonl'' then Inr (concat (map line [''read'', ''wire'', ''wire''])) else Inr ''A''),
      c_trace_line = (\<lambda>l. Inr \<lparr>tr_SessionID = ''s1'', tr_AgentName = ''pay'', tr_ToolName = l, tr_Arguments = [],
        tr_RequestedAt = ''T''\<rparr>),
      c_audit_line = (\<lambda>l. Inl (errorf ''json'')), c_record_line = r_ID, c_parse_rfc3339 = (\<lambda>s. Inr (Some 1000)),
      c_rfc3339 = dec, c_tabwriter = id, c_upper = id, c_tools = (\<lambda>_. Inr []), c_open = None, c_sort_seq = sort_key r_Seq,
      c_create = (\<lambda>_. None), c_home = Inr ''/h''\<rparr>"

end
