(* ===== verification/TB_Wasm.thy ===== *)
theory TB_Wasm
  imports TB_Pipeline TB_Backends TB_Cli
begin

text \<open>
  The WASM build (\<open>cmd/wasm\<close>): the engine as a pure function of a policy, a session state and a call,
  each given as JSON, over the in-memory backend; with its two entry points, the JavaScript function
  and the WASI line loop. Decoding the JSON inputs is a parameter.
\<close>

section \<open>Inputs and outputs (core.go)\<close>

record wasmSessionState =
  ws_Session :: Session
  ws_Events :: "SessionEventEntry slice"
  ws_ApprovedEscalations :: "ApprovedEscalationEntry slice"
  ws_ParentTools :: "string slice"

record wasmCallInput =
  wc_SessionID :: string
  wc_AgentName :: string
  wc_ToolName :: string
  wc_Arguments :: string
  wc_AgentEnv :: string
  wc_ParentAgent :: string
  wc_RequestedAt :: "int option"

record wasmDecision =
  wd_Action :: string
  wd_Reason :: string
  wd_RuleID :: string

text \<open>
  \<open>json.Unmarshal\<close> into each input type; \<open>wi_request\<close> into the three raw fields of a WASI request;
  \<open>wi_encode_raw\<close> is a \<open>json.Encoder\<close> given a \<open>json.RawMessage\<close>, \<open>None\<close> when the text is not JSON.
\<close>

record wasm_io =
  wi_policy :: "string \<Rightarrow> gerr + Policy"
  wi_session :: "string \<Rightarrow> gerr + wasmSessionState"
  wi_call :: "string \<Rightarrow> gerr + wasmCallInput"
  wi_request :: "string \<Rightarrow> gerr + (string \<times> string \<times> string)"
  wi_encode_raw :: "string \<Rightarrow> string option"

definition json_decision :: "lib \<Rightarrow> wasmDecision \<Rightarrow> string" where
  "json_decision L d =
     l_json_text L (J_obj [(''action'', J_str (wd_Action d)), (''reason'', J_str (wd_Reason d)), (''rule_id'', J_str (wd_RuleID d))])"

section \<open>Evaluation\<close>

definition inputDeny :: "string \<Rightarrow> wasmDecision" where
  "inputDeny reason = \<lparr>wd_Action = action_str Deny, wd_Reason = reason, wd_RuleID = ''wasm_input_error''\<rparr>"

definition encodeDeny :: "lib \<Rightarrow> string \<Rightarrow> string" where
  "encodeDeny L reason = json_decision L (inputDeny reason)"

definition call_of_input :: "wasmCallInput \<Rightarrow> ToolCall" where
  "call_of_input ci =
     \<lparr>tc_SessionID = wc_SessionID ci, tc_AgentName = wc_AgentName ci, tc_ToolName = wc_ToolName ci,
      tc_Arguments = wc_Arguments ci, tc_AgentEnv = wc_AgentEnv ci, tc_ParentAgent = wc_ParentAgent ci,
      tc_RequestedAt = wc_RequestedAt ci\<rparr>"

definition wasm_backend :: "wasmSessionState \<Rightarrow> MemBackend" where
  "wasm_backend ss = NewMemBackend (ws_Events ss) (ws_ApprovedEscalations ss) (ws_ParentTools ss)"

text \<open>The decision on decoded inputs; \<open>now\<close> is the clock the rate limiter reads for a call without a time.\<close>

definition wasmEvaluate :: "lib \<Rightarrow> int \<Rightarrow> Policy \<Rightarrow> wasmSessionState \<Rightarrow> wasmCallInput \<Rightarrow> wasmDecision" where
  "wasmEvaluate L now pol ss ci =
     (let decision = fst (Evaluate (full_stages L (mem_backend (wasm_backend ss)) now) (call_of_input ci) (ws_Session ss) pol)
      in \<lparr>wd_Action = action_str (d_Action decision), wd_Reason = d_Reason decision, wd_RuleID = d_RuleID decision\<rparr>)"

definition wasmDecide :: "lib \<Rightarrow> wasm_io \<Rightarrow> int \<Rightarrow> string \<Rightarrow> string \<Rightarrow> string \<Rightarrow> wasmDecision" where
  "wasmDecide L E now policyJSON sessionJSON callJSON =
     (case wi_policy E policyJSON of
        Inl err \<Rightarrow> inputDeny (''invalid policy JSON: '' @ err_text err)
      | Inr pol \<Rightarrow>
          (case wi_session E sessionJSON of
             Inl err \<Rightarrow> inputDeny (''invalid session JSON: '' @ err_text err)
           | Inr ss \<Rightarrow>
               (case wi_call E callJSON of
                  Inl err \<Rightarrow> inputDeny (''invalid call JSON: '' @ err_text err)
                | Inr ci \<Rightarrow> wasmEvaluate L now pol ss ci)))"

definition evaluateCore :: "lib \<Rightarrow> wasm_io \<Rightarrow> int \<Rightarrow> string \<Rightarrow> string \<Rightarrow> string \<Rightarrow> string" where
  "evaluateCore L E now policyJSON sessionJSON callJSON = json_decision L (wasmDecide L E now policyJSON sessionJSON callJSON)"

section \<open>Entry points\<close>

text \<open>\<open>truebearingEvaluate\<close> of \<open>main_js.go\<close>, given the arguments as strings.\<close>

definition dq :: string where "dq = [CHR 0x22]"

definition raw_deny :: "string \<Rightarrow> string" where
  "raw_deny reason = ''{'' @ dq @ ''action'' @ dq @ '':'' @ dq @ ''deny'' @ dq @ '','' @ dq @ ''reason'' @ dq @ '':'' @ dq @ reason @ dq
     @ '','' @ dq @ ''rule_id'' @ dq @ '':'' @ dq @ ''wasm_input_error'' @ dq @ ''}''"

definition truebearingEvaluate :: "lib \<Rightarrow> wasm_io \<Rightarrow> int \<Rightarrow> string list \<Rightarrow> string" where
  "truebearingEvaluate L E now args =
     (case args of
        [policyJSON, sessionJSON, callJSON] \<Rightarrow> evaluateCore L E now policyJSON sessionJSON callJSON
      | _ \<Rightarrow> raw_deny ''truebearingEvaluate requires exactly 3 arguments (policyJSON, sessionJSON, callJSON)'')"

text \<open>
  The loop of \<open>main_wasi.go\<close>: lines of standard input in the default buffer of 64 KiB, what is written to
  standard output; \<open>now i\<close> is the clock at the \<open>i\<close>-th request. Errors of the encoder are dropped.
\<close>

definition wasi_limit :: nat where "wasi_limit = 64 * 1024"

definition wasi_line :: "lib \<Rightarrow> wasm_io \<Rightarrow> int \<Rightarrow> string \<Rightarrow> string" where
  "wasi_line L E now l =
     (let text = (case wi_request E l of
                    Inl err \<Rightarrow> raw_deny (''malformed request JSON: '' @ err_text err)
                  | Inr (p, s, c) \<Rightarrow> evaluateCore L E now p s c)
      in case wi_encode_raw E text of None \<Rightarrow> [] | Some out \<Rightarrow> line out)"

fun wasi_lines :: "lib \<Rightarrow> wasm_io \<Rightarrow> (nat \<Rightarrow> int) \<Rightarrow> nat \<Rightarrow> string list \<Rightarrow> string" where
  "wasi_lines L E now i [] = []"
| "wasi_lines L E now i (l # ls) = wasi_line L E (now i) l @ wasi_lines L E now (Suc i) ls"

definition wasi_main :: "lib \<Rightarrow> wasm_io \<Rightarrow> (nat \<Rightarrow> int) \<Rightarrow> string \<Rightarrow> string" where
  "wasi_main L E now stdin = wasi_lines L E now 0 (fst (scan_lines wasi_limit stdin))"

section \<open>Backends that answer alike\<close>

text \<open>The pipeline asks its backend only about the session's history, the call's tool and arguments, and the parent.\<close>

definition answers_alike :: "lib \<Rightarrow> QueryBackend \<Rightarrow> QueryBackend \<Rightarrow> ToolCall \<Rightarrow> Session \<Rightarrow> bool" where
  "answers_alike L B B' call sess \<longleftrightarrow>
     qb_GetSessionEvents B (s_ID sess) = qb_GetSessionEvents B' (s_ID sess)
     \<and> (\<forall>since. qb_CountSessionEventsSince B (s_ID sess) (tc_ToolName call) since
            = qb_CountSessionEventsSince B' (s_ID sess) (tc_ToolName call) since)
     \<and> qb_HasApprovedEscalation B (s_ID sess) (tc_ToolName call) (l_sha256_hex L (tc_Arguments call))
       = qb_HasApprovedEscalation B' (s_ID sess) (tc_ToolName call) (l_sha256_hex L (tc_Arguments call))
     \<and> (tc_ParentAgent call \<noteq> [] \<longrightarrow>
          qb_GetAgentAllowedTools B (tc_ParentAgent call) = qb_GetAgentAllowedTools B' (tc_ParentAgent call))"

lemma stages_alike:
  assumes "answers_alike L B B' call sess"
  shows "DelegationEvaluator L B call sess pol = DelegationEvaluator L B' call sess pol"
    "SequenceEvaluator L B call sess pol = SequenceEvaluator L B' call sess pol"
    "RateLimitEvaluator L B now call sess pol = RateLimitEvaluator L B' now call sess pol"
    "EscalationEvaluator L B call sess pol = EscalationEvaluator L B' call sess pol"
  using assms
  by (auto simp: answers_alike_def DelegationEvaluator_def SequenceEvaluator_def RateLimitEvaluator_def
      EscalationEvaluator_def Let_def split: option.split sum.split)

lemma Evaluate_cong:
  "list_all2 (\<lambda>e e'. e call sess pol = e' call sess pol) stages stages' \<Longrightarrow>
   Evaluate stages call sess pol = Evaluate stages' call sess pol"
  by (induction stages stages' rule: list_all2_induct) (simp_all split: sum.split)

lemma Evaluate_alike:
  "answers_alike L B B' call sess \<Longrightarrow>
   Evaluate (full_stages L B now) call sess pol = Evaluate (full_stages L B' now) call sess pol"
  by (rule Evaluate_cong) (simp add: full_stages_def stages_alike)

section \<open>The state of a stored session\<close>

text \<open>What a caller passes for a session it keeps in the proxy's database.\<close>

definition wasm_state_of :: "lib \<Rightarrow> (string \<Rightarrow> gerr + string list) \<Rightarrow> db \<Rightarrow> Session \<Rightarrow> string \<Rightarrow> wasmSessionState" where
  "wasm_state_of L jt d sess parent =
     \<lparr>ws_Session = sess, ws_Events = Some (store_hist d (s_ID sess)),
      ws_ApprovedEscalations = Some (map (\<lambda>r. \<lparr>ae_ToolName = es_tool_name r,
          ae_ArgsHash = l_sha256_hex L (from_null (es_arguments_json r))\<rparr>)
        (filter (\<lambda>r. es_session_id r = s_ID sess \<and> es_status r = ''approved'') (db_escalations d))),
      ws_ParentTools = store_scope jt d parent\<rparr>"

lemma store_tools:
  assumes "fault_free W" "tools_decode jt d"
  shows "qb_GetAgentAllowedTools (store_backend W jt d) a =
    (case store_scope jt d a of None \<Rightarrow> Inl err_parent_agent_not_found | Some ts \<Rightarrow> Inr ts)"
proof (cases "find_agent d a")
  case None
  then show ?thesis
    by (simp add: store_backend_def sb_GetAgentAllowedTools_def GetAgent_def db_read_fault_free [OF assms(1)]
        db_bind_def Let_def store_scope_def err_no_rows_def wrapf_def)
next
  case (Some ag)
  then obtain ts where "jt (ag_AllowedToolsJSON ag) = Inr ts"
    using assms(2) by (auto simp: tools_decode_def find_agent_def dest!: find_in_set)
  with Some show ?thesis
    by (simp add: store_backend_def sb_GetAgentAllowedTools_def GetAgent_def db_read_fault_free [OF assms(1)]
        db_bind_def Let_def store_scope_def AllowedTools_def)
qed

lemma wasm_answers_alike:
  assumes W: "fault_free W" "tools_decode jt d"
    and parent: "tc_ParentAgent call \<noteq> [] \<Longrightarrow> store_scope jt d (tc_ParentAgent call) \<noteq> Some []"
  shows "answers_alike (w_lib W) (mem_backend (wasm_backend (wasm_state_of (w_lib W) jt d sess (tc_ParentAgent call))))
      (store_backend W jt d) call sess"
proof -
  let ?ss = "wasm_state_of (w_lib W) jt d sess (tc_ParentAgent call)"
  let ?m = "wasm_backend ?ss"
  note st = store_total [OF W]
  have m: "mb_events ?m = store_hist d (s_ID sess)" "mb_parentTools ?m = elems (store_scope jt d (tc_ParentAgent call))"
    by (simp_all add: wasm_backend_def NewMemBackend_def wasm_state_of_def)
  have a: "mem_approvals ?m (s_ID sess) t h = store_approvals (w_lib W) d (s_ID sess) t h" for t h
    by (auto simp: mem_approvals_def wasm_backend_def NewMemBackend_def wasm_state_of_def store_approvals_def)
  have t: "qb_GetAgentAllowedTools (mem_backend ?m) (tc_ParentAgent call) =
      (case store_scope jt d (tc_ParentAgent call) of None \<Rightarrow> Inl err_parent_agent_not_found | Some ts \<Rightarrow> Inr ts)"
    if "tc_ParentAgent call \<noteq> []"
    using parent [OF that] m(2) by (auto simp: mem_backend_defs split: option.split)
  show ?thesis
    using t store_tools [OF W]
    by (simp add: answers_alike_def m(1) a mem.events_total mem.count_total mem.approved_total
        total_backend.events_total [OF st] total_backend.count_total [OF st] total_backend.approved_total [OF st])
qed

section \<open>Properties\<close>

text \<open>C25: The WASM evaluator answers \<open>allow\<close> exactly for the calls the policy permits: when all three
  inputs decode and the call is permitted given the events, approvals and parent tools of the session
  state. Every other answer is a denial, an escalation or a shadow denial; an input that does not decode
  is denied as \<open>wasm_input_error\<close>.\<close>

theorem wasm_allows_exactly_permitted:
  assumes "\<forall>pol. wi_policy E p = Inr pol \<longrightarrow> wf_policy pol"
  shows "(wd_Action (wasmDecide L E now p s c) = ''allow'' \<longleftrightarrow>
      (\<exists>pol ss ci. wi_policy E p = Inr pol \<and> wi_session E s = Inr ss \<and> wi_call E c = Inr ci
         \<and> permitted L (\<lambda>_. elems (ws_Events ss)) (mem_approvals (wasm_backend ss)) (mem_scope (wasm_backend ss)) now
             pol (call_of_input ci) (ws_Session ss)))
    \<and> ((\<exists>e. wi_policy E p = Inl e \<or> wi_session E s = Inl e \<or> wi_call E c = Inl e) \<longrightarrow>
        wd_Action (wasmDecide L E now p s c) = ''deny'' \<and> wd_RuleID (wasmDecide L E now p s c) = ''wasm_input_error'')"
proof -
  have ev: "mb_events (wasm_backend ss) = elems (ws_Events ss)" for ss
    by (simp add: wasm_backend_def NewMemBackend_def)
  have allow: "action_str a = ''allow'' \<longleftrightarrow> a = Allow" for a by (cases a) simp_all
  show ?thesis
    using assms
    by (auto simp: wasmDecide_def inputDeny_def wasmEvaluate_def Let_def allow mem.Evaluate_permits ev split: sum.split)
qed

definition sample_io :: wasm_io where
  "sample_io =
     \<lparr>wi_policy = (\<lambda>s. if s = ''A'' then Inr sample_gate else Inl (errorf ''json'')),
      wi_session = (\<lambda>s. Inr \<lparr>ws_Session = sample_session, ws_Events = Some [sample_read_event],
          ws_ApprovedEscalations = None, ws_ParentTools = None\<rparr>),
      wi_call = (\<lambda>c. Inr \<lparr>wc_SessionID = ''s1'', wc_AgentName = ''pay'', wc_ToolName = c, wc_Arguments = ''5'',
          wc_AgentEnv = [], wc_ParentAgent = [], wc_RequestedAt = Some 1000\<rparr>),
      wi_request = (\<lambda>l. Inl (errorf ''json'')), wi_encode_raw = Some\<rparr>"

theorem wasm_allows_exactly_permitted_witness:
  "wd_Action (wasmDecide sample_lib sample_io 0 ''A'' ''S'' ''wire'') = ''allow''
   \<and> permitted sample_lib (\<lambda>_. [sample_read_event]) (mem_approvals (sample_mem [sample_read_event]))
      (mem_scope (sample_mem [sample_read_event])) 0 sample_gate (sample_call ''wire'') sample_session"
proof -
  have wf: "wf_policy sample_gate" by code_simp
  then have "\<forall>pol. wi_policy sample_io ''A'' = Inr pol \<longrightarrow> wf_policy pol" by (simp add: sample_io_def)
  note t = wasm_allows_exactly_permitted [OF this, of sample_lib 0 "''S''" "''wire''"]
  have a: "wd_Action (wasmDecide sample_lib sample_io 0 ''A'' ''S'' ''wire'') = ''allow''" by code_simp
  with t obtain pol ss ci where p: "wi_policy sample_io ''A'' = Inr pol" "wi_session sample_io ''S'' = Inr ss"
    "wi_call sample_io ''wire'' = Inr ci" "permitted sample_lib (\<lambda>_. elems (ws_Events ss)) (mem_approvals (wasm_backend ss))
      (mem_scope (wasm_backend ss)) 0 pol (call_of_input ci) (ws_Session ss)" by blast
  have "pol = sample_gate" "ss = \<lparr>ws_Session = sample_session, ws_Events = Some [sample_read_event],
      ws_ApprovedEscalations = None, ws_ParentTools = None\<rparr>" "call_of_input ci = sample_call ''wire''"
    using p(1-3) by (auto simp: sample_io_def call_of_input_def sample_call_def)
  with p(4) a show ?thesis by (simp add: wasm_backend_def sample_mem_def)
qed

text \<open>C26: The WASM evaluator decides as the proxy does. Given the state of a stored session (its history in
  order, its approved escalations with the hash of their arguments, its parent's tools), it returns the
  action, the reason and the rule the proxy's pipeline returns over the database. The one exception is a
  child of an agent registered with an empty tool list, whom both deny for different reasons.\<close>

theorem wasm_decides_as_proxy:
  assumes "fault_free W" "tools_decode jt d"
    and "wc_ParentAgent ci \<noteq> [] \<Longrightarrow> store_scope jt d (wc_ParentAgent ci) \<noteq> Some []"
  shows "wasmEvaluate (w_lib W) now pol (wasm_state_of (w_lib W) jt d sess (wc_ParentAgent ci)) ci =
    (let dn = fst (Evaluate (full_stages (w_lib W) (store_backend W jt d) now) (call_of_input ci) sess pol)
     in \<lparr>wd_Action = action_str (d_Action dn), wd_Reason = d_Reason dn, wd_RuleID = d_RuleID dn\<rparr>)"
proof -
  have p: "tc_ParentAgent (call_of_input ci) = wc_ParentAgent ci" by (simp add: call_of_input_def)
  have s: "ws_Session (wasm_state_of L jt d sess q) = sess" for L q by (simp add: wasm_state_of_def)
  from Evaluate_alike [OF wasm_answers_alike [OF assms(1,2), of "call_of_input ci" sess, unfolded p, OF assms(3)]]
  show ?thesis by (simp add: wasmEvaluate_def s)
qed

theorem wasm_decides_as_proxy_witness:
  "wd_Action (wasmEvaluate sample_lib 0 sample_gate (wasm_state_of sample_lib (\<lambda>_. Inr []) sample_db0 sample_session [])
     \<lparr>wc_SessionID = ''s1'', wc_AgentName = ''pay'', wc_ToolName = ''wire'', wc_Arguments = ''5'',
      wc_AgentEnv = [], wc_ParentAgent = [], wc_RequestedAt = Some 1000\<rparr>) = ''allow''"
proof -
  let ?ci = "\<lparr>wc_SessionID = ''s1'', wc_AgentName = ''pay'', wc_ToolName = ''wire'', wc_Arguments = ''5'',
      wc_AgentEnv = [], wc_ParentAgent = [], wc_RequestedAt = Some 1000\<rparr>"
  have "d_Action (fst (Evaluate (full_stages sample_lib (store_backend sample_world (\<lambda>_. Inr []) sample_db0) 0)
      (call_of_input ?ci) sample_session sample_gate)) = Allow" by code_simp
  moreover have "fault_free sample_world" "w_lib sample_world = sample_lib"
    by (simp_all add: fault_free_def sample_world_def)
  moreover have "tools_decode (\<lambda>_. Inr []) sample_db0" by (simp add: tools_decode_def)
  ultimately show ?thesis
    using wasm_decides_as_proxy [of sample_world "\<lambda>_. Inr []" sample_db0 ?ci 0 sample_gate sample_session] by (simp add: Let_def)
qed

end
