(* ===== verification/TB_Offline.thy ===== *)
theory TB_Offline
  imports TB_Wasm
begin

text \<open>
  The offline commands: \<open>truebearing simulate\<close> (\<open>cmd/simulate.go\<close>) replays a captured trace and
  \<open>truebearing audit replay\<close> (\<open>cmd/audit/replay.go\<close>) an audit log against a policy. Both run a shortened
  pipeline over a fresh in-memory database and print a table of the decisions. A command is a function
  to its output or an error.
\<close>

section \<open>The two pipelines\<close>

definition simulate_stages :: "lib \<Rightarrow> QueryBackend \<Rightarrow> int \<Rightarrow> Evaluator list" where
  "simulate_stages L B now =
     [MayUseEvaluator L, BudgetEvaluator, TaintEvaluator L, SequenceEvaluator L B, RateLimitEvaluator L B now,
      EscalationEvaluator L B]"

definition replay_stages :: "lib \<Rightarrow> QueryBackend \<Rightarrow> int \<Rightarrow> Evaluator list" where
  "replay_stages L B now =
     [MayUseEvaluator L, BudgetEvaluator, TaintEvaluator L, SequenceEvaluator L B, RateLimitEvaluator L B now]"

text \<open>Session state both commands start a session with, and count a call in.\<close>

definition offline_session :: "string \<Rightarrow> string \<Rightarrow> Policy \<Rightarrow> Session" where
  "offline_session sessionID agentName pol =
     \<lparr>s_ID = sessionID, s_AgentName = agentName, s_PolicyFingerprint = p_Fingerprint pol, s_Tainted = False,
      s_ToolCallCount = 0, s_EstimatedCostUSD = Fin 0, s_Terminated = False\<rparr>"

definition count_call :: "Decision \<Rightarrow> Session \<Rightarrow> Session" where
  "count_call decision sess =
     (if d_Action decision = Allow \<or> d_Action decision = ShadowDeny
      then sess\<lparr>s_ToolCallCount := s_ToolCallCount sess + 1,
                s_EstimatedCostUSD := f_add (s_EstimatedCostUSD sess) costPerToolCall\<rparr>
      else sess)"

section \<open>Reading the trace file (simulate.go)\<close>

fun parse_trace_lines :: "cli \<Rightarrow> string \<Rightarrow> string list \<Rightarrow> nat \<Rightarrow> traceEntry list \<Rightarrow> gerr + traceEntry list" where
  "parse_trace_lines C filePath [] lineNum entries = Inr entries"
| "parse_trace_lines C filePath (l # ls) lineNum entries =
     (if l = [] then parse_trace_lines C filePath ls lineNum entries
      else
        (let lineNum = lineNum + 1 in
         case c_trace_line C l of
           Inl err \<Rightarrow> Inl (wrapf (''parsing line '' @ dec (int lineNum) @ '' of '' @ filePath) err)
         | Inr entry \<Rightarrow>
             (if tr_ToolName entry = [] then Inl (errorf (''line '' @ dec (int lineNum) @ '' of '' @ filePath @ '': tool_name is required''))
              else parse_trace_lines C filePath ls lineNum (entries @ [entry]))))"

definition parseTraceFile :: "cli \<Rightarrow> string \<Rightarrow> gerr + traceEntry list" where
  "parseTraceFile C filePath =
     (case c_fs C filePath of
        Inl err \<Rightarrow> Inl (wrapf (''opening '' @ filePath) err)
      | Inr data \<Rightarrow>
          (let (ls, too_long) = scan_lines maxLine data in
           case parse_trace_lines C filePath ls 0 [] of
             Inl err \<Rightarrow> Inl err
           | Inr entries \<Rightarrow>
               (if too_long then Inl (wrapf (''reading '' @ filePath) ErrTooLong) else Inr entries)))"

definition groupTraceBySession :: "traceEntry list \<Rightarrow> traceEntry list list" where
  "groupTraceBySession entries = group_by tr_SessionID entries"

text \<open>\<open>time.Now()\<close> when the text is empty or does not parse.\<close>

definition parseRFC3339OrNow :: "cli \<Rightarrow> int \<Rightarrow> string \<Rightarrow> int option" where
  "parseRFC3339OrNow C now s =
     (if s = [] then Some now else case c_parse_rfc3339 C s of Inl _ \<Rightarrow> Some now | Inr t \<Rightarrow> t)"

section \<open>Evaluating a trace\<close>

record simulateResult =
  sm_SessionID :: string
  sm_Seq :: nat
  sm_ToolName :: string
  sm_OldDecision :: string
  sm_NewDecision :: string
  sm_Changed :: bool
  sm_Reason :: string

definition trace_call :: "traceEntry \<Rightarrow> int option \<Rightarrow> ToolCall" where
  "trace_call entry requestedAt =
     \<lparr>tc_SessionID = tr_SessionID entry, tc_AgentName = tr_AgentName entry, tc_ToolName = tr_ToolName entry,
      tc_Arguments = (if tr_Arguments entry = [] then ''{}'' else tr_Arguments entry), tc_AgentEnv = [],
      tc_ParentAgent = [], tc_RequestedAt = requestedAt\<rparr>"

definition offline_event :: "string \<Rightarrow> string \<Rightarrow> Decision \<Rightarrow> int \<Rightarrow> SessionEvent" where
  "offline_event sessionID toolName decision recordedAt =
     \<lparr>e_Seq = 0, e_SessionID = sessionID, e_ToolName = toolName, e_ArgumentsJSON = [],
      e_Decision = action_str (d_Action decision), e_PolicyRule = d_RuleID decision, e_RecordedAt = recordedAt\<rparr>"

definition trace_result :: "traceEntry \<Rightarrow> nat \<Rightarrow> Decision \<Rightarrow> simulateResult" where
  "trace_result entry seq decision =
     \<lparr>sm_SessionID = tr_SessionID entry, sm_Seq = seq, sm_ToolName = tr_ToolName entry, sm_OldDecision = [],
      sm_NewDecision = action_str (d_Action decision), sm_Changed = False, sm_Reason = d_Reason decision\<rparr>"

text \<open>The loop of \<open>evaluateSession\<close>; \<open>i\<close> is the number of the call, from 1.\<close>

fun evaluate_entries :: "cli \<Rightarrow> world \<Rightarrow> Policy \<Rightarrow> nat \<Rightarrow> traceEntry list \<Rightarrow> Session \<Rightarrow> db \<Rightarrow> (gerr + simulateResult list) \<times> db" where
  "evaluate_entries C W pol i [] sess d = (Inr [], d)"
| "evaluate_entries C W pol i (entry # entries) sess d =
     (let requestedAt = parseRFC3339OrNow C (now_at W d) (tr_RequestedAt entry);
          call = trace_call entry requestedAt;
          (decision, sess1) = Evaluate (simulate_stages (w_lib W) (store_backend W (c_tools C) d) (now_at W d)) call sess pol;
          event = offline_event (tr_SessionID entry) (tr_ToolName entry) decision (unix_nano requestedAt)
      in db_bind
           (db_wrap (''appending simulate event for tool '' @ qw W (tr_ToolName entry) @ '' seq '' @ dec (int i))
             (AppendEvent W event (later pipeline_ticks d)))
           (\<lambda>_ d. db_bind (evaluate_entries C W pol (i + 1) entries (count_call decision sess1) d)
             (\<lambda>results d. (Inr (trace_result entry i decision # results), d))))"

definition evaluateSession :: "cli \<Rightarrow> world \<Rightarrow> Policy \<Rightarrow> traceEntry list \<Rightarrow> db \<Rightarrow> (gerr + simulateResult list) \<times> db" where
  "evaluateSession C W pol entries d =
     (case entries of
        [] \<Rightarrow> (Inr [], d)
      | e # _ \<Rightarrow>
          db_bind
            (db_wrap (''creating simulate session '' @ qw W (tr_SessionID e))
              (CreateSession W (tr_SessionID e) (tr_AgentName e) (p_Fingerprint pol) d))
            (\<lambda>_ d. evaluate_entries C W pol 1 entries (offline_session (tr_SessionID e) (tr_AgentName e) pol) d))"

fun evaluate_groups :: "cli \<Rightarrow> world \<Rightarrow> Policy \<Rightarrow> traceEntry list list \<Rightarrow> db \<Rightarrow> (gerr + simulateResult list) \<times> db" where
  "evaluate_groups C W pol [] d = (Inr [], d)"
| "evaluate_groups C W pol (gr # rest) d =
     db_bind (db_wrap (''evaluating session '' @ qw W (tr_SessionID (hd gr))) (evaluateSession C W pol gr d))
       (\<lambda>results d. db_bind (evaluate_groups C W pol rest d) (\<lambda>more d. (Inr (results @ more), d)))"

text \<open>A fresh database; \<open>t\<close> is the tick it is opened at.\<close>

definition evaluateAllSessions ::
    "cli \<Rightarrow> world \<Rightarrow> traceEntry list list \<Rightarrow> Policy \<Rightarrow> string \<Rightarrow> nat \<Rightarrow> (gerr + simulateResult list) \<times> nat" where
  "evaluateAllSessions C W groups pol dsnSuffix t =
     (case c_open C of
        Some err \<Rightarrow> (Inl (wrapf (''creating in-memory store for simulate_'' @ dsnSuffix) err), t)
      | None \<Rightarrow> (let (res, d) = evaluate_groups C W pol groups (empty_db\<lparr>db_tick := t\<rparr>) in (res, db_tick d)))"

fun mergeResults :: "simulateResult list \<Rightarrow> simulateResult list \<Rightarrow> simulateResult list" where
  "mergeResults olds [] = []"
| "mergeResults [] (r # rs) = r # mergeResults [] rs"
| "mergeResults (old # olds) (r # rs) =
     r\<lparr>sm_OldDecision := sm_NewDecision old, sm_Changed := (sm_NewDecision old \<noteq> sm_NewDecision r)\<rparr> # mergeResults olds rs"

section \<open>The tables\<close>

definition separator80 :: string where "separator80 = line (repeat_str box_dash 80)"

definition rule_cells :: "nat list \<Rightarrow> string" where
  "rule_cells ns = tabbed (map (repeat_str box_dash) ns)"

definition count_action :: "Action \<Rightarrow> simulateResult list \<Rightarrow> nat" where
  "count_action a results = length (filter (\<lambda>r. sm_NewDecision r = action_str a) results)"

definition simulate_row :: "cli \<Rightarrow> bool \<Rightarrow> simulateResult \<Rightarrow> string" where
  "simulate_row C showDiff r =
     (if showDiff then
        tabbed ['' '' @ dec (int (sm_Seq r)), sm_ToolName r, sm_OldDecision r,
          (if sm_Changed r then ToUpper C (sm_NewDecision r) else sm_NewDecision r),
          (if sm_Changed r then ellipsis60 (left_arrow @ sm_Reason r) else [])]
      else tabbed ['' '' @ dec (int (sm_Seq r)), sm_ToolName r, sm_NewDecision r, ellipsis60 (sm_Reason r)])"

definition simulate_summary :: "bool \<Rightarrow> simulateResult list \<Rightarrow> string" where
  "simulate_summary showDiff results =
     (let n = dec (int (length results)); changedCount = length (filter sm_Changed results);
          count = (\<lambda>a. dec (int (count_action a results)))
      in if showDiff then
           (if changedCount = 0 then line (''Summary: '' @ n @ '' call(s) simulated. No decisions changed.'')
            else line (''Summary: '' @ n @ '' call(s) simulated. '' @ dec (int changedCount) @ '' decision(s) changed.''))
         else line (''Summary: '' @ n @ '' call(s): '' @ count Allow @ '' allow, '' @ count Deny @ '' deny, ''
                @ count ShadowDeny @ '' shadow_deny, '' @ count Escalate @ '' escalate.''))"

definition printSimulateTable :: "cli \<Rightarrow> simulateResult list \<Rightarrow> string \<Rightarrow> bool \<Rightarrow> string" where
  "printSimulateTable C results policyShortFP showDiff =
     line (''Policy: '' @ policyShortFP) @ separator80
     @ c_tabwriter C
         ((if showDiff then
             tabbed ['' seq'', ''tool'', ''old_decision'', ''new_decision'', ''changed''] @ rule_cells [4, 24, 12, 12, 30]
           else tabbed ['' seq'', ''tool'', ''decision'', ''reason''] @ rule_cells [4, 24, 12, 30])
          @ concat (map (simulate_row C showDiff) results))
     @ separator80 @ simulate_summary showDiff results"

section \<open>The simulate command\<close>

definition runSimulate :: "cli \<Rightarrow> world \<Rightarrow> string \<Rightarrow> string \<Rightarrow> string \<Rightarrow> nat \<Rightarrow> gerr + string" where
  "runSimulate C W traceFile policyPath oldPolicyPath t =
     (let L = w_lib W in
      case ParseFile L (c_fs C) policyPath of
        Inl err \<Rightarrow> Inl (wrapf (''loading policy from '' @ policyPath) err)
      | Inr pol \<Rightarrow>
          (case parseTraceFile C traceFile of
             Inl err \<Rightarrow> Inl (wrapf (''reading trace file '' @ traceFile) err)
           | Inr entries \<Rightarrow>
               (if entries = [] then Inr (line ''(no entries found in trace file)'')
                else
                  (let groups = groupTraceBySession entries in
                   case evaluateAllSessions C W groups pol ''new'' t of
                     (Inl err, t) \<Rightarrow> Inl (wrapf (''evaluating trace against '' @ policyPath) err)
                   | (Inr newResults, t) \<Rightarrow>
                       (if oldPolicyPath = [] then Inr (printSimulateTable C newResults (ShortFingerprint pol) False)
                        else
                          (case ParseFile L (c_fs C) oldPolicyPath of
                             Inl err \<Rightarrow> Inl (wrapf (''loading old policy from '' @ oldPolicyPath) err)
                           | Inr oldPol \<Rightarrow>
                               (case evaluateAllSessions C W groups oldPol ''old'' t of
                                  (Inl err, t) \<Rightarrow> Inl (wrapf (''evaluating trace against old policy '' @ oldPolicyPath) err)
                                | (Inr oldResults, t) \<Rightarrow>
                                    Inr (printSimulateTable C (mergeResults oldResults newResults) (ShortFingerprint pol) True))))))))"

definition default_policy_path :: string where "default_policy_path = ''./truebearing.policy.yaml''"

definition simulate_cmd :: "cli \<Rightarrow> world \<Rightarrow> string \<Rightarrow> string \<Rightarrow> string \<Rightarrow> nat \<Rightarrow> gerr + string" where
  "simulate_cmd C W policyFlag traceFile oldPolicy t =
     (let policyPath = (if policyFlag = [] then default_policy_path else policyFlag) in
      if traceFile = [] then Inl (errorf ''--trace is required'') else runSimulate C W traceFile policyPath oldPolicy t)"

section \<open>audit replay (replay.go)\<close>

text \<open>Reading a JSONL audit log, which \<open>audit verify\<close> does too.\<close>

fun parse_audit_lines :: "cli \<Rightarrow> string list \<Rightarrow> nat \<Rightarrow> AuditRecord list \<Rightarrow> gerr + AuditRecord list" where
  "parse_audit_lines C [] lineNum records = Inr records"
| "parse_audit_lines C (l # ls) lineNum records =
     (if l = [] then parse_audit_lines C ls lineNum records
      else
        (let lineNum = lineNum + 1 in
         case c_audit_line C l of
           Inl err \<Rightarrow> Inl (wrapf (''parsing line '' @ dec (int lineNum)) err)
         | Inr rec \<Rightarrow> parse_audit_lines C ls lineNum (records @ [rec])))"

definition parseAuditLogFile :: "cli \<Rightarrow> string \<Rightarrow> gerr + AuditRecord list" where
  "parseAuditLogFile C filePath =
     (case c_fs C filePath of
        Inl err \<Rightarrow> Inl (wrapf (''opening '' @ filePath) err)
      | Inr data \<Rightarrow>
          (let (ls, too_long) = scan_lines maxLine data in
           case parse_audit_lines C ls 0 [] of
             Inl err \<Rightarrow> Inl err
           | Inr records \<Rightarrow> (if too_long then Inl (wrapf ''reading file'' ErrTooLong) else Inr records)))"

definition groupAuditBySession :: "cli \<Rightarrow> AuditRecord list \<Rightarrow> AuditRecord list list" where
  "groupAuditBySession C records = map (c_sort_seq C) (group_by r_SessionID records)"

record replayEntry =
  rp_SessionID :: string
  rp_Seq :: nat
  rp_ToolName :: string
  rp_OldDecision :: string
  rp_NewDecision :: string
  rp_Changed :: bool
  rp_Reason :: string

definition replay_call :: "AuditRecord \<Rightarrow> ToolCall" where
  "replay_call rec =
     \<lparr>tc_SessionID = r_SessionID rec, tc_AgentName = r_AgentName rec, tc_ToolName = r_ToolName rec,
      tc_Arguments = ''{}'', tc_AgentEnv = [], tc_ParentAgent = [], tc_RequestedAt = Some (r_RecordedAt rec)\<rparr>"

definition replay_result :: "AuditRecord \<Rightarrow> Decision \<Rightarrow> replayEntry" where
  "replay_result rec newDecision =
     \<lparr>rp_SessionID = r_SessionID rec, rp_Seq = r_Seq rec, rp_ToolName = r_ToolName rec, rp_OldDecision = r_Decision rec,
      rp_NewDecision = action_str (d_Action newDecision),
      rp_Changed = (action_str (d_Action newDecision) \<noteq> r_Decision rec), rp_Reason = d_Reason newDecision\<rparr>"

fun replay_records :: "cli \<Rightarrow> world \<Rightarrow> Policy \<Rightarrow> AuditRecord list \<Rightarrow> Session \<Rightarrow> db \<Rightarrow> (gerr + replayEntry list) \<times> db" where
  "replay_records C W pol [] sess d = (Inr [], d)"
| "replay_records C W pol (rec # records) sess d =
     (let (newDecision, sess1) =
            Evaluate (replay_stages (w_lib W) (store_backend W (c_tools C) d) (now_at W d)) (replay_call rec) sess pol;
          event = offline_event (r_SessionID rec) (r_ToolName rec) newDecision (r_RecordedAt rec)
      in db_bind
           (db_wrap (''appending replay event for tool '' @ qw W (r_ToolName rec)) (AppendEvent W event (later pipeline_ticks d)))
           (\<lambda>_ d. db_bind (replay_records C W pol records (count_call newDecision sess1) d)
             (\<lambda>results d. (Inr (replay_result rec newDecision # results), d))))"

definition replaySession :: "cli \<Rightarrow> world \<Rightarrow> Policy \<Rightarrow> AuditRecord list \<Rightarrow> db \<Rightarrow> (gerr + replayEntry list) \<times> db" where
  "replaySession C W pol records d =
     (case records of
        [] \<Rightarrow> (Inr [], d)
      | r # _ \<Rightarrow>
          db_bind
            (db_wrap ''creating replay session'' (CreateSession W (r_SessionID r) (r_AgentName r) (p_Fingerprint pol) d))
            (\<lambda>_ d. replay_records C W pol records (offline_session (r_SessionID r) (r_AgentName r) pol) d))"

fun replay_groups :: "cli \<Rightarrow> world \<Rightarrow> Policy \<Rightarrow> AuditRecord list list \<Rightarrow> db \<Rightarrow> (gerr + replayEntry list) \<times> db" where
  "replay_groups C W pol [] d = (Inr [], d)"
| "replay_groups C W pol (gr # rest) d =
     db_bind (db_wrap (''replaying session '' @ qw W (r_SessionID (hd gr))) (replaySession C W pol gr d))
       (\<lambda>results d. db_bind (replay_groups C W pol rest d) (\<lambda>more d. (Inr (results @ more), d)))"

definition replay_row :: "cli \<Rightarrow> replayEntry \<Rightarrow> string" where
  "replay_row C r =
     tabbed ['' '' @ dec (int (rp_Seq r)), take_runes 8 (rp_SessionID r), rp_ToolName r, rp_OldDecision r,
       (if rp_Changed r then ToUpper C (rp_NewDecision r) else rp_NewDecision r),
       (if rp_Changed r then ellipsis60 (left_arrow @ rp_Reason r) else [])]"

definition printReplayTable :: "cli \<Rightarrow> replayEntry list \<Rightarrow> string \<Rightarrow> string" where
  "printReplayTable C results policyFingerprint =
     (let n = dec (int (length results)); changedCount = length (filter rp_Changed results)
      in line (''Policy:  '' @ policyFingerprint) @ separator80
         @ c_tabwriter C
             (tabbed ['' seq'', ''session'', ''tool'', ''old'', ''new'', ''change''] @ rule_cells [4, 8, 24, 10, 10, 22]
              @ concat (map (replay_row C) results))
         @ separator80
         @ (if changedCount = 0 then line (''Summary: '' @ n @ '' record(s) processed. No decisions changed.'')
            else line (''Summary: '' @ n @ '' record(s) processed. '' @ dec (int changedCount) @ '' decision(s) changed.'')))"

definition runReplay :: "cli \<Rightarrow> world \<Rightarrow> string \<Rightarrow> string \<Rightarrow> nat \<Rightarrow> gerr + string" where
  "runReplay C W filePath policyPath t =
     (case ParseFile (w_lib W) (c_fs C) policyPath of
        Inl err \<Rightarrow> Inl (wrapf (''loading policy from '' @ policyPath) err)
      | Inr pol \<Rightarrow>
          (case parseAuditLogFile C filePath of
             Inl err \<Rightarrow> Inl (wrapf (''reading audit log '' @ filePath) err)
           | Inr records \<Rightarrow>
               (if records = [] then Inr (line ''(no records found in file)'')
                else
                  (case c_open C of
                     Some err \<Rightarrow> Inl (wrapf ''creating in-memory store for replay'' err)
                   | None \<Rightarrow>
                       (case fst (replay_groups C W pol (groupAuditBySession C records) (empty_db\<lparr>db_tick := t\<rparr>)) of
                          Inl err \<Rightarrow> Inl err
                        | Inr allResults \<Rightarrow> Inr (printReplayTable C allResults (ShortFingerprint pol)))))))"

definition replay_cmd :: "cli \<Rightarrow> world \<Rightarrow> string \<Rightarrow> string \<Rightarrow> nat \<Rightarrow> gerr + string" where
  "replay_cmd C W policyFlag file t =
     runReplay C W file (if policyFlag = [] then default_policy_path else policyFlag) t"

end
