(* ===== verification/TB_Governor.thy ===== *)
theory TB_Governor
  imports TB_Frame TB_Offline
begin

text \<open>
  The proxy as a governor of sessions. Its contract knows no database: the state is the session and the
  history of every session id (\<open>governor\<close>), and one call is a pure function of them (\<open>govern\<close>): load or
  open the session, refuse it when closed, decide, count, remember. The statements of \<open>proxy.go\<close> over the
  SQLite tables implement that function when none fails: \<open>governor_of\<close> abstracts the tables, and every
  request commutes with it.
\<close>

section \<open>The contract\<close>

record governor =
  gv_session :: "string \<Rightarrow> Session option"
  gv_history :: "string \<Rightarrow> SessionEventEntry list"

text \<open>A backend that answers from given views.\<close>

definition view_backend ::
    "(string \<Rightarrow> SessionEventEntry list) \<Rightarrow> (string \<Rightarrow> string \<Rightarrow> string \<Rightarrow> bool) \<Rightarrow> (string \<Rightarrow> string list option) \<Rightarrow> QueryBackend" where
  "view_backend hist approvals scope =
     \<lparr>qb_GetSessionEvents = (\<lambda>sid. Inr (hist sid)),
      qb_CountSessionEventsSince = (\<lambda>sid tool since. Inr (int (length (filter (in_window tool since) (hist sid))))),
      qb_HasApprovedEscalation = (\<lambda>sid tool h. Inr (approvals sid tool h)),
      qb_GetAgentAllowedTools = (\<lambda>a. case scope a of None \<Rightarrow> Inl err_parent_agent_not_found | Some ts \<Rightarrow> Inr ts)\<rparr>"

interpretation views: total_backend "view_backend hist approvals scope" hist approvals scope for hist approvals scope
  by unfold_locales (auto simp: view_backend_def err_parent_agent_not_found_def split: option.splits)

text \<open>
  One call. \<open>live\<close> is the policy a new session is bound to, \<open>version\<close> the policy a session is evaluated
  under; the three instants of \<open>clock\<close> are when the call was received, evaluated and recorded.
\<close>

definition govern ::
    "lib \<Rightarrow> (string \<Rightarrow> string \<Rightarrow> string \<Rightarrow> bool) \<Rightarrow> (string \<Rightarrow> string list option) \<Rightarrow> Policy \<Rightarrow> (Session \<Rightarrow> Policy)
     \<Rightarrow> int \<times> int \<times> int \<Rightarrow> AgentClaims \<Rightarrow> string \<Rightarrow> ToolCallParams \<Rightarrow> governor \<Rightarrow> governor \<times> Decision option" where
  "govern L approvals scope live version clock claims sid ps G =
     (let (received, evaluated, recorded) = clock;
          sess = (case gv_session G sid of Some s \<Rightarrow> s | None \<Rightarrow> fresh_session sid claims live)
      in if s_Terminated sess then (G, None)
         else
           (let (dn, sess') = Evaluate (full_stages L (view_backend (gv_history G) approvals scope) evaluated)
                  (engine_call claims sid ps received) sess (version sess)
            in (G\<lparr>gv_session := (gv_session G)(sid := Some (count_call dn sess')),
                  gv_history := (gv_history G)(sid := gv_history G sid @
                     [\<lparr>se_ToolName = ca_Name ps, se_Decision = action_str (d_Action dn), se_RecordedAt = recorded\<rparr>])\<rparr>,
                Some dn)))"

definition governor_of :: "db \<Rightarrow> governor" where
  "governor_of d = \<lparr>gv_session = (\<lambda>sid. map_option session_of_row (find_session d sid)), gv_history = store_hist d\<rparr>"

text \<open>What the client is told of a decision.\<close>

definition answers :: "MCPRequest \<Rightarrow> ToolCallParams \<Rightarrow> Decision \<Rightarrow> reply \<Rightarrow> bool" where
  "answers q ps dn rep \<longleftrightarrow>
     (case d_Action dn of
        Deny \<Rightarrow> rep = writeJSONRPCDeny (mq_ID q) (ca_Name ps) dn
      | Escalate \<Rightarrow> (\<exists>b. rep = Reply 200 b)
      | _ \<Rightarrow> rep = Forwarded)"

lemma governor_same: "same_tables d d' \<Longrightarrow> governor_of d' = governor_of d"
  by (simp add: governor_of_def views_same(1) find_session_same)

text \<open>Only one session moved: the abstraction differs at most there.\<close>

lemma governor_only:
  assumes "only_session sid d d'" "find_session d' sid = Some row" "store_hist d' sid = h"
  shows "governor_of d' = \<lparr>gv_session = (gv_session (governor_of d))(sid := Some (session_of_row row)),
      gv_history = (gv_history (governor_of d))(sid := h)\<rparr>"
proof -
  have "map_option session_of_row (find_session d' i) = (if i = sid then Some (session_of_row row)
      else map_option session_of_row (find_session d i))" for i
    using only_session_views(1) [OF assms(1), of i] assms(2) by simp
  moreover have "store_hist d' i = (if i = sid then h else store_hist d i)" for i
    using only_session_views(2) [OF assms(1), of i] assms(3) by simp
  ultimately show ?thesis by (simp add: governor_of_def fun_eq_iff)
qed

section \<open>The stages without failures\<close>

lemma scope_missing:
  assumes "fault_free W" "tools_decode jt d" "store_scope jt d a = None"
  shows "qb_GetAgentAllowedTools (store_backend W jt d) a = Inl err_parent_agent_not_found"
proof (cases "find_agent d a")
  case None
  then show ?thesis
    by (simp add: store_backend_def sb_GetAgentAllowedTools_def GetAgent_def db_bind_def Let_def
        db_read_fault_free [OF assms(1)] err_no_rows_def wrapf_def errors_Is_def)
next
  case (Some ag)
  then have "ag \<in> set (db_agents d)" by (auto simp: find_agent_def dest: find_in_set)
  with assms(2,3) Some show ?thesis by (auto simp: tools_decode_def store_scope_def split: sum.splits)
qed

text \<open>The store answers as its views do.\<close>

lemma store_answers_views:
  assumes W: "fault_free W" and jt: "tools_decode jt d"
  shows "answers_alike (w_lib W) (store_backend W jt d)
    (view_backend (store_hist d) (store_approvals (w_lib W) d) (store_scope jt d)) call sess"
proof -
  note st = store_total [OF W jt]
  have "qb_GetAgentAllowedTools (store_backend W jt d) a =
      qb_GetAgentAllowedTools (view_backend (store_hist d) (store_approvals (w_lib W) d) (store_scope jt d)) a" for a
    using scope_missing [OF W jt] total_backend.agent_tools_total [OF st]
    by (cases "store_scope jt d a") (simp_all add: view_backend_def)
  then show ?thesis
    by (simp add: answers_alike_def views.events_total views.count_total views.approved_total
        total_backend.events_total [OF st] total_backend.count_total [OF st] total_backend.approved_total [OF st])
qed

lemma load_session_fault_free:
  assumes W: "fault_free (n_world N)"
  shows "\<exists>d. load_session N sid claims p = (Inr (session_at p sid claims), p\<lparr>px_db := d\<rparr>)"
proof (cases "find_session (px_db p) sid")
  case None
  let ?W = "n_world N"
  have e: "errors_Is err_no_rows SqlErrNoRows" by (simp add: err_no_rows_def errors_Is_def)
  have "find_session (tick (px_db p)) sid = None" using None by (simp add: find_session_def)
  from CreateSession_fault_free [OF W this, of "cl_AgentName claims" "p_Fingerprint (px_livePol p)"] None
  show ?thesis
    by (auto simp: load_session_def GetSession_fault_free [OF W] e session_at_def fresh_session_def Let_def)
qed (auto simp: load_session_def GetSession_fault_free [OF W] session_at_def)

text \<open>So the only early reply to a call is that its session is closed.\<close>

lemma evaluate_call_not_refused:
  assumes W: "fault_free (n_world N)" and e: "evaluate_call N claims sid ps p = (Inl rep, p')"
  shows "rep = writeGone sid"
proof -
  define p0 where "p0 = writeTraceEntry N \<lparr>te_SessionID = sid, te_AgentName = cl_AgentName claims, te_ToolName = ca_Name ps,
      te_Arguments = ca_Arguments ps, te_RequestedAt = n_rfc3339 N (now_at (n_world N) (px_db p))\<rparr> p"
  obtain d where "load_session N sid claims p0 = (Inr (session_at p0 sid claims), p0\<lparr>px_db := d\<rparr>)"
    using load_session_fault_free [OF W] by blast
  with e show ?thesis
    by (auto simp: evaluate_call_def Let_def p0_def [symmetric] split: prod.splits if_splits)
qed

section \<open>Recording and counting\<close>

lemma session_rows_updated:
  assumes W: "fault_free W" and row: "find_session d sid = Some row" and f: "\<And>r. sr_ID (f r) = sr_ID r"
  shows "\<exists>d'. exec_session_update W m m' sid f d = (Inr (), d') \<and> find_session d' sid = Some (f row) \<and> same_views d d'"
proof -
  let ?d = "d\<lparr>db_sessions := map (\<lambda>r. if sr_ID r = sid then f r else r) (db_sessions d)\<rparr>"
  have "find_session (tick (tick ?d)) sid = find_session ?d sid" by (simp add: find_session_def)
  also have "\<dots> = Some (f row)" using find_session_updated [OF row, of f sid] f by simp
  finally show ?thesis using exec_session_update_fault_free [OF W row] by (simp add: same_views_def)
qed

lemma CreateEscalation_views:
  assumes "es_Status e = ''pending''"
  shows "store_approvals L (snd (CreateEscalation W e d)) = store_approvals L d"
    "store_hist (snd (CreateEscalation W e d)) = store_hist d" "db_sessions (snd (CreateEscalation W e d)) = db_sessions d"
proof -
  have "db_sessions (snd (CreateEscalation W e d)) = db_sessions d \<and> db_events (snd (CreateEscalation W e d)) = db_events d
      \<and> (db_escalations (snd (CreateEscalation W e d)) = db_escalations d
         \<or> (\<exists>row. db_escalations (snd (CreateEscalation W e d)) = db_escalations d @ [row] \<and> es_status row = ''pending''))"
    using assms by (auto simp: CreateEscalation_def Let_def db_bind_def db_exec_def insert_escalation_def
        row_of_escalation_def split: option.split sum.split prod.split)
  then show "store_approvals L (snd (CreateEscalation W e d)) = store_approvals L d"
    "store_hist (snd (CreateEscalation W e d)) = store_hist d" "db_sessions (snd (CreateEscalation W e d)) = db_sessions d"
    by (auto simp: store_approvals_def fun_eq_iff store_hist_def session_rows_def)
qed

lemma persist_taint_exact:
  assumes W: "fault_free (n_world N)" and row: "find_session (px_db p) sid = Some row"
    and t: "persist_taint N sid (sr_Tainted row) sess p = (f, p')"
  shows "\<exists>row'. f = None \<and> find_session (px_db p') sid = Some row'
      \<and> session_of_row row' = (session_of_row row)\<lparr>s_Tainted := s_Tainted sess\<rparr> \<and> same_views (px_db p) (px_db p')"
proof (cases "s_Tainted sess = sr_Tainted row")
  case True
  then show ?thesis using t row by (auto simp: persist_taint_def session_of_row_def)
next
  case False
  let ?f = "\<lambda>r. r\<lparr>sr_Tainted := s_Tainted sess, sr_LastSeenAt := now_at (n_world N) (px_db p)\<rparr>"
  have "sr_ID (?f r) = sr_ID r" for r by simp
  from session_rows_updated [OF W row this] obtain d where
    "UpdateSessionTaint (n_world N) sid (s_Tainted sess) (px_db p) = (Inr (), d)"
    "find_session d sid = Some (?f row)" "same_views (px_db p) d"
    unfolding UpdateSessionTaint_def Let_def by blast
  with t False show ?thesis by (auto simp: persist_taint_def session_of_row_def)
qed

lemma enforce_exact:
  assumes W: "fault_free (n_world N)" and row: "find_session (px_db p) sid = Some row" and strict: "\<not> px_auditStrict p"
    and e: "enforce N q ps sid seq dn pol af p = (p', rep)"
  shows "\<exists>row'. find_session (px_db p') sid = Some row' \<and> session_of_row row' = count_call dn (session_of_row row)
      \<and> store_hist (px_db p') = store_hist (px_db p) \<and> store_approvals L (px_db p') = store_approvals L (px_db p)
      \<and> answers q ps dn rep"
proof -
  let ?f = "\<lambda>r. r\<lparr>sr_ToolCallCount := sr_ToolCallCount r + 1,
      sr_EstimatedCostUSD := f_add (sr_EstimatedCostUSD r) costPerToolCall, sr_LastSeenAt := now_at (n_world N) (px_db p)\<rparr>"
  have "sr_ID (?f r) = sr_ID r" for r by simp
  from session_rows_updated [OF W row this] obtain d where d:
    "IncrementSessionCounters (n_world N) sid costPerToolCall (px_db p) = (Inr (), d)"
    "find_session d sid = Some (?f row)" "same_views (px_db p) d"
    unfolding IncrementSessionCounters_def Let_def by blast
  have counted: ?thesis if "d_Action dn = Allow \<or> d_Action dn = ShadowDeny"
  proof -
    have "p' = p\<lparr>px_db := d\<rparr>" "rep = Forwarded" using that e strict d(1) by (auto simp: enforce_def)
    then show ?thesis using that d(2) views_eq [OF d(3)]
      by (auto simp: count_call_def session_of_row_def answers_def)
  qed
  show ?thesis
  proof (cases "d_Action dn")
    case Deny
    then show ?thesis using e row by (auto simp: enforce_def count_call_def answers_def)
  next
    case Escalate
    let ?x = "\<lparr>es_ID = w_uuid (n_world N) (db_tick (px_db p)), es_SessionID = sid, es_Seq = seq, es_ToolName = ca_Name ps,
      es_ArgumentsJSON = ca_Arguments ps, es_Status = ''pending'', es_Reason = [], es_CreatedAt = 0, es_ResolvedAt = 0\<rparr>"
    have "px_db p' = snd (CreateEscalation (n_world N) ?x (px_db p))" "\<exists>b. rep = Reply 200 b"
      using e Escalate by (auto simp: enforce_def escalate_def Let_def writeJSONRPCError_def writeJSONRPCEscalated_def
          split: prod.splits sum.splits)
    with CreateEscalation_views [of ?x] row Escalate show ?thesis
      by (auto simp: count_call_def find_session_def answers_def)
  qed (use counted in auto)
qed

text \<open>The event of a call, as \<open>record_and_enforce\<close> appends it.\<close>

lemma call_recorded:
  assumes W: "fault_free W" and row: "find_session d0 sid = Some row"
  obtains e' d where
    "AppendEvent W \<lparr>e_Seq = 0, e_SessionID = sid, e_ToolName = tool, e_ArgumentsJSON = args,
       e_Decision = verdict, e_PolicyRule = rule', e_RecordedAt = 0\<rparr> d0 = (Inr e', d)"
    "find_session d sid = Some row" "store_approvals L d = store_approvals L d0"
    "store_hist d sid = store_hist d0 sid @ [\<lparr>se_ToolName = tool, se_Decision = verdict, se_RecordedAt = now_at W d0\<rparr>]"
proof -
  define ev where "ev = \<lparr>e_Seq = 0, e_SessionID = sid, e_ToolName = tool, e_ArgumentsJSON = args,
      e_Decision = verdict, e_PolicyRule = rule', e_RecordedAt = 0\<rparr>"
  let ?st = "stamped W d0 ev"
  have sid: "e_SessionID ev = sid" by (simp add: ev_def)
  have mem: "e_SessionID ev \<in> sr_ID ` set (db_sessions d0)"
    unfolding sid using row find_session_None [of d0 sid] by auto
  obtain d where a: "AppendEvent W ev d0 = (Inr (?st\<lparr>e_Seq := Suc (max_seq d0 sid)\<rparr>), d)"
    and d: "same_tables (d0\<lparr>db_events := db_events d0 @ [row_of_event (Suc (max_seq d0 sid)) ?st]\<rparr>) d"
    using AppendEvent_fault_free [OF W mem] unfolding sid by metis
  have st: "?st\<lparr>e_SessionID := sid\<rparr> = ?st" by (simp add: stamped_def ev_def)
  have en: "entry_of_event ?st = \<lparr>se_ToolName = tool, se_Decision = verdict, se_RecordedAt = now_at W d0\<rparr>"
    by (simp add: stamped_def ev_def entry_of_event_def)
  have hist: "store_hist d sid = store_hist d0 sid @ [entry_of_event ?st]"
    unfolding views_same(1) [OF d] using store_hist_event [of d0 sid ?st sid] by (simp only: st simp_thms if_True)
  have appr: "store_approvals L d = store_approvals L d0"
    unfolding views_same(2) [OF d] by (simp add: store_approvals_def fun_eq_iff)
  have "find_session d sid = Some row" unfolding find_session_same [OF d] using row by (simp add: find_session_def)
  from that [OF a [unfolded ev_def] this appr] hist en show thesis by simp
qed

lemma record_and_enforce_exact:
  assumes W: "fault_free (n_world N)" and row: "find_session (px_db p) (tc_SessionID call) = Some row"
    and strict: "\<not> px_auditStrict p" and sess: "sess = (session_of_row row)\<lparr>s_Tainted := b\<rparr>"
    and e: "record_and_enforce N r q ps call (sr_Tainted row) dn sess pol p = (p', rep)"
  obtains row' t where "find_session (px_db p') (tc_SessionID call) = Some row'" "session_of_row row' = count_call dn sess"
    "store_hist (px_db p') (tc_SessionID call) = store_hist (px_db p) (tc_SessionID call)
       @ [\<lparr>se_ToolName = ca_Name ps, se_Decision = action_str (d_Action dn), se_RecordedAt = t\<rparr>]"
    "store_approvals L (px_db p') = store_approvals L (px_db p)" "answers q ps dn rep"
proof -
  let ?sid = "tc_SessionID call" and ?W = "n_world N"
  obtain e' d where a: "AppendEvent ?W \<lparr>e_Seq = 0, e_SessionID = ?sid, e_ToolName = ca_Name ps, e_ArgumentsJSON = ca_Arguments ps,
       e_Decision = action_str (d_Action dn), e_PolicyRule = d_RuleID dn, e_RecordedAt = 0\<rparr> (px_db p) = (Inr e', d)"
    and row_d: "find_session d ?sid = Some row" and appr: "store_approvals L d = store_approvals L (px_db p)"
    and hist: "store_hist d ?sid = store_hist (px_db p) ?sid
       @ [\<lparr>se_ToolName = ca_Name ps, se_Decision = action_str (d_Action dn), se_RecordedAt = now_at ?W (px_db p)\<rparr>]"
    by (rule call_recorded [OF W row])
  obtain af p1 where w: "writeAuditRecord N r ?sid (tc_AgentName call) (tc_ParentAgent call) (ca_Name ps)
      (ca_Arguments ps) (e_Seq e') dn (p_Fingerprint pol) (p\<lparr>px_db := d\<rparr>) = (af, p1)"
    by fastforce
  have same1: "db_sessions (px_db p1) = db_sessions d" "db_events (px_db p1) = db_events d"
    "db_escalations (px_db p1) = db_escalations d" "px_auditStrict p1 = px_auditStrict p"
    using w by (cases rule: writeAuditRecord_cases; simp add: px_effect_def same_config_def)+
  define p2 where "p2 = emitDecisionSpan (case tc_RequestedAt call of None \<Rightarrow> 0 | Some t \<Rightarrow> t) ?sid (tc_AgentName call)
      (ca_Name ps) dn (p_Fingerprint pol) (ExtractClientTraceID (rq_header r)) p1"
  have row2: "find_session (px_db p2) ?sid = Some row" using row_d same1(1) by (simp add: p2_def find_session_def)
  have views2: "store_hist (px_db p2) = store_hist d" "store_approvals L (px_db p2) = store_approvals L d"
    using same1 by (simp_all add: p2_def store_hist_def session_rows_def store_approvals_def fun_eq_iff)
  obtain f p3 where t: "persist_taint N ?sid (sr_Tainted row) sess p2 = (f, p3)" by fastforce
  obtain row3 where f: "f = None" and row3: "find_session (px_db p3) ?sid = Some row3" "session_of_row row3 = sess"
    and v3: "same_views (px_db p2) (px_db p3)"
    using persist_taint_exact [OF W row2 t] sess by auto
  have strict3: "\<not> px_auditStrict p3"
    using persist_taint_cases(1) [OF t] strict same1(4) by (simp add: px_effect_def same_config_def p2_def)
  have "enforce N q ps ?sid (e_Seq e') dn pol af p3 = (p', rep)"
    using e a w t f by (simp add: record_and_enforce_def Let_def p2_def [symmetric])
  from enforce_exact [OF W row3(1) strict3 this, of L] obtain row' where
    "find_session (px_db p') ?sid = Some row'" "session_of_row row' = count_call dn (session_of_row row3)"
    "store_hist (px_db p') = store_hist (px_db p3)" "store_approvals L (px_db p') = store_approvals L (px_db p3)"
    "answers q ps dn rep" by blast
  with that row3(2) views_eq [OF v3] views2 hist appr show thesis by simp
qed

section \<open>A call is one step of the governor\<close>

definition governs :: "net \<Rightarrow> AgentClaims \<Rightarrow> string \<Rightarrow> MCPRequest \<Rightarrow> ToolCallParams \<Rightarrow> proxy \<Rightarrow> proxy \<Rightarrow> reply \<Rightarrow> int \<times> int \<times> int \<Rightarrow> bool" where
  "governs N claims sid q ps p p' rep clock \<longleftrightarrow>
     (let (G', dn) = govern (n_lib N) (store_approvals (n_lib N) (px_db p)) (store_scope (n_tools N) (px_db p))
            (px_livePol p) (policy_for p) clock claims sid ps (governor_of (px_db p))
      in governor_of (px_db p') = G'
       \<and> (case dn of None \<Rightarrow> rep = writeGone sid | Some dn \<Rightarrow> answers q ps dn rep))"

lemma tools_decode_views: "same_views d d' \<Longrightarrow> tools_decode jt d' = tools_decode jt d"
  by (simp add: tools_decode_def same_views_def)

lemma Evaluate_taints: "\<exists>b. snd (Evaluate stages call sess pol) = sess\<lparr>s_Tainted := b\<rparr>"
proof (induction stages)
  case Nil
  show ?case by (auto simp: applyTaintMutations_alt)
next
  case (Cons ev stages)
  have "\<exists>b. sess = sess\<lparr>s_Tainted := b\<rparr>" by (rule exI [of _ "s_Tainted sess"]) simp
  with Cons show ?case by (simp split: sum.split)
qed

lemma governor_session: "gv_session (governor_of (px_db p)) sid = map_option session_of_row (find_session (px_db p) sid)"
  by (simp add: governor_of_def)

lemma session_at_governor:
  "session_at p sid claims = (case gv_session (governor_of (px_db p)) sid of Some s \<Rightarrow> s | None \<Rightarrow> fresh_session sid claims (px_livePol p))"
  by (simp add: session_at_def governor_session split: option.split)

text \<open>A closed session: nothing moves.\<close>

lemma evaluate_call_closed:
  assumes W: "fault_free (n_world N)" and inv: "lru_inv (px_polCache p)" and e: "evaluate_call N claims sid ps p = (Inl rep, p1)"
  shows "rep = writeGone sid" "s_Terminated (session_at p sid claims)" "governor_of (px_db p1) = governor_of (px_db p)"
    "store_approvals L (px_db p1) = store_approvals L (px_db p)"
proof -
  show rep: "rep = writeGone sid" by (rule evaluate_call_not_refused [OF W e])
  from inv e have "s_Terminated (session_at p sid claims) \<and> governor_of (px_db p1) = governor_of (px_db p)
      \<and> store_approvals L (px_db p1) = store_approvals L (px_db p)"
  proof (cases rule: evaluate_call_cases)
    case (refused rep')
    with rep show ?thesis by (auto simp: writeGone_def writeBadRequest_def)
  next
    case (gone row)
    obtain row0 where row0: "find_session (px_db p) sid = Some row0"
      using gone(2) by (cases "find_session (px_db p) sid") (simp_all add: session_at_def fresh_session_def)
    have s: "session_of_row row = session_of_row row0" using gone(7) row0 by (simp add: session_at_def)
    from governor_only [OF evaluate_call_only [OF e] gone(6) HOL.refl] have "governor_of (px_db p1) = governor_of (px_db p)"
      using s row0 views_eq(1) [OF gone(4)] by (simp add: governor_of_def fun_eq_iff)
    then show ?thesis using gone(2) views_eq(2) [OF gone(4)] by simp
  qed simp
  then show "s_Terminated (session_at p sid claims)" "governor_of (px_db p1) = governor_of (px_db p)"
    "store_approvals L (px_db p1) = store_approvals L (px_db p)" by simp_all
qed

lemma handle_tool_call_governs:
  assumes W: "fault_free (n_world N)" and inv: "lru_inv (px_polCache p)" and jt: "tools_decode (n_tools N) (px_db p)"
    and strict: "\<not> px_auditStrict p" and h: "handle_tool_call N r claims sid q ps p = (p', rep)"
  shows "\<exists>evaluated recorded. governs N claims sid q ps p p' rep (now_at (n_world N) (px_db p), evaluated, recorded)
    \<and> store_approvals L (px_db p') = store_approvals L (px_db p)"
proof -
  let ?now = "now_at (n_world N) (px_db p)" and ?s = "session_at p sid claims"
  obtain e p1 where e: "evaluate_call N claims sid ps p = (e, p1)" by fastforce
  show ?thesis
  proof (cases e)
    case (Inl rep')
    note closed = evaluate_call_closed [OF W inv e [unfolded Inl]]
    have "p' = p1" "rep = writeGone sid" using h e Inl closed(1) by (simp_all add: handle_tool_call_def)
    with closed(2-) show ?thesis by (simp add: governs_def govern_def session_at_governor Let_def)
  next
    case (Inr x)
    from inv e Inr show ?thesis
    proof (cases rule: evaluate_call_cases)
      case (decided row d1 dn sess')
      let ?c = "engine_call claims sid ps ?now" and ?pol = "policy_for p ?s"
      have sid: "tc_SessionID ?c = sid" by (simp add: engine_call_def)
      have re: "record_and_enforce N r q ps ?c (s_Tainted ?s) dn sess' ?pol p1 = (p', rep)"
        using h e decided(1) by (simp add: handle_tool_call_def)
      have row1: "find_session (px_db p1) (tc_SessionID ?c) = Some row"
        unfolding sid using decided(7,9) find_session_same [OF same_tables_later, of pipeline_ticks d1 sid] by simp
      have taint: "s_Tainted ?s = sr_Tainted row" using decided(8) by (metis session_of_row_def Session.select_convs(4))
      obtain b where b: "sess' = (session_of_row row)\<lparr>s_Tainted := b\<rparr>"
        using Evaluate_taints decided(3,8) by (metis snd_conv)
      have strict1: "\<not> px_auditStrict p1" using decided(10) strict by (simp add: same_config_def)
      have v1: "same_views (px_db p) (px_db p1)" using decided(5,9) by (simp add: same_views_def)
      obtain row' t where post: "find_session (px_db p') sid = Some row'" "session_of_row row' = count_call dn sess'"
          "store_hist (px_db p') sid = store_hist (px_db p1) sid
             @ [\<lparr>se_ToolName = ca_Name ps, se_Decision = action_str (d_Action dn), se_RecordedAt = t\<rparr>]"
          "store_approvals L (px_db p') = store_approvals L (px_db p1)" "answers q ps dn rep"
        using record_and_enforce_exact [OF W row1 strict1 b re [unfolded taint], of L] unfolding sid by metis
      have jt1: "tools_decode (n_tools N) d1" using jt tools_decode_views [OF decided(5)] by simp
      have dec: "Evaluate (full_stages (n_lib N) (view_backend (store_hist (px_db p)) (store_approvals (n_lib N) (px_db p))
          (store_scope (n_tools N) (px_db p))) (now_at (n_world N) d1)) ?c ?s ?pol = (dn, sess')"
        by (rule trans [OF sym [OF Evaluate_alike [OF store_answers_views [OF W jt1], unfolded views_eq [OF decided(5)]]] decided(3)])
      have "only_session sid (px_db p) (px_db p')"
        using handle_tool_call_only [OF h] .
      note gov = governor_only [OF this post(1) HOL.refl, unfolded post(2,3) views_eq(1) [OF v1]]
      have "governs N claims sid q ps p p' rep (?now, now_at (n_world N) d1, t)"
        using dec decided(2) gov post(5)
        by (simp add: governs_def govern_def Let_def session_at_governor [symmetric]) (simp add: governor_of_def)
      with post(4) views_eq(2) [OF v1] show ?thesis by auto
    qed simp_all
  qed
qed

section \<open>A request is one step of the governor\<close>

text \<open>The requests the proxy decides: calls of real tools.\<close>

definition governed_call :: "net \<Rightarrow> request \<Rightarrow> (MCPRequest \<times> ToolCallParams) option" where
  "governed_call N r =
     (if rq_path r = ''/health'' then None
      else case tool_call_of N r of
        None \<Rightarrow> None
      | Some (q, ps) \<Rightarrow> if ca_Name ps = ''check_escalation_status'' then None else Some (q, ps))"

lemma governed_call_Some:
  "governed_call N r = Some (q, ps) \<longleftrightarrow>
     rq_path r \<noteq> ''/health'' \<and> tool_call_of N r = Some (q, ps) \<and> ca_Name ps \<noteq> ''check_escalation_status''"
  by (auto simp: governed_call_def split: option.splits if_splits)

lemma other_requests_same:
  assumes "governed_call N r = None" "serve N stat r p = (p', rep)"
  shows "same_tables (px_db p) (px_db p')"
proof (cases "rq_path r = ''/health'' \<or> tool_call_of N r = None")
  case True
  then show ?thesis
  proof
    assume "rq_path r = ''/health''"
    with assms(2) show ?thesis by (auto simp: serve_def handleHealth_def Let_def store_Ping_def split: option.splits if_splits)
  next
    assume "tool_call_of N r = None"
    from serve_no_call [OF this, of p stat] assms(2) show ?thesis by simp
  qed
next
  case False
  then obtain q ps where call: "rq_path r \<noteq> ''/health''" "tool_call_of N r = Some (q, ps)" by auto
  with assms(1) have virtual: "ca_Name ps = ''check_escalation_status''" by (auto simp: governed_call_def split: if_splits)
  obtain a d where a: "authenticate (n_world N) (n_keys N) (rq_header r) (px_db p) = (a, d)" by fastforce
  note t = auth_step(1) [OF a]
  have "same_tables (px_db p) (px_db p1)" if "escalation_status N q ps (p\<lparr>px_db := d\<rparr>) = (p1, rep1)" for p1 rep1
    using same_tables_trans [OF t] escalation_status_reply(2) [OF that] by simp
  with assms(2) serve_tool_call [OF call, of stat p] virtual a t show ?thesis by (auto split: sum.splits if_splits)
qed

lemma serve_governed:
  assumes W: "fault_free (n_world N)" and inv: "lru_inv (px_polCache p)" and jt: "tools_decode (n_tools N) (px_db p)"
    and strict: "\<not> px_auditStrict p" and call: "governed_call N r = Some (q, ps)"
    and auth: "fst (authenticate (n_world N) (n_keys N) (rq_header r) (px_db p)) = Inr claims"
    and sid: "session_header r \<noteq> []" and s: "serve N stat r p = (p', rep)"
  shows "\<exists>evaluated recorded. governs N claims (session_header r) q ps p p' rep (received_at N r p, evaluated, recorded)
    \<and> store_approvals L (px_db p') = store_approvals L (px_db p)"
proof -
  obtain d where a: "authenticate (n_world N) (n_keys N) (rq_header r) (px_db p) = (Inr claims, d)"
    using auth by (metis prod.collapse)
  note st = auth_step [OF a]
  have tables: "same_tables (px_db p) d" by (rule st(1))
  have pre: "lru_inv (px_polCache (p\<lparr>px_db := d\<rparr>))" "tools_decode (n_tools N) (px_db (p\<lparr>px_db := d\<rparr>))"
    "\<not> px_auditStrict (p\<lparr>px_db := d\<rparr>)"
    using inv strict jt tools_decode_views [OF same_viewsI [OF tables]] by simp_all
  from call have c: "rq_path r \<noteq> ''/health''" "tool_call_of N r = Some (q, ps)" "ca_Name ps \<noteq> ''check_escalation_status''"
    by (simp_all add: governed_call_Some)
  have h: "handle_tool_call N r claims (session_header r) q ps (p\<lparr>px_db := d\<rparr>) = (p', rep)"
    using serve_tool_call [OF c(1,2), of stat p] s a c(3) sid by simp
  have same: "governor_of d = governor_of (px_db p)" "store_approvals (n_lib N) d = store_approvals (n_lib N) (px_db p)"
    "store_scope (n_tools N) d = store_scope (n_tools N) (px_db p)" "store_approvals L d = store_approvals L (px_db p)"
    "policy_for (p\<lparr>px_db := d\<rparr>) = policy_for p"
    using governor_same [OF tables] views_same(2,3) [OF tables] st(4) by (simp_all add: fun_eq_iff)
  have r: "received_at N r p = now_at (n_world N) d" by (simp add: received_at_def a)
  from handle_tool_call_governs [OF W pre h, of L] show ?thesis
    by (simp add: governs_def same r)
qed

lemma govern_decides:
  assumes "govern L approvals scope live version (received, evaluated, recorded) claims sid ps G = (G', Some dn)"
    and "sess = (case gv_session G sid of Some s \<Rightarrow> s | None \<Rightarrow> fresh_session sid claims live)" "wf_policy (version sess)"
  shows "d_Action dn = Allow \<longleftrightarrow>
      permitted L (gv_history G) approvals scope received (version sess) (engine_call claims sid ps received) sess"
    "d_Action dn = ShadowDeny \<Longrightarrow> effectiveMode (version sess) (ca_Name ps) = EnforcementShadow"
proof -
  let ?c = "engine_call claims sid ps received"
  obtain sess' where e: "Evaluate (full_stages L (view_backend (gv_history G) approvals scope) evaluated) ?c sess (version sess) = (dn, sess')"
    using assms(1,2) by (auto simp: govern_def Let_def split: prod.splits if_splits)
  have at: "call_time evaluated ?c = call_time received ?c" by (simp add: call_time_def engine_call_def)
  have "permitted L (gv_history G) approvals scope evaluated (version sess) ?c sess \<longleftrightarrow>
      permitted L (gv_history G) approvals scope received (version sess) ?c sess"
    unfolding permitted_def rate_ok_def at by (rule HOL.refl)
  with views.Evaluate_permits [OF assms(3), of L "gv_history G" approvals scope evaluated ?c sess] e
  show "d_Action dn = Allow \<longleftrightarrow> permitted L (gv_history G) approvals scope received (version sess) ?c sess" by simp
  show "effectiveMode (version sess) (ca_Name ps) = EnforcementShadow" if "d_Action dn = ShadowDeny"
    using shadow_mode [OF e that] by (simp add: engine_call_def)
qed

lemma answers_Forwarded: "answers q ps dn rep \<Longrightarrow> rep = Forwarded \<longleftrightarrow> d_Action dn \<in> {Allow, ShadowDeny}"
  by (cases "d_Action dn") (auto simp: answers_def writeJSONRPCDeny_def split: option.splits prod.splits)

section \<open>Samples\<close>

lemma sample_governed:
  "governed_call sample_net (sample_request ''read'') =
     Some (\<lparr>mq_JSONRPC = ''2.0'', mq_ID = ''1'', mq_Method = ''tools/call'', mq_Params = ''read''\<rparr>, \<lparr>ca_Name = ''read'', ca_Arguments = ''5''\<rparr>)"
  "fst (authenticate (n_world sample_net) (n_keys sample_net) (rq_header (sample_request ''read'')) (px_db sample_proxy)) = Inr (sample_claims ''pay'')"
  "session_header (sample_request ''read'') = ''s1''" "\<not> px_auditStrict sample_proxy"
  by code_simp+

lemma sample_tools: "tools_decode (n_tools sample_net) d"
  by (simp add: sample_net_def tools_decode_def)

section \<open>Properties\<close>

text \<open>C4: The proxy refines its contract. When no statement fails and audit-strict mode is off, every
  request moves the abstract state, the session and the history of every session id, exactly as the
  contract says. A request that is no governed tool call, one that does not authenticate and one without
  a session header leave it as it is. An authenticated call is one step \<open>govern\<close> of the pure governor
  from the state before it: the session is opened under the live policy when new, refused when closed, and
  otherwise the pipeline's decision over that state is counted in the session, appended to the history,
  and is what the reply tells.\<close>

theorem serve_refines_governor:
  assumes "fault_free (n_world N)" "lru_inv (px_polCache p)" "tools_decode (n_tools N) (px_db p)"
    "\<not> px_auditStrict p" "serve N stat r p = (p', rep)"
  shows "case (governed_call N r, fst (authenticate (n_world N) (n_keys N) (rq_header r) (px_db p))) of
      (Some (q, ps), Inr claims) \<Rightarrow>
        (if session_header r = [] then rep = writeMissingSessionID \<and> governor_of (px_db p') = governor_of (px_db p)
         else (\<exists>evaluated recorded. governs N claims (session_header r) q ps p p' rep (received_at N r p, evaluated, recorded)))
    | (Some _, Inl m) \<Rightarrow> rep = writeUnauthorized m \<and> governor_of (px_db p') = governor_of (px_db p)
    | (None, _) \<Rightarrow> governor_of (px_db p') = governor_of (px_db p)"
proof (cases "governed_call N r")
  case None
  then show ?thesis using governor_same [OF other_requests_same [OF None assms(5)]] by simp
next
  case (Some qps)
  then obtain q ps where call: "governed_call N r = Some (q, ps)" by (cases qps) auto
  obtain a d where a: "authenticate (n_world N) (n_keys N) (rq_header r) (px_db p) = (a, d)" by fastforce
  have same: "governor_of d = governor_of (px_db p)" by (rule governor_same [OF auth_step(1) [OF a]])
  from call have c: "rq_path r \<noteq> ''/health''" "tool_call_of N r = Some (q, ps)" by (simp_all add: governed_call_Some)
  note sv = serve_tool_call [OF c, of stat p]
  show ?thesis
  proof (cases a)
    case (Inl m)
    then show ?thesis using sv assms(5) a call same by auto
  next
    case (Inr claims)
    show ?thesis
    proof (cases "session_header r = []")
      case True
      then show ?thesis using sv assms(5) a call same Inr by auto
    next
      case False
      from serve_governed [OF assms(1-4) call _ False assms(5), of claims] a call Inr False show ?thesis by auto
    qed
  qed
qed

theorem serve_refines_governor_witness:
  "\<exists>evaluated recorded. governs sample_net (sample_claims ''pay'') ''s1''
     \<lparr>mq_JSONRPC = ''2.0'', mq_ID = ''1'', mq_Method = ''tools/call'', mq_Params = ''read''\<rparr> \<lparr>ca_Name = ''read'', ca_Arguments = ''5''\<rparr>
     sample_proxy (fst (serve sample_net (\<lambda>_. True) (sample_request ''read'') sample_proxy)) Forwarded
     (received_at sample_net (sample_request ''read'') sample_proxy, evaluated, recorded)"
proof -
  have W: "fault_free (n_world sample_net)" by simp
  from serve_refines_governor [OF W sample_proxy_cache sample_tools sample_governed(4) sample_serve [OF sample_runs_proxy(1)]]
  show ?thesis by (simp add: sample_governed del: sample_net_world)
qed

text \<open>C5: Permitted calls are served. When no statement fails and audit-strict mode is off, an
  authenticated call in an open session that its policy permits at the time it is received is forwarded;
  and conversely a call that is forwarded was permitted, unless the policy's mode for the tool is shadow.\<close>

theorem permitted_calls_are_forwarded:
  assumes "fault_free (n_world N)" "lru_inv (px_polCache p)" "tools_decode (n_tools N) (px_db p)" "\<not> px_auditStrict p"
    and "governed_call N r = Some (q, ps)" "session_header r \<noteq> []"
    and "fst (authenticate (n_world N) (n_keys N) (rq_header r) (px_db p)) = Inr claims"
    and "sess = session_at p (session_header r) claims" "\<not> s_Terminated sess" "pol = policy_for p sess" "wf_policy pol"
    and "ok = permitted (n_lib N) (store_hist (px_db p)) (store_approvals (n_lib N) (px_db p)) (store_scope (n_tools N) (px_db p))
       (received_at N r p) pol (engine_call claims (session_header r) ps (received_at N r p)) sess"
  shows "(ok \<longrightarrow> snd (serve N stat r p) = Forwarded)
    \<and> (snd (serve N stat r p) = Forwarded \<longrightarrow> ok \<or> effectiveMode pol (ca_Name ps) = EnforcementShadow)"
proof -
  let ?sid = "session_header r"
  let ?G = "governor_of (px_db p)"
  obtain p' rep where s: "serve N stat r p = (p', rep)" by fastforce
  obtain evaluated recorded where g: "governs N claims ?sid q ps p p' rep (received_at N r p, evaluated, recorded)"
    using serve_governed [OF assms(1-5,7,6) s] by blast
  obtain G' dn where dn: "govern (n_lib N) (store_approvals (n_lib N) (px_db p)) (store_scope (n_tools N) (px_db p))
      (px_livePol p) (policy_for p) (received_at N r p, evaluated, recorded) claims ?sid ps ?G = (G', dn)" by fastforce
  have sess: "sess = (case gv_session ?G ?sid of Some s \<Rightarrow> s | None \<Rightarrow> fresh_session ?sid claims (px_livePol p))"
    using assms(8) by (simp add: session_at_governor)
  have "dn \<noteq> None" using dn assms(9) sess by (auto simp: govern_def Let_def split: prod.splits if_splits)
  then obtain dn' where some: "dn = Some dn'" by blast
  have rep: "rep = Forwarded \<longleftrightarrow> d_Action dn' \<in> {Allow, ShadowDeny}"
    using g dn some answers_Forwarded by (auto simp: governs_def)
  have hist: "gv_history ?G = store_hist (px_db p)" by (simp add: governor_of_def)
  have wf: "wf_policy (policy_for p sess)" using assms(10,11) by simp
  from govern_decides [OF dn [unfolded some] sess wf] rep s show ?thesis
    unfolding assms(10,12) hist by auto
qed

theorem permitted_calls_are_forwarded_witness:
  "permitted (n_lib sample_net) (store_hist (px_db sample_proxy)) (store_approvals (n_lib sample_net) (px_db sample_proxy))
     (store_scope (n_tools sample_net) (px_db sample_proxy)) (received_at sample_net (sample_request ''read'') sample_proxy) sample_gate
     (engine_call (sample_claims ''pay'') ''s1'' \<lparr>ca_Name = ''read'', ca_Arguments = ''5''\<rparr>
        (received_at sample_net (sample_request ''read'') sample_proxy))
     (session_at sample_proxy ''s1'' (sample_claims ''pay''))"
proof -
  have W: "fault_free (n_world sample_net)" by simp
  have open': "\<not> s_Terminated (session_at sample_proxy ''s1'' (sample_claims ''pay''))" by code_simp
  have wf: "wf_policy sample_gate" by code_simp
  have blk: "effectiveMode sample_gate ''read'' \<noteq> EnforcementShadow" by code_simp
  have h: "session_header (sample_request ''read'') \<noteq> []" by (simp add: sample_governed)
  note p = permitted_calls_are_forwarded [OF W sample_proxy_cache sample_tools sample_governed(4) sample_governed(1) h sample_governed(2)
      HOL.refl _ HOL.refl _ HOL.refl, unfolded sample_governed(3) sample_policy_for, of "\<lambda>_. True", OF open' wf]
  show ?thesis using p sample_runs_proxy(1) blk by simp
qed

end
