(* ===== verification/TB_OfflineFacts.thy ===== *)
theory TB_OfflineFacts
  imports TB_Offline TB_FaultFree
begin

text \<open>
  What the offline commands compute. Their database is an implementation detail: over one without
  faults, \<open>simulate\<close> is a fold over the session state and the list of past calls in memory
  (\<open>simulate_memory\<close>), session by session. And where the stages they leave out have nothing to object,
  they decide as the proxy does.
\<close>

section \<open>The shortened pipelines\<close>

lemma RateLimit_now:
  "tc_RequestedAt call \<noteq> None \<Longrightarrow> RateLimitEvaluator L B now call sess pol = RateLimitEvaluator L B now' call sess pol"
  by (auto simp: RateLimitEvaluator_def split: option.split)

lemma simulate_alike:
  assumes "answers_alike L B B' call sess" "tc_RequestedAt call \<noteq> None"
  shows "Evaluate (simulate_stages L B now) call sess pol = Evaluate (simulate_stages L B' now') call sess pol"
  using RateLimit_now [OF assms(2), of L B' now sess pol now']
  by (intro Evaluate_cong) (simp add: simulate_stages_def stages_alike [OF assms(1)])

lemma replay_alike:
  assumes "answers_alike L B B' call sess" "tc_RequestedAt call \<noteq> None"
  shows "Evaluate (replay_stages L B now) call sess pol = Evaluate (replay_stages L B' now') call sess pol"
  using RateLimit_now [OF assms(2), of L B' now sess pol now']
  by (intro Evaluate_cong) (simp add: replay_stages_def stages_alike [OF assms(1)])

text \<open>A stage that allows can be left out.\<close>

lemma Evaluate_drop:
  "ev call sess pol = Inr allow \<Longrightarrow> Evaluate (pre @ ev # post) call sess pol = Evaluate (pre @ post) call sess pol"
  by (induction pre) (auto split: sum.split)

lemma full_as_simulate:
  assumes "EnvEvaluator L call sess pol = Inr allow" "DelegationEvaluator L B call sess pol = Inr allow"
    and "ContentEvaluator L call sess pol = Inr allow"
  shows "Evaluate (full_stages L B now) call sess pol = Evaluate (simulate_stages L B now) call sess pol"
proof -
  note drop = Evaluate_drop [where call = call and sess = sess and pol = pol]
  have "Evaluate (full_stages L B now) call sess pol = Evaluate
      [MayUseEvaluator L, DelegationEvaluator L B, BudgetEvaluator, TaintEvaluator L, SequenceEvaluator L B,
       ContentEvaluator L, RateLimitEvaluator L B now, EscalationEvaluator L B] call sess pol"
    using drop [where ev = "EnvEvaluator L", OF assms(1), where pre = "[]"] by (simp only: full_stages_def append_Nil)
  also have "\<dots> = Evaluate [MayUseEvaluator L, BudgetEvaluator, TaintEvaluator L, SequenceEvaluator L B,
       ContentEvaluator L, RateLimitEvaluator L B now, EscalationEvaluator L B] call sess pol"
    using drop [where ev = "DelegationEvaluator L B", OF assms(2), where pre = "[MayUseEvaluator L]"] by (simp only: append_Cons append_Nil)
  also have "\<dots> = Evaluate (simulate_stages L B now) call sess pol"
    using drop [where ev = "ContentEvaluator L", OF assms(3), where pre = "[MayUseEvaluator L, BudgetEvaluator, TaintEvaluator L, SequenceEvaluator L B]"]
    by (simp only: simulate_stages_def append_Cons append_Nil)
  finally show ?thesis .
qed

lemma simulate_as_replay:
  assumes "EscalationEvaluator L B call sess pol = Inr allow"
  shows "Evaluate (simulate_stages L B now) call sess pol = Evaluate (replay_stages L B now) call sess pol"
  using Evaluate_drop [where ev = "EscalationEvaluator L B", OF assms, where post = "[]" and pre = "replay_stages L B now"]
  by (simp add: simulate_stages_def replay_stages_def)

lemma Evaluate_ID: "s_ID (snd (Evaluate stages call sess pol)) = s_ID sess"
  by (induction stages) (simp_all split: sum.split)

section \<open>Simulation in memory\<close>

definition trace_time :: "cli \<Rightarrow> traceEntry \<Rightarrow> int" where
  "trace_time C e = (case c_parse_rfc3339 C (tr_RequestedAt e) of Inr (Some t) \<Rightarrow> t | _ \<Rightarrow> 0)"

text \<open>An entry with a time of its own, so that the wall clock plays no part.\<close>

definition timed :: "cli \<Rightarrow> traceEntry \<Rightarrow> bool" where
  "timed C e \<longleftrightarrow> tr_RequestedAt e \<noteq> [] \<and> trace_time C e \<noteq> 0"

lemma timed_parse: "timed C e \<Longrightarrow> parseRFC3339OrNow C now (tr_RequestedAt e) = Some (trace_time C e)"
  by (auto simp: timed_def trace_time_def parseRFC3339OrNow_def split: sum.splits option.splits)

definition past :: "SessionEventEntry list \<Rightarrow> QueryBackend" where
  "past hist = mem_backend (NewMemBackend (Some hist) None None)"

fun simulate_memory ::
    "lib \<Rightarrow> cli \<Rightarrow> Policy \<Rightarrow> nat \<Rightarrow> traceEntry list \<Rightarrow> Session \<Rightarrow> SessionEventEntry list \<Rightarrow> simulateResult list" where
  "simulate_memory L C pol i [] sess hist = []"
| "simulate_memory L C pol i (e # es) sess hist =
     (let (dn, sess1) = Evaluate (simulate_stages L (past hist) 0) (trace_call e (Some (trace_time C e))) sess pol
      in trace_result e i dn # simulate_memory L C pol (i + 1) es (count_call dn sess1)
           (hist @ [\<lparr>se_ToolName = tr_ToolName e, se_Decision = action_str (d_Action dn), se_RecordedAt = trace_time C e\<rparr>]))"

definition simulate_session :: "lib \<Rightarrow> cli \<Rightarrow> Policy \<Rightarrow> traceEntry list \<Rightarrow> simulateResult list" where
  "simulate_session L C pol es =
     simulate_memory L C pol 1 es (offline_session (tr_SessionID (hd es)) (tr_AgentName (hd es)) pol) []"

text \<open>A database that only holds sessions and events.\<close>

definition scratch_db :: "db \<Rightarrow> bool" where
  "scratch_db d \<longleftrightarrow> wf_db d \<and> db_escalations d = [] \<and> db_agents d = []"

lemma scratch_tools: "scratch_db d \<Longrightarrow> tools_decode jt d"
  by (simp add: scratch_db_def tools_decode_def)

lemma scratch_answers:
  assumes W: "fault_free W" and d: "scratch_db d" and h: "hist = store_hist d (s_ID sess)" and p: "tc_ParentAgent call = []"
  shows "answers_alike (w_lib W) (store_backend W jt d) (past hist) call sess"
proof -
  note st = store_total [OF W scratch_tools [OF d], of jt]
  have a: "\<not> store_approvals (w_lib W) d i t x" for i t x using d by (simp add: store_approvals_def scratch_db_def)
  have m: "mb_events (NewMemBackend (Some x) None None) = x" "\<not> mem_approvals (NewMemBackend (Some x) None None) i t z"
    for i t x z by (simp_all add: NewMemBackend_def mem_approvals_def)
  show ?thesis
    by (simp add: answers_alike_def past_def m a p h mem.events_total mem.count_total mem.approved_total
        total_backend.events_total [OF st] total_backend.count_total [OF st] total_backend.approved_total [OF st])
qed

text \<open>One event more.\<close>

lemma scratch_event:
  assumes W: "fault_free W" and d: "scratch_db d" and s: "sid \<in> sr_ID ` set (db_sessions d)" and t: "t \<noteq> 0"
  obtains e' d' where "AppendEvent W (offline_event sid tool dn t) (later k d) = (Inr e', d')" "scratch_db d'"
    "db_sessions d' = db_sessions d"
    "\<And>i. store_hist d' i = store_hist d i @ (if i = sid
        then [\<lparr>se_ToolName = tool, se_Decision = action_str (d_Action dn), se_RecordedAt = t\<rparr>] else [])"
proof -
  let ?e = "offline_event sid tool dn t" and ?d = "later k d"
  have st: "stamped W ?d ?e = ?e" using t by (simp add: stamped_def offline_event_def)
  have sid: "e_SessionID ?e = sid" by (simp add: offline_event_def)
  have mem: "e_SessionID ?e \<in> sr_ID ` set (db_sessions ?d)" using s by (simp add: sid)
  obtain d' where a: "AppendEvent W ?e ?d = (Inr (?e\<lparr>e_Seq := Suc (max_seq ?d sid)\<rparr>), d')"
    and t': "same_tables (?d\<lparr>db_events := db_events ?d @ [row_of_event (Suc (max_seq ?d sid)) ?e]\<rparr>) d'"
    using AppendEvent_fault_free [OF W mem] unfolding st sid by metis
  have eff: "effect ?d d'" using AppendEvent_effect [of ?d W ?e] a by simp
  have wf: "wf_db ?d" using d by (simp add: scratch_db_def later_def wf_db_def numbered_def session_rows_def)
  have ev: "?e\<lparr>e_SessionID := sid\<rparr> = ?e" by (simp add: offline_event_def)
  have en: "entry_of_event ?e = \<lparr>se_ToolName = tool, se_Decision = action_str (d_Action dn), se_RecordedAt = t\<rparr>"
    by (simp add: entry_of_event_def offline_event_def)
  show thesis
  proof (rule that)
    show "AppendEvent W ?e ?d = (Inr (?e\<lparr>e_Seq := Suc (max_seq ?d sid)\<rparr>), d')" by (rule a)
    show "scratch_db d'" using effect_wf [OF eff wf] t' d by (simp add: scratch_db_def same_tables_sel)
    show "db_sessions d' = db_sessions d" using t' by (simp add: same_tables_sel)
    have l: "store_hist ?d i = store_hist d i" for i by (simp add: store_hist_def session_rows_def)
    show "store_hist d' i = store_hist d i @ (if i = sid
        then [\<lparr>se_ToolName = tool, se_Decision = action_str (d_Action dn), se_RecordedAt = t\<rparr>] else [])" for i
      unfolding views_same(1) [OF t'] using store_hist_event [of ?d sid ?e i] by (simp only: ev en l)
  qed
qed

lemma entries_in_memory:
  assumes W: "fault_free W"
  shows "\<forall>e \<in> set es. tr_SessionID e = sid \<and> timed C e \<Longrightarrow> s_ID sess = sid \<Longrightarrow> sid \<in> sr_ID ` set (db_sessions d) \<Longrightarrow>
    scratch_db d \<Longrightarrow>
    \<exists>d'. evaluate_entries C W pol i es sess d = (Inr (simulate_memory (w_lib W) C pol i es sess (store_hist d sid)), d')
      \<and> scratch_db d' \<and> db_sessions d' = db_sessions d \<and> (\<forall>j. j \<noteq> sid \<longrightarrow> store_hist d' j = store_hist d j)"
proof (induction es arbitrary: i sess d)
  case (Cons e es)
  let ?call = "trace_call e (Some (trace_time C e))"
  have e: "tr_SessionID e = sid" "timed C e" using Cons(2) by auto
  have p: "tc_ParentAgent ?call = []" "tc_RequestedAt ?call \<noteq> None" by (simp_all add: trace_call_def)
  have h: "store_hist d sid = store_hist d (s_ID sess)" using Cons(3) by simp
  note same = simulate_alike [OF scratch_answers [OF W Cons(5) h p(1)] p(2), where now' = 0]
  obtain dn sess1 where dn: "Evaluate (simulate_stages (w_lib W) (past (store_hist d sid)) 0) ?call sess pol = (dn, sess1)"
    by fastforce
  have id1: "s_ID (count_call dn sess1) = sid"
    using Evaluate_ID [of "simulate_stages (w_lib W) (past (store_hist d sid)) 0" ?call sess pol] dn Cons(3)
    by (simp add: count_call_def)
  have t: "trace_time C e \<noteq> 0" using e(2) by (simp add: timed_def)
  obtain e' d' where a: "AppendEvent W (offline_event sid (tr_ToolName e) dn (trace_time C e)) (later pipeline_ticks d) = (Inr e', d')"
    and d': "scratch_db d'" "db_sessions d' = db_sessions d"
    and hist: "\<And>i. store_hist d' i = store_hist d i @ (if i = sid
        then [\<lparr>se_ToolName = tr_ToolName e, se_Decision = action_str (d_Action dn), se_RecordedAt = trace_time C e\<rparr>] else [])"
    by (rule scratch_event [OF W Cons(5,4) t]) blast
  have "\<forall>e \<in> set es. tr_SessionID e = sid \<and> timed C e" using Cons(2) by simp
  from Cons(1) [OF this id1 _ d'(1), of "i + 1"] Cons(4) d'(2) obtain d'' where
    ih: "evaluate_entries C W pol (i + 1) es (count_call dn sess1) d' =
        (Inr (simulate_memory (w_lib W) C pol (i + 1) es (count_call dn sess1) (store_hist d' sid)), d'')"
      "scratch_db d''" "db_sessions d'' = db_sessions d'" "\<forall>j. j \<noteq> sid \<longrightarrow> store_hist d'' j = store_hist d' j"
    by auto
  have "evaluate_entries C W pol i (e # es) sess d =
      (Inr (simulate_memory (w_lib W) C pol i (e # es) sess (store_hist d sid)), d'')"
    using ih(1) a by (simp add: timed_parse [OF e(2)] same dn e(1) unix_nano_def db_wrap_def hist)
  with ih d' hist show ?case by simp
qed simp

lemma fresh_hist: "wf_db d \<Longrightarrow> sid \<notin> sr_ID ` set (db_sessions d) \<Longrightarrow> store_hist d sid = []"
proof -
  assume "wf_db d" "sid \<notin> sr_ID ` set (db_sessions d)"
  then have "session_rows d sid = []" by (auto simp: wf_db_def session_rows_def filter_empty_conv)
  then show ?thesis by (simp add: store_hist_def)
qed

lemma session_in_memory:
  assumes W: "fault_free W" and g: "g \<noteq> []" "\<forall>e \<in> set g. tr_SessionID e = sid \<and> timed C e"
    and d: "scratch_db d" "sid \<notin> sr_ID ` set (db_sessions d)"
  obtains d' where "evaluateSession C W pol g d = (Inr (simulate_session (w_lib W) C pol g), d')" "scratch_db d'"
    "sr_ID ` set (db_sessions d') = insert sid (sr_ID ` set (db_sessions d))"
proof -
  obtain e es where es: "g = e # es" using g(1) by (cases g) auto
  have e: "tr_SessionID e = sid" using g(2) es by simp
  obtain d1 where c: "CreateSession W sid (tr_AgentName e) (p_Fingerprint pol) d = (Inr (), d1)"
    and s1: "sr_ID ` set (db_sessions d1) = insert sid (sr_ID ` set (db_sessions d))"
    and t1: "db_events d1 = db_events d" "db_escalations d1 = db_escalations d" "db_agents d1 = db_agents d"
    using CreateSession_fault_free [OF W, of d sid "tr_AgentName e" "p_Fingerprint pol"] d(2)
    by (auto simp: find_session_None)
  have "effect d d1" using CreateSession_effect [of d W sid "tr_AgentName e" "p_Fingerprint pol"] c by simp
  then have sc: "scratch_db d1" using effect_wf d(1) t1 by (auto simp: scratch_db_def)
  have h: "store_hist d1 sid = []"
    using fresh_hist [of d sid] d by (simp add: scratch_db_def store_hist_def session_rows_def t1)
  have sid: "s_ID (offline_session sid (tr_AgentName e) pol) = sid" by (simp add: offline_session_def)
  from entries_in_memory [OF W g(2) sid _ sc, of pol 1] s1 obtain d' where
    "evaluate_entries C W pol 1 g (offline_session sid (tr_AgentName e) pol) d1 =
      (Inr (simulate_memory (w_lib W) C pol 1 g (offline_session sid (tr_AgentName e) pol) []), d')"
    "scratch_db d'" "db_sessions d' = db_sessions d1" by (auto simp: h)
  then show thesis
    using that s1 c es e by (simp add: evaluateSession_def simulate_session_def db_wrap_def)
qed

definition session_group :: "cli \<Rightarrow> traceEntry list \<Rightarrow> bool" where
  "session_group C g \<longleftrightarrow> g \<noteq> [] \<and> (\<forall>e \<in> set g. tr_SessionID e = tr_SessionID (hd g) \<and> timed C e)"

lemma groups_in_memory:
  assumes W: "fault_free W"
  shows "\<forall>g \<in> set gs. session_group C g \<Longrightarrow>
    distinct (map (tr_SessionID \<circ> hd) gs) \<Longrightarrow> scratch_db d \<Longrightarrow>
    \<forall>g \<in> set gs. tr_SessionID (hd g) \<notin> sr_ID ` set (db_sessions d) \<Longrightarrow>
    fst (evaluate_groups C W pol gs d) = Inr (concat (map (simulate_session (w_lib W) C pol) gs))"
proof (induction gs arbitrary: d)
  case (Cons g gs)
  have g: "g \<noteq> []" "\<forall>e \<in> set g. tr_SessionID e = tr_SessionID (hd g) \<and> timed C e"
    using bspec [OF Cons(2) list.set_intros(1)] unfolding session_group_def by (rule conjunct1, rule conjunct2)
  have fresh: "tr_SessionID (hd g) \<notin> sr_ID ` set (db_sessions d)" using Cons(5) by simp
  obtain d' where s: "evaluateSession C W pol g d = (Inr (simulate_session (w_lib W) C pol g), d')" and d': "scratch_db d'"
    "sr_ID ` set (db_sessions d') = insert (tr_SessionID (hd g)) (sr_ID ` set (db_sessions d))"
    by (rule session_in_memory [OF W g Cons(4) fresh, where pol = pol]) blast
  have rest: "\<forall>g \<in> set gs. session_group C g"
    "distinct (map (tr_SessionID \<circ> hd) gs)" using Cons(2,3) by (simp_all add: comp_def)
  have "tr_SessionID (hd x) \<noteq> tr_SessionID (hd g)" if "x \<in> set gs" for x
    using Cons(3) imageI [OF that, of "\<lambda>a. tr_SessionID (hd a)"] by (auto simp: comp_def)
  then have rest': "\<forall>g \<in> set gs. tr_SessionID (hd g) \<notin> sr_ID ` set (db_sessions d')"
    using Cons(5) unfolding d'(2) by simp
  have ih: "fst (evaluate_groups C W pol gs d') = Inr (concat (map (simulate_session (w_lib W) C pol) gs))"
    using Cons(1) [OF rest d'(1) rest'] .
  then obtain d'' where "evaluate_groups C W pol gs d' = (Inr (concat (map (simulate_session (w_lib W) C pol) gs)), d'')"
    by (cases "evaluate_groups C W pol gs d'") auto
  with s show ?case by (simp add: db_wrap_def)
qed simp

lemma group_by_keys: "map (key \<circ> hd) (group_by key es) = first_encounters (map key es)"
proof -
  have "key (hd (filter (\<lambda>e. key e = k) es)) = k" if "k \<in> set (map key es)" for k
  proof -
    from that have "filter (\<lambda>e. key e = k) es \<noteq> []" by (auto simp: filter_empty_conv)
    from hd_in_set [OF this] show ?thesis by simp
  qed
  then show ?thesis by (auto simp: group_by_reference comp_def intro!: map_idI)
qed

section \<open>Samples\<close>

definition sample_trace :: "traceEntry list" where
  "sample_trace = map (\<lambda>t. \<lparr>tr_SessionID = ''s1'', tr_AgentName = ''pay'', tr_ToolName = t, tr_Arguments = [],
        tr_RequestedAt = ''T''\<rparr>) [''wire'', ''read'', ''wire'']"

text \<open>A policy whose \<open>read\<close> is blocked by its content.\<close>

definition sample_content :: Policy where
  "sample_content = sample_policy\<lparr>p_Tools := Some [(''read'', sample_tool\<lparr>tp_NeverWhen :=
     Some [\<lparr>cp_Argument = ''amount'', cp_Operator = ''equals'', cp_Value = ''5''\<rparr>]\<rparr>)]\<rparr>"

section \<open>Properties\<close>

text \<open>\<open>simulate\<close> is a pure function of the trace. When no statement fails and every entry carries a
  time, running the trace through the SQLite database gives exactly the in-memory fold
  \<open>simulate_session\<close> over each session's entries in file order, sessions in the order of first
  encounter: sessions do not influence each other, and the database and the clock play no part.\<close>

theorem simulate_is_a_fold:
  assumes "fault_free W" "c_open C = None" "\<forall>e \<in> set entries. timed C e"
  shows "fst (evaluateAllSessions C W (groupTraceBySession entries) pol sfx t) =
    Inr (concat (map (\<lambda>sid. simulate_session (w_lib W) C pol (filter (\<lambda>e. tr_SessionID e = sid) entries))
                     (first_encounters (map tr_SessionID entries))))"
proof -
  let ?gs = "groupTraceBySession entries"
  have ok: "\<forall>g \<in> set ?gs. session_group C g"
    unfolding session_group_def
  proof (intro ballI conjI)
    fix g e assume g: "g \<in> set ?gs" and e: "e \<in> set g"
    from group_by_key [OF g [unfolded groupTraceBySession_def] e] assms(3)
    show "tr_SessionID e = tr_SessionID (hd g)" "timed C e" by auto
  qed (simp add: groupTraceBySession_def group_by_nonempty)
  have "distinct (map (tr_SessionID \<circ> hd) ?gs)" by (simp add: groupTraceBySession_def group_by_keys)
  moreover have "scratch_db (empty_db\<lparr>db_tick := t\<rparr>)"
    using empty_db_wf by (simp add: scratch_db_def empty_db_def wf_db_def numbered_def session_rows_def)
  ultimately have "fst (evaluate_groups C W pol ?gs (empty_db\<lparr>db_tick := t\<rparr>)) =
      Inr (concat (map (simulate_session (w_lib W) C pol) ?gs))"
    by (intro groups_in_memory [OF assms(1) ok]) (simp_all add: empty_db_def)
  moreover have "map (simulate_session (w_lib W) C pol) ?gs =
      map (\<lambda>sid. simulate_session (w_lib W) C pol (filter (\<lambda>e. tr_SessionID e = sid) entries)) (first_encounters (map tr_SessionID entries))"
    by (simp add: groupTraceBySession_def group_by_reference)
  ultimately show ?thesis using assms(2) by (simp add: evaluateAllSessions_def split_beta)
qed

theorem simulate_is_a_fold_witness:
  "map_sum id (map sm_NewDecision) (fst (evaluateAllSessions sample_cli sample_world (groupTraceBySession sample_trace) sample_gate ''new'' 0))
   = Inr [''deny'', ''allow'', ''allow'']"
proof -
  have "fault_free sample_world" by (simp add: fault_free_def sample_world_def)
  moreover have "c_open sample_cli = None" by (simp add: sample_cli_def)
  moreover have "\<forall>e \<in> set sample_trace. timed sample_cli e"
    by (simp add: sample_trace_def timed_def trace_time_def sample_cli_def)
  ultimately have "fst (evaluateAllSessions sample_cli sample_world (groupTraceBySession sample_trace) sample_gate ''new'' 0) =
    Inr (concat (map (\<lambda>sid. simulate_session (w_lib sample_world) sample_cli sample_gate (filter (\<lambda>e. tr_SessionID e = sid) sample_trace))
                     (first_encounters (map tr_SessionID sample_trace))))"
    by (rule simulate_is_a_fold)
  moreover have "map sm_NewDecision (concat (map (\<lambda>sid. simulate_session (w_lib sample_world) sample_cli sample_gate (filter (\<lambda>e. tr_SessionID e = sid) sample_trace))
                     (first_encounters (map tr_SessionID sample_trace)))) = [''deny'', ''allow'', ''allow'']" by code_simp
  ultimately show ?thesis by simp
qed

text \<open>Where it agrees with the proxy. For a policy without \<open>require_env\<close>, a call without a parent agent
  and a tool without \<open>never_when\<close>, the pipeline of \<open>simulate\<close> decides as the proxy's does over any
  backend; and for a tool without \<open>escalate_when\<close> so does that of \<open>audit replay\<close>.\<close>

theorem offline_agrees_with_proxy:
  assumes "sp_RequireEnv (p_Session pol) = []" "tc_ParentAgent call = []"
    and "\<forall>tp. tool_policy pol (tc_ToolName call) = Some tp \<longrightarrow> elems (tp_NeverWhen tp) = []"
  shows "Evaluate (simulate_stages L B now) call sess pol = Evaluate (full_stages L B now) call sess pol
    \<and> ((\<forall>tp. tool_policy pol (tc_ToolName call) = Some tp \<longrightarrow> tp_EscalateWhen tp = None) \<longrightarrow>
        Evaluate (replay_stages L B now) call sess pol = Evaluate (full_stages L B now) call sess pol)"
proof -
  have "EnvEvaluator L call sess pol = Inr allow" "DelegationEvaluator L B call sess pol = Inr allow"
    "ContentEvaluator L call sess pol = Inr allow"
    using assms by (auto simp: EnvEvaluator_def DelegationEvaluator_def ContentEvaluator_def Let_def split: option.split)
  note full = full_as_simulate [OF this, of now]
  have "EscalationEvaluator L B call sess pol = Inr allow"
    if "\<forall>tp. tool_policy pol (tc_ToolName call) = Some tp \<longrightarrow> tp_EscalateWhen tp = None"
    using that by (cases "tool_policy pol (tc_ToolName call)") (auto simp: EscalationEvaluator_def)
  with full simulate_as_replay show ?thesis by metis
qed

theorem offline_agrees_with_proxy_witness:
  "Evaluate (replay_stages sample_lib (past []) 0) (sample_call ''wire'') sample_session sample_gate
   = Evaluate (full_stages sample_lib (past []) 0) (sample_call ''wire'') sample_session sample_gate"
proof -
  have t: "tool_policy sample_gate ''wire'' = Some sample_wire" by code_simp
  have "sp_RequireEnv (p_Session sample_gate) = []" by code_simp
  moreover have "tc_ParentAgent (sample_call ''wire'') = []" "tc_ToolName (sample_call ''wire'') = ''wire''"
    by (simp_all add: sample_call_def)
  ultimately show ?thesis
    using offline_agrees_with_proxy [of sample_gate "sample_call ''wire''" sample_lib "past []" 0 sample_session] t
    by (simp add: sample_wire_def sample_tool_def)
qed

text \<open>What the proxy denies for its content, \<open>simulate\<close> allows.\<close>

lemma simulate_misses_content:
  "d_Action (fst (Evaluate (simulate_stages sample_lib (past []) 0) (sample_call ''read'') sample_session sample_content)) = Allow
   \<and> d_Action (fst (Evaluate (full_stages sample_lib (past []) 0) (sample_call ''read'') sample_session sample_content)) = Deny"
  by code_simp

text \<open>A captured trace is read back as it was captured: from a file that holds one line per entry the
  proxy captured, each a JSON text of that entry below 1 MiB, \<open>simulate\<close> reads exactly those entries.\<close>

theorem captured_trace_read_back:
  assumes "c_fs C path = Inr (concat (map (\<lambda>e. line (enc e)) es))"
    and "\<forall>e \<in> set es. plain_line maxLine (enc e) \<and> te_ToolName e \<noteq> [] \<and> c_trace_line C (enc e) =
       Inr \<lparr>tr_SessionID = te_SessionID e, tr_AgentName = te_AgentName e, tr_ToolName = te_ToolName e,
            tr_Arguments = te_Arguments e, tr_RequestedAt = te_RequestedAt e\<rparr>"
  shows "parseTraceFile C path = Inr (map (\<lambda>e. \<lparr>tr_SessionID = te_SessionID e, tr_AgentName = te_AgentName e,
      tr_ToolName = te_ToolName e, tr_Arguments = te_Arguments e, tr_RequestedAt = te_RequestedAt e\<rparr>) es)"
proof -
  let ?f = "\<lambda>e. \<lparr>tr_SessionID = te_SessionID e, tr_AgentName = te_AgentName e,
      tr_ToolName = te_ToolName e, tr_Arguments = te_Arguments e, tr_RequestedAt = te_RequestedAt e\<rparr>"
  have p: "parse_trace_lines C path (map enc es) n acc = Inr (acc @ map ?f es)" for n acc
    using assms(2) by (induction es arbitrary: n acc) (auto simp: plain_line_def Let_def)
  have "scan_lines maxLine (concat (map line (map enc es))) = (map enc es, False)"
    by (rule scan_lines_written) (use assms(2) in simp)
  then show ?thesis using assms(1) by (simp add: parseTraceFile_def p comp_def)
qed

theorem captured_trace_read_back_witness:
  "map_sum id (map tr_ToolName) (parseTraceFile sample_cli ''t.jsonl'') = Inr [''read'', ''wire'', ''wire'']"
proof -
  let ?e = "\<lambda>t. \<lparr>te_SessionID = ''s1'', te_AgentName = ''pay'', te_ToolName = t, te_Arguments = [], te_RequestedAt = ''T''\<rparr>"
  have "parseTraceFile sample_cli ''t.jsonl'' = Inr (map (\<lambda>e. \<lparr>tr_SessionID = te_SessionID e, tr_AgentName = te_AgentName e,
      tr_ToolName = te_ToolName e, tr_Arguments = te_Arguments e, tr_RequestedAt = te_RequestedAt e\<rparr>) [?e ''read'', ?e ''wire'', ?e ''wire''])"
    by (rule captured_trace_read_back [where enc = te_ToolName])
      (simp_all add: sample_cli_def plain_line_def maxLine_def newline_def)
  then show ?thesis by simp
qed

end
