(* ===== verification/TB_TraceReplay.thy ===== *)
theory TB_TraceReplay
  imports TB_Governor TB_OfflineFacts TB_Approvals
begin

text \<open>
  From a live proxy to \<open>truebearing simulate\<close>. The proxy captures each governed call before it is decided
  (\<open>writeTraceEntry\<close>); \<open>simulate\<close> decides the captured calls again over a scratch database. Here the two are
  run against each other: along any sequence of requests, the decisions simulated from the trace are the
  ones the proxy recorded, under the conditions that make the trace complete (\<open>replayable\<close>) and for
  policies whose rules the trace can decide (\<open>simulable\<close>).
\<close>

section \<open>What a trace can decide\<close>

text \<open>\<open>simulate\<close> has no environment, no content stage, and only times of whole seconds.\<close>

definition simulable :: "Policy \<Rightarrow> bool" where
  "simulable pol \<longleftrightarrow> sp_RequireEnv (p_Session pol) = []
     \<and> list_all (\<lambda>(_, tp). elems (tp_NeverWhen tp) = [] \<and> tp_RateLimit tp = None) (tools pol)"

lemma simulable_tool:
  assumes "simulable pol" "tool_policy pol tool = Some tp"
  shows "elems (tp_NeverWhen tp) = []" "tp_RateLimit tp = None"
  using assms by (auto simp: simulable_def tool_policy_def list_all_iff dest!: map_of_SomeD)

text \<open>A history without its times.\<close>

definition untimed :: "SessionEventEntry list \<Rightarrow> (string \<times> string) list" where
  "untimed = map (\<lambda>e. (se_ToolName e, se_Decision e))"

lemma untimed_simps [simp]: "untimed [] = []" "untimed (xs @ ys) = untimed xs @ untimed ys"
  "untimed [e] = [(se_ToolName e, se_Decision e)]"
  by (simp_all add: untimed_def)

text \<open>The sequence rules read nothing else.\<close>

lemma history_untimed: "untimed evs = untimed evs' \<Longrightarrow> history evs = history evs'"
proof -
  assume "untimed evs = untimed evs'"
  then have "list_all2 (\<lambda>e e'. se_ToolName e = se_ToolName e' \<and> se_Decision e = se_Decision e') evs evs'"
    by (simp add: untimed_def list_all2_map1 list_all2_map2 flip: list.rel_eq)
  then have "fold history_step evs h = fold history_step evs' h" for h
    by (induction arbitrary: h rule: list_all2_induct) (simp_all add: history_step_def)
  then show ?thesis by (simp add: history_def)
qed

text \<open>One decision, of the proxy and of the simulation.\<close>

lemma Evaluate_replayed:
  assumes pol: "simulable pol" and arguments: "ca_Arguments ps \<noteq> []" and parent: "cl_ParentAgent claims = []"
    and hist: "untimed (H (s_ID sess)) = untimed hist" and none: "\<And>i t h. \<not> A i t h"
    and entry: "tr_SessionID e = sid" "tr_AgentName e = cl_AgentName claims" "tr_ToolName e = ca_Name ps" "tr_Arguments e = ca_Arguments ps"
  shows "Evaluate (full_stages L (view_backend H A S) now) (engine_call claims sid ps t) sess pol =
    Evaluate (simulate_stages L (past hist) now') (trace_call e t') sess pol"
proof -
  let ?c = "engine_call claims sid ps t" and ?c' = "trace_call e t'" and ?B = "view_backend H A S"
  have c: "tc_ToolName ?c = ca_Name ps" "tc_ToolName ?c' = ca_Name ps" "tc_Arguments ?c' = tc_Arguments ?c"
    using entry arguments by (simp_all add: engine_call_def trace_call_def)
  have allow: "EnvEvaluator L ?c sess pol = Inr allow" "DelegationEvaluator L ?B ?c sess pol = Inr allow"
    "ContentEvaluator L ?c sess pol = Inr allow"
    using pol parent simulable_tool(1) [OF pol, of "ca_Name ps"] c(1)
    by (auto simp: EnvEvaluator_def DelegationEvaluator_def ContentEvaluator_def simulable_def Let_def engine_call_def
        split: option.split)
  have rate: "RateLimitEvaluator L B n x sess pol = Inr allow" if "tc_ToolName x = ca_Name ps" for B n x
    using simulable_tool(2) [OF pol, of "ca_Name ps"] that by (auto simp: RateLimitEvaluator_def split: option.split)
  have events: "qb_GetSessionEvents ?B (s_ID sess) = Inr (H (s_ID sess))" "qb_GetSessionEvents (past hist) (s_ID sess) = Inr hist"
    by (simp_all add: views.events_total past_def mem.events_total) (simp add: NewMemBackend_def)
  have "SequenceEvaluator L ?B ?c sess pol = SequenceEvaluator L (past hist) ?c' sess pol"
    unfolding SequenceEvaluator_def events c(1,2) sum.case history_untimed [OF hist] by (rule HOL.refl)
  moreover
  have approved: "qb_HasApprovedEscalation ?B (s_ID sess) tool h = Inr False"
    "qb_HasApprovedEscalation (past hist) (s_ID sess) tool h = Inr False" for tool h
    by (simp_all add: views.approved_total none past_def mem.approved_total) (simp add: NewMemBackend_def mem_approvals_def)
  have "EscalationEvaluator L ?B ?c sess pol = EscalationEvaluator L (past hist) ?c' sess pol"
    unfolding EscalationEvaluator_def c Let_def approved by (rule HOL.refl)
  moreover have "MayUseEvaluator L ?c sess pol = MayUseEvaluator L ?c' sess pol" "TaintEvaluator L ?c sess pol = TaintEvaluator L ?c' sess pol"
    "BudgetEvaluator ?c sess pol = BudgetEvaluator ?c' sess pol"
    unfolding MayUseEvaluator_def TaintEvaluator_def BudgetEvaluator_def c by (rule HOL.refl)+
  ultimately have "list_all2 (\<lambda>ev ev'. ev ?c sess pol = ev' ?c' sess pol) (simulate_stages L ?B now) (simulate_stages L (past hist) now')"
    by (simp add: simulate_stages_def rate c)
  moreover have "Evaluate stages ?c sess pol = Evaluate stages' ?c' sess pol"
    if "list_all2 (\<lambda>ev ev'. ev ?c sess pol = ev' ?c' sess pol) stages stages'" for stages stages'
    using that by (induction rule: list_all2_induct) (simp_all add: c applyTaintMutations_def split: sum.split)
  ultimately show ?thesis using full_as_simulate [OF allow, of now] by simp
qed

section \<open>What a request leaves in the trace\<close>

text \<open>An entry as \<open>simulate\<close> reads it back.\<close>

definition read_entry :: "TraceEntry \<Rightarrow> traceEntry" where
  "read_entry e = \<lparr>tr_SessionID = te_SessionID e, tr_AgentName = te_AgentName e, tr_ToolName = te_ToolName e,
     tr_Arguments = te_Arguments e, tr_RequestedAt = te_RequestedAt e\<rparr>"

definition captured :: "net \<Rightarrow> AgentClaims \<Rightarrow> string \<Rightarrow> ToolCallParams \<Rightarrow> int \<Rightarrow> TraceEntry" where
  "captured N claims sid ps t = \<lparr>te_SessionID = sid, te_AgentName = cl_AgentName claims, te_ToolName = ca_Name ps,
     te_Arguments = ca_Arguments ps, te_RequestedAt = n_rfc3339 N t\<rparr>"

lemma record_and_enforce_trace:
  "px_trace (fst (record_and_enforce N r q ps call t0 dn sess pol p)) = px_trace p"
proof -
  have a: "px_trace (snd (writeAuditRecord N r sid ag pa tool args seq dn fp x)) = px_trace x" for sid ag pa tool args seq fp x
    by (auto simp: writeAuditRecord_def split: option.split sum.split prod.split)
  have s: "px_trace (emitDecisionSpan st sid ag tool dn fp tr x) = px_trace x" for st sid ag tool fp tr x
    by (simp add: emitDecisionSpan_def)
  have t: "px_trace (snd (persist_taint N sid t0 sess x)) = px_trace x" for sid x
    by (auto simp: persist_taint_def split: sum.split prod.split)
  have e: "px_trace (fst (enforce N q ps sid seq dn pol af x)) = px_trace x" for sid seq af x
    by (auto simp: enforce_def escalate_def Let_def split: Action.split sum.split prod.split)
  show ?thesis
    unfolding record_and_enforce_def Let_def split_beta by (simp add: a s t e split: sum.split prod.split option.split)
qed

lemma handle_tool_call_trace:
  assumes W: "fault_free (n_world N)"
  shows "px_trace (fst (handle_tool_call N r claims sid q ps p)) =
    px_trace (writeTraceEntry N (captured N claims sid ps (now_at (n_world N) (px_db p))) p)"
proof -
  define p0 where "p0 = writeTraceEntry N (captured N claims sid ps (now_at (n_world N) (px_db p))) p"
  obtain d where l: "load_session N sid claims p0 = (Inr (session_at p0 sid claims), p0\<lparr>px_db := d\<rparr>)"
    using load_session_fault_free [OF W] by blast
  have sp: "px_trace (snd (session_policy s x)) = px_trace x" for s x
    by (auto simp: session_policy_def policyForFingerprint_def Let_def split: prod.split option.split)
  obtain e p1 where e: "evaluate_call N claims sid ps p = (e, p1)" by fastforce
  have "px_trace p1 = px_trace p0"
    using e l sp [of "session_at p0 sid claims" "p0\<lparr>px_db := d\<rparr>"]
    by (auto simp: evaluate_call_def Let_def p0_def captured_def decide_def split: prod.splits if_splits)
  with e record_and_enforce_trace show ?thesis
    by (auto simp: handle_tool_call_def p0_def split: sum.split prod.split)
qed

text \<open>
  The run's conditions: a governed call that is authenticated and has a session header carries arguments
  and no parent agent, and its line can be written.
\<close>

definition replayable_request :: "net \<Rightarrow> request \<Rightarrow> proxy \<Rightarrow> bool" where
  "replayable_request N r p \<longleftrightarrow>
     (case (governed_call N r, fst (authenticate (n_world N) (n_keys N) (rq_header r) (px_db p))) of
        (Some (q, ps), Inr claims) \<Rightarrow> session_header r \<noteq> [] \<longrightarrow>
          ca_Arguments ps \<noteq> [] \<and> cl_ParentAgent claims = [] \<and> n_trace_error N (ca_Name ps) = None
      | _ \<Rightarrow> True)"

fun replayable :: "net \<Rightarrow> (string \<Rightarrow> bool) \<Rightarrow> request list \<Rightarrow> proxy \<Rightarrow> bool" where
  "replayable N stat [] p \<longleftrightarrow> True"
| "replayable N stat (r # rs) p \<longleftrightarrow> replayable_request N r p \<and> replayable N stat rs (fst (serve N stat r p))"

text \<open>A proxy that traces one policy's calls over a store without failures or approvals.\<close>

definition traces :: "net \<Rightarrow> Policy \<Rightarrow> proxy \<Rightarrow> bool" where
  "traces N pol p \<longleftrightarrow> serves_only pol p \<and> px_tracing p \<and> \<not> px_auditStrict p \<and> tools_decode (n_tools N) (px_db p)
     \<and> wf_db (px_db p) \<and> (\<forall>i t h. \<not> store_approvals (n_lib N) (px_db p) i t h)"

lemma traces_kept:
  assumes tr: "traces N pol p" and s: "serve N stat r p = (p', rep)"
    and a: "store_approvals (n_lib N) (px_db p') = store_approvals (n_lib N) (px_db p)"
  shows "traces N pol p'"
proof -
  have "lru_inv (px_polCache p)" using tr by (simp add: traces_def serves_only_def)
  note step = serve_step [OF this s]
  have "db_agents (px_db p') = db_agents (px_db p)" using serve_only_session [OF s] by (simp add: only_session_def)
  moreover have "same_config p p'" "effects (px_db p) (px_db p')" using step by (simp_all add: handler_step_def)
  ultimately show ?thesis using tr serves_only_step [OF step] effects_wf a
    by (auto simp: traces_def tools_decode_def same_config_def)
qed

lemma other_requests_untraced:
  "governed_call N r = None \<Longrightarrow> serve N stat r p = (p', rep) \<Longrightarrow> px_trace p' = px_trace p"
  by (auto simp: serve_def handleHealth_def AuthMiddleware_def SessionMiddleware_def handleMCP_def escalation_status_def
      governed_call_def tool_call_of_def Let_def split: option.splits sum.splits prod.splits if_splits)

lemma serve_trace_cases:
  assumes W: "fault_free (n_world N)" and tr: "traces N pol p" and ok: "replayable_request N r p"
    and s: "serve N stat r p = (p', rep)"
  obtains (quiet) "same_tables (px_db p) (px_db p')" "px_trace p' = px_trace p" "traces N pol p'"
  | (traced) q ps claims t evaluated recorded where
      "px_trace p' = px_trace p @ [captured N claims (session_header r) ps t]" "traces N pol p'"
      "governs N claims (session_header r) q ps p p' rep (t, evaluated, recorded)"
      "ca_Arguments ps \<noteq> []" "cl_ParentAgent claims = []"
proof -
  have inv: "lru_inv (px_polCache p)" using tr by (simp add: traces_def serves_only_def)
  have quiet': thesis if "same_tables (px_db p) (px_db p')" "px_trace p' = px_trace p"
    using quiet that traces_kept [OF tr s views_same(2) [OF that(1)]] by blast
  obtain a d where a: "authenticate (n_world N) (n_keys N) (rq_header r) (px_db p) = (a, d)" by fastforce
  note t = auth_step(1) [OF a]
  show thesis
  proof (cases "governed_call N r")
    case None
    from other_requests_same [OF None s] other_requests_untraced [OF None s] show thesis by (rule quiet')
  next
    case (Some qps)
    then obtain q ps where call: "governed_call N r = Some (q, ps)" by (cases qps) auto
    then have c: "rq_path r \<noteq> ''/health''" "tool_call_of N r = Some (q, ps)" "ca_Name ps \<noteq> ''check_escalation_status''"
      by (simp_all add: governed_call_Some)
    note sv = serve_tool_call [OF c(1,2), of stat p]
    show thesis
    proof (cases "session_header r = [] \<or> (\<exists>m. a = Inl m)")
      case True
      with s a sv have "p' = p\<lparr>px_db := d\<rparr>" by (auto split: sum.splits)
      with t show thesis by (intro quiet') simp_all
    next
      case False
      then obtain claims where claims: "a = Inr claims" and sid: "session_header r \<noteq> []" by (cases a) auto
      have req: "ca_Arguments ps \<noteq> []" "cl_ParentAgent claims = []" "n_trace_error N (ca_Name ps) = None"
        using ok call a claims sid by (simp_all add: replayable_request_def)
      have tracing: "px_tracing p" "\<not> px_auditStrict p" "tools_decode (n_tools N) (px_db p)" using tr by (simp_all add: traces_def)
      have auth: "fst (authenticate (n_world N) (n_keys N) (rq_header r) (px_db p)) = Inr claims" using a claims by simp
      obtain evaluated recorded where
        g: "governs N claims (session_header r) q ps p p' rep (received_at N r p, evaluated, recorded)"
        and appr: "store_approvals (n_lib N) (px_db p') = store_approvals (n_lib N) (px_db p)"
        using serve_governed [OF W inv tracing(3,2) call auth sid s, of "n_lib N"] by blast
      have "p' = fst (handle_tool_call N r claims (session_header r) q ps (p\<lparr>px_db := d\<rparr>))"
        using sv s a claims sid c(3) by (simp add: prod_eq_iff)
      then have "px_trace p' = px_trace p @ [captured N claims (session_header r) ps (received_at N r p)]"
        using handle_tool_call_trace [OF W, of r claims "session_header r" q ps "p\<lparr>px_db := d\<rparr>"] tracing(1) req(3) a
        by (simp add: writeTraceEntry_def WriteEntry_def captured_def received_at_def)
      from traced [OF this traces_kept [OF tr s appr] g req(1,2)] show thesis .
    qed
  qed
qed

section \<open>Replaying a run\<close>

text \<open>The state of a simulated session next to the proxy's; \<open>es\<close> are the entries still to come.\<close>

definition in_step :: "Policy \<Rightarrow> governor \<Rightarrow> string \<Rightarrow> traceEntry list \<Rightarrow> Session \<Rightarrow> SessionEventEntry list \<Rightarrow> bool" where
  "in_step pol G sid es s hist \<longleftrightarrow>
     (case gv_session G sid of
        Some s' \<Rightarrow> s = s'
      | None \<Rightarrow> es \<noteq> [] \<longrightarrow> s = offline_session sid (tr_AgentName (hd es)) pol)
     \<and> s_ID s = sid \<and> \<not> s_Terminated s \<and> untimed (gv_history G sid) = untimed hist"

lemma count_call_sel [simp]:
  "s_ID (count_call dn s) = s_ID s" "s_Terminated (count_call dn s) = s_Terminated s"
  by (simp_all add: count_call_def)

lemma Evaluate_Terminated: "s_Terminated (snd (Evaluate stages call sess pol)) = s_Terminated sess"
  using Evaluate_taints [of stages call sess pol] by auto

text \<open>One traced call keeps the two in step, with the same decision.\<close>

lemma replay_step:
  assumes tr: "traces N pol p" and pol: "simulable pol" and req: "ca_Arguments ps \<noteq> []" "cl_ParentAgent claims = []"
    and g: "governs N claims sid q ps p p' rep (t, evaluated, recorded)"
    and e: "e = read_entry (captured N claims sid ps t)" and st: "in_step pol (governor_of (px_db p)) sid (e # es) s hist"
  shows "\<exists>dn s1. Evaluate (simulate_stages (n_lib N) (past hist) 0) (trace_call e (Some (trace_time C e))) s pol = (dn, s1)
    \<and> in_step pol (governor_of (px_db p')) sid es (count_call dn s1)
        (hist @ [\<lparr>se_ToolName = tr_ToolName e, se_Decision = action_str (d_Action dn), se_RecordedAt = trace_time C e\<rparr>])
    \<and> map se_Decision (gv_history (governor_of (px_db p')) sid) =
        map se_Decision (gv_history (governor_of (px_db p)) sid) @ [action_str (d_Action dn)]"
proof -
  let ?G = "governor_of (px_db p)"
  have only: "serves_only pol p" and none: "\<And>i t h. \<not> store_approvals (n_lib N) (px_db p) i t h"
    using tr by (simp_all add: traces_def)
  have live: "px_livePol p = pol" using only by (simp add: serves_only_def)
  have fields: "tr_SessionID e = sid" "tr_AgentName e = cl_AgentName claims" "tr_ToolName e = ca_Name ps" "tr_Arguments e = ca_Arguments ps"
    by (simp_all add: e read_entry_def captured_def)
  have s: "s = (case gv_session ?G sid of Some s \<Rightarrow> s | None \<Rightarrow> fresh_session sid claims (px_livePol p))"
    using st by (auto simp: in_step_def fields offline_session_def fresh_session_def live split: option.splits)
  have s': "s_ID s = sid" "\<not> s_Terminated s" "untimed (gv_history ?G (s_ID s)) = untimed hist"
    using st by (simp_all add: in_step_def)
  obtain dn s1 where ev: "Evaluate (full_stages (n_lib N) (view_backend (gv_history ?G) (store_approvals (n_lib N) (px_db p))
      (store_scope (n_tools N) (px_db p))) evaluated) (engine_call claims sid ps t) s pol = (dn, s1)" by fastforce
  have sim: "Evaluate (simulate_stages (n_lib N) (past hist) 0) (trace_call e (Some (trace_time C e))) s pol = (dn, s1)"
    using Evaluate_replayed [where H = "gv_history ?G" and A = "store_approvals (n_lib N) (px_db p)" and sess = s,
        OF pol req s'(3) none fields, of "n_lib N" "store_scope (n_tools N) (px_db p)" evaluated t] ev by metis
  have s1: "s_ID s1 = sid" "\<not> s_Terminated s1"
    using Evaluate_ID Evaluate_Terminated s'(1,2) sim by (metis snd_conv)+
  have G': "governor_of (px_db p') = ?G\<lparr>gv_session := (gv_session ?G)(sid := Some (count_call dn s1)),
      gv_history := (gv_history ?G)(sid := gv_history ?G sid @
         [\<lparr>se_ToolName = ca_Name ps, se_Decision = action_str (d_Action dn), se_RecordedAt = recorded\<rparr>])\<rparr>"
    using g s'(2) ev by (simp add: governs_def govern_def s [symmetric] serves_only_policy [OF only])
  show ?thesis
    using sim s'(1,3) s1 by (intro exI conjI) (simp_all add: in_step_def G' fields)
qed

text \<open>Another session is not moved.\<close>

lemma governs_other:
  assumes "governs N claims sid q ps p p' rep clock" "i \<noteq> sid"
  shows "gv_session (governor_of (px_db p')) i = gv_session (governor_of (px_db p)) i"
    "gv_history (governor_of (px_db p')) i = gv_history (governor_of (px_db p)) i"
proof -
  have "gv_session G' i = gv_session G i \<and> gv_history G' i = gv_history G i"
    if "govern L A S live version clock claims sid ps G = (G', dn)" for L A S live version G G' dn
    using that assms(2) by (auto simp: govern_def Let_def split: prod.splits if_splits)
  with assms(1) show "gv_session (governor_of (px_db p')) i = gv_session (governor_of (px_db p)) i"
    "gv_history (governor_of (px_db p')) i = gv_history (governor_of (px_db p)) i"
    by (auto simp: governs_def split: prod.splits)
qed

lemma replay_run:
  assumes W: "fault_free (n_world N)" and pol: "simulable pol"
  shows "traces N pol p \<Longrightarrow> replayable N stat rs p \<Longrightarrow> serve_all N stat rs p = (p', reps) \<Longrightarrow>
    traces N pol p' \<and> (\<exists>es. px_trace p' = px_trace p @ es \<and> (\<forall>sid s hist i.
      in_step pol (governor_of (px_db p)) sid (filter (\<lambda>e. tr_SessionID e = sid) (map read_entry es)) s hist \<longrightarrow>
      map se_Decision (gv_history (governor_of (px_db p')) sid) = map se_Decision (gv_history (governor_of (px_db p)) sid)
        @ map sm_NewDecision (simulate_memory (n_lib N) C pol i (filter (\<lambda>e. tr_SessionID e = sid) (map read_entry es)) s hist)))"
proof (induction rs arbitrary: p reps)
  case Nil
  then show ?case by simp
next
  case (Cons r rs)
  obtain p1 rep where s: "serve N stat r p = (p1, rep)" by fastforce
  obtain reps1 where a: "serve_all N stat rs p1 = (p', reps1)" using Cons(4) s by (auto split: prod.splits)
  have req: "replayable_request N r p" and rest: "replayable N stat rs p1" using Cons(3) s by simp_all
  from W Cons(2) req s show ?case
  proof (cases rule: serve_trace_cases)
    case quiet
    from Cons(1) [OF quiet(3) rest a] show ?thesis by (simp add: governor_same [OF quiet(1)] quiet(2))
  next
    case (traced q ps claims t evaluated recorded)
    let ?sid = "session_header r" and ?G = "governor_of (px_db p)" and ?G1 = "governor_of (px_db p1)"
    let ?te = "captured N claims ?sid ps t"
    have hd: "tr_SessionID (read_entry ?te) = ?sid" by (simp add: read_entry_def captured_def)
    from Cons(1) [OF traced(2) rest a] obtain es where tr': "traces N pol p'" and es: "px_trace p' = px_trace p1 @ es"
      and ih: "\<And>sid s hist i. in_step pol ?G1 sid (filter (\<lambda>e. tr_SessionID e = sid) (map read_entry es)) s hist \<Longrightarrow>
        map se_Decision (gv_history (governor_of (px_db p')) sid) = map se_Decision (gv_history ?G1 sid)
          @ map sm_NewDecision (simulate_memory (n_lib N) C pol i (filter (\<lambda>e. tr_SessionID e = sid) (map read_entry es)) s hist)"
      by blast
    have "map se_Decision (gv_history (governor_of (px_db p')) sid) = map se_Decision (gv_history ?G sid)
        @ map sm_NewDecision (simulate_memory (n_lib N) C pol i (filter (\<lambda>e. tr_SessionID e = sid) (map read_entry (?te # es))) s hist)"
      if st: "in_step pol ?G sid (filter (\<lambda>e. tr_SessionID e = sid) (map read_entry (?te # es))) s hist" for sid s hist i
    proof (cases "sid = ?sid")
      case True
      let ?es = "filter (\<lambda>e. tr_SessionID e = sid) (map read_entry es)" and ?e = "read_entry ?te"
      have "in_step pol ?G ?sid (?e # ?es) s hist" using st True hd by simp
      from replay_step [OF Cons(2) pol traced(4,5,3) HOL.refl this, of C] obtain dn s1 where
        sim: "Evaluate (simulate_stages (n_lib N) (past hist) 0) (trace_call ?e (Some (trace_time C ?e))) s pol = (dn, s1)"
        and st1: "in_step pol ?G1 sid ?es (count_call dn s1)
           (hist @ [\<lparr>se_ToolName = tr_ToolName ?e, se_Decision = action_str (d_Action dn), se_RecordedAt = trace_time C ?e\<rparr>])"
        and d: "map se_Decision (gv_history ?G1 sid) = map se_Decision (gv_history ?G sid) @ [action_str (d_Action dn)]"
        using True by blast
      from ih [OF st1, of "i + 1"] d show ?thesis using True hd by (simp add: sim trace_result_def)
    next
      case False
      have "in_step pol ?G1 sid (filter (\<lambda>e. tr_SessionID e = sid) (map read_entry es)) s hist"
        using st False hd governs_other [OF traced(3) False] by (simp add: in_step_def)
      from ih [OF this, of i] show ?thesis using False hd governs_other(2) [OF traced(3) False] by simp
    qed
    with tr' es traced(1) show ?thesis by (intro conjI exI [of _ "?te # es"] allI impI) simp_all
  qed
qed

section \<open>Collecting the results\<close>

lemma simulate_memory_session:
  "\<forall>e \<in> set es. tr_SessionID e = sid \<Longrightarrow> x \<in> set (simulate_memory L C pol i es s hist) \<Longrightarrow> sm_SessionID x = sid"
proof (induction es arbitrary: i s hist)
  case (Cons e es)
  then show ?case by (auto simp: trace_result_def split: prod.splits)
qed simp

lemma results_of_session:
  assumes "distinct sids" "\<And>k x. x \<in> set (f k) \<Longrightarrow> key x = k" "sid \<notin> set sids \<Longrightarrow> f sid = []"
  shows "filter (\<lambda>x. key x = sid) (concat (map f sids)) = f sid"
proof -
  have own: "filter (\<lambda>x. key x = sid) (f k) = (if k = sid then f sid else [])" for k
    using assms(2) by (auto simp: filter_empty_conv filter_id_conv)
  have "filter (\<lambda>x. key x = sid) (concat (map f ks)) = (if sid \<in> set ks then f sid else [])" if "distinct ks" for ks
    using that by (induction ks) (auto simp: own)
  with assms(1,3) show ?thesis by simp
qed

lemma trace_file_read:
  assumes "c_fs C path = Inr (concat (map (\<lambda>e. line (enc e)) es))"
    and "\<forall>e \<in> set es. plain_line maxLine (enc e) \<and> te_ToolName e \<noteq> [] \<and> c_trace_line C (enc e) = Inr (read_entry e)"
  shows "parseTraceFile C path = Inr (map read_entry es)"
  using captured_trace_read_back [OF assms(1)] assms(2) by (simp add: read_entry_def)

text \<open>The simulated decisions of one session.\<close>

lemma simulated_session:
  assumes tr: "traces N pol p'" and wf: "wf_db (px_db p)" and new: "find_session (px_db p) sid = None"
    and run: "\<And>s hist. in_step pol (governor_of (px_db p)) sid (filter (\<lambda>e. tr_SessionID e = sid) es) s hist \<Longrightarrow>
      map se_Decision (gv_history (governor_of (px_db p')) sid) = map se_Decision (gv_history (governor_of (px_db p)) sid)
        @ map sm_NewDecision (simulate_memory L C pol 1 (filter (\<lambda>e. tr_SessionID e = sid) es) s hist)"
  shows "map sm_NewDecision (simulate_session L C pol (filter (\<lambda>e. tr_SessionID e = sid) es)) =
    map ev_decision (session_rows (px_db p') sid)"
proof -
  let ?g = "filter (\<lambda>e. tr_SessionID e = sid) es"
  let ?s = "offline_session sid (tr_AgentName (hd ?g)) pol"
  have id: "tr_SessionID (hd ?g) = sid" if "?g \<noteq> []" using hd_in_set [OF that] by auto
  have hist: "store_hist (px_db p) sid = []" using fresh_hist wf new by (simp add: find_session_None)
  have "in_step pol (governor_of (px_db p)) sid ?g ?s []"
    using new by (simp add: in_step_def governor_of_def hist) (simp add: offline_session_def)
  from run [OF this] have "map se_Decision (store_hist (px_db p') sid) = map sm_NewDecision (simulate_memory L C pol 1 ?g ?s [])"
    by (simp add: governor_of_def hist)
  also have "simulate_memory L C pol 1 ?g ?s [] = simulate_session L C pol ?g"
    by (cases "?g = []") (simp_all add: simulate_session_def id)
  finally have "map sm_NewDecision (simulate_session L C pol ?g) = map se_Decision (store_hist (px_db p') sid)" by simp
  also have "\<dots> = map ev_decision (session_rows (px_db p') sid)"
    using store_hist_insertion_order [of "px_db p'" sid] tr by (simp add: traces_def entry_of_row_def comp_def)
  finally show ?thesis .
qed

section \<open>Samples\<close>

definition sample_tracing :: proxy where
  "sample_tracing = SetTraceWriter True (new_proxy sample_db sample_gate ''tb.db'' (Some ''priv''))"

definition sample_day :: "proxy \<times> reply list" where
  "sample_day = serve_all sample_net (\<lambda>_. True) (map sample_request [''wire'', ''read'']) sample_tracing"

text \<open>A file of tool names, each read as that tool's call.\<close>

definition sample_trace_cli :: cli where
  "sample_trace_cli = sample_cli\<lparr>c_fs := (\<lambda>_. Inr (concat (map line [''wire'', ''read'']))),
     c_trace_line := (\<lambda>l. Inr \<lparr>tr_SessionID = ''s1'', tr_AgentName = ''pay'', tr_ToolName = l, tr_Arguments = ''5'', tr_RequestedAt = ''t''\<rparr>)\<rparr>"

section \<open>Properties\<close>

text \<open>C35: \<open>simulate\<close> reproduces the proxy on policies that it evaluates in full: those without an environment
  requirement, content predicate or rate limit. Let a proxy serve one such policy with tracing on, over a
  database without failures and without approved escalations, to any sequence of requests of any sessions whose
  authenticated tool calls carry arguments and no parent agent and whose trace lines are written. Then \<open>simulate\<close>
  reads the file of the captured lines, evaluating it against that policy succeeds, and for every session that was
  new to the proxy the simulated decisions are exactly the ones the proxy recorded, in order. Outside these
  conditions the two differ: \<open>simulate_misses_content\<close> and \<open>simulate_misses_approvals\<close> are concrete cases.\<close>

theorem simulate_reproduces_proxy:
  assumes "fault_free (n_world N)" "serves_only pol p" "simulable pol" "px_tracing p" "px_trace p = []" "\<not> px_auditStrict p"
    and "wf_db (px_db p)" "tools_decode (n_tools N) (px_db p)" "\<forall>row \<in> set (db_escalations (px_db p)). es_status row \<noteq> ''approved''"
    and "replayable N stat rs p" "serve_all N stat rs p = (p', reps)"
    and "fault_free W" "w_lib W = n_lib N" "c_open C = None" "c_fs C path = Inr (concat (map (\<lambda>e. line (enc e)) (px_trace p')))"
    and "\<forall>e \<in> set (px_trace p'). plain_line maxLine (enc e) \<and> te_ToolName e \<noteq> [] \<and> c_trace_line C (enc e) = Inr (read_entry e)
      \<and> timed C (read_entry e)"
  shows "\<exists>entries results. parseTraceFile C path = Inr entries
    \<and> fst (evaluateAllSessions C W (groupTraceBySession entries) pol sfx t) = Inr results
    \<and> (\<forall>sid. find_session (px_db p) sid = None \<longrightarrow>
        map sm_NewDecision (filter (\<lambda>x. sm_SessionID x = sid) results) = map ev_decision (session_rows (px_db p') sid))"
proof -
  let ?L = "n_lib N" and ?es = "map read_entry (px_trace p')"
  let ?f = "\<lambda>sid. simulate_session ?L C pol (filter (\<lambda>e. tr_SessionID e = sid) ?es)"
  have tr: "traces N pol p" using assms(2,4,6-9) by (auto simp: traces_def store_approvals_def)
  from replay_run [OF assms(1,3) tr assms(10,11), of C] assms(5) have tr': "traces N pol p'"
    and run: "\<And>sid s hist. in_step pol (governor_of (px_db p)) sid (filter (\<lambda>e. tr_SessionID e = sid) ?es) s hist \<Longrightarrow>
      map se_Decision (gv_history (governor_of (px_db p')) sid) = map se_Decision (gv_history (governor_of (px_db p)) sid)
        @ map sm_NewDecision (simulate_memory ?L C pol 1 (filter (\<lambda>e. tr_SessionID e = sid) ?es) s hist)"
    by auto
  have read: "parseTraceFile C path = Inr ?es" using assms(16) by (intro trace_file_read [OF assms(15)]) simp
  have res: "fst (evaluateAllSessions C W (groupTraceBySession ?es) pol sfx t) =
      Inr (concat (map ?f (first_encounters (map tr_SessionID ?es))))"
    using simulate_is_a_fold [OF assms(12,14), of ?es pol sfx t] assms(13,16) by simp
  have own: "sm_SessionID x = k" if "x \<in> set (?f k)" for k x
    using simulate_memory_session [of "filter (\<lambda>e. tr_SessionID e = k) ?es" k] that by (simp add: simulate_session_def)
  have "filter (\<lambda>e. tr_SessionID e = sid) ?es = []" if "sid \<notin> set (first_encounters (map tr_SessionID ?es))" for sid
    using that by (auto simp: filter_empty_conv)
  then have empty: "?f sid = []" if "sid \<notin> set (first_encounters (map tr_SessionID ?es))" for sid
    using that by (simp add: simulate_session_def)
  have "map sm_NewDecision (?f sid) = map ev_decision (session_rows (px_db p') sid)" if "find_session (px_db p) sid = None" for sid
    using simulated_session [OF tr' assms(7) that run] .
  with read res results_of_session [of "first_encounters (map tr_SessionID ?es)" ?f sm_SessionID, OF distinct_first_encounters own empty]
  show ?thesis by simp
qed

theorem simulate_reproduces_proxy_witness:
  "\<exists>entries results. parseTraceFile sample_trace_cli ''t.jsonl'' = Inr entries
    \<and> fst (evaluateAllSessions sample_trace_cli sample_world (groupTraceBySession entries) sample_gate ''new'' 0) = Inr results
    \<and> map sm_NewDecision (filter (\<lambda>x. sm_SessionID x = ''s1'') results) = [''deny'', ''allow'']"
proof -
  have W: "fault_free (n_world sample_net)" by simp
  have only: "serves_only sample_gate sample_tracing"
    using serves_only_new by (simp add: sample_tracing_def SetTraceWriter_def serves_only_def)
  have start: "px_tracing sample_tracing" "px_trace sample_tracing = []" "\<not> px_auditStrict sample_tracing" "wf_db (px_db sample_tracing)"
    and fresh: "find_session (px_db sample_tracing) ''s1'' = None" and escs: "db_escalations (px_db sample_tracing) = []"
    using sample_db_wf by (simp_all add: sample_tracing_def SetTraceWriter_def new_proxy_def)
      (simp_all add: sample_db_def empty_db_def find_session_def)
  have sim: "simulable sample_gate" by code_simp
  have rep: "replayable sample_net (\<lambda>_. True) (map sample_request [''wire'', ''read'']) sample_tracing" by code_simp
  have libs: "w_lib sample_world = n_lib sample_net" "c_open sample_trace_cli = None" by (simp_all add: sample_trace_cli_def sample_cli_def)
  have run: "serve_all sample_net (\<lambda>_. True) (map sample_request [''wire'', ''read'']) sample_tracing = (fst sample_day, snd sample_day)"
    by (simp add: sample_day_def)
  have "case sample_day of (p, _) \<Rightarrow> map read_entry (px_trace p) = map (\<lambda>l. \<lparr>tr_SessionID = ''s1'', tr_AgentName = ''pay'', tr_ToolName = l,
       tr_Arguments = ''5'', tr_RequestedAt = ''t''\<rparr>) [''wire'', ''read'']
      \<and> map ev_decision (session_rows (px_db p) ''s1'') = [''deny'', ''allow'']" by code_simp
  then have day: "map read_entry (px_trace (fst sample_day)) = map (\<lambda>l. \<lparr>tr_SessionID = ''s1'', tr_AgentName = ''pay'', tr_ToolName = l,
       tr_Arguments = ''5'', tr_RequestedAt = ''t''\<rparr>) [''wire'', ''read'']"
    and recorded: "map ev_decision (session_rows (px_db (fst sample_day)) ''s1'') = [''deny'', ''allow'']" by (simp_all add: split_beta)
  have names: "map te_ToolName (px_trace (fst sample_day)) = [''wire'', ''read'']"
    using arg_cong [OF day, of "map tr_ToolName"] by (simp add: comp_def read_entry_def)
  have written: "c_fs sample_trace_cli ''t.jsonl'' = Inr (concat (map (\<lambda>e. line (te_ToolName e)) (px_trace (fst sample_day))))"
    using arg_cong [OF names, of "map line"] by (simp add: sample_trace_cli_def comp_def)
  have lines: "\<forall>e \<in> set (px_trace (fst sample_day)). plain_line maxLine (te_ToolName e) \<and> te_ToolName e \<noteq> []
      \<and> c_trace_line sample_trace_cli (te_ToolName e) = Inr (read_entry e) \<and> timed sample_trace_cli (read_entry e)"
  proof
    fix e assume "e \<in> set (px_trace (fst sample_day))"
    then have "read_entry e \<in> set (map read_entry (px_trace (fst sample_day)))" by simp
    then obtain l where l: "l \<in> {''wire'', ''read''}" "read_entry e = \<lparr>tr_SessionID = ''s1'', tr_AgentName = ''pay'', tr_ToolName = l,
       tr_Arguments = ''5'', tr_RequestedAt = ''t''\<rparr>" unfolding day by auto
    then have "te_ToolName e = l" by (simp add: read_entry_def)
    with l show "plain_line maxLine (te_ToolName e) \<and> te_ToolName e \<noteq> []
      \<and> c_trace_line sample_trace_cli (te_ToolName e) = Inr (read_entry e) \<and> timed sample_trace_cli (read_entry e)"
      by (auto simp: sample_trace_cli_def sample_cli_def plain_line_def maxLine_def newline_def timed_def trace_time_def)
  qed
  have "\<forall>row \<in> set (db_escalations (px_db sample_tracing)). es_status row \<noteq> ''approved''" by (simp add: escs)
  from simulate_reproduces_proxy [OF W only sim start(1-4) sample_tools this rep run sample_fault_free libs written lines, of "''new''" 0] fresh
  show ?thesis by (auto simp: recorded)
qed

text \<open>
  The condition on approvals is needed: a call that an operator has approved is allowed by the proxy and
  simulated as a new escalation, since a trace holds no approvals.
\<close>

lemma simulate_misses_approvals:
  "d_Action (fst (Evaluate (full_stages sample_lib (view_backend (\<lambda>_. []) (\<lambda>_ _ _. True) (\<lambda>_. None)) 0)
     (sample_call ''read'') sample_session sample_approval)) = Allow
   \<and> d_Action (fst (Evaluate (simulate_stages sample_lib (past []) 0) (sample_call ''read'') sample_session sample_approval)) = Escalate"
  by code_simp

end
