(* ===== verification/TB_PolicyCmd.thy ===== *)
theory TB_PolicyCmd
  imports TB_Cli
begin

text \<open>
  The policy commands (\<open>cmd/policy\<close>): \<open>explain\<close>, \<open>diff\<close>, \<open>lint\<close> and \<open>validate\<close>, as functions from the
  files they read to what they print and the error they end with. What \<open>diff\<close> compares is made
  precise (\<open>diff_equal\<close>), and so is what follows when it reports no change.
\<close>

section \<open>explain (explain.go)\<close>

definition describeMode :: "string \<Rightarrow> string" where
  "describeMode m =
     (if m = EnforcementBlock then ''BLOCK (violations are denied)''
      else if m = EnforcementShadow then ''SHADOW (violations are logged but not blocked)''
      else ''SHADOW (default; violations are logged but not blocked)'')"

definition describeBudget :: "BudgetPolicy \<Rightarrow> string" where
  "describeBudget b =
     (let hasCalls = bp_MaxToolCalls b > 0; hasCost = f_gt (bp_MaxCostUSD b) f_zero;
          cost = ''$'' @ fmt_fixed 2 (bp_MaxCostUSD b)
      in if hasCalls \<and> hasCost then dec (bp_MaxToolCalls b) @ '' tool calls / '' @ cost @ '' per session''
         else if hasCalls then dec (bp_MaxToolCalls b) @ '' tool calls per session''
         else if hasCost then cost @ '' per session''
         else ''(not configured)'')"

definition sortedKeys :: "(string \<times> ToolPolicy) list \<Rightarrow> string list" where
  "sortedKeys ts = sort (remdups (map fst ts))"

text \<open>One section: a blank line, its title and its lines, or nothing when it has no lines.\<close>

definition section_of :: "string \<Rightarrow> string list \<Rightarrow> string" where
  "section_of title ls = (if ls = [] then [] else line [] @ line title @ concat (map line ls))"

definition tool_lines :: "Policy \<Rightarrow> (string \<Rightarrow> ToolPolicy \<Rightarrow> string list) \<Rightarrow> string list" where
  "tool_lines p f =
     concat (map (\<lambda>name. case tool_policy p name of None \<Rightarrow> [] | Some tp \<Rightarrow> f name tp) (sortedKeys (tools p)))"

definition sequence_lines :: "string \<Rightarrow> ToolPolicy \<Rightarrow> string list" where
  "sequence_lines name tp =
     (let seq = tp_Sequence tp; pre = ''  '' @ name @ '': '' in
      (if elems (sq_OnlyAfter seq) \<noteq> [] then [pre @ ''may only run after ['' @ join '', '' (elems (sq_OnlyAfter seq)) @ '']'']
       else [])
      @ map (\<lambda>blocked. pre @ ''blocked if '' @ blocked @ '' was called this session'') (elems (sq_NeverAfter seq))
      @ (case sq_RequiresPriorN seq of
           None \<Rightarrow> []
         | Some r \<Rightarrow> [pre @ ''requires '' @ pn_Tool r @ '' called at least '' @ dec (pn_Count r) @ '' time(s)'']))"

definition taint_lines :: "string \<Rightarrow> ToolPolicy \<Rightarrow> string list" where
  "taint_lines name tp =
     (let t = tp_Taint tp; label = (if tt_Label t \<noteq> [] then '' (label: '' @ tt_Label t @ '')'' else []) in
      (if tt_Applies t then [''  '' @ name @ '': taints the session'' @ label] else [])
      @ (if tt_Clears t then [''  '' @ name @ '': clears the taint''] else []))"

definition escalation_lines :: "lib \<Rightarrow> string \<Rightarrow> ToolPolicy \<Rightarrow> string list" where
  "escalation_lines L name tp =
     (case tp_EscalateWhen tp of
        None \<Rightarrow> []
      | Some r \<Rightarrow> [''  '' @ name @ '': escalate to human if '' @ trim_prefix ''$.'' (er_ArgumentPath r) @ '' ''
                     @ er_Operator r @ '' '' @ fmt_any L (er_Value r)])"

definition describeMatchMode :: "string \<Rightarrow> string" where
  "describeMatchMode m = (if m = ContentMatchAll then ''blocked only if ALL of:'' else ''blocked if ANY of:'')"

definition content_lines :: "lib \<Rightarrow> string \<Rightarrow> ToolPolicy \<Rightarrow> string list" where
  "content_lines L name tp =
     (if elems (tp_NeverWhen tp) = [] then []
      else (''  '' @ name @ '': '' @ describeMatchMode (tp_NeverWhenMatch tp))
        # map (\<lambda>pred. ''    - argument '' @ qt L (cp_Argument pred) @ '' '' @ cp_Operator pred @ '' '' @ qt L (cp_Value pred))
            (elems (tp_NeverWhen tp)))"

definition printExplain :: "lib \<Rightarrow> Policy \<Rightarrow> string" where
  "printExplain L p =
     line (''Agent: '' @ p_Agent p) @ line (''Mode: '' @ describeMode (p_EnforcementMode p))
     @ line (''Allowed tools ('' @ dec (int (length (may_use p))) @ ''): '' @ join '', '' (may_use p))
     @ line (''Budget: '' @ describeBudget (p_Budget p))
     @ section_of ''Sequence guards:'' (tool_lines p sequence_lines)
     @ section_of ''Taint rules:'' (tool_lines p taint_lines)
     @ section_of ''Escalation rules:'' (tool_lines p (escalation_lines L))
     @ section_of ''Content guards:'' (tool_lines p (content_lines L))"

definition explain_cmd :: "lib \<Rightarrow> cli \<Rightarrow> string \<Rightarrow> outcome" where
  "explain_cmd L C file =
     (case ParseFile L (c_fs C) file of Inl err \<Rightarrow> failed err | Inr p \<Rightarrow> printed (printExplain L p))"

section \<open>diff (diff.go)\<close>

definition toSet :: "string list \<Rightarrow> string \<Rightarrow> bool" where
  "toSet ss s = (s \<in> set ss)"

definition sortedCopy :: "string list \<Rightarrow> string list" where
  "sortedCopy ss = sort ss"

definition unionKeys :: "(string \<times> ToolPolicy) list \<Rightarrow> (string \<times> ToolPolicy) list \<Rightarrow> string list" where
  "unionKeys a b = sort (remdups (map fst a @ map fst b))"

definition sameStringSet :: "string list \<Rightarrow> string list \<Rightarrow> bool" where
  "sameStringSet a b = (length a = length b \<and> list_all (toSet a) b)"

definition samePriorN :: "PriorNRule option \<Rightarrow> PriorNRule option \<Rightarrow> bool" where
  "samePriorN a b =
     (case (a, b) of
        (None, None) \<Rightarrow> True
      | (Some x, Some y) \<Rightarrow> pn_Tool x = pn_Tool y \<and> pn_Count x = pn_Count y
      | _ \<Rightarrow> False)"

definition formatPriorN :: "lib \<Rightarrow> PriorNRule option \<Rightarrow> string" where
  "formatPriorN L r =
     (case r of None \<Rightarrow> ''(none)'' | Some x \<Rightarrow> ''{tool:'' @ qt L (pn_Tool x) @ '', count:'' @ dec (pn_Count x) @ ''}'')"

definition sameEscalateRule :: "lib \<Rightarrow> EscalateRule option \<Rightarrow> EscalateRule option \<Rightarrow> bool" where
  "sameEscalateRule L a b =
     (case (a, b) of
        (None, None) \<Rightarrow> True
      | (Some x, Some y) \<Rightarrow> er_ArgumentPath x = er_ArgumentPath y \<and> er_Operator x = er_Operator y
          \<and> fmt_any L (er_Value x) = fmt_any L (er_Value y)
      | _ \<Rightarrow> False)"

definition formatEscalateRule :: "lib \<Rightarrow> EscalateRule option \<Rightarrow> string" where
  "formatEscalateRule L r =
     (case r of None \<Rightarrow> ''(none)'' | Some x \<Rightarrow> er_ArgumentPath x @ '' '' @ er_Operator x @ '' '' @ fmt_any L (er_Value x))"

definition arrow :: "string \<Rightarrow> string \<Rightarrow> string" where
  "arrow a b = a @ '' '' @ right_arrow @ '' '' @ b"

definition bool_str :: "bool \<Rightarrow> string" where
  "bool_str b = (if b then ''true'' else ''false'')"

definition formatTaint :: "lib \<Rightarrow> TaintPolicy \<Rightarrow> string" where
  "formatTaint L t = ''{applies:'' @ bool_str (tt_Applies t) @ '', clears:'' @ bool_str (tt_Clears t)
     @ '', label:'' @ qt L (tt_Label t) @ ''}''"

definition bracketed :: "string slice \<Rightarrow> string" where
  "bracketed ss = ''['' @ join '', '' (sortedCopy (elems ss)) @ '']''"

text \<open>The changes of a tool both policies have.\<close>

definition tool_changes :: "lib \<Rightarrow> ToolPolicy \<Rightarrow> ToolPolicy \<Rightarrow> string list" where
  "tool_changes L oldTool newTool =
     (let os = tp_Sequence oldTool; ns = tp_Sequence newTool in
      (if tp_EnforcementMode oldTool \<noteq> tp_EnforcementMode newTool
       then [''    enforcement_mode: '' @ arrow (qt L (tp_EnforcementMode oldTool)) (qt L (tp_EnforcementMode newTool))] else [])
      @ (if \<not> sameStringSet (elems (sq_OnlyAfter os)) (elems (sq_OnlyAfter ns))
         then [''    only_after: '' @ arrow (bracketed (sq_OnlyAfter os)) (bracketed (sq_OnlyAfter ns))] else [])
      @ (if \<not> sameStringSet (elems (sq_NeverAfter os)) (elems (sq_NeverAfter ns))
         then [''    never_after: '' @ arrow (bracketed (sq_NeverAfter os)) (bracketed (sq_NeverAfter ns))] else [])
      @ (if \<not> samePriorN (sq_RequiresPriorN os) (sq_RequiresPriorN ns)
         then [''    requires_prior_n: '' @ arrow (formatPriorN L (sq_RequiresPriorN os)) (formatPriorN L (sq_RequiresPriorN ns))] else [])
      @ (if tp_Taint oldTool \<noteq> tp_Taint newTool
         then [''    taint: '' @ arrow (formatTaint L (tp_Taint oldTool)) (formatTaint L (tp_Taint newTool))] else [])
      @ (if \<not> sameEscalateRule L (tp_EscalateWhen oldTool) (tp_EscalateWhen newTool)
         then [''    escalate_when: '' @ arrow (formatEscalateRule L (tp_EscalateWhen oldTool))
                 (formatEscalateRule L (tp_EscalateWhen newTool))] else []))"

definition diff_tool :: "lib \<Rightarrow> Policy \<Rightarrow> Policy \<Rightarrow> string \<Rightarrow> string list" where
  "diff_tool L old new name =
     (case (tool_policy old name, tool_policy new name) of
        (None, _) \<Rightarrow> [''  + '' @ name @ '' (added)'']
      | (_, None) \<Rightarrow> [''  - '' @ name @ '' (removed)'']
      | (Some o', Some n) \<Rightarrow>
          (let changes = tool_changes L o' n in if changes \<noteq> [] then (''  '' @ name @ '':'') # changes else []))"

definition diff_may_use :: "Policy \<Rightarrow> Policy \<Rightarrow> string list" where
  "diff_may_use old new =
     (let added = filter (\<lambda>t. \<not> toSet (may_use old) t) (may_use new);
          removed = filter (\<lambda>t. \<not> toSet (may_use new) t) (may_use old)
      in map (\<lambda>t. ''  + '' @ t @ '' (added)'') (sort added) @ map (\<lambda>t. ''  - '' @ t @ '' (removed)'') (sort removed))"

definition diff_budget :: "BudgetPolicy \<Rightarrow> BudgetPolicy \<Rightarrow> string list" where
  "diff_budget old new =
     (if bp_MaxToolCalls old \<noteq> bp_MaxToolCalls new
      then [''  max_tool_calls: '' @ arrow (dec (bp_MaxToolCalls old)) (dec (bp_MaxToolCalls new))] else [])
     @ (if \<not> f_eq (bp_MaxCostUSD old) (bp_MaxCostUSD new)
        then [''  max_cost_usd: '' @ arrow (fmt_fixed 2 (bp_MaxCostUSD old)) (fmt_fixed 2 (bp_MaxCostUSD new))] else [])"

definition diff_session :: "SessionPolicy \<Rightarrow> SessionPolicy \<Rightarrow> string list" where
  "diff_session old new =
     (if sp_MaxHistory old \<noteq> sp_MaxHistory new
      then [''  max_history: '' @ arrow (dec (sp_MaxHistory old)) (dec (sp_MaxHistory new))] else [])
     @ (if sp_MaxDurationSeconds old \<noteq> sp_MaxDurationSeconds new
        then [''  max_duration_seconds: '' @ arrow (dec (sp_MaxDurationSeconds old)) (dec (sp_MaxDurationSeconds new))] else [])"

text \<open>The body of the diff; it is empty when nothing the command compares has changed.\<close>

definition diff_body :: "lib \<Rightarrow> Policy \<Rightarrow> Policy \<Rightarrow> string" where
  "diff_body L old new =
     (if p_EnforcementMode old \<noteq> p_EnforcementMode new
      then line [] @ line (''Mode: '' @ arrow (p_EnforcementMode old) (p_EnforcementMode new)) else [])
     @ section_of ''May-use:'' (diff_may_use old new)
     @ section_of ''Budget:'' (diff_budget (p_Budget old) (p_Budget new))
     @ section_of ''Session:'' (diff_session (p_Session old) (p_Session new))
     @ section_of ''Tools:'' (concat (map (diff_tool L old new) (unionKeys (tools old) (tools new))))"

definition no_changes :: string where
  "no_changes = line [] @ line ''(no changes detected)''"

definition printDiff :: "lib \<Rightarrow> Policy \<Rightarrow> Policy \<Rightarrow> string \<Rightarrow> string \<Rightarrow> string" where
  "printDiff L old new oldPath newPath =
     line ''Policy diff''
     @ line (''  old: '' @ oldPath @ ''  [fingerprint: '' @ ShortFingerprint old @ '']'')
     @ line (''  new: '' @ newPath @ ''  [fingerprint: '' @ ShortFingerprint new @ '']'')
     @ line (repeat_str box_dash 60)
     @ (if diff_body L old new = [] then no_changes else diff_body L old new)"

definition diff_cmd :: "lib \<Rightarrow> cli \<Rightarrow> string \<Rightarrow> string \<Rightarrow> outcome" where
  "diff_cmd L C oldFile newFile =
     (case ParseFile L (c_fs C) oldFile of
        Inl err \<Rightarrow> failed (wrapf ''parsing old policy'' err)
      | Inr old \<Rightarrow>
          (case ParseFile L (c_fs C) newFile of
             Inl err \<Rightarrow> failed (wrapf ''parsing new policy'' err)
           | Inr new \<Rightarrow> printed (printDiff L old new oldFile newFile)))"

section \<open>lint and validate (lint.go, validate.go)\<close>

definition ansi :: "string \<Rightarrow> string" where "ansi code = [CHR 0x1B] @ ''['' @ code @ ''m''"

definition severity_color :: "Severity \<Rightarrow> string" where
  "severity_color s = (if s = SeverityError then ansi ''31'' else if s = SeverityWarning then ansi ''33'' else ansi ''36'')"

definition severity_str :: "Severity \<Rightarrow> string" where
  "severity_str s = (case s of SeverityError \<Rightarrow> ''ERROR'' | SeverityWarning \<Rightarrow> ''WARNING'' | SeverityInfo \<Rightarrow> ''INFO'')"

definition printLintResults :: "LintResult list \<Rightarrow> string \<times> nat" where
  "printLintResults results =
     (concat (map (\<lambda>r. line (severity_color (lr_Severity r) @ lr_Code r @ '' ['' @ severity_str (lr_Severity r) @ '']''
                       @ ansi ''0'' @ '' '' @ lr_Message r)) results),
      length (filter (\<lambda>r. lr_Severity r = SeverityError) results))"

definition lint_outcome :: "LintResult list \<Rightarrow> outcome" where
  "lint_outcome results =
     (let (out, errCount) = printLintResults results in
      \<lparr>o_stdout = out, o_files = [],
       o_error = (if errCount > 0 then Some (errorf (dec (int errCount) @ '' error(s) found'')) else None)\<rparr>)"

text \<open>\<open>d\<close> is the database at \<open>dbPath\<close>.\<close>

definition lint_cmd :: "cli \<Rightarrow> world \<Rightarrow> db \<Rightarrow> string \<Rightarrow> string \<Rightarrow> outcome" where
  "lint_cmd C W d dbPath file =
     (let L = w_lib W in
      case ParseFile L (c_fs C) file of
        Inl err \<Rightarrow> failed err
      | Inr p \<Rightarrow>
          (let results = Lint L p in
           if dbPath = [] then lint_outcome results
           else
             (case c_open C of
                Some err \<Rightarrow> failed (wrapf ''opening database for L020 check'' err)
              | None \<Rightarrow>
                  (case fst (HasAuditRecordsForFingerprint W (p_Fingerprint p) d) of
                     Inl err \<Rightarrow> failed (wrapf ''querying audit history for L020 check'' err)
                   | Inr hasHistory \<Rightarrow> lint_outcome (results @ lintL020 p hasHistory)))))"

definition validate_cmd :: "lib \<Rightarrow> cli \<Rightarrow> string \<Rightarrow> outcome" where
  "validate_cmd L C file =
     (case ParseFile L (c_fs C) file of Inl err \<Rightarrow> failed err | Inr _ \<Rightarrow> printed (line ''OK''))"

section \<open>What diff compares\<close>

definition same_tool :: "lib \<Rightarrow> ToolPolicy \<Rightarrow> ToolPolicy \<Rightarrow> bool" where
  "same_tool L a b \<longleftrightarrow>
     tp_EnforcementMode a = tp_EnforcementMode b \<and> tp_Taint a = tp_Taint b
     \<and> sameStringSet (elems (sq_OnlyAfter (tp_Sequence a))) (elems (sq_OnlyAfter (tp_Sequence b)))
     \<and> sameStringSet (elems (sq_NeverAfter (tp_Sequence a))) (elems (sq_NeverAfter (tp_Sequence b)))
     \<and> sq_RequiresPriorN (tp_Sequence a) = sq_RequiresPriorN (tp_Sequence b)
     \<and> sameEscalateRule L (tp_EscalateWhen a) (tp_EscalateWhen b)"

definition diff_equal :: "lib \<Rightarrow> Policy \<Rightarrow> Policy \<Rightarrow> bool" where
  "diff_equal L old new \<longleftrightarrow>
     p_EnforcementMode old = p_EnforcementMode new \<and> set (may_use old) = set (may_use new)
     \<and> bp_MaxToolCalls (p_Budget old) = bp_MaxToolCalls (p_Budget new)
     \<and> f_eq (bp_MaxCostUSD (p_Budget old)) (bp_MaxCostUSD (p_Budget new))
     \<and> sp_MaxHistory (p_Session old) = sp_MaxHistory (p_Session new)
     \<and> sp_MaxDurationSeconds (p_Session old) = sp_MaxDurationSeconds (p_Session new)
     \<and> (\<forall>n. rel_option (same_tool L) (tool_policy old n) (tool_policy new n))"

lemma section_of_Nil [simp]: "section_of title ls = [] \<longleftrightarrow> ls = []"
  by (simp add: section_of_def line_def)

lemma samePriorN_eq: "samePriorN a b \<longleftrightarrow> a = b"
  by (cases a; cases b) (auto simp: samePriorN_def)

lemma tool_changes_Nil: "tool_changes L a b = [] \<longleftrightarrow> same_tool L a b"
  by (auto simp: tool_changes_def same_tool_def samePriorN_eq Let_def)

lemma tool_policy_None: "tool_policy p n = None \<longleftrightarrow> n \<notin> fst ` set (tools p)"
  by (simp add: tool_policy_def map_of_eq_None_iff)

lemma diff_tool_Nil:
  "diff_tool L old new n = [] \<longleftrightarrow> (\<exists>a b. tool_policy old n = Some a \<and> tool_policy new n = Some b \<and> same_tool L a b)"
  by (auto simp: diff_tool_def tool_changes_Nil Let_def split: option.split)

lemma diff_tools_Nil:
  "concat (map (diff_tool L old new) (unionKeys (tools old) (tools new))) = []
   \<longleftrightarrow> (\<forall>n. rel_option (same_tool L) (tool_policy old n) (tool_policy new n))"
proof -
  have "concat (map (diff_tool L old new) (unionKeys (tools old) (tools new))) = []
      \<longleftrightarrow> (\<forall>n \<in> fst ` set (tools old) \<union> fst ` set (tools new). diff_tool L old new n = [])"
    by (simp add: unionKeys_def image_Un) blast
  also have "\<dots> \<longleftrightarrow> (\<forall>n. tool_policy old n \<noteq> None \<or> tool_policy new n \<noteq> None \<longrightarrow> diff_tool L old new n = [])"
    by (simp only: tool_policy_None) blast
  also have "\<dots> \<longleftrightarrow> (\<forall>n. rel_option (same_tool L) (tool_policy old n) (tool_policy new n))"
    unfolding diff_tool_Nil
  proof (intro iff_allI)
    fix n
    show "(tool_policy old n \<noteq> None \<or> tool_policy new n \<noteq> None \<longrightarrow>
        (\<exists>a b. tool_policy old n = Some a \<and> tool_policy new n = Some b \<and> same_tool L a b))
      \<longleftrightarrow> rel_option (same_tool L) (tool_policy old n) (tool_policy new n)"
      by (cases "tool_policy old n"; cases "tool_policy new n") auto
  qed
  finally show ?thesis .
qed

lemma sort_Nil [simp]: "sort xs = [] \<longleftrightarrow> xs = []"
  by (metis length_0_conv length_sort)

lemma diff_body_Nil: "diff_body L old new = [] \<longleftrightarrow> diff_equal L old new"
proof -
  have m: "diff_may_use old new = [] \<longleftrightarrow> set (may_use old) = set (may_use new)"
    by (auto simp: diff_may_use_def Let_def toSet_def filter_empty_conv)
  have b: "diff_budget x y = [] \<longleftrightarrow> bp_MaxToolCalls x = bp_MaxToolCalls y \<and> f_eq (bp_MaxCostUSD x) (bp_MaxCostUSD y)" for x y
    by (simp add: diff_budget_def)
  have s: "diff_session x y = [] \<longleftrightarrow> sp_MaxHistory x = sp_MaxHistory y \<and> sp_MaxDurationSeconds x = sp_MaxDurationSeconds y" for x y
    by (simp add: diff_session_def)
  show ?thesis
    by (simp add: diff_body_def diff_equal_def m b s diff_tools_Nil line_def del: concat_eq_Nil_conv)
qed

section \<open>What follows from an empty diff\<close>

lemma sameStringSet_set:
  assumes "sameStringSet a b" "distinct a" "distinct b"
  shows "set a = set b"
proof -
  have "set b \<subseteq> set a" using assms(1) by (auto simp: sameStringSet_def toSet_def list_all_iff)
  moreover have "card (set a) = card (set b)"
    using assms by (simp add: distinct_card sameStringSet_def)
  ultimately show ?thesis by (metis List.finite_set card_subset_eq)
qed

text \<open>The fields diff does not look at, and the lists it could be misled by.\<close>

definition unseen_equal :: "Policy \<Rightarrow> Policy \<Rightarrow> bool" where
  "unseen_equal old new \<longleftrightarrow>
     sp_RequireEnv (p_Session old) = sp_RequireEnv (p_Session new)
     \<and> (\<forall>n a b. tool_policy old n = Some a \<longrightarrow> tool_policy new n = Some b \<longrightarrow>
          elems (tp_NeverWhen a) = elems (tp_NeverWhen b) \<and> tp_NeverWhenMatch a = tp_NeverWhenMatch b
          \<and> tp_RateLimit a = tp_RateLimit b \<and> map_option er_Value (tp_EscalateWhen a) = map_option er_Value (tp_EscalateWhen b))"

definition distinct_lists :: "Policy \<Rightarrow> bool" where
  "distinct_lists p \<longleftrightarrow>
     (\<forall>n tp. tool_policy p n = Some tp \<longrightarrow>
        distinct (elems (sq_OnlyAfter (tp_Sequence tp))) \<and> distinct (elems (sq_NeverAfter (tp_Sequence tp))))"

lemma same_tool_cases:
  assumes "diff_equal L old new"
  obtains (none) "tool_policy old n = None" "tool_policy new n = None"
  | (some) a b where "tool_policy old n = Some a" "tool_policy new n = Some b" "same_tool L a b"
  using assms unfolding diff_equal_def by (metis option.rel_cases)

lemma same_escalation:
  assumes "sameEscalateRule L a b" "map_option er_Value a = map_option er_Value b"
  shows "a = b"
  using assms by (cases a; cases b) (auto simp: sameEscalateRule_def)

lemma diff_equal_permitted:
  assumes d: "diff_equal L old new" and u: "unseen_equal old new" and l: "distinct_lists old" "distinct_lists new"
  shows "permitted L hist approvals scope now old call sess \<longleftrightarrow> permitted L hist approvals scope now new call sess"
proof -
  have cost: "bp_MaxCostUSD (p_Budget old) = bp_MaxCostUSD (p_Budget new)"
    using d by (cases "bp_MaxCostUSD (p_Budget old)"; cases "bp_MaxCostUSD (p_Budget new)") (auto simp: diff_equal_def)
  have env: "env_ok old call \<longleftrightarrow> env_ok new call" using u by (simp add: env_ok_def unseen_equal_def)
  have use: "may_use_ok old t \<longleftrightarrow> may_use_ok new t" for t using d by (simp add: may_use_ok_def diff_equal_def)
  have budget: "budget_ok old sess \<longleftrightarrow> budget_ok new sess"
    using d cost by (simp add: budget_ok_def calls_exceeded_def cost_exceeded_def diff_equal_def)
  have taints: "applies_taint old t = applies_taint new t" "clears_taint old t = clears_taint new t" for t
    by (cases rule: same_tool_cases [OF d, of t]; simp add: applies_taint_def clears_taint_def same_tool_def)+
  have lists: "set (only_after old t) = set (only_after new t)" "set (never_after old t) = set (never_after new t)"
    "prior_n old t = prior_n new t" for t
    by (cases rule: same_tool_cases [OF d, of t];
        use l in \<open>simp add: only_after_def never_after_def prior_n_def same_tool_def distinct_lists_def sameStringSet_set\<close>)+
  have rest: "content_ok L old call = content_ok L new call" "rate_limit old t = rate_limit new t"
    "Option.bind (tool_policy old t) tp_EscalateWhen = Option.bind (tool_policy new t) tp_EscalateWhen" for t
  proof -
    show "content_ok L old call = content_ok L new call"
      by (cases rule: same_tool_cases [OF d, of "tc_ToolName call"])
        (use u in \<open>auto simp: content_ok_def unseen_equal_def\<close>)
    show "rate_limit old t = rate_limit new t"
      by (cases rule: same_tool_cases [OF d, of t]) (use u in \<open>auto simp: rate_limit_def unseen_equal_def\<close>)
    show "Option.bind (tool_policy old t) tp_EscalateWhen = Option.bind (tool_policy new t) tp_EscalateWhen"
      by (cases rule: same_tool_cases [OF d, of t])
        (use u same_escalation in \<open>fastforce simp: same_tool_def unseen_equal_def\<close>)+
  qed
  show ?thesis
    by (simp add: permitted_def env use budget taint_ok_def sequence_ok_def taints lists rest rate_ok_def
        approval_ok_def escalation_triggered_def)
qed

section \<open>Samples\<close>

definition sample_files :: cli where
  "sample_files =
     \<lparr>c_fs = (\<lambda>p. Inr ''A''), c_trace_line = (\<lambda>l. Inl (errorf ''json'')), c_audit_line = (\<lambda>l. Inl (errorf ''json'')),
      c_record_line = r_ID, c_parse_rfc3339 = (\<lambda>s. Inr (Some 1000)), c_rfc3339 = dec, c_tabwriter = id, c_upper = id,
      c_tools = (\<lambda>_. Inr []), c_open = None, c_sort_seq = sort_key r_Seq, c_create = (\<lambda>_. None), c_home = Inr ''/h''\<rparr>"

text \<open>Two edits of \<open>sample_gate\<close> that change what is allowed.\<close>

definition sample_env :: Policy where
  "sample_env = sample_gate\<lparr>p_Session := (p_Session sample_gate)\<lparr>sp_RequireEnv := ''prod''\<rparr>\<rparr>"

definition sample_two :: "string list \<Rightarrow> Policy" where
  "sample_two deps = sample_policy\<lparr>p_Tools := Some [(''wire'', sample_tool\<lparr>tp_Sequence :=
     \<lparr>sq_OnlyAfter = Some deps, sq_NeverAfter = None, sq_RequiresPriorN = None\<rparr>\<rparr>)]\<rparr>"

section \<open>Properties\<close>

text \<open>When \<open>policy diff\<close> prints "(no changes detected)". It does so exactly when the two policies agree on
  the mode, on the set of \<open>may_use\<close>, on the budget, on the two session limits, and for every tool both
  have it and agree on its mode, its taint rule, its sequence predicates and its escalation condition.\<close>

theorem diff_detects_exactly:
  "printDiff L old new oldPath newPath =
     line ''Policy diff''
     @ line (''  old: '' @ oldPath @ ''  [fingerprint: '' @ ShortFingerprint old @ '']'')
     @ line (''  new: '' @ newPath @ ''  [fingerprint: '' @ ShortFingerprint new @ '']'')
     @ line (repeat_str box_dash 60) @ no_changes
   \<longleftrightarrow> diff_equal L old new"
proof -
  have "no_changes \<noteq> diff_body L old new"
  proof -
    have "hd (tl (diff_body L old new)) \<in> {CHR ''M'', CHR ''B'', CHR ''S'', CHR ''T''}" if "diff_body L old new \<noteq> []"
      using that by (auto simp: diff_body_def section_of_def line_def)
    moreover have "hd (tl no_changes) = CHR ''(''" by (simp add: no_changes_def line_def)
    moreover have "no_changes \<noteq> []" by (simp add: no_changes_def line_def)
    ultimately show ?thesis by force
  qed
  then show ?thesis by (auto simp: printDiff_def diff_body_Nil [symmetric])
qed

text \<open>C33: What an empty diff guarantees. If \<open>policy diff\<close> detects no change, the predicate lists repeat no
  tool, and the policies also agree on what the command does not compare (\<open>require_env\<close>, \<open>never_when\<close> and
  its match mode, \<open>rate_limit\<close>, the exact escalation values), then both permit the same calls in every
  state.\<close>

theorem empty_diff_same_calls:
  assumes "diff_body L old new = []" "unseen_equal old new" "distinct_lists old" "distinct_lists new"
  shows "permitted L hist approvals scope now old call sess \<longleftrightarrow> permitted L hist approvals scope now new call sess"
  using diff_equal_permitted [OF assms(1) [unfolded diff_body_Nil] assms(2-4)] .

theorem empty_diff_same_calls_witness:
  "permitted sample_lib (\<lambda>_. []) (\<lambda>_ _ _. False) (\<lambda>_. None) 0 (sample_two [''read'', ''wire'']) (sample_call ''wire'') sample_session
   \<longleftrightarrow> permitted sample_lib (\<lambda>_. []) (\<lambda>_ _ _. False) (\<lambda>_. None) 0 (sample_two [''wire'', ''read'']) (sample_call ''wire'') sample_session"
proof (rule empty_diff_same_calls)
  have t: "tool_policy (sample_two deps) n = (if n = ''wire'' then Some (sample_tool\<lparr>tp_Sequence :=
     \<lparr>sq_OnlyAfter = Some deps, sq_NeverAfter = None, sq_RequiresPriorN = None\<rparr>\<rparr>) else None)" for deps n
    by (simp add: tool_policy_def tools_def sample_two_def)
  show "diff_body sample_lib (sample_two [''read'', ''wire'']) (sample_two [''wire'', ''read'']) = []" by code_simp
  show "unseen_equal (sample_two [''read'', ''wire'']) (sample_two [''wire'', ''read''])"
    by (simp add: unseen_equal_def t) (simp add: sample_two_def)
  show "distinct_lists (sample_two [''read'', ''wire''])" "distinct_lists (sample_two [''wire'', ''read''])"
    by (auto simp: distinct_lists_def t sample_tool_def split: if_splits)
qed

text \<open>What an empty diff does not guarantee: a new \<open>require_env\<close>, and a predicate replaced by a duplicate
  of another, go unnoticed although they change which calls are allowed.\<close>

lemma diff_misses_changes:
  "diff_body sample_lib sample_gate sample_env = []
   \<and> diff_body sample_lib (sample_two [''read'', ''sign'']) (sample_two [''read'', ''read'']) = []
   \<and> d_Action (fst (Evaluate (full_stages sample_lib (mem_backend (sample_mem [])) 0) (sample_call ''read'') sample_session sample_gate)) = Allow
   \<and> d_Action (fst (Evaluate (full_stages sample_lib (mem_backend (sample_mem [])) 0) (sample_call ''read'') sample_session sample_env)) = Deny"
  by code_simp

text \<open>\<open>policy lint\<close> fails exactly on an error. It ends with an error exactly when the file cannot be
  parsed or some error-level rule fires; with \<open>--db\<close> and a database that answers, the deployment-history
  rule L020 is a warning and never changes that.\<close>

theorem lint_exit_code:
  assumes "dbPath = [] \<or> c_open C = None \<and> fault_free W"
  shows "o_error (lint_cmd C W d dbPath file) = None \<longleftrightarrow>
     (\<exists>p. ParseFile (w_lib W) (c_fs C) file = Inr p \<and> (\<forall>r \<in> set (Lint (w_lib W) p). lr_Severity r \<noteq> SeverityError))"
proof -
  have out: "o_error (lint_outcome rs) = None \<longleftrightarrow> (\<forall>r \<in> set rs. lr_Severity r \<noteq> SeverityError)" for rs
    by (auto simp: lint_outcome_def printLintResults_def filter_empty_conv)
  have l20: "lr_Severity r \<noteq> SeverityError" if "r \<in> set (lintL020 p h)" for r p h
    using that by (auto simp: lintL020_def Let_def lint_result_def split: if_splits)
  show ?thesis
    using assms
    by (auto simp: lint_cmd_def failed_def Let_def out HasAuditRecordsForFingerprint_def db_read_fault_free
        dest: l20 split: sum.split)
qed

theorem lint_exit_code_witness:
  "o_error (lint_cmd sample_files sample_world sample_db0 ''tb.db'' ''p.yaml'') = None"
proof -
  have "c_open sample_files = None \<and> fault_free sample_world"
    by (simp add: sample_files_def fault_free_def sample_world_def)
  then have "o_error (lint_cmd sample_files sample_world sample_db0 ''tb.db'' ''p.yaml'') = None \<longleftrightarrow>
     (\<exists>p. ParseFile (w_lib sample_world) (c_fs sample_files) ''p.yaml'' = Inr p
        \<and> (\<forall>r \<in> set (Lint (w_lib sample_world) p). lr_Severity r \<noteq> SeverityError))"
    by (intro lint_exit_code disjI2)
  moreover have "case ParseFile (w_lib sample_world) (c_fs sample_files) ''p.yaml'' of Inl _ \<Rightarrow> False
      | Inr p \<Rightarrow> list_all (\<lambda>r. lr_Severity r \<noteq> SeverityError) (Lint (w_lib sample_world) p)" by code_simp
  ultimately show ?thesis by (auto simp: list_all_iff split: sum.splits)
qed

end
