(* ===== verification/TB_AuditCmd.thy ===== *)
theory TB_AuditCmd
  imports TB_PolicyCmd TB_FaultFree
begin

text \<open>
  The audit commands (\<open>cmd/audit\<close>): \<open>verify\<close>, \<open>query\<close>, \<open>export\<close> and \<open>report\<close>. A command takes the
  environment \<open>cli\<close>, the world and the database it opens, and yields its outcome. The pipeline the
  documentation advertises, \<open>audit export | audit verify\<close>, becomes a round trip.
\<close>

section \<open>verify (verify.go)\<close>

definition defaultProxyPubKeyPath :: "cli \<Rightarrow> string" where
  "defaultProxyPubKeyPath C =
     (case c_home C of Inl _ \<Rightarrow> ''proxy.pub.pem'' | Inr home \<Rightarrow> home_path home [''keys'', ''proxy.pub.pem''])"

definition record_label :: "AuditRecord \<Rightarrow> string" where
  "record_label rec =
     ''id='' @ take_runes 8 (r_ID rec) @ ''  seq='' @ pad_right 6 (dec (int (r_Seq rec))) @ ''  tool='' @ r_ToolName rec"

text \<open>One non-empty line: what is printed, and whether it counts as tampered. \<open>n\<close> is its number.\<close>

definition verify_line :: "lib \<Rightarrow> crypto \<Rightarrow> cli \<Rightarrow> string \<Rightarrow> nat \<Rightarrow> string \<Rightarrow> string \<times> bool" where
  "verify_line L K C pubKey n l =
     (case c_audit_line C l of
        Inl err \<Rightarrow> (line (''PARSE_ERROR  line '' @ dec (int n) @ '': '' @ err_text err), True)
      | Inr rec \<Rightarrow>
          (case Verify L K rec pubKey of
             Some verr \<Rightarrow> (line (''TAMPERED  '' @ record_label rec), True)
           | None \<Rightarrow> (line (''OK        '' @ record_label rec), False)))"

fun verify_lines :: "lib \<Rightarrow> crypto \<Rightarrow> cli \<Rightarrow> string \<Rightarrow> string list \<Rightarrow> nat \<Rightarrow> nat \<Rightarrow> string \<times> nat \<times> nat" where
  "verify_lines L K C pubKey [] seen tampered = ([], seen, tampered)"
| "verify_lines L K C pubKey (l # ls) seen tampered =
     (if l = [] then verify_lines L K C pubKey ls seen tampered
      else
        (let (out, bad) = verify_line L K C pubKey (seen + 1) l;
             (rest, t) = verify_lines L K C pubKey ls (seen + 1) (if bad then tampered + 1 else tampered)
         in (out @ rest, t)))"

definition verify_data :: "lib \<Rightarrow> crypto \<Rightarrow> cli \<Rightarrow> string \<Rightarrow> string \<Rightarrow> outcome" where
  "verify_data L K C pubKey data =
     (let (ls, too_long) = scan_lines maxLine data; (out, seen, tampered) = verify_lines L K C pubKey ls 0 0 in
      if too_long then \<lparr>o_stdout = out, o_files = [], o_error = Some (wrapf ''reading audit log'' ErrTooLong)\<rparr>
      else if seen = 0 then printed (out @ line ''(no records found in file)'')
      else
        \<lparr>o_stdout = out @ line [] @ line (dec (int seen - int tampered) @ '' OK, '' @ dec (int tampered) @ '' TAMPERED (out of ''
           @ dec (int seen) @ '' records)''),
         o_files = [],
         o_error = (if tampered > 0 then Some (errorf (dec (int tampered) @ '' record(s) failed signature verification''))
                    else None)\<rparr>)"

text \<open>The file \<open>-\<close>, the default, is standard input.\<close>

definition runVerify :: "lib \<Rightarrow> crypto \<Rightarrow> keylib \<Rightarrow> cli \<Rightarrow> string \<Rightarrow> string \<Rightarrow> string \<Rightarrow> outcome" where
  "runVerify L K keys C stdin filePath keyPath =
     (case LoadPublicKey keys (c_fs C) keyPath of
        Inl err \<Rightarrow> failed (wrapf (''loading public key from '' @ keyPath) err)
      | Inr pubKey \<Rightarrow>
          (if filePath = ''-'' then verify_data L K C pubKey stdin
           else
             (case c_fs C filePath of
                Inl err \<Rightarrow> failed (wrapf (''opening audit log file '' @ filePath) err)
              | Inr data \<Rightarrow> verify_data L K C pubKey data)))"

definition verify_cmd :: "lib \<Rightarrow> crypto \<Rightarrow> keylib \<Rightarrow> cli \<Rightarrow> string \<Rightarrow> string list \<Rightarrow> string \<Rightarrow> outcome" where
  "verify_cmd L K keys C stdin args keyPath =
     runVerify L K keys C stdin (case args of [file] \<Rightarrow> file | _ \<Rightarrow> ''-'') keyPath"

section \<open>query (query.go)\<close>

definition parse_flag_time :: "lib \<Rightarrow> cli \<Rightarrow> string \<Rightarrow> string \<Rightarrow> gerr + int option" where
  "parse_flag_time L C flag v =
     (if v = [] then Inr None
      else
        (case c_parse_rfc3339 C v of
           Inl err \<Rightarrow> Inl (wrapf (''parsing --'' @ flag @ '' '' @ qt L v @ '' as RFC3339'') err)
         | Inr t \<Rightarrow> Inr t))"

definition buildAuditFilter :: "lib \<Rightarrow> cli \<Rightarrow> string \<Rightarrow> string \<Rightarrow> string \<Rightarrow> string \<Rightarrow> string \<Rightarrow> string \<Rightarrow> gerr + AuditFilter" where
  "buildAuditFilter L C sessionID toolName decision traceID fromT toT =
     (case parse_flag_time L C ''from'' fromT of
        Inl err \<Rightarrow> Inl err
      | Inr f \<Rightarrow>
          (case parse_flag_time L C ''to'' toT of
             Inl err \<Rightarrow> Inl err
           | Inr t \<Rightarrow>
               Inr \<lparr>af_SessionID = sessionID, af_ToolName = toolName, af_Decision = decision, af_TraceID = traceID,
                    af_From = f, af_To = t\<rparr>))"

definition resolveQueryDBPath :: "cli \<Rightarrow> string \<Rightarrow> string" where
  "resolveQueryDBPath C dbFlag =
     db_path C dbFlag"

definition writeQueryTable :: "cli \<Rightarrow> AuditRecord list \<Rightarrow> string" where
  "writeQueryTable C records =
     (if records = [] then line ''(no records match the given filters)''
      else
        c_tabwriter C
          (tabbed [''RECORDED_AT'', ''SESSION'', ''SEQ'', ''AGENT'', ''TOOL'', ''DECISION'', ''REASON'']
           @ concat (map (\<lambda>r. tabbed [c_rfc3339 C (r_RecordedAt r), take_runes 8 (r_SessionID r), dec (int (r_Seq r)),
                r_AgentName r, r_ToolName r, r_Decision r, ellipsis60 (r_DecisionReason r)]) records)))"

definition writeQueryJSON :: "cli \<Rightarrow> AuditRecord list \<Rightarrow> string" where
  "writeQueryJSON C records = concat (map (\<lambda>r. line (c_record_line C r)) records)"

text \<open>\<open>encoding/csv\<close>: a field is quoted when it holds a comma, a quote or a line break, starts with a
  space, or is the end marker; quotes are doubled.\<close>

definition fieldNeedsQuotes :: "string \<Rightarrow> bool" where
  "fieldNeedsQuotes s =
     (s \<noteq> [] \<and>
      (s = [CHR 0x5C, CHR ''.''] \<or> list_ex (\<lambda>c. c \<in> {CHR '','', CHR 0x22, CHR 0x0A, CHR 0x0D}) s
       \<or> (case decode_rune (map of_char s) of None \<Rightarrow> False | Some (r, w) \<Rightarrow> unicode_space r)))"

definition csv_field :: "string \<Rightarrow> string" where
  "csv_field s =
     (if fieldNeedsQuotes s then [CHR 0x22] @ concat (map (\<lambda>c. if c = CHR 0x22 then [c, c] else [c]) s) @ [CHR 0x22] else s)"

definition csv_row :: "string list \<Rightarrow> string" where
  "csv_row cells = line (join '','' (map csv_field cells))"

definition writeQueryCSV :: "cli \<Rightarrow> AuditRecord list \<Rightarrow> string" where
  "writeQueryCSV C records =
     csv_row [''recorded_at'', ''session_id'', ''seq'', ''agent_name'', ''tool_name'', ''decision'', ''decision_reason'', ''policy_fingerprint'']
     @ concat (map (\<lambda>r. csv_row [c_rfc3339 C (r_RecordedAt r), r_SessionID r, dec (int (r_Seq r)), r_AgentName r, r_ToolName r,
         r_Decision r, r_DecisionReason r, r_PolicyFingerprint r]) records)"

definition open_db :: "cli \<Rightarrow> string \<Rightarrow> (unit \<Rightarrow> outcome) \<Rightarrow> outcome" where
  "open_db C dbFlag k =
     (case c_open C of
        Some err \<Rightarrow> failed (wrapf (''opening database at '' @ resolveQueryDBPath C dbFlag) err)
      | None \<Rightarrow> k ())"

definition runQuery :: "cli \<Rightarrow> world \<Rightarrow> db \<Rightarrow> string \<Rightarrow> AuditFilter \<Rightarrow> string \<Rightarrow> outcome" where
  "runQuery C W d dbFlag flt format =
     open_db C dbFlag (\<lambda>_.
       case fst (QueryAuditLog W flt d) of
         Inl err \<Rightarrow> failed (wrapf ''querying audit log'' err)
       | Inr records \<Rightarrow>
           (if format = ''table'' then printed (writeQueryTable C records)
            else if format = ''json'' then printed (writeQueryJSON C records)
            else if format = ''csv'' then printed (writeQueryCSV C records)
            else failed (errorf (''unknown --format '' @ qw W format @ '': must be table, json, or csv''))))"

definition query_cmd ::
    "cli \<Rightarrow> world \<Rightarrow> db \<Rightarrow> string \<Rightarrow> string \<Rightarrow> string \<Rightarrow> string \<Rightarrow> string \<Rightarrow> string \<Rightarrow> string \<Rightarrow> string \<Rightarrow> outcome" where
  "query_cmd C W d dbFlag sessionID toolName decision traceID fromT toT format =
     (case buildAuditFilter (w_lib W) C sessionID toolName decision traceID fromT toT of
        Inl err \<Rightarrow> failed err
      | Inr flt \<Rightarrow> runQuery C W d dbFlag flt format)"

section \<open>export (export.go)\<close>

definition writeExport :: "cli \<Rightarrow> world \<Rightarrow> db \<Rightarrow> AuditFilter \<Rightarrow> gerr + string" where
  "writeExport C W d flt =
     (case fst (QueryAuditLog W flt d) of
        Inl err \<Rightarrow> Inl (wrapf ''querying audit log for export'' err)
      | Inr records \<Rightarrow> Inr (writeQueryJSON C records))"

text \<open>The output file is created before the query, so a failed query leaves it empty.\<close>

definition export_cmd :: "cli \<Rightarrow> world \<Rightarrow> db \<Rightarrow> string \<Rightarrow> string \<Rightarrow> string \<Rightarrow> string \<Rightarrow> string \<Rightarrow> outcome" where
  "export_cmd C W d dbFlag sessionID fromT toT outputPath =
     (case buildAuditFilter (w_lib W) C sessionID [] [] [] fromT toT of
        Inl err \<Rightarrow> failed err
      | Inr flt \<Rightarrow>
          open_db C dbFlag (\<lambda>_.
            case writeExport C W d flt of
              Inr s \<Rightarrow> write_output C outputPath s
            | Inl err \<Rightarrow>
                (let o' = write_output C outputPath [] in if o_error o' = None then o'\<lparr>o_error := Some err\<rparr> else o')))"

section \<open>report (report.go)\<close>

definition writeEvidenceHeader :: "string \<Rightarrow> string \<Rightarrow> string \<Rightarrow> string \<Rightarrow> string \<Rightarrow> string" where
  "writeEvidenceHeader evidenceID generatedAt sessionID agentName policyFingerprint =
     line ''## 1. Evidence Header'' @ line [] @ line ''| Field | Value |'' @ line ''|---|---|''
     @ line (''| Evidence ID | `'' @ evidenceID @ ''` |'') @ line ''| Schema Version | 1.0 |''
     @ line (''| Generated At | '' @ generatedAt @ '' |'') @ line (''| Session ID | `'' @ sessionID @ ''` |'')
     @ line (''| Agent Name | '' @ agentName @ '' |'') @ line (''| Policy Fingerprint | `'' @ policyFingerprint @ ''` |'') @ line []"

text \<open>The plain-English summary, written out a second time for the report.\<close>

definition reportDescribeMode :: "string \<Rightarrow> string" where
  "reportDescribeMode m =
     (if m = EnforcementBlock then ''BLOCK (violations are denied)''
      else if m = EnforcementShadow then ''SHADOW (violations are logged but not blocked)''
      else ''SHADOW (default; violations are logged but not blocked)'')"

definition reportDescribeBudget :: "BudgetPolicy \<Rightarrow> string" where
  "reportDescribeBudget b =
     (let hasCalls = bp_MaxToolCalls b > 0; hasCost = f_gt (bp_MaxCostUSD b) f_zero;
          cost = ''$'' @ fmt_fixed 2 (bp_MaxCostUSD b)
      in if hasCalls \<and> hasCost then dec (bp_MaxToolCalls b) @ '' tool calls / '' @ cost @ '' per session''
         else if hasCalls then dec (bp_MaxToolCalls b) @ '' tool calls per session''
         else if hasCost then cost @ '' per session''
         else ''(not configured)'')"

definition reportSortedKeys :: "(string \<times> ToolPolicy) list \<Rightarrow> string list" where
  "reportSortedKeys ts = sort (remdups (map fst ts))"

definition report_lines :: "Policy \<Rightarrow> (string \<Rightarrow> ToolPolicy \<Rightarrow> string list) \<Rightarrow> string list" where
  "report_lines p f =
     concat (map (\<lambda>name. case tool_policy p name of None \<Rightarrow> [] | Some tp \<Rightarrow> f name tp) (reportSortedKeys (tools p)))"

definition writePolicyExplainBlock :: "lib \<Rightarrow> Policy \<Rightarrow> string" where
  "writePolicyExplainBlock L p =
     line (''Agent: '' @ p_Agent p) @ line (''Mode: '' @ reportDescribeMode (p_EnforcementMode p))
     @ line (''Allowed tools ('' @ dec (int (length (may_use p))) @ ''): '' @ join '', '' (may_use p))
     @ line (''Budget: '' @ reportDescribeBudget (p_Budget p))
     @ section_of ''Sequence guards:'' (report_lines p sequence_lines)
     @ section_of ''Taint rules:'' (report_lines p taint_lines)
     @ section_of ''Escalation rules:'' (report_lines p (escalation_lines L))"

definition writePolicySummarySection :: "lib \<Rightarrow> string \<Rightarrow> Policy option \<Rightarrow> bool \<Rightarrow> string" where
  "writePolicySummarySection L policyFingerprint pol fingerprintMismatch =
     line ''## 2. Policy Summary'' @ line []
     @ (case pol of
          None \<Rightarrow>
            line ''_No policy file provided. Fingerprint recorded at session creation:_'' @ line []
            @ line (''    '' @ policyFingerprint) @ line []
        | Some p \<Rightarrow>
            (if fingerprintMismatch then
               line (''> **Warning:** the supplied policy file fingerprint (`'' @ p_Fingerprint p @ ''`) does not match the session fingerprint (`''
                 @ policyFingerprint @ ''`). This file may not be the policy version that governed this session.'') @ line []
             else [])
            @ line ''```'' @ writePolicyExplainBlock L p @ line ''```'' @ line [])"

text \<open>The map from sequence number to escalation: of several the last row wins.\<close>

definition escBySeq :: "Escalation list \<Rightarrow> nat \<Rightarrow> Escalation option" where
  "escBySeq escalations seq = map_of (rev (map (\<lambda>e. (es_Seq e, e)) escalations)) seq"

definition or_dash :: "string \<Rightarrow> string" where
  "or_dash s = (if s = [] then em_dash else s)"

definition escalation_cell :: "cli \<Rightarrow> Escalation list \<Rightarrow> AuditRecord \<Rightarrow> string" where
  "escalation_cell C escalations r =
     (if r_Decision r = ''escalate'' then
        (case escBySeq escalations (r_Seq r) of Some e \<Rightarrow> ToUpper C (es_Status e) | None \<Rightarrow> ''PENDING'')
      else em_dash)"

definition writeTimelineSection :: "cli \<Rightarrow> AuditRecord list \<Rightarrow> Escalation list \<Rightarrow> string" where
  "writeTimelineSection C records escalations =
     line ''## 3. Execution Timeline'' @ line []
     @ (if records = [] then line ''_No tool calls recorded for this session._''
        else
          line ''| Seq | Timestamp | Tool | Decision | Reason Code | Escalation Status |'' @ line ''|---|---|---|---|---|---|''
          @ concat (map (\<lambda>r. line (''| '' @ dec (int (r_Seq r)) @ '' | '' @ c_rfc3339 C (r_RecordedAt r) @ '' | `'' @ r_ToolName r
              @ ''` | **'' @ ToUpper C (r_Decision r) @ ''** | '' @ or_dash (r_DecisionReason r) @ '' | ''
              @ escalation_cell C escalations r @ '' |'')) records))
     @ line []"

definition writeEscalationSection :: "cli \<Rightarrow> Escalation list \<Rightarrow> string" where
  "writeEscalationSection C escalations =
     line ''## 4. Escalation Records'' @ line []
     @ (if escalations = [] then line ''_No escalations recorded for this session._''
        else
          line ''| ID | Tool | Seq | Status | Operator Note | Created At | Resolved At |'' @ line ''|---|---|---|---|---|---|---|''
          @ concat (map (\<lambda>e. line (''| `'' @ take_runes 8 (es_ID e) @ ''` | `'' @ es_ToolName e @ ''` | '' @ dec (int (es_Seq e))
              @ '' | **'' @ ToUpper C (es_Status e) @ ''** | '' @ or_dash (es_Reason e) @ '' | '' @ c_rfc3339 C (es_CreatedAt e) @ '' | ''
              @ (if es_ResolvedAt e \<noteq> 0 then c_rfc3339 C (es_ResolvedAt e) else em_dash) @ '' |'')) escalations))
     @ line []"

text \<open>\<open>key\<close> is the loaded public key or the error of loading it.\<close>

definition tampered_records :: "lib \<Rightarrow> crypto \<Rightarrow> string \<Rightarrow> AuditRecord list \<Rightarrow> AuditRecord list" where
  "tampered_records L K pubKey records = filter (\<lambda>r. Verify L K r pubKey \<noteq> None) records"

definition attestation_warning :: string where
  "attestation_warning = line [] @ line (''> **WARNING:** One or more audit records failed signature verification. ''
     @ ''The integrity of this evidence package cannot be guaranteed.'')"

definition writeAttestationSection :: "lib \<Rightarrow> crypto \<Rightarrow> AuditRecord list \<Rightarrow> gerr + string \<Rightarrow> string" where
  "writeAttestationSection L K records key =
     (let n = line (''- **Total records:** '' @ dec (int (length records))) in
      line ''## 5. Cryptographic Attestation'' @ line []
      @ (case key of
           Inl keyLoadErr \<Rightarrow>
             line (''- **Verification skipped:** public key could not be loaded ('' @ err_text keyLoadErr @ '')'') @ n
         | Inr pubKey \<Rightarrow>
             (let tamperedCount = length (tampered_records L K pubKey records) in
              n @ line (''- **Verified OK:** '' @ dec (int (length records) - int tamperedCount))
              @ line (''- **TAMPERED:** '' @ dec (int tamperedCount))
              @ (if tamperedCount > 0 then attestation_warning else [])))
      @ line [])"

definition writeRegulatoryNotes :: string where
  "writeRegulatoryNotes =
     line ''## 6. Regulatory Notes'' @ line []
     @ line ''This compliance evidence report documents the behavioral boundaries and human oversight''
     @ line ''controls applied to an AI agent operating under TrueBearing policy enforcement.'' @ line []
     @ line ''Pursuant to **EU AI Act Article 9** (Risk Management System) and related obligations:'' @ line []
     @ line ''- The AI system identified above operated under documented behavioral policy constraints''
     @ line ''  throughout this session.''
     @ line ''- All tool invocations and their outcomes are recorded in a tamper-evident, cryptographically''
     @ line ''  signed audit log.''
     @ line ''- Human oversight was applied at all escalation points as shown in Section 4 above.''
     @ line ''- The organisation deploying this AI system: **[FILL IN ORGANISATION NAME]**''
     @ line ''- The AI system classification under EU AI Act Annex III: **[FILL IN SYSTEM CLASSIFICATION]**''
     @ line ''- The responsible human overseer role: **[FILL IN ROLE/CONTACT]**'' @ line []
     @ line ''_This document was generated automatically by TrueBearing. It must be reviewed by the''
     @ line (''organisation'' @ [CHR 0x27] @ ''s compliance officer before submission to any regulatory authority._'')"

definition writeReport ::
    "lib \<Rightarrow> crypto \<Rightarrow> cli \<Rightarrow> string \<Rightarrow> string \<Rightarrow> string \<Rightarrow> string \<Rightarrow> string \<Rightarrow> AuditRecord list \<Rightarrow> Escalation list
     \<Rightarrow> gerr + string \<Rightarrow> Policy option \<Rightarrow> bool \<Rightarrow> string" where
  "writeReport L K C evidenceID generatedAt sessionID agentName policyFingerprint records escalations key pol mismatch =
     line ''# Compliance Evidence Report'' @ line []
     @ writeEvidenceHeader evidenceID generatedAt sessionID agentName policyFingerprint
     @ writePolicySummarySection L policyFingerprint pol mismatch
     @ writeTimelineSection C records escalations
     @ writeEscalationSection C escalations
     @ writeAttestationSection L K records key
     @ writeRegulatoryNotes"

definition runReport ::
    "crypto \<Rightarrow> keylib \<Rightarrow> cli \<Rightarrow> world \<Rightarrow> db \<Rightarrow> string \<Rightarrow> string \<Rightarrow> string \<Rightarrow> string \<Rightarrow> string \<Rightarrow> outcome" where
  "runReport K keys C W d dbFlag sessionID keyPath policyPath outputPath =
     open_db C dbFlag (\<lambda>_.
       case GetSession W sessionID d of
         (Inl err, d) \<Rightarrow> failed (wrapf (''looking up session '' @ qw W sessionID) err)
       | (Inr sess, d) \<Rightarrow>
           (case QueryAuditLog W \<lparr>af_SessionID = sessionID, af_ToolName = [], af_Decision = [], af_TraceID = [],
                   af_From = None, af_To = None\<rparr> d of
              (Inl err, d) \<Rightarrow> failed (wrapf (''querying audit log for session '' @ qw W sessionID) err)
            | (Inr records, d) \<Rightarrow>
                (case GetEscalationsBySession W sessionID d of
                   (Inl err, d) \<Rightarrow> failed (wrapf (''querying escalations for session '' @ qw W sessionID) err)
                 | (Inr escalations, d) \<Rightarrow>
                     (let L = w_lib W; key = LoadPublicKey keys (c_fs C) keyPath;
                          report = (\<lambda>pol mismatch. write_output C outputPath
                            (writeReport L K C (w_uuid W (db_tick d)) (c_rfc3339 C (now_at W d)) (s_ID sess) (s_AgentName sess)
                               (s_PolicyFingerprint sess) records escalations key pol mismatch))
                      in if policyPath = [] then report None False
                         else
                           (case ParseFile L (c_fs C) policyPath of
                              Inl err \<Rightarrow> failed (wrapf (''parsing policy file '' @ policyPath) err)
                            | Inr pol \<Rightarrow> report (Some pol) (p_Fingerprint pol \<noteq> s_PolicyFingerprint sess))))))"

definition report_cmd ::
    "crypto \<Rightarrow> keylib \<Rightarrow> cli \<Rightarrow> world \<Rightarrow> db \<Rightarrow> string \<Rightarrow> string \<Rightarrow> string \<Rightarrow> string \<Rightarrow> string \<Rightarrow> outcome" where
  "report_cmd K keys C W d dbFlag sessionID keyPath policyPath outputPath =
     (if sessionID = [] then failed (errorf ''--session is required'')
      else runReport K keys C W d dbFlag sessionID keyPath policyPath outputPath)"

end
