(* ===== verification/TB_AuditCmdFacts.thy ===== *)
theory TB_AuditCmdFacts
  imports TB_AuditCmd
begin

text \<open>
  What the audit commands show: \<open>verify\<close> succeeds exactly when every record of the log verifies,
  an accepted log holds only records the proxy's key signed, and an exported log is accepted.
\<close>

section \<open>The counts of verify\<close>

definition accepted_line :: "lib \<Rightarrow> crypto \<Rightarrow> cli \<Rightarrow> string \<Rightarrow> string \<Rightarrow> bool" where
  "accepted_line L K C pubKey l =
     (case c_audit_line C l of Inl _ \<Rightarrow> False | Inr rec \<Rightarrow> Verify L K rec pubKey = None)"

definition log_lines :: "string \<Rightarrow> string list" where
  "log_lines data = filter (\<lambda>l. l \<noteq> []) (fst (scan_lines maxLine data))"

definition bad_lines :: "lib \<Rightarrow> crypto \<Rightarrow> cli \<Rightarrow> string \<Rightarrow> string \<Rightarrow> string list" where
  "bad_lines L K C pubKey data = filter (\<lambda>l. \<not> accepted_line L K C pubKey l) (log_lines data)"

lemma verify_line_bad [simp]: "snd (verify_line L K C pubKey n l) = (\<not> accepted_line L K C pubKey l)"
  by (simp add: verify_line_def accepted_line_def split: sum.split option.split)

lemma verify_lines_counts:
  "snd (verify_lines L K C pubKey ls n t) =
     (n + length (filter (\<lambda>l. l \<noteq> []) ls),
      t + length (filter (\<lambda>l. \<not> accepted_line L K C pubKey l) (filter (\<lambda>l. l \<noteq> []) ls)))"
proof (induction ls arbitrary: n t)
  case (Cons l ls)
  obtain out bad where v: "verify_line L K C pubKey (Suc n) l = (out, bad)" by fastforce
  then have b: "bad = (\<not> accepted_line L K C pubKey l)" using verify_line_bad [of L K C pubKey "Suc n" l] by simp
  have step: "l \<noteq> [] \<Longrightarrow> snd (verify_lines L K C pubKey (l # ls) n t)
      = snd (verify_lines L K C pubKey ls (Suc n) (if bad then t + 1 else t))"
    by (simp add: v Let_def split: prod.split)
  show ?case
  proof (cases "l = []")
    case True then show ?thesis using Cons.IH by simp
  next
    case False
    show ?thesis unfolding step [OF False] Cons.IH using False b by simp
  qed
qed simp

lemma verify_data_error:
  "o_error (verify_data L K C pubKey data) = None \<longleftrightarrow> \<not> snd (scan_lines maxLine data) \<and> bad_lines L K C pubKey data = []"
proof -
  obtain ls too_long where s: "scan_lines maxLine data = (ls, too_long)" by fastforce
  obtain out n t where v: "verify_lines L K C pubKey ls 0 0 = (out, n, t)" by (cases "verify_lines L K C pubKey ls 0 0") auto
  have "n = length (log_lines data)" "t = length (bad_lines L K C pubKey data)"
    using verify_lines_counts [of L K C pubKey ls 0 0] by (simp_all add: s v log_lines_def bad_lines_def)
  moreover have "bad_lines L K C pubKey data = []" if "log_lines data = []" using that by (simp add: bad_lines_def)
  ultimately show ?thesis by (auto simp: verify_data_def s v printed_def)
qed

lemma accepted_lineD:
  assumes "accepted_line L K C pubKey l"
  obtains rec where "c_audit_line C l = Inr rec" "Verify L K rec pubKey = None"
  using assms by (auto simp: accepted_line_def split: sum.splits)

text \<open>The records a log decodes to.\<close>

definition log_records :: "cli \<Rightarrow> string \<Rightarrow> AuditRecord list" where
  "log_records C data = concat (map (\<lambda>l. case c_audit_line C l of Inl _ \<Rightarrow> [] | Inr rec \<Rightarrow> [rec]) (log_lines data))"

lemma log_records_verified:
  assumes "bad_lines L K C pubKey data = []" "rec \<in> set (log_records C data)"
  shows "Verify L K rec pubKey = None"
proof -
  from assms(2) obtain l where l: "l \<in> set (log_lines data)" "c_audit_line C l = Inr rec"
    by (auto simp: log_records_def split: sum.splits)
  with assms(1) have "accepted_line L K C pubKey l" by (auto simp: bad_lines_def filter_empty_conv)
  with l(2) show ?thesis by (simp add: accepted_line_def)
qed

lemma Verify_signed:
  assumes "verifies_only K pub (payload_of L ` R)" "texts_differ L (R \<union> Q)" "rec \<in> Q" "Verify L K rec pub = None"
  obtains r where "r \<in> R" "same_content r rec"
proof -
  obtain s where "cr_verify K pub (payload_of L rec) s" using assms(4) by (auto simp: Verify_None)
  with assms(1) obtain r where r: "r \<in> R" "payload_of L rec = payload_of L r" by (auto simp: verifies_only_def)
  have "json_map (canonical_fields r) = json_map (canonical_fields rec)"
    by (rule texts_differD [OF assms(2)]) (use r assms(3) in simp_all)
  with r(1) json_map_inj that show thesis by blast
qed

section \<open>Samples\<close>

text \<open>A log line is the sequence number, its record the sample record with that number, signed.\<close>

definition signed_sample :: "lib \<Rightarrow> nat \<Rightarrow> AuditRecord" where
  "signed_sample L n = sample_record\<lparr>r_Seq := n, r_Signature :=
     b64_EncodeToString StdEncoding (CHR ''S'' # payload_of L (sample_record\<lparr>r_Seq := n\<rparr>))\<rparr>"

definition audit_cli :: "lib \<Rightarrow> cli" where
  "audit_cli L = sample_cli\<lparr>
     c_audit_line := (\<lambda>s. if s = ''1'' then Inr (signed_sample L 1)
        else if s = ''2'' then Inr ((signed_sample L 1)\<lparr>r_Decision := ''allow''\<rparr>) else Inl (errorf ''unexpected end of JSON input'')),
     c_record_line := (\<lambda>r. if r = signed_sample L 1 then ''1'' else ''2'')\<rparr>"

section \<open>Properties of verify\<close>

text \<open>\<open>audit verify\<close> exits without an error exactly when the log was read to its end and every
  non-empty line of it decodes to a record whose signature verifies under the given key.\<close>

theorem verify_reports_exactly:
  "(o_error (verify_data L K C pubKey data) = None) =
     (\<not> snd (scan_lines maxLine data) \<and> list_all (accepted_line L K C pubKey) (log_lines data))"
  by (simp add: verify_data_error bad_lines_def filter_empty_conv list_all_iff)

text \<open>C23: An accepted log holds nothing but what the proxy signed: if the key signed the payloads of the
  records in \<open>R\<close> and nothing else, every record of a log that \<open>audit verify\<close> accepts has the content of
  a record in \<open>R\<close>. (Records left out of the log are not noticed, an empty log is accepted.)\<close>

theorem verify_detects_tampering:
  assumes "verifies_only K pub (payload_of L ` R)" "texts_differ L (R \<union> set (log_records C data))"
    "o_error (verify_data L K C pub data) = None"
  shows "\<forall>rec \<in> set (log_records C data). \<exists>r \<in> R. same_content r rec"
proof
  fix rec assume rec: "rec \<in> set (log_records C data)"
  from assms(3) have "bad_lines L K C pub data = []" by (simp add: verify_data_error)
  then have "Verify L K rec pub = None" using rec by (rule log_records_verified)
  from Verify_signed [OF assms(1,2) rec this] obtain r where "r \<in> R" "same_content r rec" .
  then show "\<exists>r \<in> R. same_content r rec" by blast
qed

lemma signed_sample_1:
  "signed_sample L 1 = sample_record\<lparr>r_Signature := b64_EncodeToString StdEncoding (CHR ''S'' # payload_of L sample_record)\<rparr>"
proof -
  have "sample_record\<lparr>r_Seq := 1\<rparr> = sample_record" by (simp add: sample_record_def)
  then show ?thesis by (simp add: signed_sample_def)
qed

lemma sample_log: "scan_lines maxLine (line ''1'') = ([''1''], False)"
  using scan_lines_written [of "[''1'']" maxLine] by (simp add: plain_line_def newline_def maxLine_def)

lemma verify_detects_tampering_witness:
  "log_records (audit_cli sample_audit_lib) (line ''1'') = [signed_sample sample_audit_lib 1]
   \<and> same_content sample_record (signed_sample sample_audit_lib 1)"
proof -
  let ?L = sample_audit_lib and ?K = "sample_crypto {payload_of sample_audit_lib sample_record}"
  have keys: "verifies_only ?K ''pub'' (payload_of ?L ` {sample_record})"
    by (simp add: verifies_only_def sample_crypto_def)
  have recs: "log_records (audit_cli ?L) (line ''1'') = [signed_sample ?L 1]"
    by (simp add: log_records_def log_lines_def sample_log audit_cli_def)
  have "canonical_fields (r\<lparr>r_Signature := s\<rparr>) = canonical_fields r" for r s by (simp add: canonical_fields_def)
  then have texts: "texts_differ ?L ({sample_record} \<union> set (log_records (audit_cli ?L) (line ''1'')))"
    by (simp add: texts_differ_def recs signed_sample_1 del: One_nat_def)
  have "Verify ?L ?K (signed_sample ?L 1) ''pub'' = None"
    unfolding signed_sample_1 by (simp add: Verify_None b64_nonempty) (simp add: sample_crypto_def)
  then have "o_error (verify_data ?L ?K (audit_cli ?L) ''pub'' (line ''1'')) = None"
    by (simp add: verify_data_error bad_lines_def log_lines_def sample_log accepted_line_def audit_cli_def del: One_nat_def)
  from verify_detects_tampering [OF keys texts this] recs show ?thesis by simp
qed

section \<open>Export and verify\<close>

text \<open>
  The JSON of a record (\<open>encoding/json\<close>) decodes to the record and is one line of text shorter than
  the scanner's buffer.
\<close>

definition record_codec :: "cli \<Rightarrow> AuditRecord \<Rightarrow> bool" where
  "record_codec C r \<longleftrightarrow> c_audit_line C (c_record_line C r) = Inr r \<and> plain_line maxLine (c_record_line C r)"

lemma exported_log:
  assumes "\<forall>r \<in> set rs. record_codec C r"
  shows "\<not> snd (scan_lines maxLine (writeQueryJSON C rs))" "log_lines (writeQueryJSON C rs) = map (c_record_line C) rs"
    "log_records C (writeQueryJSON C rs) = rs"
proof -
  have lines: "\<forall>s \<in> set (map (c_record_line C) rs). plain_line maxLine s" using assms by (auto simp: record_codec_def)
  have "writeQueryJSON C rs = concat (map line (map (c_record_line C) rs))" by (simp add: writeQueryJSON_def comp_def)
  then have s: "scan_lines maxLine (writeQueryJSON C rs) = (map (c_record_line C) rs, False)"
    using scan_lines_written [OF lines] by simp
  then show "\<not> snd (scan_lines maxLine (writeQueryJSON C rs))" by simp
  have "\<forall>s \<in> set (map (c_record_line C) rs). s \<noteq> []" using lines by (auto simp: plain_line_def)
  then show l: "log_lines (writeQueryJSON C rs) = map (c_record_line C) rs"
    by (simp only: log_lines_def s fst_conv filter_True)
  have "concat (map (\<lambda>r. case c_audit_line C (c_record_line C r) of Inl _ \<Rightarrow> [] | Inr rec \<Rightarrow> [rec]) rs) = concat (map (\<lambda>r. [r]) rs)"
    by (rule arg_cong [where f = concat], rule map_cong) (use assms in \<open>auto simp: record_codec_def\<close>)
  then show "log_records C (writeQueryJSON C rs) = rs" by (simp add: log_records_def l comp_def)
qed

lemma exported_log_accepted:
  assumes "\<forall>r \<in> set rs. record_codec C r"
  shows "o_error (verify_data L K C pub (writeQueryJSON C rs)) = None \<longleftrightarrow> tampered_records L K pub rs = []"
proof -
  have "bad_lines L K C pub (writeQueryJSON C rs) = map (c_record_line C) (tampered_records L K pub rs)"
    using assms by (auto simp: bad_lines_def exported_log(2) filter_map tampered_records_def accepted_line_def
        record_codec_def intro!: arg_cong [where f = "map (c_record_line C)"] filter_cong)
  then show ?thesis by (simp add: verify_data_error exported_log(1) [OF assms])
qed

lemma export_cmd_stdout:
  assumes "o_error (export_cmd C W d dbFlag sessionID f t []) = None"
  obtains flt where "buildAuditFilter (w_lib W) C sessionID [] [] [] f t = Inr flt"
    "o_stdout (export_cmd C W d dbFlag sessionID f t [])
      = writeQueryJSON C (map record_of_row (sort_key au_recorded_at (filter (audit_where flt) (db_audit d))))"
proof -
  from assms obtain flt where flt: "buildAuditFilter (w_lib W) C sessionID [] [] [] f t = Inr flt"
    by (auto simp: export_cmd_def failed_def split: sum.splits)
  from assms flt obtain s where s: "c_open C = None" "writeExport C W d flt = Inr s"
    by (auto simp: export_cmd_def open_db_def failed_def Let_def write_output_def printed_def split: sum.splits option.splits if_splits)
  from s(2) obtain rs where "fst (QueryAuditLog W flt d) = Inr rs" "s = writeQueryJSON C rs"
    by (auto simp: writeExport_def split: sum.splits)
  with QueryAuditLog_Inr have "s = writeQueryJSON C (map record_of_row (sort_key au_recorded_at (filter (audit_where flt) (db_audit d))))"
    by blast
  with flt s show thesis by (intro that) (auto simp: export_cmd_def open_db_def write_output_def printed_def)
qed

text \<open>C24: \<open>audit export | audit verify\<close> on an untouched database: if every stored record is one that
  was signed with the proxy's key, the exported log, whatever the session and time filters, is accepted by
  \<open>audit verify\<close> under the public key, and it decodes to exactly the stored records of the filter in
  the order they were recorded.\<close>

theorem export_verify_roundtrip:
  assumes "key_pair K priv pub" "LoadPublicKey keys (c_fs C) keyPath = Inr pub"
    "\<forall>r \<in> record_of_row ` set (db_audit d). record_codec C r \<and> (\<exists>rec. Sign (w_lib W) K rec priv = Inr r)"
    "buildAuditFilter (w_lib W) C sessionID [] [] [] f t = Inr flt"
    "export_cmd C W d dbFlag sessionID f t [] = \<lparr>o_stdout = data, o_files = files, o_error = None\<rparr>"
  shows "o_error (verify_cmd (w_lib W) K keys C data [''-''] keyPath) = None \<and>
    log_records C data = map record_of_row (sort_key au_recorded_at (filter (audit_where flt) (db_audit d)))"
proof -
  let ?rs = "map record_of_row (sort_key au_recorded_at (filter (audit_where flt) (db_audit d)))"
  have "o_error (export_cmd C W d dbFlag sessionID f t []) = None" using assms(5) by simp
  then have data: "data = writeQueryJSON C ?rs"
    by (rule export_cmd_stdout) (use assms(4,5) in simp)
  have codec: "\<forall>r \<in> set ?rs. record_codec C r" using assms(3) by auto
  have "Verify (w_lib W) K r pub = None" if "r \<in> set ?rs" for r
  proof -
    from that assms(3) obtain rec where "Sign (w_lib W) K rec priv = Inr r" by auto
    then show ?thesis using assms(1)
      by (auto simp: Sign_def canonicalJSON_payload Verify_None key_pair_def b64_nonempty)
  qed
  then have "tampered_records (w_lib W) K pub ?rs = []" by (auto simp: tampered_records_def filter_empty_conv)
  then have "o_error (verify_data (w_lib W) K C pub data) = None"
    unfolding data by (simp add: exported_log_accepted [OF codec])
  then have "o_error (verify_cmd (w_lib W) K keys C data [''-''] keyPath) = None"
    by (simp add: verify_cmd_def runVerify_def assms(2))
  then show ?thesis by (simp add: data exported_log(3) [OF codec])
qed

lemma export_verify_roundtrip_witness:
  "o_error (verify_cmd sample_lib (sample_crypto UNIV) sample_keylib (audit_cli sample_lib) (line ''1'') [''-''] ''pub.pem'') = None
   \<and> log_records (audit_cli sample_lib) (line ''1'') = [signed_sample sample_lib 1]"
proof -
  let ?d = "sample_db0\<lparr>db_audit := [row_of_record (signed_sample sample_lib 1)]\<rparr>" and ?C = "audit_cli sample_lib"
  let ?flt = "\<lparr>af_SessionID = ''s1'', af_ToolName = [], af_Decision = [], af_TraceID = [], af_From = None, af_To = None\<rparr>"
  have key: "key_pair (sample_crypto UNIV) ''priv'' ''A''" by (simp add: key_pair_def sample_crypto_def)
  have load: "LoadPublicKey sample_keylib (c_fs ?C) ''pub.pem'' = Inr ''A''" by code_simp
  have "Sign sample_lib (sample_crypto UNIV) sample_record ''priv'' = Inr (signed_sample sample_lib 1)"
    unfolding signed_sample_1 by (simp add: Sign_def canonicalJSON_payload sample_crypto_def)
  moreover have "record_codec ?C (signed_sample sample_lib 1)"
    by (simp add: record_codec_def audit_cli_def plain_line_def newline_def maxLine_def del: One_nat_def)
  ultimately have rows: "\<forall>r \<in> record_of_row ` set (db_audit ?d). record_codec ?C r
      \<and> (\<exists>rec. Sign (w_lib sample_world) (sample_crypto UNIV) rec ''priv'' = Inr r)"
    by (auto simp: sample_world_def del: One_nat_def)
  have flt: "buildAuditFilter (w_lib sample_world) ?C ''s1'' [] [] [] [] [] = Inr ?flt"
    by (simp add: buildAuditFilter_def parse_flag_time_def)
  have w: "audit_where ?flt (row_of_record (signed_sample sample_lib 1))"
    by (simp add: audit_where_def signed_sample_def row_of_record_def sample_record_def)
  have q: "fst (QueryAuditLog sample_world ?flt ?d) = Inr [signed_sample sample_lib 1]"
    using w by (simp add: QueryAuditLog_def db_rows_def db_bind_def db_read_def sample_world_def)
  have cli: "c_open ?C = None" "c_record_line ?C (signed_sample sample_lib 1) = ''1''"
    by (simp_all add: audit_cli_def sample_cli_def)
  have "export_cmd ?C sample_world ?d [] ''s1'' [] [] [] = \<lparr>o_stdout = line ''1'', o_files = [], o_error = None\<rparr>"
    using q cli by (simp add: export_cmd_def flt open_db_def writeExport_def writeQueryJSON_def write_output_def printed_def)
  from export_verify_roundtrip [OF key load rows flt this] w show ?thesis
    by (simp add: sample_world_def)
qed

text \<open>The evidence report and the exported log tell the same: the report warns of tampering exactly
  when \<open>audit verify\<close> rejects the export of the session.\<close>

lemma report_agrees_with_verify:
  assumes "\<forall>r \<in> set rs. record_codec C r"
  shows "(tampered_records L K pub rs \<noteq> []) = (o_error (verify_data L K C pub (writeQueryJSON C rs)) \<noteq> None)"
  by (simp add: exported_log_accepted [OF assms])

text \<open>The duplicated policy summary of the report is that of \<open>policy explain\<close> without its content guards.\<close>

lemma report_omits_content_guards:
  "printExplain L p = writePolicyExplainBlock L p @ section_of ''Content guards:'' (tool_lines p (content_lines L))"
proof -
  have "reportDescribeMode = describeMode" "reportDescribeBudget = describeBudget" "reportSortedKeys = sortedKeys"
    by (simp_all add: fun_eq_iff reportDescribeMode_def describeMode_def reportDescribeBudget_def describeBudget_def
        reportSortedKeys_def sortedKeys_def)
  then show ?thesis by (simp add: printExplain_def writePolicyExplainBlock_def report_lines_def tool_lines_def)
qed

end
