(* ===== verification/TB_AgentCmd.thy ===== *)
theory TB_AgentCmd
  imports TB_AuditCmd
begin

text \<open>
  Agent registration: key files (\<open>internal/identity/keypair.go\<close>) and the commands \<open>agent register\<close>,
  \<open>agent list\<close> and \<open>agent revoke\<close> (\<open>cmd/agent\<close>). The file system is threaded. What the proxy's authentication makes of a registration is proved in \<open>TB_AgentFacts\<close>.
\<close>

text \<open>
  \<open>ae_generate\<close> is \<open>ed25519.GenerateKey\<close> (public, private), \<open>ae_pkcs8\<close>, \<open>ae_pkix\<close> and \<open>ae_pem\<close> encode keys,
  \<open>ae_mkdir\<close> and \<open>ae_write\<close> are the errors of \<open>os.MkdirAll\<close> and \<open>os.WriteFile\<close>, \<open>ae_may_use\<close> is \<open>yaml.Unmarshal\<close> into \<open>minimalPolicy\<close>, \<open>ae_exp\<close> the
  JSON decoding of the expiry claim, \<open>ae_local\<close> the minute of a time in nanoseconds.
\<close>

record agent_env =
  ae_generate :: "gerr + string \<times> string"
  ae_pkcs8 :: "string \<Rightarrow> gerr + string"
  ae_pkix :: "string \<Rightarrow> gerr + string"
  ae_pem :: "string \<Rightarrow> string \<Rightarrow> string"
  ae_mkdir :: "string \<Rightarrow> gerr option"
  ae_write :: write_faults
  ae_may_use :: "string \<Rightarrow> gerr + string slice"
  ae_exp :: "string \<Rightarrow> gerr + int"
  ae_local :: "int \<Rightarrow> string"

section \<open>Key files (keypair.go)\<close>

definition writePrivateKey :: "agent_env \<Rightarrow> string \<Rightarrow> string \<Rightarrow> fsys \<Rightarrow> gerr option \<times> fsys" where
  "writePrivateKey A path privKey fs =
     (case ae_pkcs8 A privKey of
        Inl e \<Rightarrow> (Some (wrapf ''marshalling private key to PKCS8'' e), fs)
      | Inr der \<Rightarrow> apfst (map_option (wrapf (''writing private key to '' @ path)))
                      (os_WriteFile (ae_write A) path (ae_pem A ''PRIVATE KEY'' der) fs))"

definition writePublicKey :: "agent_env \<Rightarrow> string \<Rightarrow> string \<Rightarrow> fsys \<Rightarrow> gerr option \<times> fsys" where
  "writePublicKey A path pubKey fs =
     (case ae_pkix A pubKey of
        Inl e \<Rightarrow> (Some (wrapf ''marshalling public key to PKIX'' e), fs)
      | Inr der \<Rightarrow> apfst (map_option (wrapf (''writing public key to '' @ path)))
                      (os_WriteFile (ae_write A) path (ae_pem A ''PUBLIC KEY'' der) fs))"

definition GenerateKeypair :: "agent_env \<Rightarrow> string \<Rightarrow> string \<Rightarrow> fsys \<Rightarrow> (gerr + string \<times> string) \<times> fsys" where
  "GenerateKeypair A name dir fs =
     (case ae_generate A of
        Inl e \<Rightarrow> (Inl (wrapf ''generating Ed25519 keypair'' e), fs)
      | Inr (pubKey, privKey) \<Rightarrow>
          (let keysDir = path_join [dir, ''keys''] in
           case ae_mkdir A keysDir of
             Some e \<Rightarrow> (Inl (wrapf (''creating keys directory '' @ keysDir) e), fs)
           | None \<Rightarrow>
               (case writePrivateKey A (path_join [keysDir, name @ ''.pem'']) privKey fs of
                  (Some e, fs) \<Rightarrow> (Inl e, fs)
                | (None, fs) \<Rightarrow>
                    (case writePublicKey A (path_join [keysDir, name @ ''.pub.pem'']) pubKey fs of
                       (Some e, fs) \<Rightarrow> (Inl e, fs)
                     | (None, fs) \<Rightarrow> (Inr (pubKey, privKey), fs)))))"

section \<open>register (register.go)\<close>

definition resolveDBPath :: "string \<Rightarrow> string \<Rightarrow> string" where
  "resolveDBPath dbFlag tbHome = (if dbFlag \<noteq> [] then dbFlag else path_join [tbHome, ''truebearing.db''])"

text \<open>The tools a child may hold: \<open>Inr\<close> is what its token carries as the parent's set.\<close>

definition parent_scope ::
    "world \<Rightarrow> (string \<Rightarrow> gerr + string list) \<Rightarrow> string \<Rightarrow> string \<Rightarrow> string list \<Rightarrow> db \<Rightarrow> (gerr + string slice) \<times> db" where
  "parent_scope W jt name parentName mayUse d =
     (if parentName = [] then (Inr None, d)
      else
        (case GetAgent W parentName d of
           (Inl err, d) \<Rightarrow> (Inl (wrapf (''loading parent agent '' @ qw W parentName) err), d)
         | (Inr parent, d) \<Rightarrow>
             (case AllowedTools W jt parent of
                Inl err \<Rightarrow> (Inl (wrapf (''decoding allowed tools for parent agent '' @ qw W parentName) err), d)
              | Inr parentAllowed \<Rightarrow>
                  (let exceeds = filter (\<lambda>t. t \<notin> set parentAllowed) mayUse in
                   if exceeds \<noteq> [] then
                     (Inl (errorf (''child agent '' @ qw W name @ '' cannot be registered with tools outside parent '' @ qw W parentName
                        @ [CHR 0x27] @ ''s allowed set: ['' @ join '', '' exceeds @ '']'' @ [newline] @ ''parent'' @ [CHR 0x27]
                        @ ''s allowed tools: ['' @ join '', '' parentAllowed @ '']'')), d)
                   else (Inr (Some parentAllowed), d)))))"

definition register_summary :: "string \<Rightarrow> string \<Rightarrow> string \<Rightarrow> string \<Rightarrow> string \<Rightarrow> string list \<Rightarrow> string" where
  "register_summary name pubPEMPath jwtPath parentName env mayUse =
     line (''Agent:          '' @ name) @ line (''Public key:     '' @ pubPEMPath) @ line (''JWT written to: '' @ jwtPath)
     @ (if parentName \<noteq> [] then line (''Parent agent:   '' @ parentName) else [])
     @ (if env \<noteq> [] then line (''Environment:    '' @ env) else [])
     @ (if mayUse \<noteq> [] then
          line (''Allowed tools ('' @ dec (int (length mayUse)) @ '' from policy may_use): ['' @ join '', '' mayUse @ '']'')
        else line (''Allowed tools: (none '' @ em_dash @ '' may_use is empty in policy)''))
     @ line [] @ line ''To use:'' @ line (''  export TRUEBEARING_AGENT_JWT=$(cat '' @ jwtPath @ '')'')
     @ line ''  OR pass --agent-jwt flag to your client''"

text \<open>\<open>time.Duration(expiryDays) * 24 * time.Hour\<close>: it wraps.\<close>

definition expiry_duration :: "int \<Rightarrow> int" where
  "expiry_duration expiryDays = wrap64 (wrap64 (expiryDays * 24) * 3600000000000)"

text \<open>From the key pair on: mint the token, write it, and store the agent.\<close>

definition issue_credentials ::
    "agent_env \<Rightarrow> keylib \<Rightarrow> world \<Rightarrow> string \<Rightarrow> string \<Rightarrow> int \<Rightarrow> string \<Rightarrow> string \<Rightarrow> string list \<Rightarrow> string slice
     \<Rightarrow> string \<Rightarrow> fsys \<Rightarrow> db \<Rightarrow> outcome \<times> fsys \<times> db" where
  "issue_credentials A K W policyFile name expiryDays env parentName mayUse parentAllowed tbHome fs d =
     (case GenerateKeypair A name tbHome fs of
        (Inl err, fs) \<Rightarrow> (failed (wrapf (''generating keypair for agent '' @ qw W name) err), fs, d)
      | (Inr (pubKey, privKey), fs) \<Rightarrow>
          (let claims = \<lparr>cl_Registered = \<lparr>rc_IssuedAt = None, rc_NotBefore = None, rc_ExpiresAt = None\<rparr>, cl_AgentName = name,
                 cl_PolicyFile = policyFile, cl_AllowedTools = Some mayUse, cl_ParentAgent = parentName,
                 cl_ParentAllowed = parentAllowed, cl_IssuedByProxy = [], cl_Env = env\<rparr>
           in case MintAgentJWT (w_lib W) K (now_at W d) claims privKey (expiry_duration expiryDays) of
                Inl err \<Rightarrow> (failed (wrapf (''minting JWT for agent '' @ qw W name) err), fs, d)
              | Inr token \<Rightarrow>
                  (let keysDir = path_join [tbHome, ''keys'']; jwtPath = path_join [keysDir, name @ ''.jwt''];
                       pubPEMPath = path_join [keysDir, name @ ''.pub.pem'']
                   in case os_WriteFile (ae_write A) jwtPath token fs of
                        (Some err, fs) \<Rightarrow> (failed (wrapf (''writing JWT to '' @ jwtPath) err), fs, d)
                      | (None, fs) \<Rightarrow>
                          (case fs pubPEMPath of
                             Inl err \<Rightarrow> (failed (wrapf (''reading public key from '' @ pubPEMPath) err), fs, d)
                           | Inr pubPEMData \<Rightarrow>
                               (let agentRow = \<lparr>ag_Name = name, ag_PublicKeyPEM = pubPEMData, ag_PolicyFile = policyFile,
                                      ag_AllowedToolsJSON = l_json_text (w_lib W) (J_arr (map J_str mayUse)),
                                      ag_RegisteredAt = now_at W d, ag_JWTPreview = token, ag_RevokedAt = None\<rparr>
                                in case UpsertAgent W agentRow d of
                                     (Inl err, d) \<Rightarrow> (failed (wrapf ''storing agent in database'' err), fs, d)
                                   | (Inr _, d) \<Rightarrow>
                                       (printed (register_summary name pubPEMPath jwtPath parentName env mayUse), fs, d))))))"

definition runRegister ::
    "cli \<Rightarrow> agent_env \<Rightarrow> keylib \<Rightarrow> world \<Rightarrow> string \<Rightarrow> string \<Rightarrow> string \<Rightarrow> int \<Rightarrow> string \<Rightarrow> string \<Rightarrow> fsys \<Rightarrow> db
     \<Rightarrow> outcome \<times> fsys \<times> db" where
  "runRegister C A K W dbFlag policyFile name expiryDays env parentName fs d =
     (case fs policyFile of
        Inl err \<Rightarrow> (failed (wrapf (''reading policy file '' @ policyFile) err), fs, d)
      | Inr data \<Rightarrow>
          (case ae_may_use A data of
             Inl err \<Rightarrow> (failed (wrapf (''parsing policy YAML '' @ policyFile) err), fs, d)
           | Inr ts \<Rightarrow>
               (case c_home C of
                  Inl err \<Rightarrow> (failed (wrapf ''finding home directory'' err), fs, d)
                | Inr home \<Rightarrow>
                    (let mayUse = elems ts; tbHome = path_join [home, ''.truebearing''] in
                     case c_open C of
                       Some err \<Rightarrow> (failed (wrapf (''opening database at '' @ resolveDBPath dbFlag tbHome) err), fs, d)
                     | None \<Rightarrow>
                         (case parent_scope W (c_tools C) name parentName mayUse d of
                            (Inl err, d) \<Rightarrow> (failed err, fs, d)
                          | (Inr parentAllowed, d) \<Rightarrow>
                              issue_credentials A K W policyFile name expiryDays env parentName mayUse parentAllowed tbHome fs d)))))"

section \<open>list and revoke (list.go, revoke.go)\<close>

text \<open>The expiry in seconds, unverified.\<close>

definition jwtExpiry :: "agent_env \<Rightarrow> string \<Rightarrow> int option" where
  "jwtExpiry A tokenStr =
     (case split_on (CHR ''.'') tokenStr of
        [_, payload, _] \<Rightarrow>
          (case b64_DecodeString RawURLEncoding payload of
             None \<Rightarrow> None
           | Some raw \<Rightarrow>
               (case ae_exp A raw of Inl _ \<Rightarrow> None | Inr e \<Rightarrow> if e = 0 then None else Some e))
      | _ \<Rightarrow> None)"

definition agent_cells :: "cli \<Rightarrow> agent_env \<Rightarrow> world \<Rightarrow> Agent \<Rightarrow> string list" where
  "agent_cells C A W a =
     [ag_Name a, ag_PolicyFile a,
      (case AllowedTools W (c_tools C) a of Inl _ \<Rightarrow> ''?'' | Inr ts \<Rightarrow> dec (int (length ts))),
      ae_local A (ag_RegisteredAt a),
      (case jwtExpiry A (ag_JWTPreview a) of None \<Rightarrow> ''unknown'' | Some t \<Rightarrow> ae_local A (t * 1000000000)),
      (case ag_RevokedAt a of None \<Rightarrow> ''active'' | Some t \<Rightarrow> ''REVOKED '' @ ae_local A t)]"

definition agent_list_cmd :: "cli \<Rightarrow> agent_env \<Rightarrow> world \<Rightarrow> string \<Rightarrow> db \<Rightarrow> outcome" where
  "agent_list_cmd C A W dbFlag d =
     (case c_home C of
        Inl err \<Rightarrow> failed (wrapf ''finding home directory'' err)
      | Inr home \<Rightarrow>
          (case c_open C of
             Some err \<Rightarrow> failed (wrapf (''opening database at '' @ resolveDBPath dbFlag (home @ ''/.truebearing'')) err)
           | None \<Rightarrow>
               (case fst (ListAgents W d) of
                  Inl err \<Rightarrow> failed (wrapf ''listing agents'' err)
                | Inr agents \<Rightarrow>
                    (if agents = [] then printed (line ''No registered agents.'')
                     else printed (c_tabwriter C (tabbed [''NAME'', ''POLICY FILE'', ''TOOLS'', ''REGISTERED'', ''EXPIRES'', ''STATUS'']
                            @ concat (map (\<lambda>a. tabbed (agent_cells C A W a)) agents)))))))"

definition runRevoke :: "cli \<Rightarrow> world \<Rightarrow> string \<Rightarrow> string \<Rightarrow> db \<Rightarrow> outcome \<times> db" where
  "runRevoke C W dbFlag name d =
     (case c_home C of
        Inl err \<Rightarrow> (failed (wrapf ''finding home directory'' err), d)
      | Inr home \<Rightarrow>
          (case c_open C of
             Some err \<Rightarrow>
               (failed (wrapf (''opening database at '' @ resolveDBPath dbFlag (path_join [home, ''.truebearing''])) err), d)
           | None \<Rightarrow>
               (case RevokeAgent W name d of
                  (Inl err, d) \<Rightarrow> (failed (wrapf (''revoking agent '' @ qw W name) err), d)
                | (Inr _, d) \<Rightarrow>
                    (printed (line (''Agent '' @ qw W name @ '' has been revoked.'')
                       @ line (''All future proxy requests using this agent'' @ [CHR 0x27] @ ''s JWT will be rejected with HTTP 401.'')
                       @ line (''To restore access: truebearing agent register '' @ name @ '' --policy <policy-file>'')), d))))"

end
