(* ===== verification/TB_AgentFacts.thy ===== *)
theory TB_AgentFacts
  imports TB_AgentCmd
begin

text \<open>
  Registration against authentication: an agent that was registered can authenticate with the token
  written for it, only the key of its last registration counts, and a child never holds more tools
  than its parent.
\<close>

section \<open>Paths\<close>

lemma split_on_ends:
  assumes "c \<notin> set ys"
  shows "\<exists>ps p. split_on c (xs @ ys) = ps @ [p @ ys]"
proof (induction xs)
  case Nil
  have "split_on c ys = [ys]" using assms by (induction ys) auto
  then show ?case by (auto intro: exI [of _ "[]"])
next
  case (Cons x xs)
  then obtain ps p where s: "split_on c (xs @ ys) = ps @ [p @ ys]" by blast
  show ?case
  proof (cases "x = c")
    case True
    with s have "split_on c ((x # xs) @ ys) = ([] # ps) @ [p @ ys]" by simp
    then show ?thesis by blast
  next
    case False
    show ?thesis
    proof (cases ps)
      case Nil
      with s False have "split_on c ((x # xs) @ ys) = [] @ [(x # p) @ ys]" by simp
      then show ?thesis by blast
    next
      case (Cons q qs)
      with s False have "split_on c ((x # xs) @ ys) = ((x # q) # qs) @ [p @ ys]" by simp
      then show ?thesis by blast
    qed
  qed
qed

lemma clean_parts_snoc:
  "p \<notin> {[], ''.'', ''..''} \<Longrightarrow> clean_parts rooted acc (ps @ [p]) = clean_parts rooted acc ps @ [p]"
  by (induction rooted acc ps rule: clean_parts.induct) (auto split: list.split)

lemma join_snoc: "\<exists>x. join sep (ps @ [p]) = x @ p"
proof (induction ps)
  case (Cons q qs)
  then obtain x where x: "join sep (qs @ [p]) = x @ p" by blast
  have "join sep ((q # qs) @ [p]) = (q @ sep @ x) @ p" using x by (cases "qs @ [p]") auto
  then show ?case by blast
qed (auto intro: exI [of _ "[]"])

text \<open>A clean path keeps an extension.\<close>

lemma path_clean_suffix:
  assumes "CHR ''/'' \<notin> set ext" "length ext \<ge> 3"
  shows "suffix ext (path_clean (xs @ ext))"
proof -
  obtain ps p where s: "split_on (CHR ''/'') (xs @ ext) = ps @ [p @ ext]" using split_on_ends [OF assms(1)] by blast
  have "p @ ext \<notin> {[], ''.'', ''..''}" using assms(2) by (auto dest: arg_cong [where f = length])
  note snoc = clean_parts_snoc [OF this, of "prefix ''/'' (xs @ ext)" "[]" ps]
  obtain y where "join ''/'' (clean_parts (prefix ''/'' (xs @ ext)) [] (split_on (CHR ''/'') (xs @ ext))) = y @ p @ ext"
    using join_snoc [of "''/''" "clean_parts (prefix ''/'' (xs @ ext)) [] ps" "p @ ext"] unfolding s snoc by auto
  moreover have "y @ p @ ext \<noteq> []" using assms(2) by auto
  ultimately show ?thesis by (auto simp: path_clean_def Let_def suffix_def)
qed

lemma path_join_suffix:
  assumes "CHR ''/'' \<notin> set ext" "length ext \<ge> 3"
  shows "suffix ext (path_join [dir, name @ ext])"
proof -
  have "name @ ext \<noteq> []" using assms(2) by auto
  then show ?thesis
    using path_clean_suffix [OF assms, of "dir @ ''/'' @ name"] path_clean_suffix [OF assms, of name]
    by (auto simp: path_join_def)
qed

lemma key_paths_differ: "path_join [dir, name @ ''.jwt''] \<noteq> path_join [dir', name' @ ''.pub.pem'']"
proof
  assume eq: "path_join [dir, name @ ''.jwt''] = path_join [dir', name' @ ''.pub.pem'']"
  have "suffix ''.jwt'' (path_join [dir, name @ ''.jwt''])" "suffix ''.pub.pem'' (path_join [dir', name' @ ''.pub.pem''])"
    by (rule path_join_suffix; simp)+
  with eq obtain x y where "x @ ''.jwt'' = y @ ''.pub.pem''" by (auto simp: suffix_def)
  then have "last (x @ ''.jwt'') = last (y @ ''.pub.pem'')" by simp
  then show False by simp
qed

section \<open>A successful registration\<close>

lemma GenerateKeypair_Inr:
  assumes "GenerateKeypair A name dir fs = (Inr (pub, priv), fs')"
  obtains der where "ae_generate A = Inr (pub, priv)" "ae_pkix A pub = Inr der"
    "fs' (path_join [path_join [dir, ''keys''], name @ ''.pub.pem'']) = Inr (ae_pem A ''PUBLIC KEY'' der)"
  using assms
  by (auto simp: GenerateKeypair_def Let_def writePrivateKey_def writePublicKey_def os_WriteFile_def apfst_def map_prod_def
      split: sum.splits prod.splits option.splits)

definition agent_claims :: "string \<Rightarrow> string \<Rightarrow> int \<Rightarrow> int \<Rightarrow> string \<Rightarrow> string list \<Rightarrow> string \<Rightarrow> string slice \<Rightarrow> AgentClaims" where
  "agent_claims name policyFile now expiry env mayUse parentName parentAllowed =
     \<lparr>cl_Registered = \<lparr>rc_IssuedAt = Some (numeric_date now), rc_NotBefore = Some (numeric_date now),
        rc_ExpiresAt = Some (numeric_date (now + expiry))\<rparr>,
      cl_AgentName = name, cl_PolicyFile = policyFile, cl_AllowedTools = Some mayUse, cl_ParentAgent = parentName,
      cl_ParentAllowed = parentAllowed, cl_IssuedByProxy = [], cl_Env = env\<rparr>"

lemma UpsertAgent_Inr:
  assumes "UpsertAgent W a d = (Inr u, d')"
  shows "db_agents d' = filter (\<lambda>x. ag_Name x \<noteq> ag_Name a) (db_agents d) @ [a\<lparr>ag_RevokedAt := None\<rparr>]"
  using assms by (auto simp: UpsertAgent_def db_bind_def db_exec_def tick_def split: sum.splits prod.splits option.splits)

lemma find_snoc_fresh: "find P (filter (\<lambda>x. \<not> P x) xs @ [a]) = (if P a then Some a else None)"
  by (induction xs) auto

lemma issue_credentials_success:
  assumes r: "issue_credentials A K W policyFile name days env parentName mayUse parentAllowed tbHome fs d = (out, fs', d')"
    "o_error out = None"
  obtains pub priv der token where
    "ae_generate A = Inr (pub, priv)" "ae_pkix A pub = Inr der"
    "k_jwt_sign K (agent_claims name policyFile (now_at W d) (expiry_duration days) env mayUse parentName parentAllowed) priv = Inr token"
    "fs' (path_join [path_join [tbHome, ''keys''], name @ ''.jwt'']) = Inr token"
    "find_agent d' name = Some \<lparr>ag_Name = name, ag_PublicKeyPEM = ae_pem A ''PUBLIC KEY'' der, ag_PolicyFile = policyFile,
       ag_AllowedToolsJSON = l_json_text (w_lib W) (J_arr (map J_str mayUse)), ag_RegisteredAt = now_at W d,
       ag_JWTPreview = token, ag_RevokedAt = None\<rparr>"
proof -
  let ?jwt = "path_join [path_join [tbHome, ''keys''], name @ ''.jwt'']"
  let ?pub = "path_join [path_join [tbHome, ''keys''], name @ ''.pub.pem'']"
  obtain pub priv fs1 where g: "GenerateKeypair A name tbHome fs = (Inr (pub, priv), fs1)"
    using r by (auto simp: issue_credentials_def failed_def split: sum.splits prod.splits)
  from GenerateKeypair_Inr [OF g] obtain der where k: "ae_generate A = Inr (pub, priv)" "ae_pkix A pub = Inr der"
    "fs1 ?pub = Inr (ae_pem A ''PUBLIC KEY'' der)" by blast
  let ?c = "agent_claims name policyFile (now_at W d) (expiry_duration days) env mayUse parentName parentAllowed"
  obtain token where t: "k_jwt_sign K ?c priv = Inr token"
    using r g by (auto simp: issue_credentials_def MintAgentJWT_def agent_claims_def failed_def Let_def split: sum.splits)
  let ?a = "\<lparr>ag_Name = name, ag_PublicKeyPEM = ae_pem A ''PUBLIC KEY'' der, ag_PolicyFile = policyFile,
       ag_AllowedToolsJSON = l_json_text (w_lib W) (J_arr (map J_str mayUse)), ag_RegisteredAt = now_at W d,
       ag_JWTPreview = token, ag_RevokedAt = None\<rparr>"
  from r g t have w: "fst (os_WriteFile (ae_write A) ?jwt token fs1) = None"
    by (auto simp: issue_credentials_def MintAgentJWT_def agent_claims_def failed_def Let_def split: prod.splits option.splits)
  then have w': "os_WriteFile (ae_write A) ?jwt token fs1 = (None, fs1(?jwt := Inr token))"
    by (auto simp: os_WriteFile_def split: option.splits)
  have p: "(fs1(?jwt := Inr token)) ?pub = Inr (ae_pem A ''PUBLIC KEY'' der)" using k(3) key_paths_differ [symmetric] by auto
  obtain u where u: "UpsertAgent W ?a d = (Inr u, d')" and fs': "fs' = fs1(?jwt := Inr token)"
    using r g t w' p
    by (auto simp: issue_credentials_def MintAgentJWT_def agent_claims_def failed_def Let_def split: prod.splits sum.splits)
  have "find_agent d' name = Some ?a"
    unfolding find_agent_def UpsertAgent_Inr [OF u] using find_snoc_fresh [of "\<lambda>x :: Agent. ag_Name x = name"] by simp
  with that k t fs' show thesis by simp
qed

lemma runRegister_success:
  assumes r: "runRegister C A K W dbFlag policyFile name days env parentName fs d = (out, fs', d')" "o_error out = None"
  obtains data ts home parentAllowed d1 where
    "fs policyFile = Inr data" "ae_may_use A data = Inr ts" "c_home C = Inr home"
    "parent_scope W (c_tools C) name parentName (elems ts) d = (Inr parentAllowed, d1)"
    "issue_credentials A K W policyFile name days env parentName (elems ts) parentAllowed (path_join [home, ''.truebearing'']) fs d1
       = (out, fs', d')"
  using assms by (auto simp: runRegister_def Let_def failed_def split: sum.splits option.splits prod.splits)

text \<open>The path the token is written to.\<close>

definition token_path :: "string \<Rightarrow> string \<Rightarrow> string" where
  "token_path home name = path_join [path_join [path_join [home, ''.truebearing''], ''keys''], name @ ''.jwt'']"

section \<open>What the libraries promise\<close>

text \<open>
  Encoding a public key and reading it back gives the key; and the JWT library, at the time \<open>now\<close>
  in seconds, accepts under \<open>pub\<close> what was signed with \<open>priv\<close> while it is valid, and its payload names
  the agent of the claims.
\<close>

definition pem_roundtrip :: "agent_env \<Rightarrow> keylib \<Rightarrow> bool" where
  "pem_roundtrip A K \<longleftrightarrow> (\<forall>pub der. ae_pkix A pub = Inr der \<longrightarrow>
     k_pem_decode K (ae_pem A ''PUBLIC KEY'' der) = Some der \<and> k_parse_pkix K der = Inr (EdPublic pub))"

definition valid_at :: "int \<Rightarrow> AgentClaims \<Rightarrow> bool" where
  "valid_at now c = (case (rc_NotBefore (cl_Registered c), rc_ExpiresAt (cl_Registered c)) of
     (Some n, Some e) \<Rightarrow> n \<le> now \<and> now < e | _ \<Rightarrow> False)"

definition jwt_complete :: "keylib \<Rightarrow> string \<Rightarrow> string \<Rightarrow> int \<Rightarrow> bool" where
  "jwt_complete K priv pub now \<longleftrightarrow> (\<forall>c tok. k_jwt_sign K c priv = Inr tok \<longrightarrow>
     compact K tok c \<and>
     (valid_at now c \<longrightarrow> k_jwt_parse K (jwt_key_func pub) [''EdDSA''] True tok = Inr (c, True)))"

lemma GetAgent_fault_free:
  "fault_free W \<Longrightarrow> find_agent d name = Some a \<Longrightarrow> GetAgent W name d = (Inr a, tick d)"
  by (simp add: GetAgent_def Let_def db_read_fault_free)

lemma authenticate_accepts:
  assumes "fault_free W" "find_agent d name = Some agent" "name \<noteq> []" "\<not> IsRevoked agent"
    "parsePublicKeyPEM K (ag_PublicKeyPEM agent) = Inr pub"
    "header ''Authorization'' = ''Bearer '' @ tok" "unverifiedAgentClaim K tok = Inr name"
    "k_jwt_parse K (jwt_key_func pub) [''EdDSA''] True tok = Inr (claims, True)" "cl_AgentName claims = name"
  shows "authenticate W K header d = (Inr claims, tick d)"
proof -
  have "tok \<noteq> []" using assms(7) by (auto simp: unverifiedAgentClaim_def)
  then have b: "bearerToken header = Inr tok"
    using assms(6) by (simp add: bearerToken_def Let_def trim_prefix_def)
  show ?thesis
    using assms by (simp add: authenticate_def b GetAgent_fault_free ValidateAgentJWT_def)
qed

section \<open>Properties\<close>

text \<open>C21: Register, then call. After a registration that succeeded, a request with the token that was
  written to the agent's key directory authenticates while the token is valid, whatever was stored for
  the agent before (a revocation included), and it carries exactly what was registered: the name, the tools of
  the policy's \<open>may_use\<close>, the environment and the parent.\<close>

theorem register_then_authenticate:
  assumes "runRegister C A K W dbFlag policyFile name days env parentName fs d = (out, fs', d')" "o_error out = None"
    "c_home C = Inr home" "fs' (token_path home name) = Inr tok" "name \<noteq> []"
    "header ''Authorization'' = ''Bearer '' @ tok" "fault_free W'" "pem_roundtrip A K"
    "ae_generate A = Inr (pub, priv)" "jwt_complete K priv pub now"
    "\<forall>n. numeric_date (w_clock W n) \<le> now \<and> now < numeric_date (w_clock W n + expiry_duration days)"
    "fs policyFile = Inr data" "ae_may_use A data = Inr ts"
  shows "\<exists>claims. fst (authenticate W' K header d') = Inr claims \<and> cl_AgentName claims = name
    \<and> cl_AllowedTools claims = Some (elems ts) \<and> cl_Env claims = env \<and> cl_ParentAgent claims = parentName"
proof -
  let ?mayUse = "elems ts"
  obtain parentAllowed d1 where s:
    "issue_credentials A K W policyFile name days env parentName ?mayUse parentAllowed (path_join [home, ''.truebearing'']) fs d1
       = (out, fs', d')"
    by (rule runRegister_success [OF assms(1,2)]) (use assms(3,12,13) in auto)
  let ?c = "agent_claims name policyFile (now_at W d1) (expiry_duration days) env ?mayUse parentName parentAllowed"
  from issue_credentials_success [OF s assms(2)] obtain der where k: "ae_pkix A pub = Inr der"
    "k_jwt_sign K ?c priv = Inr tok"
    and f: "find_agent d' name = Some \<lparr>ag_Name = name, ag_PublicKeyPEM = ae_pem A ''PUBLIC KEY'' der, ag_PolicyFile = policyFile,
       ag_AllowedToolsJSON = l_json_text (w_lib W) (J_arr (map J_str ?mayUse)), ag_RegisteredAt = now_at W d1,
       ag_JWTPreview = tok, ag_RevokedAt = None\<rparr>"
    using assms(4,9) by (auto simp: token_path_def)
  have v: "valid_at now ?c"
    using assms(11) by (simp add: valid_at_def agent_claims_def now_at_def)
  have p: "parsePublicKeyPEM K (ae_pem A ''PUBLIC KEY'' der) = Inr pub"
    using assms(8) k(1) by (simp add: pem_roundtrip_def parsePublicKeyPEM_def)
  have j: "unverifiedAgentClaim K tok = Inr name" "k_jwt_parse K (jwt_key_func pub) [''EdDSA''] True tok = Inr (?c, True)"
    using assms(10) k(2) v compact_claim by (fastforce simp: jwt_complete_def agent_claims_def)+
  have "authenticate W' K header d' = (Inr ?c, tick d')"
    by (rule authenticate_accepts [where name = name and pub = pub and header = header and tok = tok, OF assms(7) f assms(5) _ _ assms(6) j])
      (simp_all add: IsRevoked_def p agent_claims_def)
  then show ?thesis by (simp add: agent_claims_def)
qed

text \<open>A sample environment: one key pair, and a library that signs and accepts one claims set.\<close>

definition reg_env :: agent_env where
  "reg_env =
     \<lparr>ae_generate = Inr (''KEY'', ''PRIV''), ae_pkcs8 = Inr, ae_pkix = Inr, ae_pem = (\<lambda>t der. der), ae_mkdir = (\<lambda>_. None),
      ae_write = (\<lambda>_. None), ae_may_use = (\<lambda>_. Inr (Some [''read''])), ae_exp = (\<lambda>_. Inr 0), ae_local = dec\<rparr>"

definition reg_claims :: AgentClaims where
  "reg_claims = agent_claims ''pay'' ''p.yaml'' 5000000000 (expiry_duration 1) ''prod'' [''read''] [] None"

definition reg_keylib :: keylib where
  "reg_keylib = sample_keylib0\<lparr>k_parse_pkix := (\<lambda>d. Inr (EdPublic d)),
     k_jwt_sign := (\<lambda>c key. if c = reg_claims \<and> key = ''PRIV'' then Inr (sample_token ''pay'') else Inl (errorf ''sign'')),
     k_jwt_parse := (\<lambda>kf algs req tok. if tok = sample_token ''pay'' \<and> kf \<lparr>jh_is_ed25519 = True, jh_alg = ''EdDSA''\<rparr> = Inr ''KEY''
        \<and> ''EdDSA'' \<in> set algs then Inr (reg_claims, True) else Inl (errorf ''token is malformed''))\<rparr>"

definition reg_world :: world where
  "reg_world = sample_auth_world\<lparr>w_clock := (\<lambda>_. 5000000000)\<rparr>"

definition reg_run :: "outcome \<times> fsys \<times> db" where
  "reg_run = runRegister sample_cli reg_env reg_keylib reg_world [] ''p.yaml'' ''pay'' 1 ''prod'' []
     (\<lambda>p. if p = ''p.yaml'' then Inr ''A'' else Inl (errorf ''no such file'')) (empty_db\<lparr>db_agents := [sample_agent\<lparr>ag_RevokedAt := Some 3\<rparr>]\<rparr>)"

lemma reg_run_ok: "o_error (fst reg_run) = None" "fst (snd reg_run) ''/h/.truebearing/keys/pay.jwt'' = Inr (sample_token ''pay'')"
  "token_path ''/h'' ''pay'' = ''/h/.truebearing/keys/pay.jwt''"
  by code_simp+

lemma register_then_authenticate_witness:
  "\<exists>claims. fst (authenticate sample_auth_world reg_keylib sample_header (snd (snd reg_run))) = Inr claims
     \<and> cl_AgentName claims = ''pay'' \<and> cl_AllowedTools claims = Some [''read''] \<and> cl_Env claims = ''prod''"
proof -
  let ?fs = "\<lambda>p. if p = ''p.yaml'' then Inr ''A'' else Inl (errorf ''no such file'')"
  let ?d = "empty_db\<lparr>db_agents := [sample_agent\<lparr>ag_RevokedAt := Some 3\<rparr>]\<rparr>"
  have run: "runRegister sample_cli reg_env reg_keylib reg_world [] ''p.yaml'' ''pay'' 1 ''prod'' [] ?fs ?d
      = (fst reg_run, fst (snd reg_run), snd (snd reg_run))"
    by (simp add: reg_run_def)
  have home: "c_home sample_cli = Inr ''/h''" by (simp add: sample_cli_def)
  have tok: "fst (snd reg_run) (token_path ''/h'' ''pay'') = Inr (sample_token ''pay'')"
    using reg_run_ok by simp
  have hd: "sample_header ''Authorization'' = ''Bearer '' @ sample_token ''pay''" by (simp add: sample_header_def)
  have ff: "fault_free sample_auth_world" by (simp add: fault_free_def sample_auth_world_def)
  have pem: "pem_roundtrip reg_env reg_keylib"
    by (simp add: pem_roundtrip_def reg_env_def reg_keylib_def sample_keylib0_def)
  have "unverifiedAgentClaim reg_keylib (sample_token ''pay'') = Inr (cl_AgentName reg_claims)" by code_simp
  from claim_compact [OF this] have jwt: "jwt_complete reg_keylib ''PRIV'' ''KEY'' 5"
    by (auto simp: jwt_complete_def reg_keylib_def jwt_key_func_def reg_claims_def agent_claims_def split: if_splits)
  have clock: "\<forall>n. numeric_date (w_clock reg_world n) \<le> 5 \<and> 5 < numeric_date (w_clock reg_world n + expiry_duration 1)"
    by (simp add: reg_world_def numeric_date_def expiry_duration_def wrap64_id)
  show ?thesis
    using register_then_authenticate [where header = sample_header and tok = "sample_token ''pay''" and fs = ?fs and name = "''pay''"
        and W' = sample_auth_world and pub = "''KEY''" and priv = "''PRIV''" and data = "''A''",
        OF run reg_run_ok(1) home tok _ hd ff pem _ jwt clock, where ts = "Some [''read'']"]
    by (auto simp: reg_env_def)
qed

text \<open>C22: Credentials rotate. After a registration that succeeded, a request is accepted under the
  agent's name only with a token signed by the key that registration generated: tokens issued before it are
  refused, however long they are still valid.\<close>

theorem reregistration_rotates_keys:
  assumes "runRegister C A K W dbFlag policyFile name days env parentName fs d = (out, fs', d')" "o_error out = None"
    "ae_generate A = Inr (pub, priv)" "pem_roundtrip A K" "jwt_sound K signed_by"
    "authenticate W' K header d' = (Inr claims, d'')" "cl_AgentName claims = name"
  shows "\<exists>tok. bearerToken header = Inr tok \<and> signed_by pub tok claims"
proof -
  obtain mayUse home parentAllowed d1 where
    "issue_credentials A K W policyFile name days env parentName mayUse parentAllowed (path_join [home, ''.truebearing'']) fs d1
       = (out, fs', d')"
    by (rule runRegister_success [OF assms(1,2)]) blast
  then obtain der row where "ae_pkix A pub = Inr der"
    and f: "find_agent d' name = Some row" "ag_PublicKeyPEM row = ae_pem A ''PUBLIC KEY'' der"
    by (rule issue_credentials_success [OF _ assms(2)]) (use assms(3) in simp)
  then have p: "parsePublicKeyPEM K (ag_PublicKeyPEM row) = Inr pub"
    using assms(4) by (simp add: pem_roundtrip_def parsePublicKeyPEM_def)
  obtain tok name' agent key where a: "bearerToken header = Inr tok" "unverifiedAgentClaim K tok = Inr name'"
    "find_agent d' name' = Some agent" "parsePublicKeyPEM K (ag_PublicKeyPEM agent) = Inr key"
    "ValidateAgentJWT K tok key = Inr claims" by (rule authenticate_Inr [OF assms(6)])
  from a(5) have "k_jwt_parse K (jwt_key_func key) [''EdDSA''] True tok = Inr (claims, True)"
    by (auto simp: ValidateAgentJWT_def split: sum.splits if_splits)
  with assms(5) obtain h key' where j: "jwt_key_func key h = Inr key'" "signed_by key' tok claims"
    "compact K tok claims" unfolding jwt_sound_def by blast
  from compact_claim [OF j(3)] a(2) assms(7) have "name' = name" by simp
  with a(3,4) f(1) p have "key = pub" by simp
  with j(1,2) a(1) show ?thesis by (auto simp: jwt_key_func_def split: if_splits)
qed

lemma reregistration_rotates_keys_witness:
  "\<exists>tok. bearerToken sample_header = Inr tok \<and> (''KEY'' :: string) = ''KEY'' \<and> tok = sample_token ''pay''"
proof -
  let ?fs = "\<lambda>p. if p = ''p.yaml'' then Inr ''A'' else Inl (errorf ''no such file'')"
  let ?d = "empty_db\<lparr>db_agents := [sample_agent\<lparr>ag_RevokedAt := Some 3\<rparr>]\<rparr>"
  let ?signed = "\<lambda>key tok c. key = ''KEY'' \<and> tok = sample_token ''pay''"
  have run: "runRegister sample_cli reg_env reg_keylib reg_world [] ''p.yaml'' ''pay'' 1 ''prod'' [] ?fs ?d
      = (fst reg_run, fst (snd reg_run), snd (snd reg_run))"
    by (simp add: reg_run_def)
  have gen: "ae_generate reg_env = Inr (''KEY'', ''PRIV'')" by (simp add: reg_env_def)
  have pem: "pem_roundtrip reg_env reg_keylib"
    by (simp add: pem_roundtrip_def reg_env_def reg_keylib_def sample_keylib0_def)
  have "\<exists>h key. kf h = Inr key \<and> jh_alg h \<in> set algs \<and> ?signed key tok c"
    if "k_jwt_parse reg_keylib kf algs req tok = Inr (c, True)" for kf algs req tok c
    using that by (intro exI [of _ "\<lparr>jh_is_ed25519 = True, jh_alg = ''EdDSA''\<rparr>"] exI [of _ "''KEY''"])
      (simp add: reg_keylib_def split: if_splits)
  moreover have "tok = sample_token ''pay'' \<and> c = reg_claims" if "k_jwt_parse reg_keylib kf algs req tok = Inr (c, True)" for kf algs req tok c
    using that by (simp add: reg_keylib_def split: if_splits)
  moreover have "unverifiedAgentClaim reg_keylib (sample_token ''pay'') = Inr (cl_AgentName reg_claims)"
    "rc_ExpiresAt (cl_Registered reg_claims) \<noteq> None" by code_simp+
  ultimately have sound: "jwt_sound reg_keylib ?signed" using claim_compact unfolding jwt_sound_def by blast
  have auth: "authenticate sample_auth_world reg_keylib sample_header (snd (snd reg_run)) = (Inr reg_claims, tick (snd (snd reg_run)))"
    by code_simp
  have "cl_AgentName reg_claims = ''pay''" by code_simp
  from reregistration_rotates_keys [OF run reg_run_ok(1) gen pem sound auth this] show ?thesis by blast
qed

text \<open>A child never exceeds its parent: a registration with \<open>--parent\<close> that succeeds found the parent
  registered, and every tool of the child's policy is among the parent's allowed tools.\<close>

theorem child_within_parent:
  assumes "runRegister C A K W dbFlag policyFile name days env parentName fs d = (out, fs', d')" "o_error out = None"
    "parentName \<noteq> []" "fs policyFile = Inr data" "ae_may_use A data = Inr ts"
  shows "\<exists>parent ps. find_agent d parentName = Some parent \<and> AllowedTools W (c_tools C) parent = Inr ps
    \<and> set (elems ts) \<subseteq> set ps"
proof -
  obtain parentAllowed d1 where "parent_scope W (c_tools C) name parentName (elems ts) d = (Inr parentAllowed, d1)"
    by (rule runRegister_success [OF assms(1,2)]) (use assms(4,5) in auto)
  then show ?thesis using assms(3)
    by (auto simp: parent_scope_def Let_def filter_empty_conv dest!: GetAgent_Inr split: prod.splits sum.splits if_splits)
qed

definition reg_child :: "string list \<Rightarrow> outcome \<times> fsys \<times> db" where
  "reg_child ts = runRegister (sample_cli\<lparr>c_tools := (\<lambda>_. Inr [''read'', ''wire''])\<rparr>) (reg_env\<lparr>ae_may_use := (\<lambda>_. Inr (Some ts))\<rparr>)
     (reg_keylib\<lparr>k_jwt_sign := (\<lambda>c k. Inr ''t'')\<rparr>) reg_world [] ''p.yaml'' ''kid'' 1 [] ''pay''
     (\<lambda>p. if p = ''p.yaml'' then Inr ''A'' else Inl (errorf ''no such file'')) (empty_db\<lparr>db_agents := [sample_agent]\<rparr>)"

lemma child_within_parent_witness:
  "set (elems (Some [''read''])) \<subseteq> set [''read'', ''wire''] \<and> o_error (fst (reg_child [''read''])) = None
   \<and> o_error (fst (reg_child [''admin''])) \<noteq> None"
proof -
  have run: "runRegister (sample_cli\<lparr>c_tools := (\<lambda>_. Inr [''read'', ''wire''])\<rparr>) (reg_env\<lparr>ae_may_use := (\<lambda>_. Inr (Some [''read'']))\<rparr>)
     (reg_keylib\<lparr>k_jwt_sign := (\<lambda>c k. Inr ''t'')\<rparr>) reg_world [] ''p.yaml'' ''kid'' 1 [] ''pay''
     (\<lambda>p. if p = ''p.yaml'' then Inr ''A'' else Inl (errorf ''no such file'')) (empty_db\<lparr>db_agents := [sample_agent]\<rparr>)
     = (fst (reg_child [''read'']), fst (snd (reg_child [''read''])), snd (snd (reg_child [''read''])))"
    by (simp add: reg_child_def)
  have ok: "o_error (fst (reg_child [''read''])) = None" "o_error (fst (reg_child [''admin''])) \<noteq> None" by code_simp+
  from child_within_parent [OF run ok(1), where data = "''A''" and ts = "Some [''read'']"] ok
  show ?thesis by (auto simp: AllowedTools_def)
qed

end
