(* ===== verification/TB_SessionCmd.thy ===== *)
theory TB_SessionCmd
  imports TB_AuditCmd "HOL-Library.Signed_Division"
begin

text \<open>
  The commands an operator watches and steers a running proxy with: \<open>session list\<close>, \<open>inspect\<close> and
  \<open>terminate\<close> (\<open>cmd/session\<close>) and \<open>escalation list\<close>, \<open>approve\<close> and \<open>reject\<close> (\<open>cmd/escalation\<close>), with the
  inference of taint from a session's events that the Mermaid export rests on.
\<close>

section \<open>Ages\<close>

text \<open>
  \<open>Duration.Seconds\<close>, \<open>Minutes\<close> and \<open>Hours\<close>: the whole units plus the rest as a float64, then
  \<open>int\<close>, which truncates towards zero.
\<close>

definition duration_in :: "int \<Rightarrow> int \<Rightarrow> float64" where
  "duration_in unit' d = f_add (f_of_int (d sdiv unit')) (round64 (of_int (d smod unit') / of_int unit'))"

definition trunc_int :: "float64 \<Rightarrow> int" where
  "trunc_int f = (case f of Fin x \<Rightarrow> if 0 \<le> x then \<lfloor>x\<rfloor> else \<lceil>x\<rceil> | _ \<Rightarrow> 0)"

definition formatSessionAge :: "int \<Rightarrow> string" where
  "formatSessionAge d =
     (if d < 60000000000 then dec (trunc_int (duration_in 1000000000 d)) @ ''s''
      else if d < 3600000000000 then dec (trunc_int (duration_in 60000000000 d)) @ ''m''
      else dec (trunc_int (duration_in 3600000000000 d)) @ ''h'')"

definition formatAge :: "int \<Rightarrow> string" where
  "formatAge d =
     (if d < 60000000000 then dec (trunc_int (duration_in 1000000000 d)) @ ''s''
      else if d < 3600000000000 then dec (trunc_int (duration_in 60000000000 d)) @ ''m''
      else dec (trunc_int (duration_in 3600000000000 d)) @ ''h'')"

section \<open>session list (list.go)\<close>

definition resolveSessionDBPath :: "cli \<Rightarrow> string \<Rightarrow> string" where
  "resolveSessionDBPath C dbFlag = db_path C dbFlag"

definition yes_no :: "bool \<Rightarrow> string" where
  "yes_no b = (if b then ''YES'' else ''no'')"

definition writeSessionTable :: "cli \<Rightarrow> int \<Rightarrow> SessionRow list \<Rightarrow> string" where
  "writeSessionTable C now sessions =
     (if sessions = [] then line ''(no active sessions)''
      else
        c_tabwriter C
          (tabbed [''ID'', ''AGENT'', ''POLICY'', ''TAINTED'', ''CALLS'', ''COST ($)'', ''AGE'']
           @ concat (map (\<lambda>s. tabbed [take_runes 8 (sr_ID s), sr_AgentName s, take_runes 8 (sr_PolicyFingerprint s),
                yes_no (sr_Tainted s), dec (sr_ToolCallCount s), fmt_fixed 4 (sr_EstimatedCostUSD s),
                formatSessionAge (wrap64 (now - sr_CreatedAt s))]) sessions)))"

definition session_list_cmd :: "cli \<Rightarrow> world \<Rightarrow> string \<Rightarrow> db \<Rightarrow> outcome" where
  "session_list_cmd C W dbFlag d =
     (case c_open C of
        Some err \<Rightarrow> failed (wrapf (''opening database at '' @ resolveSessionDBPath C dbFlag) err)
      | None \<Rightarrow>
          (case ListSessions W d of
             (Inl err, d) \<Rightarrow> failed (wrapf ''listing sessions'' err)
           | (Inr sessions, d) \<Rightarrow> printed (writeSessionTable C (now_at W d) sessions)))"

section \<open>session inspect (inspect.go)\<close>

definition writeInspectOutput :: "cli \<Rightarrow> Session \<Rightarrow> SessionEvent list \<Rightarrow> string" where
  "writeInspectOutput C sess events =
     line (''Session:    '' @ s_ID sess) @ line (''Agent:      '' @ s_AgentName sess)
     @ line (''Policy:     '' @ take_runes 16 (s_PolicyFingerprint sess))
     @ line (''Tainted:    '' @ yes_no (s_Tainted sess)) @ line (''Terminated: '' @ yes_no (s_Terminated sess)) @ line []
     @ (if events = [] then line ''(no events recorded for this session)''
        else
          c_tabwriter C
            (tabbed [''SEQ'', ''TOOL'', ''DECISION'', ''RULE'', ''TIME'']
             @ concat (map (\<lambda>e. tabbed [dec (int (e_Seq e)), e_ToolName e, e_Decision e,
                  (if e_PolicyRule e = [] then ''-'' else e_PolicyRule e), c_rfc3339 C (e_RecordedAt e)]) events)))"

definition mermaidDecisionLabel :: "cli \<Rightarrow> string \<Rightarrow> string" where
  "mermaidDecisionLabel C decision =
     (if decision = ''allow'' then ''ALLOWED''
      else if decision = ''deny'' then ''DENIED''
      else if decision = ''shadow_deny'' then ''SHADOW DENIED''
      else if decision = ''escalate'' then ''ESCALATED''
      else ToUpper C decision)"

text \<open>The loop of \<open>detectTaintCausingEvents\<close>: the marked numbers, \<open>lastAllowedSeq\<close> and \<open>taintActive\<close>.\<close>

type_synonym taint_scan = "nat list \<times> nat \<times> bool"

definition taint_rule :: string where "taint_rule = ''taint.session_tainted''"

definition taint_switch :: "SessionEvent \<Rightarrow> taint_scan \<Rightarrow> taint_scan" where
  "taint_switch e st =
     (let (result, lastAllowedSeq, taintActive) = st in
      if e_Decision e = ''allow'' \<or> e_Decision e = ''shadow_deny'' then
        (if e_PolicyRule e \<noteq> taint_rule then (result, e_Seq e, taintActive) else st)
      else if e_Decision e = ''deny'' then
        (if e_PolicyRule e = taint_rule \<and> \<not> taintActive then
           (if lastAllowedSeq > 0 then result @ [lastAllowedSeq] else result, lastAllowedSeq, True)
         else st)
      else st)"

definition taint_step :: "SessionEvent \<Rightarrow> taint_scan \<Rightarrow> taint_scan" where
  "taint_step e st =
     (let (result, lastAllowedSeq, taintActive) = taint_switch e st in
      if e_Decision e = ''allow'' \<and> taintActive then (result, e_Seq e, False)
      else (result, lastAllowedSeq, taintActive))"

definition detectTaintCausingEvents :: "SessionEvent list \<Rightarrow> nat list" where
  "detectTaintCausingEvents events = fst (fold taint_step events ([], 0, False))"

definition participant_name :: "string \<Rightarrow> string" where
  "participant_name agentName =
     (let p = map (\<lambda>c. if c = CHR '' '' then CHR ''_'' else c) agentName in if p = [] then ''Agent'' else p)"

definition mermaid_event :: "cli \<Rightarrow> string \<Rightarrow> nat list \<Rightarrow> Escalation list \<Rightarrow> SessionEvent \<Rightarrow> string" where
  "mermaid_event C participant taintCausing escalations e =
     line (''    '' @ participant @ ''->>Proxy: '' @ e_ToolName e @ '' ('' @ mermaidDecisionLabel C (e_Decision e) @ '')'')
     @ (if e_Seq e \<in> set taintCausing then line ''    Note over Proxy: session tainted'' else [])
     @ (if e_Decision e = ''deny'' \<or> e_Decision e = ''shadow_deny'' then
          line (''    Note over Proxy: reason: '' @ (if e_PolicyRule e = [] then ''policy_violation'' else e_PolicyRule e))
        else [])
     @ (if e_Decision e = ''escalate'' then
          line (''    Note over Proxy: ESCALATED '' @ right_arrow @ '' ''
            @ (case escBySeq escalations (e_Seq e) of None \<Rightarrow> ''PENDING'' | Some esc \<Rightarrow> ToUpper C (es_Status esc)))
        else [])"

definition writeMermaidOutput :: "cli \<Rightarrow> string \<Rightarrow> SessionEvent list \<Rightarrow> Escalation list \<Rightarrow> string" where
  "writeMermaidOutput C agentName events escalations =
     line ''sequenceDiagram''
     @ concat (map (mermaid_event C (participant_name agentName) (detectTaintCausingEvents events) escalations) events)"

definition session_not_found :: "world \<Rightarrow> string \<Rightarrow> gerr" where
  "session_not_found W sessionID = errorf (''session '' @ qw W sessionID @ '' not found'')"

definition inspect_cmd :: "cli \<Rightarrow> world \<Rightarrow> string \<Rightarrow> string \<Rightarrow> string \<Rightarrow> db \<Rightarrow> outcome" where
  "inspect_cmd C W dbFlag format sessionID d =
     (if format \<noteq> ''table'' \<and> format \<noteq> ''mermaid'' then
        failed (errorf (''unknown format '' @ qw W format @ '': must be '' @ [CHR 0x22] @ ''table'' @ [CHR 0x22] @ '' or ''
          @ [CHR 0x22] @ ''mermaid'' @ [CHR 0x22]))
      else
        (case c_open C of
           Some err \<Rightarrow> failed (wrapf (''opening database at '' @ resolveSessionDBPath C dbFlag) err)
         | None \<Rightarrow>
             (case GetSession W sessionID d of
                (Inl err, d) \<Rightarrow>
                  (if errors_Is err SqlErrNoRows then failed (session_not_found W sessionID)
                   else failed (wrapf (''looking up session '' @ qw W sessionID) err))
              | (Inr sess, d) \<Rightarrow>
                  (case store_GetSessionEvents W sessionID d of
                     (Inl err, d) \<Rightarrow> failed (wrapf (''getting events for session '' @ qw W sessionID) err)
                   | (Inr events, d) \<Rightarrow>
                       (if format = ''mermaid'' then
                          (case GetEscalationsBySession W sessionID d of
                             (Inl err, d) \<Rightarrow> failed (wrapf (''getting escalations for session '' @ qw W sessionID) err)
                           | (Inr escalations, d) \<Rightarrow> printed (writeMermaidOutput C (s_AgentName sess) events escalations))
                        else printed (writeInspectOutput C sess events))))))"

section \<open>session terminate (terminate.go)\<close>

definition terminate_cmd :: "cli \<Rightarrow> world \<Rightarrow> string \<Rightarrow> string \<Rightarrow> db \<Rightarrow> outcome \<times> db" where
  "terminate_cmd C W dbFlag sessionID d =
     (case c_open C of
        Some err \<Rightarrow> (failed (wrapf (''opening database at '' @ resolveSessionDBPath C dbFlag) err), d)
      | None \<Rightarrow>
          (case TerminateSession W sessionID d of
             (Inl err, d) \<Rightarrow>
               (if errors_Is err SqlErrNoRows then failed (session_not_found W sessionID)
                else failed (wrapf (''terminating session '' @ qw W sessionID) err), d)
           | (Inr _, d) \<Rightarrow> (printed (line (''Session '' @ sessionID @ '' terminated.'')), d)))"

section \<open>escalation list, approve, reject (cmd/escalation)\<close>

definition resolveEscalationDBPath :: "cli \<Rightarrow> string \<Rightarrow> string" where
  "resolveEscalationDBPath C dbFlag = db_path C dbFlag"

definition args_preview :: "string \<Rightarrow> string" where
  "args_preview s = (if length s > 40 then take 37 s @ ''...'' else s)"

definition writeEscalationTable :: "cli \<Rightarrow> int \<Rightarrow> Escalation list \<Rightarrow> string" where
  "writeEscalationTable C now escs =
     (if escs = [] then line ''(no escalations match the given filters)''
      else
        c_tabwriter C
          (tabbed [''ID'', ''SESSION'', ''TOOL'', ''STATUS'', ''AGE'', ''ARGS PREVIEW'']
           @ concat (map (\<lambda>e. tabbed [take_runes 8 (es_ID e), take_runes 8 (es_SessionID e), es_ToolName e, es_Status e,
                formatAge (wrap64 (now - es_CreatedAt e)), args_preview (es_ArgumentsJSON e)]) escs)))"

definition runList :: "cli \<Rightarrow> world \<Rightarrow> string \<Rightarrow> string \<Rightarrow> db \<Rightarrow> outcome" where
  "runList C W dbFlag status d =
     (case c_open C of
        Some err \<Rightarrow> failed (wrapf (''opening database at '' @ resolveEscalationDBPath C dbFlag) err)
      | None \<Rightarrow>
          (case ListEscalations W status d of
             (Inl err, d) \<Rightarrow> failed (wrapf ''listing escalations'' err)
           | (Inr escs, d) \<Rightarrow> printed (writeEscalationTable C (now_at W d) escs)))"

definition escalation_list_cmd :: "cli \<Rightarrow> world \<Rightarrow> string \<Rightarrow> string \<Rightarrow> db \<Rightarrow> outcome" where
  "escalation_list_cmd C W dbFlag status d =
     (if status \<notin> {[], ''pending'', ''approved'', ''rejected''} then
        failed (errorf (''--status must be pending, approved, or rejected (got '' @ qw W status @ '')''))
      else runList C W dbFlag status d)"

definition approve_cmd :: "cli \<Rightarrow> world \<Rightarrow> string \<Rightarrow> string \<Rightarrow> string \<Rightarrow> db \<Rightarrow> outcome \<times> db" where
  "approve_cmd C W dbFlag id' note' d =
     (case c_open C of
        Some err \<Rightarrow> (failed (wrapf (''opening database at '' @ resolveEscalationDBPath C dbFlag) err), d)
      | None \<Rightarrow>
          (case esc_Approve W id' note' d of
             (Inl err, d) \<Rightarrow> (failed err, d)
           | (Inr _, d) \<Rightarrow> (printed (line (''Escalation '' @ id' @ '' approved.'')), d)))"

definition reject_cmd :: "cli \<Rightarrow> world \<Rightarrow> string \<Rightarrow> string \<Rightarrow> string \<Rightarrow> db \<Rightarrow> outcome \<times> db" where
  "reject_cmd C W dbFlag id' reason d =
     (case c_open C of
        Some err \<Rightarrow> (failed (wrapf (''opening database at '' @ resolveEscalationDBPath C dbFlag) err), d)
      | None \<Rightarrow>
          (case esc_Reject W id' reason d of
             (Inl err, d) \<Rightarrow> (failed err, d)
           | (Inr _, d) \<Rightarrow> (printed (line (''Escalation '' @ id' @ '' rejected.'')), d)))"

end
