(* ===== verification/TB_SessionFacts.thy ===== *)
theory TB_SessionFacts
  imports TB_SessionCmd TB_ProxyRuns
begin

text \<open>
  What the operator commands achieve: a terminated session is closed for good, and every taint mark
  of the Mermaid export points at the last executed call before a taint denial.
\<close>

section \<open>Termination\<close>

lemma TerminateSession_Inr:
  assumes "TerminateSession W sid d = (Inr u, d')"
  obtains row where "find_session d' sid = Some row" "sr_Terminated row"
proof -
  let ?f = "\<lambda>r. r\<lparr>sr_Terminated := True, sr_LastSeenAt := now_at W d\<rparr>"
  from assms have e: "exec_session_update W (''terminating session '' @ qw W sid)
      (''checking rows affected for session '' @ qw W sid @ '' termination'') sid ?f d = (Inr u, d')"
    by (simp add: TerminateSession_def Let_def)
  then show thesis
  proof (cases rule: exec_session_update_cases)
    case updated
    then obtain r where r: "find_session d sid = Some r" using find_session_None [of d sid] by (cases "find_session d sid") auto
    have "find_session d' sid = Some (?f r)"
      using find_session_updated [OF r, of ?f sid] find_session_same [OF updated(2)] by simp
    with that show thesis by simp
  qed simp_all
qed

lemma terminate_cmd_closes:
  assumes "terminate_cmd C W dbFlag sid d = (out, d')" "o_error out = None"
  obtains row where "find_session d' sid = Some row" "sr_Terminated row" "effects d d'"
proof -
  from assms obtain u where u: "TerminateSession W sid d = (Inr u, d')"
    by (auto simp: terminate_cmd_def failed_def split: option.splits sum.splits prod.splits if_splits)
  have "store_call W d (snd (TerminateSession W sid d))" by (rule store_call.intros)
  then have "effects d d'" using u store_call_effect effects_single by fastforce
  with TerminateSession_Inr [OF u] that show thesis by blast
qed

text \<open>C20: Termination by the operator is final. After \<open>session terminate\<close> succeeded, whatever happens to the
  proxy in between, a tool call on the session is refused with status 400, 401 or 410, is not evaluated, and
  leaves no event and no audit record. The one exception is the proxy's own tool: a \<open>check_escalation_status\<close>
  poll is still answered with status 200, without being forwarded or recorded.\<close>

theorem terminate_closes_session:
  assumes "terminate_cmd C W dbFlag (session_header r) (px_db p) = (out, d)" "o_error out = None" "px_ok p"
    "px_run N (p\<lparr>px_db := d\<rparr>) p1" "rq_path r \<noteq> ''/health''" "tool_call_of N r = Some (q, ps)"
    "serve N stat r p1 = (p', rep)"
  shows "(\<exists>code b. rep = Reply code b \<and> (code \<in> {400, 401, 410} \<or> code = 200 \<and> ca_Name ps = ''check_escalation_status''))
    \<and> db_events (px_db p') = db_events (px_db p1) \<and> db_audit (px_db p') = db_audit (px_db p1)"
proof -
  obtain row where row: "find_session d (session_header r) = Some row" "sr_Terminated row" "effects (px_db p) d"
    by (rule terminate_cmd_closes [OF assms(1,2)])
  have "px_ok (p\<lparr>px_db := d\<rparr>)" using assms(3) row(3) by (auto simp: px_ok_def intro: effects_wf)
  from px_run_ok [OF assms(4) this] have p1: "px_ok p1" "effects d (px_db p1)" by simp_all
  from effects_session [OF p1(2) row(1)] row(2) obtain row' where
    "find_session (px_db p1) (session_header r) = Some row'" "sr_Terminated row'"
    by (auto simp: session_advance_def)
  moreover have "lru_inv (px_polCache p1)" using p1(1) by (simp add: px_ok_def cache_keyed_inv)
  ultimately show ?thesis using terminated_session_refused assms(5-7) by blast
qed

lemma terminate_closes_session_witness:
  "db_events (px_db (fst (serve sample_net (\<lambda>_. True) (sample_request ''read'')
      (sample_run\<lparr>px_db := snd (terminate_cmd sample_cli sample_world [] ''s1'' (px_db sample_run))\<rparr>))))
    = db_events (px_db sample_run)"
proof -
  let ?t = "terminate_cmd sample_cli sample_world [] (session_header (sample_request ''read'')) (px_db sample_run)"
  have h: "session_header (sample_request ''read'') = ''s1''" by code_simp
  have ok: "px_ok sample_run"
    using px_run_ok [OF sample_run_run] new_proxy_ok [OF sample_db_wf] by (simp add: sample_proxy_def)
  let ?p = "fst (serve sample_net (\<lambda>_. False) (sample_request ''read'') sample_proxy)"
  have run: "sample_run = ?p" by (simp add: sample_run_def)
  have "o_error (fst (terminate_cmd sample_cli sample_world [] (session_header (sample_request ''read'')) (px_db ?p))) = None"
    "db_events (snd (terminate_cmd sample_cli sample_world [] (session_header (sample_request ''read'')) (px_db ?p))) = db_events (px_db ?p)"
    by code_simp+
  then have t: "o_error (fst ?t) = None" "db_events (snd ?t) = db_events (px_db sample_run)" by (simp_all only: run)
  from terminate_closes_session [OF prod.collapse [symmetric] t(1) ok px_run.start sample_path sample_call_of(1)
      prod.collapse [symmetric], of "\<lambda>_. True"]
  show ?thesis using t(2) by (simp add: h)
qed

section \<open>Taint marks\<close>

definition call_ran :: "SessionEvent \<Rightarrow> bool" where
  "call_ran e = (e_Decision e = ''allow'' \<or> e_Decision e = ''shadow_deny'')"

definition candidate :: "SessionEvent \<Rightarrow> bool" where
  "candidate e = (call_ran e \<and> e_PolicyRule e \<noteq> taint_rule)"

definition taint_denial :: "SessionEvent \<Rightarrow> bool" where
  "taint_denial e = (e_Decision e = ''deny'' \<and> e_PolicyRule e = taint_rule)"

text \<open>\<open>n\<close> is the number of the last executed call of \<open>evs\<close>.\<close>

definition last_executed :: "SessionEvent list \<Rightarrow> nat \<Rightarrow> bool" where
  "last_executed evs n \<longleftrightarrow> (\<exists>pre e mid. evs = pre @ e # mid \<and> e_Seq e = n \<and> call_ran e \<and> list_all (\<lambda>m. \<not> candidate m) mid)"

definition explained :: "SessionEvent list \<Rightarrow> nat \<Rightarrow> bool" where
  "explained evs n \<longleftrightarrow> (\<exists>pre e post. evs = pre @ e # post \<and> last_executed pre n \<and> taint_denial e)"

lemma last_executed_snoc:
  "call_ran e \<Longrightarrow> last_executed (evs @ [e]) (e_Seq e)"
  "last_executed evs n \<Longrightarrow> \<not> candidate e \<Longrightarrow> last_executed (evs @ [e]) n"
proof -
  show "last_executed (evs @ [e]) (e_Seq e)" if "call_ran e"
    unfolding last_executed_def by (rule exI [of _ evs], rule exI [of _ e], rule exI [of _ "[]"]) (use that in simp)
  assume "last_executed evs n" "\<not> candidate e"
  then obtain pre x mid where "evs = pre @ x # mid" "e_Seq x = n" "call_ran x" "list_all (\<lambda>m. \<not> candidate m) mid"
    by (auto simp: last_executed_def)
  with \<open>\<not> candidate e\<close> show "last_executed (evs @ [e]) n"
    unfolding last_executed_def by (intro exI [of _ pre] exI [of _ x] exI [of _ "mid @ [e]"]) simp
qed

lemma explained_snoc: "explained evs n \<Longrightarrow> explained (evs @ [e]) n"
  "last_executed evs n \<Longrightarrow> taint_denial e \<Longrightarrow> explained (evs @ [e]) n"
  by (auto simp: explained_def) (metis append_Cons append_assoc)+

definition scan_ok :: "SessionEvent list \<Rightarrow> taint_scan \<Rightarrow> bool" where
  "scan_ok evs st = (case st of (result, l, active) \<Rightarrow> (\<forall>n \<in> set result. explained evs n) \<and> (l = 0 \<or> last_executed evs l))"

lemma taint_step_ok:
  assumes "scan_ok evs st"
  shows "scan_ok (evs @ [e]) (taint_step e st)"
proof -
  obtain result l active where st: "st = (result, l, active)" by (cases st) auto
  have ok: "\<forall>n \<in> set result. explained (evs @ [e]) n" "l = 0 \<or> last_executed evs l"
    using assms explained_snoc(1) by (auto simp: scan_ok_def st)
  consider (run) "call_ran e" | (deny) "taint_denial e" | (other) "\<not> call_ran e" "\<not> taint_denial e"
    by blast
  then show ?thesis
  proof cases
    case run
    have "candidate e \<or> e_PolicyRule e = taint_rule" using run by (simp add: candidate_def)
    then have "l = 0 \<or> e_PolicyRule e \<noteq> taint_rule \<or> last_executed (evs @ [e]) l"
      using ok(2) last_executed_snoc(2) by (auto simp: candidate_def)
    then show ?thesis using run ok(1) last_executed_snoc(1) [OF run, of evs]
      by (auto simp: scan_ok_def st taint_step_def taint_switch_def call_ran_def Let_def)
  next
    case deny
    then have "\<not> candidate e" by (auto simp: taint_denial_def candidate_def call_ran_def)
    then have "l = 0 \<or> last_executed (evs @ [e]) l" using ok(2) last_executed_snoc(2) by blast
    moreover have "l = 0 \<or> explained (evs @ [e]) l" using ok(2) deny explained_snoc(2) by blast
    ultimately show ?thesis using deny ok(1)
      by (auto simp: scan_ok_def st taint_step_def taint_switch_def taint_denial_def Let_def)
  next
    case other
    then have "\<not> candidate e" by (simp add: candidate_def)
    then have "l = 0 \<or> last_executed (evs @ [e]) l" using ok(2) last_executed_snoc(2) by blast
    with other ok(1) show ?thesis
      by (auto simp: scan_ok_def st taint_step_def taint_switch_def taint_denial_def call_ran_def Let_def)
  qed
qed

lemma taint_scan_ok: "scan_ok evs (fold taint_step evs ([], 0, False))"
proof (induction evs rule: rev_induct)
  case (snoc e evs)
  then show ?case using taint_step_ok by simp
qed (simp add: scan_ok_def)

text \<open>Every "session tainted" note of the Mermaid export is attached to an executed call after which no
  other call was executed until a call was denied for taint.\<close>

theorem taint_marks_explained:
  assumes "n \<in> set (detectTaintCausingEvents events)"
  shows "\<exists>pre e mid denied post. events = pre @ e # mid @ denied # post \<and> e_Seq e = n \<and> call_ran e
    \<and> list_all (\<lambda>m. \<not> candidate m) mid \<and> taint_denial denied"
proof -
  obtain l active where "fold taint_step events ([], 0, False) = (detectTaintCausingEvents events, l, active)"
    by (cases "fold taint_step events ([], 0, False)") (auto simp: detectTaintCausingEvents_def)
  with taint_scan_ok [of events] assms have "explained events n" by (simp add: scan_ok_def)
  then obtain pre e mid denied post where "events = (pre @ e # mid) @ denied # post" "e_Seq e = n" "call_ran e"
    "list_all (\<lambda>m. \<not> candidate m) mid" "taint_denial denied"
    unfolding explained_def last_executed_def by blast
  moreover from this(1) have "events = pre @ e # mid @ denied # post" by simp
  ultimately show ?thesis by blast
qed

definition sample_ev :: "nat \<Rightarrow> string \<Rightarrow> string \<Rightarrow> SessionEvent" where
  "sample_ev n decision rule' =
     \<lparr>e_Seq = n, e_SessionID = ''s1'', e_ToolName = ''read'', e_ArgumentsJSON = [], e_Decision = decision,
      e_PolicyRule = rule', e_RecordedAt = 0\<rparr>"

lemma taint_marks_explained_witness:
  "\<exists>pre e mid denied post. [sample_ev 1 ''allow'' [], sample_ev 2 ''deny'' taint_rule] = pre @ e # mid @ denied # post
     \<and> e_Seq e = 1 \<and> call_ran e \<and> list_all (\<lambda>m. \<not> candidate m) mid \<and> taint_denial denied"
  by (rule taint_marks_explained) code_simp

text \<open>
  The inference is not exact. Once a call was denied for taint, any later allowed call is taken for a
  new cause: here the third call, though the session has been tainted since the first. And a call
  that ran in shadow mode is marked, though the pipeline applies taint only on an allow.
\<close>

lemma taint_marks_bystander:
  "detectTaintCausingEvents
     [sample_ev 1 ''allow'' [], sample_ev 2 ''deny'' taint_rule, sample_ev 3 ''allow'' [], sample_ev 4 ''deny'' taint_rule] = [1, 3]"
  "detectTaintCausingEvents [sample_ev 1 ''shadow_deny'' ''budget.max_tool_calls'', sample_ev 2 ''deny'' taint_rule] = [1]"
  by code_simp+

end
