(* ===== verification/TB_Serve.thy ===== *)
theory TB_Serve
  imports TB_Frame TB_Cli
begin

text \<open>
  Starting the proxy (\<open>cmd/serve.go\<close>) and its stdio transport (\<open>internal/proxy/stdio.go\<close>). Start-up is
  a function from the flags and the environment to the proxy that serves and how it is reached, with the
  set-up of the tracer (\<open>internal/proxy/otel.go\<close>); the
  stdio loop is a function from the input to the replies, built on \<open>serve\<close>. Listeners, signal delivery
  and the logger are left out.
\<close>

section \<open>The stdio transport (stdio.go)\<close>

definition maxStdioLineBytes :: nat where
  "maxStdioLineBytes = 1024 * 1024"

text \<open>The synthetic request of one line. Building it cannot fail: method and URL are fixed.\<close>

definition stdio_request :: "net \<Rightarrow> string \<Rightarrow> string \<Rightarrow> string \<Rightarrow> request" where
  "stdio_request N tokenString sessionID l =
     \<lparr>rq_path = ''/mcp/v1'',
      rq_header = (\<lambda>h.
        if h = ''Content-Type'' then ''application/json''
        else if h = ''Authorization'' then (if tokenString \<noteq> [] then ''Bearer '' @ tokenString else [])
        else if h = ''X-TrueBearing-Session-ID'' then (if isToolCall N l then sessionID else [])
        else []),
      rq_body = Some (Inr l)\<rparr>"

definition dispatchStdioLine :: "net \<Rightarrow> (string \<Rightarrow> bool) \<Rightarrow> string \<Rightarrow> string \<Rightarrow> string \<Rightarrow> proxy \<Rightarrow> proxy \<times> reply" where
  "dispatchStdioLine N stat tokenString sessionID l p = serve N stat (stdio_request N tokenString sessionID l) p"

text \<open>
  The loop. \<open>cancelled n\<close> says whether the context is done (with its error) before the \<open>n\<close>-th line, and
  \<open>write_error n\<close> whether writing its response fails; either ends the loop with that error.
\<close>

record stdio_env =
  so_cancelled :: "nat \<Rightarrow> gerr option"
  so_write_error :: "nat \<Rightarrow> gerr option"

fun stdio_loop ::
    "net \<Rightarrow> (string \<Rightarrow> bool) \<Rightarrow> stdio_env \<Rightarrow> string \<Rightarrow> string \<Rightarrow> nat \<Rightarrow> string list \<Rightarrow> proxy \<Rightarrow> proxy \<times> reply list \<times> gerr option" where
  "stdio_loop N stat E tokenString sessionID n [] p = (p, [], None)"
| "stdio_loop N stat E tokenString sessionID n (l # ls) p =
     (case so_cancelled E n of
        Some err \<Rightarrow> (p, [], Some err)
      | None \<Rightarrow>
          (if l = [] then stdio_loop N stat E tokenString sessionID (Suc n) ls p
           else
             (let (p', rep) = dispatchStdioLine N stat tokenString sessionID l p in
              case so_write_error E n of
                Some err \<Rightarrow> (p', [], Some (wrapf ''writing stdio response'' err))
              | None \<Rightarrow>
                  (let (q, reps, err) = stdio_loop N stat E tokenString sessionID (Suc n) ls p' in (q, rep # reps, err)))))"

text \<open>\<open>sessionID\<close> is the UUID drawn when the loop starts.\<close>

definition ServeStdio ::
    "net \<Rightarrow> (string \<Rightarrow> bool) \<Rightarrow> stdio_env \<Rightarrow> string \<Rightarrow> string \<Rightarrow> string \<Rightarrow> proxy \<Rightarrow> proxy \<times> reply list \<times> gerr option" where
  "ServeStdio N stat E sessionID data tokenString p =
     (let (ls, too_long) = scan_lines maxStdioLineBytes data;
          (q, reps, err) = stdio_loop N stat E tokenString sessionID 0 ls p
      in (q, reps, if err = None \<and> too_long then Some ErrTooLong else err))"

section \<open>Start-up (serve.go)\<close>

definition lower_char :: "char \<Rightarrow> char" where
  "lower_char c = (let n = of_char c :: nat in if 65 \<le> n \<and> n \<le> 90 then char_of (n + 32) else c)"

text \<open>
  What start-up reads of its surroundings: \<open>se_url\<close> is \<open>url.Parse\<close> as scheme and host, \<open>se_exporter\<close> the error
  of constructing the OTLP exporter, \<open>se_trace\<close> and \<open>se_listen\<close> those of opening the trace file and of
  binding an address, \<open>se_lower\<close> is \<open>strings.ToLower\<close> on text with non-ASCII runes, \<open>se_getenv\<close> the
  environment.
\<close>

record serve_env =
  se_url :: "string \<Rightarrow> gerr + string \<times> string"
  se_exporter :: "string \<Rightarrow> bool \<Rightarrow> gerr option"
  se_trace :: "string \<Rightarrow> gerr option"
  se_listen :: "string \<Rightarrow> gerr option"
  se_lower :: "string \<Rightarrow> string"
  se_getenv :: "string \<Rightarrow> string"

definition ToLower :: "serve_env \<Rightarrow> string \<Rightarrow> string" where
  "ToLower E s = (if list_all (\<lambda>c. (of_char c :: nat) < 128) s then map lower_char s else se_lower E s)"

text \<open>The levels of \<open>log/slog\<close>.\<close>

definition parseLogLevel :: "lib \<Rightarrow> serve_env \<Rightarrow> string \<Rightarrow> gerr + int" where
  "parseLogLevel L E s =
     (let l = ToLower E s in
      if l = ''debug'' then Inr (- 4)
      else if l = ''info'' then Inr 0
      else if l = ''warn'' \<or> l = ''warning'' then Inr 4
      else if l = ''error'' then Inr 8
      else Inl (errorf (''unknown log level '' @ qt L s @ '': must be one of debug, info, warn, error'')))"

subsection \<open>The tracer (internal/proxy/otel.go)\<close>

definition parseOTLPEndpoint :: "serve_env \<Rightarrow> string \<Rightarrow> gerr + string \<times> bool" where
  "parseOTLPEndpoint E raw =
     (if \<not> sublist ''://'' raw then Inr (raw, True)
      else case se_url E raw of Inl err \<Rightarrow> Inl err | Inr (scheme, host) \<Rightarrow> Inr (host, scheme = ''http''))"

text \<open>\<open>None\<close> is the no-op tracer; otherwise the collector, whether it is reached without TLS, and the service name.\<close>

definition InitTracer :: "serve_env \<Rightarrow> string \<Rightarrow> (string \<times> bool \<times> string) option \<times> gerr option" where
  "InitTracer E endpoint =
     (let endpoint = (if endpoint = [] then se_getenv E ''OTEL_EXPORTER_OTLP_ENDPOINT'' else endpoint) in
      if endpoint = [] then (None, None)
      else
        (let serviceName = (if se_getenv E ''OTEL_SERVICE_NAME'' = [] then ''truebearing'' else se_getenv E ''OTEL_SERVICE_NAME'') in
         case parseOTLPEndpoint E endpoint of
           Inl err \<Rightarrow> (None, Some err)
         | Inr (hostPort, insecure) \<Rightarrow>
             (case se_exporter E hostPort insecure of
                Some err \<Rightarrow> (None, Some err)
              | None \<Rightarrow> (Some (hostPort, insecure, serviceName), None))))"

definition serveResolveDBPath :: "cli \<Rightarrow> string \<Rightarrow> string" where
  "serveResolveDBPath C dbFlag = db_path C dbFlag"

definition proxySigningKeyPath :: "cli \<Rightarrow> string" where
  "proxySigningKeyPath C =
     (case c_home C of
        Inl _ \<Rightarrow> path_join [''keys'', ''proxy.pem'']
      | Inr home \<Rightarrow> home_path home [''keys'', ''proxy.pem''])"

record serve_flags =
  sf_upstream :: string
  sf_port :: int
  sf_adminPort :: int
  sf_captureTrace :: string
  sf_stdio :: bool
  sf_otelEndpoint :: string
  sf_logLevel :: string
  sf_auditStrict :: bool
  sf_policy :: string
  sf_db :: string

text \<open>How the proxy is reached: over stdin with a token, or at an address, with an admin address or none.\<close>

datatype transport = Stdio string | Http string "string option"

text \<open>A start: what it prints, what it warns of, and the proxy that serves or the error.\<close>

record start =
  sa_stdout :: string
  sa_stderr :: string
  sa_result :: "gerr + proxy \<times> transport"

definition start_failed :: "string \<Rightarrow> string \<Rightarrow> gerr \<Rightarrow> start" where
  "start_failed out err e = \<lparr>sa_stdout = out, sa_stderr = err, sa_result = Inl e\<rparr>"

definition key_warning :: "string \<Rightarrow> string \<Rightarrow> string" where
  "key_warning keyPath policyPath =
     line (''warning: could not load proxy signing key from '' @ keyPath @ '' '' @ em_dash @ '' audit records will not be signed'')
     @ line (''  run: truebearing agent register proxy --policy '' @ policyPath)"

text \<open>The banner below its first line, on standard error for stdio.\<close>

definition serve_banner :: "serve_flags \<Rightarrow> Policy \<Rightarrow> string \<Rightarrow> string" where
  "serve_banner F pol dbPath =
     line (''  upstream      '' @ sf_upstream F)
     @ line (''  policy        '' @ sf_policy F @ ''  ('' @ ShortFingerprint pol @ '')'')
     @ line (''  db            '' @ dbPath)
     @ (if sf_captureTrace F \<noteq> [] then line (''  capture-trace '' @ sf_captureTrace F) else [])"

text \<open>\<open>proxy.NewTraceWriter\<close> (trace.go): the error of opening the trace file, if any.\<close>

definition NewTraceWriter :: "serve_env \<Rightarrow> string \<Rightarrow> gerr option" where
  "NewTraceWriter E path = map_option (wrapf (''opening trace file '' @ path)) (se_trace E path)"

text \<open>From the tracer on: \<open>err\<close> is what was warned of so far.\<close>

definition serve_transport ::
    "serve_env \<Rightarrow> serve_flags \<Rightarrow> Policy \<Rightarrow> string \<Rightarrow> string \<Rightarrow> string \<Rightarrow> proxy \<Rightarrow> start" where
  "serve_transport E F pol dbPath out err p =
     (if sf_captureTrace F \<noteq> [] \<and> NewTraceWriter E (sf_captureTrace F) \<noteq> None then
        start_failed out err (wrapf (''opening capture-trace file '' @ sf_captureTrace F) (the (NewTraceWriter E (sf_captureTrace F))))
      else
        (let p = (if sf_captureTrace F \<noteq> [] then SetTraceWriter True p else p) in
         if sf_stdio F then
           \<lparr>sa_stdout = out,
            sa_stderr = err
              @ (if se_getenv E ''TRUEBEARING_AGENT_JWT'' = [] then
                   line (''warning: TRUEBEARING_AGENT_JWT is not set '' @ em_dash @ '' all tool calls will be denied'') else [])
              @ line ''TrueBearing proxy (stdio)'' @ serve_banner F pol dbPath,
            sa_result = Inr (p, Stdio (se_getenv E ''TRUEBEARING_AGENT_JWT''))\<rparr>
         else
           (let addr = '':'' @ dec (sf_port F);
                out = out @ line ''TrueBearing proxy'' @ line (''  listening on  '' @ addr) @ serve_banner F pol dbPath
            in if sf_adminPort F > 0 then
                 (let adminAddr = ''127.0.0.1:'' @ dec (sf_adminPort F) in
                  case se_listen E adminAddr of
                    Some e \<Rightarrow> start_failed out err (wrapf (''binding admin server on '' @ adminAddr) e)
                  | None \<Rightarrow>
                      (case se_listen E addr of
                         Some e \<Rightarrow> start_failed (out @ line (''  admin on      '' @ adminAddr)) err (wrapf ''proxy server'' e)
                       | None \<Rightarrow>
                           \<lparr>sa_stdout = out @ line (''  admin on      '' @ adminAddr), sa_stderr = err,
                            sa_result = Inr (SetAdminPort (sf_adminPort F) p, Http addr (Some adminAddr))\<rparr>))
               else
                 (case se_listen E addr of
                    Some e \<Rightarrow> start_failed out err (wrapf ''proxy server'' e)
                  | None \<Rightarrow> \<lparr>sa_stdout = out, sa_stderr = err, sa_result = Inr (p, Http addr None)\<rparr>))))"

text \<open>\<open>d\<close> is the database at the resolved path.\<close>

definition serve_cmd :: "cli \<Rightarrow> lib \<Rightarrow> keylib \<Rightarrow> serve_env \<Rightarrow> serve_flags \<Rightarrow> db \<Rightarrow> start" where
  "serve_cmd C L K E F d =
     (if sf_upstream F = [] then start_failed [] [] (errorf ''--upstream flag is required'')
      else
        (case se_url E (sf_upstream F) of
           Inl e \<Rightarrow> start_failed [] [] (wrapf (''parsing --upstream '' @ qt L (sf_upstream F)) e)
         | Inr _ \<Rightarrow>
             (case ParseFile L (c_fs C) (sf_policy F) of
                Inl e \<Rightarrow> start_failed [] [] (wrapf (''loading policy from '' @ sf_policy F) e)
              | Inr pol \<Rightarrow>
                  (let dbPath = serveResolveDBPath C (sf_db F) in
                   case c_open C of
                     Some e \<Rightarrow> start_failed [] [] (wrapf (''opening database at '' @ dbPath) e)
                   | None \<Rightarrow>
                       (let keyPath = proxySigningKeyPath C; key = LoadPrivateKey K (c_fs C) keyPath;
                            err = (case key of Inl _ \<Rightarrow> key_warning keyPath (sf_policy F) | Inr _ \<Rightarrow> []);
                            signingKey = (case key of Inl _ \<Rightarrow> None | Inr k \<Rightarrow> Some k);
                            p = SetAuditStrict (sf_auditStrict F) (new_proxy d pol dbPath signingKey)
                        in case parseLogLevel L E (sf_logLevel F) of
                             Inl e \<Rightarrow> start_failed [] err e
                           | Inr level \<Rightarrow>
                               (case snd (InitTracer E (sf_otelEndpoint F)) of
                                  Some e \<Rightarrow>
                                    serve_transport E F pol dbPath []
                                      (err @ line (''warning: OTel tracer init failed '' @ em_dash @ '' running without tracing: '' @ err_text e)) p
                                | None \<Rightarrow>
                                    serve_transport E F pol dbPath
                                      (if sf_otelEndpoint F \<noteq> [] then line (''  otel-endpoint  '' @ sf_otelEndpoint F) else []) err p))))))"

end
