(* ===== verification/TB_ServeFacts.thy ===== *)
theory TB_ServeFacts
  imports TB_Serve
begin

text \<open>
  What the stdio transport and start-up guarantee: without a token nothing passes, one connection is one
  session, the loop is a run of the proxy, and a started proxy has the configuration it was given.
\<close>

section \<open>The stdio loop\<close>

lemma stdio_header [simp]:
  "session_header (stdio_request N tok sid l) = (if isToolCall N l then sid else [])"
  "rq_path (stdio_request N tok sid l) = ''/mcp/v1''"
  by (simp_all add: session_header_def stdio_request_def)

lemma stdio_no_token:
  "authenticate W K (rq_header (stdio_request N [] sid l)) d = (Inl ''missing Authorization header'', d)"
  by (simp add: authenticate_def bearerToken_def stdio_request_def)

lemma dispatch_no_token:
  "dispatchStdioLine N stat [] sid l p = (p, writeUnauthorized ''missing Authorization header'')"
  by (simp add: dispatchStdioLine_def serve_def AuthMiddleware_def stdio_no_token)

text \<open>Induction over the loop: a relation every dispatch respects, and a predicate on every reply.\<close>

lemma stdio_loop_induct:
  assumes "stdio_loop N stat E tok sid n ls p = (q, reps, err)"
    and refl: "\<And>p. R p p" and trans: "\<And>p q r. R p q \<Longrightarrow> R q r \<Longrightarrow> R p r"
    and step: "\<And>l p p' rep. l \<in> set ls \<Longrightarrow> l \<noteq> [] \<Longrightarrow> dispatchStdioLine N stat tok sid l p = (p', rep) \<Longrightarrow> R p p' \<and> Q rep"
  shows "R p q \<and> (\<forall>rep \<in> set reps. Q rep)"
  using assms(1) step
proof (induction ls arbitrary: n p q reps)
  case Nil
  then show ?case by (simp add: refl)
next
  case (Cons l ls)
  note hyp = Cons.IH [OF _ Cons.prems(2)]
  show ?case
  proof (cases "so_cancelled E n")
    case (Some e)
    with Cons.prems(1) show ?thesis by (simp add: refl)
  next
    case None
    show ?thesis
    proof (cases "l = []")
      case True
      with Cons.prems(1) None have "stdio_loop N stat E tok sid (Suc n) ls p = (q, reps, err)" by simp
      then show ?thesis by (rule hyp) simp_all
    next
      case False
      obtain p1 rep where d: "dispatchStdioLine N stat tok sid l p = (p1, rep)" by fastforce
      have 1: "R p p1 \<and> Q rep" by (rule Cons.prems(2) [OF _ False d]) simp
      show ?thesis
      proof (cases "so_write_error E n")
        case (Some e)
        with Cons.prems(1) None False d 1 show ?thesis by simp
      next
        case no: None
        obtain reps' where r: "stdio_loop N stat E tok sid (Suc n) ls p1 = (q, reps', err)" "reps = rep # reps'"
          using Cons.prems(1) None False d no by (auto split: prod.splits)
        have "R p1 q \<and> (\<forall>rep \<in> set reps'. Q rep)" by (rule hyp [OF r(1)]) simp_all
        with 1 r(2) trans show ?thesis by auto
      qed
    qed
  qed
qed

lemma ServeStdio_loop:
  assumes "ServeStdio N stat E sid data tok p = (q, reps, err)"
  obtains err' where "stdio_loop N stat E tok sid 0 (fst (scan_lines maxStdioLineBytes data)) p = (q, reps, err')"
    "err = None \<longrightarrow> err' = None \<and> \<not> snd (scan_lines maxStdioLineBytes data)"
  using assms by (auto simp: ServeStdio_def split_beta Let_def split: if_splits) (metis prod.collapse)+

text \<open>The loop is a run of the proxy, so what holds in every reachable proxy holds after it.\<close>

lemma stdio_is_run:
  fixes fs :: "string \<Rightarrow> gerr + string"
  assumes "stdio_loop N (\<lambda>f. \<exists>s. fs f = Inr s) E tok sid n ls p = (q, reps, err)"
  shows "px_run N p q"
proof -
  have trans: "px_run N p r" if "px_run N p q" "px_run N q r" for p q r
    using that(2,1) by (induction rule: px_run.induct) (auto intro: px_run.intros)
  have "px_run N p q \<and> (\<forall>rep \<in> set reps. True)"
  proof (rule stdio_loop_induct [OF assms, where R = "px_run N"])
    show "px_run N p p' \<and> True" if "dispatchStdioLine N (\<lambda>f. \<exists>s. fs f = Inr s) tok sid l p = (p', rep)" for l p p' rep
      using px_run.step [OF px_run.start, of N p fs "Request (stdio_request N tok sid l)"] that
      by (simp add: dispatchStdioLine_def)
  qed (auto intro: px_run.start trans)
  then show ?thesis by simp
qed

lemma stdio_reply_count:
  "stdio_loop N stat E tok sid n ls p = (q, reps, None) \<Longrightarrow> length reps = length (filter (\<lambda>l. l \<noteq> []) ls)"
proof (induction ls arbitrary: n p q reps)
  case (Cons l ls)
  then show ?case by (auto split: option.splits if_splits prod.splits)
qed simp

section \<open>Properties\<close>

text \<open>No token, no call. Over stdio without \<open>TRUEBEARING_AGENT_JWT\<close> every line that is answered, tool
  call or not, is answered with the authorization error, and the proxy is exactly as it was.\<close>

theorem stdio_no_token_denies:
  assumes "ServeStdio N stat E sid data [] p = (q, reps, err)"
  shows "q = p \<and> (\<forall>rep \<in> set reps. rep = writeUnauthorized ''missing Authorization header'')"
proof -
  obtain err' where l: "stdio_loop N stat E [] sid 0 (fst (scan_lines maxStdioLineBytes data)) p = (q, reps, err')"
    by (rule ServeStdio_loop [OF assms])
  have "p = q \<and> (\<forall>rep \<in> set reps. rep = writeUnauthorized ''missing Authorization header'')"
    by (rule stdio_loop_induct [OF l, where R = "(=)"]) (auto simp: dispatch_no_token)
  then show ?thesis by blast
qed

definition stdio_free :: stdio_env where
  "stdio_free = \<lparr>so_cancelled = (\<lambda>_. None), so_write_error = (\<lambda>_. None)\<rparr>"

lemma stdio_no_token_denies_witness:
  "snd (ServeStdio sample_net (\<lambda>_. True) stdio_free ''s9'' (line ''read'' @ line ''list'') [] sample_proxy)
     = ([writeUnauthorized ''missing Authorization header'', writeUnauthorized ''missing Authorization header''], None)"
proof -
  let ?run = "ServeStdio sample_net (\<lambda>_. True) stdio_free ''s9'' (line ''read'' @ line ''list'') [] sample_proxy"
  have lines: "scan_lines maxStdioLineBytes (line ''read'' @ line ''list'') = ([''read'', ''list''], False)"
    using scan_lines_written [of "[''read'', ''list'']" maxStdioLineBytes]
    by (simp add: plain_line_def newline_def maxStdioLineBytes_def)
  have "length (fst (snd ?run)) = 2" "snd (snd ?run) = None"
    by (simp_all add: ServeStdio_def lines stdio_free_def dispatch_no_token)
  moreover have "\<forall>rep \<in> set (fst (snd ?run)). rep = writeUnauthorized ''missing Authorization header''"
    using stdio_no_token_denies [of sample_net "\<lambda>_. True" stdio_free "''s9''" "line ''read'' @ line ''list''" sample_proxy
        "fst ?run" "fst (snd ?run)" "snd (snd ?run)"] by simp
  ultimately show ?thesis by (auto simp: prod_eq_iff numeral_2_eq_2 length_Suc_conv)
qed

text \<open>C29: One connection, one session. Whatever arrives over a stdio connection, only its own session is touched:
  every other session keeps its row, its history and its approvals. When the input is read to its end
  without an error there is exactly one response for every non-empty line.\<close>

theorem stdio_one_session:
  assumes "ServeStdio N stat E sid data tok p = (q, reps, err)"
  shows "(i = sid \<or> i = [] \<or> find_session (px_db q) i = find_session (px_db p) i
      \<and> store_hist (px_db q) i = store_hist (px_db p) i \<and> store_approvals L (px_db q) i = store_approvals L (px_db p) i)
    \<and> (err = None \<longrightarrow> length reps = length (filter (\<lambda>l. l \<noteq> []) (fst (scan_lines maxStdioLineBytes data))))"
proof -
  obtain err' where l: "stdio_loop N stat E tok sid 0 (fst (scan_lines maxStdioLineBytes data)) p = (q, reps, err')"
    "err = None \<longrightarrow> err' = None \<and> \<not> snd (scan_lines maxStdioLineBytes data)" by (rule ServeStdio_loop [OF assms])
  let ?R = "\<lambda>p q. find_session (px_db q) i = find_session (px_db p) i
      \<and> store_hist (px_db q) i = store_hist (px_db p) i \<and> store_approvals L (px_db q) i = store_approvals L (px_db p) i"
  have "?R p q \<and> (\<forall>rep \<in> set reps. True)" if i: "i \<noteq> sid" "i \<noteq> []"
  proof (rule stdio_loop_induct [OF l(1), where R = ?R])
    fix l p p' rep
    assume "dispatchStdioLine N stat tok sid l p = (p', rep)"
    then have s: "serve N stat (stdio_request N tok sid l) p = (p', rep)" by (simp add: dispatchStdioLine_def)
    have "i \<noteq> session_header (stdio_request N tok sid l)" using i by simp
    from serve_only_session [OF s, THEN only_session_views(1), OF this]
      serve_only_session [OF s, THEN only_session_views(2), OF this]
      serve_only_session [OF s, THEN only_session_views(3), OF this]
    show "?R p p' \<and> True" by simp
  qed simp_all
  moreover have "err = None \<longrightarrow> length reps = length (filter (\<lambda>l. l \<noteq> []) (fst (scan_lines maxStdioLineBytes data)))"
    using l stdio_reply_count by blast
  ultimately show ?thesis by blast
qed

lemma stdio_one_session_witness:
  "find_session (px_db (fst (ServeStdio sample_net (\<lambda>_. True) stdio_free ''s9'' (line ''read'') (sample_token ''pay'') sample_proxy))) ''s2'' = None"
proof -
  let ?run = "ServeStdio sample_net (\<lambda>_. True) stdio_free ''s9'' (line ''read'') (sample_token ''pay'') sample_proxy"
  have run: "?run = (fst ?run, fst (snd ?run), snd (snd ?run))" by simp
  show ?thesis
    using stdio_one_session [OF run, of "''s2''"]
    by (simp add: sample_proxy_def new_proxy_def sample_db_def empty_db_def find_session_def)
qed

section \<open>Start-up\<close>

lemma serve_transport_Inr:
  assumes "sa_result (serve_transport E F pol dbPath out err p) = Inr (q, t)"
  shows "px_db q = px_db p" "px_livePol q = px_livePol p" "px_polCache q = px_polCache p" "px_auditStrict q = px_auditStrict p"
    "px_signingKey q = px_signingKey p" "sf_stdio F \<longleftrightarrow> t = Stdio (se_getenv E ''TRUEBEARING_AGENT_JWT'')"
    "px_adminPort q = (if sf_stdio F \<or> sf_adminPort F \<le> 0 then px_adminPort p else sf_adminPort F)"
  using assms
  by (auto simp: serve_transport_def start_failed_def Let_def SetTraceWriter_def SetAdminPort_def split: if_splits option.splits)

lemma serve_cmd_Inr:
  assumes "sa_result (serve_cmd C L K E F d) = Inr (q, t)"
  obtains pol out err dbPath where "ParseFile L (c_fs C) (sf_policy F) = Inr pol" "c_open C = None"
    "sa_result (serve_transport E F pol dbPath out err (SetAuditStrict (sf_auditStrict F)
       (new_proxy d pol dbPath (case LoadPrivateKey K (c_fs C) (proxySigningKeyPath C) of Inl _ \<Rightarrow> None | Inr k \<Rightarrow> Some k)))) = Inr (q, t)"
  using assms
  by (auto simp: serve_cmd_def start_failed_def Let_def split: if_splits sum.splits option.splits)

text \<open>C30: A started proxy is the configured one. When \<open>serve\<close> comes up, the live policy is the parsed policy
  file, strict auditing and the signing key are as flagged and found on disk, the database is the one
  opened, and over a well-formed database the proxy is in a state from which every invariant of reachable
  proxies holds; over stdio its token is that of the environment.\<close>

theorem serve_starts_configured:
  assumes "sa_result (serve_cmd C L K E F d) = Inr (p, t)" "wf_db d"
  shows "ParseFile L (c_fs C) (sf_policy F) = Inr (px_livePol p) \<and> px_db p = d \<and> px_auditStrict p = sf_auditStrict F
    \<and> px_signingKey p = (case LoadPrivateKey K (c_fs C) (proxySigningKeyPath C) of Inl _ \<Rightarrow> None | Inr k \<Rightarrow> Some k)
    \<and> px_ok p \<and> (sf_stdio F \<longleftrightarrow> t = Stdio (se_getenv E ''TRUEBEARING_AGENT_JWT''))"
proof -
  obtain pol out err dbPath where s: "ParseFile L (c_fs C) (sf_policy F) = Inr pol"
    "sa_result (serve_transport E F pol dbPath out err (SetAuditStrict (sf_auditStrict F)
       (new_proxy d pol dbPath (case LoadPrivateKey K (c_fs C) (proxySigningKeyPath C) of Inl _ \<Rightarrow> None | Inr k \<Rightarrow> Some k)))) = Inr (p, t)"
    by (rule serve_cmd_Inr [OF assms(1)])
  note t = serve_transport_Inr [OF s(2)]
  have sel: "px_db (SetAuditStrict b q) = px_db q" "px_livePol (SetAuditStrict b q) = px_livePol q"
    "px_polCache (SetAuditStrict b q) = px_polCache q" "px_signingKey (SetAuditStrict b q) = px_signingKey q"
    "px_auditStrict (SetAuditStrict b q) = b" for b q by (simp_all add: SetAuditStrict_def)
  have n: "px_db (new_proxy d pol dbPath key) = d" "px_livePol (new_proxy d pol dbPath key) = pol"
    "px_signingKey (new_proxy d pol dbPath key) = key" for key by (simp_all add: new_proxy_def)
  have "px_ok p"
    using new_proxy_ok [OF assms(2), of pol dbPath "case LoadPrivateKey K (c_fs C) (proxySigningKeyPath C) of Inl _ \<Rightarrow> None | Inr k \<Rightarrow> Some k"]
    by (simp add: px_ok_def t sel)
  then show ?thesis using s(1) t by (simp add: sel n)
qed

definition sample_serve_env :: serve_env where
  "sample_serve_env =
     \<lparr>se_url = (\<lambda>u. Inr (''http'', u)), se_exporter = (\<lambda>_ _. None), se_trace = (\<lambda>_. None), se_listen = (\<lambda>_. None),
      se_lower = id, se_getenv = (\<lambda>v. if v = ''TRUEBEARING_AGENT_JWT'' then ''tok'' else [])\<rparr>"

definition sample_flags :: serve_flags where
  "sample_flags =
     \<lparr>sf_upstream = ''http://u'', sf_port = 80, sf_adminPort = 81, sf_captureTrace = [], sf_stdio = False,
      sf_otelEndpoint = [], sf_logLevel = ''Info'', sf_auditStrict = True, sf_policy = ''p.yaml'', sf_db = []\<rparr>"

lemma serve_starts_configured_witness:
  "\<exists>p. sa_result (serve_cmd sample_cli sample_lib sample_keylib sample_serve_env sample_flags sample_db) = Inr (p, Http '':80'' (Some ''127.0.0.1:81''))
     \<and> px_ok p \<and> px_auditStrict p"
proof -
  let ?s = "serve_cmd sample_cli sample_lib sample_keylib sample_serve_env sample_flags sample_db"
  have "map_sum id snd (sa_result ?s) = Inr (Http '':80'' (Some ''127.0.0.1:81''))" by code_simp
  then obtain p where p: "sa_result ?s = Inr (p, Http '':80'' (Some ''127.0.0.1:81''))" by (cases "sa_result ?s") auto
  from serve_starts_configured [OF p sample_db_wf] p show ?thesis by (auto simp: sample_flags_def)
qed

text \<open>
  Start-up does not lint: a policy with an error-level finding is served, and a reload of the very same
  file is then rejected.
\<close>

lemma startup_skips_lint:
  assumes "sa_result (serve_cmd C L K E F d) = Inr (p, t)" "sf_policy F \<noteq> []"
    "find (\<lambda>r. lr_Severity r = SeverityError) (Lint L (px_livePol p)) \<noteq> None"
  shows "fst (ReloadPolicy L (c_fs C) p) \<noteq> None"
proof -
  obtain pol out err dbPath where s: "ParseFile L (c_fs C) (sf_policy F) = Inr pol"
    "sa_result (serve_transport E F pol dbPath out err (SetAuditStrict (sf_auditStrict F)
       (new_proxy d pol dbPath (case LoadPrivateKey K (c_fs C) (proxySigningKeyPath C) of Inl _ \<Rightarrow> None | Inr k \<Rightarrow> Some k)))) = Inr (p, t)"
    by (rule serve_cmd_Inr [OF assms(1)])
  have "px_livePol p = pol" using serve_transport_Inr(2) [OF s(2)] by (simp add: SetAuditStrict_def new_proxy_def)
  with s(1) assms(2,3) ParseFile_path [OF s(1)] show ?thesis
    by (auto simp: ReloadPolicy_def Let_def split: option.split)
qed

text \<open>Strict auditing without a signing key audits nothing and forwards.\<close>

lemma strict_without_key:
  "snd (serve sample_net (\<lambda>_. True) (sample_request ''read'') (SetAuditStrict True (sample_proxy\<lparr>px_signingKey := None\<rparr>))) = Forwarded
   \<and> db_audit (px_db (fst (serve sample_net (\<lambda>_. True) (sample_request ''read'') (SetAuditStrict True (sample_proxy\<lparr>px_signingKey := None\<rparr>))))) = []"
  by (rule conjI; code_simp)

end
