(* ===== verification/TB_Init.thy ===== *)
theory TB_Init
  imports TB_PolicyCmd
begin

text \<open>
  The policy scaffolder \<open>truebearing init\<close> (\<open>cmd/init.go\<close>, \<open>cmd/initpacks\<close>): an interactive session over
  a terminal, the generated YAML text and the checks before it is written. The embedded packs and
  \<open>strconv.ParseFloat\<close> are parameters, and so is the YAML decoder, as everywhere.
\<close>

section \<open>The terminal\<close>

text \<open>What was printed so far, and what is left to read.\<close>

type_synonym tty = "string \<times> string"

definition say :: "string \<Rightarrow> tty \<Rightarrow> tty" where
  "say s t = (fst t @ s, snd t)"

definition err_EOF :: gerr where "err_EOF = errorf ''EOF''"

text \<open>\<open>reader.ReadString('\n')\<close>: a last line without its newline is an error.\<close>

definition ReadString :: "tty \<Rightarrow> (gerr + string) \<times> tty" where
  "ReadString t =
     (if newline \<in> set (snd t) then
        (Inr (takeWhile (\<lambda>c. c \<noteq> newline) (snd t) @ [newline]), fst t, drop 1 (dropWhile (\<lambda>c. c \<noteq> newline) (snd t)))
      else (Inl err_EOF, fst t, []))"

definition tty_bind :: "(gerr + 'a) \<times> tty \<Rightarrow> ('a \<Rightarrow> tty \<Rightarrow> (gerr + 'b) \<times> tty) \<Rightarrow> (gerr + 'b) \<times> tty" where
  "tty_bind r k = (case r of (Inl e, t) \<Rightarrow> (Inl e, t) | (Inr x, t) \<Rightarrow> k x t)"

text \<open>\<open>strings.TrimSpace\<close>, on the runes of the text.\<close>

function rune_chunks :: "string \<Rightarrow> string list" where
  "rune_chunks [] = []"
| "rune_chunks (c # cs) =
     (let w = (case decode_rune (map of_char (c # cs)) of None \<Rightarrow> 1 | Some (r, w) \<Rightarrow> w)
      in take w (c # cs) # rune_chunks (drop (w - 1) cs))"
  by pat_completeness auto
termination
  by (relation "measure length") auto

text \<open>Runes compare as integers when they are evaluated.\<close>

lemma unicode_space_code [code]:
  "unicode_space r = (let i = int r in i \<in> {9, 10, 11, 12, 13, 32, 133, 160, 5760, 8232, 8233, 8239, 8287, 12288} \<or> (8192 \<le> i \<and> i \<le> 8202))"
  by (auto simp: unicode_space_def Let_def)

definition space_chunk :: "string \<Rightarrow> bool" where
  "space_chunk s = (case decode_rune (map of_char s) of None \<Rightarrow> False | Some (r, w) \<Rightarrow> unicode_space r)"

definition TrimSpace :: "string \<Rightarrow> string" where
  "TrimSpace s = concat (rev (dropWhile space_chunk (rev (dropWhile space_chunk (rune_chunks s)))))"

text \<open>The answer is what was typed, trimmed; the default is only printed.\<close>

definition prompt :: "string \<Rightarrow> string \<Rightarrow> tty \<Rightarrow> (gerr + string) \<times> tty" where
  "prompt question defaultVal t =
     (case ReadString (say (question @ (if defaultVal \<noteq> [] then '' ['' @ defaultVal @ '']: '' else '': '')) t) of
        (Inl err, t) \<Rightarrow> (Inl (wrapf ''reading input'' err), t)
      | (Inr l, t) \<Rightarrow> (Inr (TrimSpace l), t))"

section \<open>Parsing answers\<close>

definition parseCSV :: "string \<Rightarrow> string list" where
  "parseCSV s =
     fold (\<lambda>p acc. let p = TrimSpace p in if p \<noteq> [] \<and> p \<notin> set acc then acc @ [p] else acc) (split_on (CHR '','') s) []"

text \<open>\<open>strconv.Atoi\<close>.\<close>

definition is_digit :: "char \<Rightarrow> bool" where
  "is_digit c = (48 \<le> (of_char c :: nat) \<and> (of_char c :: nat) \<le> 57)"

definition digits_val :: "string \<Rightarrow> int" where
  "digits_val ds = foldl (\<lambda>n c. n * 10 + (int (of_char c) - 48)) 0 ds"

definition Atoi :: "string \<Rightarrow> int option" where
  "Atoi s =
     (let neg = prefix ''-'' s; ds = (if neg \<or> prefix ''+'' s then drop 1 s else s);
          n = (if neg then - digits_val ds else digits_val ds)
      in if ds = [] \<or> \<not> list_all is_digit ds then None
         else if n < - (2 ^ 63) \<or> n \<ge> 2 ^ 63 then None else Some n)"

definition parsePositiveInt :: "lib \<Rightarrow> string \<Rightarrow> int \<Rightarrow> gerr + int" where
  "parsePositiveInt L s defaultVal =
     (let s = TrimSpace s in
      if s = [] then Inr defaultVal
      else
        (case Atoi s of
           None \<Rightarrow> Inl (errorf (qt L s @ '' is not a positive integer''))
         | Some n \<Rightarrow> if n \<le> 0 then Inl (errorf (qt L s @ '' is not a positive integer'')) else Inr n))"

text \<open>\<open>parse\<close> is \<open>strconv.ParseFloat\<close>. A NaN passes the comparison.\<close>

definition parsePositiveFloat :: "lib \<Rightarrow> (string \<Rightarrow> float64 option) \<Rightarrow> string \<Rightarrow> float64 \<Rightarrow> gerr + float64" where
  "parsePositiveFloat L parse s defaultVal =
     (let s = TrimSpace s in
      if s = [] then Inr defaultVal
      else
        (case parse s of
           None \<Rightarrow> Inl (errorf (qt L s @ '' is not a positive number''))
         | Some f \<Rightarrow> if f_le f f_zero then Inl (errorf (qt L s @ '' is not a positive number'')) else Inr f))"

section \<open>Policy packs (initpacks/packs.go)\<close>

definition verticalFiles :: "string \<Rightarrow> string option" where
  "verticalFiles = map_of
     [(''finance'', ''data/finance-payments.yaml''), (''healthcare'', ''data/healthcare-hipaa.yaml''),
      (''legal'', ''data/legal-privileged-docs.yaml''), (''life-sciences'', ''data/life-sciences-regulatory.yaml''),
      (''devops'', ''data/devops-infra.yaml'')]"

definition KnownVerticals :: "string list" where
  "KnownVerticals = [''finance'', ''healthcare'', ''legal'', ''life-sciences'', ''devops'']"

text \<open>\<open>embedded\<close> is the content of an embedded file; \<open>init\<close> panics when one is missing.\<close>

definition ByVertical :: "(string \<Rightarrow> string) \<Rightarrow> string \<Rightarrow> string option" where
  "ByVertical embedded vertical = map_option embedded (verticalFiles vertical)"

definition verticalDescriptions :: "string \<Rightarrow> string" where
  "verticalDescriptions v =
     (if v = ''finance'' then ''payment processing, invoicing, financial transactions''
      else if v = ''healthcare'' then ''PHI access, claims submission, patient records (HIPAA)''
      else if v = ''legal'' then ''document review, matter management, legal research''
      else if v = ''life-sciences'' then ''FDA submissions, regulatory affairs, clinical trials''
      else if v = ''devops'' then ''CI/CD pipelines, production deployments, infrastructure''
      else [])"

definition isKnownVertical :: "string \<Rightarrow> bool" where
  "isKnownVertical v = (v = ''other'' \<or> v \<in> set KnownVerticals)"

definition en_dash :: string where "en_dash = [CHR 0xE2, CHR 0x80, CHR 0x93]"

definition promptVertical :: "lib \<Rightarrow> tty \<Rightarrow> (gerr + string) \<times> tty" where
  "promptVertical L t =
     (let n = length KnownVerticals; last' = dec (int (n + 1));
          menu = line [] @ line ''0. What best describes your agent?''
            @ concat (map (\<lambda>(i, v). line (''   '' @ dec (int (i + 1)) @ ''. '' @ pad_right 20 v @ '' '' @ em_dash @ '' '' @ verticalDescriptions v))
                (enumerate 0 KnownVerticals))
            @ line (''   '' @ last' @ ''. other               '' @ em_dash @ '' start from a blank template (answer five questions)'') @ line []
      in tty_bind (prompt (''Enter 1'' @ en_dash @ last') last' (say menu t))
           (\<lambda>l t. let l = TrimSpace l in
              if l = [] \<or> l = last' then (Inr ''other'', t)
              else
                (case Atoi l of
                   None \<Rightarrow> (Inl (errorf (''invalid selection '' @ qt L l @ ''; enter a number between 1 and '' @ last')), t)
                 | Some choice \<Rightarrow>
                     (if choice < 1 \<or> choice > int n + 1 then
                        (Inl (errorf (''invalid selection '' @ qt L l @ ''; enter a number between 1 and '' @ last')), t)
                      else if choice = int n + 1 then (Inr ''other'', t)
                      else (Inr (KnownVerticals ! nat (choice - 1)), t)))))"

section \<open>The five questions\<close>

record answers =
  an_agentName :: string
  an_allTools :: "string list"
  an_highRisk :: "string list"
  an_prerequisites :: "string \<Rightarrow> string list"
  an_maxCalls :: int
  an_maxCost :: float64

definition ask_name :: "tty \<Rightarrow> (gerr + string) \<times> tty" where
  "ask_name t =
     tty_bind (prompt ''1. Agent name (e.g. payments-agent)'' ''my-agent'' t)
       (\<lambda>l t. let agentName = TrimSpace l in
          if agentName = [] then (Inl (errorf ''agent name cannot be empty''), t) else (Inr agentName, t))"

definition ask_tools :: "tty \<Rightarrow> (gerr + string list) \<times> tty" where
  "ask_tools t =
     tty_bind (prompt ''2. List the tools your agent uses (comma-separated)'' [] (say (line []) t))
       (\<lambda>l t. let allTools = parseCSV l in
          if allTools = [] then (Inl (errorf ''at least one tool must be listed''), t) else (Inr allTools, t))"

definition ask_high_risk :: "lib \<Rightarrow> string list \<Rightarrow> tty \<Rightarrow> (gerr + string list) \<times> tty" where
  "ask_high_risk L allTools t =
     tty_bind (prompt ''3. Which tools are high-risk and need sequence guards? (comma-separated, or Enter to skip)'' []
                 (say (line [] @ line (''   Tools entered: '' @ join '', '' allTools)) t))
       (\<lambda>l t. case find (\<lambda>x. x \<notin> set allTools) (parseCSV l) of
          Some x \<Rightarrow> (Inl (errorf (''high-risk tool '' @ qt L x @ '' is not in the tool list you entered'')), t)
        | None \<Rightarrow> (Inr (parseCSV l), t))"

fun ask_prerequisites :: "lib \<Rightarrow> string list \<Rightarrow> string list \<Rightarrow> (string \<Rightarrow> string list) \<Rightarrow> tty \<Rightarrow> (gerr + (string \<Rightarrow> string list)) \<times> tty" where
  "ask_prerequisites L allTools [] acc t = (Inr acc, t)"
| "ask_prerequisites L allTools (tool # rest) acc t =
     tty_bind (prompt (''4. What must happen before '' @ qt L tool @ ''? (comma-separated tool names, or Enter to skip)'') []
                 (say (line []) t))
       (\<lambda>l t. case find (\<lambda>x. x \<notin> set allTools) (parseCSV l) of
          Some x \<Rightarrow> (Inl (errorf (''prerequisite '' @ qt L x @ '' for '' @ qt L tool @ '' is not in the tool list'')), t)
        | None \<Rightarrow> ask_prerequisites L allTools rest (acc(tool := parseCSV l)) t)"

definition ask_calls :: "lib \<Rightarrow> tty \<Rightarrow> (gerr + int) \<times> tty" where
  "ask_calls L t =
     tty_bind (prompt ''5. Maximum tool calls per session'' ''50'' (say (line []) t))
       (\<lambda>l t. (case parsePositiveInt L l 50 of Inl err \<Rightarrow> Inl (wrapf ''max tool calls'' err) | Inr n \<Rightarrow> Inr n, t))"

definition ask_cost :: "lib \<Rightarrow> (string \<Rightarrow> float64 option) \<Rightarrow> tty \<Rightarrow> (gerr + float64) \<times> tty" where
  "ask_cost L parse t =
     tty_bind (prompt ''   Maximum cost per session (USD)'' ''5.00'' t)
       (\<lambda>l t. (case parsePositiveFloat L parse l (Fin 5) of Inl err \<Rightarrow> Inl (wrapf ''max cost USD'' err) | Inr f \<Rightarrow> Inr f, t))"

definition ask_all :: "lib \<Rightarrow> (string \<Rightarrow> float64 option) \<Rightarrow> tty \<Rightarrow> (gerr + answers) \<times> tty" where
  "ask_all L parse t =
     tty_bind (ask_name (say (line ''Answer five questions to generate a policy file.''
         @ line ''Press Enter to accept the default shown in [brackets].'' @ line []) t))
       (\<lambda>agentName t. tty_bind (ask_tools t)
         (\<lambda>allTools t. tty_bind (ask_high_risk L allTools t)
           (\<lambda>highRisk t. tty_bind (ask_prerequisites L allTools highRisk (\<lambda>_. []) t)
             (\<lambda>prerequisites t. tty_bind (ask_calls L t)
               (\<lambda>maxCalls t. tty_bind (ask_cost L parse t)
                 (\<lambda>maxCost t. (Inr \<lparr>an_agentName = agentName, an_allTools = allTools, an_highRisk = highRisk,
                    an_prerequisites = prerequisites, an_maxCalls = maxCalls, an_maxCost = maxCost\<rparr>, t)))))))"

section \<open>The generated policy\<close>

definition high_risk_entry :: "answers \<Rightarrow> string \<Rightarrow> string" where
  "high_risk_entry a t =
     line (''  '' @ t @ '':'') @ line ''    # Block this tool even when global enforcement_mode is shadow:''
     @ line ''    # it may execute an irreversible real-world action.'' @ line ''    enforcement_mode: block''
     @ (if an_prerequisites a t \<noteq> [] then
          line ''    sequence:'' @ line ''      only_after:'' @ concat (map (\<lambda>p. line (''        - '' @ p)) (an_prerequisites a t))
        else [])
     @ line []"

text \<open>The tools that are neither high-risk nor virtual.\<close>

definition low_risk :: "answers \<Rightarrow> string list" where
  "low_risk a = filter (\<lambda>t. t \<notin> set (an_highRisk a) \<and> t \<noteq> ''check_escalation_status'') (an_allTools a)"

definition quoted :: "string \<Rightarrow> string" where "quoted s = [CHR 0x22] @ s @ [CHR 0x22]"

definition generatePolicyYAML :: "answers \<Rightarrow> string" where
  "generatePolicyYAML a =
     line ''# Generated by: truebearing init''
     @ line (''# Review this file, then run: truebearing policy explain '' @ an_agentName a @ ''.policy.yaml'')
     @ line ''#'' @ line ''# SHADOW MODE: policy violations are logged but not blocked.''
     @ line ''# After reviewing shadow_deny audit records for a week, change''
     @ line ''# enforcement_mode to block to enable production enforcement.'' @ line []
     @ line (''version: '' @ quoted ''1'') @ line (''agent: '' @ an_agentName a) @ line []
     @ line (''# shadow: log violations, allow calls '' @ em_dash @ '' safe for onboarding and policy tuning'')
     @ line (''# block:  deny on any violation '' @ em_dash @ '' use in production after shadow-mode review'')
     @ line ''enforcement_mode: shadow'' @ line []
     @ line ''session:'' @ line ''  max_history: 1000          # hard cap; start a new session when reached''
     @ line ''  max_duration_seconds: 3600  # 1 hour per session; adjust to your workflow'' @ line []
     @ line ''budget:'' @ line (''  max_tool_calls: '' @ dec (an_maxCalls a)) @ line (''  max_cost_usd: '' @ fmt_fixed 2 (an_maxCost a)) @ line []
     @ line ''# Complete list of tools this agent is permitted to call.''
     @ line ''# Any tool not in this list is denied before any other check runs.'' @ line ''may_use:''
     @ concat (map (\<lambda>t. line (''  - '' @ t)) (an_allTools a))
     @ (if ''check_escalation_status'' \<notin> set (an_allTools a) then
          line ''  - check_escalation_status  # TrueBearing virtual tool; required for escalation polling'' else [])
     @ line [] @ line ''tools:'' @ concat (map (high_risk_entry a) (an_highRisk a))
     @ (if low_risk a \<noteq> [] then line ''  # Tools below have no restrictions beyond may_use and budget.'' else [])
     @ concat (map (\<lambda>t. line (''  '' @ t @ '': {}'')) (low_risk a))"

section \<open>Checking and writing\<close>

text \<open>\<open>in_stat\<close> says whether a path exists, \<open>in_embedded\<close> is the content of an embedded pack.\<close>

record init_env =
  in_stat :: "string \<Rightarrow> bool"
  in_write :: write_faults
  in_embedded :: "string \<Rightarrow> string"
  in_parse_float :: "string \<Rightarrow> float64 option"

definition printInitLintResults :: "LintResult list \<Rightarrow> string" where
  "printInitLintResults results =
     concat (map (\<lambda>r. line ((if lr_Severity r = SeverityError then ansi ''31'' else if lr_Severity r = SeverityWarning then ansi ''33''
          else ansi ''36'') @ lr_Code r @ '' ['' @ severity_str (lr_Severity r) @ '']'' @ ansi ''0'' @ '' '' @ lr_Message r)) results)"

definition lint_errors :: "LintResult list \<Rightarrow> nat" where
  "lint_errors results = length (filter (\<lambda>r. lr_Severity r = SeverityError) results)"

definition check_mark :: string where "check_mark = [CHR 0xE2, CHR 0x9C, CHR 0x93]"

definition lint_notes :: "LintResult list \<Rightarrow> string" where
  "lint_notes results = (if results = [] then [] else line [] @ line ''Lint results:'' @ printInitLintResults results)"

text \<open>A command over the terminal and the file system: what is printed, the error, the files.\<close>

type_synonym init_result = "gerr option \<times> string \<times> fsys"

definition write_template :: "lib \<Rightarrow> init_env \<Rightarrow> string \<Rightarrow> answers \<Rightarrow> string \<Rightarrow> fsys \<Rightarrow> init_result" where
  "write_template L E outputPath a out fs =
     (let yamlContent = generatePolicyYAML a in
      case ParseBytes L yamlContent outputPath of
        Inl err \<Rightarrow>
          (Some (wrapf (''scaffolder produced invalid YAML (bug '' @ em_dash @ '' please report)'') err), out, fs)
      | Inr parsed \<Rightarrow>
          (let results = Lint L parsed in
           if lint_errors results > 0 then
             (Some (errorf (dec (int (lint_errors results)) @ '' error(s) found in the generated policy; see output above'')),
              out @ line [] @ line ''The policy you described has errors. No file was written.'' @ line []
                @ printInitLintResults results, fs)
           else
             (case os_WriteFile (in_write E) outputPath yamlContent fs of
                (Some err, fs) \<Rightarrow> (Some (wrapf ''writing policy file'' err), out, fs)
              | (None, fs) \<Rightarrow>
                  (None,
                   out @ line [] @ line (check_mark @ '' Created '' @ outputPath) @ lint_notes results
                   @ line [] @ line ''Next steps:''
                   @ line (''  1. truebearing agent register '' @ an_agentName a @ '' --policy '' @ outputPath)
                   @ line (''  2. truebearing serve --upstream <your-mcp-url> --policy '' @ outputPath)
                   @ line ''  3. Run your agent for a week in shadow mode''
                   @ line ''  4. truebearing audit query --decision shadow_deny   (review what would have been blocked)''
                   @ line (''  5. Set enforcement_mode: block in '' @ outputPath @ '' when you'' @ [CHR 0x27] @ ''re ready''),
                   fs))))"

definition runInitFromPack :: "lib \<Rightarrow> init_env \<Rightarrow> string \<Rightarrow> string \<Rightarrow> string \<Rightarrow> fsys \<Rightarrow> init_result" where
  "runInitFromPack L E outputPath vertical out fs =
     (case ByVertical (in_embedded E) vertical of
        None \<Rightarrow> (Some (errorf (''no policy pack found for vertical '' @ qt L vertical)), out, fs)
      | Some content \<Rightarrow>
          (case ParseBytes L content outputPath of
             Inl err \<Rightarrow>
               (Some (wrapf (''embedded policy pack for '' @ qt L vertical @ '' is invalid (bug '' @ em_dash @ '' please report)'') err), out, fs)
           | Inr parsed \<Rightarrow>
               (let results = Lint L parsed in
                if lint_errors results > 0 then
                  (Some (errorf (''embedded pack for '' @ qt L vertical @ '' has '' @ dec (int (lint_errors results))
                     @ '' lint error(s); file not written'')),
                   out @ line [] @ line (''The embedded '' @ qt L vertical @ '' policy pack has lint errors (bug '' @ em_dash @ '' please report):'')
                     @ line [] @ printInitLintResults results, fs)
                else
                  (case os_WriteFile (in_write E) outputPath content fs of
                     (Some err, fs) \<Rightarrow> (Some (wrapf ''writing policy file'' err), out, fs)
                   | (None, fs) \<Rightarrow>
                       (None,
                        out @ line [] @ line (check_mark @ '' Created '' @ outputPath @ '' (from '' @ vertical @ '' policy pack)'')
                        @ lint_notes results @ line [] @ line ''Next steps:''
                        @ line ''  1. Edit the tool names in the generated file to match your actual MCP tools''
                        @ line (''  2. truebearing agent register '' @ p_Agent parsed @ '' --policy '' @ outputPath)
                        @ line (''  3. truebearing serve --upstream <your-mcp-url> --policy '' @ outputPath)
                        @ line ''  4. Run your agent and review: truebearing audit query --decision shadow_deny'',
                        fs)))))"

text \<open>The confirmation, the vertical, and one of the two paths.\<close>

definition confirm_overwrite :: "init_env \<Rightarrow> string \<Rightarrow> tty \<Rightarrow> (gerr + unit) \<times> tty" where
  "confirm_overwrite E outputPath t =
     (if in_stat E outputPath then
        (case ReadString (say (line (''Warning: '' @ outputPath @ '' already exists and will be overwritten.'')
                 @ ''Press Enter to continue, or Ctrl-C to cancel: '') t) of
           (Inl err, t) \<Rightarrow> (Inl (wrapf ''reading confirmation'' err), t)
         | (Inr _, t) \<Rightarrow> (Inr (), t))
      else (Inr (), t))"

definition choose_vertical :: "lib \<Rightarrow> string \<Rightarrow> tty \<Rightarrow> (gerr + string) \<times> tty" where
  "choose_vertical L vertical t =
     (if vertical = [] then promptVertical L t
      else if \<not> isKnownVertical vertical then
        (Inl (errorf (''unknown --vertical '' @ qt L vertical
           @ ''; valid values: finance, healthcare, legal, life-sciences, devops, other'')), t)
      else (Inr vertical, t))"

definition runInit :: "lib \<Rightarrow> init_env \<Rightarrow> string \<Rightarrow> string \<Rightarrow> string \<Rightarrow> fsys \<Rightarrow> init_result" where
  "runInit L E outputPath vertical stdin fs =
     (case tty_bind (confirm_overwrite E outputPath ([], stdin))
             (\<lambda>_ t. choose_vertical L vertical
                (say (line ''TrueBearing Policy Scaffolder'' @ line (repeat_str box_dash 29)) t)) of
        (Inl err, t) \<Rightarrow> (Some err, fst t, fs)
      | (Inr v, t) \<Rightarrow>
          (if v \<noteq> ''other'' then runInitFromPack L E outputPath v (fst t) fs
           else
             (case ask_all L (in_parse_float E) t of
                (Inl err, t) \<Rightarrow> (Some err, fst t, fs)
              | (Inr a, t) \<Rightarrow> write_template L E outputPath a (fst t) fs)))"

end
