(* ===== verification/TB_InitFacts.thy ===== *)
theory TB_InitFacts
  imports TB_Init
begin

text \<open>
  What the scaffolder guarantees: a file is written only when its content parses and has no lint error,
  and the answers it is generated from refer to listed tools only.
\<close>

section \<open>What is written\<close>

text \<open>The outcome of a path that writes: nothing, a fault of the write, or a clean policy.\<close>

definition init_writes :: "lib \<Rightarrow> init_env \<Rightarrow> string \<Rightarrow> fsys \<Rightarrow> init_result \<Rightarrow> bool" where
  "init_writes L E outputPath fs r \<longleftrightarrow>
     (case r of (err, out, fs') \<Rightarrow>
        (case err of
           None \<Rightarrow> (\<exists>content pol. fs' = fs(outputPath := Inr content) \<and> ParseBytes L content outputPath = Inr pol
                      \<and> lint_errors (Lint L pol) = 0)
         | Some e \<Rightarrow> in_write E outputPath = None \<longrightarrow> fs' = fs))"

lemma write_template_writes: "init_writes L E outputPath fs (write_template L E outputPath a out fs)"
  by (auto simp: init_writes_def write_template_def Let_def os_WriteFile_def split: sum.split option.split)

lemma runInitFromPack_writes: "init_writes L E outputPath fs (runInitFromPack L E outputPath v out fs)"
  by (auto simp: init_writes_def runInitFromPack_def Let_def os_WriteFile_def split: sum.split option.split)

lemma runInit_writes: "init_writes L E outputPath fs (runInit L E outputPath vertical stdin fs)"
proof -
  have early: "init_writes L E outputPath fs (Some e, out, fs)" for e out by (simp add: init_writes_def)
  show ?thesis
    unfolding runInit_def
    by (auto split: prod.split sum.split simp: early write_template_writes runInitFromPack_writes)
qed

lemma lint_errors_0: "lint_errors rs = 0 \<longleftrightarrow> find (\<lambda>r. lr_Severity r = SeverityError) rs = None"
  by (auto simp: lint_errors_def filter_empty_conv find_None_iff)

section \<open>Answers\<close>

lemma parseCSV_fold:
  "distinct acc \<Longrightarrow> [] \<notin> set acc \<Longrightarrow>
   (let r = fold (\<lambda>p acc. let p = TrimSpace p in if p \<noteq> [] \<and> p \<notin> set acc then acc @ [p] else acc) ps acc
    in distinct r \<and> [] \<notin> set r \<and> set r = set acc \<union> (TrimSpace ` set ps - {[]}))"
proof (induction ps arbitrary: acc)
  case (Cons p ps)
  then show ?case using Cons.IH [of "acc @ [TrimSpace p]"] Cons.IH [of acc] by (auto simp: Let_def)
qed (simp add: Let_def)

lemma parseCSV_spec:
  "distinct (parseCSV s)" "[] \<notin> set (parseCSV s)" "set (parseCSV s) = TrimSpace ` set (split_on (CHR '','') s) - {[]}"
  using parseCSV_fold [of "[]" "split_on (CHR '','') s"] by (simp_all add: parseCSV_def Let_def)

lemma tty_bind_Inr:
  "tty_bind r k = (Inr y, t') \<longleftrightarrow> (\<exists>x t. r = (Inr x, t) \<and> k x t = (Inr y, t'))"
  by (auto simp: tty_bind_def split: prod.split sum.split)

lemma ask_high_risk_Inr: "ask_high_risk L allTools t = (Inr hs, t') \<Longrightarrow> set hs \<subseteq> set allTools"
  by (auto simp: ask_high_risk_def tty_bind_Inr find_None_iff split: option.splits)

lemma ask_prerequisites_Inr:
  "ask_prerequisites L allTools ts acc t = (Inr f, t') \<Longrightarrow> set (acc x) \<subseteq> set allTools \<Longrightarrow> set (f x) \<subseteq> set allTools"
proof (induction ts arbitrary: acc t)
  case (Cons tool rest)
  from Cons.prems(1) obtain l t1 where
    "prompt (''4. What must happen before '' @ qt L tool @ ''? (comma-separated tool names, or Enter to skip)'') [] (say (line []) t) = (Inr l, t1)"
    and k: "(case find (\<lambda>x. x \<notin> set allTools) (parseCSV l) of
          Some x \<Rightarrow> (Inl (errorf (''prerequisite '' @ qt L x @ '' for '' @ qt L tool @ '' is not in the tool list'')), t1)
        | None \<Rightarrow> ask_prerequisites L allTools rest (acc(tool := parseCSV l)) t1) = (Inr f, t')"
    by (auto simp: tty_bind_Inr)
  then have none: "find (\<lambda>x. x \<notin> set allTools) (parseCSV l) = None"
    and rest: "ask_prerequisites L allTools rest (acc(tool := parseCSV l)) t1 = (Inr f, t')" by (auto split: option.splits)
  have "set ((acc(tool := parseCSV l)) x) \<subseteq> set allTools" using none Cons.prems(2) by (auto simp: find_None_iff)
  then show ?case by (rule Cons.IH [OF rest])
qed simp

lemma ask_calls_Inr: "ask_calls L t = (Inr n, t') \<Longrightarrow> \<exists>l. parsePositiveInt L l 50 = Inr n"
proof -
  assume "ask_calls L t = (Inr n, t')"
  then obtain l where "(case parsePositiveInt L l 50 of Inl err \<Rightarrow> Inl (wrapf ''max tool calls'' err) | Inr n \<Rightarrow> Inr n) = Inr n"
    unfolding ask_calls_def tty_bind_Inr by blast
  then show ?thesis by (cases "parsePositiveInt L l 50") auto
qed

text \<open>Answers the generator may use.\<close>

definition answers_ok :: "answers \<Rightarrow> bool" where
  "answers_ok a \<longleftrightarrow> an_agentName a \<noteq> [] \<and> an_allTools a \<noteq> [] \<and> distinct (an_allTools a) \<and> [] \<notin> set (an_allTools a)
     \<and> set (an_highRisk a) \<subseteq> set (an_allTools a) \<and> (\<forall>t. set (an_prerequisites a t) \<subseteq> set (an_allTools a))
     \<and> 0 < an_maxCalls a \<and> an_maxCalls a < 2 ^ 63 \<and> \<not> f_le (an_maxCost a) f_zero"

lemma parsePositiveInt_Inr: "parsePositiveInt L s 50 = Inr n \<Longrightarrow> 0 < n \<and> n < 2 ^ 63"
  by (auto simp: parsePositiveInt_def Atoi_def Let_def split: if_splits option.splits)

section \<open>Properties\<close>

text \<open>C34: \<open>truebearing init\<close> never leaves a broken policy behind. When it succeeds, the output file, and no
  other, holds a text that parses to a policy without any lint error, so that \<open>policy lint\<close> and a hot reload
  accept it; when it fails for another reason than the write itself, no file has changed.\<close>

theorem init_writes_lint_clean:
  assumes "runInit L E outputPath vertical stdin fs = (err, out, fs')" "in_write E outputPath = None"
  shows "(err \<noteq> None \<and> fs' = fs) \<or> (err = None \<and> (\<exists>content pol. fs' = fs(outputPath := Inr content)
    \<and> ParseFile L fs' outputPath = Inr pol \<and> find (\<lambda>r. lr_Severity r = SeverityError) (Lint L pol) = None))"
proof (cases err)
  case None
  with runInit_writes [of L E outputPath fs vertical stdin] assms(1) obtain content pol where
    "fs' = fs(outputPath := Inr content)" "ParseBytes L content outputPath = Inr pol" "lint_errors (Lint L pol) = 0"
    by (auto simp: init_writes_def)
  with None show ?thesis by (auto simp: ParseFile_def lint_errors_0)
next
  case (Some e)
  with runInit_writes [of L E outputPath fs vertical stdin] assms show ?thesis by (auto simp: init_writes_def)
qed

text \<open>A run from an embedded pack.\<close>

definition sample_init :: init_env where
  "sample_init = \<lparr>in_stat = (\<lambda>_. False), in_write = (\<lambda>_. None), in_embedded = (\<lambda>_. ''A''), in_parse_float = (\<lambda>_. Some (Fin (1 / 250)))\<rparr>"

theorem init_writes_lint_clean_witness:
  "\<exists>err out fs'. runInit sample_lib sample_init ''p'' ''finance'' [] (\<lambda>_. Inl (errorf ''none'')) = (err, out, fs')
    \<and> err = None \<and> ParseFile sample_lib fs' ''p'' = ParseBytes sample_lib ''A'' ''p''"
proof -
  obtain err out fs' where r:
    "runInit sample_lib sample_init ''p'' ''finance'' [] (\<lambda>_. Inl (errorf ''none'')) = (err, out, fs')" by (metis prod_cases3)
  have "fst (runInit sample_lib sample_init ''p'' ''finance'' [] (\<lambda>_. Inl (errorf ''none''))) = None"
    "(snd (snd (runInit sample_lib sample_init ''p'' ''finance'' [] (\<lambda>_. Inl (errorf ''none''))))) ''p'' = Inr ''A''" by code_simp+
  with r have e: "err = None" "fs' ''p'' = Inr ''A''" by simp_all
  have "in_write sample_init ''p'' = None" by (simp add: sample_init_def)
  from init_writes_lint_clean [OF r this] e have "ParseFile sample_lib fs' ''p'' = ParseBytes sample_lib ''A'' ''p''"
    by (auto simp: ParseFile_def)
  with r e show ?thesis by blast
qed

text \<open>The questions hang together. Answers that reach the generator name an agent and at least one tool,
  no tool twice; every high-risk tool and every prerequisite is one of the listed tools; the call limit is a
  positive 64-bit integer, and the cost limit is not at most zero.\<close>

theorem init_answers_consistent:
  assumes "ask_all L parse t = (Inr a, t')"
  shows "answers_ok a"
proof -
  from assms obtain n t1 ts t2 hs t3 ps t4 calls t5 cost t6 where s:
    "ask_name (say (line ''Answer five questions to generate a policy file.''
         @ line ''Press Enter to accept the default shown in [brackets].'' @ line []) t) = (Inr n, t1)"
    "ask_tools t1 = (Inr ts, t2)" "ask_high_risk L ts t2 = (Inr hs, t3)"
    "ask_prerequisites L ts hs (\<lambda>_. []) t3 = (Inr ps, t4)" "ask_calls L t4 = (Inr calls, t5)" "ask_cost L parse t5 = (Inr cost, t6)"
    and a: "a = \<lparr>an_agentName = n, an_allTools = ts, an_highRisk = hs, an_prerequisites = ps, an_maxCalls = calls, an_maxCost = cost\<rparr>"
    by (auto simp: ask_all_def tty_bind_Inr)
  have "n \<noteq> []" using s(1) by (auto simp: ask_name_def tty_bind_Inr Let_def split: if_splits)
  moreover have "ts \<noteq> []" "distinct ts" "[] \<notin> set ts"
    using s(2) parseCSV_spec(1,2) by (auto simp: ask_tools_def tty_bind_Inr Let_def split: if_splits)
  moreover have "set hs \<subseteq> set ts" by (rule ask_high_risk_Inr [OF s(3)])
  moreover have "set (ps x) \<subseteq> set ts" for x by (rule ask_prerequisites_Inr [OF s(4)]) simp
  moreover have "0 < calls \<and> calls < 2 ^ 63"
    using ask_calls_Inr [OF s(5)] parsePositiveInt_Inr by blast
  moreover have "\<not> f_le cost f_zero"
    using s(6) by (auto simp: ask_cost_def tty_bind_Inr parsePositiveFloat_def Let_def split: sum.splits if_splits option.splits)
  ultimately show ?thesis by (simp add: answers_ok_def a)
qed

text \<open>Six lines typed at the terminal.\<close>

definition typed :: "string list \<Rightarrow> tty" where
  "typed ls = ([], concat (map line ls))"

theorem init_answers_consistent_witness:
  "\<exists>a t'. ask_all sample_lib (\<lambda>_. Some (Fin (1 / 250))) (typed [''bot'', ''get, pay'', ''pay'', ''get'', ''7'', ''0.004'']) = (Inr a, t')
    \<and> an_highRisk a = [''pay''] \<and> an_prerequisites a ''pay'' = [''get''] \<and> an_maxCalls a = 7 \<and> answers_ok a"
proof -
  let ?r = "ask_all sample_lib (\<lambda>_. Some (Fin (1 / 250))) (typed [''bot'', ''get, pay'', ''pay'', ''get'', ''7'', ''0.004''])"
  have "case fst ?r of Inl _ \<Rightarrow> False
     | Inr a \<Rightarrow> an_highRisk a = [''pay''] \<and> an_prerequisites a ''pay'' = [''get''] \<and> an_maxCalls a = 7" by code_simp
  then obtain a where "fst ?r = Inr a" and a: "an_highRisk a = [''pay'']" "an_prerequisites a ''pay'' = [''get'']" "an_maxCalls a = 7"
    by (auto split: sum.splits)
  then have r: "?r = (Inr a, snd ?r)" by (simp add: prod_eq_iff)
  from init_answers_consistent [OF r] r a show ?thesis by blast
qed

section \<open>Answers that surprise\<close>

text \<open>The name offered in brackets is not used: Enter at the first question is an error.\<close>

lemma enter_is_no_name: "fst (ask_name (typed [[]])) = Inl (errorf ''agent name cannot be empty'')"
  by code_simp

text \<open>A cost limit below half a cent is a positive answer and is written as no limit.\<close>

lemma tiny_cost_is_no_limit:
  "fst (ask_cost sample_lib (\<lambda>_. Some (Fin (1 / 250))) (typed [''0.004''])) = Inr (Fin (1 / 250))
   \<and> fmt_fixed 2 (Fin (1 / 250)) = ''0.00''"
  by code_simp

text \<open>So is a limit that is not a number.\<close>

lemma nan_cost_accepted: "parsePositiveFloat L (\<lambda>_. Some F_NaN) ''NaN'' d = Inr F_NaN"
proof -
  have "TrimSpace ''NaN'' = ''NaN''" by code_simp
  then show ?thesis by (simp add: parsePositiveFloat_def f_le_def)
qed

end
