(* ===== verification/TB_Concurrent.thy ===== *)
theory TB_Concurrent
  imports TB_Limits
begin

text \<open>
  Requests side by side. The server handles every request in a goroutine of its own; the goroutines share
  the database (one connection, so one store operation at a time), the version cache and the live policy
  (each under its own lock). Here a request is a goroutine that advances by at most one access to what is
  shared, cut at the statements of \<open>handleMCP\<close> and at the stages of the pipeline, and a run interleaves any
  number of them with the operator's actions and with other processes on the same database.
\<close>

section \<open>A request in progress\<close>

text \<open>What \<open>handleMCP\<close> holds in its local variables once the call is parsed.\<close>

record call_ctx =
  cx_request :: request
  cx_claims :: AgentClaims
  cx_sid :: string
  cx_rpc :: MCPRequest
  cx_params :: ToolCallParams
  cx_at :: int

text \<open>
  The constructors name what was done last. \<open>Replied\<close> keeps, for the statements about runs, what the
  call was decided and recorded as.
\<close>

datatype goroutine =
    Arrived request
  | Authenticated request AgentClaims
  | Polling request MCPRequest ToolCallParams
  | Called call_ctx
  | Missing call_ctx
  | Creating call_ctx Policy
  | Loaded call_ctx Session
  | Unpinned call_ctx Session
  | Deciding call_ctx nat Session Policy
  | Decided call_ctx Decision bool Session Policy
  | Recorded call_ctx nat Decision bool Session Policy
  | Audited call_ctx nat Decision bool Session Policy bool
  | Acting call_ctx nat Decision bool Session Policy bool
  | Replied request "(call_ctx \<times> nat \<times> Decision \<times> bool \<times> Session \<times> Policy) option" reply

definition ctx_call :: "call_ctx \<Rightarrow> ToolCall" where
  "ctx_call cx = engine_call (cx_claims cx) (cx_sid cx) (cx_params cx) (cx_at cx)"

text \<open>Middleware after authentication, and the part of \<open>handleMCP\<close> before the session is loaded.\<close>

definition open_call :: "net \<Rightarrow> request \<Rightarrow> AgentClaims \<Rightarrow> proxy \<Rightarrow> goroutine \<times> proxy" where
  "open_call N r claims p =
     (case rq_body r of
        Some (Inl _) \<Rightarrow> (Replied r None (writeBadRequest ''could not read request body''), p)
      | b \<Rightarrow>
          (let body = (case b of Some (Inr x) \<Rightarrow> x | _ \<Rightarrow> []);
               sessionID = rq_header r ''X-TrueBearing-Session-ID'' in
           if \<not> isToolCall N body then (Replied r None Forwarded, p)
           else if sessionID = [] then (Replied r None writeMissingSessionID, p)
           else
             (case ParseRequest N body of
                Inl _ \<Rightarrow> (Replied r None (writeBadRequest ''malformed MCP request''), p)
              | Inr mcpReq \<Rightarrow>
                  (case ParseToolCallParams N (mq_Params mcpReq) of
                     Inl _ \<Rightarrow> (Replied r None (writeBadRequest ''malformed tool call params''), p)
                   | Inr params \<Rightarrow>
                       (if ca_Name params = ''check_escalation_status'' then (Polling r mcpReq params, p)
                        else
                          (let requestedAt = now_at (n_world N) (px_db p) in
                           (Called \<lparr>cx_request = r, cx_claims = claims, cx_sid = sessionID, cx_rpc = mcpReq,
                              cx_params = params, cx_at = requestedAt\<rparr>,
                            writeTraceEntry N \<lparr>te_SessionID = sessionID, te_AgentName = cl_AgentName claims,
                              te_ToolName = ca_Name params, te_Arguments = ca_Arguments params,
                              te_RequestedAt = n_rfc3339 N requestedAt\<rparr> p)))))))"

text \<open>A terminated session is refused once its policy version is known.\<close>

definition start_pipeline :: "call_ctx \<Rightarrow> Session \<Rightarrow> Policy \<Rightarrow> goroutine" where
  "start_pipeline cx sess pol =
     (if s_Terminated sess then Replied (cx_request cx) None (writeGone (cx_sid cx)) else Deciding cx 0 sess pol)"

text \<open>One stage of the pipeline, over the database as it is now.\<close>

definition run_stage :: "net \<Rightarrow> call_ctx \<Rightarrow> nat \<Rightarrow> Session \<Rightarrow> Policy \<Rightarrow> proxy \<Rightarrow> goroutine \<times> proxy" where
  "run_stage N cx k sess pol p =
     (let W = n_world N; d = px_db p; call = ctx_call cx; over = p\<lparr>px_db := later pipeline_ticks d\<rparr> in
      case drop k (full_stages (w_lib W) (store_backend W (n_tools N) d) (now_at W d)) of
        [] \<Rightarrow> (Decided cx allow (s_Tainted sess) (applyTaintMutations call sess pol) pol, over)
      | ev # _ \<Rightarrow>
          (case ev call sess pol of
             Inl err \<Rightarrow> (Decided cx (internal_error err) (s_Tainted sess) sess pol, over)
           | Inr dn \<Rightarrow>
               (if d_Action dn \<noteq> Allow then
                  (Decided cx (if effectiveMode pol (tc_ToolName call) = EnforcementShadow
                     then dn\<lparr>d_Action := ShadowDeny\<rparr> else dn) (s_Tainted sess) sess pol, over)
                else (Deciding cx (Suc k) sess pol, p))))"

text \<open>Record the decision as the next event of the session.\<close>

definition record_call :: "net \<Rightarrow> call_ctx \<Rightarrow> Decision \<Rightarrow> bool \<Rightarrow> Session \<Rightarrow> Policy \<Rightarrow> proxy \<Rightarrow> goroutine \<times> proxy" where
  "record_call N cx dn t0 sess pol p =
     (let event = \<lparr>e_Seq = 0, e_SessionID = cx_sid cx, e_ToolName = ca_Name (cx_params cx),
                   e_ArgumentsJSON = ca_Arguments (cx_params cx), e_Decision = action_str (d_Action dn),
                   e_PolicyRule = d_RuleID dn, e_RecordedAt = 0\<rparr>
      in case AppendEvent (n_world N) event (px_db p) of
           (Inl appendErr, d) \<Rightarrow> (Replied (cx_request cx) None (writeBadRequest ''session recording failed''), p\<lparr>px_db := d\<rparr>)
         | (Inr event, d) \<Rightarrow> (Recorded cx (e_Seq event) dn t0 sess pol, p\<lparr>px_db := d\<rparr>))"

text \<open>The signed audit record, and the span of the decision.\<close>

definition audit_call :: "net \<Rightarrow> call_ctx \<Rightarrow> nat \<Rightarrow> Decision \<Rightarrow> bool \<Rightarrow> Session \<Rightarrow> Policy \<Rightarrow> proxy \<Rightarrow> goroutine \<times> proxy" where
  "audit_call N cx seq dn t0 sess pol p =
     (let call = ctx_call cx;
          (auditFailed, p1) = writeAuditRecord N (cx_request cx) (cx_sid cx) (tc_AgentName call) (tc_ParentAgent call)
            (ca_Name (cx_params cx)) (ca_Arguments (cx_params cx)) seq dn (p_Fingerprint pol) p
      in (Audited cx seq dn t0 sess pol auditFailed,
          emitDecisionSpan (cx_at cx) (cx_sid cx) (tc_AgentName call) (ca_Name (cx_params cx)) dn
            (p_Fingerprint pol) (ExtractClientTraceID (rq_header (cx_request cx))) p1))"

section \<open>Turns\<close>

text \<open>A turn of a goroutine: its next state and the shared state it leaves.\<close>

fun advance :: "net \<Rightarrow> (string \<Rightarrow> bool) \<Rightarrow> goroutine \<Rightarrow> proxy \<Rightarrow> goroutine \<times> proxy" where
  "advance N stat (Arrived r) p =
     (if rq_path r = ''/health'' then (let (p, rep) = handleHealth N stat p in (Replied r None rep, p))
      else
        (case authenticate (n_world N) (n_keys N) (rq_header r) (px_db p) of
           (Inl m, d) \<Rightarrow> (Replied r None (writeUnauthorized m), p\<lparr>px_db := d\<rparr>)
         | (Inr claims, d) \<Rightarrow> (Authenticated r claims, p\<lparr>px_db := d\<rparr>)))"
| "advance N stat (Authenticated r claims) p = open_call N r claims p"
| "advance N stat (Polling r mcpReq params) p =
     (let (p, rep) = escalation_status N mcpReq params p in (Replied r None rep, p))"
| "advance N stat (Called cx) p =
     (case GetSession (n_world N) (cx_sid cx) (px_db p) of
        (Inr sess, d) \<Rightarrow> (Loaded cx sess, p\<lparr>px_db := d\<rparr>)
      | (Inl err, d) \<Rightarrow>
          (if \<not> errors_Is err SqlErrNoRows
           then (Replied (cx_request cx) None (writeBadRequest ''session lookup failed''), p\<lparr>px_db := d\<rparr>)
           else (Missing cx, p\<lparr>px_db := d\<rparr>)))"
| "advance N stat (Missing cx) p = (Creating cx (px_livePol p), p)"
| "advance N stat (Creating cx pol) p =
     (case CreateSession (n_world N) (cx_sid cx) (cl_AgentName (cx_claims cx)) (p_Fingerprint pol) (px_db p) of
        (Inl createErr, d) \<Rightarrow> (Replied (cx_request cx) None (writeBadRequest ''session creation failed''), p\<lparr>px_db := d\<rparr>)
      | (Inr _, d) \<Rightarrow> (Loaded cx (fresh_session (cx_sid cx) (cx_claims cx) pol), p\<lparr>px_db := d\<rparr>))"
| "advance N stat (Loaded cx sess) p =
     (case policyForFingerprint (s_PolicyFingerprint sess) p of
        (Some pol, p') \<Rightarrow> (start_pipeline cx sess pol, p')
      | (None, p') \<Rightarrow> (Unpinned cx sess, p'))"
| "advance N stat (Unpinned cx sess) p = (start_pipeline cx sess (px_livePol p), p)"
| "advance N stat (Deciding cx k sess pol) p = run_stage N cx k sess pol p"
| "advance N stat (Decided cx dn t0 sess pol) p = record_call N cx dn t0 sess pol p"
| "advance N stat (Recorded cx seq dn t0 sess pol) p = audit_call N cx seq dn t0 sess pol p"
| "advance N stat (Audited cx seq dn t0 sess pol auditFailed) p =
     (case persist_taint N (cx_sid cx) t0 sess p of
        (Some failure, p') \<Rightarrow> (Replied (cx_request cx) (Some (cx, seq, dn, t0, sess, pol)) failure, p')
      | (None, p') \<Rightarrow> (Acting cx seq dn t0 sess pol auditFailed, p'))"
| "advance N stat (Acting cx seq dn t0 sess pol auditFailed) p =
     (let (p', rep) = enforce N (cx_rpc cx) (cx_params cx) (cx_sid cx) seq dn pol auditFailed p
      in (Replied (cx_request cx) (Some (cx, seq, dn, t0, sess, pol)) rep, p'))"
| "advance N stat (Replied r c rep) p = (Replied r c rep, p)"

fun replied :: "goroutine \<Rightarrow> bool" where
  "replied (Replied r c rep) = True"
| "replied _ = False"

text \<open>A goroutine that has the shared state for itself.\<close>

fun run_alone :: "nat \<Rightarrow> net \<Rightarrow> (string \<Rightarrow> bool) \<Rightarrow> goroutine \<times> proxy \<Rightarrow> goroutine \<times> proxy" where
  "run_alone 0 N stat s = s"
| "run_alone (Suc n) N stat s = run_alone n N stat (advance N stat (fst s) (snd s))"

section \<open>Runs\<close>

record system =
  sy_proxy :: proxy
  sy_threads :: "goroutine list"

definition busy :: "system \<Rightarrow> nat" where
  "busy s = length (filter (\<lambda>g. \<not> replied g) (sy_threads s))"

definition turn :: "net \<Rightarrow> (string \<Rightarrow> bool) \<Rightarrow> nat \<Rightarrow> system \<Rightarrow> system" where
  "turn N stat i s =
     (let (g, p) = advance N stat (sy_threads s ! i) (sy_proxy s)
      in \<lparr>sy_proxy = p, sy_threads = (sy_threads s)[i := g]\<rparr>)"

text \<open>
  Runs with at most \<open>K\<close> requests in progress at a time. The flag says whether operators and other
  processes take part.
\<close>

inductive conc_run :: "net \<Rightarrow> nat \<Rightarrow> bool \<Rightarrow> system \<Rightarrow> system \<Rightarrow> bool" for N K ops where
  start: "conc_run N K ops s s"
| accept: "conc_run N K ops s t \<Longrightarrow> busy t < K \<Longrightarrow> conc_run N K ops s (t\<lparr>sy_threads := sy_threads t @ [Arrived r]\<rparr>)"
| go: "conc_run N K ops s t \<Longrightarrow> i < length (sy_threads t) \<Longrightarrow> conc_run N K ops s (turn N stat i t)"
| operator: "conc_run N K ops s t \<Longrightarrow> ops \<Longrightarrow> \<forall>r. i \<noteq> Request r \<Longrightarrow>
    conc_run N K ops s (t\<lparr>sy_proxy := px_step N fs i (sy_proxy t)\<rparr>)"
| other_process: "conc_run N K ops s t \<Longrightarrow> ops \<Longrightarrow> store_call (n_world N) (px_db (sy_proxy t)) d \<Longrightarrow>
    conc_run N K ops s (t\<lparr>sy_proxy := (sy_proxy t)\<lparr>px_db := d\<rparr>\<rparr>)"

end
