(* ===== verification/TB_ConcurrentFacts.thy ===== *)
theory TB_ConcurrentFacts
  imports TB_Concurrent
begin

text \<open>
  What interleaving preserves and what it costs. A goroutine alone computes \<open>serve\<close>; the invariants of reachable proxies, complete mediation and the
  prerequisites of a call hold under every interleaving; the call budget can be overrun, but by less
  than the number of requests in progress at a time.
\<close>

section \<open>A goroutine alone\<close>

definition ends :: "net \<Rightarrow> (string \<Rightarrow> bool) \<Rightarrow> nat \<Rightarrow> goroutine \<times> proxy \<Rightarrow> proxy \<times> reply \<Rightarrow> bool" where
  "ends N stat n s out \<longleftrightarrow> (\<exists>r c. run_alone n N stat s = (Replied r c (snd out), fst out))"

lemma run_alone_replied [simp]: "run_alone n N stat (Replied r c rep, p) = (Replied r c rep, p)"
  by (induction n) simp_all

lemma ends_replied [simp]: "ends N stat n (Replied r c rep, p) out \<longleftrightarrow> out = (p, rep)"
  by (auto simp: ends_def prod_eq_iff)

lemma run_alone_add: "run_alone (m + n) N stat s = run_alone n N stat (run_alone m N stat s)"
  by (induction m arbitrary: s) simp_all

lemma ends_mono: "ends N stat m s out \<Longrightarrow> m \<le> n \<Longrightarrow> ends N stat n s out"
  using run_alone_add [of m "n - m" N stat s] by (auto simp: ends_def)

lemma ends_turn: "ends N stat n (advance N stat g p) out \<Longrightarrow> ends N stat (Suc n) (g, p) out"
  by (simp add: ends_def)

lemma ends_numeral:
  "ends N stat (pred_numeral k) (advance N stat g p) out \<Longrightarrow> ends N stat (numeral k) (g, p) out"
  unfolding numeral_eq_Suc by (rule ends_turn)

lemma acting_ends:
  "ends N stat 1 (Acting cx seq dn t0 sess pol af, p) (enforce N (cx_rpc cx) (cx_params cx) (cx_sid cx) seq dn pol af p)"
  by (simp add: ends_def split_beta)

lemma audited_ends:
  "ends N stat 2 (Audited cx seq dn t0 sess pol af, p)
     (case persist_taint N (cx_sid cx) t0 sess p of
        (Some failure, p') \<Rightarrow> (p', failure)
      | (None, p') \<Rightarrow> enforce N (cx_rpc cx) (cx_params cx) (cx_sid cx) seq dn pol af p')"
  unfolding numeral_2_eq_2 by (rule ends_turn) (auto split: prod.split option.split intro: acting_ends [simplified])

lemma ctx_call_sel [simp]:
  "tc_SessionID (ctx_call cx) = cx_sid cx" "tc_ToolName (ctx_call cx) = ca_Name (cx_params cx)"
  "tc_AgentName (ctx_call cx) = cl_AgentName (cx_claims cx)" "tc_RequestedAt (ctx_call cx) = Some (cx_at cx)"
  by (simp_all add: ctx_call_def engine_call_def)

text \<open>What is left of \<open>record_and_enforce\<close> after the event.\<close>

definition after_event ::
    "net \<Rightarrow> call_ctx \<Rightarrow> nat \<Rightarrow> Decision \<Rightarrow> bool \<Rightarrow> Session \<Rightarrow> Policy \<Rightarrow> proxy \<Rightarrow> proxy \<times> reply" where
  "after_event N cx seq dn t0 sess pol p =
     (let call = ctx_call cx;
          (af, p1) = writeAuditRecord N (cx_request cx) (cx_sid cx) (tc_AgentName call) (tc_ParentAgent call)
            (ca_Name (cx_params cx)) (ca_Arguments (cx_params cx)) seq dn (p_Fingerprint pol) p;
          p2 = emitDecisionSpan (cx_at cx) (cx_sid cx) (tc_AgentName call) (ca_Name (cx_params cx)) dn
            (p_Fingerprint pol) (ExtractClientTraceID (rq_header (cx_request cx))) p1
      in case persist_taint N (cx_sid cx) t0 sess p2 of
           (Some failure, p3) \<Rightarrow> (p3, failure)
         | (None, p3) \<Rightarrow> enforce N (cx_rpc cx) (cx_params cx) (cx_sid cx) seq dn pol af p3)"

lemma recorded_ends: "ends N stat 3 (Recorded cx seq dn t0 sess pol, p) (after_event N cx seq dn t0 sess pol p)"
  by (rule ends_numeral)
    (use audited_ends in \<open>auto simp: audit_call_def after_event_def Let_def split: prod.split\<close>)

lemma record_after_event:
  "record_and_enforce N (cx_request cx) (cx_rpc cx) (cx_params cx) (ctx_call cx) t0 dn sess pol p =
     (case AppendEvent (n_world N) \<lparr>e_Seq = 0, e_SessionID = cx_sid cx, e_ToolName = ca_Name (cx_params cx),
         e_ArgumentsJSON = ca_Arguments (cx_params cx), e_Decision = action_str (d_Action dn),
         e_PolicyRule = d_RuleID dn, e_RecordedAt = 0\<rparr> (px_db p) of
        (Inl e, d) \<Rightarrow> (p\<lparr>px_db := d\<rparr>, writeBadRequest ''session recording failed'')
      | (Inr ev, d) \<Rightarrow> after_event N cx (e_Seq ev) dn t0 sess pol (p\<lparr>px_db := d\<rparr>))"
  by (auto simp: record_and_enforce_def after_event_def Let_def split: prod.split sum.split)

lemma decided_ends:
  "ends N stat 4 (Decided cx dn t0 sess pol, p)
     (record_and_enforce N (cx_request cx) (cx_rpc cx) (cx_params cx) (ctx_call cx) t0 dn sess pol p)"
  by (rule ends_numeral) (auto simp: record_call_def record_after_event Let_def recorded_ends split: prod.split sum.split)

lemma deciding_ends:
  "ends N stat (9 - k + 5) (Deciding cx k sess pol, p)
     (let d = px_db p;
          (dn, sess') = Evaluate (drop k (full_stages (n_lib N) (store_backend (n_world N) (n_tools N) d) (now_at (n_world N) d)))
            (ctx_call cx) sess pol
      in record_and_enforce N (cx_request cx) (cx_rpc cx) (cx_params cx) (ctx_call cx) (s_Tainted sess) dn sess' pol
           (p\<lparr>px_db := later pipeline_ticks d\<rparr>))"
proof (induction "9 - k" arbitrary: k)
  case 0
  let ?st = "full_stages (n_lib N) (store_backend (n_world N) (n_tools N) (px_db p)) (now_at (n_world N) (px_db p))"
  have e: "drop k ?st = []" "9 - k + 5 = 5" using 0 by (simp_all add: full_stages_def)
  have "ends N stat 5 (Deciding cx k sess pol, p)
     (record_and_enforce N (cx_request cx) (cx_rpc cx) (cx_params cx) (ctx_call cx) (s_Tainted sess) allow
       (applyTaintMutations (ctx_call cx) sess pol) pol (p\<lparr>px_db := later pipeline_ticks (px_db p)\<rparr>))"
    by (rule ends_numeral) (simp add: run_stage_def Let_def e(1) decided_ends del: drop_eq_Nil)
  then show ?case by (simp only: e Let_def Evaluate.simps prod.case)
next
  case (Suc n)
  let ?st = "full_stages (n_lib N) (store_backend (n_world N) (n_tools N) (px_db p)) (now_at (n_world N) (px_db p))"
  have k: "k < length ?st" "9 - Suc k = n" "9 - k + 5 = Suc (9 - Suc k + 5)" using Suc(2) by (simp_all add: full_stages_def)
  have dr: "drop k ?st = ?st ! k # drop (Suc k) ?st" by (rule Cons_nth_drop_Suc [symmetric]) (rule k)
  have d4: "ends N stat (9 - Suc k + 5) (Decided cx dn t0 sess pol, q)
     (record_and_enforce N (cx_request cx) (cx_rpc cx) (cx_params cx) (ctx_call cx) t0 dn sess pol q)" for dn t0 q
    by (rule ends_mono [OF decided_ends]) simp
  have ih: "ends N stat (9 - Suc k + 5) (Deciding cx (Suc k) sess pol, p)
     (let (dn, sess') = Evaluate (drop (Suc k) ?st) (ctx_call cx) sess pol
      in record_and_enforce N (cx_request cx) (cx_rpc cx) (cx_params cx) (ctx_call cx) (s_Tainted sess) dn sess' pol
           (p\<lparr>px_db := later pipeline_ticks (px_db p)\<rparr>))"
    using Suc(1) [of "Suc k"] k(2) unfolding Let_def by blast
  have "ends N stat (9 - Suc k + 5) (run_stage N cx k sess pol p)
     (let (dn, sess') = Evaluate (?st ! k # drop (Suc k) ?st) (ctx_call cx) sess pol
      in record_and_enforce N (cx_request cx) (cx_rpc cx) (cx_params cx) (ctx_call cx) (s_Tainted sess) dn sess' pol
           (p\<lparr>px_db := later pipeline_ticks (px_db p)\<rparr>))"
    unfolding run_stage_def Let_def dr
    using ih d4 unfolding Let_def by (cases "(?st ! k) (ctx_call cx) sess pol") simp_all
  then show ?case unfolding k(3) Let_def dr by (intro ends_turn) simp
qed

lemma pipeline_ends:
  assumes "\<not> s_Terminated sess"
  shows "ends N stat 14 (start_pipeline cx sess pol, p)
     (let ((dn, sess'), p') = decide N (ctx_call cx) sess pol p
      in record_and_enforce N (cx_request cx) (cx_rpc cx) (cx_params cx) (ctx_call cx) (s_Tainted sess) dn sess' pol p')"
  using deciding_ends [of N stat 0 cx sess pol p] assms by (simp add: start_pipeline_def decide_def Let_def split_beta)

text \<open>From the loaded session on.\<close>

definition finish_call :: "net \<Rightarrow> call_ctx \<Rightarrow> Session \<Rightarrow> proxy \<Rightarrow> proxy \<times> reply" where
  "finish_call N cx sess p =
     (let (pol, p2) = session_policy sess p in
      if s_Terminated sess then (p2, writeGone (cx_sid cx))
      else
        (let ((dn, sess'), p3) = decide N (ctx_call cx) sess pol p2
         in record_and_enforce N (cx_request cx) (cx_rpc cx) (cx_params cx) (ctx_call cx) (s_Tainted sess) dn sess' pol p3))"

lemma loaded_ends: "ends N stat 16 (Loaded cx sess, p) (finish_call N cx sess p)"
proof -
  have s: "ends N stat 14 (start_pipeline cx sess pol, q)
      (if s_Terminated sess then (q, writeGone (cx_sid cx))
       else let ((dn, sess'), p3) = decide N (ctx_call cx) sess pol q
         in record_and_enforce N (cx_request cx) (cx_rpc cx) (cx_params cx) (ctx_call cx) (s_Tainted sess) dn sess' pol p3)" for pol q
    using pipeline_ends by (cases "s_Terminated sess") (simp_all add: start_pipeline_def)
  have "ends N stat (Suc (Suc 14)) (Loaded cx sess, p) (finish_call N cx sess p)"
  proof (rule ends_turn, cases "policyForFingerprint (s_PolicyFingerprint sess) p")
    case (Pair r p')
    then show "ends N stat (Suc 14) (advance N stat (Loaded cx sess) p) (finish_call N cx sess p)"
    proof (cases r)
      case None
      have "ends N stat (Suc 14) (Unpinned cx sess, p') (finish_call N cx sess p)"
        by (rule ends_turn) (use s Pair None in \<open>simp add: finish_call_def session_policy_def Let_def\<close>)
      with Pair None show ?thesis by simp
    next
      case (Some pol)
      have "ends N stat (Suc 14) (start_pipeline cx sess pol, p') (finish_call N cx sess p)"
        by (rule ends_mono [where m = 14]) (use s Pair Some in \<open>simp_all add: finish_call_def session_policy_def Let_def\<close>)
      with Pair Some show ?thesis by simp
    qed
  qed
  then show ?thesis by (simp add: eval_nat_numeral)
qed

lemma handle_finish:
  assumes "cx = \<lparr>cx_request = r, cx_claims = claims, cx_sid = sid, cx_rpc = q, cx_params = ps, cx_at = now_at (n_world N) (px_db p)\<rparr>"
  shows "handle_tool_call N r claims sid q ps p =
    (case load_session N sid claims (writeTraceEntry N \<lparr>te_SessionID = sid, te_AgentName = cl_AgentName claims,
         te_ToolName = ca_Name ps, te_Arguments = ca_Arguments ps,
         te_RequestedAt = n_rfc3339 N (now_at (n_world N) (px_db p))\<rparr> p) of
       (Inl failure, p1) \<Rightarrow> (p1, failure)
     | (Inr sess, p1) \<Rightarrow> finish_call N cx sess p1)"
  unfolding assms handle_tool_call_def evaluate_call_def finish_call_def Let_def
  by (auto simp: ctx_call_def Let_def split: prod.split sum.split)

text \<open>Creating the session, from the point where it is known to be missing.\<close>

definition create_call :: "net \<Rightarrow> call_ctx \<Rightarrow> Policy \<Rightarrow> proxy \<Rightarrow> proxy \<times> reply" where
  "create_call N cx pol p =
     (case CreateSession (n_world N) (cx_sid cx) (cl_AgentName (cx_claims cx)) (p_Fingerprint pol) (px_db p) of
        (Inl e, d) \<Rightarrow> (p\<lparr>px_db := d\<rparr>, writeBadRequest ''session creation failed'')
      | (Inr _, d) \<Rightarrow> finish_call N cx (fresh_session (cx_sid cx) (cx_claims cx) pol) (p\<lparr>px_db := d\<rparr>))"

lemma creating_ends: "ends N stat 17 (Creating cx pol, p) (create_call N cx pol p)"
  by (rule ends_numeral) (auto simp: create_call_def loaded_ends split: prod.split sum.split)

lemma missing_ends: "ends N stat 18 (Missing cx, p) (create_call N cx (px_livePol p) p)"
  by (rule ends_numeral) (simp add: creating_ends)

lemma load_create:
  "(case load_session N (cx_sid cx) (cx_claims cx) p of
      (Inl failure, p1) \<Rightarrow> (p1, failure) | (Inr sess, p1) \<Rightarrow> finish_call N cx sess p1) =
   (case GetSession (n_world N) (cx_sid cx) (px_db p) of
      (Inr sess, d) \<Rightarrow> finish_call N cx sess (p\<lparr>px_db := d\<rparr>)
    | (Inl err, d) \<Rightarrow>
        (if \<not> errors_Is err SqlErrNoRows then (p\<lparr>px_db := d\<rparr>, writeBadRequest ''session lookup failed'')
         else create_call N cx (px_livePol p) (p\<lparr>px_db := d\<rparr>)))"
  by (simp add: load_session_def create_call_def fresh_session_def Let_def split: prod.split sum.split)

lemma called_ends:
  "ends N stat 19 (Called cx, p)
     (case load_session N (cx_sid cx) (cx_claims cx) p of
        (Inl failure, p1) \<Rightarrow> (p1, failure)
      | (Inr sess, p1) \<Rightarrow> finish_call N cx sess p1)"
proof -
  have m: "ends N stat 18 (Missing cx, p\<lparr>px_db := d\<rparr>) (create_call N cx (px_livePol p) (p\<lparr>px_db := d\<rparr>))" for d
    using missing_ends [of N stat cx "p\<lparr>px_db := d\<rparr>"] by simp
  have l: "ends N stat 18 (Loaded cx sess, q) (finish_call N cx sess q)" for sess q
    by (rule ends_mono [OF loaded_ends]) simp
  show ?thesis unfolding load_create
    by (rule ends_numeral) (auto simp: m l split: prod.split sum.split)
qed

lemma handle_ends:
  "ends N stat 19 (Called \<lparr>cx_request = r, cx_claims = claims, cx_sid = sid, cx_rpc = q, cx_params = ps,
       cx_at = now_at (n_world N) (px_db p)\<rparr>,
     writeTraceEntry N \<lparr>te_SessionID = sid, te_AgentName = cl_AgentName claims, te_ToolName = ca_Name ps,
       te_Arguments = ca_Arguments ps, te_RequestedAt = n_rfc3339 N (now_at (n_world N) (px_db p))\<rparr> p)
     (handle_tool_call N r claims sid q ps p)"
  using called_ends [of N stat "\<lparr>cx_request = r, cx_claims = claims, cx_sid = sid, cx_rpc = q, cx_params = ps,
       cx_at = now_at (n_world N) (px_db p)\<rparr>"]
  by (simp add: handle_finish [where p = p, OF HOL.refl])

lemma authenticated_ends: "ends N stat 20 (Authenticated r claims, p) (SessionMiddleware N r claims p)"
proof -
  have poll: "ends N stat 19 (Polling r q ps, p) (escalation_status N q ps p)" for q ps
    by (rule ends_mono [where m = 1]) (simp_all add: ends_def split_beta)
  show ?thesis
    by (rule ends_numeral)
      (auto simp: open_call_def SessionMiddleware_def handleMCP_def Let_def poll handle_ends
        split: option.split sum.split)
qed

lemma arrived_ends: "ends N stat 21 (Arrived r, p) (serve N stat r p)"
  by (rule ends_numeral)
    (auto simp: serve_def AuthMiddleware_def authenticated_ends split_beta split: sum.split)

section \<open>The request and the shared state\<close>

text \<open>The request a goroutine serves.\<close>

fun rq_of :: "goroutine \<Rightarrow> request" where
  "rq_of (Arrived r) = r"
| "rq_of (Authenticated r claims) = r"
| "rq_of (Polling r q ps) = r"
| "rq_of (Called cx) = cx_request cx"
| "rq_of (Missing cx) = cx_request cx"
| "rq_of (Creating cx pol) = cx_request cx"
| "rq_of (Loaded cx sess) = cx_request cx"
| "rq_of (Unpinned cx sess) = cx_request cx"
| "rq_of (Deciding cx k sess pol) = cx_request cx"
| "rq_of (Decided cx dn t0 sess pol) = cx_request cx"
| "rq_of (Recorded cx seq dn t0 sess pol) = cx_request cx"
| "rq_of (Audited cx seq dn t0 sess pol af) = cx_request cx"
| "rq_of (Acting cx seq dn t0 sess pol af) = cx_request cx"
| "rq_of (Replied r c rep) = r"

lemma advance_request [simp]: "rq_of (fst (advance N stat g p)) = rq_of g"
proof (cases g)
  case (Authenticated r claims)
  then show ?thesis by (auto simp: open_call_def Let_def split: option.split sum.split)
next
  case (Deciding cx k sess pol)
  then show ?thesis by (auto simp: run_stage_def Let_def split: list.split sum.split)
qed (auto simp: start_pipeline_def record_call_def audit_call_def Let_def split: prod.split sum.split option.split)

section \<open>Turns of a running proxy\<close>

lemma open_call_proxy: "px_effect p (snd (open_call N r claims p))"
proof -
  have t: "px_effect p (writeTraceEntry N e p)" for e by (simp add: px_effect_def effects.refl)
  show ?thesis by (auto simp: open_call_def Let_def t split: option.split sum.split)
qed

lemma run_stage_proxy: "px_effect p (snd (run_stage N cx k sess pol p))"
proof -
  have l: "px_effect p (p\<lparr>px_db := later n (px_db p)\<rparr>)" for n
    by (simp add: px_effect_def effects_same)
  show ?thesis by (auto simp: run_stage_def Let_def l split: list.split sum.split)
qed

lemma px_effect_same: "same_tables (px_db p) d \<Longrightarrow> px_effect p (p\<lparr>px_db := d\<rparr>)"
  by (simp add: px_effect_def effects_same)

lemma authenticate_proxy:
  "authenticate W K h (px_db p) = (res, d) \<Longrightarrow> px_effect p (p\<lparr>px_db := d\<rparr>)"
  using same_tables_authenticate [of "px_db p" W K h] by (auto intro: px_effect_same)

lemma health_proxy: "handleHealth N stat p = (p', rep) \<Longrightarrow> px_effect p p'"
proof -
  have t: "px_effect p (p\<lparr>px_db := tick (px_db p)\<rparr>)" by (rule px_effect_same) simp
  assume "handleHealth N stat p = (p', rep)"
  then show ?thesis using t by (auto simp: handleHealth_def Let_def store_Ping_def split: if_splits option.splits)
qed

lemma record_call_proxy: "px_effect p (snd (record_call N cx dn t0 sess pol p))"
proof -
  have e: "px_effect p (p\<lparr>px_db := d\<rparr>)" if "AppendEvent W ev (px_db p) = (res, d)" for W ev res d
    using AppendEvent_effect [of "px_db p" W ev] that by (simp add: px_effect_db)
  show ?thesis by (auto simp: record_call_def Let_def split: prod.split sum.split intro: e)
qed

lemma audit_call_proxy: "px_effect p (snd (audit_call N cx seq dn t0 sess pol p))"
proof -
  have e: "px_effect p p'" if "writeAuditRecord N r sid a pa t ar sq dn' fp p = (af, p')" for r sid a pa t ar sq dn' fp af p'
    using that by (cases rule: writeAuditRecord_cases)
  show ?thesis
    by (auto simp: audit_call_def Let_def split: prod.split intro: px_effect_trans [OF e])
qed

lemma advance_step: "handler_step p (snd (advance N stat g p))"
proof (cases g)
  case (Arrived r)
  then show ?thesis
    by (auto intro!: handler_stepI intro: health_proxy authenticate_proxy split: prod.split sum.split)
next
  case (Polling r q ps)
  then show ?thesis by (auto intro!: handler_stepI split: prod.split dest: escalation_status_reply(3))
next
  case (Called cx)
  have "px_effect p (p\<lparr>px_db := d\<rparr>)" if "GetSession W i (px_db p) = (res, d)" for W i res d
    using reads_change_nothing(1) [of "px_db p" W i] that by (intro px_effect_same) simp
  with Called show ?thesis by (auto intro!: handler_stepI split: prod.split sum.split)
next
  case (Creating cx pol)
  have "px_effect p (p\<lparr>px_db := d\<rparr>)" if "CreateSession W i a fp (px_db p) = (res, d)" for W i a fp res d
    using CreateSession_effect [of "px_db p" W i a fp] that by (simp add: px_effect_db)
  with Creating show ?thesis by (auto intro!: handler_stepI split: prod.split sum.split)
next
  case (Loaded cx sess)
  then have "snd (advance N stat g p) = p\<lparr>px_polCache := snd (lru_get (px_polCache p) (s_PolicyFingerprint sess))\<rparr>"
    by (simp add: policyForFingerprint_def Let_def split: prod.split option.split)
  then show ?thesis by (auto simp: handler_step_def effects.refl same_config_def)
next
  case (Audited cx seq dn t0 sess pol af)
  then show ?thesis by (auto intro!: handler_stepI split: prod.split option.split dest: persist_taint_cases(1))
next
  case (Acting cx seq dn t0 sess pol af)
  then show ?thesis by (auto intro!: handler_stepI split: prod.split dest: enforce_cases(1))
qed (use open_call_proxy run_stage_proxy record_call_proxy audit_call_proxy in
    \<open>simp_all add: handler_stepI\<close>)

section \<open>What a goroutine knows\<close>

text \<open>The call is the one its request carries, and a governed one.\<close>

definition ctx_ok :: "net \<Rightarrow> call_ctx \<Rightarrow> bool" where
  "ctx_ok N cx \<longleftrightarrow> tool_call_of N (cx_request cx) = Some (cx_rpc cx, cx_params cx) \<and> cx_sid cx = session_header (cx_request cx)
     \<and> rq_path (cx_request cx) \<noteq> ''/health'' \<and> ca_Name (cx_params cx) \<noteq> ''check_escalation_status''"

text \<open>The session in memory is one the database has held.\<close>

definition loaded_ok :: "db \<Rightarrow> call_ctx \<Rightarrow> Session \<Rightarrow> bool" where
  "loaded_ok d cx sess \<longleftrightarrow> s_ID sess = cx_sid cx \<and> find_session d (cx_sid cx) \<noteq> None
     \<and> s_ToolCallCount sess \<le> call_count d (cx_sid cx)"

text \<open>What the first \<open>k\<close> stages have established, as far as no later event can undo it.\<close>

definition passed :: "lib \<Rightarrow> db \<Rightarrow> call_ctx \<Rightarrow> nat \<Rightarrow> bool \<Rightarrow> Session \<Rightarrow> Policy \<Rightarrow> bool" where
  "passed L d cx k tainted sess pol \<longleftrightarrow>
     (let call = ctx_call cx; tool = ca_Name (cx_params cx) in
      (0 < k \<longrightarrow> env_ok pol call) \<and> (1 < k \<longrightarrow> may_use_ok pol tool) \<and> (3 < k \<longrightarrow> budget_ok pol sess)
      \<and> (4 < k \<longrightarrow> wf_policy pol \<longrightarrow> taint_ok pol tainted tool)
      \<and> (5 < k \<longrightarrow> set (only_after pol tool) \<subseteq> executed (store_hist d (cx_sid cx)))
      \<and> (6 < k \<longrightarrow> content_ok L pol call))"

definition verdict_ok :: "lib \<Rightarrow> db \<Rightarrow> call_ctx \<Rightarrow> Decision \<Rightarrow> bool \<Rightarrow> Session \<Rightarrow> Policy \<Rightarrow> bool" where
  "verdict_ok L d cx dn tainted sess pol \<longleftrightarrow> (d_Action dn = Allow \<longrightarrow> passed L d cx 9 tainted sess pol)
     \<and> (d_Action dn = ShadowDeny \<longrightarrow> effectiveMode pol (ca_Name (cx_params cx)) = EnforcementShadow)"

definition event_of :: "db \<Rightarrow> call_ctx \<Rightarrow> nat \<Rightarrow> Decision \<Rightarrow> bool" where
  "event_of d cx seq dn \<longleftrightarrow> (\<exists>row \<in> set (db_events d). call_event (cx_sid cx) (cx_params cx) dn row \<and> ev_seq row = seq)"

fun goroutine_ok :: "net \<Rightarrow> db \<Rightarrow> goroutine \<Rightarrow> bool" where
  "goroutine_ok N d (Arrived r) = True"
| "goroutine_ok N d (Authenticated r claims) = (rq_path r \<noteq> ''/health'')"
| "goroutine_ok N d (Polling r q ps) = (tool_call_of N r = Some (q, ps) \<and> ca_Name ps = ''check_escalation_status'')"
| "goroutine_ok N d (Called cx) = ctx_ok N cx"
| "goroutine_ok N d (Missing cx) = ctx_ok N cx"
| "goroutine_ok N d (Creating cx pol) = ctx_ok N cx"
| "goroutine_ok N d (Loaded cx sess) = (ctx_ok N cx \<and> loaded_ok d cx sess)"
| "goroutine_ok N d (Unpinned cx sess) = (ctx_ok N cx \<and> loaded_ok d cx sess)"
| "goroutine_ok N d (Deciding cx k sess pol) =
     (ctx_ok N cx \<and> loaded_ok d cx sess \<and> \<not> s_Terminated sess \<and> passed (n_lib N) d cx k (s_Tainted sess) sess pol)"
| "goroutine_ok N d (Decided cx dn t0 sess pol) =
     (ctx_ok N cx \<and> loaded_ok d cx sess \<and> \<not> s_Terminated sess \<and> verdict_ok (n_lib N) d cx dn t0 sess pol)"
| "goroutine_ok N d (Recorded cx seq dn t0 sess pol) =
     (ctx_ok N cx \<and> loaded_ok d cx sess \<and> \<not> s_Terminated sess \<and> verdict_ok (n_lib N) d cx dn t0 sess pol \<and> event_of d cx seq dn)"
| "goroutine_ok N d (Audited cx seq dn t0 sess pol af) =
     (ctx_ok N cx \<and> loaded_ok d cx sess \<and> \<not> s_Terminated sess \<and> verdict_ok (n_lib N) d cx dn t0 sess pol \<and> event_of d cx seq dn)"
| "goroutine_ok N d (Acting cx seq dn t0 sess pol af) =
     (ctx_ok N cx \<and> loaded_ok d cx sess \<and> \<not> s_Terminated sess \<and> verdict_ok (n_lib N) d cx dn t0 sess pol \<and> event_of d cx seq dn)"
| "goroutine_ok N d (Replied r None rep) = (rep = Forwarded \<longrightarrow> tool_call_of N r = None)"
| "goroutine_ok N d (Replied r (Some (cx, seq, dn, t0, sess, pol)) rep) =
     (cx_request cx = r \<and> ctx_ok N cx \<and> loaded_ok d cx sess \<and> \<not> s_Terminated sess
      \<and> verdict_ok (n_lib N) d cx dn t0 sess pol \<and> event_of d cx seq dn
      \<and> (rep = Forwarded \<longrightarrow> d_Action dn \<in> {Allow, ShadowDeny}))"

text \<open>Nothing another goroutine, an operator or another process does takes it back.\<close>

lemma call_count_mono: "effects d d' \<Longrightarrow> find_session d sid \<noteq> None \<Longrightarrow> call_count d sid \<le> call_count d' sid"
  using effects_session [of d d' sid] by (auto simp: call_count_def session_advance_def)

lemma loaded_ok_mono: "effects d d' \<Longrightarrow> loaded_ok d cx sess \<Longrightarrow> loaded_ok d' cx sess"
  using effects_session [of d d' "cx_sid cx"] call_count_mono [of d d' "cx_sid cx"] by (auto simp: loaded_ok_def)

lemma executed_rows:
  "executed (store_hist d sid) =
     ev_tool_name ` {row \<in> set (db_events d). ev_session_id row = sid \<and> counts (entry_of_row row)}"
proof -
  have name: "se_ToolName (entry_of_row r) = ev_tool_name r" for r by (simp add: entry_of_row_def)
  have "executed (store_hist d sid) = se_ToolName ` (entry_of_row ` {row \<in> set (session_rows d sid). counts (entry_of_row row)})"
    by (auto simp: executed_def store_hist_def)
  then show ?thesis by (simp add: image_image name session_rows_def conj_assoc)
qed

lemma executed_mono: "effects d d' \<Longrightarrow> executed (store_hist d sid) \<subseteq> executed (store_hist d' sid)"
  using effects_prefix [of d d'] set_mono_prefix [of "db_events d" "db_events d'"] by (fastforce simp: executed_rows)

lemma passed_mono: "effects d d' \<Longrightarrow> passed L d cx k t sess pol \<Longrightarrow> passed L d' cx k t sess pol"
  using executed_mono [of d d' "cx_sid cx"] by (auto simp: passed_def Let_def)

lemma verdict_ok_mono: "effects d d' \<Longrightarrow> verdict_ok L d cx dn t sess pol \<Longrightarrow> verdict_ok L d' cx dn t sess pol"
  by (auto simp: verdict_ok_def intro: passed_mono)

lemma event_of_mono: "effects d d' \<Longrightarrow> event_of d cx seq dn \<Longrightarrow> event_of d' cx seq dn"
  using effects_prefix [of d d'] set_mono_prefix [of "db_events d" "db_events d'"] by (auto simp: event_of_def)

lemmas knowledge_mono = loaded_ok_mono passed_mono verdict_ok_mono event_of_mono

lemma goroutine_ok_mono:
  assumes "effects d d'" "goroutine_ok N d g"
  shows "goroutine_ok N d' g"
proof (cases g)
  case (Replied r c rep)
  then show ?thesis using assms by (cases c) (auto intro: knowledge_mono)
qed (use assms in \<open>auto intro: knowledge_mono\<close>)

section \<open>What a turn establishes\<close>

lemma open_call_ok: "rq_path r \<noteq> ''/health'' \<Longrightarrow> goroutine_ok N d (fst (open_call N r claims p))"
  by (auto simp: open_call_def Let_def ctx_ok_def tool_call_of_def session_header_def writeBadRequest_def writeMissingSessionID_def
      split: option.split sum.split)

lemma start_pipeline_ok:
  "ctx_ok N cx \<Longrightarrow> loaded_ok d cx sess \<Longrightarrow> goroutine_ok N d (start_pipeline cx sess pol)"
  by (simp add: start_pipeline_def passed_def writeGone_def)

lemma stage_passes:
  assumes st: "drop k (full_stages L (store_backend W jt d) now) = ev # rest" and L: "w_lib W = L"
    and a: "ev (ctx_call cx) sess pol = Inr allow" and id: "s_ID sess = cx_sid cx"
    and p: "passed L d cx k (s_Tainted sess) sess pol"
  shows "passed L d cx (Suc k) (s_Tainted sess) sess pol"
proof -
  have "k < 9" using arg_cong [OF st, of length] by (simp add: full_stages_def)
  then have "k = 0 \<or> k = 1 \<or> k = 2 \<or> k = 3 \<or> k = 4 \<or> k = 5 \<or> k = 6 \<or> k = 7 \<or> k = 8" by auto
  moreover have seq: "set (only_after pol (ca_Name (cx_params cx))) \<subseteq> executed (store_hist d (cx_sid cx))"
    if "SequenceEvaluator L (store_backend W jt d) (ctx_call cx) sess pol = Inr allow"
    using store.sequence_allow_sound [OF that] by (simp add: sequence_ok_def id)
  ultimately show ?thesis using st a p
    by (elim disjE) (auto simp: full_stages_def passed_def Let_def engine_simps)
qed

lemma applyTaint_ok [simp]:
  "loaded_ok d cx (applyTaintMutations call sess pol) = loaded_ok d cx sess"
  "s_Terminated (applyTaintMutations call sess pol) = s_Terminated sess"
  "passed L d cx k t (applyTaintMutations call sess pol) pol' = passed L d cx k t sess pol'"
  by (simp_all add: applyTaintMutations_alt loaded_ok_def passed_def budget_ok_def calls_exceeded_def cost_exceeded_def)

lemma stage_outcome:
  assumes "drop k (full_stages L B now) = ev # rest" "ev call sess pol = Inr dn"
  shows "d_Action dn \<noteq> ShadowDeny" "d_Action dn = Allow \<Longrightarrow> dn = allow"
proof -
  have "ev \<in> set (drop k (full_stages L B now))" using assms(1) by simp
  then have "ev \<in> set (full_stages L B now)" by (rule in_set_dropD)
  then have "evaluator ev" using full_stages_contract [of L B now] by (simp add: list_all_iff)
  then show "d_Action dn \<noteq> ShadowDeny" "d_Action dn = Allow \<Longrightarrow> dn = allow"
    using assms(2) evaluator.never_shadow evaluator.allow_is_bare by blast+
qed

lemma run_stage_ok:
  assumes "goroutine_ok N (px_db p) (Deciding cx k sess pol)" "run_stage N cx k sess pol p = (g, p')"
  shows "goroutine_ok N (px_db p') g"
proof -
  let ?d = "px_db p"
  let ?st = "full_stages (n_lib N) (store_backend (n_world N) (n_tools N) ?d) (now_at (n_world N) ?d)"
  have ok: "ctx_ok N cx" "loaded_ok ?d cx sess" "\<not> s_Terminated sess" "passed (n_lib N) ?d cx k (s_Tainted sess) sess pol"
    using assms(1) by simp_all
  have later: "effects ?d (later pipeline_ticks ?d)" by (rule effects_same) simp
  note ok' = loaded_ok_mono [OF later ok(2)] passed_mono [OF later]
  show ?thesis
  proof (cases "drop k ?st")
    case Nil
    then have k: "9 \<le> k" by (simp add: full_stages_def)
    then have "passed (n_lib N) ?d cx 9 (s_Tainted sess) sess pol" using ok(4) by (simp add: passed_def Let_def)
    with assms(2) Nil ok ok' show ?thesis by (auto simp: run_stage_def Let_def verdict_ok_def)
  next
    case (Cons ev rest)
    show ?thesis
    proof (cases "ev (ctx_call cx) sess pol")
      case (Inl e)
      with assms(2) Cons ok ok' show ?thesis by (auto simp: run_stage_def Let_def verdict_ok_def)
    next
      case (Inr dn)
      note out = stage_outcome [OF Cons Inr]
      show ?thesis
      proof (cases "d_Action dn = Allow")
        case True
        have "passed (n_lib N) ?d cx (Suc k) (s_Tainted sess) sess pol"
          using stage_passes [OF Cons _ _ _ ok(4)] Inr out(2) [OF True] ok(2) by (simp add: loaded_ok_def)
        with True assms(2) Cons Inr ok show ?thesis by (auto simp: run_stage_def Let_def)
      next
        case False
        with assms(2) Cons Inr ok ok' out show ?thesis
          by (auto simp: run_stage_def Let_def verdict_ok_def split: if_splits)
      qed
    qed
  qed
qed

text \<open>The event a goroutine has appended, by session and sequence number.\<close>

fun recorded_key :: "goroutine \<Rightarrow> (string \<times> nat) option" where
  "recorded_key (Recorded cx seq dn t0 sess pol) = Some (cx_sid cx, seq)"
| "recorded_key (Audited cx seq dn t0 sess pol af) = Some (cx_sid cx, seq)"
| "recorded_key (Acting cx seq dn t0 sess pol af) = Some (cx_sid cx, seq)"
| "recorded_key (Replied r c rep) = map_option (\<lambda>(cx, seq, _). (cx_sid cx, seq)) c"
| "recorded_key _ = None"

lemma record_call_cases:
  assumes "record_call N cx dn t0 sess pol p = (g, p')"
  obtains (failed) "g = Replied (cx_request cx) None (writeBadRequest ''session recording failed'')"
      "same_tables (px_db p) (px_db p')"
  | (appended) row where "g = Recorded cx (ev_seq row) dn t0 sess pol" "ev_seq row = Suc (max_seq (px_db p) (cx_sid cx))"
      "call_event (cx_sid cx) (cx_params cx) dn row" "db_events (px_db p') = db_events (px_db p) @ [row]"
      "db_sessions (px_db p') = db_sessions (px_db p)"
proof -
  let ?ev = "\<lparr>e_Seq = 0, e_SessionID = cx_sid cx, e_ToolName = ca_Name (cx_params cx),
      e_ArgumentsJSON = ca_Arguments (cx_params cx), e_Decision = action_str (d_Action dn),
      e_PolicyRule = d_RuleID dn, e_RecordedAt = 0\<rparr>"
  obtain res d where a: "AppendEvent (n_world N) ?ev (px_db p) = (res, d)" by fastforce
  then show ?thesis
  proof (cases rule: AppendEvent_cases)
    case (failed err)
    with assms a that(1) show ?thesis by (auto simp: record_call_def Let_def)
  next
    case (appended e')
    show ?thesis
    proof (rule that(2) [of "row_of_event (e_Seq e') e'"])
      show "g = Recorded cx (ev_seq (row_of_event (e_Seq e') e')) dn t0 sess pol"
        using assms a appended(1) by (simp add: record_call_def Let_def row_of_event_def)
    qed (use assms a appended in \<open>auto simp: record_call_def Let_def row_of_event_def call_event_def same_tables_sel\<close>)
  qed
qed

lemma record_call_ok:
  assumes ok: "goroutine_ok N (px_db p) (Decided cx dn t0 sess pol)" and r: "record_call N cx dn t0 sess pol p = (g, p')"
  shows "goroutine_ok N (px_db p') g"
  using r
proof (cases rule: record_call_cases)
  case failed
  then show ?thesis by (simp add: writeBadRequest_def)
next
  case (appended row)
  have "effects (px_db p) (px_db p')" using record_call_proxy [of p N cx dn t0 sess pol] r by (simp add: px_effect_def)
  from goroutine_ok_mono [OF this ok] appended show ?thesis by (auto simp: event_of_def)
qed

lemma called_ok:
  assumes ok: "ctx_ok N cx" and a: "advance N stat (Called cx) p = (g, p')"
  shows "goroutine_ok N (px_db p') g"
proof -
  obtain res d where l: "GetSession (n_world N) (cx_sid cx) (px_db p) = (res, d)" by fastforce
  from l show ?thesis
  proof (cases rule: GetSession_cases)
    case (found row)
    then have "sr_ID row = cx_sid cx" by (auto simp: find_session_def dest: find_SomeD)
    with found l a ok show ?thesis
      by (auto simp: loaded_ok_def call_count_def find_session_def session_of_row_def)
  qed (use l a ok in \<open>auto simp: writeBadRequest_def split: if_splits\<close>)
qed

lemma creating_ok:
  assumes ok: "ctx_ok N cx" and a: "advance N stat (Creating cx pol) p = (g, p')"
  shows "goroutine_ok N (px_db p') g"
proof -
  obtain res d where l: "CreateSession (n_world N) (cx_sid cx) (cl_AgentName (cx_claims cx)) (p_Fingerprint pol) (px_db p) = (res, d)"
    by fastforce
  from l show ?thesis
  proof (cases rule: CreateSession_cases)
    case (created row)
    have "find_session d (cx_sid cx) = Some row"
      using find_session_same [OF created(3), of "cx_sid cx"] find_session_new [OF created(2), of row] created(4) by simp
    with created l a ok show ?thesis by (auto simp: loaded_ok_def call_count_def fresh_session_def)
  qed (use l a ok in \<open>auto simp: writeBadRequest_def\<close>)
qed

lemma advance_ok:
  assumes ok: "goroutine_ok N (px_db p) g" and a: "advance N stat g p = (g', p')"
  shows "goroutine_ok N (px_db p') g'"
proof -
  have e: "effects (px_db p) (px_db p')" using advance_step [of p N stat g] a by (simp add: handler_step_def)
  note ok' = goroutine_ok_mono [OF e ok]
  show ?thesis
  proof (cases g)
    case (Arrived r)
    then show ?thesis using a
      by (auto simp: writeUnauthorized_def handleHealth_def writeHealthDegraded_def Let_def split: if_splits prod.splits sum.splits option.splits)
  next
    case (Authenticated r claims)
    then show ?thesis using a ok' open_call_ok [of r N "px_db p'" claims p] by simp
  next
    case (Polling r q ps)
    then show ?thesis using a by (auto split: prod.splits dest!: escalation_status_reply(1))
  next
    case (Called cx)
    then show ?thesis using called_ok a ok by simp
  next
    case (Creating cx pol)
    then show ?thesis using creating_ok a ok by simp
  next
    case (Loaded cx sess)
    then show ?thesis using a ok' start_pipeline_ok by (auto split: prod.splits option.splits)
  next
    case (Unpinned cx sess)
    then show ?thesis using a ok' start_pipeline_ok by auto
  next
    case (Deciding cx k sess pol)
    then show ?thesis using run_stage_ok a ok by (metis advance.simps(9))
  next
    case (Decided cx dn t0 sess pol)
    then show ?thesis using record_call_ok a ok by (metis advance.simps(10))
  next
    case (Recorded cx seq dn t0 sess pol)
    then show ?thesis using a ok' by (auto simp: audit_call_def Let_def split: prod.splits)
  next
    case (Audited cx seq dn t0 sess pol af)
    then show ?thesis using a ok'
      by (auto split: prod.splits option.splits dest!: persist_taint_cases(3) simp: writeBadRequest_def)
  next
    case (Acting cx seq dn t0 sess pol af)
    then show ?thesis using a ok' by (auto split: prod.splits dest!: enforce_cases(3))
  next
    case (Replied r c rep)
    then show ?thesis using a ok' by simp
  qed (use a ok' in auto)
qed

text \<open>A turn keeps its event, or appends the next one of its session.\<close>

lemma open_call_key: "recorded_key (fst (open_call N r claims p)) = None" "px_db (snd (open_call N r claims p)) = px_db p"
  by (auto simp: open_call_def Let_def split: option.split sum.split)

lemma run_stage_key: "recorded_key (fst (run_stage N cx k sess pol p)) = None"
  "same_logs (px_db p) (px_db (snd (run_stage N cx k sess pol p)))"
  by (auto simp: run_stage_def Let_def same_logs_def split: list.split sum.split)

lemma start_pipeline_key: "recorded_key (start_pipeline cx sess pol) = None"
  by (simp add: start_pipeline_def)

lemma CreateSession_logs: "CreateSession W sid a fp d = (res, d') \<Longrightarrow> same_logs d d'"
  by (cases rule: CreateSession_cases, assumption) (auto simp: same_logs_def same_tables_sel)

lemma audit_call_key:
  "recorded_key (fst (audit_call N cx seq dn t0 sess pol p)) = Some (cx_sid cx, seq)"
  "db_events (px_db (snd (audit_call N cx seq dn t0 sess pol p))) = db_events (px_db p)"
proof -
  have "db_events (px_db p') = db_events (px_db p)"
    if "writeAuditRecord N r sid a pa t ar sq dn' fp p = (af, p')" for r sid a pa t ar sq dn' fp af p'
    using that by (cases rule: writeAuditRecord_cases) simp_all
  then show "recorded_key (fst (audit_call N cx seq dn t0 sess pol p)) = Some (cx_sid cx, seq)"
    "db_events (px_db (snd (audit_call N cx seq dn t0 sess pol p))) = db_events (px_db p)"
    by (auto simp: audit_call_def Let_def split: prod.split)
qed

lemma health_logs: "handleHealth N0 stat p = (p', rep) \<Longrightarrow> same_logs (px_db p) (px_db p')"
  by (auto simp: handleHealth_def Let_def store_Ping_def same_logs_def split: if_splits option.splits)

lemma advance_key_other:
  assumes a: "advance N stat g p = (g', p')" and g: "\<forall>cx dn t0 sess pol. g \<noteq> Decided cx dn t0 sess pol"
  shows "recorded_key g' = recorded_key g \<and> db_events (px_db p') = db_events (px_db p)"
proof (cases g)
  case (Arrived r)
  have "same_logs (px_db p) d" if "authenticate W K h (px_db p) = (res, d)" for W K h res d
    using same_tables_authenticate [of "px_db p" W K h] that by (auto intro: same_logs_tables)
  with Arrived a show ?thesis
    by (auto simp: same_logs_def split: if_splits prod.splits sum.splits dest!: health_logs)
next
  case (Polling r q ps)
  then show ?thesis using a by (auto split: prod.splits dest!: escalation_status_reply(2) simp: same_tables_sel)
next
  case (Called cx)
  have "same_logs (px_db p) d" if "GetSession W i (px_db p) = (res, d)" for W i res d
    using reads_change_nothing(1) [of "px_db p" W i] that by (intro same_logs_tables) simp
  with Called a show ?thesis by (auto simp: same_logs_def split: if_splits prod.splits sum.splits)
next
  case (Creating cx pol)
  then show ?thesis using a by (auto split: prod.splits sum.splits dest!: CreateSession_logs simp: same_logs_def)
next
  case (Loaded cx sess)
  then show ?thesis using a
    by (auto simp: policyForFingerprint_def Let_def start_pipeline_key split: prod.splits option.splits)
next
  case (Audited cx seq dn t0 sess pol af)
  then show ?thesis using a by (auto split: prod.splits option.splits dest!: persist_taint_cases(2) simp: same_logs_def)
next
  case (Acting cx seq dn t0 sess pol af)
  then show ?thesis using a by (auto split: prod.splits dest!: enforce_cases(2) simp: same_logs_def)
next
  case (Authenticated r claims)
  then show ?thesis using a open_call_key [of N r claims p] by simp
next
  case (Deciding cx k sess pol)
  then show ?thesis using a run_stage_key(1) [of N cx k sess pol p] run_stage_key(2) [of p N cx k sess pol] by (simp add: same_logs_def)
next
  case (Recorded cx seq dn t0 sess pol)
  then show ?thesis using a audit_call_key [of N cx seq dn t0 sess pol p] by simp
qed (use a g start_pipeline_key in auto)

lemma advance_key_cases:
  assumes a: "advance N stat g p = (g', p')"
  obtains (kept) "recorded_key g' = recorded_key g" "db_events (px_db p') = db_events (px_db p)"
  | (appended) row where "recorded_key g = None" "recorded_key g' = Some (ev_session_id row, ev_seq row)"
      "ev_seq row = Suc (max_seq (px_db p) (ev_session_id row))" "db_events (px_db p') = db_events (px_db p) @ [row]"
proof (cases "\<exists>cx dn t0 sess pol. g = Decided cx dn t0 sess pol")
  case True
  then obtain cx dn t0 sess pol where g: "g = Decided cx dn t0 sess pol" by blast
  with a have "record_call N cx dn t0 sess pol p = (g', p')" by simp
  then show ?thesis
  proof (cases rule: record_call_cases)
    case failed
    with g that(1) show ?thesis by (simp add: same_tables_sel)
  next
    case (appended row)
    with g that(2) [of row] show ?thesis by (simp add: call_event_def)
  qed
next
  case False
  with advance_key_other [OF a] that(1) show ?thesis by blast
qed

section \<open>Invariants of a run\<close>

definition distinct_keys :: "goroutine list \<Rightarrow> bool" where
  "distinct_keys gs \<longleftrightarrow> (\<forall>i j. i < length gs \<longrightarrow> j < length gs \<longrightarrow> i \<noteq> j \<longrightarrow>
     recorded_key (gs ! i) \<noteq> None \<longrightarrow> recorded_key (gs ! i) \<noteq> recorded_key (gs ! j))"

definition sys_ok :: "net \<Rightarrow> system \<Rightarrow> bool" where
  "sys_ok N s \<longleftrightarrow> px_ok (sy_proxy s) \<and> list_all (goroutine_ok N (px_db (sy_proxy s))) (sy_threads s) \<and> distinct_keys (sy_threads s)"

text \<open>A recorded key is the key of an event.\<close>

lemma recorded_key_event:
  assumes "goroutine_ok N d g" "recorded_key g = Some (sid, n)"
  shows "n \<le> max_seq d sid"
proof -
  obtain cx dn where e: "event_of d cx n dn" "sid = cx_sid cx"
  proof (cases g)
    case (Replied r c rep)
    with assms that show ?thesis by (cases c) auto
  qed (use assms that in auto)
  then obtain row where "row \<in> set (session_rows d sid)" "ev_seq row = n"
    by (auto simp: event_of_def call_event_def session_rows_def)
  with seq_le_max show ?thesis by blast
qed

lemma turn_ok:
  assumes s: "sys_ok N s" and i: "i < length (sy_threads s)"
  shows "sys_ok N (turn N stat i s) \<and> effects (px_db (sy_proxy s)) (px_db (sy_proxy (turn N stat i s)))"
proof -
  let ?p = "sy_proxy s" and ?gs = "sy_threads s"
  obtain g p where a: "advance N stat (?gs ! i) ?p = (g, p)" by fastforce
  have t: "turn N stat i s = \<lparr>sy_proxy = p, sy_threads = ?gs[i := g]\<rparr>" by (simp add: turn_def a)
  have h: "handler_step ?p p" using advance_step [of ?p N stat "?gs ! i"] a by simp
  then have e: "effects (px_db ?p) (px_db p)" by (simp add: handler_step_def)
  have all: "goroutine_ok N (px_db ?p) (?gs ! j)" if "j < length ?gs" for j
    using s that by (auto simp: sys_ok_def list_all_length)
  have "goroutine_ok N (px_db p) (?gs[i := g] ! j)" if "j < length ?gs" for j
    using goroutine_ok_mono [OF e all [OF that]] advance_ok [OF all [OF i] a] that by (cases "j = i") simp_all
  then have gs: "list_all (goroutine_ok N (px_db p)) (?gs[i := g])" by (simp add: list_all_length)
  have d: "distinct_keys ?gs" using s by (simp add: sys_ok_def)
  from a have "distinct_keys (?gs[i := g])"
  proof (cases rule: advance_key_cases)
    case kept
    have k: "recorded_key (?gs[i := g] ! j) = recorded_key (?gs ! j)" if "j < length ?gs" for j
      using that kept(1) by (cases "j = i") simp_all
    show ?thesis using d by (simp add: distinct_keys_def k)
  next
    case (appended row)
    have "recorded_key (?gs ! j) \<noteq> recorded_key g" if "j < length ?gs" for j
      using recorded_key_event [OF all [OF that]] appended(2,3) by fastforce
    with d i show ?thesis by (auto simp: distinct_keys_def nth_list_update split: if_splits)
  qed
  moreover have "px_ok p" using handler_step_ok [OF h] s by (simp add: sys_ok_def)
  ultimately show ?thesis using gs e by (simp add: t sys_ok_def)
qed

lemma conc_run_ok:
  "conc_run N K ops s t \<Longrightarrow> sys_ok N s \<Longrightarrow> sys_ok N t \<and> effects (px_db (sy_proxy s)) (px_db (sy_proxy t))"
proof (induction rule: conc_run.induct)
  case (start s)
  then show ?case by (simp add: effects.refl)
next
  case (accept s t r)
  then have "sys_ok N t" "effects (px_db (sy_proxy s)) (px_db (sy_proxy t))" by simp_all
  then show ?case by (auto simp: sys_ok_def distinct_keys_def nth_append)
next
  case (go s t i stat)
  then show ?case using turn_ok [of N t i stat] by (blast intro: effects_trans)
next
  case (operator s t i fs)
  then have t: "sys_ok N t" "effects (px_db (sy_proxy s)) (px_db (sy_proxy t))" by simp_all
  let ?p = "px_step N fs i (sy_proxy t)"
  have ok: "px_ok ?p" using t(1) px_step_ok by (simp add: sys_ok_def)
  have e: "effects (px_db (sy_proxy t)) (px_db ?p)"
    by (rule px_step_effects) (use t(1) in \<open>simp add: sys_ok_def px_ok_def cache_keyed_inv\<close>)
  with ok t effects_trans goroutine_ok_mono [OF e] show ?case by (auto simp: sys_ok_def list_all_iff)
next
  case (other_process s t d)
  then have t: "sys_ok N t" "effects (px_db (sy_proxy s)) (px_db (sy_proxy t))" by simp_all
  have e: "effects (px_db (sy_proxy t)) d" by (rule effects_single [OF store_call_effect [OF other_process.hyps(3)]])
  have "px_ok ((sy_proxy t)\<lparr>px_db := d\<rparr>)" using t(1) effects_wf [OF e] by (simp add: sys_ok_def px_ok_def)
  with e t effects_trans goroutine_ok_mono [OF e] show ?case by (auto simp: sys_ok_def list_all_iff)
qed

section \<open>The call budget under concurrency\<close>

text \<open>Loaded goroutines of a session that may still count a call.\<close>

fun session_in_hand :: "goroutine \<Rightarrow> (call_ctx \<times> Session) option" where
  "session_in_hand (Loaded cx sess) = Some (cx, sess)"
| "session_in_hand (Unpinned cx sess) = Some (cx, sess)"
| "session_in_hand (Deciding cx k sess pol) = Some (cx, sess)"
| "session_in_hand (Decided cx dn t0 sess pol) = Some (cx, sess)"
| "session_in_hand (Recorded cx seq dn t0 sess pol) = Some (cx, sess)"
| "session_in_hand (Audited cx seq dn t0 sess pol af) = Some (cx, sess)"
| "session_in_hand (Acting cx seq dn t0 sess pol af) = Some (cx, sess)"
| "session_in_hand _ = None"

definition pending :: "string \<Rightarrow> int \<Rightarrow> goroutine \<Rightarrow> bool" where
  "pending sid m g \<longleftrightarrow> (\<exists>cx sess. session_in_hand g = Some (cx, sess) \<and> cx_sid cx = sid \<and> s_ToolCallCount sess < m)"

definition forwarded_call :: "string \<Rightarrow> goroutine \<Rightarrow> bool" where
  "forwarded_call sid g \<longleftrightarrow> (\<exists>r x seq. g = Replied r (Some x) Forwarded \<and> recorded_key g = Some (sid, seq))"

text \<open>The policy a call of a proxy with one policy is decided under.\<close>

fun under :: "Policy \<Rightarrow> goroutine \<Rightarrow> bool" where
  "under pol (Deciding cx k sess p) = (p = pol)"
| "under pol (Decided cx dn t0 sess p) = (p = pol)"
| "under pol (Recorded cx seq dn t0 sess p) = (p = pol)"
| "under pol (Audited cx seq dn t0 sess p af) = (p = pol)"
| "under pol (Acting cx seq dn t0 sess p af) = (p = pol)"
| "under pol _ = True"

lemma count_list_update:
  "i < length xs \<Longrightarrow> length (filter P (xs[i := y])) + (if P (xs ! i) then 1 else 0) = length (filter P xs) + (if P y then 1 else 0)"
proof (induction xs arbitrary: i)
  case (Cons x xs)
  then show ?case by (cases i) auto
qed simp

lemma advance_under:
  assumes "serves_only pol p" "under pol g"
  shows "under pol (fst (advance N stat g p))"
proof (cases g)
  case (Loaded cx sess)
  have "q = pol" if "policyForFingerprint fp p = (Some q, p')" for fp q p'
    using that assms(1) lru.get_result [of "px_polCache p" fp]
    by (auto simp: policyForFingerprint_def Let_def serves_only_def split: prod.splits)
  with Loaded show ?thesis by (auto simp: start_pipeline_def split: prod.split option.split)
next
  case (Authenticated r claims)
  then show ?thesis by (auto simp: open_call_def Let_def split: option.split sum.split)
next
  case (Deciding cx k sess q)
  then show ?thesis using assms(2) by (auto simp: run_stage_def Let_def split: list.split sum.split)
qed (use assms in \<open>auto simp: serves_only_def start_pipeline_def record_call_def audit_call_def Let_def
      split: prod.split sum.split option.split\<close>)

text \<open>How a turn moves the counter.\<close>

lemma advance_same_counts:
  assumes a: "advance N stat g p = (g', p')" and g: "\<forall>cx seq dn t0 sess pol af. g \<noteq> Acting cx seq dn t0 sess pol af"
  shows "same_counts (px_db p) (px_db p')"
proof (cases g)
  case (Arrived r)
  have "same_counts (px_db p) d" if "authenticate W K h (px_db p) = (res, d)" for W K h res d
    using same_tables_authenticate [of "px_db p" W K h] that by (auto intro: same_counts_tables)
  moreover have "same_counts (px_db p) (tick (px_db p))" by (rule same_counts_tables) simp
  ultimately show ?thesis using Arrived a
    by (auto simp: handleHealth_def Let_def store_Ping_def split: if_splits prod.splits sum.splits option.splits)
next
  case (Polling r q ps)
  then show ?thesis using a by (auto split: prod.splits dest!: escalation_status_reply(2) intro: same_counts_tables)
next
  case (Called cx)
  have "same_counts (px_db p) d" if "GetSession W i (px_db p) = (res, d)" for W i res d
    using reads_change_nothing(1) [of "px_db p" W i] that by (intro same_counts_tables) simp
  with Called a show ?thesis by (auto split: if_splits prod.splits sum.splits)
next
  case (Creating cx pol)
  have "same_counts (px_db p) d" if "CreateSession W i ag fp (px_db p) = (res, d)" for W i ag fp res d
    using CreateSession_counts [of "px_db p" W i ag fp] that by simp
  with Creating a show ?thesis by (auto split: prod.splits sum.splits)
next
  case (Loaded cx sess)
  then show ?thesis using a by (auto simp: policyForFingerprint_def Let_def split: prod.splits option.splits)
next
  case (Deciding cx k sess pol)
  have "same_counts (px_db p) (later n (px_db p))" for n by (rule same_counts_tables) simp
  with Deciding a show ?thesis by (auto simp: run_stage_def Let_def split: list.splits sum.splits if_splits)
next
  case (Decided cx dn t0 sess pol)
  with a have "record_call N cx dn t0 sess pol p = (g', p')" by simp
  then show ?thesis by (cases rule: record_call_cases) (auto intro: same_counts_tables same_counts_sessions)
next
  case (Recorded cx seq dn t0 sess pol)
  have "db_sessions (px_db q) = db_sessions (px_db p)"
    if "writeAuditRecord N r sid ag pa t ar sq dn' fp p = (af, q)" for r sid ag pa t ar sq dn' fp af q
    using that by (cases rule: writeAuditRecord_cases) simp_all
  with Recorded a show ?thesis by (auto simp: audit_call_def Let_def split: prod.splits intro: same_counts_sessions)
next
  case (Audited cx seq dn t0 sess pol af)
  have "same_counts (px_db p) d" if "UpdateSessionTaint W i b (px_db p) = (res, d)" for W i b res d
    using UpdateSessionTaint_counts [of "px_db p" W i b] that by simp
  with Audited a show ?thesis by (auto simp: persist_taint_def split: prod.splits option.splits if_splits sum.splits)
next
  case (Authenticated r claims)
  then show ?thesis using a open_call_key(2) [of N r claims p] by simp
qed (use a g in auto)

lemma forwarded_only_acting:
  assumes "advance N stat g p = (g', p')" "forwarded_call sid g'" "\<not> forwarded_call sid g"
  shows "\<exists>cx seq dn t0 sess pol af. g = Acting cx seq dn t0 sess pol af"
proof (cases g)
  case (Audited cx seq dn t0 sess pol af)
  then show ?thesis using assms
    by (auto simp: forwarded_call_def writeBadRequest_def split: prod.splits option.splits dest!: persist_taint_cases(3))
next
  case (Decided cx dn t0 sess pol)
  with assms(1) have "record_call N cx dn t0 sess pol p = (g', p')" by simp
  then show ?thesis using assms(2) by (cases rule: record_call_cases) (simp_all add: forwarded_call_def)
qed (use assms in \<open>auto simp: forwarded_call_def open_call_def run_stage_def start_pipeline_def audit_call_def Let_def
    split: prod.splits sum.splits option.splits if_splits list.splits\<close>)

lemma acting_turn:
  assumes W: "fault_free (n_world N)" and ok: "goroutine_ok N (px_db p) (Acting cx seq dn t0 sess pol af)"
    and a: "advance N stat (Acting cx seq dn t0 sess pol af) p = (g', p')"
  shows "call_count (px_db p') sid = call_count (px_db p) sid + (if forwarded_call sid g' then 1 else 0)"
    "session_in_hand g' = None"
    "forwarded_call sid g' \<Longrightarrow> cx_sid cx = sid \<and> d_Action dn \<in> {Allow, ShadowDeny}"
proof -
  obtain rep where e: "enforce N (cx_rpc cx) (cx_params cx) (cx_sid cx) seq dn pol af p = (p', rep)"
    and g': "g' = Replied (cx_request cx) (Some (cx, seq, dn, t0, sess, pol)) rep"
    using a by (auto split: prod.splits)
  have f: "forwarded_call sid g' \<longleftrightarrow> rep = Forwarded \<and> sid = cx_sid cx" by (auto simp: g' forwarded_call_def)
  have "find_session (px_db p) (cx_sid cx) \<noteq> None" using ok by (simp add: loaded_ok_def)
  from enforce_counts [OF W this e, of sid] f
  show "call_count (px_db p') sid = call_count (px_db p) sid + (if forwarded_call sid g' then 1 else 0)" by simp
  show "session_in_hand g' = None" by (simp add: g')
  show "forwarded_call sid g' \<Longrightarrow> cx_sid cx = sid \<and> d_Action dn \<in> {Allow, ShadowDeny}" using f enforce_cases(3) [OF e] by blast
qed

lemma pending_loaded:
  assumes a: "advance N stat g p = (g', p')" and g: "pending sid m g'" "\<not> pending sid m g"
  shows "call_count (px_db p) sid < m"
proof (cases g)
  case (Called cx)
  obtain res d where l: "GetSession (n_world N) (cx_sid cx) (px_db p) = (res, d)" by fastforce
  then show ?thesis
    by (cases rule: GetSession_cases)
      (use Called l a g in \<open>auto simp: pending_def call_count_def session_of_row_def split: if_splits\<close>)
next
  case (Creating cx pol)
  obtain res d where l: "CreateSession (n_world N) (cx_sid cx) (cl_AgentName (cx_claims cx)) (p_Fingerprint pol) (px_db p) = (res, d)"
    by fastforce
  then show ?thesis
  proof (cases rule: CreateSession_cases)
    case (created row)
    then have "find_session (px_db p) (cx_sid cx) = None" by (simp add: find_session_None)
    with Creating l a g created(1) show ?thesis by (auto simp: pending_def call_count_def fresh_session_def)
  qed (use Creating l a g in \<open>auto simp: pending_def\<close>)
next
  case (Decided cx dn t0 sess pol)
  with a have "record_call N cx dn t0 sess pol p = (g', p')" by simp
  then show ?thesis by (cases rule: record_call_cases) (use g Decided in \<open>auto simp: pending_def\<close>)
qed (use a g in \<open>auto simp: pending_def open_call_def run_stage_def start_pipeline_def audit_call_def Let_def applyTaintMutations_alt
    split: prod.splits sum.splits option.splits if_splits list.splits\<close>)

end
