(* ===== verification/TB_ConcurrentProps.thy ===== *)
theory TB_ConcurrentProps
  imports TB_ConcurrentFacts
begin

text \<open>
  The promises of the proxy with requests side by side: a goroutine is \<open>serve\<close> cut into turns; complete mediation under every interleaving; the exact price of checking a budget without a
  lock, with a run that pays it.
\<close>

section \<open>Counting over a run\<close>

definition count_of :: "(goroutine \<Rightarrow> bool) \<Rightarrow> system \<Rightarrow> int" where
  "count_of P s = int (length (filter P (sy_threads s)))"

text \<open>What the budget proof carries along a run.\<close>

definition budget_inv :: "net \<Rightarrow> nat \<Rightarrow> Policy \<Rightarrow> string \<Rightarrow> system \<Rightarrow> bool" where
  "budget_inv N K pol sid s \<longleftrightarrow> sys_ok N s \<and> serves_only pol (sy_proxy s) \<and> list_all (under pol) (sy_threads s) \<and> busy s \<le> K
     \<and> call_count (px_db (sy_proxy s)) sid = count_of (forwarded_call sid) s
     \<and> count_of (forwarded_call sid) s + count_of (pending sid (bp_MaxToolCalls (p_Budget pol))) s
         \<le> bp_MaxToolCalls (p_Budget pol) - 1 + int K"

lemma count_of_turn:
  assumes "i < length (sy_threads s)" "advance N stat (sy_threads s ! i) (sy_proxy s) = (g, p)"
  shows "count_of P (turn N stat i s) = count_of P s + (if P g then 1 else 0) - (if P (sy_threads s ! i) then 1 else 0)"
  using count_list_update [OF assms(1), of P g] by (simp add: count_of_def turn_def assms(2) split: if_splits)

lemma count_of_accept: "\<not> P (Arrived r) \<Longrightarrow> count_of P (s\<lparr>sy_threads := sy_threads s @ [Arrived r]\<rparr>) = count_of P s"
  by (simp add: count_of_def)

lemma length_filter_mono: "(\<And>x. x \<in> set xs \<Longrightarrow> P x \<Longrightarrow> Q x) \<Longrightarrow> length (filter P xs) \<le> length (filter Q xs)"
  by (induction xs) (auto simp: le_Suc_eq)

lemma pending_busy: "count_of (pending sid m) s \<le> int (busy s)"
  unfolding count_of_def busy_def
  by (intro of_nat_mono length_filter_mono) (auto simp: pending_def elim: replied.elims)

lemma replied_stays: "replied g \<Longrightarrow> replied (fst (advance N stat g p))"
  by (cases g) simp_all

lemma turn_busy: "i < length (sy_threads s) \<Longrightarrow> busy (turn N stat i s) \<le> busy s"
  using count_list_update [of i "sy_threads s" "\<lambda>g. \<not> replied g" "fst (advance N stat (sy_threads s ! i) (sy_proxy s))"]
    replied_stays [of "sy_threads s ! i" N stat "sy_proxy s"]
  by (simp add: busy_def turn_def split_beta split: if_splits)

lemma forwarded_stays: "forwarded_call sid g \<Longrightarrow> fst (advance N stat g p) = g"
  by (auto simp: forwarded_call_def)

lemma forwarded_not_pending: "forwarded_call sid g \<Longrightarrow> \<not> pending sid m g"
  by (auto simp: forwarded_call_def pending_def)

text \<open>A goroutine that forwards was pending.\<close>

lemma acting_pending:
  assumes ok: "goroutine_ok N d (Acting cx seq dn t0 sess pol af)" and x: "d_Action dn \<in> {Allow, ShadowDeny}" "cx_sid cx = sid"
    and blk: "\<forall>t. effectiveMode pol t \<noteq> EnforcementShadow" and m: "0 < bp_MaxToolCalls (p_Budget pol)"
  shows "pending sid (bp_MaxToolCalls (p_Budget pol)) (Acting cx seq dn t0 sess pol af)"
proof -
  have "passed (n_lib N) d cx 9 t0 sess pol" using ok x blk by (auto simp: verdict_ok_def)
  then have "budget_ok pol sess" by (simp add: passed_def Let_def)
  with m x(2) show ?thesis by (simp add: pending_def budget_ok_def calls_exceeded_def)
qed

lemma budget_turn:
  assumes W: "fault_free (n_world N)" and blk: "\<forall>t. effectiveMode pol t \<noteq> EnforcementShadow"
    and m: "0 < bp_MaxToolCalls (p_Budget pol)" and inv: "budget_inv N K pol sid s" and i: "i < length (sy_threads s)"
  shows "budget_inv N K pol sid (turn N stat i s)"
proof -
  let ?m = "bp_MaxToolCalls (p_Budget pol)" and ?g = "sy_threads s ! i" and ?p = "sy_proxy s"
  obtain g p where a: "advance N stat ?g ?p = (g, p)" by fastforce
  have s: "sys_ok N s" "serves_only pol ?p" "list_all (under pol) (sy_threads s)" "busy s \<le> K"
    and c: "call_count (px_db ?p) sid = count_of (forwarded_call sid) s"
    and le: "count_of (forwarded_call sid) s + count_of (pending sid ?m) s \<le> ?m - 1 + int K"
    using inv by (simp_all add: budget_inv_def)
  have t: "sy_proxy (turn N stat i s) = p" "sy_threads (turn N stat i s) = (sy_threads s)[i := g]" by (simp_all add: turn_def a)
  have ok: "goroutine_ok N (px_db ?p) ?g" and un: "under pol ?g" using s i by (auto simp: sys_ok_def list_all_length)
  have "handler_step ?p p" using advance_step [of ?p N stat ?g] a by simp
  then have only: "serves_only pol p" by (rule serves_only_step) (rule s)
  have under: "list_all (under pol) ((sy_threads s)[i := g])"
    using s(3) advance_under [OF s(2) un, of N stat] a set_update_subset_insert [of "sy_threads s" i g] by (auto simp: list_all_iff)
  have bz: "busy (turn N stat i s) \<le> K" using turn_busy [OF i, of N stat] s(4) by simp
  note cf = count_of_turn [OF i a, of "forwarded_call sid"] and cp = count_of_turn [OF i a, of "pending sid ?m"]
  have "call_count (px_db p) sid = count_of (forwarded_call sid) (turn N stat i s)
    \<and> count_of (forwarded_call sid) (turn N stat i s) + count_of (pending sid ?m) (turn N stat i s) \<le> ?m - 1 + int K"
  proof (cases "\<exists>cx seq dn t0 sess q af. ?g = Acting cx seq dn t0 sess q af")
    case True
    then obtain cx seq dn t0 sess af where g: "?g = Acting cx seq dn t0 sess pol af" using un by auto
    note at = acting_turn(1) [OF W ok [unfolded g] a [unfolded g], of sid]
      acting_turn(2) [OF W ok [unfolded g] a [unfolded g]] acting_turn(3) [OF W ok [unfolded g] a [unfolded g], of sid]
    have "\<not> forwarded_call sid ?g" "\<not> pending sid ?m g" using g at(2) by (auto simp: forwarded_call_def pending_def)
    moreover have "pending sid ?m ?g" if "forwarded_call sid g"
      using acting_pending [OF ok [unfolded g] _ _ blk m] at(3) that unfolding g by blast
    ultimately show ?thesis using c le at(1) cf cp by (auto split: if_splits)
  next
    case False
    have same: "call_count (px_db p) sid = call_count (px_db ?p) sid"
      using advance_same_counts [OF a] False by (simp add: same_counts_def)
    have f: "forwarded_call sid g \<longleftrightarrow> forwarded_call sid ?g"
      using forwarded_only_acting [OF a] False forwarded_stays [of sid ?g N stat ?p] a by auto
    show ?thesis
    proof (cases "pending sid ?m g \<and> \<not> pending sid ?m ?g")
      case True
      then have "count_of (forwarded_call sid) s < ?m" using pending_loaded [OF a, of sid ?m] c by simp
      moreover have "count_of (pending sid ?m) (turn N stat i s) \<le> int K" using pending_busy [of sid ?m] bz
        by (meson of_nat_mono order_trans)
      ultimately show ?thesis using same c f cf by (auto split: if_splits)
    next
      case False
      then show ?thesis using same c f cf cp le by (auto split: if_splits)
    qed
  qed
  with only under bz turn_ok [OF s(1) i, of stat] show ?thesis by (simp add: budget_inv_def t)
qed

lemma budget_run:
  assumes W: "fault_free (n_world N)" and blk: "\<forall>t. effectiveMode pol t \<noteq> EnforcementShadow"
    and m: "0 < bp_MaxToolCalls (p_Budget pol)"
  shows "conc_run N K ops s t \<Longrightarrow> \<not> ops \<Longrightarrow> budget_inv N K pol sid s \<Longrightarrow> budget_inv N K pol sid t"
proof (induction rule: conc_run.induct)
  case (accept s t r)
  then have inv: "budget_inv N K pol sid t" by simp
  have "\<not> forwarded_call sid (Arrived r)" "\<not> pending sid x (Arrived r)" for x
    by (simp_all add: forwarded_call_def pending_def)
  moreover have "sys_ok N (t\<lparr>sy_threads := sy_threads t @ [Arrived r]\<rparr>)"
    using inv by (auto simp: budget_inv_def sys_ok_def distinct_keys_def nth_append)
  moreover have "busy (t\<lparr>sy_threads := sy_threads t @ [Arrived r]\<rparr>) \<le> K" using accept.hyps(2) by (simp add: busy_def)
  ultimately show ?case using inv by (simp add: budget_inv_def count_of_accept)
next
  case (go s t i stat)
  then show ?case using budget_turn [OF W blk m] by blast
qed simp_all

section \<open>A schedule, played\<close>

definition play :: "net \<Rightarrow> nat list \<Rightarrow> system \<Rightarrow> system" where
  "play N is s = fold (turn N (\<lambda>_. True)) is s"

lemma play_threads [simp]: "length (sy_threads (play N is s)) = length (sy_threads s)"
  unfolding play_def by (induction "is" arbitrary: s) (simp_all add: turn_def split_beta)

lemma play_run: "conc_run N K ops s t \<Longrightarrow> \<forall>i \<in> set is. i < length (sy_threads t) \<Longrightarrow> conc_run N K ops s (play N is t)"
proof (induction "is" arbitrary: t)
  case (Cons i js)
  have "conc_run N K ops s (turn N (\<lambda>_. True) i t)" using Cons.prems by (intro conc_run.go) simp_all
  moreover have "length (sy_threads (turn N (\<lambda>_. True) i t)) = length (sy_threads t)" by (simp add: turn_def split_beta)
  ultimately show ?case using Cons.IH [of "turn N (\<lambda>_. True) i t"] Cons.prems(2) by (simp add: play_def)
qed (simp add: play_def)

definition fresh_system :: "proxy \<Rightarrow> system" where
  "fresh_system p = \<lparr>sy_proxy = p, sy_threads = []\<rparr>"

text \<open>Two calls of one session against a budget of one, stage by stage in turns.\<close>

definition race_start :: system where
  "race_start = fresh_system (SetAuditStrict False (new_proxy sample_db one_call ''tb.db'' (Some ''priv'')))"

definition race_open :: system where
  "race_open = race_start\<lparr>sy_threads := [Arrived (sample_request ''read''), Arrived (sample_request ''read'')]\<rparr>"

definition race_end :: system where
  "race_end = play sample_net ([0, 0, 0, 0, 0] @ concat (replicate 20 [1, 0])) race_open"

lemma race_open_run: "conc_run sample_net 2 False race_start race_open"
proof -
  let ?s = "race_start\<lparr>sy_threads := [Arrived (sample_request ''read'')]\<rparr>"
  have "conc_run sample_net 2 False race_start ?s"
    using conc_run.accept [OF conc_run.start, of race_start 2 sample_net False "sample_request ''read''"]
    by (simp add: busy_def race_start_def fresh_system_def)
  from conc_run.accept [OF this, of "sample_request ''read''"] show ?thesis
    by (simp add: busy_def race_open_def)
qed

lemma race_run: "conc_run sample_net 2 False race_start race_end"
  unfolding race_end_def by (rule play_run [OF race_open_run]) (auto simp: race_open_def)

lemma forwarded_call_code [code]:
  "forwarded_call sid g = (case g of Replied r (Some (cx, _)) Forwarded \<Rightarrow> cx_sid cx = sid | _ \<Rightarrow> False)"
  by (auto simp: forwarded_call_def split: goroutine.split option.split reply.split)

lemma race_outcome: "map (forwarded_call ''s1'') (sy_threads race_end) = [True, True]"
  by code_simp

text \<open>
  A guard over the history can be overtaken the same way: \<open>wire\<close>, never to come after \<open>read\<close>, passes its stages while a
  \<open>read\<close> of the same session is between its decision and its forwarding; the log ends with the two
  in the forbidden order, both forwarded.
\<close>

definition wire_not_after_read :: Policy where
  "wire_not_after_read = sample_policy\<lparr>p_Tools := Some [(''read'', sample_tool), (''wire'', sample_tool\<lparr>tp_Sequence :=
     (tp_Sequence sample_tool)\<lparr>sq_NeverAfter := Some [''read'']\<rparr>\<rparr>)]\<rparr>"

definition overtaken_end :: system where
  "overtaken_end = play sample_net ([0, 0, 0, 0, 0, 0] @ replicate 14 1 @ replicate 15 0 @ replicate 5 1)
     ((fresh_system (new_proxy sample_db wire_not_after_read ''tb.db'' (Some ''priv'')))
        \<lparr>sy_threads := [Arrived (sample_request ''read''), Arrived (sample_request ''wire'')]\<rparr>)"

lemma never_after_overtaken:
  "map (forwarded_call ''s1'') (sy_threads overtaken_end) = [True, True]
    \<and> map (\<lambda>e. (ev_tool_name e, ev_decision e)) (db_events (px_db (sy_proxy overtaken_end))) = [(''read'', ''allow''), (''wire'', ''allow'')]
    \<and> never_after wire_not_after_read ''wire'' = [''read'']"
  by (intro conjI; code_simp)

section \<open>Properties\<close>

text \<open>The goroutine is the handler. Cut into turns and left alone with the shared state, a request
  replies after at most 21 turns, with the reply and the state of \<open>serve\<close>.\<close>

theorem goroutine_computes_serve:
  "\<exists>c. run_alone 21 N stat (Arrived r, p) = (Replied r c (snd (serve N stat r p)), fst (serve N stat r p))"
proof -
  have "rq_of (fst (run_alone n N stat s)) = rq_of (fst s)" for n s
    by (induction n arbitrary: s) (simp_all add: advance_request)
  from this [of 21 "(Arrived r, p)"] show ?thesis
    using arrived_ends [of N stat r p] by (auto simp: ends_def)
qed

text \<open>C2: Complete mediation under concurrency. However requests interleave with each other, with
  operators and with other processes, a tool call that is forwarded has its own event in the log, under
  a sequence number no other request of the session has, with the decision it was forwarded on. On an
  allow the environment, the whitelist, the budget as loaded, the taint as loaded and the content
  guards were satisfied, and every tool that must come first has an executed call in the session's
  history; otherwise the effective mode is shadow. The session was not terminated when it was loaded.\<close>

theorem interleaved_mediation:
  assumes "conc_run N K ops (fresh_system p) s" "px_ok p"
    and "i < length (sy_threads s)" "sy_threads s ! i = Replied r c Forwarded" "tool_call_of N r = Some (q, ps)"
  shows "\<exists>cx seq dn t0 sess pol row. c = Some (cx, seq, dn, t0, sess, pol) \<and> cx_params cx = ps \<and> cx_sid cx = session_header r
    \<and> row \<in> set (db_events (px_db (sy_proxy s))) \<and> call_event (session_header r) ps dn row \<and> ev_seq row = seq
    \<and> \<not> s_Terminated sess
    \<and> (d_Action dn = Allow \<and> passed (n_lib N) (px_db (sy_proxy s)) cx 9 t0 sess pol
       \<or> d_Action dn = ShadowDeny \<and> effectiveMode pol (ca_Name ps) = EnforcementShadow)
    \<and> (\<forall>j < length (sy_threads s). j \<noteq> i \<longrightarrow> recorded_key (sy_threads s ! j) \<noteq> Some (session_header r, seq))"
proof -
  have "sys_ok N (fresh_system p)" using assms(2) by (simp add: sys_ok_def fresh_system_def distinct_keys_def)
  then have s: "sys_ok N s" using conc_run_ok [OF assms(1)] by blast
  then have ok: "goroutine_ok N (px_db (sy_proxy s)) (Replied r c Forwarded)"
    using assms(3,4) by (auto simp: sys_ok_def list_all_length)
  then obtain cx seq dn t0 sess pol where c: "c = Some (cx, seq, dn, t0, sess, pol)" using assms(5) by (cases c) auto
  then have key: "recorded_key (sy_threads s ! i) = Some (session_header r, seq)"
    using ok assms(4) by (simp add: ctx_ok_def)
  have "\<forall>j < length (sy_threads s). j \<noteq> i \<longrightarrow> recorded_key (sy_threads s ! j) \<noteq> Some (session_header r, seq)"
    using s assms(3) key unfolding sys_ok_def distinct_keys_def by (metis option.distinct(1))
  with ok c assms(5) show ?thesis by (auto simp: ctx_ok_def verdict_ok_def event_of_def)
qed

text \<open>C28: The price of the unlocked budget check. If at most \<open>K\<close> requests are ever in progress at a time, no
  statement fails and the policy blocks, then in any interleaving a session gets at most
  \<open>max_tool_calls + K - 1\<close> calls through. With one request at a time that is the budget.\<close>

theorem budget_overrun_bounded:
  assumes "fault_free (n_world N)" "\<forall>t. effectiveMode pol t \<noteq> EnforcementShadow"
    and "0 < bp_MaxToolCalls (p_Budget pol)" "wf_db st" "find_session st sid = None"
    and "conc_run N K False (fresh_system (SetAuditStrict strict (new_proxy st pol path key))) s"
  shows "count_of (forwarded_call sid) s \<le> bp_MaxToolCalls (p_Budget pol) - 1 + int K"
proof -
  let ?p = "SetAuditStrict strict (new_proxy st pol path key)"
  have db: "px_db ?p = st" by (simp add: SetAuditStrict_def new_proxy_def)
  have "px_ok ?p" using new_proxy_ok [OF assms(4)] by (simp add: px_ok_def SetAuditStrict_def)
  then have "budget_inv N K pol sid (fresh_system ?p)"
    using assms(3,5) db
    by (simp add: budget_inv_def sys_ok_def fresh_system_def distinct_keys_def serves_only_new busy_def count_of_def call_count_def)
  from budget_run [OF assms(1,2,3,6) _ this] have "budget_inv N K pol sid s" by simp
  then show ?thesis by (simp add: budget_inv_def count_of_def)
qed

text \<open>The bound is reached: two requests in progress get two calls through a budget of one.\<close>

theorem budget_overrun_bounded_witness:
  "count_of (forwarded_call ''s1'') race_end \<le> 2 \<and> count_of (forwarded_call ''s1'') race_end = 2"
proof -
  have b: "bp_MaxToolCalls (p_Budget one_call) = 1" by (simp add: one_call_def)
  have "find_session sample_db ''s1'' = None" by code_simp
  from budget_overrun_bounded [OF _ _ _ sample_db_wf this race_run [unfolded race_start_def]]
  have "count_of (forwarded_call ''s1'') race_end \<le> 2" by (simp add: one_call_blocks b)
  moreover have "length (filter (forwarded_call ''s1'') (sy_threads race_end))
      = length (filter id (map (forwarded_call ''s1'') (sy_threads race_end)))" by (simp add: filter_map comp_def)
  then have "count_of (forwarded_call ''s1'') race_end = 2" by (simp only: race_outcome count_of_def) simp
  ultimately show ?thesis by simp
qed

theorem interleaved_mediation_witness:
  "\<exists>r c cx seq dn t0 sess pol row. sy_threads race_end ! 1 = Replied r c Forwarded \<and> c = Some (cx, seq, dn, t0, sess, pol)
    \<and> row \<in> set (db_events (px_db (sy_proxy race_end))) \<and> ev_seq row = seq"
proof -
  have len: "length (sy_threads race_end) = 2" by (simp add: race_end_def race_open_def)
  have "forwarded_call ''s1'' (sy_threads race_end ! 1)"
    using arg_cong [OF race_outcome, of "\<lambda>xs. xs ! 1"] len by simp
  then obtain r x where g: "sy_threads race_end ! 1 = Replied r (Some x) Forwarded" by (auto simp: forwarded_call_def)
  have ok: "px_ok (SetAuditStrict False (new_proxy sample_db one_call ''tb.db'' (Some ''priv'')))"
    using new_proxy_ok [OF sample_db_wf] by (simp add: px_ok_def SetAuditStrict_def)
  have "sys_ok sample_net race_start" using ok by (simp add: sys_ok_def race_start_def fresh_system_def distinct_keys_def)
  from conc_run_ok [OF race_run this] have "sys_ok sample_net race_end" by blast
  then have "goroutine_ok sample_net (px_db (sy_proxy race_end)) (sy_threads race_end ! 1)"
    using len by (auto simp: sys_ok_def list_all_length)
  then obtain q ps where "tool_call_of sample_net r = Some (q, ps)" using g by (cases x) (auto simp: ctx_ok_def)
  from interleaved_mediation [OF race_run [unfolded race_start_def] ok _ g this] g len show ?thesis by auto
qed

end
