(* ===== verification/TB_ConcurrentAudit.thy ===== *)
theory TB_ConcurrentAudit
  imports TB_ConcurrentProps
begin

text \<open>
  The audit trail with requests side by side: under strict auditing a call that was forwarded has its signed record in
  the log in every state of every interleaving, and the log stays append-only. The knowledge a
  goroutine has of its record is carried along the run as in \<open>TB_ConcurrentFacts\<close>.
\<close>

section \<open>What a goroutine knows of its audit record\<close>

text \<open>The audit log holds a record of the call, signed with \<open>key\<close>; \<open>d0\<close> is the database the record was made over.\<close>

definition audited :: "net \<Rightarrow> string \<Rightarrow> db \<Rightarrow> call_ctx \<Rightarrow> nat \<Rightarrow> Decision \<Rightarrow> Policy \<Rightarrow> bool" where
  "audited N key d cx seq dn pol \<longleftrightarrow>
     (\<exists>d0 rec. Sign (n_lib N) (n_crypto N) (audit_record N (cx_request cx) (cx_sid cx) (tc_AgentName (ctx_call cx))
          (tc_ParentAgent (ctx_call cx)) (ca_Name (cx_params cx)) (ca_Arguments (cx_params cx)) seq dn (p_Fingerprint pol) d0) key = Inr rec
        \<and> row_of_record rec \<in> set (db_audit d))"

fun audit_known :: "net \<Rightarrow> string \<Rightarrow> db \<Rightarrow> goroutine \<Rightarrow> bool" where
  "audit_known N key d (Audited cx seq dn t0 sess pol af) = (\<not> af \<longrightarrow> audited N key d cx seq dn pol)"
| "audit_known N key d (Acting cx seq dn t0 sess pol af) = (\<not> af \<longrightarrow> audited N key d cx seq dn pol)"
| "audit_known N key d (Replied r (Some (cx, seq, dn, t0, sess, pol)) rep) = (rep = Forwarded \<longrightarrow> audited N key d cx seq dn pol)"
| "audit_known N key d _ = True"

lemma audited_mono: "effects d d' \<Longrightarrow> audited N key d cx seq dn pol \<Longrightarrow> audited N key d' cx seq dn pol"
  using effects_prefix [of d d'] set_mono_prefix [of "db_audit d" "db_audit d'"] unfolding audited_def by blast

lemma audit_known_mono: "effects d d' \<Longrightarrow> audit_known N key d g \<Longrightarrow> audit_known N key d' g"
  by (cases "(N, key, d, g)" rule: audit_known.cases) (auto intro: audited_mono)

lemma audit_known_unrecorded: "recorded_key g = None \<Longrightarrow> audit_known N key d g"
  by (cases "(N, key, d, g)" rule: audit_known.cases) auto

lemma audit_call_known:
  assumes k: "px_signingKey p = Some key" and a: "audit_call N cx seq dn t0 sess pol p = (g, p')"
  shows "audit_known N key (px_db p') g"
proof -
  obtain af p1 where w: "writeAuditRecord N (cx_request cx) (cx_sid cx) (tc_AgentName (ctx_call cx)) (tc_ParentAgent (ctx_call cx))
      (ca_Name (cx_params cx)) (ca_Arguments (cx_params cx)) seq dn (p_Fingerprint pol) p = (af, p1)" by fastforce
  have g: "g = Audited cx seq dn t0 sess pol af" "px_db p' = px_db p1"
    using a unfolding audit_call_def Let_def w by auto
  from w show ?thesis
  proof (cases rule: writeAuditRecord_cases)
    case unwritten
    then show ?thesis using k by (simp add: g)
  next
    case (written key' rec)
    then have "audited N key (px_db p1) cx seq dn pol" using k unfolding audited_def by auto
    then show ?thesis by (simp add: g)
  qed
qed

lemma advance_audit:
  assumes k: "px_signingKey p = Some key" "px_auditStrict p" and ok: "audit_known N key (px_db p) g"
    and a: "advance N stat g p = (g', p')"
  shows "audit_known N key (px_db p') g'"
proof (cases "recorded_key g = None")
  case True
  show ?thesis
  proof (cases "\<exists>cx dn t0 sess pol. g = Decided cx dn t0 sess pol")
    case True
    then obtain cx dn t0 sess pol where "record_call N cx dn t0 sess pol p = (g', p')" using a by auto
    then show ?thesis by (cases rule: record_call_cases) simp_all
  next
    case False
    then show ?thesis using advance_key_other [OF a] True by (simp add: audit_known_unrecorded)
  qed
next
  case False
  have e: "effects (px_db p) (px_db p')" using advance_step [of p N stat g] a by (simp add: handler_step_def)
  note ok' = audit_known_mono [OF e ok]
  from False show ?thesis
  proof (cases g)
    case (Recorded cx seq dn t0 sess pol)
    then show ?thesis using audit_call_known [OF k(1)] a by simp
  next
    case (Audited cx seq dn t0 sess pol af)
    then show ?thesis using a ok'
      by (auto split: prod.splits option.splits dest!: persist_taint_cases(3) simp: writeBadRequest_def)
  next
    case (Acting cx seq dn t0 sess pol af)
    then show ?thesis using a ok' k(2) by (auto split: prod.splits dest!: enforce_cases(3))
  next
    case (Replied r c rep)
    then show ?thesis using a ok' by simp
  qed simp_all
qed

section \<open>Along a run\<close>

text \<open>No turn, operator or reload changes the signing key or the audit mode.\<close>

definition audits_with :: "string \<Rightarrow> proxy \<Rightarrow> bool" where
  "audits_with key p \<longleftrightarrow> px_signingKey p = Some key \<and> px_auditStrict p"

lemma audits_with_step: "handler_step p p' \<Longrightarrow> audits_with key p \<Longrightarrow> audits_with key p'"
  by (simp add: audits_with_def handler_step_def same_config_def)

lemma px_step_audits:
  assumes "audits_with key p" "\<forall>r. i \<noteq> Request r"
  shows "audits_with key (px_step N fs i p)"
proof (cases i)
  case Reload
  obtain res p' where r: "ReloadPolicy (n_lib N) fs p = (res, p')" by fastforce
  then have "audits_with key p'" by (cases rule: ReloadPolicy_cases) (use assms(1) in \<open>auto simp: audits_with_def\<close>)
  with r Reload show ?thesis by simp
qed (use assms audits_with_step [OF admin_steps(1)] audits_with_step [OF admin_steps(2)] audits_with_step [OF admin_steps(3)] in auto)

lemma conc_run_audit:
  "conc_run N K ops s t \<Longrightarrow> sys_ok N s \<Longrightarrow> audits_with key (sy_proxy s) \<Longrightarrow>
   list_all (audit_known N key (px_db (sy_proxy s))) (sy_threads s) \<Longrightarrow>
   audits_with key (sy_proxy t) \<and> list_all (audit_known N key (px_db (sy_proxy t))) (sy_threads t)"
proof (induction rule: conc_run.induct)
  case (accept s t r)
  then show ?case by auto
next
  case (go s t i stat)
  then have t: "audits_with key (sy_proxy t)" "list_all (audit_known N key (px_db (sy_proxy t))) (sy_threads t)" by simp_all
  let ?p = "sy_proxy t" and ?gs = "sy_threads t"
  obtain g p where a: "advance N stat (?gs ! i) ?p = (g, p)" by fastforce
  have h: "handler_step ?p p" using advance_step [of ?p N stat "?gs ! i"] a by simp
  then have e: "effects (px_db ?p) (px_db p)" by (simp add: handler_step_def)
  have all: "audit_known N key (px_db ?p) (?gs ! j)" if "j < length ?gs" for j using t(2) that by (simp add: list_all_length)
  have "audit_known N key (px_db p) (?gs[i := g] ! j)" if "j < length ?gs" for j
    using audit_known_mono [OF e all [OF that]] advance_audit [OF _ _ all [OF go.hyps(2)] a] t(1) that
    by (cases "j = i") (simp_all add: audits_with_def)
  then have "list_all (audit_known N key (px_db p)) (?gs[i := g])" by (simp add: list_all_length)
  with audits_with_step [OF h t(1)] show ?case by (simp add: turn_def a)
next
  case (operator s t i fs)
  then have t: "audits_with key (sy_proxy t)" "list_all (audit_known N key (px_db (sy_proxy t))) (sy_threads t)" by simp_all
  have "sys_ok N t" using conc_run_ok [OF operator.hyps(1) operator.prems(1)] by blast
  then have e: "effects (px_db (sy_proxy t)) (px_db (px_step N fs i (sy_proxy t)))"
    by (intro px_step_effects) (simp add: sys_ok_def px_ok_def cache_keyed_inv)
  show ?case using px_step_audits [OF t(1) operator.hyps(3)] t(2) audit_known_mono [OF e] by (auto simp: list_all_iff)
next
  case (other_process s t d)
  then have t: "audits_with key (sy_proxy t)" "list_all (audit_known N key (px_db (sy_proxy t))) (sy_threads t)" by simp_all
  have e: "effects (px_db (sy_proxy t)) d" by (rule effects_single [OF store_call_effect [OF other_process.hyps(3)]])
  show ?case using t audit_known_mono [OF e] by (auto simp: list_all_iff audits_with_def)
qed simp

section \<open>Properties\<close>

text \<open>Two reads of one session under strict auditing, in turns.\<close>

definition strict_start :: proxy where
  "strict_start = SetAuditStrict True (new_proxy sample_db sample_gate ''tb.db'' (Some ''priv''))"

definition strict_end :: system where
  "strict_end = play sample_net ([0, 0, 0, 0, 0] @ concat (replicate 18 [1, 0]))
     ((fresh_system strict_start)\<lparr>sy_threads := [Arrived (sample_request ''read''), Arrived (sample_request ''read'')]\<rparr>)"

lemma strict_run: "conc_run sample_net 2 False (fresh_system strict_start) strict_end"
proof -
  let ?s = "(fresh_system strict_start)\<lparr>sy_threads := [Arrived (sample_request ''read'')]\<rparr>"
  have "conc_run sample_net 2 False (fresh_system strict_start) ?s"
    using conc_run.accept [OF conc_run.start, of "fresh_system strict_start" 2 sample_net False "sample_request ''read''"]
    by (simp add: busy_def fresh_system_def)
  from conc_run.accept [OF this, of "sample_request ''read''"]
  have "conc_run sample_net 2 False (fresh_system strict_start)
      ((fresh_system strict_start)\<lparr>sy_threads := [Arrived (sample_request ''read''), Arrived (sample_request ''read'')]\<rparr>)"
    by (simp add: busy_def)
  then show ?thesis unfolding strict_end_def by (rule play_run) (auto simp: fresh_system_def)
qed

lemma strict_outcome: "map (forwarded_call ''s1'') (sy_threads strict_end) = [True, True]"
  by code_simp

text \<open>C8: Strict auditing under concurrency. With a signing key and strict auditing, however requests interleave with
  each other, with operators and with other processes, every tool call that has been forwarded has a
  record in the audit log that is signed with the proxy's key and names the call's session, agent,
  tool, decision, policy version and sequence number; and no record of the log at the start is lost or changed.\<close>

theorem interleaved_audit:
  assumes "conc_run N K ops (fresh_system p) s" "px_ok p" "px_signingKey p = Some key" "px_auditStrict p"
    and "i < length (sy_threads s)" "sy_threads s ! i = Replied r c Forwarded" "tool_call_of N r = Some (q, ps)"
  shows "\<exists>cx seq dn t0 sess pol unsigned rec. c = Some (cx, seq, dn, t0, sess, pol)
    \<and> Sign (n_lib N) (n_crypto N) unsigned key = Inr rec \<and> row_of_record rec \<in> set (db_audit (px_db (sy_proxy s)))
    \<and> r_SessionID rec = session_header r \<and> r_Seq rec = seq \<and> r_AgentName rec = cl_AgentName (cx_claims cx)
    \<and> r_ToolName rec = ca_Name ps \<and> r_Decision rec = action_str (d_Action dn) \<and> r_PolicyFingerprint rec = p_Fingerprint pol
    \<and> prefix (db_audit (px_db p)) (db_audit (px_db (sy_proxy s)))"
proof -
  have s0: "sys_ok N (fresh_system p)" using assms(2) by (simp add: sys_ok_def fresh_system_def distinct_keys_def)
  have s: "sys_ok N s" "effects (px_db p) (px_db (sy_proxy s))" using conc_run_ok [OF assms(1) s0] by (simp_all add: fresh_system_def)
  have ok: "goroutine_ok N (px_db (sy_proxy s)) (Replied r c Forwarded)" using s(1) assms(5,6) by (auto simp: sys_ok_def list_all_length)
  then obtain cx seq dn t0 sess pol where c: "c = Some (cx, seq, dn, t0, sess, pol)" using assms(7) by (cases c) auto
  have cx: "cx_params cx = ps" "cx_sid cx = session_header r" "cx_request cx = r" using ok c assms(7) by (auto simp: ctx_ok_def)
  have "audit_known N key (px_db (sy_proxy s)) (Replied r c Forwarded)"
    using conc_run_audit [OF assms(1) s0, of key] assms(3-6) by (auto simp: fresh_system_def audits_with_def list_all_length)
  then obtain d0 rec where sg: "Sign (n_lib N) (n_crypto N) (audit_record N r (session_header r) (tc_AgentName (ctx_call cx))
      (tc_ParentAgent (ctx_call cx)) (ca_Name ps) (ca_Arguments ps) seq dn (p_Fingerprint pol) d0) key = Inr rec"
    and row: "row_of_record rec \<in> set (db_audit (px_db (sy_proxy s)))"
    by (auto simp: c audited_def cx)
  from sg obtain x where rec: "rec = (audit_record N r (session_header r) (tc_AgentName (ctx_call cx)) (tc_ParentAgent (ctx_call cx))
      (ca_Name ps) (ca_Arguments ps) seq dn (p_Fingerprint pol) d0)\<lparr>r_Signature := x\<rparr>"
    by (auto simp: Sign_def canonicalJSON_def)
  have "r_SessionID rec = session_header r" "r_Seq rec = seq" "r_AgentName rec = cl_AgentName (cx_claims cx)"
    "r_ToolName rec = ca_Name ps" "r_Decision rec = action_str (d_Action dn)" "r_PolicyFingerprint rec = p_Fingerprint pol"
    by (simp_all add: rec audit_record_def Let_def ctx_call_def engine_call_def)
  with c sg row effects_prefix [OF s(2)] show ?thesis by blast
qed

theorem interleaved_audit_witness:
  "\<exists>r c cx seq dn t0 sess pol rec. sy_threads strict_end ! 1 = Replied r c Forwarded \<and> c = Some (cx, seq, dn, t0, sess, pol)
    \<and> row_of_record rec \<in> set (db_audit (px_db (sy_proxy strict_end))) \<and> r_Seq rec = seq"
proof -
  have len: "length (sy_threads strict_end) = 2" by (simp add: strict_end_def)
  have "forwarded_call ''s1'' (sy_threads strict_end ! 1)"
    using arg_cong [OF strict_outcome, of "\<lambda>xs. xs ! 1"] len by simp
  then obtain r x where g: "sy_threads strict_end ! 1 = Replied r (Some x) Forwarded" by (auto simp: forwarded_call_def)
  have ok: "px_ok strict_start"
    using new_proxy_ok [OF sample_db_wf] by (simp add: strict_start_def px_ok_def SetAuditStrict_def)
  have cfg: "px_signingKey strict_start = Some ''priv''" "px_auditStrict strict_start"
    by (simp_all add: strict_start_def SetAuditStrict_def new_proxy_def)
  have "sys_ok sample_net (fresh_system strict_start)" using ok by (simp add: sys_ok_def fresh_system_def distinct_keys_def)
  from conc_run_ok [OF strict_run this] have "sys_ok sample_net strict_end" by blast
  then have "goroutine_ok sample_net (px_db (sy_proxy strict_end)) (sy_threads strict_end ! 1)"
    using len by (auto simp: sys_ok_def list_all_length)
  then obtain q ps where "tool_call_of sample_net r = Some (q, ps)" using g by (cases x) (auto simp: ctx_ok_def)
  from interleaved_audit [OF strict_run ok cfg _ g this] g len show ?thesis by auto
qed

end
