(* ===== verification/TB_Serial.thy ===== *)
theory TB_Serial
  imports TB_ConcurrentProps TB_Governor TB_OfflineFacts
begin

text \<open>
  When interleaving costs nothing. A client that has at most one request in progress per session gets, from
  any interleaving of any number of sessions, what the contract \<open>govern\<close> gives one call at a time: the
  calls can be put in an order, the one of their replies, in which the governor decides each as the proxy
  did and ends in the state of the database. A goroutine part-way is related to the contract by \<open>midway\<close>.
\<close>

section \<open>One call at a time\<close>

text \<open>A call of the log: its goroutine, the call, the instant of its event, and the decision.\<close>

type_synonym served = "nat \<times> call_ctx \<times> int \<times> Decision"

definition govern_call ::
    "lib \<Rightarrow> (string \<Rightarrow> string \<Rightarrow> string \<Rightarrow> bool) \<Rightarrow> (string \<Rightarrow> string list option) \<Rightarrow> Policy
     \<Rightarrow> call_ctx \<Rightarrow> int \<Rightarrow> governor \<Rightarrow> governor \<times> Decision option" where
  "govern_call L approvals scope pol cx t =
     govern L approvals scope pol (\<lambda>_. pol) (cx_at cx, cx_at cx, t) (cx_claims cx) (cx_sid cx) (cx_params cx)"

fun govern_all ::
    "lib \<Rightarrow> (string \<Rightarrow> string \<Rightarrow> string \<Rightarrow> bool) \<Rightarrow> (string \<Rightarrow> string list option) \<Rightarrow> Policy
     \<Rightarrow> served list \<Rightarrow> governor \<Rightarrow> governor option" where
  "govern_all L approvals scope pol [] G = Some G"
| "govern_all L approvals scope pol ((i, cx, t, dn) # cs) G =
     (let (G', dn') = govern_call L approvals scope pol cx t G
      in if dn' = Some dn then govern_all L approvals scope pol cs G' else None)"

lemma govern_all_append:
  "govern_all L A S pol (cs @ cs') G =
     (case govern_all L A S pol cs G of None \<Rightarrow> None | Some G' \<Rightarrow> govern_all L A S pol cs' G')"
  by (induction cs arbitrary: G) (auto simp: split_beta)

text \<open>What the contract holds of one session.\<close>

type_synonym slot = "Session option \<times> SessionEventEntry list"

definition slot_at :: "governor \<Rightarrow> string \<Rightarrow> slot" where
  "slot_at G sid = (gv_session G sid, gv_history G sid)"

abbreviation db_slot :: "db \<Rightarrow> string \<Rightarrow> slot" where
  "db_slot d sid \<equiv> slot_at (governor_of d) sid"

lemma db_slot: "db_slot d sid = (map_option session_of_row (find_session d sid), store_hist d sid)"
  by (simp add: slot_at_def governor_of_def)

lemma db_slot_same: "same_tables d d' \<Longrightarrow> db_slot d' sid = db_slot d sid"
  by (simp add: governor_same)

lemma db_slot_only: "only_session i d d' \<Longrightarrow> sid \<noteq> i \<Longrightarrow> db_slot d' sid = db_slot d sid"
  by (simp add: db_slot only_session_views(1,2))

lemma slots_eq: "(\<And>sid. slot_at G sid = slot_at G' sid) \<Longrightarrow> G = G'"
  by (cases G; cases G') (auto simp: slot_at_def fun_eq_iff)

definition opened :: "Policy \<Rightarrow> call_ctx \<Rightarrow> slot \<Rightarrow> Session" where
  "opened pol cx g = (case fst g of Some s \<Rightarrow> s | None \<Rightarrow> fresh_session (cx_sid cx) (cx_claims cx) pol)"

definition call_stages ::
    "lib \<Rightarrow> (string \<Rightarrow> string \<Rightarrow> string \<Rightarrow> bool) \<Rightarrow> (string \<Rightarrow> string list option) \<Rightarrow> call_ctx \<Rightarrow> slot
     \<Rightarrow> Evaluator list" where
  "call_stages L approvals scope cx g = full_stages L (view_backend (\<lambda>_. snd g) approvals scope) (cx_at cx)"

definition verdict ::
    "lib \<Rightarrow> (string \<Rightarrow> string \<Rightarrow> string \<Rightarrow> bool) \<Rightarrow> (string \<Rightarrow> string list option) \<Rightarrow> Policy \<Rightarrow> call_ctx \<Rightarrow> slot
     \<Rightarrow> Decision \<times> Session" where
  "verdict L approvals scope pol cx g = Evaluate (call_stages L approvals scope cx g) (ctx_call cx) (opened pol cx g) pol"

definition noted :: "call_ctx \<Rightarrow> Decision \<Rightarrow> int \<Rightarrow> SessionEventEntry" where
  "noted cx dn t = \<lparr>se_ToolName = ca_Name (cx_params cx), se_Decision = action_str (d_Action dn), se_RecordedAt = t\<rparr>"

text \<open>A call reads and moves the slot of its session only.\<close>

lemma govern_call_slot:
  assumes "g = slot_at G (cx_sid cx)" "\<not> s_Terminated (opened pol cx g)" "s_ID (opened pol cx g) = cx_sid cx"
    and "verdict L A S pol cx g = (dn, sess)"
  obtains G' where "govern_call L A S pol cx t G = (G', Some dn)"
    "slot_at G' (cx_sid cx) = (Some (count_call dn sess), snd g @ [noted cx dn t])"
    "\<forall>sid. sid \<noteq> cx_sid cx \<longrightarrow> slot_at G' sid = slot_at G sid"
proof -
  have o: "opened pol cx g = (case gv_session G (cx_sid cx) of Some s \<Rightarrow> s
      | None \<Rightarrow> fresh_session (cx_sid cx) (cx_claims cx) pol)"
    using assms(1) by (simp add: opened_def slot_at_def)
  have "answers_alike L (view_backend (gv_history G) A S) (view_backend (\<lambda>_. snd g) A S) (ctx_call cx) (opened pol cx g)"
    using assms(1,3) by (simp add: answers_alike_def views.events_total views.count_total views.approved_total view_backend_def slot_at_def)
  from Evaluate_alike [OF this] assms(4)
  have e: "Evaluate (full_stages L (view_backend (gv_history G) A S) (cx_at cx)) (ctx_call cx) (opened pol cx g) pol = (dn, sess)"
    by (simp add: verdict_def call_stages_def)
  let ?G = "G\<lparr>gv_session := (gv_session G)(cx_sid cx := Some (count_call dn sess)),
      gv_history := (gv_history G)(cx_sid cx := snd g @ [noted cx dn t])\<rparr>"
  show thesis
    by (rule that [of ?G]) (use assms(1,2) e in
      \<open>simp_all add: govern_call_def govern_def Let_def o [symmetric] ctx_call_def [symmetric] slot_at_def noted_def\<close>)
qed

section \<open>Part-way through a call\<close>

text \<open>
  \<open>g\<close> is the session as the contract has it, before the call; \<open>v\<close> as the database has it now.
\<close>

fun midway ::
    "lib \<Rightarrow> (string \<Rightarrow> string \<Rightarrow> string \<Rightarrow> bool) \<Rightarrow> (string \<Rightarrow> string list option) \<Rightarrow> Policy \<Rightarrow> slot \<Rightarrow> slot
     \<Rightarrow> goroutine \<Rightarrow> bool" where
  "midway L A S pol g v (Called cx) = (cx_sid cx \<noteq> [] \<and> v = g)"
| "midway L A S pol g v (Missing cx) = (cx_sid cx \<noteq> [] \<and> v = g \<and> fst g = None)"
| "midway L A S pol g v (Creating cx q) = (cx_sid cx \<noteq> [] \<and> v = g \<and> fst g = None \<and> q = pol)"
| "midway L A S pol g v (Loaded cx sess) = (cx_sid cx \<noteq> [] \<and> sess = opened pol cx g \<and> v = (Some sess, snd g))"
| "midway L A S pol g v (Unpinned cx sess) = (cx_sid cx \<noteq> [] \<and> sess = opened pol cx g \<and> v = (Some sess, snd g))"
| "midway L A S pol g v (Deciding cx k sess q) =
     (cx_sid cx \<noteq> [] \<and> q = pol \<and> sess = opened pol cx g \<and> v = (Some sess, snd g)
      \<and> Evaluate (drop k (call_stages L A S cx g)) (ctx_call cx) sess pol = verdict L A S pol cx g)"
| "midway L A S pol g v (Decided cx dn t0 sess q) =
     (cx_sid cx \<noteq> [] \<and> q = pol \<and> t0 = s_Tainted (opened pol cx g) \<and> verdict L A S pol cx g = (dn, sess)
      \<and> v = (Some (opened pol cx g), snd g))"
| "midway L A S pol g v (Recorded cx seq dn t0 sess q) =
     (cx_sid cx \<noteq> [] \<and> q = pol \<and> t0 = s_Tainted (opened pol cx g) \<and> verdict L A S pol cx g = (dn, sess)
      \<and> (\<exists>t. v = (Some (opened pol cx g), snd g @ [noted cx dn t])))"
| "midway L A S pol g v (Audited cx seq dn t0 sess q af) =
     (cx_sid cx \<noteq> [] \<and> q = pol \<and> t0 = s_Tainted (opened pol cx g) \<and> verdict L A S pol cx g = (dn, sess)
      \<and> (\<exists>t. v = (Some (opened pol cx g), snd g @ [noted cx dn t])))"
| "midway L A S pol g v (Acting cx seq dn t0 sess q af) =
     (cx_sid cx \<noteq> [] \<and> verdict L A S pol cx g = (dn, sess) \<and> (\<exists>t. v = (Some sess, snd g @ [noted cx dn t])))"
| "midway L A S pol g v (Replied r c rep) = (v = g)"
| "midway L A S pol g v _ = (v = g)"

fun answered :: "goroutine \<Rightarrow> bool" where
  "answered (Replied r (Some x) rep) = True"
| "answered _ = False"

lemma verdict_taints: "verdict L A S pol cx g = (dn, sess) \<Longrightarrow> \<exists>b. sess = (opened pol cx g)\<lparr>s_Tainted := b\<rparr>"
  using Evaluate_taints [of "call_stages L A S cx g" "ctx_call cx" "opened pol cx g" pol] by (simp add: verdict_def)

lemma midway_start:
  assumes "cx_sid cx \<noteq> []" "sess = opened pol cx g" "v = (Some sess, snd g)"
  shows "midway L A S pol g v (start_pipeline cx sess pol)" "\<not> answered (start_pipeline cx sess pol)"
proof -
  have "v = g" if "s_Terminated sess"
    using that assms(2,3) by (cases g; cases "fst g") (auto simp: opened_def fresh_session_def)
  with assms show "midway L A S pol g v (start_pipeline cx sess pol)" "\<not> answered (start_pipeline cx sess pol)"
    by (auto simp: start_pipeline_def verdict_def)
qed

text \<open>What the run does not change, without operators.\<close>

definition steady ::
    "net \<Rightarrow> (string \<Rightarrow> string \<Rightarrow> string \<Rightarrow> bool) \<Rightarrow> (string \<Rightarrow> string list option) \<Rightarrow> Policy \<Rightarrow> proxy \<Rightarrow> bool" where
  "steady N A S pol p \<longleftrightarrow> serves_only pol p \<and> \<not> px_auditStrict p \<and> tools_decode (n_tools N) (px_db p)
     \<and> store_approvals (n_lib N) (px_db p) = A \<and> store_scope (n_tools N) (px_db p) = S"

lemma call_stages_store:
  assumes W: "fault_free (n_world N)" and st: "steady N A S pol p"
    and v: "db_slot (px_db p) (cx_sid cx) = (Some sess, snd g)" and id: "s_ID sess = cx_sid cx"
  shows "list_all2 (\<lambda>e e'. e (ctx_call cx) sess pol = e' (ctx_call cx) sess pol)
    (drop k (full_stages (n_lib N) (store_backend (n_world N) (n_tools N) (px_db p)) (now_at (n_world N) (px_db p))))
    (drop k (call_stages (n_lib N) A S cx g))"
proof -
  let ?d = "px_db p" and ?c = "ctx_call cx"
  have jt: "tools_decode (n_tools N) ?d" using st by (simp add: steady_def)
  have "answers_alike (n_lib N) (store_backend (n_world N) (n_tools N) ?d) (view_backend (store_hist ?d) A S) ?c sess"
    using store_answers_views [OF W jt, of ?c sess] st by (simp add: steady_def)
  moreover have "store_hist ?d (s_ID sess) = snd g" using v id by (simp add: db_slot)
  ultimately have alike: "answers_alike (n_lib N) (store_backend (n_world N) (n_tools N) ?d) (view_backend (\<lambda>_. snd g) A S) ?c sess"
    by (simp add: answers_alike_def view_backend_def)
  have "tc_RequestedAt ?c \<noteq> None" by simp
  note now = RateLimit_now [OF this, of "n_lib N" "view_backend (\<lambda>_. snd g) A S" "now_at (n_world N) ?d" sess pol "cx_at cx"]
  have "list_all2 (\<lambda>e e'. e ?c sess pol = e' ?c sess pol)
    (full_stages (n_lib N) (store_backend (n_world N) (n_tools N) ?d) (now_at (n_world N) ?d)) (call_stages (n_lib N) A S cx g)"
    using now by (simp add: call_stages_def full_stages_def stages_alike [OF alike])
  then show ?thesis by (rule list_all2_dropI)
qed

lemma midway_deciding:
  assumes W: "fault_free (n_world N)" and st: "steady N A S pol p"
    and ok: "goroutine_ok N (px_db p) (Deciding cx k sess q)"
    and m: "midway (n_lib N) A S pol g (db_slot (px_db p) (cx_sid cx)) (Deciding cx k sess q)"
    and r: "run_stage N cx k sess q p = (g', p')"
  shows "\<not> answered g' \<and> midway (n_lib N) A S pol g (db_slot (px_db p') (cx_sid cx)) g' \<and> same_tables (px_db p) (px_db p')"
proof -
  let ?st = "full_stages (n_lib N) (store_backend (n_world N) (n_tools N) (px_db p)) (now_at (n_world N) (px_db p))"
  have id: "s_ID sess = cx_sid cx" using ok by (simp add: loaded_ok_def)
  have v: "db_slot (px_db p) (cx_sid cx) = (Some sess, snd g)" and q: "q = pol" using m by simp_all
  note rel = call_stages_store [OF W st v id, of k]
  have l: "db_slot (later n (px_db p)) sid = db_slot (px_db p) sid" for n sid by (rule db_slot_same) simp
  show ?thesis
  proof (cases "drop k ?st")
    case Nil
    with rel have "drop k (call_stages (n_lib N) A S cx g) = []" by simp
    with r Nil m q show ?thesis by (auto simp: run_stage_def Let_def l)
  next
    case (Cons ev rest)
    with rel obtain ev' rest' where d: "drop k (call_stages (n_lib N) A S cx g) = ev' # rest'"
      and e: "ev (ctx_call cx) sess pol = ev' (ctx_call cx) sess pol" by (auto simp: list_all2_Cons1)
    have rest: "drop (Suc k) (call_stages (n_lib N) A S cx g) = rest'" using d by (metis drop_Suc list.sel(3) tl_drop)
    show ?thesis
      using r Cons m q d e rest
      by (auto simp: run_stage_def Let_def l split: sum.splits if_splits)
  qed
qed

lemma midway_loaded:
  assumes st: "steady N A S pol p" and m: "cx_sid cx \<noteq> []" "sess = opened pol cx g" "db_slot (px_db p) (cx_sid cx) = (Some sess, snd g)"
    and a: "advance N stat (Loaded cx sess) p = (g', p')"
  shows "\<not> answered g' \<and> midway L A S pol g (db_slot (px_db p') (cx_sid cx)) g' \<and> same_tables (px_db p) (px_db p')"
proof -
  have cached: "q = pol" if "policyForFingerprint fp p = (Some q, p1)" for fp q p1
    using that st lru.get_result [of "px_polCache p" fp]
    by (auto simp: steady_def policyForFingerprint_def Let_def serves_only_def split: prod.splits)
  have db: "px_db p1 = px_db p" if "policyForFingerprint fp p = (r, p1)" for fp r p1
    using that by (auto simp: policyForFingerprint_def Let_def split: prod.splits)
  show ?thesis using a m midway_start [OF m(1,2), of "db_slot (px_db p) (cx_sid cx)"]
    by (auto dest!: cached simp: db split: prod.splits option.splits)
qed

lemma midway_opening:
  assumes W: "fault_free (n_world N)"
    and m: "midway L A S pol g (db_slot (px_db p) (cx_sid cx)) (Creating cx q)"
    and a: "advance N stat (Creating cx q) p = (g', p')"
  shows "\<not> answered g' \<and> midway L A S pol g (db_slot (px_db p') (cx_sid cx)) g' \<and> same_views (px_db p) (px_db p')"
proof -
  let ?c = "CreateSession (n_world N) (cx_sid cx) (cl_AgentName (cx_claims cx)) (p_Fingerprint q)"
  have v: "cx_sid cx \<noteq> []" "db_slot (px_db p) (cx_sid cx) = g" "fst g = None" "q = pol" using m by simp_all
  then have n: "find_session (px_db p) (cx_sid cx) = None" by (auto simp: db_slot)
  obtain d where c: "?c (px_db p) = (Inr (), d)"
    using CreateSession_fault_free [OF W n, of "cl_AgentName (cx_claims cx)" "p_Fingerprint q"] by blast
  have "same_tables (px_db p) (px_db p)" by (simp add: same_tables_def)
  from session_created [OF this c] obtain row where row: "same_views (px_db p) d" "find_session d (cx_sid cx) = Some row"
    "session_of_row row = fresh_session (cx_sid cx) (cx_claims cx) q" by blast
  with v have "db_slot d (cx_sid cx) = (Some (opened pol cx g), snd g)"
    using views_eq(1) [OF row(1)] by (auto simp: db_slot opened_def)
  with a c v row(1) show ?thesis by (auto simp: opened_def)
qed

lemma midway_called:
  assumes W: "fault_free (n_world N)" and m: "midway L A S pol g (db_slot (px_db p) (cx_sid cx)) (Called cx)"
    and a: "advance N stat (Called cx) p = (g', p')"
  shows "\<not> answered g' \<and> midway L A S pol g (db_slot (px_db p') (cx_sid cx)) g' \<and> same_tables (px_db p) (px_db p')"
proof -
  have e: "errors_Is err_no_rows SqlErrNoRows" by (simp add: err_no_rows_def errors_Is_def)
  have t: "find_session (tick d) sid = find_session d sid" "store_hist (tick d) = store_hist d" for d sid
    by (simp_all add: find_session_def store_hist_def session_rows_def fun_eq_iff)
  show ?thesis using a m e
    by (auto simp: GetSession_fault_free [OF W] t opened_def db_slot split: option.splits)
qed

lemma midway_recorded:
  assumes W: "fault_free (n_world N)"
    and m: "midway (n_lib N) A S pol g (db_slot (px_db p) (cx_sid cx)) (Decided cx dn t0 sess q)"
    and a: "record_call N cx dn t0 sess q p = (g', p')"
  shows "\<not> answered g' \<and> midway (n_lib N) A S pol g (db_slot (px_db p') (cx_sid cx)) g'
    \<and> store_approvals (n_lib N) (px_db p') = store_approvals (n_lib N) (px_db p)"
proof -
  obtain row where row: "find_session (px_db p) (cx_sid cx) = Some row" "session_of_row row = opened pol cx g"
    using m by (auto simp: db_slot)
  show ?thesis
    by (rule call_recorded [OF W row(1), of "ca_Name (cx_params cx)" "ca_Arguments (cx_params cx)"
          "action_str (d_Action dn)" "d_RuleID dn" "n_lib N"])
      (use a m row in \<open>auto simp: record_call_def Let_def db_slot noted_def\<close>)
qed

lemma midway_audited:
  assumes m: "midway L A S pol g (db_slot (px_db p) (cx_sid cx)) (Recorded cx seq dn t0 sess q)"
    and a: "audit_call N cx seq dn t0 sess q p = (g', p')"
  shows "\<not> answered g' \<and> midway L A S pol g (db_slot (px_db p') (cx_sid cx)) g'
    \<and> store_approvals L (px_db p') = store_approvals L (px_db p)"
proof -
  let ?c = "ctx_call cx"
  obtain af p1 where w: "writeAuditRecord N (cx_request cx) (cx_sid cx) (tc_AgentName ?c) (tc_ParentAgent ?c)
      (ca_Name (cx_params cx)) (ca_Arguments (cx_params cx)) seq dn (p_Fingerprint q) p = (af, p1)" by fastforce
  have same: "db_sessions (px_db p1) = db_sessions (px_db p)" "db_events (px_db p1) = db_events (px_db p)"
    "db_escalations (px_db p1) = db_escalations (px_db p)"
    using w by (cases rule: writeAuditRecord_cases; simp)+
  have out: "g' = Audited cx seq dn t0 sess q af" "px_db p' = px_db p1"
    using a w by (auto simp: audit_call_def Let_def)
  have "db_slot (px_db p1) (cx_sid cx) = db_slot (px_db p) (cx_sid cx)"
    using same by (simp add: db_slot find_session_def store_hist_def session_rows_def)
  moreover have "store_approvals L (px_db p1) = store_approvals L (px_db p)"
    using same by (simp add: store_approvals_def fun_eq_iff)
  ultimately show ?thesis using m by (simp add: out)
qed

lemma midway_persisted:
  assumes W: "fault_free (n_world N)"
    and m: "midway L A S pol g (db_slot (px_db p) (cx_sid cx)) (Audited cx seq dn t0 sess q af)"
    and a: "advance N stat (Audited cx seq dn t0 sess q af) p = (g', p')"
  shows "\<not> answered g' \<and> midway L A S pol g (db_slot (px_db p') (cx_sid cx)) g' \<and> same_views (px_db p) (px_db p')"
proof -
  obtain row where row: "find_session (px_db p) (cx_sid cx) = Some row" "session_of_row row = opened pol cx g"
    using m by (auto simp: db_slot)
  obtain b where b: "sess = (opened pol cx g)\<lparr>s_Tainted := b\<rparr>" using m verdict_taints by fastforce
  have "t0 = sr_Tainted row" using m row(2) by (auto simp: session_of_row_def dest: sym)
  moreover obtain f p1 where t: "persist_taint N (cx_sid cx) (sr_Tainted row) sess p = (f, p1)" by fastforce
  moreover from persist_taint_exact [OF W row(1) t] obtain row' where row': "f = None" "find_session (px_db p1) (cx_sid cx) = Some row'"
      "session_of_row row' = sess" "same_views (px_db p) (px_db p1)" using b row(2) by auto
  ultimately have out: "g' = Acting cx seq dn t0 sess q af" "p' = p1" using a by simp_all
  show ?thesis unfolding out using m row' views_eq(1) [OF row'(4)] by (auto simp: db_slot)
qed

text \<open>A turn that does not act keeps the relation; the slot of the contract stays.\<close>

lemma midway_turn:
  assumes W: "fault_free (n_world N)" and st: "steady N A S pol p" and ok: "goroutine_ok N (px_db p) g"
    and m: "midway (n_lib N) A S pol s (db_slot (px_db p) (session_header (rq_of g))) g" and r: "\<not> replied g"
    and g: "\<forall>cx seq dn t0 sess q af. g \<noteq> Acting cx seq dn t0 sess q af" and a: "advance N stat g p = (g', p')"
  shows "\<not> answered g' \<and> midway (n_lib N) A S pol s (db_slot (px_db p') (session_header (rq_of g))) g'
    \<and> store_approvals (n_lib N) (px_db p') = store_approvals (n_lib N) (px_db p)"
proof -
  show ?thesis
  proof (cases g)
    case (Arrived x)
    have "same_tables (px_db p) d" if "authenticate W K h (px_db p) = (res, d)" for W K h res d
      using same_tables_authenticate [of "px_db p" W K h] that by simp
    moreover have "same_tables (px_db p) (tick (px_db p))" by simp
    ultimately show ?thesis using Arrived a m
      by (auto simp: handleHealth_def Let_def store_Ping_def db_slot_same views_same(2) split: if_splits prod.splits sum.splits option.splits)
  next
    case (Authenticated x claims)
    then show ?thesis using a m
      by (auto simp: open_call_def Let_def session_header_def split: option.splits sum.splits if_splits)
  next
    case (Polling x q ps)
    then show ?thesis using a m
      by (auto split: prod.splits dest!: escalation_status_reply(2) simp: db_slot_same views_same(2))
  next
    case (Called cx)
    then show ?thesis using midway_called [OF W _ a [unfolded Called]] ok m
      by (auto simp: ctx_ok_def intro: views_same(2))
  next
    case (Missing cx)
    then show ?thesis using a m st by (auto simp: steady_def serves_only_def)
  next
    case (Creating cx q)
    then show ?thesis using midway_opening [OF W _ a [unfolded Creating]] ok m
      by (auto simp: ctx_ok_def intro: views_eq(2))
  next
    case (Loaded cx sess)
    then show ?thesis using midway_loaded [where g = s and L = "n_lib N", OF st _ _ _ a [unfolded Loaded]] ok m
      by (auto simp: ctx_ok_def intro: views_same(2))
  next
    case (Unpinned cx sess)
    then show ?thesis using a m st midway_start [of cx sess pol s] by (auto simp: steady_def serves_only_def)
  next
    case (Deciding cx k sess q)
    then show ?thesis using midway_deciding [OF W st, of cx k sess q s g' p'] ok m a
      by (auto simp: ctx_ok_def intro: views_same(2))
  next
    case (Decided cx dn t0 sess q)
    then show ?thesis using midway_recorded [OF W, of A S pol s p cx dn t0 sess q g' p'] ok m a by (simp add: ctx_ok_def)
  next
    case (Recorded cx seq dn t0 sess q)
    then show ?thesis using midway_audited [of "n_lib N" A S pol s p cx seq dn t0 sess q N g' p'] ok m a by (simp add: ctx_ok_def)
  next
    case (Audited cx seq dn t0 sess q af)
    then show ?thesis using midway_persisted [where g = s and L = "n_lib N" and A = A and S = S and pol = pol, OF W _ a [unfolded Audited]] ok m
      by (auto simp: ctx_ok_def intro: views_eq(2))
  qed (use r g in auto)
qed

text \<open>The turn that acts is where the contract takes the call.\<close>

lemma midway_acting:
  assumes W: "fault_free (n_world N)" and st: "steady N A S pol p"
    and m: "midway (n_lib N) A S pol g (db_slot (px_db p) (cx_sid cx)) (Acting cx seq dn t0 sess q af)"
    and a: "advance N stat (Acting cx seq dn t0 sess q af) p = (g', p')"
  obtains rep t where "g' = Replied (cx_request cx) (Some (cx, seq, dn, t0, sess, q)) rep" "answers (cx_rpc cx) (cx_params cx) dn rep"
    "db_slot (px_db p') (cx_sid cx) = (Some (count_call dn sess), snd g @ [noted cx dn t])"
    "store_approvals (n_lib N) (px_db p') = store_approvals (n_lib N) (px_db p)"
proof -
  obtain rep where e: "enforce N (cx_rpc cx) (cx_params cx) (cx_sid cx) seq dn q af p = (p', rep)"
    and g': "g' = Replied (cx_request cx) (Some (cx, seq, dn, t0, sess, q)) rep"
    using a by (auto split: prod.splits)
  obtain row t where row: "find_session (px_db p) (cx_sid cx) = Some row" "session_of_row row = sess"
    "store_hist (px_db p) (cx_sid cx) = snd g @ [noted cx dn t]" using m by (auto simp: db_slot)
  have "\<not> px_auditStrict p" using st by (simp add: steady_def)
  from enforce_exact [OF W row(1) this e, of "n_lib N"] that [OF g'] row(2,3) show thesis by (auto simp: db_slot)
qed

text \<open>No other session's slot moves, nor the one of requests that name none.\<close>

lemma advance_only:
  assumes ok: "goroutine_ok N (px_db p) g" and a: "advance N stat g p = (g', p')"
  shows "only_session (session_header (rq_of g)) (px_db p) (px_db p')"
proof (cases g)
  case (Arrived r)
  have "same_tables (px_db p) d" if "authenticate W K h (px_db p) = (res, d)" for W K h res d
    using same_tables_authenticate [of "px_db p" W K h] that by simp
  with Arrived a show ?thesis
    by (auto simp: handleHealth_def Let_def store_Ping_def intro!: only_session_same split: if_splits prod.splits sum.splits option.splits)
next
  case (Authenticated r claims)
  then show ?thesis using a open_call_key(2) [of N r claims p] by simp
next
  case (Polling r q ps)
  then show ?thesis using a by (auto split: prod.splits dest!: escalation_status_reply(2) intro: only_session_same)
next
  case (Called cx)
  have "same_tables (px_db p) d" if "GetSession W i (px_db p) = (res, d)" for W i res d
    using reads_change_nothing(1) [of "px_db p" W i] that by simp
  with Called a show ?thesis by (auto intro!: only_session_same split: if_splits prod.splits sum.splits)
next
  case (Creating cx q)
  then show ?thesis
    using a ok store_ops_only(1) [of "cx_sid cx" "px_db p" "n_world N" "cl_AgentName (cx_claims cx)" "p_Fingerprint q"]
    by (auto simp: ctx_ok_def split: prod.splits sum.splits)
next
  case (Loaded cx sess)
  then show ?thesis using a by (auto simp: policyForFingerprint_def Let_def split: prod.splits option.splits)
next
  case (Deciding cx k sess q)
  have "only_session i (px_db p) (later n (px_db p))" for i n by (rule only_session_same) simp
  with Deciding a show ?thesis by (auto simp: run_stage_def Let_def split: list.splits sum.splits if_splits)
next
  case (Decided cx dn t0 sess q)
  then show ?thesis using a ok store_ops_only(4) [where sid = "cx_sid cx" and d = "px_db p" and W = "n_world N"]
    by (auto simp: ctx_ok_def record_call_def Let_def split: prod.splits sum.splits) (metis SessionEvent.select_convs(2) snd_conv)+
next
  case (Recorded cx seq dn t0 sess q)
  then show ?thesis using a ok by (auto simp: ctx_ok_def audit_call_def Let_def split: prod.splits dest: writeAuditRecord_only)
next
  case (Audited cx seq dn t0 sess q af)
  then show ?thesis using a ok store_ops_only(2) [of "cx_sid cx" "px_db p" "n_world N" "s_Tainted sess"]
    by (auto simp: ctx_ok_def persist_taint_def split: if_splits sum.splits prod.splits option.splits)
next
  case (Acting cx seq dn t0 sess q af)
  then show ?thesis using a ok by (auto simp: ctx_ok_def split: prod.splits dest: enforce_only)
qed (use a in auto)

section \<open>Calm runs\<close>

definition in_use :: "string \<Rightarrow> system \<Rightarrow> bool" where
  "in_use sid s \<longleftrightarrow> (\<exists>g \<in> set (sy_threads s). \<not> replied g \<and> session_header (rq_of g) = sid)"

text \<open>
  Runs without operators in which a request that names a session is accepted only when no request of
  that session is in progress. The turns may be taken in any order.
\<close>

inductive calm_run :: "net \<Rightarrow> system \<Rightarrow> system \<Rightarrow> bool" for N where
  start: "calm_run N s s"
| accept: "calm_run N s t \<Longrightarrow> session_header r = [] \<or> \<not> in_use (session_header r) t \<Longrightarrow>
    calm_run N s (t\<lparr>sy_threads := sy_threads t @ [Arrived r]\<rparr>)"
| go: "calm_run N s t \<Longrightarrow> i < length (sy_threads t) \<Longrightarrow> calm_run N s (turn N stat i t)"

text \<open>The log names every answered call once, with what it was told.\<close>

definition logged :: "served list \<Rightarrow> goroutine list \<Rightarrow> bool" where
  "logged cs gs \<longleftrightarrow> distinct (map fst cs) \<and> (\<forall>i. i \<in> fst ` set cs \<longleftrightarrow> i < length gs \<and> answered (gs ! i))
     \<and> (\<forall>(i, cx, t, dn) \<in> set cs. \<exists>seq t0 sess q rep.
          gs ! i = Replied (cx_request cx) (Some (cx, seq, dn, t0, sess, q)) rep \<and> answers (cx_rpc cx) (cx_params cx) dn rep)"

definition disjoint_use :: "goroutine list \<Rightarrow> bool" where
  "disjoint_use gs \<longleftrightarrow> (\<forall>i < length gs. \<forall>j < length gs. i \<noteq> j \<longrightarrow> \<not> replied (gs ! i) \<longrightarrow> \<not> replied (gs ! j) \<longrightarrow>
     session_header (rq_of (gs ! i)) = session_header (rq_of (gs ! j)) \<longrightarrow> session_header (rq_of (gs ! i)) = [])"

definition serial_inv ::
    "net \<Rightarrow> (string \<Rightarrow> string \<Rightarrow> string \<Rightarrow> bool) \<Rightarrow> (string \<Rightarrow> string list option) \<Rightarrow> Policy \<Rightarrow> governor \<Rightarrow> served list
     \<Rightarrow> governor \<Rightarrow> system \<Rightarrow> bool" where
  "serial_inv N A S pol G0 cs G s \<longleftrightarrow>
     sys_ok N s \<and> steady N A S pol (sy_proxy s) \<and> disjoint_use (sy_threads s) \<and> logged cs (sy_threads s)
   \<and> govern_all (n_lib N) A S pol cs G0 = Some G
   \<and> (\<forall>g \<in> set (sy_threads s). \<not> replied g \<longrightarrow>
        midway (n_lib N) A S pol (slot_at G (session_header (rq_of g))) (db_slot (px_db (sy_proxy s)) (session_header (rq_of g))) g)
   \<and> (\<forall>sid. sid = [] \<or> \<not> in_use sid s \<longrightarrow> db_slot (px_db (sy_proxy s)) sid = slot_at G sid)"

lemma logged_turn:
  assumes l: "logged cs gs" and i: "i < length gs" and r: "\<not> replied (gs ! i)" and g: "\<not> answered g"
  shows "logged cs (gs[i := g])"
proof -
  have no: "\<not> answered (gs ! i)" using r by (cases "gs ! i") simp_all
  then have "i \<notin> fst ` set cs" using l by (simp add: logged_def)
  then have "j \<noteq> i" if "(j, x) \<in> set cs" for j x using that by force
  with l i no g show ?thesis by (fastforce simp: logged_def nth_list_update)
qed

lemma logged_accept:
  assumes l: "logged cs gs"
  shows "logged cs (gs @ [Arrived r])"
proof -
  have "i \<in> fst ` set cs \<longleftrightarrow> i < length (gs @ [Arrived r]) \<and> answered ((gs @ [Arrived r]) ! i)" for i
    using l by (cases "i = length gs") (auto simp: logged_def nth_append)
  moreover have "(gs @ [Arrived r]) ! i = gs ! i" if "(i, x) \<in> set cs" for i x
    using l that by (force simp: logged_def nth_append)
  ultimately show ?thesis using l unfolding logged_def by fastforce
qed

lemma logged_answer:
  assumes l: "logged cs gs" and i: "i < length gs" and r: "\<not> replied (gs ! i)"
    and g: "g = Replied (cx_request cx) (Some (cx, seq, dn, t0, sess, q)) rep" "answers (cx_rpc cx) (cx_params cx) dn rep"
  shows "logged (cs @ [(i, cx, t, dn)]) (gs[i := g])"
proof -
  have no: "\<not> answered (gs ! i)" using r by (cases "gs ! i") simp_all
  then have new: "i \<notin> fst ` set cs" using l by (simp add: logged_def)
  then have "j \<noteq> i" if "(j, x) \<in> set cs" for j x using that by force
  with l i new g show ?thesis by (fastforce simp: logged_def nth_list_update)
qed

lemma sys_ok_thread: "sys_ok N s \<Longrightarrow> i < length (sy_threads s) \<Longrightarrow> goroutine_ok N (px_db (sy_proxy s)) (sy_threads s ! i)"
  by (simp add: sys_ok_def list_all_length)

lemma turn_replied:
  assumes "i < length (sy_threads s)" "replied (sy_threads s ! i)"
  shows "turn N stat i s = s"
proof -
  have "advance N stat (sy_threads s ! i) p = (sy_threads s ! i, p)" for p
    using assms(2) by (cases "sy_threads s ! i") simp_all
  then show ?thesis by (simp add: turn_def)
qed

text \<open>Requests that name no session move no slot.\<close>

lemma advance_unnamed:
  assumes ok: "goroutine_ok N (px_db p) g" and r: "\<not> replied g" and m: "midway L A S pol s v g"
    and h: "session_header (rq_of g) = []" and a: "advance N stat g p = (g', p')"
  shows "same_tables (px_db p) (px_db p')"
proof (cases g)
  case (Arrived x)
  have "same_tables (px_db p) d" if "authenticate W K h (px_db p) = (res, d)" for W K h res d
    using same_tables_authenticate [of "px_db p" W K h] that by simp
  with Arrived a show ?thesis
    by (auto simp: handleHealth_def Let_def store_Ping_def split: if_splits prod.splits sum.splits option.splits)
next
  case (Authenticated x claims)
  then show ?thesis using a open_call_key(2) [of N x claims p] by (simp add: same_tables_def)
next
  case (Polling x q ps)
  then show ?thesis using a by (auto split: prod.splits dest!: escalation_status_reply(2))
qed (use ok r m h in \<open>auto simp: ctx_ok_def\<close>)

lemma steady_step:
  assumes st: "steady N A S pol p" and h: "handler_step p p'" and o: "only_session sid (px_db p) (px_db p')"
    and appr: "store_approvals (n_lib N) (px_db p') = store_approvals (n_lib N) (px_db p)"
  shows "steady N A S pol p'"
proof -
  have ag: "db_agents (px_db p') = db_agents (px_db p)" using o by (simp add: only_session_def)
  then have "store_scope (n_tools N) (px_db p') = store_scope (n_tools N) (px_db p)" "tools_decode (n_tools N) (px_db p') = tools_decode (n_tools N) (px_db p)"
    by (simp_all add: store_scope_def find_agent_def fun_eq_iff tools_decode_def)
  moreover have "px_auditStrict p' = px_auditStrict p" using h by (simp add: handler_step_def same_config_def)
  ultimately show ?thesis using st serves_only_step [OF h] appr by (simp add: steady_def)
qed

lemma disjoint_turn:
  assumes dis: "disjoint_use gs" and r: "\<not> replied (gs ! i)" and rq: "rq_of g = rq_of (gs ! i)"
  shows "disjoint_use (gs[i := g])"
proof -
  have "rq_of (gs[i := g] ! j) = rq_of (gs ! j)" "replied (gs ! j) \<Longrightarrow> replied (gs[i := g] ! j)" if "j < length gs" for j
    using that rq r by (cases "j = i"; simp)+
  with dis show ?thesis unfolding disjoint_use_def by (simp only: length_list_update) metis
qed

lemma in_use_turn:
  assumes "in_use sid s" "sid \<noteq> session_header (rq_of (sy_threads s ! i))"
  shows "in_use sid \<lparr>sy_proxy = p, sy_threads = (sy_threads s)[i := g]\<rparr>"
proof -
  obtain j where j: "j < length (sy_threads s)" "\<not> replied (sy_threads s ! j)" "session_header (rq_of (sy_threads s ! j)) = sid"
    using assms(1) by (auto simp: in_use_def in_set_conv_nth)
  with assms(2) have "j \<noteq> i" by auto
  with j have "sy_threads s ! j \<in> set ((sy_threads s)[i := g])" by (metis length_list_update nth_list_update_neq nth_mem)
  with j show ?thesis by (auto simp: in_use_def)
qed

text \<open>What a turn has to show of its own session.\<close>

lemma serial_turn_by:
  assumes inv: "serial_inv N A S pol G0 cs G s" and i: "i < length (sy_threads s)" and r: "\<not> replied (sy_threads s ! i)"
    and a: "advance N stat (sy_threads s ! i) (sy_proxy s) = (g', p')" and hdr: "hdr = session_header (rq_of (sy_threads s ! i))"
    and log': "logged cs' ((sy_threads s)[i := g'])" "govern_all (n_lib N) A S pol cs' G0 = Some G'"
    and G': "\<And>sid. sid \<noteq> hdr \<or> hdr = [] \<Longrightarrow> slot_at G' sid = slot_at G sid"
    and v': "midway (n_lib N) A S pol (slot_at G' hdr) (db_slot (px_db p') hdr) g'"
      "replied g' \<Longrightarrow> db_slot (px_db p') hdr = slot_at G' hdr"
    and appr: "store_approvals (n_lib N) (px_db p') = store_approvals (n_lib N) (px_db (sy_proxy s))"
  shows "serial_inv N A S pol G0 cs' G' (turn N stat i s)"
proof -
  let ?gs = "sy_threads s" and ?d = "px_db (sy_proxy s)"
  have t: "turn N stat i s = \<lparr>sy_proxy = p', sy_threads = ?gs[i := g']\<rparr>" by (simp add: turn_def a)
  have sys: "sys_ok N s" and st: "steady N A S pol (sy_proxy s)" and dis: "disjoint_use ?gs"
    and mid: "\<And>g. g \<in> set ?gs \<Longrightarrow> \<not> replied g \<Longrightarrow> midway (n_lib N) A S pol (slot_at G (session_header (rq_of g)))
        (db_slot ?d (session_header (rq_of g))) g"
    and idle: "\<And>sid. sid = [] \<or> \<not> in_use sid s \<Longrightarrow> db_slot ?d sid = slot_at G sid"
    using inv unfolding serial_inv_def by blast+
  note ok = sys_ok_thread [OF sys i]
  have h: "handler_step (sy_proxy s) p'" using advance_step [of "sy_proxy s" N stat "?gs ! i"] a by simp
  have o: "only_session hdr ?d (px_db p')" using advance_only [OF ok a] hdr by simp
  have rq: "rq_of g' = rq_of (?gs ! i)" using advance_request [of N stat "?gs ! i" "sy_proxy s"] a by simp
  have other: "db_slot (px_db p') sid = db_slot ?d sid" if "sid \<noteq> hdr \<or> hdr = []" for sid
    using that db_slot_only [OF o, of sid] db_slot_same [OF advance_unnamed [OF ok r mid [OF nth_mem [OF i] r] _ a], of sid] hdr
    by auto
  have apart: "session_header (rq_of (?gs ! j)) \<noteq> hdr \<or> hdr = []" if "j < length ?gs" "j \<noteq> i" "\<not> replied (?gs ! j)" for j
    using dis i r that hdr unfolding disjoint_use_def by metis
  have mid': "midway (n_lib N) A S pol (slot_at G' (session_header (rq_of g))) (db_slot (px_db p') (session_header (rq_of g))) g"
    if g: "g \<in> set (?gs[i := g'])" "\<not> replied g" for g
  proof -
    obtain j where j: "j < length ?gs" "?gs[i := g'] ! j = g"
      using g(1) unfolding in_set_conv_nth length_list_update by blast
    show ?thesis
    proof (cases "j = i")
      case True
      then show ?thesis using j i v'(1) rq hdr by simp
    next
      case False
      then have gj: "g = ?gs ! j" using j(2) by simp
      have ap: "session_header (rq_of g) \<noteq> hdr \<or> hdr = []" using apart [OF j(1) False] g(2) gj by simp
      show ?thesis using mid [of g] g(2) gj j(1) other [OF ap] G' [OF ap] by simp
    qed
  qed
  have used: "in_use sid (turn N stat i s)" if "in_use sid s" "sid \<noteq> hdr" for sid
    unfolding t by (rule in_use_turn) (use that hdr in simp_all)
  have idle': "db_slot (px_db p') sid = slot_at G' sid" if "sid = [] \<or> \<not> in_use sid (turn N stat i s)" for sid
  proof (cases "sid \<noteq> hdr \<or> hdr = []")
    case True
    then have "sid = [] \<or> \<not> in_use sid s" using that used by blast
    then show ?thesis using idle other [OF True] G' [OF True] by simp
  next
    case False
    have "replied g'"
    proof (rule ccontr)
      assume "\<not> replied g'"
      then have "in_use hdr (turn N stat i s)" using i rq hdr by (auto simp: in_use_def t set_update_memI)
      with that False show False by simp
    qed
    with v'(2) False show ?thesis by simp
  qed
  have dis': "disjoint_use (?gs[i := g'])" by (rule disjoint_turn [OF dis r rq])
  have "sys_ok N (turn N stat i s)" using turn_ok [OF sys i] by simp
  with steady_step [OF st h o appr] dis' log' mid' idle' show ?thesis by (simp add: serial_inv_def t)
qed

lemma serial_turn:
  assumes W: "fault_free (n_world N)" and inv: "serial_inv N A S pol G0 cs G s" and i: "i < length (sy_threads s)"
  shows "\<exists>cs' G'. serial_inv N A S pol G0 (cs @ cs') G' (turn N stat i s)"
proof (cases "replied (sy_threads s ! i)")
  case True
  then show ?thesis using inv turn_replied [OF i True] by (intro exI [of _ "[]"]) auto
next
  case r: False
  let ?g = "sy_threads s ! i" and ?p = "sy_proxy s"
  let ?hdr = "session_header (rq_of ?g)"
  obtain g' p' where a: "advance N stat ?g ?p = (g', p')" by fastforce
  have st: "steady N A S pol ?p" and l: "logged cs (sy_threads s)" and all: "govern_all (n_lib N) A S pol cs G0 = Some G"
    and m: "midway (n_lib N) A S pol (slot_at G ?hdr) (db_slot (px_db ?p) ?hdr) ?g"
    using inv i r unfolding serial_inv_def by auto
  have ok: "goroutine_ok N (px_db ?p) ?g" using inv sys_ok_thread [OF _ i] by (simp add: serial_inv_def)
  note by' = serial_turn_by [OF inv i r a HOL.refl]
  show ?thesis
  proof (cases "\<exists>cx seq dn t0 sess q af. ?g = Acting cx seq dn t0 sess q af")
    case False
    then have "\<forall>cx seq dn t0 sess q af. ?g \<noteq> Acting cx seq dn t0 sess q af" by blast
    note t = midway_turn [OF W st ok m r this a]
    have "serial_inv N A S pol G0 cs G (turn N stat i s)"
    proof (rule by')
      show "logged cs ((sy_threads s)[i := g'])" using logged_turn [OF l i r] t by simp
      show "db_slot (px_db p') ?hdr = slot_at G ?hdr" if "replied g'"
        using t that by (cases g') simp_all
    qed (use all t in simp_all)
    then show ?thesis by (intro exI [of _ "[]"]) auto
  next
    case True
    then obtain cx seq dn t0 sess q af where g: "?g = Acting cx seq dn t0 sess q af" by blast
    have cx: "cx_sid cx = ?hdr" "\<not> s_Terminated sess" "s_ID sess = cx_sid cx" "cx_sid cx \<noteq> []"
      and v: "verdict (n_lib N) A S pol cx (slot_at G (cx_sid cx)) = (dn, sess)"
      using ok m by (simp_all add: g ctx_ok_def loaded_ok_def)
    have m': "midway (n_lib N) A S pol (slot_at G (cx_sid cx)) (db_slot (px_db ?p) (cx_sid cx)) (Acting cx seq dn t0 sess q af)"
      using m cx(1) by (simp add: g)
    obtain rep t where out: "g' = Replied (cx_request cx) (Some (cx, seq, dn, t0, sess, q)) rep" "answers (cx_rpc cx) (cx_params cx) dn rep"
      "db_slot (px_db p') (cx_sid cx) = (Some (count_call dn sess), snd (slot_at G (cx_sid cx)) @ [noted cx dn t])"
      "store_approvals (n_lib N) (px_db p') = store_approvals (n_lib N) (px_db ?p)"
      by (rule midway_acting [OF W st m' a [unfolded g]])
    obtain b where b: "sess = (opened pol cx (slot_at G (cx_sid cx)))\<lparr>s_Tainted := b\<rparr>" using verdict_taints [OF v] by blast
    have o: "\<not> s_Terminated (opened pol cx (slot_at G (cx_sid cx)))" "s_ID (opened pol cx (slot_at G (cx_sid cx))) = cx_sid cx"
      using cx(2,3) b by simp_all
    obtain G' where G': "govern_call (n_lib N) A S pol cx t G = (G', Some dn)"
      "slot_at G' (cx_sid cx) = (Some (count_call dn sess), snd (slot_at G (cx_sid cx)) @ [noted cx dn t])"
      "\<forall>sid. sid \<noteq> cx_sid cx \<longrightarrow> slot_at G' sid = slot_at G sid"
      by (rule govern_call_slot [where t = t, OF HOL.refl o v])
    have "serial_inv N A S pol G0 (cs @ [(i, cx, t, dn)]) G' (turn N stat i s)"
    proof (rule by')
      show "logged (cs @ [(i, cx, t, dn)]) ((sy_threads s)[i := g'])" by (rule logged_answer [OF l i r out(1,2)])
      show "govern_all (n_lib N) A S pol (cs @ [(i, cx, t, dn)]) G0 = Some G'" by (simp add: govern_all_append all G'(1))
      show "slot_at G' sid = slot_at G sid" if "sid \<noteq> ?hdr \<or> ?hdr = []" for sid using that G'(3) cx(1,4) by metis
      show "midway (n_lib N) A S pol (slot_at G' ?hdr) (db_slot (px_db p') ?hdr) g'" "db_slot (px_db p') ?hdr = slot_at G' ?hdr"
        using out(1,3) G'(2) cx(1) by simp_all
    qed (rule out(4))
    then show ?thesis by blast
  qed
qed

lemma serial_accept:
  assumes inv: "serial_inv N A S pol G0 cs G s" and free: "session_header r = [] \<or> \<not> in_use (session_header r) s"
  shows "serial_inv N A S pol G0 cs G (s\<lparr>sy_threads := sy_threads s @ [Arrived r]\<rparr>)"
proof -
  let ?gs = "sy_threads s"
  have "sys_ok N (s\<lparr>sy_threads := ?gs @ [Arrived r]\<rparr>)"
    using inv by (auto simp: serial_inv_def sys_ok_def distinct_keys_def nth_append)
  moreover have "disjoint_use (?gs @ [Arrived r])"
  proof -
    have "disjoint_use ?gs" using inv by (simp add: serial_inv_def)
    moreover have "session_header (rq_of (?gs ! j)) \<noteq> session_header r" if "j < length ?gs" "\<not> replied (?gs ! j)" "session_header r \<noteq> []" for j
      using free that by (auto simp: in_use_def)
    ultimately show ?thesis by (fastforce simp: disjoint_use_def nth_append less_Suc_eq)
  qed
  moreover have "logged cs (?gs @ [Arrived r])" using inv logged_accept by (simp add: serial_inv_def)
  moreover have "db_slot (px_db (sy_proxy s)) (session_header r) = slot_at G (session_header r)"
    using inv free by (auto simp: serial_inv_def)
  ultimately show ?thesis using inv by (auto simp: serial_inv_def in_use_def)
qed

lemma calm_serial:
  "calm_run N s t \<Longrightarrow> fault_free (n_world N) \<Longrightarrow> serial_inv N A S pol G0 cs0 G1 s \<Longrightarrow>
   \<exists>cs G. serial_inv N A S pol G0 (cs0 @ cs) G t"
proof (induction rule: calm_run.induct)
  case (start s)
  then show ?case by (intro exI [of _ "[]"]) auto
next
  case (accept s t r)
  then show ?case using serial_accept by blast
next
  case (go s t i stat)
  then obtain cs G where "serial_inv N A S pol G0 (cs0 @ cs) G t" by blast
  from serial_turn [OF go.prems(1) this go.hyps(2)] obtain cs' G' where "serial_inv N A S pol G0 ((cs0 @ cs) @ cs') G' (turn N stat i t)"
    by blast
  then show ?case by (auto simp only: append_assoc)
qed

section \<open>A calm schedule, played\<close>

lemma calm_play: "calm_run N s t \<Longrightarrow> \<forall>i \<in> set is. i < length (sy_threads t) \<Longrightarrow> calm_run N s (play N is t)"
proof (induction "is" arbitrary: t)
  case (Cons i js)
  have "calm_run N s (turn N (\<lambda>_. True) i t)" using Cons.prems by (intro calm_run.go) simp_all
  moreover have "length (sy_threads (turn N (\<lambda>_. True) i t)) = length (sy_threads t)" by (simp add: turn_def split_beta)
  ultimately show ?case using Cons.IH [of "turn N (\<lambda>_. True) i t"] Cons.prems(2) by (simp add: play_def)
qed (simp add: play_def)

text \<open>Calls of two sessions, turn by turn.\<close>

definition second_session :: "request \<Rightarrow> request" where
  "second_session r = r\<lparr>rq_header := (rq_header r)(''X-TrueBearing-Session-ID'' := ''s2'')\<rparr>"

definition calm_open :: system where
  "calm_open = (fresh_system sample_proxy)\<lparr>sy_threads := [Arrived (sample_request ''read''), Arrived (second_session (sample_request ''read''))]\<rparr>"

definition calm_end :: system where
  "calm_end = play sample_net (concat (replicate 21 [0, 1])) calm_open"

lemma calm_open_run: "calm_run sample_net (fresh_system sample_proxy) calm_open"
proof -
  let ?s = "(fresh_system sample_proxy)\<lparr>sy_threads := [Arrived (sample_request ''read'')]\<rparr>"
  have "calm_run sample_net (fresh_system sample_proxy) ?s"
    using calm_run.accept [OF calm_run.start, of "sample_request ''read''" "fresh_system sample_proxy"]
    by (simp add: in_use_def fresh_system_def)
  moreover have "\<not> in_use (session_header (second_session (sample_request ''read''))) ?s"
    by (simp add: in_use_def session_header_def second_session_def sample_request_def sample_header_def)
  ultimately show ?thesis
    using calm_run.accept [of sample_net "fresh_system sample_proxy" ?s "second_session (sample_request ''read'')"]
    by (simp add: calm_open_def)
qed

lemma calm_end_run: "calm_run sample_net calm_open calm_end"
  unfolding calm_end_def by (rule calm_play [OF calm_run.start]) (auto simp: calm_open_def)

lemma calm_outcome: "map (\<lambda>g. forwarded_call ''s1'' g \<or> forwarded_call ''s2'' g) (sy_threads calm_end) = [True, True]"
  by code_simp

section \<open>Properties\<close>

text \<open>
  A state of a run and an order of its answered calls: the contract, started on the tables of \<open>p\<close>, decides
  them in this order as the goroutines report, and holds what the tables hold of every session without a
  request in progress.
\<close>

definition serialized :: "net \<Rightarrow> Policy \<Rightarrow> proxy \<Rightarrow> system \<Rightarrow> served list \<Rightarrow> governor \<Rightarrow> bool" where
  "serialized N pol p s cs G \<longleftrightarrow>
     logged cs (sy_threads s) \<and> (\<forall>(i, cx, t, dn) \<in> set cs. ctx_ok N cx)
   \<and> govern_all (n_lib N) (store_approvals (n_lib N) (px_db p)) (store_scope (n_tools N) (px_db p)) pol cs (governor_of (px_db p)) = Some G
   \<and> (\<forall>sid. \<not> in_use sid s \<longrightarrow> slot_at (governor_of (px_db (sy_proxy s))) sid = slot_at G sid)"

lemma serial_inv_serialized:
  assumes inv: "serial_inv N (store_approvals (n_lib N) (px_db p)) (store_scope (n_tools N) (px_db p)) pol (governor_of (px_db p)) cs G s"
  shows "serialized N pol p s cs G"
proof -
  have "ctx_ok N cx" if x: "(i, cx, t, dn) \<in> set cs" for i cx t dn
  proof -
    have l: "logged cs (sy_threads s)" using inv by (simp add: serial_inv_def)
    then have "i < length (sy_threads s)" using x by (force simp: logged_def)
    then have "goroutine_ok N (px_db (sy_proxy s)) (sy_threads s ! i)" using inv sys_ok_thread by (simp add: serial_inv_def)
    with l x show ?thesis by (fastforce simp: logged_def)
  qed
  with inv show ?thesis by (auto simp: serial_inv_def serialized_def)
qed

text \<open>C6: Interleaving is harmless to clients that keep one request per session in progress. Take any
  interleaving of any number of requests, without operators, in which a request is accepted only when no
  request of its session is in progress; no statement fails, audit-strict mode is off and the proxy has
  served one policy. At every moment of the run the calls answered so far have an order in which the pure
  governor, taking one call at a time from the tables at the start, decides each as it was decided and
  answered; its state is then that of the tables, for every session without a request in progress. Calls
  answered later only extend the order, so it respects the order in which calls do not overlap.\<close>

theorem calls_serialize:
  assumes "fault_free (n_world N)" "px_ok p" "serves_only pol p" "\<not> px_auditStrict p" "tools_decode (n_tools N) (px_db p)"
    and "calm_run N (fresh_system p) s" "calm_run N s t"
  shows "\<exists>cs later G G'. serialized N pol p s cs G \<and> serialized N pol p t (cs @ later) G'"
proof -
  let ?A = "store_approvals (n_lib N) (px_db p)" and ?S = "store_scope (n_tools N) (px_db p)" and ?G = "governor_of (px_db p)"
  have "sys_ok N (fresh_system p)" using assms(2) by (simp add: sys_ok_def fresh_system_def distinct_keys_def)
  then have "serial_inv N ?A ?S pol ?G [] ?G (fresh_system p)"
    using assms(3-5) by (simp add: serial_inv_def fresh_system_def steady_def disjoint_use_def logged_def)
  from calm_serial [OF assms(6,1) this] obtain cs G where s: "serial_inv N ?A ?S pol ?G cs G s" by auto
  from calm_serial [OF assms(7,1) s] obtain later G' where "serial_inv N ?A ?S pol ?G (cs @ later) G' t" by auto
  with s show ?thesis using serial_inv_serialized by blast
qed

theorem calls_serialize_witness:
  "\<exists>cs G. serialized sample_net sample_gate sample_proxy calm_end cs G \<and> length cs = 2 \<and> governor_of (px_db (sy_proxy calm_end)) = G"
proof -
  have W: "fault_free (n_world sample_net)" by simp
  have ok: "px_ok sample_proxy" and only: "serves_only sample_gate sample_proxy"
    using new_proxy_ok [OF sample_db_wf] by (simp_all add: sample_proxy_def serves_only_new)
  from calls_serialize [OF W ok only sample_governed(4) sample_tools calm_open_run calm_end_run]
  obtain cs G where s: "serialized sample_net sample_gate sample_proxy calm_end cs G" by blast
  have len: "length (sy_threads calm_end) = 2" by (simp add: calm_end_def calm_open_def)
  have done': "answered (sy_threads calm_end ! i) \<and> replied (sy_threads calm_end ! i)" if "i < 2" for i
  proof -
    have "forwarded_call ''s1'' (sy_threads calm_end ! i) \<or> forwarded_call ''s2'' (sy_threads calm_end ! i)"
      using arg_cong [OF calm_outcome, of "\<lambda>xs. xs ! i"] len that by (auto simp: less_2_cases_iff)
    then show ?thesis by (auto simp: forwarded_call_def)
  qed
  have "i \<in> fst ` set cs \<longleftrightarrow> i < 2" for i
    using s len done' unfolding serialized_def logged_def by auto
  then have "fst ` set cs = {..<2}" by (simp add: set_eq_iff)
  moreover have "distinct (map fst cs)" using s by (simp add: serialized_def logged_def)
  ultimately have two: "length cs = 2" using distinct_card [of "map fst cs"] by simp
  have "\<not> in_use sid calm_end" for sid using done' len by (auto simp: in_use_def in_set_conv_nth)
  then have "governor_of (px_db (sy_proxy calm_end)) = G" using s by (intro slots_eq) (simp add: serialized_def)
  with s two show ?thesis by blast
qed

end
