(* ===== verification/TB_Schema.thy ===== *)
theory TB_Schema
  imports TB_StoreFacts
begin

text \<open>
  Opening a database (\<open>internal/store/store.go\<close>, \<open>schema.go\<close>): the settings of the connection, the tables and
  the columns added since. SQLite's data definition is modelled as far as the code uses it: a table has
  columns, keys and rows, \<open>CREATE TABLE IF NOT EXISTS\<close> leaves an existing table alone, \<open>PRAGMA table_info\<close> lists the
  columns, and \<open>ADD COLUMN\<close> gives existing rows a null.
\<close>

section \<open>SQL tables\<close>

datatype sql_value = Null | SqlInt int | SqlReal float64 | SqlText string

record column =
  co_name :: string
  co_type :: string
  co_notnull :: bool
  co_default :: "sql_value option"

text \<open>A foreign key: a column, the table it refers to and the column there.\<close>

record sql_table =
  ta_columns :: "column list"
  ta_primary :: "string list"
  ta_foreign :: "(string \<times> string \<times> string) list"
  ta_rows :: "(string \<Rightarrow> sql_value) list"

type_synonym tables = "string \<Rightarrow> sql_table option"

record sqlite =
  sl_tables :: tables
  sl_settings :: "string \<Rightarrow> string option"
  sl_tick :: nat

definition column_names :: "sql_table \<Rightarrow> string list" where
  "column_names t = map co_name (ta_columns t)"

definition create_if_missing :: "string \<Rightarrow> sql_table \<Rightarrow> tables \<Rightarrow> gerr + tables" where
  "create_if_missing name t T = Inr (case T name of Some _ \<Rightarrow> T | None \<Rightarrow> T(name \<mapsto> t))"

definition table_info :: "string \<Rightarrow> tables \<Rightarrow> string list" where
  "table_info name T = (case T name of None \<Rightarrow> [] | Some t \<Rightarrow> column_names t)"

definition add_column :: "string \<Rightarrow> column \<Rightarrow> tables \<Rightarrow> gerr + tables" where
  "add_column name c T =
     (case T name of
        None \<Rightarrow> Inl (errorf (''no such table: '' @ name))
      | Some t \<Rightarrow>
          (if co_name c \<in> set (column_names t) then Inl (errorf (''duplicate column name: '' @ co_name c))
           else Inr (T(name \<mapsto> t\<lparr>ta_columns := ta_columns t @ [c],
                                 ta_rows := map (\<lambda>r. r(co_name c := Null)) (ta_rows t)\<rparr>))))"

section \<open>The schema (schema.go)\<close>

definition text_col :: "string \<Rightarrow> bool \<Rightarrow> column" where
  "text_col n notnull = \<lparr>co_name = n, co_type = ''TEXT'', co_notnull = notnull, co_default = None\<rparr>"

definition int_col :: "string \<Rightarrow> bool \<Rightarrow> column" where
  "int_col n notnull = \<lparr>co_name = n, co_type = ''INTEGER'', co_notnull = notnull, co_default = None\<rparr>"

definition createSessionsTable :: sql_table where
  "createSessionsTable =
     \<lparr>ta_columns = [text_col ''id'' False, text_col ''agent_name'' True, text_col ''policy_fingerprint'' True,
        (int_col ''tainted'' True)\<lparr>co_default := Some (SqlInt 0)\<rparr>,
        (int_col ''tool_call_count'' True)\<lparr>co_default := Some (SqlInt 0)\<rparr>,
        \<lparr>co_name = ''estimated_cost_usd'', co_type = ''REAL'', co_notnull = True, co_default = Some (SqlReal (Fin 0))\<rparr>,
        int_col ''created_at'' True, int_col ''last_seen_at'' True,
        (int_col ''terminated'' True)\<lparr>co_default := Some (SqlInt 0)\<rparr>],
      ta_primary = [''id''], ta_foreign = [], ta_rows = []\<rparr>"

definition createSessionEventsTable :: sql_table where
  "createSessionEventsTable =
     \<lparr>ta_columns = [int_col ''seq'' True, text_col ''session_id'' True, text_col ''tool_name'' True,
        text_col ''arguments_json'' False, text_col ''decision'' True, text_col ''policy_rule'' False, int_col ''recorded_at'' True],
      ta_primary = [''session_id'', ''seq''], ta_foreign = [(''session_id'', ''sessions'', ''id'')], ta_rows = []\<rparr>"

definition createAuditLogTable :: sql_table where
  "createAuditLogTable =
     \<lparr>ta_columns = [text_col ''id'' False, text_col ''session_id'' True, int_col ''seq'' True, text_col ''agent_name'' True,
        text_col ''tool_name'' True, text_col ''arguments_sha256'' True, text_col ''decision'' True,
        text_col ''decision_reason'' False, text_col ''policy_fingerprint'' True, text_col ''agent_jwt_sha256'' True,
        text_col ''client_trace_id'' False, int_col ''recorded_at'' True, text_col ''signature'' True],
      ta_primary = [''id''], ta_foreign = [], ta_rows = []\<rparr>"

definition createAgentsTable :: sql_table where
  "createAgentsTable =
     \<lparr>ta_columns = [text_col ''name'' False, text_col ''public_key_pem'' True, text_col ''policy_file'' True,
        text_col ''allowed_tools_json'' True, int_col ''registered_at'' True, text_col ''jwt_preview'' True,
        int_col ''revoked_at'' False],
      ta_primary = [''name''], ta_foreign = [], ta_rows = []\<rparr>"

definition createEscalationsTable :: sql_table where
  "createEscalationsTable =
     \<lparr>ta_columns = [text_col ''id'' False, text_col ''session_id'' True, int_col ''seq'' True, text_col ''tool_name'' True,
        text_col ''arguments_json'' False, (text_col ''status'' True)\<lparr>co_default := Some (SqlText ''pending'')\<rparr>,
        text_col ''reason'' False, int_col ''created_at'' True, int_col ''resolved_at'' False],
      ta_primary = [''id''], ta_foreign = [], ta_rows = []\<rparr>"

text \<open>The statements of \<open>migrate\<close>, in dependency order.\<close>

definition schema_statements :: "(string \<times> sql_table) list" where
  "schema_statements =
     [(''sessions'', createSessionsTable), (''session_events'', createSessionEventsTable), (''audit_log'', createAuditLogTable),
      (''agents'', createAgentsTable), (''escalations'', createEscalationsTable)]"

section \<open>Migration\<close>

definition sl_next :: "sqlite \<Rightarrow> sqlite" where
  "sl_next s = s\<lparr>sl_tick := Suc (sl_tick s)\<rparr>"

text \<open>One statement; \<open>w_fault\<close> decides whether the driver fails.\<close>

definition sq_exec :: "world \<Rightarrow> string \<Rightarrow> (tables \<Rightarrow> gerr + tables) \<Rightarrow> sqlite \<Rightarrow> gerr option \<times> sqlite" where
  "sq_exec W msg stmt s =
     (case w_fault W (sl_tick s) of
        Some e \<Rightarrow> (Some (wrapf msg e), sl_next s)
      | None \<Rightarrow>
          (case stmt (sl_tables s) of
             Inl e \<Rightarrow> (Some (wrapf msg e), sl_next s)
           | Inr T \<Rightarrow> (None, sl_next (s\<lparr>sl_tables := T\<rparr>))))"

definition sq_then :: "gerr option \<times> sqlite \<Rightarrow> (sqlite \<Rightarrow> gerr option \<times> sqlite) \<Rightarrow> gerr option \<times> sqlite" where
  "sq_then r k = (case r of (Some e, s) \<Rightarrow> (Some e, s) | (None, s) \<Rightarrow> k s)"

definition sq_wrap :: "string \<Rightarrow> gerr option \<times> sqlite \<Rightarrow> gerr option \<times> sqlite" where
  "sq_wrap msg r = (map_option (wrapf msg) (fst r), snd r)"

text \<open>The loop over \<open>PRAGMA table_info\<close>: a row may fail to scan, and the iteration may end with an error.\<close>

fun scan_info :: "world \<Rightarrow> string \<Rightarrow> string \<Rightarrow> string list \<Rightarrow> sqlite \<Rightarrow> (gerr + bool) \<times> sqlite" where
  "scan_info W table col [] s =
     (case w_fault W (sl_tick s) of
        Some e \<Rightarrow> (Inl (wrapf (''iterating table_info for '' @ qw W table) e), sl_next s)
      | None \<Rightarrow> (Inr False, sl_next s))"
| "scan_info W table col (name # names) s =
     (case w_fault W (sl_tick s) of
        Some e \<Rightarrow> (Inl (wrapf ''scanning table_info row'' e), sl_next s)
      | None \<Rightarrow> (if name = col then (Inr True, sl_next s) else scan_info W table col names (sl_next s)))"

definition addColumnIfMissing :: "world \<Rightarrow> string \<Rightarrow> column \<Rightarrow> sqlite \<Rightarrow> gerr option \<times> sqlite" where
  "addColumnIfMissing W table c s =
     (case w_fault W (sl_tick s) of
        Some e \<Rightarrow> (Some (wrapf (''reading table_info for '' @ qw W table) e), sl_next s)
      | None \<Rightarrow>
          (case scan_info W table (co_name c) (table_info table (sl_tables s)) (sl_next s) of
             (Inl e, s) \<Rightarrow> (Some e, s)
           | (Inr True, s) \<Rightarrow> (None, s)
           | (Inr False, s) \<Rightarrow>
               sq_exec W (''adding column '' @ qw W (co_name c) @ '' to '' @ qw W table) (add_column table c) s))"

fun exec_schema :: "world \<Rightarrow> (string \<times> sql_table) list \<Rightarrow> sqlite \<Rightarrow> gerr option \<times> sqlite" where
  "exec_schema W [] s = (None, s)"
| "exec_schema W ((name, t) # stmts) s =
     sq_then (sq_exec W ''executing schema statement'' (create_if_missing name t) s) (exec_schema W stmts)"

definition migrate :: "world \<Rightarrow> sqlite \<Rightarrow> gerr option \<times> sqlite" where
  "migrate W s =
     sq_then (exec_schema W schema_statements s)
       (\<lambda>s. sq_then (sq_wrap ''adding revoked_at to agents'' (addColumnIfMissing W ''agents'' (int_col ''revoked_at'' False) s))
         (\<lambda>s. sq_wrap ''adding delegation_chain to audit_log''
            (addColumnIfMissing W ''audit_log'' (text_col ''delegation_chain'' False) s)))"

section \<open>Opening (store.go)\<close>

definition pragmas :: "(string \<times> string) list" where
  "pragmas = [(''journal_mode'', ''WAL''), (''foreign_keys'', ''ON''), (''synchronous'', ''NORMAL'')]"

fun set_pragmas :: "world \<Rightarrow> (string \<times> string) list \<Rightarrow> sqlite \<Rightarrow> gerr option \<times> sqlite" where
  "set_pragmas W [] s = (None, s)"
| "set_pragmas W ((n, v) # ps) s =
     (case w_fault W (sl_tick s) of
        Some e \<Rightarrow> (Some (wrapf (''setting '' @ n @ ''='' @ v) e), sl_next s)
      | None \<Rightarrow> set_pragmas W ps (sl_next (s\<lparr>sl_settings := (sl_settings s)(n \<mapsto> v)\<rparr>)))"

text \<open>\<open>openErr\<close> is the result of \<open>sql.Open\<close>. A failed step closes the connection.\<close>

definition Open :: "world \<Rightarrow> gerr option \<Rightarrow> string \<Rightarrow> sqlite \<Rightarrow> gerr option \<times> sqlite" where
  "Open W openErr path s =
     (case openErr of
        Some err \<Rightarrow> (Some (wrapf (''opening sqlite at '' @ path) err), s)
      | None \<Rightarrow>
          sq_then (set_pragmas W pragmas s) (\<lambda>s. sq_wrap ''applying schema migration'' (migrate W s)))"

section \<open>What opening keeps\<close>

text \<open>Tables, columns and rows stay; new columns are null in old rows.\<close>

definition row_kept :: "sql_table \<Rightarrow> column list \<Rightarrow> (string \<Rightarrow> sql_value) \<Rightarrow> (string \<Rightarrow> sql_value) \<Rightarrow> bool" where
  "row_kept t extra r r' \<longleftrightarrow> (\<forall>c \<in> set (column_names t). r' c = r c) \<and> (\<forall>c \<in> set extra. r' (co_name c) = Null)"

definition table_kept :: "sql_table \<Rightarrow> sql_table \<Rightarrow> bool" where
  "table_kept t t' \<longleftrightarrow> (\<exists>extra. ta_columns t' = ta_columns t @ extra \<and> ta_primary t' = ta_primary t \<and> ta_foreign t' = ta_foreign t
     \<and> list_all2 (row_kept t extra) (ta_rows t) (ta_rows t'))"

definition kept :: "tables \<Rightarrow> tables \<Rightarrow> bool" where
  "kept T T' \<longleftrightarrow> (\<forall>n t. T n = Some t \<longrightarrow> (\<exists>t'. T' n = Some t' \<and> table_kept t t'))"

lemma row_kept_refl: "row_kept t [] r r"
  by (simp add: row_kept_def)

lemma table_kept_refl [simp]: "table_kept t t"
  unfolding table_kept_def by (intro exI [of _ "[]"]) (simp add: list.rel_refl row_kept_refl)

lemma table_kept_trans: "table_kept t t' \<Longrightarrow> table_kept t' t'' \<Longrightarrow> table_kept t t''"
proof -
  assume "table_kept t t'" "table_kept t' t''"
  then obtain e e' where e: "ta_columns t' = ta_columns t @ e" "ta_primary t' = ta_primary t" "ta_foreign t' = ta_foreign t"
      "list_all2 (row_kept t e) (ta_rows t) (ta_rows t')"
    and e': "ta_columns t'' = ta_columns t' @ e'" "ta_primary t'' = ta_primary t'" "ta_foreign t'' = ta_foreign t'"
      "list_all2 (row_kept t' e') (ta_rows t') (ta_rows t'')"
    unfolding table_kept_def by blast
  have r: "row_kept t (e @ e') r r''" if "row_kept t e r r'" "row_kept t' e' r' r''" for r r' r''
    using that e(1) by (auto simp: row_kept_def column_names_def)
  have "list_all2 (row_kept t (e @ e')) (ta_rows t) (ta_rows t'')"
    by (rule list_all2_trans [OF _ e(4) e'(4)]) (rule r)
  with e e' show ?thesis unfolding table_kept_def by (intro exI [of _ "e @ e'"]) simp
qed

lemma kept_refl [simp]: "kept T T"
  by (simp add: kept_def)

lemma kept_trans: "kept T T' \<Longrightarrow> kept T' T'' \<Longrightarrow> kept T T''"
  unfolding kept_def by (meson table_kept_trans)

lemma sl_next_sel [simp]: "sl_tables (sl_next s) = sl_tables s" "sl_settings (sl_next s) = sl_settings s"
  by (simp_all add: sl_next_def)

lemma create_kept: "create_if_missing n t T = Inr T' \<Longrightarrow> kept T T'"
  by (auto simp: create_if_missing_def kept_def split: option.splits if_splits)

lemma add_column_kept: "add_column n c T = Inr T' \<Longrightarrow> kept T T'"
proof -
  have "table_kept t (t\<lparr>ta_columns := ta_columns t @ [c], ta_rows := map (\<lambda>r. r(co_name c := Null)) (ta_rows t)\<rparr>)"
    if "co_name c \<notin> set (column_names t)" for t
    unfolding table_kept_def
    by (intro exI [of _ "[c]"]) (use that in \<open>auto simp: row_kept_def list_all2_map2 intro!: list.rel_refl\<close>)
  then show "add_column n c T = Inr T' \<Longrightarrow> kept T T'"
    by (auto simp: add_column_def kept_def split: option.splits if_splits)
qed

lemma sq_exec_kept:
  "(\<And>T T'. stmt T = Inr T' \<Longrightarrow> kept T T') \<Longrightarrow> kept (sl_tables s) (sl_tables (snd (sq_exec W msg stmt s)))"
  by (auto simp: sq_exec_def split: option.split sum.split)

lemma sq_then_kept:
  "kept T (sl_tables (snd r)) \<Longrightarrow> (\<And>s. kept (sl_tables s) (sl_tables (snd (k s)))) \<Longrightarrow> kept T (sl_tables (snd (sq_then r k)))"
  by (auto simp: sq_then_def split: prod.split option.split intro: kept_trans)

lemma sq_wrap_sel [simp]: "snd (sq_wrap m r) = snd r" "fst (sq_wrap m r) = None \<longleftrightarrow> fst r = None"
  by (simp_all add: sq_wrap_def)

lemma scan_info_tables [simp]:
  "sl_tables (snd (scan_info W t c names s)) = sl_tables s" "sl_settings (snd (scan_info W t c names s)) = sl_settings s"
  by (induction names arbitrary: s) (auto split: option.split)

lemma add_if_missing_kept: "kept (sl_tables s) (sl_tables (snd (addColumnIfMissing W t c s)))"
proof -
  have k: "kept (sl_tables s) (sl_tables (snd (sq_exec W m (add_column t c) s')))" if "sl_tables s' = sl_tables s" for m s'
    using sq_exec_kept [of "add_column t c" s' W m] add_column_kept that by simp
  obtain r s' where sc: "scan_info W t (co_name c) (table_info t (sl_tables s)) (sl_next s) = (r, s')" by fastforce
  then have "sl_tables s' = sl_tables s" using scan_info_tables(1) by (metis sl_next_sel(1) snd_conv)
  with sc k show ?thesis by (auto simp: addColumnIfMissing_def split: option.split sum.split bool.split)
qed

lemma exec_schema_kept: "kept (sl_tables s) (sl_tables (snd (exec_schema W stmts s)))"
proof (induction W stmts s rule: exec_schema.induct)
  case (2 W name t stmts s)
  show ?case unfolding exec_schema.simps
    by (rule sq_then_kept [OF sq_exec_kept]) (use 2 create_kept in auto)
qed simp

lemma set_pragmas_tables [simp]: "sl_tables (snd (set_pragmas W ps s)) = sl_tables s"
  by (induction W ps s rule: set_pragmas.induct) (auto split: option.split)

lemma migrate_kept: "kept (sl_tables s) (sl_tables (snd (migrate W s)))"
  unfolding migrate_def by (intro sq_then_kept exec_schema_kept) (simp_all add: add_if_missing_kept)

lemma open_kept: "kept (sl_tables s) (sl_tables (snd (Open W openErr path s)))"
  unfolding Open_def
  by (auto split: option.split intro!: sq_then_kept simp: migrate_kept)

section \<open>What a successful opening reaches\<close>

lemma sq_then_None: "sq_then r k = (None, s') \<longleftrightarrow> (\<exists>s. r = (None, s) \<and> k s = (None, s'))"
  by (auto simp: sq_then_def split: prod.split option.split)

lemma sq_exec_None:
  "sq_exec W msg stmt s = (None, s') \<Longrightarrow> \<exists>T. stmt (sl_tables s) = Inr T \<and> sl_tables s' = T \<and> sl_settings s' = sl_settings s"
  by (auto simp: sq_exec_def split: option.splits sum.splits)

lemma sq_wrap_None: "sq_wrap m r = (None, s') \<longleftrightarrow> r = (None, s')"
  by (cases r) (auto simp: sq_wrap_def)

lemma exec_schema_None:
  "exec_schema W stmts s = (None, s') \<Longrightarrow>
   sl_tables s' = (\<lambda>n. case sl_tables s n of Some t \<Rightarrow> Some t | None \<Rightarrow> map_of stmts n) \<and> sl_settings s' = sl_settings s"
proof (induction W stmts s rule: exec_schema.induct)
  case (1 W s)
  then show ?case by (auto split: option.split)
next
  case (2 W name t stmts s)
  from 2(2) obtain s1 where e: "sq_exec W ''executing schema statement'' (create_if_missing name t) s = (None, s1)"
    and r: "exec_schema W stmts s1 = (None, s')" by (auto simp: sq_then_None)
  from sq_exec_None [OF e] have "sl_tables s1 = (case sl_tables s name of Some _ \<Rightarrow> sl_tables s | None \<Rightarrow> (sl_tables s)(name \<mapsto> t))"
    "sl_settings s1 = sl_settings s"
    by (auto simp: create_if_missing_def)
  with 2(1) [OF r] show ?case by (auto simp: fun_eq_iff split: option.split)
qed

lemma scan_info_found: "scan_info W t c names s = (Inr b, s') \<Longrightarrow> b = (c \<in> set names)"
  by (induction names arbitrary: s) (auto split: option.splits if_splits)

lemma add_column_there:
  "add_column n c T = Inr T' \<Longrightarrow> \<exists>t. T' n = Some t \<and> co_name c \<in> set (column_names t)"
  by (cases "T n") (auto simp: add_column_def column_names_def dest!: sym [of _ T'] split: if_splits)

lemma add_if_missing_settings:
  assumes "addColumnIfMissing W n c s = (None, s')"
  shows "sl_settings s' = sl_settings s"
proof -
  obtain r s1 where sc: "scan_info W n (co_name c) (table_info n (sl_tables s)) (sl_next s) = (r, s1)" by fastforce
  have "sl_settings s1 = sl_settings s"
    using scan_info_tables(2) [of W n "co_name c" "table_info n (sl_tables s)" "sl_next s"] sc by simp
  with assms sc show ?thesis
    by (auto simp: addColumnIfMissing_def dest!: sq_exec_None split: option.splits sum.splits bool.splits)
qed

text \<open>The column is there afterwards, and nothing changes when it was there before.\<close>

lemma add_if_missing_None:
  assumes "addColumnIfMissing W n c s = (None, s')"
  shows "\<exists>t. sl_tables s' n = Some t \<and> co_name c \<in> set (column_names t)"
proof -
  obtain r s1 where sc: "scan_info W n (co_name c) (table_info n (sl_tables s)) (sl_next s) = (r, s1)" by fastforce
  have T: "sl_tables s1 = sl_tables s"
    using scan_info_tables(1) [of W n "co_name c" "table_info n (sl_tables s)" "sl_next s"] sc by simp
  from assms sc obtain b where r: "r = Inr b" by (auto simp: addColumnIfMissing_def split: option.splits sum.splits)
  show ?thesis
  proof (cases b)
    case True
    then have "co_name c \<in> set (table_info n (sl_tables s))" using scan_info_found sc r by blast
    moreover have "s' = s1" using assms sc r True by (auto simp: addColumnIfMissing_def split: option.splits)
    ultimately show ?thesis using T by (cases "sl_tables s n") (auto simp: table_info_def)
  next
    case False
    then have "sq_exec W (''adding column '' @ qw W (co_name c) @ '' to '' @ qw W n) (add_column n c) s1 = (None, s')"
      using assms sc r by (auto simp: addColumnIfMissing_def split: option.splits)
    from sq_exec_None [OF this] have "add_column n c (sl_tables s1) = Inr (sl_tables s')" by blast
    then show ?thesis by (rule add_column_there)
  qed
qed

lemma add_if_missing_present:
  assumes "sl_tables s n = Some t" "co_name c \<in> set (column_names t)"
  shows "sl_tables (snd (addColumnIfMissing W n c s)) = sl_tables s"
proof -
  obtain r s1 where sc: "scan_info W n (co_name c) (table_info n (sl_tables s)) (sl_next s) = (r, s1)" by fastforce
  have T: "sl_tables s1 = sl_tables s"
    using scan_info_tables(1) [of W n "co_name c" "table_info n (sl_tables s)" "sl_next s"] sc by simp
  have "r \<noteq> Inr False" using scan_info_found sc assms by (auto simp: table_info_def)
  with sc T show ?thesis by (auto simp: addColumnIfMissing_def split: option.split sum.split bool.split)
qed

text \<open>A database as one of the released versions left it, and the columns the current code needs.\<close>

definition added_later :: "string \<Rightarrow> string set" where
  "added_later n = (if n = ''agents'' then {''revoked_at''} else {})"

definition supported :: "tables \<Rightarrow> bool" where
  "supported T \<longleftrightarrow> (\<forall>(n, t) \<in> set schema_statements. case T n of None \<Rightarrow> True
     | Some t' \<Rightarrow> set (column_names t) - added_later n \<subseteq> set (column_names t'))"

definition required :: "string \<Rightarrow> sql_table \<Rightarrow> string set" where
  "required n t = set (column_names t) \<union> (if n = ''audit_log'' then {''delegation_chain''} else {})"

definition current :: "tables \<Rightarrow> bool" where
  "current T \<longleftrightarrow> (\<forall>(n, t) \<in> set schema_statements. \<exists>t'. T n = Some t' \<and> required n t \<subseteq> set (column_names t'))"

lemma set_pragmas_None:
  "set_pragmas W ps s = (None, s') \<Longrightarrow> distinct (map fst ps) \<Longrightarrow> (n, v) \<in> set ps \<Longrightarrow> sl_settings s' n = Some v"
proof (induction W ps s rule: set_pragmas.induct)
  case (2 W m w ps s)
  let ?s = "sl_next (s\<lparr>sl_settings := (sl_settings s)(m \<mapsto> w)\<rparr>)"
  have st: "sl_settings (snd (set_pragmas W qs u)) k = sl_settings u k" if "k \<notin> fst ` set qs" for qs u k
    using that by (induction W qs u rule: set_pragmas.induct) (auto split: option.split)
  from 2(2) have r: "w_fault W (sl_tick s) = None" "set_pragmas W ps ?s = (None, s')" by (auto split: option.splits)
  show ?case
  proof (cases "(n, v) = (m, w)")
    case True
    then show ?thesis using st [of m ps ?s] r 2(3) by (auto simp: image_iff)
  next
    case False
    then show ?thesis using 2(1) [OF r] 2(3,4) by auto
  qed
qed simp

lemma kept_columns: "kept T T' \<Longrightarrow> T n = Some t \<Longrightarrow> \<exists>t'. T' n = Some t' \<and> set (column_names t) \<subseteq> set (column_names t')"
  by (fastforce simp: kept_def table_kept_def column_names_def)

lemma schema_statements_distinct: "distinct (map fst schema_statements)"
  by (simp add: schema_statements_def)

lemma migrate_current:
  assumes "migrate W s = (None, s')" "supported (sl_tables s)"
  shows "current (sl_tables s')"
proof -
  from assms(1) obtain s1 s2 where e: "exec_schema W schema_statements s = (None, s1)"
    and a: "addColumnIfMissing W ''agents'' (int_col ''revoked_at'' False) s1 = (None, s2)"
    and b: "addColumnIfMissing W ''audit_log'' (text_col ''delegation_chain'' False) s2 = (None, s')"
    by (auto simp: migrate_def sq_then_None sq_wrap_None)
  have k: "kept (sl_tables s1) (sl_tables s2)" "kept (sl_tables s2) (sl_tables s')"
    using add_if_missing_kept [of s1 W "''agents''" "int_col ''revoked_at'' False"] a
      add_if_missing_kept [of s2 W "''audit_log''" "text_col ''delegation_chain'' False"] b by simp_all
  obtain ta where ta: "sl_tables s2 ''agents'' = Some ta" "''revoked_at'' \<in> set (column_names ta)"
    using add_if_missing_None [OF a] by (auto simp: int_col_def)
  obtain tb where tb: "sl_tables s' ''audit_log'' = Some tb" "''delegation_chain'' \<in> set (column_names tb)"
    using add_if_missing_None [OF b] by (auto simp: text_col_def)
  have "\<exists>t'. sl_tables s' n = Some t' \<and> required n t \<subseteq> set (column_names t')" if st: "(n, t) \<in> set schema_statements" for n t
  proof -
    have "map_of schema_statements n = Some t" using st schema_statements_distinct by simp
    then obtain t1 where t1: "sl_tables s1 n = Some t1" "set (column_names t) - added_later n \<subseteq> set (column_names t1)"
      using exec_schema_None [OF e] assms(2) st by (fastforce simp: supported_def split: option.splits)
    obtain t2 where t2: "sl_tables s' n = Some t2" "set (column_names t1) \<subseteq> set (column_names t2)"
      using kept_columns [OF kept_trans [OF k] t1(1)] by blast
    have "added_later n \<subseteq> set (column_names t2)"
      using kept_columns [OF k(2) ta(1)] ta(2) t2(1) by (auto simp: added_later_def)
    with t1 t2 tb show ?thesis by (auto simp: required_def)
  qed
  then show ?thesis by (auto simp: current_def)
qed

text \<open>Without a failing statement, opening succeeds.\<close>

lemma exec_schema_free: "(\<And>k. w_fault W k = None) \<Longrightarrow> fst (exec_schema W stmts s) = None"
  by (induction W stmts s rule: exec_schema.induct) (simp_all add: sq_then_def sq_exec_def create_if_missing_def split: prod.split)

lemma scan_info_free: "(\<And>k. w_fault W k = None) \<Longrightarrow> fst (scan_info W t c names s) = Inr (c \<in> set names)"
  by (induction names arbitrary: s) auto

lemma add_if_missing_free:
  assumes "\<And>k. w_fault W k = None" "sl_tables s n = Some t"
  shows "fst (addColumnIfMissing W n c s) = None"
proof -
  obtain s1 where sc: "scan_info W n (co_name c) (table_info n (sl_tables s)) (sl_next s) = (Inr (co_name c \<in> set (column_names t)), s1)"
    using scan_info_free [OF assms(1)] assms(2) by (fastforce simp: table_info_def prod_eq_iff)
  have "sl_tables s1 = sl_tables s"
    using scan_info_tables(1) [of W n "co_name c" "table_info n (sl_tables s)" "sl_next s"] sc by simp
  then show ?thesis using sc assms by (simp add: addColumnIfMissing_def sq_exec_def add_column_def split: bool.split)
qed

lemma set_pragmas_free: "(\<And>k. w_fault W k = None) \<Longrightarrow> fst (set_pragmas W ps s) = None"
  by (induction W ps s rule: set_pragmas.induct) simp_all

lemma migrate_free:
  assumes "\<And>k. w_fault W k = None"
  shows "fst (migrate W s) = None"
proof -
  obtain s1 where e: "exec_schema W schema_statements s = (None, s1)" using exec_schema_free [OF assms] by (metis prod.collapse)
  have "sl_tables s1 ''agents'' \<noteq> None" "sl_tables s1 ''audit_log'' \<noteq> None"
    using exec_schema_None [OF e] by (auto simp: schema_statements_def split: option.split)
  then obtain ta tb where t: "sl_tables s1 ''agents'' = Some ta" "sl_tables s1 ''audit_log'' = Some tb" by auto
  obtain s2 where a: "addColumnIfMissing W ''agents'' (int_col ''revoked_at'' False) s1 = (None, s2)"
    using add_if_missing_free [OF assms t(1)] by (metis prod.collapse)
  obtain tc where "sl_tables s2 ''audit_log'' = Some tc"
    using add_if_missing_kept [of s1 W "''agents''" "int_col ''revoked_at'' False"] a t(2) by (auto simp: kept_def)
  from add_if_missing_free [OF assms this] show ?thesis by (simp add: migrate_def sq_then_def e sq_wrap_def a)
qed

lemma open_succeeds: "(\<And>k. w_fault W k = None) \<Longrightarrow> fst (Open W None path s) = None"
  using set_pragmas_free [of W pragmas s] migrate_free [of W]
  by (cases "set_pragmas W pragmas s") (simp add: Open_def sq_then_def sq_wrap_def)

text \<open>Opening a current database again changes no table.\<close>

lemma exec_schema_current:
  "(\<forall>(n, t) \<in> set stmts. sl_tables s n \<noteq> None) \<Longrightarrow> sl_tables (snd (exec_schema W stmts s)) = sl_tables s"
proof (induction W stmts s rule: exec_schema.induct)
  case (2 W name t stmts s)
  have c: "create_if_missing name t (sl_tables s) = Inr (sl_tables s)" using 2(2) by (auto simp: create_if_missing_def)
  show ?case
  proof (cases "w_fault W (sl_tick s)")
    case None
    then have "sq_exec W ''executing schema statement'' (create_if_missing name t) s = (None, sl_next (s\<lparr>sl_tables := sl_tables s\<rparr>))"
      by (simp add: sq_exec_def c)
    with 2 show ?thesis by (auto simp: sq_then_def)
  qed (simp add: sq_exec_def sq_then_def)
qed simp

lemma sq_then_tables:
  "sl_tables (snd r) = T \<Longrightarrow> (\<And>v. sl_tables v = T \<Longrightarrow> sl_tables (snd (k v)) = T) \<Longrightarrow> sl_tables (snd (sq_then r k)) = T"
  by (auto simp: sq_then_def split: prod.split option.split)

lemma migrate_same:
  assumes "current (sl_tables s)"
  shows "sl_tables (snd (migrate W s)) = sl_tables s"
proof -
  obtain ta tb where t: "sl_tables s ''agents'' = Some ta" "''revoked_at'' \<in> set (column_names ta)"
    "sl_tables s ''audit_log'' = Some tb" "''delegation_chain'' \<in> set (column_names tb)"
    using assms by (auto simp: current_def schema_statements_def required_def column_names_def createAgentsTable_def int_col_def)
  have "\<forall>(n, t) \<in> set schema_statements. sl_tables s n \<noteq> None" using assms by (auto simp: current_def)
  note e = exec_schema_current [OF this, of W]
  have a: "sl_tables (snd (addColumnIfMissing W ''agents'' (int_col ''revoked_at'' False) v)) = sl_tables s"
    "sl_tables (snd (addColumnIfMissing W ''audit_log'' (text_col ''delegation_chain'' False) v)) = sl_tables s"
    if "sl_tables v = sl_tables s" for v
    using add_if_missing_present [of v "''agents''" ta "int_col ''revoked_at'' False" W]
      add_if_missing_present [of v "''audit_log''" tb "text_col ''delegation_chain'' False" W] t that
    by (simp_all add: int_col_def text_col_def)
  show ?thesis unfolding migrate_def by (intro sq_then_tables) (simp_all add: e a)
qed

lemma reopen_same:
  assumes "current (sl_tables s)"
  shows "sl_tables (snd (Open W openErr path s)) = sl_tables s"
proof (cases openErr)
  case None
  have "sl_tables (snd (migrate W v)) = sl_tables s" if "sl_tables v = sl_tables s" for v
    using migrate_same [of v W] assms that by simp
  then show ?thesis unfolding Open_def None option.case by (intro sq_then_tables) simp_all
qed (simp add: Open_def)

section \<open>Properties\<close>

text \<open>A row from the values of some of its columns; the others are null.\<close>

definition sql_row :: "(string \<times> sql_value) list \<Rightarrow> string \<Rightarrow> sql_value" where
  "sql_row vs c = (case map_of vs c of None \<Rightarrow> Null | Some v \<Rightarrow> v)"

text \<open>A database from before \<open>revoked_at\<close>, with one agent in it.\<close>

definition legacy_agents :: sql_table where
  "legacy_agents = createAgentsTable\<lparr>ta_columns := butlast (ta_columns createAgentsTable),
     ta_rows := [sql_row [(''name'', SqlText ''pay''), (''revoked_at'', SqlInt 7)]]\<rparr>"

definition legacy_file :: sqlite where
  "legacy_file = \<lparr>sl_tables = [''agents'' \<mapsto> legacy_agents], sl_settings = (\<lambda>_. None), sl_tick = 0\<rparr>"

text \<open>C16: Opening a database loses nothing, whichever statement fails: every table is still there with its keys and
  all its columns, and every row keeps its values; columns that were added are null in it.\<close>

theorem open_keeps_data: "kept (sl_tables s) (sl_tables (snd (Open W openErr path s)))"
  by (rule open_kept)

text \<open>C17: A successful opening of a database that a released version left, or of an empty one, reaches the current
  schema with the connection's settings, and opening the result again, successfully or not, changes no
  table.\<close>

theorem open_reaches_schema:
  assumes "Open W openErr path s = (None, s')" "supported (sl_tables s)"
  shows "current (sl_tables s') \<and> list_all (\<lambda>(n, v). sl_settings s' n = Some v) pragmas
    \<and> sl_tables (snd (Open W' openErr' path' s')) = sl_tables s'"
proof -
  from assms(1) obtain s1 where p: "set_pragmas W pragmas s = (None, s1)" and m: "migrate W s1 = (None, s')"
    by (auto simp: Open_def sq_then_None sq_wrap_None split: option.splits)
  have "sl_tables s1 = sl_tables s" using set_pragmas_tables [of W pragmas s] p by simp
  with assms(2) migrate_current [OF m] have c: "current (sl_tables s')" by simp
  have "sl_settings s' = sl_settings s1" using m
    by (auto simp: migrate_def sq_then_None sq_wrap_None dest!: exec_schema_None add_if_missing_settings)
  with c reopen_same [OF c] set_pragmas_None [OF p] show ?thesis by (auto simp: list_all_iff pragmas_def)
qed

theorem open_reaches_schema_witness:
  "current (sl_tables (snd (Open sample_world None ''tb.db'' legacy_file)))"
proof -
  have o: "Open sample_world None ''tb.db'' legacy_file = (None, snd (Open sample_world None ''tb.db'' legacy_file))"
    using open_succeeds [of sample_world "''tb.db''" legacy_file] by (simp add: prod_eq_iff sample_world_def)
  have "supported (sl_tables legacy_file)"
    by (auto simp: supported_def schema_statements_def legacy_file_def legacy_agents_def added_later_def column_names_def
        createAgentsTable_def int_col_def text_col_def)
  from open_reaches_schema [OF o this] show ?thesis by blast
qed

end
