(* ===== verification/TB_Main.thy ===== *)
theory TB_Main
  imports TB_Cli
begin

text \<open>
  The root command (\<open>cmd/main.go\<close>): its persistent flags, the loading of the configuration before every
  command, and the exit status. The configuration library (viper) and the argument parser (cobra) are
  parameters: \<open>viper\<close> holds the calls the code makes on a configuration state, and \<open>viper_laws\<close> is what its
  documentation promises of them. The properties say which of flag, environment, project file, home
  file and default a command reads, and when loading fails.
\<close>

section \<open>The libraries\<close>

text \<open>A persistent flag as \<open>Lookup\<close> returns it.\<close>

record pflag =
  pf_value :: string
  pf_changed :: bool

type_synonym settings = "string \<Rightarrow> string option"

text \<open>What reading a configuration file may report; \<open>initConfig\<close> tells the first kind apart by its type.\<close>

datatype config_error = ConfigFileNotFoundError gerr | ConfigError gerr

primrec config_err :: "config_error \<Rightarrow> gerr" where
  "config_err (ConfigFileNotFoundError e) = e"
| "config_err (ConfigError e) = e"

record 'v viper =
  vi_New :: 'v
  vi_SetConfigFile :: "string \<Rightarrow> 'v \<Rightarrow> 'v"
  vi_AddConfigPath :: "string \<Rightarrow> 'v \<Rightarrow> 'v"
  vi_SetConfigName :: "string \<Rightarrow> 'v \<Rightarrow> 'v"
  vi_SetConfigType :: "string \<Rightarrow> 'v \<Rightarrow> 'v"
  vi_SetEnvPrefix :: "string \<Rightarrow> 'v \<Rightarrow> 'v"
  vi_AutomaticEnv :: "'v \<Rightarrow> 'v"
  vi_BindPFlag :: "string \<Rightarrow> pflag option \<Rightarrow> 'v \<Rightarrow> gerr option \<times> 'v"
  vi_ReadInConfig :: "'v \<Rightarrow> config_error option \<times> 'v"
  vi_AllSettings :: "'v \<Rightarrow> settings"
  vi_MergeConfigMap :: "settings \<Rightarrow> 'v \<Rightarrow> gerr option \<times> 'v"
  vi_GetString :: "string \<Rightarrow> 'v \<Rightarrow> string"

section \<open>The root command\<close>

text \<open>The persistent flags with their defaults; \<open>given\<close> is what the command line sets.\<close>

definition persistent_flags :: "(string \<times> string) list" where
  "persistent_flags = [(''config'', []), (''policy'', ''./truebearing.policy.yaml''), (''db'', [])]"

definition Lookup :: "settings \<Rightarrow> string \<Rightarrow> pflag option" where
  "Lookup given name = map_option
     (\<lambda>dflt. case given name of Some v \<Rightarrow> \<lparr>pf_value = v, pf_changed = True\<rparr> | None \<Rightarrow> \<lparr>pf_value = dflt, pf_changed = False\<rparr>)
     (map_of persistent_flags name)"

definition cfgFile :: "settings \<Rightarrow> string" where
  "cfgFile given = (case Lookup given ''config'' of Some f \<Rightarrow> pf_value f | None \<Rightarrow> [])"

text \<open>Where the configuration file is looked for.\<close>

definition config_source :: "'v viper \<Rightarrow> settings \<Rightarrow> gerr + string \<Rightarrow> 'v \<Rightarrow> gerr + 'v" where
  "config_source V given home v =
     (if cfgFile given \<noteq> [] then Inr (vi_SetConfigFile V (cfgFile given) v)
      else case home of
             Inl err \<Rightarrow> Inl (wrapf ''finding home directory'' err)
           | Inr h \<Rightarrow> Inr (vi_SetConfigType V ''yaml'' (vi_SetConfigName V ''config'' (vi_AddConfigPath V (path_join [h, ''.truebearing'']) v))))"

text \<open>The file of the working directory goes through an instance of its own; whatever is wrong with it, it is skipped.\<close>

definition merge_project :: "'v viper \<Rightarrow> 'v \<Rightarrow> gerr option \<times> 'v" where
  "merge_project V v =
     (case vi_ReadInConfig V (vi_AddConfigPath V ''.'' (vi_SetConfigType V ''yaml'' (vi_SetConfigName V ''.truebearing'' (vi_New V)))) of
        (Some _, _) \<Rightarrow> (None, v)
      | (None, perProject) \<Rightarrow>
          (case vi_MergeConfigMap V (vi_AllSettings V perProject) v of
             (Some err, v) \<Rightarrow> (Some (wrapf ''merging per-project config'' err), v)
           | (None, v) \<Rightarrow> (None, v)))"

definition initConfig :: "'v viper \<Rightarrow> settings \<Rightarrow> gerr + string \<Rightarrow> 'v \<Rightarrow> gerr option \<times> 'v" where
  "initConfig V given home v =
     (case config_source V given home v of
        Inl err \<Rightarrow> (Some err, v)
      | Inr v \<Rightarrow>
          (case vi_BindPFlag V ''policy'' (Lookup given ''policy'') (vi_AutomaticEnv V (vi_SetEnvPrefix V ''TRUEBEARING'' v)) of
             (Some err, v) \<Rightarrow> (Some (wrapf ''binding policy flag'' err), v)
           | (None, v) \<Rightarrow>
               (case vi_BindPFlag V ''db'' (Lookup given ''db'') v of
                  (Some err, v) \<Rightarrow> (Some (wrapf ''binding db flag'' err), v)
                | (None, v) \<Rightarrow>
                    (case vi_ReadInConfig V v of
                       (Some (ConfigError err), v) \<Rightarrow> (Some (wrapf ''reading config'' err), v)
                     | (_, v) \<Rightarrow> merge_project V v))))"

text \<open>\<open>main\<close>: what \<open>Execute\<close> returns becomes a line on standard error and the exit status. cobra runs
  \<open>PersistentPreRunE\<close> before the command, and stops at its error.\<close>

definition execute :: "'v viper \<Rightarrow> settings \<Rightarrow> gerr + string \<Rightarrow> ('v \<Rightarrow> outcome) \<Rightarrow> 'v \<Rightarrow> outcome" where
  "execute V given home run v =
     (case initConfig V given home v of (Some err, _) \<Rightarrow> failed err | (None, v) \<Rightarrow> run v)"

definition main :: "outcome \<Rightarrow> string \<times> nat" where
  "main r = (case o_error r of Some err \<Rightarrow> (line (''Error: '' @ err_text err), 1) | None \<Rightarrow> ([], 0))"

section \<open>What the configuration library promises\<close>

text \<open>The documented state of a configuration: the bound flags, the prefix under which the environment is consulted, where to look
  for the file, and the values of the files read so far.\<close>

record layers =
  ly_flags :: "string \<Rightarrow> pflag option"
  ly_prefix :: string
  ly_auto :: bool
  ly_file :: string
  ly_paths :: "string list"
  ly_name :: string
  ly_type :: string
  ly_config :: settings

definition fresh_layers :: layers where
  "fresh_layers = \<lparr>ly_flags = (\<lambda>_. None), ly_prefix = [], ly_auto = False, ly_file = [], ly_paths = [], ly_name = [],
     ly_type = [], ly_config = (\<lambda>_. None)\<rparr>"

text \<open>Precedence: a flag that was set, the environment, the files, the flag's default.\<close>

definition env_key :: "layers \<Rightarrow> string \<Rightarrow> string" where
  "env_key L k = map upper_char (if ly_prefix L = [] then k else ly_prefix L @ ''_'' @ k)"

definition layered :: "settings \<Rightarrow> layers \<Rightarrow> string \<Rightarrow> string" where
  "layered env L k =
     (case ly_flags L k of
        Some f \<Rightarrow> if pf_changed f then pf_value f
          else (case (if ly_auto L then env (env_key L k) else None) of
                  Some v \<Rightarrow> v
                | None \<Rightarrow> (case ly_config L k of Some v \<Rightarrow> v | None \<Rightarrow> pf_value f))
      | None \<Rightarrow>
          (case (if ly_auto L then env (env_key L k) else None) of
             Some v \<Rightarrow> v
           | None \<Rightarrow> (case ly_config L k of Some v \<Rightarrow> v | None \<Rightarrow> [])))"

text \<open>\<open>locate\<close> is the outcome of locating and reading the file for a state: by its explicit path, or by paths, name and type.
  \<open>view\<close> is the documented part of a state.\<close>

type_synonym finder = "string \<Rightarrow> string list \<Rightarrow> string \<Rightarrow> string \<Rightarrow> config_error + settings"

definition found :: "finder \<Rightarrow> layers \<Rightarrow> config_error + settings" where
  "found locate L = locate (ly_file L) (ly_paths L) (ly_name L) (ly_type L)"

definition viper_laws :: "'v viper \<Rightarrow> ('v \<Rightarrow> layers) \<Rightarrow> finder \<Rightarrow> settings \<Rightarrow> bool" where
  "viper_laws V view locate env \<longleftrightarrow>
     view (vi_New V) = fresh_layers
     \<and> (\<forall>p v. view (vi_SetConfigFile V p v) = (view v)\<lparr>ly_file := p\<rparr>)
     \<and> (\<forall>p v. view (vi_AddConfigPath V p v) = (view v)\<lparr>ly_paths := ly_paths (view v) @ [p]\<rparr>)
     \<and> (\<forall>n v. view (vi_SetConfigName V n v) = (view v)\<lparr>ly_name := n\<rparr>)
     \<and> (\<forall>t v. view (vi_SetConfigType V t v) = (view v)\<lparr>ly_type := t\<rparr>)
     \<and> (\<forall>p v. view (vi_SetEnvPrefix V p v) = (view v)\<lparr>ly_prefix := p\<rparr>)
     \<and> (\<forall>v. view (vi_AutomaticEnv V v) = (view v)\<lparr>ly_auto := True\<rparr>)
     \<and> (\<forall>k f v. fst (vi_BindPFlag V k (Some f) v) = None
          \<and> view (snd (vi_BindPFlag V k (Some f) v)) = (view v)\<lparr>ly_flags := (ly_flags (view v))(k \<mapsto> f)\<rparr>)
     \<and> (\<forall>v. case found locate (view v) of
              Inl e \<Rightarrow> fst (vi_ReadInConfig V v) = Some e \<and> view (snd (vi_ReadInConfig V v)) = view v
            | Inr m \<Rightarrow> fst (vi_ReadInConfig V v) = None \<and> view (snd (vi_ReadInConfig V v)) = (view v)\<lparr>ly_config := m\<rparr>)
     \<and> (\<forall>v. ly_flags (view v) = (\<lambda>_. None) \<and> \<not> ly_auto (view v) \<longrightarrow> vi_AllSettings V v = ly_config (view v))
     \<and> (\<forall>m v. fst (vi_MergeConfigMap V m v) = None
          \<and> view (snd (vi_MergeConfigMap V m v)) = (view v)\<lparr>ly_config := ly_config (view v) ++ m\<rparr>)
     \<and> (\<forall>k v. vi_GetString V k v = layered env (view v) k)"

section \<open>What loading amounts to\<close>

text \<open>The configuration file of a command line, and the file of the working directory.\<close>

definition home_file :: "finder \<Rightarrow> settings \<Rightarrow> gerr + string \<Rightarrow> config_error + settings" where
  "home_file locate given home =
     (if cfgFile given \<noteq> [] then locate (cfgFile given) [] [] []
      else case home of
             Inl err \<Rightarrow> Inl (ConfigError err)
           | Inr h \<Rightarrow> locate [] [path_join [h, ''.truebearing'']] ''config'' ''yaml'')"

definition project_file :: "finder \<Rightarrow> config_error + settings" where
  "project_file locate = locate [] [''.''] ''.truebearing'' ''yaml''"

definition file_value :: "config_error + settings \<Rightarrow> settings" where
  "file_value r = (case r of Inl _ \<Rightarrow> (\<lambda>_. None) | Inr m \<Rightarrow> m)"

definition load_error :: "finder \<Rightarrow> settings \<Rightarrow> gerr + string \<Rightarrow> gerr option" where
  "load_error locate given home =
     (case (cfgFile given = [], home) of
        (True, Inl err) \<Rightarrow> Some (wrapf ''finding home directory'' err)
      | _ \<Rightarrow> (case home_file locate given home of
               Inl (ConfigError err) \<Rightarrow> Some (wrapf ''reading config'' err)
             | _ \<Rightarrow> None))"

fun first_set :: "string option list \<Rightarrow> string \<Rightarrow> string" where
  "first_set [] dflt = dflt"
| "first_set (v # vs) dflt = (case v of Some s \<Rightarrow> s | None \<Rightarrow> first_set vs dflt)"

definition resolved :: "finder \<Rightarrow> settings \<Rightarrow> settings \<Rightarrow> gerr + string \<Rightarrow> string \<Rightarrow> string" where
  "resolved locate env given home k =
     first_set [given k, env (''TRUEBEARING_'' @ map upper_char k), file_value (project_file locate) k, file_value (home_file locate given home) k]
       (case map_of persistent_flags k of Some dflt \<Rightarrow> dflt | None \<Rightarrow> [])"

text \<open>The documented part of the state that loading ends in.\<close>

definition loaded :: "finder \<Rightarrow> settings \<Rightarrow> gerr + string \<Rightarrow> layers \<Rightarrow> bool" where
  "loaded locate given home L \<longleftrightarrow> ly_flags L = [''policy'' \<mapsto> the (Lookup given ''policy''), ''db'' \<mapsto> the (Lookup given ''db'')]
     \<and> ly_prefix L = ''TRUEBEARING'' \<and> ly_auto L
     \<and> ly_config L = file_value (home_file locate given home) ++ file_value (project_file locate)"

lemma Lookup_flags: "Lookup given ''policy'' = Some (the (Lookup given ''policy''))" "Lookup given ''db'' = Some (the (Lookup given ''db''))"
  by (simp_all add: Lookup_def persistent_flags_def)

lemma config_source_view:
  assumes "viper_laws V view locate env" "view v = fresh_layers" "config_source V given home v = Inr v1"
  shows "\<exists>f ps n t. view v1 = fresh_layers\<lparr>ly_file := f, ly_paths := ps, ly_name := n, ly_type := t\<rparr> \<and> locate f ps n t = home_file locate given home"
  using assms
  by (auto simp: config_source_def viper_laws_def home_file_def fresh_layers_def split: if_splits sum.splits)

lemma merge_project_view:
  assumes "viper_laws V view locate env" "merge_project V v = (r, v')"
  shows "r = None \<and> view v' = (view v)\<lparr>ly_config := ly_config (view v) ++ file_value (project_file locate)\<rparr>"
proof -
  let ?p = "vi_AddConfigPath V ''.'' (vi_SetConfigType V ''yaml'' (vi_SetConfigName V ''.truebearing'' (vi_New V)))"
  have p: "view ?p = fresh_layers\<lparr>ly_name := ''.truebearing'', ly_type := ''yaml'', ly_paths := [''.'']\<rparr>"
    using assms(1) by (simp add: viper_laws_def fresh_layers_def)
  have f: "found locate (view ?p) = project_file locate" by (simp add: found_def p project_file_def fresh_layers_def)
  have rd: "case found locate (view u) of
      Inl e \<Rightarrow> fst (vi_ReadInConfig V u) = Some e \<and> view (snd (vi_ReadInConfig V u)) = view u
    | Inr m \<Rightarrow> fst (vi_ReadInConfig V u) = None \<and> view (snd (vi_ReadInConfig V u)) = (view u)\<lparr>ly_config := m\<rparr>" for u
    using assms(1) by (simp only: viper_laws_def)
  have all: "vi_AllSettings V u = ly_config (view u)" if "ly_flags (view u) = (\<lambda>_. None)" "\<not> ly_auto (view u)" for u
    using assms(1) that by (simp only: viper_laws_def) blast
  have mg: "fst (vi_MergeConfigMap V m u) = None \<and> view (snd (vi_MergeConfigMap V m u)) = (view u)\<lparr>ly_config := ly_config (view u) ++ m\<rparr>" for m u
    using assms(1) by (simp only: viper_laws_def)
  obtain e q where rq: "vi_ReadInConfig V ?p = (e, q)" by fastforce
  show ?thesis
  proof (cases "project_file locate")
    case (Inl x)
    then have "e = Some x" using rd [of ?p] f rq by simp
    then show ?thesis using assms(2) Inl by (simp add: merge_project_def rq file_value_def)
  next
    case (Inr m)
    then have e: "e = None" and q: "view q = (view ?p)\<lparr>ly_config := m\<rparr>" using rd [of ?p] f rq by simp_all
    have "vi_AllSettings V q = m" using all [of q] q p by (simp add: fresh_layers_def)
    then show ?thesis using assms(2) Inr e mg [of m v]
      by (cases "vi_MergeConfigMap V m v") (auto simp: merge_project_def rq file_value_def)
  qed
qed

lemma config_source_error:
  "config_source V given home v = Inl err \<Longrightarrow> load_error locate given home = Some err"
  by (auto simp: config_source_def load_error_def split: if_splits sum.splits)

lemma config_source_found:
  "config_source V given home v = Inr v1 \<Longrightarrow>
   load_error locate given home = (case home_file locate given home of Inl (ConfigError err) \<Rightarrow> Some (wrapf ''reading config'' err) | _ \<Rightarrow> None)"
  by (auto simp: config_source_def load_error_def split: if_splits sum.splits)

lemma bound_view:
  assumes "viper_laws V view locate env"
  shows "\<exists>u. vi_BindPFlag V k (Some f) v = (None, u) \<and> view u = (view v)\<lparr>ly_flags := (ly_flags (view v))(k \<mapsto> f)\<rparr>"
proof -
  have "fst (vi_BindPFlag V k (Some f) v) = None
      \<and> view (snd (vi_BindPFlag V k (Some f) v)) = (view v)\<lparr>ly_flags := (ly_flags (view v))(k \<mapsto> f)\<rparr>"
    using assms by (simp only: viper_laws_def)
  then show ?thesis by (cases "vi_BindPFlag V k (Some f) v") simp
qed

lemma read_view:
  assumes "viper_laws V view locate env"
  shows "\<exists>u. vi_ReadInConfig V v = (case found locate (view v) of Inl e \<Rightarrow> Some e | Inr _ \<Rightarrow> None, u)
     \<and> view u = (case found locate (view v) of Inl e \<Rightarrow> view v | Inr m \<Rightarrow> (view v)\<lparr>ly_config := m\<rparr>)"
proof -
  have "case found locate (view v) of
      Inl e \<Rightarrow> fst (vi_ReadInConfig V v) = Some e \<and> view (snd (vi_ReadInConfig V v)) = view v
    | Inr m \<Rightarrow> fst (vi_ReadInConfig V v) = None \<and> view (snd (vi_ReadInConfig V v)) = (view v)\<lparr>ly_config := m\<rparr>"
    using assms by (simp only: viper_laws_def)
  then show ?thesis by (cases "vi_ReadInConfig V v") (auto split: sum.splits)
qed

lemma initConfig_result:
  assumes laws: "viper_laws V view locate env" and fresh: "view v = fresh_layers"
  shows "fst (initConfig V given home v) = load_error locate given home
    \<and> (load_error locate given home = None \<longrightarrow> loaded locate given home (view (snd (initConfig V given home v))))"
proof (cases "config_source V given home v")
  case (Inl err)
  then show ?thesis using config_source_error [OF Inl, of locate] by (simp add: initConfig_def)
next
  case (Inr v1)
  obtain f ps n t where v1: "view v1 = fresh_layers\<lparr>ly_file := f, ly_paths := ps, ly_name := n, ly_type := t\<rparr>"
    and h: "locate f ps n t = home_file locate given home" using config_source_view [OF laws fresh Inr] by blast
  let ?w = "vi_AutomaticEnv V (vi_SetEnvPrefix V ''TRUEBEARING'' v1)"
  have w: "view ?w = (view v1)\<lparr>ly_prefix := ''TRUEBEARING'', ly_auto := True\<rparr>" using laws by (simp add: viper_laws_def)
  obtain v2 where b1: "vi_BindPFlag V ''policy'' (Lookup given ''policy'') ?w = (None, v2)"
    and v2: "view v2 = (view ?w)\<lparr>ly_flags := (ly_flags (view ?w))(''policy'' \<mapsto> the (Lookup given ''policy''))\<rparr>"
    using bound_view [OF laws, of "''policy''" "the (Lookup given ''policy'')" ?w] Lookup_flags(1) [of given] by auto
  obtain v3 where b2: "vi_BindPFlag V ''db'' (Lookup given ''db'') v2 = (None, v3)"
    and v3: "view v3 = (view v2)\<lparr>ly_flags := (ly_flags (view v2))(''db'' \<mapsto> the (Lookup given ''db''))\<rparr>"
    using bound_view [OF laws, of "''db''" "the (Lookup given ''db'')" v2] Lookup_flags(2) [of given] by auto
  have f3: "found locate (view v3) = home_file locate given home" by (simp add: found_def v3 v2 w v1 h)
  obtain v4 where r: "vi_ReadInConfig V v3 = (case home_file locate given home of Inl e \<Rightarrow> Some e | Inr _ \<Rightarrow> None, v4)"
    and v4: "view v4 = (case home_file locate given home of Inl e \<Rightarrow> view v3 | Inr m \<Rightarrow> (view v3)\<lparr>ly_config := m\<rparr>)"
    using read_view [OF laws, of v3] f3 by auto
  have c4: "ly_config (view v4) = file_value (home_file locate given home)"
    by (simp add: v4 v3 v2 w v1 fresh_layers_def file_value_def split: sum.split)
  have run: "initConfig V given home v = (case home_file locate given home of
      Inl (ConfigError err) \<Rightarrow> (Some (wrapf ''reading config'' err), v4) | _ \<Rightarrow> merge_project V v4)"
    by (simp add: initConfig_def Inr b1 b2 r split: sum.split config_error.split)
  obtain x u where m: "merge_project V v4 = (x, u)" by fastforce
  note mv = merge_project_view [OF laws m]
  have l: "loaded locate given home (view u)"
    using mv c4 by (simp add: loaded_def v4 v3 v2 w v1 fresh_layers_def split: sum.split)
  show ?thesis using mv l by (simp add: run config_source_found [OF Inr] m split: sum.split config_error.split)
qed

lemma loaded_resolved:
  assumes "loaded locate given home L" "k \<in> {''policy'', ''db''}"
  shows "layered env L k = resolved locate env given home k"
proof -
  obtain d where d: "map_of persistent_flags k = Some d" using assms(2) by (auto simp: persistent_flags_def)
  have f: "ly_flags L k = Some (case given k of Some v \<Rightarrow> \<lparr>pf_value = v, pf_changed = True\<rparr> | None \<Rightarrow> \<lparr>pf_value = d, pf_changed = False\<rparr>)"
    using assms d by (auto simp: loaded_def Lookup_def)
  have e: "env_key L k = ''TRUEBEARING_'' @ map upper_char k" "ly_auto L"
    using assms(1) by (simp_all add: loaded_def env_key_def upper_char_def)
  have c: "ly_config L k = (case file_value (project_file locate) k of Some v \<Rightarrow> Some v | None \<Rightarrow> file_value (home_file locate given home) k)"
    using assms(1) by (simp add: loaded_def map_add_def)
  show ?thesis
    unfolding layered_def resolved_def f e d c option.case
    by (cases "given k"; cases "env (''TRUEBEARING_'' @ map upper_char k)"; cases "file_value (project_file locate) k";
        cases "file_value (home_file locate given home) k") (simp_all add: e(2))
qed

section \<open>Properties\<close>

text \<open>A configuration library with the promised behaviour, for the witnesses.\<close>

definition plain_viper :: "finder \<Rightarrow> settings \<Rightarrow> layers viper" where
  "plain_viper locate env =
     \<lparr>vi_New = fresh_layers,
      vi_SetConfigFile = (\<lambda>p v. v\<lparr>ly_file := p\<rparr>),
      vi_AddConfigPath = (\<lambda>p v. v\<lparr>ly_paths := ly_paths v @ [p]\<rparr>),
      vi_SetConfigName = (\<lambda>n v. v\<lparr>ly_name := n\<rparr>),
      vi_SetConfigType = (\<lambda>t v. v\<lparr>ly_type := t\<rparr>),
      vi_SetEnvPrefix = (\<lambda>p v. v\<lparr>ly_prefix := p\<rparr>),
      vi_AutomaticEnv = (\<lambda>v. v\<lparr>ly_auto := True\<rparr>),
      vi_BindPFlag = (\<lambda>k f v. case f of
          None \<Rightarrow> (Some (errorf ''flag is nil''), v)
        | Some f \<Rightarrow> (None, v\<lparr>ly_flags := (ly_flags v)(k \<mapsto> f)\<rparr>)),
      vi_ReadInConfig = (\<lambda>v. case found locate v of Inl e \<Rightarrow> (Some e, v) | Inr m \<Rightarrow> (None, v\<lparr>ly_config := m\<rparr>)),
      vi_AllSettings = ly_config,
      vi_MergeConfigMap = (\<lambda>m v. (None, v\<lparr>ly_config := ly_config v ++ m\<rparr>)),
      vi_GetString = (\<lambda>k v. layered env v k)\<rparr>"

lemma plain_viper_laws: "viper_laws (plain_viper locate env) id locate env"
  by (simp add: viper_laws_def plain_viper_def split: sum.split)

definition sample_finder :: finder where
  "sample_finder f ps n t =
     (if n = ''config'' then Inr [''policy'' \<mapsto> ''home.yaml'', ''db'' \<mapsto> ''home.db'']
      else if n = ''.truebearing'' then Inr [''policy'' \<mapsto> ''project.yaml'']
      else Inl (ConfigFileNotFoundError (errorf ''not found'')))"

text \<open>C31: After the configuration is loaded, a command reads the policy path and the database path from the first of: the command
  line flag, the environment variable TRUEBEARING_POLICY or TRUEBEARING_DB, the project's .truebearing.yaml, the file
  named by --config or found in the home directory, the flag's default.\<close>

theorem config_precedence:
  assumes "viper_laws V view locate env" "view v = fresh_layers" "initConfig V given home v = (None, v')"
    and "k \<in> {''policy'', ''db''}"
  shows "vi_GetString V k v' = resolved locate env given home k"
proof -
  have "loaded locate given home (view v')" using initConfig_result [OF assms(1,2), of given home] assms(3) by simp
  moreover have "vi_GetString V k v' = layered env (view v') k" using assms(1) by (simp only: viper_laws_def)
  ultimately show ?thesis using loaded_resolved assms(4) by metis
qed

theorem config_precedence_witness:
  "(\<exists>v. vi_GetString (plain_viper sample_finder (\<lambda>_. None)) ''policy'' v = ''project.yaml''
      \<and> vi_GetString (plain_viper sample_finder (\<lambda>_. None)) ''db'' v = ''home.db'')"
proof -
  let ?V = "plain_viper sample_finder (\<lambda>_. None)"
  have f: "id fresh_layers = fresh_layers" by simp
  have "load_error sample_finder (\<lambda>_. None) (Inr ''/home/me'') = None"
    by (simp add: load_error_def home_file_def sample_finder_def cfgFile_def Lookup_def persistent_flags_def)
  then obtain v where i: "initConfig ?V (\<lambda>_. None) (Inr ''/home/me'') fresh_layers = (None, v)"
    using initConfig_result [OF plain_viper_laws f] by (metis prod.collapse)
  have r: "resolved sample_finder (\<lambda>_. None) (\<lambda>_. None) (Inr ''/home/me'') ''policy'' = ''project.yaml''"
    "resolved sample_finder (\<lambda>_. None) (\<lambda>_. None) (Inr ''/home/me'') ''db'' = ''home.db''"
    by (simp_all add: resolved_def project_file_def home_file_def sample_finder_def file_value_def cfgFile_def Lookup_def persistent_flags_def)
  show ?thesis
    using config_precedence [OF plain_viper_laws f i, of "''policy''"] config_precedence [OF plain_viper_laws f i, of "''db''"] r by auto
qed

text \<open>C32: Loading the configuration fails exactly when the home directory is needed and unknown, or the main file is there but
  cannot be read; a missing main file and any fault of the project's file are passed over. A failure stops the command: it prints
  its error and ends with status 1, and the command's own work does not start.\<close>

theorem config_errors:
  assumes "viper_laws V view locate env" "view v = fresh_layers"
  shows "execute V given home run v =
      (case load_error locate given home of
         Some err \<Rightarrow> failed err
       | None \<Rightarrow> run (snd (initConfig V given home v)))
    \<and> (load_error locate given home = Some err \<longrightarrow>
         main (execute V given home run v) = (line (''Error: '' @ err_text err), 1))"
  using initConfig_result [OF assms, of given home]
  by (cases "initConfig V given home v") (auto simp: execute_def main_def failed_def split: option.split)

theorem config_errors_witness:
  "main (execute (plain_viper (\<lambda>f ps n t. Inl (ConfigError (errorf ''bad yaml''))) (\<lambda>_. None)) (\<lambda>_. None) (Inr ''/home/me'')
     (\<lambda>_. printed ''ran'') fresh_layers) = (line ''Error: reading config: bad yaml'', 1)"
proof -
  let ?find = "\<lambda>(f :: string) (ps :: string list) (n :: string) (t :: string). Inl (ConfigError (errorf ''bad yaml'')) :: config_error + settings"
  have l: "load_error ?find (\<lambda>_. None) (Inr ''/home/me'') = Some (wrapf ''reading config'' (errorf ''bad yaml''))"
    by (simp add: load_error_def home_file_def cfgFile_def Lookup_def persistent_flags_def)
  have f: "id fresh_layers = fresh_layers" by simp
  show ?thesis
    using config_errors [OF plain_viper_laws [of ?find "\<lambda>_. None"] f, where given = "\<lambda>_. None" and home = "Inr ''/home/me''"
        and run = "\<lambda>_. printed ''ran''" and err = "wrapf ''reading config'' (errorf ''bad yaml'')"] l
    by (simp add: wrapf_def errorf_def main_def failed_def)
qed

end
