(* ===== verification/Spec2Isabelle.thy ===== *)
theory Spec2Isabelle
  imports TB_ProxyRuns TB_LintFacts TB_Limits TB_Approvals TB_TraceReplay TB_AuditCmdFacts
    TB_AgentFacts TB_SessionFacts TB_ServeFacts TB_InitFacts TB_ConcurrentAudit TB_Serial TB_Schema TB_Main
begin

text \<open>
  TrueBearing: a proxy between an AI agent and an MCP server that decides on every tool call from the
  agent's policy and from what happened earlier in the session. All paths are below \<open>src/\<close>.

  \<^bold>\<open>How the program works.\<close> An HTTP request (\<open>internal/proxy\<close>) passes the authentication middleware (a JWT
  checked against the public key of a registered, unrevoked agent) and the session middleware. A body
  that is a JSON-RPC 2.0 \<open>tools/call\<close> is evaluated: the session row is loaded or created, the policy version
  the session is bound to is taken from a bounded cache, and a pipeline of nine stages
  (\<open>internal/engine\<close>) decides over the policy (\<open>internal/policy\<close>) and the history in a SQLite database
  (\<open>internal/store\<close>). The decision becomes an event of the session and a signed audit record
  (\<open>internal/audit\<close>); then the call is forwarded, refused, or held as an escalation
  (\<open>internal/escalation\<close>) that an operator approves or rejects. Everything else is forwarded as it
  is. The commands under \<open>cmd\<close> start the proxy, write and check policies, register agents, steer sessions
  and escalations, and read the audit log; the WASM build and the offline commands run the same engine.

  \<^bold>\<open>Which theory models what.\<close>
  \<^item> \<open>TB_Prelude\<close>, \<open>TB_Float\<close>, \<open>TB_Base64\<close>: strings as bytes, slices that may be nil, error values with the
    sentinels they wrap, \<open>%q\<close>, decimals, 64-bit wrap-around, float64, the two base64 codecs. The collections
    \<open>engine_simps\<close>, \<open>store_simps\<close> and \<open>contract_intros\<close> carry the proofs of the components.
  \<^item> \<open>TB_Policy\<close> (\<open>internal/policy\<close>: \<open>types.go\<close>, \<open>parser.go\<close>, \<open>fingerprint.go\<close>), \<open>TB_Lint\<close> (\<open>lint.go\<close>, L001 to L020,
    with the depth-first search of L013) and \<open>TB_LintFacts\<close>.
  \<^item> \<open>TB_Engine\<close> (\<open>types.go\<close>, \<open>backend.go\<close>, \<open>evaluator.go\<close>), \<open>TB_Evaluators\<close> (the stages Env, MayUse, Delegation,
    Budget, Taint, Sequence, Content, RateLimit, Escalation), \<open>TB_Stages\<close> (what each decides),
    \<open>TB_MemBackend\<close>, \<open>TB_Pipeline\<close> (\<open>pipeline.go\<close>), \<open>TB_Backends\<close> (\<open>storebackend.go\<close>). The locale \<open>query_backend\<close> is
    the interface the stages query: the history view, the approvals and the agents' tool sets a backend
    reports; \<open>total_backend\<close> adds that no query fails; \<open>evaluator\<close> is the contract of a stage (an allow carries
    nothing, a verdict names its rule). They are interpreted on the SQLite backend, the in-memory backend
    and all nine stages. The abstract policy \<open>permitted\<close> is their conjunction, free of databases and errors.
  \<^item> \<open>TB_Store\<close> (\<open>internal/store\<close>, \<open>internal/escalation\<close>: one function per operation over the five tables),
    \<open>TB_StoreFacts\<close>: every operation, failed or not, has one of a few table-level effects (\<open>effect\<close>), and the
    invariant \<open>wf_db\<close> and the append-only logs are proved once over effects. \<open>TB_FaultFree\<close>: results when nothing fails.
    \<open>TB_Schema\<close> (\<open>store.go\<close>, \<open>schema.go\<close>): opening and migrating a database over SQL tables with columns, keys and
    nulls.
  \<^item> \<open>TB_Cache\<close> (\<open>policy_cache.go\<close>: the linked list and map as a store of nodes, refined to a recency list through
    the locale \<open>version_cache\<close>), \<open>TB_Audit\<close> (\<open>internal/audit\<close>), \<open>TB_Identity\<close> (\<open>internal/identity\<close>, \<open>auth.go\<close>).
  \<^item> \<open>TB_Proxy\<close> (\<open>proxy.go\<close>, \<open>session.go\<close>, \<open>trace.go\<close>, \<open>traceheaders.go\<close>, \<open>pkg/mcpparse\<close>), \<open>TB_Admin\<close> (\<open>health.go\<close>, \<open>admin.go\<close>,
    the routes, and the step relation \<open>px_run\<close> of requests, admin calls, reloads and statements of other
    processes). \<open>serve\<close> is a whole request: from the state before to the state after and the reply.
  \<^item> \<open>TB_ProxyFacts\<close> (effects of every handler), \<open>TB_ProxyProps\<close> (one request), \<open>TB_ProxyRuns\<close> (reachable proxies),
    \<open>TB_Limits\<close> (budgets over a run), \<open>TB_Approvals\<close> (from an escalated call to its retry), \<open>TB_Frame\<close> (isolation).
  \<^item> \<open>TB_Governor\<close>: what a request does, without a database. The contract \<open>govern\<close> is a pure function of the session
    and the history of every session id; \<open>governor_of\<close> abstracts the tables, and every request commutes with it.
  \<^item> \<open>TB_Concurrent\<close>, \<open>TB_ConcurrentFacts\<close>, \<open>TB_ConcurrentProps\<close>, \<open>TB_ConcurrentAudit\<close>: requests side by side. A \<open>goroutine\<close> is a request
    stopped between two accesses to what requests share (a store operation, a lock, a pipeline stage),
    \<open>advance\<close> is one turn of it, and \<open>conc_run\<close> interleaves any number of them with reloads, admin calls and other
    processes. Alone, a goroutine computes \<open>serve\<close>. \<open>TB_Serial\<close>: the same goroutines against \<open>govern\<close>. The relation \<open>midway\<close>
    says how far a call in progress has moved its session's rows, and \<open>calm_run\<close> are the runs in which a session
    has one request in progress at a time.
  \<^item> \<open>TB_Main\<close> (\<open>cmd/main.go\<close>: where settings come from), \<open>TB_Serve\<close>, \<open>TB_ServeFacts\<close> (\<open>cmd/serve.go\<close>, \<open>stdio.go\<close>, \<open>otel.go\<close>): start-up and the stdio transport, which drives
    the same handler line by line.
  \<^item> \<open>TB_Wasm\<close> (\<open>cmd/wasm\<close>), \<open>TB_Offline\<close>, \<open>TB_OfflineFacts\<close> (\<open>cmd/simulate.go\<close>, \<open>cmd/audit/replay.go\<close>), \<open>TB_TraceReplay\<close>:
    a run of the proxy, the trace it captures (\<open>trace.go\<close>), and \<open>simulate\<close> on that trace.
  \<^item> \<open>TB_Cli\<close> (what commands share), \<open>TB_PolicyCmd\<close> (\<open>cmd/policy\<close>), \<open>TB_AuditCmd\<close>, \<open>TB_AuditCmdFacts\<close> (\<open>cmd/audit\<close>), \<open>TB_AgentCmd\<close>,
    \<open>TB_AgentFacts\<close> (\<open>cmd/agent\<close>, key files), \<open>TB_SessionCmd\<close>, \<open>TB_SessionFacts\<close> (\<open>cmd/session\<close>, \<open>cmd/escalation\<close>),
    \<open>TB_Init\<close>, \<open>TB_InitFacts\<close> (\<open>cmd/init.go\<close>, \<open>cmd/initpacks\<close>).

  \<^bold>\<open>Conventions.\<close> A Go struct is a record with the source's field names under a prefix, a fallible function
  returns \<open>gerr + 'a\<close>, and a nil slice or map is \<open>None\<close>. Libraries are fields of records that the definitions
  take: \<open>lib\<close> (YAML, gjson, regexp, SHA-256, JSON text), \<open>keylib\<close> and \<open>crypto\<close> (PEM, X.509, JWT, Ed25519), \<open>net\<close> (JSON
  decoding of requests, RFC 3339), \<open>cli\<close> and \<open>init_env\<close> (files, times, decoding of lines). What the
  properties need of them is named: \<open>key_pair\<close>, \<open>verifies_only\<close>, \<open>jwt_sound\<close>, \<open>jwt_complete\<close>, \<open>pem_roundtrip\<close>,
  \<open>texts_differ\<close>, \<open>record_codec\<close>, \<open>viper_laws\<close>. \<open>jwt_sound\<close> and
  \<open>jwt_complete\<close> speak of the JWT library alone (RFC 7515 tokens, \<open>compact\<close>); that the name the repository reads
  before it verifies is the signed one is proved (\<open>compact_claim\<close>, \<open>claim_compact\<close>). The sample libraries of the witnesses satisfy them.
  A database counts the statements it has run (\<open>db_tick\<close>), and the record \<open>world\<close> maps that count to the
  clock, to fresh identifiers and to an optional fault, so that any statement of any operation can fail. The
  properties hold for every world unless they ask for \<open>fault_free\<close>. Database invariants speak of committed rows.

  \<^bold>\<open>What the lemmas show.\<close> Mediation: a forwarded tool call was authenticated, in a live session, permitted
  by the bound policy version or shadowed, and recorded. Decisions: over the database, in WASM and offline
  the pipeline allows exactly what \<open>permitted\<close> says. Refinement: over a database without failures a request is one step of \<open>govern\<close>, so
  permitted calls are forwarded, and \<open>simulate\<close> on the captured trace reproduces the recorded decisions.
  Concurrency: mediation and strict auditing under every
  interleaving, the exact overrun of a budget that is checked without a lock, and serializability of the calls of
  clients that keep one request per session in progress. Invariants of every
  reachable proxy, what opening a database keeps and reaches, session isolation, finality of termination and revocation, single resolution of escalations. The audit
  trail: strict mode, tamper evidence, and export followed by verify. Operator tools: what \<open>lint\<close>, \<open>diff\<close>,
  \<open>init\<close>, \<open>agent register\<close> and \<open>serve\<close> guarantee. Where the code does less than it says, a lemma shows the concrete case.

  \<^bold>\<open>Bounds and fuel.\<close> The search of L013 runs on the fuel \<open>lint_fuel\<close>, the number of nodes of the \<open>only_after\<close> graph;
  it is enough, since each visit colours one more node (\<open>only_after_cycles_found\<close>). No other loop has fuel.
  Run alone, a request replies within 21 turns (\<open>goroutine_computes_serve\<close>).
  \<open>pipeline_ticks\<close> bounds the statements that the queries of one evaluation send; the statements after
  the evaluation see a later clock. Lines are bounded as
  \<open>bufio.Scanner\<close> bounds them: 64 KiB in the WASI loop, 1 MiB in the commands (\<open>maxLine\<close>), \<open>maxStdioLineBytes\<close> on stdio.
  Integers of 64 bits wrap (\<open>wrap64\<close>) where the code computes durations.

  \<^bold>\<open>Not modelled.\<close> The registration of subcommands and help texts (cobra); log lines; the reverse
  proxy, the listeners and the delivery of signals (a SIGHUP is the reload step of the runs; the program
  has no graceful shutdown); the parsing of SQL text (statements are functions on tables); delivery of webhooks and spans
  (what is posted or recorded is modelled); the SDKs in other languages; the test helper \<open>internal/store/testing.go\<close>.
  Within one turn of \<open>TB_Concurrent\<close> a store operation is atomic, as the single connection makes each
  transaction and statement; \<open>budget_race\<close> cuts further, at single statements. Waiting (for a lock, for the
  connection, for the upstream server) is not modelled: a turn is a step that does happen.
\<close>

end
